(* ===== verification/Prelude.thy ===== *)
theory Prelude
  imports Main
begin

text \<open>
  What every component of the gateway model shares.

  A Go function that reads and writes state and may return an error is a function
  \<open>'s \<Rightarrow> ('e + 'a) \<times> 's\<close>: \<open>Inl\<close> is the returned error, \<open>Inr\<close> the returned value, and the
  second component is the state afterwards, which an error path keeps.  The combinators
  below (\<open>ret\<close>, \<open>raise\<close>, \<open>bindE\<close>, \<open>attempt\<close>) are the
  \<^verbatim>\<open>if err != nil { return err }\<close> idiom and its variants.

  \<open>keeps\<close> and \<open>hoare\<close> are the two judgements the component theories use: that an
  operation preserves an invariant on every path, and that it meets a postcondition per path.
\<close>

named_theorems keeps_rules \<open>rules that preservation proofs apply backwards\<close>
named_theorems does_rules \<open>rules that compute the effect of an operation\<close>
named_theorems op_defs \<open>definitions of the modelled operations\<close>

section \<open>State with errors\<close>

type_synonym ('s, 'e, 'a) sm = "'s \<Rightarrow> ('e + 'a) \<times> 's"

definition ret :: "'a \<Rightarrow> ('s, 'e, 'a) sm" where
  "ret x = (\<lambda>s. (Inr x, s))"

definition raise :: "'e \<Rightarrow> ('s, 'e, 'a) sm" where
  "raise e = (\<lambda>s. (Inl e, s))"

definition bindE :: "('s, 'e, 'a) sm \<Rightarrow> ('a \<Rightarrow> ('s, 'e, 'b) sm) \<Rightarrow> ('s, 'e, 'b) sm" where
  "bindE m f = (\<lambda>s. case m s of (Inl e, s') \<Rightarrow> (Inl e, s') | (Inr a, s') \<Rightarrow> f a s')"

text \<open>\<open>attempt m h f\<close>: the caller inspects the error itself (\<open>h\<close>) or goes on (\<open>f\<close>).\<close>

definition attempt ::
  "('s, 'e, 'a) sm \<Rightarrow> ('e \<Rightarrow> ('s, 'd, 'b) sm) \<Rightarrow> ('a \<Rightarrow> ('s, 'd, 'b) sm) \<Rightarrow> ('s, 'd, 'b) sm" where
  "attempt m h f = (\<lambda>s. case m s of (Inl e, s') \<Rightarrow> h e s' | (Inr a, s') \<Rightarrow> f a s')"

definition gets :: "('s \<Rightarrow> 'a) \<Rightarrow> ('s, 'e, 'a) sm" where
  "gets f = (\<lambda>s. (Inr (f s), s))"

lemma ret_run [simp]: "ret x s = (Inr x, s)"
  by (simp add: ret_def)

lemma raise_run [simp]: "raise e s = (Inl e, s)"
  by (simp add: raise_def)

lemma gets_run [simp]: "gets f s = (Inr (f s), s)"
  by (simp add: gets_def)

lemma bindE_Inl [simp]: "m s = (Inl e, s') \<Longrightarrow> bindE m f s = (Inl e, s')"
  by (simp add: bindE_def)

lemma bindE_Inr [simp]: "m s = (Inr a, s') \<Longrightarrow> bindE m f s = f a s'"
  by (simp add: bindE_def)

lemma attempt_Inl [simp]: "m s = (Inl e, s') \<Longrightarrow> attempt m h f s = h e s'"
  by (simp add: attempt_def)

lemma attempt_Inr [simp]: "m s = (Inr a, s') \<Longrightarrow> attempt m h f s = f a s'"
  by (simp add: attempt_def)

lemma bindE_InrE:
  assumes "bindE m f s = (Inr b, t)"
  obtains a s' where "m s = (Inr a, s')" and "f a s' = (Inr b, t)"
  using assms by (auto simp: bindE_def split: prod.splits sum.splits)

lemma bindE_assoc: "bindE (bindE m f) g = bindE m (\<lambda>a. bindE (f a) g)"
  by (rule ext) (simp add: bindE_def split: prod.split sum.split)

lemma bindE_ret [simp]: "bindE m ret = m"
  by (rule ext) (simp add: bindE_def split: prod.split sum.split)

lemma ret_bindE [simp]: "bindE (ret x) f = f x"
  by (rule ext) (simp add: bindE_def)

lemma raise_bindE [simp]: "bindE (raise e) f = raise e"
  by (rule ext) (simp add: bindE_def raise_def)

lemma bindE_attempt: "bindE (attempt m h f) g = attempt m (\<lambda>e. bindE (h e) g) (\<lambda>a. bindE (f a) g)"
  by (rule ext) (simp add: bindE_def attempt_def split: prod.split sum.split)

lemma if_bindE: "bindE (if b then m else n) g = (if b then bindE m g else bindE n g)"
  by simp

section \<open>Preservation of an invariant\<close>

definition keeps :: "('s \<Rightarrow> bool) \<Rightarrow> ('s, 'e, 'a) sm \<Rightarrow> bool" where
  "keeps I m \<longleftrightarrow> (\<forall>s. I s \<longrightarrow> I (snd (m s)))"

lemma keepsI: "(\<And>s. I s \<Longrightarrow> I (snd (m s))) \<Longrightarrow> keeps I m"
  by (simp add: keeps_def)

lemma keepsD: "keeps I m \<Longrightarrow> I s \<Longrightarrow> I (snd (m s))"
  by (simp add: keeps_def)

lemma keeps_ret [keeps_rules]: "keeps I (ret x)"
  by (simp add: keeps_def)

lemma keeps_raise [keeps_rules]: "keeps I (raise e)"
  by (simp add: keeps_def)

lemma keeps_gets [keeps_rules]: "keeps I (gets f)"
  by (simp add: keeps_def)

lemma keeps_bindE [keeps_rules]:
  "keeps I m \<Longrightarrow> (\<And>a. keeps I (f a)) \<Longrightarrow> keeps I (bindE m f)"
  by (fastforce simp: keeps_def bindE_def split: prod.split sum.split)

lemma keeps_bindE_value:
  "keeps I m \<Longrightarrow> (\<And>s a t. m s = (Inr a, t) \<Longrightarrow> R a) \<Longrightarrow> (\<And>a. R a \<Longrightarrow> keeps I (f a)) \<Longrightarrow> keeps I (bindE m f)"
  by (fastforce simp: keeps_def bindE_def split: prod.split sum.split)

lemma keeps_attempt [keeps_rules]:
  "keeps I m \<Longrightarrow> (\<And>e. keeps I (h e)) \<Longrightarrow> (\<And>a. keeps I (f a)) \<Longrightarrow> keeps I (attempt m h f)"
  by (fastforce simp: keeps_def attempt_def split: prod.split sum.split)

lemma keeps_if [keeps_rules]:
  "(b \<Longrightarrow> keeps I m) \<Longrightarrow> (\<not> b \<Longrightarrow> keeps I n) \<Longrightarrow> keeps I (if b then m else n)"
  by simp

lemma keeps_option [keeps_rules]:
  "(x = None \<Longrightarrow> keeps I m) \<Longrightarrow> (\<And>a. x = Some a \<Longrightarrow> keeps I (f a)) \<Longrightarrow>
   keeps I (case x of None \<Rightarrow> m | Some a \<Rightarrow> f a)"
  by (cases x) auto

lemma keeps_sum [keeps_rules]:
  "(\<And>e. x = Inl e \<Longrightarrow> keeps I (h e)) \<Longrightarrow> (\<And>a. x = Inr a \<Longrightarrow> keeps I (f a)) \<Longrightarrow>
   keeps I (case x of Inl e \<Rightarrow> h e | Inr a \<Rightarrow> f a)"
  by (cases x) auto

lemma keeps_conj: "keeps I m \<Longrightarrow> keeps J m \<Longrightarrow> keeps (\<lambda>s. I s \<and> J s) m"
  by (simp add: keeps_def)

section \<open>Postconditions per path\<close>

definition hoare ::
  "('s \<Rightarrow> bool) \<Rightarrow> ('s, 'e, 'a) sm \<Rightarrow> ('a \<Rightarrow> 's \<Rightarrow> bool) \<Rightarrow> ('e \<Rightarrow> 's \<Rightarrow> bool) \<Rightarrow> bool" where
  "hoare P m Q E \<longleftrightarrow>
     (\<forall>s. P s \<longrightarrow> (case m s of (Inl e, s') \<Rightarrow> E e s' | (Inr a, s') \<Rightarrow> Q a s'))"

lemma hoareI:
  "(\<And>s e s'. P s \<Longrightarrow> m s = (Inl e, s') \<Longrightarrow> E e s') \<Longrightarrow>
   (\<And>s a s'. P s \<Longrightarrow> m s = (Inr a, s') \<Longrightarrow> Q a s') \<Longrightarrow> hoare P m Q E"
  by (auto simp: hoare_def split: prod.split sum.split)

lemma hoare_Inr: "hoare P m Q E \<Longrightarrow> P s \<Longrightarrow> m s = (Inr a, s') \<Longrightarrow> Q a s'"
  by (fastforce simp: hoare_def)

lemma hoare_Inl: "hoare P m Q E \<Longrightarrow> P s \<Longrightarrow> m s = (Inl e, s') \<Longrightarrow> E e s'"
  by (fastforce simp: hoare_def)

lemma hoare_snd: "hoare P m (\<lambda>_. Q) (\<lambda>_. Q) \<Longrightarrow> P s \<Longrightarrow> Q (snd (m s))"
  by (cases "m s"; cases "fst (m s)") (auto dest: hoare_Inl hoare_Inr)

lemma hoare_sndI: "(\<And>s. P s \<Longrightarrow> Q (snd (m s))) \<Longrightarrow> hoare P m (\<lambda>_. Q) (\<lambda>_. Q)"
  by (rule hoareI) (metis snd_conv)+

lemma hoare_bindE:
  "hoare P m R E \<Longrightarrow> (\<And>a. hoare (R a) (f a) Q E) \<Longrightarrow> hoare P (bindE m f) Q E"
  by (fastforce simp: hoare_def bindE_def split: prod.splits sum.splits)

lemma hoare_ret: "(\<And>s. P s \<Longrightarrow> Q x s) \<Longrightarrow> hoare P (ret x) Q E"
  by (simp add: hoare_def)

lemma hoare_raise: "(\<And>s. P s \<Longrightarrow> E e s) \<Longrightarrow> hoare P (raise e) Q E"
  by (simp add: hoare_def)

lemma hoare_attempt:
  "hoare P m R E \<Longrightarrow> (\<And>e. hoare (E e) (h e) Q F) \<Longrightarrow> (\<And>a. hoare (R a) (f a) Q F) \<Longrightarrow>
   hoare P (attempt m h f) Q F"
  by (fastforce simp: hoare_def attempt_def split: prod.splits sum.splits)

lemma hoare_if:
  "(b \<Longrightarrow> hoare P m Q E) \<Longrightarrow> (\<not> b \<Longrightarrow> hoare P n Q E) \<Longrightarrow> hoare P (if b then m else n) Q E"
  by simp

lemma hoare_conseq:
  "hoare P' m Q' E' \<Longrightarrow> (\<And>s. P s \<Longrightarrow> P' s) \<Longrightarrow> (\<And>a s. Q' a s \<Longrightarrow> Q a s) \<Longrightarrow>
   (\<And>e s. E' e s \<Longrightarrow> E e s) \<Longrightarrow> hoare P m Q E"
  by (fastforce simp: hoare_def split: prod.splits sum.splits)

lemma hoare_False [simp]: "hoare (\<lambda>_. False) m Q E"
  by (simp add: hoare_def)

lemma hoare_pre_pure: "(b \<Longrightarrow> hoare P m Q E) \<Longrightarrow> hoare (\<lambda>s. b \<and> P s) m Q E"
  by (auto simp: hoare_def)

lemma keeps_hoare: "keeps I m \<longleftrightarrow> hoare I m (\<lambda>_. I) (\<lambda>_. I)"
proof -
  have "I (snd (m s)) = (case m s of (Inl e, s') \<Rightarrow> I s' | (Inr a, s') \<Rightarrow> I s')" for s
    by (cases "m s"; cases "fst (m s)") auto
  then show ?thesis by (auto simp: keeps_def hoare_def)
qed

lemma hoare_also_keeps:
  "hoare P m Q E \<Longrightarrow> keeps I m \<Longrightarrow> (\<And>s. P s \<Longrightarrow> I s) \<Longrightarrow> hoare P m (\<lambda>a s. Q a s \<and> I s) (\<lambda>e s. E e s \<and> I s)"
  by (fastforce simp: hoare_def keeps_def split: prod.splits sum.splits)

section \<open>Lists as tables\<close>

text \<open>Rows found by a scan, rows kept by a delete and rows rewritten by an update.\<close>

lemma find_Some_iff_mem:
  "find P xs = Some x \<Longrightarrow> P x \<and> x \<in> set xs"
  by (induction xs) (auto split: if_splits)

lemma find_None_mem: "find P xs = None \<longleftrightarrow> (\<forall>x\<in>set xs. \<not> P x)"
  by (induction xs) auto

lemma find_unique_key:
  assumes "distinct (map f xs)" and "x \<in> set xs"
  shows "find (\<lambda>y. f y = f x) xs = Some x"
  using assms by (induction xs) (auto simp: rev_image_eqI)

lemma distinct_map_filter [intro]: "distinct (map f xs) \<Longrightarrow> distinct (map f (filter P xs))"
  by (rule distinct_map_filter)

lemma distinct_map_eqD:
  "distinct (map f xs) \<Longrightarrow> x \<in> set xs \<Longrightarrow> y \<in> set xs \<Longrightarrow> f x = f y \<Longrightarrow> x = y"
  by (auto simp: distinct_map inj_on_def)

lemma map_map_if_same:
  "(\<And>x. P x \<Longrightarrow> g (f x) = g x) \<Longrightarrow> map g (map (\<lambda>x. if P x then f x else x) xs) = map g xs"
  by simp

lemma length_filter_key_le_1:
  "distinct (map f xs) \<Longrightarrow> length (filter (\<lambda>x. f x = k) xs) \<le> 1"
  by (induction xs) (auto simp: filter_empty_conv image_iff)

text \<open>An UPDATE that selects by a unique key, and possibly a condition on the row it finds.\<close>

lemma filter_by_key:
  "distinct (map k xs) \<Longrightarrow> x \<in> set xs \<Longrightarrow>
   filter (\<lambda>d. k d = k x \<and> Q d) xs = (if Q x then [x] else [])"
proof (induction xs)
  case (Cons y ys)
  show ?case
  proof (cases "x = y")
    case True
    with Cons.prems have "\<forall>d\<in>set ys. k d \<noteq> k x" by (auto simp: image_iff)
    with True show ?thesis by (auto simp: filter_empty_conv)
  next
    case False
    with Cons.prems have "k y \<noteq> k x" and "x \<in> set ys" by (auto simp: image_iff)
    with Cons show ?thesis by simp
  qed
qed simp

lemma map_by_key:
  assumes "distinct (map k xs)" and "x \<in> set xs"
  shows "map (\<lambda>d. if k d = k x \<and> Q d then f d else d) xs
    = (if Q x then map (\<lambda>d. if d = x then f x else d) xs else xs)"
proof -
  have "d = x" if "d \<in> set xs" "k d = k x" for d
    using distinct_map_eqD [OF assms(1) that(1) assms(2) that(2)] .
  then have "(if k d = k x \<and> Q d then f d else d) = (if Q x then if d = x then f x else d else d)"
    if "d \<in> set xs" for d
    using that by (cases "k d = k x") auto
  then show ?thesis by (auto intro!: map_cong map_idI)
qed

lemma filter_single:
  assumes "distinct (map k xs)" and "x \<in> set xs" and "P x" and "\<And>y. y \<in> set xs \<Longrightarrow> P y \<Longrightarrow> y = x"
  shows "filter P xs = [x]"
proof -
  have "filter P xs = filter (\<lambda>d. k d = k x \<and> P d) xs" using assms(4) by (intro filter_cong) auto
  with assms(3) filter_by_key [OF assms(1,2), of P] show ?thesis by simp
qed

lemma filter_map_by_key:
  assumes "distinct (map k xs)" and "x \<in> set xs" and "\<And>y. g (f y) = g y"
  shows "filter (\<lambda>b. g b \<noteq> g x) (map (\<lambda>b. if k b = k x then f b else b) xs) = filter (\<lambda>b. g b \<noteq> g x) xs"
proof -
  have "g b = g x" if "b \<in> set xs" "k b = k x" for b
    using distinct_map_eqD [OF assms(1) that(1) assms(2) that(2)] by simp
  then have "filter (\<lambda>b. g b \<noteq> g x) (map (\<lambda>b. if k b = k x then f b else b) bs) = filter (\<lambda>b. g b \<noteq> g x) bs"
    if "set bs \<subseteq> set xs" for bs
    using that by (induction bs) (auto simp: assms(3))
  then show ?thesis by simp
qed

lemma in_set_sort_key [simp]: "x \<in> set (sort_key f xs) \<longleftrightarrow> x \<in> set xs"
  by simp

end
