(* ===== verification/Rate_Limit.thy ===== *)
theory Rate_Limit
  imports Prelude "HOL-Library.Char_ord"
begin

text \<open>
  The per-user rate limiter: \<^verbatim>\<open>src/internal/ratelimit/ratelimit.go\<close>.

  The token bucket is \<^verbatim>\<open>golang.org/x/time/rate\<close>: \<open>fresh\<close> is the bucket
  \<^verbatim>\<open>rate.NewLimiter(l.rps, l.burst)\<close> returns, and \<open>take_token now b\<close> is
  \<^verbatim>\<open>Limiter.Allow\<close> at that time.  \<open>per_second\<close> stands for the truncated
  \<^verbatim>\<open>1 / float64(l.rps)\<close>.  Every operation holds the mutex from its first to its last access to
  the map, so the operations of all goroutines are a sequence of the steps below.
\<close>

record 'b entry =
  e_limiter :: 'b
  e_lastSeen :: int

type_synonym 'b limiter = "string \<rightharpoonup> 'b entry"

definition New_limiter :: "'b limiter" where
  "New_limiter = Map.empty"

definition Allow :: "'b \<Rightarrow> (int \<Rightarrow> 'b \<Rightarrow> bool \<times> 'b) \<Rightarrow> int \<Rightarrow> string \<Rightarrow> 'b limiter \<Rightarrow> bool \<times> 'b limiter" where
  "Allow fresh take_token now key l =
     (let b = (case l key of None \<Rightarrow> fresh | Some e \<Rightarrow> e_limiter e);
          (allowed, b') = take_token now b
      in (allowed, l(key \<mapsto> \<lparr>e_limiter = b', e_lastSeen = now\<rparr>)))"

definition stale_after :: int where
  "stale_after = 10 * 60 * 1000000000"

text \<open>One round of the cleanup goroutine.\<close>

definition cleanup :: "int \<Rightarrow> 'b limiter \<Rightarrow> 'b limiter" where
  "cleanup now l = (\<lambda>key. case l key of
     None \<Rightarrow> None
   | Some e \<Rightarrow> if e_lastSeen e < now - stale_after then None else Some e)"

datatype limited = Passed | TooMany int

definition Middleware ::
  "'b \<Rightarrow> (int \<Rightarrow> 'b \<Rightarrow> bool \<times> 'b) \<Rightarrow> int \<Rightarrow> int \<Rightarrow> string \<Rightarrow> string \<Rightarrow> 'b limiter \<Rightarrow> limited \<times> 'b limiter" where
  "Middleware fresh take_token per_second now userid remoteAddr l =
     (let key = (if userid = [] then remoteAddr else userid);
          (allowed, l') = Allow fresh take_token now key l
      in (if allowed then Passed else TooMany (if per_second < 1 then 1 else per_second), l'))"

section \<open>Isolation\<close>

text \<open>What the limiter sees: requests of users and rounds of the cleanup, in the order of the mutex.\<close>

datatype event = Req string int | Sweep int

fun event_step :: "'b \<Rightarrow> (int \<Rightarrow> 'b \<Rightarrow> bool \<times> 'b) \<Rightarrow> event \<Rightarrow> 'b limiter \<Rightarrow> (string \<times> bool) list \<times> 'b limiter" where
  "event_step fresh take_token (Req key now) l =
     (let (allowed, l') = Allow fresh take_token now key l in ([(key, allowed)], l'))"
| "event_step fresh take_token (Sweep now) l = ([], cleanup now l)"

fun run_events :: "'b \<Rightarrow> (int \<Rightarrow> 'b \<Rightarrow> bool \<times> 'b) \<Rightarrow> event list \<Rightarrow> 'b limiter \<Rightarrow> (string \<times> bool) list" where
  "run_events fresh take_token [] l = []"
| "run_events fresh take_token (e # es) l =
     (let (out, l') = event_step fresh take_token e l in out @ run_events fresh take_token es l')"

fun concerns :: "string \<Rightarrow> event \<Rightarrow> bool" where
  "concerns key (Req k _) = (k = key)"
| "concerns key (Sweep _) = True"

lemma run_events_local:
  "l key = m key \<Longrightarrow>
   filter (\<lambda>p. fst p = key) (run_events fresh take_token es l)
     = run_events fresh take_token (filter (concerns key) es) m"
proof (induction es arbitrary: l m)
  case (Cons e es)
  show ?case
  proof (cases e)
    case (Req k now)
    show ?thesis
    proof (cases "k = key")
      case True
      have "fst (Allow fresh take_token now key l) = fst (Allow fresh take_token now key m)"
        and "snd (Allow fresh take_token now key l) key = snd (Allow fresh take_token now key m) key"
        using Cons.prems by (simp_all add: Allow_def Let_def split: prod.split)
      with Cons.IH [of "snd (Allow fresh take_token now key l)" "snd (Allow fresh take_token now key m)"] Req True
      show ?thesis by (auto simp: Let_def split: prod.split)
    next
      case False
      have "snd (Allow fresh take_token now k l) key = m key"
        using Cons.prems False by (simp add: Allow_def Let_def split: prod.split)
      with Cons.IH [of "snd (Allow fresh take_token now k l)" m] Req False
      show ?thesis by (auto simp: Let_def split: prod.split)
    qed
  next
    case (Sweep now)
    have "cleanup now l key = cleanup now m key" using Cons.prems by (simp add: cleanup_def)
    with Cons.IH Sweep show ?thesis by simp
  qed
qed simp

text \<open>Users do not spend each other's tokens.  In every interleaving of requests and cleanup
  rounds, the answers one user gets are the answers that user would get alone.\<close>

theorem limiter_isolation:
  "filter (\<lambda>p. fst p = key) (run_events fresh take_token es l)
     = run_events fresh take_token (filter (concerns key) es) l"
  by (rule run_events_local) simp

text \<open>The cleanup never forgives an active user.  A bucket survives every round that runs within
  ten minutes of the user's last request, with the tokens it had, and is gone after a round that runs
  later than that.\<close>

theorem cleanup_keeps_active:
  assumes "Allow fresh take_token now key l = (allowed, l')"
  shows "cleanup t l' key = (if t \<le> now + stale_after then l' key else None) \<and> l' key \<noteq> None"
  using assms by (auto simp: Allow_def Let_def cleanup_def split: prod.splits)

theorem cleanup_keeps_active_witness:
  "cleanup stale_after (snd (Allow (1::nat) (\<lambda>_ b. (0 < b, b - 1)) 0 ''u'' New_limiter)) ''u''
     = Some \<lparr>e_limiter = 0, e_lastSeen = 0\<rparr>"
proof -
  have r: "Allow (1::nat) (\<lambda>_ b. (0 < b, b - 1)) 0 ''u'' New_limiter
      = (True, [''u'' \<mapsto> \<lparr>e_limiter = 0, e_lastSeen = 0\<rparr>])"
    by (simp add: Allow_def New_limiter_def)
  show ?thesis
    unfolding r snd_conv using cleanup_keeps_active [OF r, of stale_after] by simp
qed

end
