(* ===== verification/Sql_Store.thy ===== *)
theory Sql_Store
  imports Go_Strings "HOL-Library.Char_ord" "HOL-Library.List_Lexorder"
    "HOL-Library.Product_Lexorder"
begin

text \<open>
  The SQLite database of \<^verbatim>\<open>src/internal/db\<close>: the rows of each table of
  \<^verbatim>\<open>schema.sql\<close> as a record, the database as a record of row lists, and the
  statements the Go code issues.

  The list of a table is the order the engine scans it in.  A table's unique indexes are a
  predicate on its rows that every INSERT and UPDATE checks.  Foreign keys are enforced only
  while \<open>fk_on\<close> holds: \<^verbatim>\<open>db.Open\<close> sets the pragma on one pooled connection, so a
  statement may run with or without it, and the theorems hold for both values unless they say
  which.  \<open>faults\<close> is a schedule of engine failures: every statement, BEGIN and COMMIT
  consumes one entry and fails with \<open>ErrEngine\<close> when it is \<open>True\<close>, so each
  \<^verbatim>\<open>if err != nil\<close> branch of the source is reachable in the model.  \<open>clock\<close> is
  what \<^verbatim>\<open>time.Now()\<close> and CURRENT_TIMESTAMP read.

  A wrapped error (\<^verbatim>\<open>fmt.Errorf("...: %w", err)\<close>) is the error it wraps: callers
  look at errors through \<^verbatim>\<open>errors.Is\<close> only.
\<close>

section \<open>Rows\<close>

record user =
  u_ID :: string
  u_Email :: string
  u_DisplayName :: string
  u_Role :: string
  u_PasswordHash :: string
  u_DefaultModel :: string
  u_CreatedAt :: int

record session =
  s_Token :: string
  s_UserID :: string
  s_CreatedAt :: int
  s_ExpiresAt :: int

record sshkey =
  k_ID :: string
  k_UserID :: string
  k_Fingerprint :: string
  k_PublicKey :: string
  k_Name :: string
  k_CreatedAt :: int

record calias =
  a_ID :: string
  a_ContainerID :: string
  a_Hostname :: string
  a_Verified :: bool
  a_VerifiedAt :: "int option"
  a_LastError :: string
  a_CreatedAt :: int

record container =
  c_ID :: string
  c_Name :: string
  c_OwnerID :: string
  c_IncusName :: string
  c_Status :: string
  c_IPAddress :: string
  c_CPULimit :: int
  c_MemoryMB :: int
  c_DiskGB :: int
  c_AppPort :: int
  c_AppPublic :: bool
  c_InitialTask :: string
  c_InitialTaskState :: string
  c_InitialTaskError :: string
  c_InitialTaskConversation :: string
  c_InitialTaskResumes :: int
  c_Nesting :: bool
  c_NestingApplied :: bool
  c_CreatedAt :: int
  c_UpdatedAt :: int
  c_SharedAccess :: bool
  c_Aliases :: "calias list"
  c_NestingAllowed :: bool

record apikey =
  ak_ID :: string
  ak_OwnerID :: string
  ak_Provider :: string
  ak_EncryptedKey :: string
  ak_BaseURL :: string
  ak_Models :: string
  ak_Protocol :: string
  ak_CreatedAt :: int

record sharedlink =
  l_ID :: string
  l_ContainerID :: string
  l_CreatedBy :: string
  l_Token :: string
  l_ExpiresAt :: "int option"
  l_CreatedAt :: int

section \<open>The database\<close>

record store =
  t_users :: "user list"
  t_sessions :: "session list"
  t_containers :: "container list"
  t_aliases :: "calias list"
  t_keys :: "apikey list"
  t_links :: "sharedlink list"
  t_settings :: "(string \<times> string) list"
  t_sshkeys :: "sshkey list"
  t_access :: "(string \<times> string) list"
  fk_on :: bool
  clock :: int
  faults :: "bool list"

datatype dberr =
    ErrNoRows
  | ErrUnique
  | ErrForeignKey
  | ErrEngine
  | ErrAccessDenied
  | ErrAliasHostnameTaken
  | ErrAliasAlreadyOnVM
  | ErrUnknownModel string
  | ErrRuntime string
  | ErrInput string
  | ErrPanic

type_synonym ('z, 'a) dbm = "('z store_scheme, dberr, 'a) sm"

type_synonym ('z, 'a) stmt = "'z store_scheme \<Rightarrow> dberr + ('a \<times> 'z store_scheme)"

text \<open>The unique indexes and primary keys of \<^verbatim>\<open>schema.sql\<close>, table by table.\<close>

definition uq_users :: "user list \<Rightarrow> bool" where
  "uq_users us \<longleftrightarrow> distinct (map u_ID us) \<and> distinct (map u_Email us)"

definition uq_sessions :: "session list \<Rightarrow> bool" where
  "uq_sessions ss \<longleftrightarrow> distinct (map s_Token ss)"

definition uq_containers :: "container list \<Rightarrow> bool" where
  "uq_containers cs \<longleftrightarrow> distinct (map c_ID cs) \<and> distinct (map c_IncusName cs)
     \<and> distinct (map (\<lambda>c. (c_OwnerID c, c_Name c)) cs)"

definition uq_aliases :: "calias list \<Rightarrow> bool" where
  "uq_aliases as \<longleftrightarrow> distinct (map a_ID as)
     \<and> distinct (map a_Hostname (filter a_Verified as))
     \<and> distinct (map (\<lambda>a. (a_ContainerID a, a_Hostname a)) as)"

definition uq_keys :: "apikey list \<Rightarrow> bool" where
  "uq_keys ks \<longleftrightarrow> distinct (map ak_ID ks)"

definition uq_links :: "sharedlink list \<Rightarrow> bool" where
  "uq_links ls \<longleftrightarrow> distinct (map l_ID ls) \<and> distinct (map l_Token ls)"

definition uq_settings :: "(string \<times> string) list \<Rightarrow> bool" where
  "uq_settings ss \<longleftrightarrow> distinct (map fst ss)"

definition uq_sshkeys :: "sshkey list \<Rightarrow> bool" where
  "uq_sshkeys ks \<longleftrightarrow> distinct (map k_ID ks) \<and> distinct (map k_Fingerprint ks)"

definition uq_access :: "(string \<times> string) list \<Rightarrow> bool" where
  "uq_access ps \<longleftrightarrow> distinct ps"

definition user_exists :: "'z store_scheme \<Rightarrow> string \<Rightarrow> bool" where
  "user_exists s uid \<longleftrightarrow> uid \<in> u_ID ` set (t_users s)"

definition container_exists :: "'z store_scheme \<Rightarrow> string \<Rightarrow> bool" where
  "container_exists s cid \<longleftrightarrow> cid \<in> c_ID ` set (t_containers s)"

section \<open>Statements\<close>

definition exec :: "('z, 'a) stmt \<Rightarrow> ('z, 'a) dbm" where
  "exec f s =
     (case faults s of
        True # fs \<Rightarrow> (Inl ErrEngine, s\<lparr>faults := fs\<rparr>)
      | _ \<Rightarrow> (let s0 = s\<lparr>faults := tl (faults s)\<rparr> in
              case f s0 of Inl e \<Rightarrow> (Inl e, s0) | Inr (a, s1) \<Rightarrow> (Inr a, s1)))"

definition sql_nop :: "('z, unit) stmt" where
  "sql_nop s = Inr ((), s)"

text \<open>SELECT of one row (\<^verbatim>\<open>QueryRow(...).Scan\<close>): the first match of the scan.\<close>

definition sql_row :: "('z store_scheme \<Rightarrow> 'r list) \<Rightarrow> ('r \<Rightarrow> bool) \<Rightarrow> ('z, 'r) stmt" where
  "sql_row get P s = (case find P (get s) of None \<Rightarrow> Inl ErrNoRows | Some r \<Rightarrow> Inr (r, s))"

definition sql_rows :: "('z store_scheme \<Rightarrow> 'r list) \<Rightarrow> ('r \<Rightarrow> bool) \<Rightarrow> ('z, 'r list) stmt" where
  "sql_rows get P s = Inr (filter P (get s), s)"

text \<open>A SELECT whose one row always exists: EXISTS(...), COUNT( * ).\<close>

definition sql_value :: "('z store_scheme \<Rightarrow> 'a) \<Rightarrow> ('z, 'a) stmt" where
  "sql_value f s = Inr (f s, s)"

text \<open>Any other SELECT: a function of the tables that may find no row.\<close>

definition sql_query :: "('z store_scheme \<Rightarrow> dberr + 'a) \<Rightarrow> ('z, 'a) stmt" where
  "sql_query f s = (case f s of Inl e \<Rightarrow> Inl e | Inr a \<Rightarrow> Inr (a, s))"

definition sql_insert ::
  "('z store_scheme \<Rightarrow> 'r list) \<Rightarrow> (('r list \<Rightarrow> 'r list) \<Rightarrow> 'z store_scheme \<Rightarrow> 'z store_scheme) \<Rightarrow>
   ('r list \<Rightarrow> bool) \<Rightarrow> ('z store_scheme \<Rightarrow> 'r \<Rightarrow> bool) \<Rightarrow> 'r \<Rightarrow> ('z, unit) stmt" where
  "sql_insert get upd uq fk r s =
     (if \<not> uq (get s @ [r]) then Inl ErrUnique
      else if fk_on s \<and> \<not> fk s r then Inl ErrForeignKey
      else Inr ((), upd (\<lambda>rs. rs @ [r]) s))"

text \<open>UPDATE; the value is the number of rows affected.  No UPDATE of the code writes a
  referencing column, so no foreign key is involved.\<close>

definition sql_update ::
  "('z store_scheme \<Rightarrow> 'r list) \<Rightarrow> (('r list \<Rightarrow> 'r list) \<Rightarrow> 'z store_scheme \<Rightarrow> 'z store_scheme) \<Rightarrow>
   ('r list \<Rightarrow> bool) \<Rightarrow> ('r \<Rightarrow> bool) \<Rightarrow> ('r \<Rightarrow> 'r) \<Rightarrow> ('z, nat) stmt" where
  "sql_update get upd uq P f s =
     (let rs = map (\<lambda>r. if P r then f r else r) (get s) in
      if \<not> uq rs then Inl ErrUnique
      else Inr (length (filter P (get s)), upd (\<lambda>_. rs) s))"

text \<open>DELETE from a table no other table references.\<close>

definition sql_delete ::
  "('z store_scheme \<Rightarrow> 'r list) \<Rightarrow> (('r list \<Rightarrow> 'r list) \<Rightarrow> 'z store_scheme \<Rightarrow> 'z store_scheme) \<Rightarrow>
   ('r \<Rightarrow> bool) \<Rightarrow> ('z, nat) stmt" where
  "sql_delete get upd P s = Inr (length (filter P (get s)), upd (filter (\<lambda>r. \<not> P r)) s)"

text \<open>DELETE FROM containers.  With foreign keys on, \<^verbatim>\<open>container_aliases\<close> and
  \<^verbatim>\<open>container_access\<close> cascade and a row of \<^verbatim>\<open>shared_links\<close>, which has no
  ON DELETE clause, makes the statement fail.\<close>

definition sql_delete_containers :: "(container \<Rightarrow> bool) \<Rightarrow> ('z, nat) stmt" where
  "sql_delete_containers P s =
     (let gone = map c_ID (filter P (t_containers s));
          s1 = t_containers_update (filter (\<lambda>c. \<not> P c)) s in
      if \<not> fk_on s then Inr (length gone, s1)
      else if list_ex (\<lambda>l. l_ContainerID l \<in> set gone) (t_links s) then Inl ErrForeignKey
      else Inr (length gone,
        t_aliases_update (filter (\<lambda>a. a_ContainerID a \<notin> set gone))
          (t_access_update (filter (\<lambda>p. fst p \<notin> set gone)) s1)))"

text \<open>DELETE FROM users, over the tables of the store.  \<^verbatim>\<open>sessions\<close> and
  \<^verbatim>\<open>container_access\<close> cascade; containers, API keys, shared links and SSH keys restrict.
  \<^verbatim>\<open>user_integrations\<close>, which cascades as well, is a table of the hub (\<open>Integrations\<close>), where no statement of
  the store reaches; \<open>on_gateway\<close> of \<open>Ssh_Account\<close> applies its cascade (\<open>cascade_connections\<close>) to whatever runs on the
  store.\<close>

definition sql_delete_users :: "(user \<Rightarrow> bool) \<Rightarrow> ('z, nat) stmt" where
  "sql_delete_users P s =
     (let gone = map u_ID (filter P (t_users s));
          s1 = t_users_update (filter (\<lambda>u. \<not> P u)) s in
      if \<not> fk_on s then Inr (length gone, s1)
      else if list_ex (\<lambda>c. c_OwnerID c \<in> set gone) (t_containers s)
           \<or> list_ex (\<lambda>k. ak_OwnerID k \<in> set gone) (t_keys s)
           \<or> list_ex (\<lambda>l. l_CreatedBy l \<in> set gone) (t_links s)
           \<or> list_ex (\<lambda>k. k_UserID k \<in> set gone) (t_sshkeys s) then Inl ErrForeignKey
      else Inr (length gone,
        t_sessions_update (filter (\<lambda>x. s_UserID x \<notin> set gone))
          (t_access_update (filter (\<lambda>p. snd p \<notin> set gone)) s1)))"

text \<open>Statements whose result the caller ignores, and those that read the clock.\<close>

definition void :: "('s, 'e, 'a) sm \<Rightarrow> ('s, 'e, unit) sm" where
  "void m = bindE m (\<lambda>_. ret ())"

definition with_now :: "(int \<Rightarrow> ('z, 'a) dbm) \<Rightarrow> ('z, 'a) dbm" where
  "with_now f = bindE (gets clock) f"

text \<open>A transaction (\<^verbatim>\<open>Begin\<close>, the body, \<^verbatim>\<open>Commit\<close>, and the deferred
  \<^verbatim>\<open>Rollback\<close> on every other way out).\<close>

definition in_tx :: "('z, 'a) dbm \<Rightarrow> ('z, 'a) dbm" where
  "in_tx body s =
     (case exec sql_nop s of
        (Inl e, s1) \<Rightarrow> (Inl e, s1)
      | (Inr _, s1) \<Rightarrow>
          (case body s1 of
             (Inl e, s2) \<Rightarrow> (Inl e, s1\<lparr>faults := faults s2\<rparr>)
           | (Inr a, s2) \<Rightarrow>
               (case exec sql_nop s2 of
                  (Inl e, s3) \<Rightarrow> (Inl e, s1\<lparr>faults := faults s3\<rparr>)
                | (Inr _, s3) \<Rightarrow> (Inr a, s3))))"

text \<open>\<open>same_data\<close>: two databases that differ in the fault schedule only.\<close>

definition same_data :: "'z store_scheme \<Rightarrow> 'z store_scheme \<Rightarrow> bool" where
  "same_data s s' \<longleftrightarrow> s' = s\<lparr>faults := faults s'\<rparr>"

text \<open>A small concrete database, for the instances at the end of each theory.\<close>

definition demo_store :: store where
  "demo_store = \<lparr>t_users = [], t_sessions = [], t_containers = [], t_aliases = [], t_keys = [], t_links = [],
     t_settings = [], t_sshkeys = [], t_access = [], fk_on = True, clock = 0, faults = []\<rparr>"

definition demo_user :: "string \<Rightarrow> string \<Rightarrow> user" where
  "demo_user uid role = \<lparr>u_ID = uid, u_Email = uid @ ''@example.org'', u_DisplayName = uid, u_Role = role,
     u_PasswordHash = [], u_DefaultModel = [], u_CreatedAt = 0\<rparr>"

definition demo_sshkey :: "string \<Rightarrow> string \<Rightarrow> sshkey" where
  "demo_sshkey kid uid = \<lparr>k_ID = kid, k_UserID = uid, k_Fingerprint = ''SHA256:'' @ kid,
     k_PublicKey = ''ssh-ed25519 '' @ kid, k_Name = kid, k_CreatedAt = 0\<rparr>"

definition demo_vm :: "string \<Rightarrow> string \<Rightarrow> string \<Rightarrow> container" where
  "demo_vm cid name owner = \<lparr>c_ID = cid, c_Name = name, c_OwnerID = owner, c_IncusName = ''vm-'' @ cid,
     c_Status = ''running'', c_IPAddress = ''10.0.0.2'', c_CPULimit = 2, c_MemoryMB = 2048, c_DiskGB = 10,
     c_AppPort = 3000, c_AppPublic = False, c_InitialTask = [], c_InitialTaskState = [],
     c_InitialTaskError = [], c_InitialTaskConversation = [], c_InitialTaskResumes = 0,
     c_Nesting = True, c_NestingApplied = True, c_CreatedAt = 0, c_UpdatedAt = 0,
     c_SharedAccess = False, c_Aliases = [], c_NestingAllowed = False\<rparr>"

definition demo_alias :: "string \<Rightarrow> string \<Rightarrow> string \<Rightarrow> bool \<Rightarrow> calias" where
  "demo_alias aid cid host v = \<lparr>a_ID = aid, a_ContainerID = cid, a_Hostname = host, a_Verified = v,
     a_VerifiedAt = (if v then Some 0 else None), a_LastError = [], a_CreatedAt = 0\<rparr>"

section \<open>Facts about statements\<close>

lemma exec_no_fault:
  "faults s = [] \<Longrightarrow> exec f s = (case f s of Inl e \<Rightarrow> (Inl e, s) | Inr (a, s1) \<Rightarrow> (Inr a, s1))"
proof -
  assume nf: "faults s = []"
  then have "s\<lparr>faults := tl (faults s)\<rparr> = s" by (cases s) simp
  with nf show ?thesis unfolding exec_def Let_def by (metis list.simps(4))
qed

lemma exec_InrE:
  assumes "exec f s = (Inr a, t)"
  obtains s0 where "s0 = s\<lparr>faults := tl (faults s)\<rparr>" and "f s0 = Inr (a, t)"
  using assms by (auto simp: exec_def Let_def split: list.splits bool.splits sum.splits prod.splits)

lemma exec_Inl:
  assumes "exec f s = (Inl e, t)"
  shows "t = s\<lparr>faults := tl (faults s)\<rparr>"
  using assms by (auto simp: exec_def Let_def split: list.splits bool.splits sum.splits prod.splits)

lemma same_data_refl [simp]: "same_data s s"
  by (simp add: same_data_def)

lemma same_data_faults [simp]: "same_data s (s\<lparr>faults := fs\<rparr>)"
  by (simp add: same_data_def)

lemma same_data_trans [trans]: "same_data s t \<Longrightarrow> same_data t u \<Longrightarrow> same_data s u"
  unfolding same_data_def by (cases s; cases t; cases u) simp

lemma same_data_fields:
  "same_data s t \<Longrightarrow> t_users t = t_users s \<and> t_sessions t = t_sessions s
     \<and> t_containers t = t_containers s \<and> t_aliases t = t_aliases s \<and> t_keys t = t_keys s
     \<and> t_links t = t_links s \<and> t_settings t = t_settings s \<and> t_sshkeys t = t_sshkeys s
     \<and> t_access t = t_access s \<and> fk_on t = fk_on s \<and> clock t = clock s \<and> store.more t = store.more s"
  by (cases s; cases t) (simp add: same_data_def)

lemma same_dataI:
  "t_users t = t_users s \<Longrightarrow> t_sessions t = t_sessions s
     \<Longrightarrow> t_containers t = t_containers s \<Longrightarrow> t_aliases t = t_aliases s \<Longrightarrow> t_keys t = t_keys s
     \<Longrightarrow> t_links t = t_links s \<Longrightarrow> t_settings t = t_settings s \<Longrightarrow> t_sshkeys t = t_sshkeys s
     \<Longrightarrow> t_access t = t_access s \<Longrightarrow> fk_on t = fk_on s \<Longrightarrow> clock t = clock s
     \<Longrightarrow> store.more t = store.more s \<Longrightarrow> same_data s t"
  by (cases s; cases t) (simp add: same_data_def)

lemma same_dataE:
  assumes "same_data s t"
  obtains fs where "t = s\<lparr>faults := fs\<rparr>"
  using assms by (auto simp: same_data_def)

lemma same_data_right_faults [simp]: "same_data s (t\<lparr>faults := fs\<rparr>) = same_data s t"
  by (cases s; cases t) (simp add: same_data_def)

lemma same_data_left_faults [simp]: "same_data (s\<lparr>faults := fs\<rparr>) t = same_data s t"
  by (cases s; cases t) (simp add: same_data_def)

lemma exec_error_same: "exec f s = (Inl e, t) \<Longrightarrow> same_data s t"
  by (auto dest!: exec_Inl)

text \<open>A query leaves the data alone on every path.\<close>

lemma exec_query_same:
  assumes "\<And>t a t'. f t = Inr (a, t') \<Longrightarrow> t' = t"
  shows "same_data s (snd (exec f s))"
proof (cases "exec f s")
  case (Pair r t)
  then show ?thesis
  proof (cases r)
    case (Inl e)
    with Pair show ?thesis using exec_error_same by fastforce
  next
    case (Inr a)
    with Pair have "exec f s = (Inr a, t)" by simp
    then obtain s0 where "s0 = s\<lparr>faults := tl (faults s)\<rparr>" and "f s0 = Inr (a, t)"
      by (rule exec_InrE)
    with assms have "t = s\<lparr>faults := tl (faults s)\<rparr>" by blast
    with Pair show ?thesis by simp
  qed
qed

lemma nop_same: "same_data s (snd (exec sql_nop s))"
  by (rule exec_query_same) (simp add: sql_nop_def)

text \<open>Transactions are atomic: an error leaves every table as it was.\<close>

lemma in_tx_error_same: "in_tx m s = (Inl e, t) \<Longrightarrow> same_data s t"
proof -
  assume tx: "in_tx m s = (Inl e, t)"
  show ?thesis
    using tx nop_same [of s]
    by (auto simp: in_tx_def split: prod.splits sum.splits intro: same_data_trans)
qed

lemma in_tx_InrE:
  assumes "in_tx m s = (Inr a, t)"
  obtains s1 s2 where "same_data s s1" and "m s1 = (Inr a, s2)" and "same_data s2 t"
proof -
  from assms obtain s1 s2 u where b: "exec sql_nop s = (Inr u, s1)"
    and m: "m s1 = (Inr a, s2)" and c: "snd (exec sql_nop s2) = t"
    by (auto simp: in_tx_def split: prod.splits sum.splits)
  from nop_same [of s] b nop_same [of s2] c m show thesis
    by (intro that [of s1 s2]) auto
qed

lemma in_tx_commit:
  assumes "faults s = []" and "fst (m s) = Inr a" and "faults (snd (m s)) = []"
  shows "in_tx m s = m s"
  using assms by (cases "m s") (simp add: in_tx_def exec_no_fault sql_nop_def)

lemma in_tx_rollback:
  assumes "faults s = []" and "fst (m s) = Inl e" and "faults (snd (m s)) = []"
  shows "in_tx m s = (Inl e, s)"
proof -
  have "s\<lparr>faults := []\<rparr> = s" using assms(1) by (cases s) simp
  with assms show ?thesis by (cases "m s") (simp add: in_tx_def exec_no_fault sql_nop_def)
qed

lemma with_now_run [simp]: "with_now f s = f (clock s) s"
  by (simp add: with_now_def)

lemma void_Inr: "void m s = (Inr u, t) \<longleftrightarrow> (\<exists>a. m s = (Inr a, t))"
  by (auto simp: void_def bindE_def split: prod.splits sum.splits)

lemma void_Inl: "void m s = (Inl e, t) \<longleftrightarrow> m s = (Inl e, t)"
  by (auto simp: void_def bindE_def split: prod.splits sum.splits)

lemma keeps_void [keeps_rules]: "keeps I m \<Longrightarrow> keeps I (void m)"
  unfolding void_def by (intro keeps_rules)

lemma keeps_with_now [keeps_rules]: "(\<And>n. keeps I (f n)) \<Longrightarrow> keeps I (with_now f)"
  unfolding with_now_def by (intro keeps_rules)

lemmas run_defs = exec_no_fault void_def bindE_def attempt_def
  sql_row_def sql_rows_def sql_value_def sql_query_def sql_insert_def sql_update_def sql_delete_def

section \<open>Effects\<close>

text \<open>\<open>does m g\<close>: whenever \<open>m\<close> succeeds, what it did to the data is the pure function \<open>g\<close>.
  This is how an operation is shown to refine its specification.\<close>

definition blind :: "('z store_scheme \<Rightarrow> 'z store_scheme) \<Rightarrow> bool" where
  "blind g \<longleftrightarrow> (\<forall>s fs. g (s\<lparr>faults := fs\<rparr>) = (g s)\<lparr>faults := fs\<rparr>)"

definition does :: "('z, 'a) dbm \<Rightarrow> ('z store_scheme \<Rightarrow> 'z store_scheme) \<Rightarrow> bool" where
  "does m g \<longleftrightarrow> blind g \<and> (\<forall>s a t. m s = (Inr a, t) \<longrightarrow> same_data (g s) t)"

lemma doesD: "does m g \<Longrightarrow> m s = (Inr a, t) \<Longrightarrow> same_data (g s) t"
  by (simp add: does_def)

lemmas does_fields = doesD [THEN same_data_fields]

lemma blind_same: "blind g \<Longrightarrow> same_data s t \<Longrightarrow> same_data (g s) (g t)"
  by (auto simp: blind_def elim: same_dataE)

lemma blind_comp: "blind g \<Longrightarrow> blind h \<Longrightarrow> blind (\<lambda>s. h (g s))"
  by (simp add: blind_def)

lemma blind_id: "blind (\<lambda>s. s)"
  by (simp add: blind_def)

lemma does_exec:
  assumes "blind g" and "\<And>s a t. f s = Inr (a, t) \<Longrightarrow> t = g s"
  shows "does (exec f) g"
  unfolding does_def
proof (intro conjI allI impI)
  fix s a t assume "exec f s = (Inr a, t)"
  then obtain s0 where "s0 = s\<lparr>faults := tl (faults s)\<rparr>" "f s0 = Inr (a, t)" by (rule exec_InrE)
  with assms(2) have "t = g (s\<lparr>faults := tl (faults s)\<rparr>)" by blast
  with assms(1) show "same_data (g s) t" by (simp add: blind_def)
qed (rule assms(1))

lemma does_bindE [does_rules]:
  assumes "does m g" and "\<And>a. does (f a) h"
  shows "does (bindE m f) (\<lambda>s. h (g s))"
proof -
  have "same_data (h (g s)) t" if "bindE m f s = (Inr a, t)" for s a t
  proof -
    from that obtain b s' where "m s = (Inr b, s')" "f b s' = (Inr a, t)" by (rule bindE_InrE)
    with assms have "same_data (h (g s)) (h s')" and "same_data (h s') t"
      by (auto simp: does_def intro: blind_same)
    then show ?thesis by (rule same_data_trans)
  qed
  with assms show ?thesis by (auto simp: does_def intro: blind_comp)
qed

lemma does_in_tx [does_rules]:
  assumes "does m g"
  shows "does (in_tx m) g"
proof -
  have "same_data (g s) t" if "in_tx m s = (Inr a, t)" for s a t
    using that
  proof (rule in_tx_InrE)
    fix s1 s2 assume "same_data s s1" "m s1 = (Inr a, s2)" "same_data s2 t"
    with assms show ?thesis
      by (meson blind_same does_def same_data_trans)
  qed
  with assms show ?thesis by (simp add: does_def)
qed

lemma does_void [does_rules]: "does m g \<Longrightarrow> does (void m) g"
  by (auto simp: does_def void_Inr)

lemma does_with_now:
  assumes "\<And>n. does (f n) (g n)" and "\<And>s fs. g (clock s) (s\<lparr>faults := fs\<rparr>) = (g (clock s) s)\<lparr>faults := fs\<rparr>"
  shows "does (with_now f) (\<lambda>s. g (clock s) s)"
  using assms by (auto simp: does_def blind_def)

lemma does_query [does_rules]:
  "does (exec (sql_row get P)) (\<lambda>s. s)" "does (exec (sql_rows get P)) (\<lambda>s. s)"
  "does (exec (sql_value f)) (\<lambda>s. s)" "does (exec (sql_query q)) (\<lambda>s. s)"
  by (rule does_exec,
      auto simp: blind_id sql_row_def sql_rows_def sql_value_def sql_query_def
        split: option.splits sum.splits)+

lemma does_cong: "does m g \<Longrightarrow> (\<And>s. g s = h s) \<Longrightarrow> does m h"
  by (simp add: does_def blind_def)

lemma does_ret [does_rules]: "does (ret x) (\<lambda>s. s)"
  by (simp add: does_def blind_id)

section \<open>Tables as lenses\<close>

text \<open>What every table of the store promises its statements: reading back what was written,
  and that writing one table touches neither the fault schedule nor the pragma nor the clock.\<close>

locale table =
  fixes get :: "'z store_scheme \<Rightarrow> 'r list"
    and upd :: "('r list \<Rightarrow> 'r list) \<Rightarrow> 'z store_scheme \<Rightarrow> 'z store_scheme"
  assumes get_upd: "get (upd f s) = f (get s)"
    and get_faults: "get (s\<lparr>faults := fs\<rparr>) = get s"
    and upd_faults: "upd f (s\<lparr>faults := fs\<rparr>) = (upd f s)\<lparr>faults := fs\<rparr>"
    and upd_frame: "fk_on (upd f s) = fk_on s" "clock (upd f s) = clock s" "faults (upd f s) = faults s"
begin

lemma insert_ok:
  assumes "exec (sql_insert get upd uq fk r) s = (Inr u, t)"
  shows "get t = get s @ [r] \<and> uq (get t) \<and> t = upd (\<lambda>rs. rs @ [r]) (s\<lparr>faults := tl (faults s)\<rparr>)"
  using assms
  by (elim exec_InrE) (auto simp: sql_insert_def get_upd get_faults split: if_splits)

lemma delete_ok:
  assumes "exec (sql_delete get upd P) s = (Inr n, t)"
  shows "get t = filter (\<lambda>r. \<not> P r) (get s) \<and> n = length (filter P (get s))
    \<and> t = upd (filter (\<lambda>r. \<not> P r)) (s\<lparr>faults := tl (faults s)\<rparr>)"
  using assms
  by (elim exec_InrE) (auto simp: sql_delete_def get_upd get_faults)

lemma update_ok:
  assumes "exec (sql_update get upd uq P f) s = (Inr n, t)"
  shows "get t = map (\<lambda>r. if P r then f r else r) (get s) \<and> uq (get t)
    \<and> n = length (filter P (get s))"
  using assms
  by (elim exec_InrE) (auto simp: sql_update_def get_upd get_faults Let_def split: if_splits)

lemma row_ok:
  assumes "exec (sql_row get P) s = (Inr r, t)"
  shows "r \<in> set (get s) \<and> P r \<and> find P (get s) = Some r \<and> same_data s t"
  using assms
  by (elim exec_InrE)
     (auto simp: sql_row_def get_faults split: option.splits dest: find_Some_iff_mem)

lemma row_none:
  assumes "exec (sql_row get P) s = (Inl ErrNoRows, t)"
  shows "\<forall>r\<in>set (get s). \<not> P r"
  using assms
  by (auto simp: exec_def sql_row_def get_faults find_None_mem Let_def
      split: list.splits bool.splits option.splits)

lemma does_delete: "does (exec (sql_delete get upd P)) (upd (filter (\<lambda>r. \<not> P r)))"
  by (rule does_exec) (auto simp: blind_def upd_faults sql_delete_def)

lemma does_insert: "does (exec (sql_insert get upd uq fk r)) (upd (\<lambda>rs. rs @ [r]))"
  by (rule does_exec) (auto simp: blind_def upd_faults sql_insert_def split: if_splits)

lemma does_update:
  "does (exec (sql_update get upd uq P f)) (\<lambda>s. upd (\<lambda>_. map (\<lambda>r. if P r then f r else r) (get s)) s)"
  by (rule does_exec)
     (auto simp: blind_def upd_faults get_faults sql_update_def Let_def split: if_splits)

lemma rows_ok:
  assumes "exec (sql_rows get P) s = (Inr rs, t)"
  shows "rs = filter P (get s) \<and> same_data s t"
  using assms by (elim exec_InrE) (auto simp: sql_rows_def get_faults)

end

interpretation users: table t_users t_users_update
  by unfold_locales auto

interpretation sessions: table t_sessions t_sessions_update
  by unfold_locales auto

interpretation containers: table t_containers t_containers_update
  by unfold_locales auto

interpretation caliases: table t_aliases t_aliases_update
  by unfold_locales auto

interpretation apikeys: table t_keys t_keys_update
  by unfold_locales auto

interpretation links: table t_links t_links_update
  by unfold_locales auto

interpretation settings: table t_settings t_settings_update
  by unfold_locales auto

interpretation sshkeys: table t_sshkeys t_sshkeys_update
  by unfold_locales auto

interpretation access: table t_access t_access_update
  by unfold_locales auto

lemmas table_does [does_rules] =
  users.does_insert users.does_update sessions.does_insert sessions.does_delete
  containers.does_insert containers.does_update caliases.does_insert caliases.does_update
  caliases.does_delete apikeys.does_insert apikeys.does_delete links.does_insert links.does_delete
  sshkeys.does_insert sshkeys.does_delete access.does_insert access.does_delete

section \<open>Invariants of the store\<close>

text \<open>An invariant of the data does not look at the fault schedule.  For such an invariant it
  is enough that every successful statement keeps it.\<close>

locale store_inv =
  fixes I :: "'z store_scheme \<Rightarrow> bool"
  assumes I_faults [simp]: "I (s\<lparr>faults := fs\<rparr>) = I s"
begin

lemma same_data_I: "same_data s t \<Longrightarrow> I t = I s"
  by (metis I_faults same_data_def)

lemma keeps_exec:
  assumes "\<And>s a t. I s \<Longrightarrow> f s = Inr (a, t) \<Longrightarrow> I t"
  shows "keeps I (exec f)"
proof (rule keepsI)
  fix s assume "I s"
  then have "f (s\<lparr>faults := fs\<rparr>) = Inr (a, t) \<Longrightarrow> I t" for fs a t
    using assms [of "s\<lparr>faults := fs\<rparr>"] by simp
  with \<open>I s\<close> show "I (snd (exec f s))"
    by (auto simp: exec_def Let_def split: list.split bool.split sum.split prod.split)
qed

lemma keeps_query: "keeps I (exec (sql_row get P))" "keeps I (exec (sql_rows get P))"
  "keeps I (exec (sql_value f))" "keeps I (exec (sql_query q))" "keeps I (exec sql_nop)"
  by (rule keeps_exec, auto simp: sql_row_def sql_rows_def sql_value_def sql_query_def sql_nop_def
      split: option.splits sum.splits)+

text \<open>A transaction keeps the invariant when its body does on success: a failing one rolls back.\<close>

lemma keeps_in_tx_hoare:
  assumes "hoare I m (\<lambda>_. I) (\<lambda>_ _. True)"
  shows "keeps I (in_tx m)"
proof (rule keepsI)
  fix s assume I: "I s"
  show "I (snd (in_tx m s))"
  proof (cases "in_tx m s")
    case (Pair r t)
    show ?thesis
    proof (cases r)
      case (Inl e)
      with Pair have "same_data s t" using in_tx_error_same by blast
      with I Pair show ?thesis by (simp add: same_data_I)
    next
      case (Inr a)
      with Pair obtain s1 s2 where "same_data s s1" "m s1 = (Inr a, s2)" "same_data s2 t"
        by (auto elim: in_tx_InrE)
      with I have "I s1" by (simp add: same_data_I)
      with assms \<open>m s1 = (Inr a, s2)\<close> have "I s2" by (auto dest: hoare_Inr)
      with \<open>same_data s2 t\<close> Pair show ?thesis by (simp add: same_data_I)
    qed
  qed
qed

lemma keeps_in_tx: "keeps I m \<Longrightarrow> keeps I (in_tx m)"
  by (rule keeps_in_tx_hoare, rule hoare_conseq [where P' = I and Q' = "\<lambda>_. I" and E' = "\<lambda>_. I"])
     (simp_all add: keeps_hoare)

end

text \<open>The unique indexes hold: every primary key and unique index of the schema.\<close>

definition uniq_ok :: "'z store_scheme \<Rightarrow> bool" where
  "uniq_ok s \<longleftrightarrow> uq_users (t_users s) \<and> uq_sessions (t_sessions s)
     \<and> uq_containers (t_containers s) \<and> uq_aliases (t_aliases s) \<and> uq_keys (t_keys s)
     \<and> uq_links (t_links s) \<and> uq_settings (t_settings s) \<and> uq_sshkeys (t_sshkeys s)
     \<and> uq_access (t_access s)"

lemmas uq_defs = uq_users_def uq_sessions_def uq_containers_def uq_aliases_def uq_keys_def
  uq_links_def uq_settings_def uq_sshkeys_def uq_access_def

lemma uq_filter:
  "uq_users us \<Longrightarrow> uq_users (filter P1 us)"
  "uq_sessions ss \<Longrightarrow> uq_sessions (filter P2 ss)"
  "uq_containers cs \<Longrightarrow> uq_containers (filter P3 cs)"
  "uq_aliases as \<Longrightarrow> uq_aliases (filter P4 as)"
  "uq_keys ks \<Longrightarrow> uq_keys (filter P5 ks)"
  "uq_links ls \<Longrightarrow> uq_links (filter P6 ls)"
  "uq_settings xs \<Longrightarrow> uq_settings (filter P7 xs)"
  "uq_sshkeys hs \<Longrightarrow> uq_sshkeys (filter P8 hs)"
  "uq_access ps \<Longrightarrow> uq_access (filter P9 ps)"
proof -
  have "filter a_Verified (filter P4 as) = filter P4 (filter a_Verified as)" for as
    by (simp add: conj_commute)
  then show "uq_aliases as \<Longrightarrow> uq_aliases (filter P4 as)"
    by (auto simp: uq_aliases_def simp del: filter_filter)
qed (auto simp: uq_defs)

interpretation uniq: store_inv uniq_ok
  by unfold_locales (simp add: uniq_ok_def)

lemma keeps_uniq_insert:
  "keeps uniq_ok (exec (sql_insert t_users t_users_update uq_users fk1 r1))"
  "keeps uniq_ok (exec (sql_insert t_sessions t_sessions_update uq_sessions fk2 r2))"
  "keeps uniq_ok (exec (sql_insert t_containers t_containers_update uq_containers fk3 r3))"
  "keeps uniq_ok (exec (sql_insert t_aliases t_aliases_update uq_aliases fk4 r4))"
  "keeps uniq_ok (exec (sql_insert t_keys t_keys_update uq_keys fk5 r5))"
  "keeps uniq_ok (exec (sql_insert t_links t_links_update uq_links fk6 r6))"
  "keeps uniq_ok (exec (sql_insert t_settings t_settings_update uq_settings fk7 r7))"
  "keeps uniq_ok (exec (sql_insert t_sshkeys t_sshkeys_update uq_sshkeys fk8 r8))"
  "keeps uniq_ok (exec (sql_insert t_access t_access_update uq_access fk9 r9))"
  by (rule uniq.keeps_exec, auto simp: sql_insert_def uniq_ok_def split: if_splits)+

lemma keeps_uniq_update:
  "keeps uniq_ok (exec (sql_update t_users t_users_update uq_users P1 f1))"
  "keeps uniq_ok (exec (sql_update t_containers t_containers_update uq_containers P3 f3))"
  "keeps uniq_ok (exec (sql_update t_aliases t_aliases_update uq_aliases P4 f4))"
  "keeps uniq_ok (exec (sql_update t_settings t_settings_update uq_settings P7 f7))"
  by (rule uniq.keeps_exec, auto simp: sql_update_def uniq_ok_def Let_def split: if_splits)+

lemma keeps_uniq_delete:
  "keeps uniq_ok (exec (sql_delete t_sessions t_sessions_update P2))"
  "keeps uniq_ok (exec (sql_delete t_aliases t_aliases_update P4))"
  "keeps uniq_ok (exec (sql_delete t_keys t_keys_update P5))"
  "keeps uniq_ok (exec (sql_delete t_links t_links_update P6))"
  "keeps uniq_ok (exec (sql_delete t_sshkeys t_sshkeys_update P8))"
  "keeps uniq_ok (exec (sql_delete t_access t_access_update P9))"
  "keeps uniq_ok (exec (sql_delete_containers P3))"
  "keeps uniq_ok (exec (sql_delete_users P1))"
  by (rule uniq.keeps_exec,
      auto simp: sql_delete_def sql_delete_containers_def sql_delete_users_def uniq_ok_def uq_filter
        Let_def split: if_splits)+

lemmas uniq_rules [keeps_rules] =
  keeps_uniq_insert keeps_uniq_update keeps_uniq_delete uniq.keeps_query uniq.keeps_in_tx

end
