(* ===== verification/Accounts_Db.thy ===== *)
theory Accounts_Db
  imports Sql_Store
begin

text \<open>
  Accounts: \<^verbatim>\<open>src/internal/db/users.go\<close>, \<^verbatim>\<open>sessions.go\<close>,
  \<^verbatim>\<open>ssh_keys.go\<close> and \<^verbatim>\<open>settings.go\<close>.

  Each function of those files is one definition.  \<open>delete_user_rows\<close> is the specification
  \<open>DeleteUser\<close> is shown to implement: what is gone and what is untouched afterwards.
\<close>

section \<open>Users\<close>

definition CreateUser :: "user \<Rightarrow> ('z, unit) dbm" where
  "CreateUser u = with_now (\<lambda>now.
     exec (sql_insert t_users t_users_update uq_users (\<lambda>_ _. True)
       \<lparr>u_ID = u_ID u, u_Email = u_Email u, u_DisplayName = u_DisplayName u, u_Role = u_Role u,
        u_PasswordHash = u_PasswordHash u, u_DefaultModel = [], u_CreatedAt = now\<rparr>))"

definition GetUserByID :: "string \<Rightarrow> ('z, user) dbm" where
  "GetUserByID uid = exec (sql_row t_users (\<lambda>u. u_ID u = uid))"

definition GetUserByEmail :: "string \<Rightarrow> ('z, user) dbm" where
  "GetUserByEmail email = exec (sql_row t_users (\<lambda>u. u_Email u = email))"

definition SetUserPassword :: "string \<Rightarrow> string \<Rightarrow> ('z, unit) dbm" where
  "SetUserPassword uid hash =
     void (exec (sql_update t_users t_users_update uq_users (\<lambda>u. u_ID u = uid)
       (u_PasswordHash_update (\<lambda>_. hash))))"

definition CountUsers :: "('z, nat) dbm" where
  "CountUsers = exec (sql_value (\<lambda>s. length (t_users s)))"

definition UpdateUser :: "user \<Rightarrow> ('z, unit) dbm" where
  "UpdateUser u =
     void (exec (sql_update t_users t_users_update uq_users (\<lambda>v. u_ID v = u_ID u)
       (\<lambda>v. v\<lparr>u_DisplayName := u_DisplayName u, u_Role := u_Role u\<rparr>)))"

definition ListUsers :: "('z, user list) dbm" where
  "ListUsers = bindE (exec (sql_rows t_users (\<lambda>_. True))) (\<lambda>us. ret (sort_key u_CreatedAt us))"

text \<open>The containers of an owner, the subquery of the deletes below.\<close>

definition owned_ids :: "string \<Rightarrow> 'z store_scheme \<Rightarrow> string set" where
  "owned_ids owner s = c_ID ` {c \<in> set (t_containers s). c_OwnerID c = owner}"

definition DeleteUser :: "string \<Rightarrow> ('z, unit) dbm" where
  "DeleteUser uid = in_tx
     (bindE (exec (\<lambda>s. sql_delete t_access t_access_update
        (\<lambda>p. snd p = uid \<or> fst p \<in> owned_ids uid s) s)) (\<lambda>_.
      bindE (exec (\<lambda>s. sql_delete t_links t_links_update
        (\<lambda>l. l_CreatedBy l = uid \<or> l_ContainerID l \<in> owned_ids uid s) s)) (\<lambda>_.
      bindE (exec (\<lambda>s. sql_delete t_aliases t_aliases_update
        (\<lambda>a. a_ContainerID a \<in> owned_ids uid s) s)) (\<lambda>_.
      bindE (exec (sql_delete_containers (\<lambda>c. c_OwnerID c = uid))) (\<lambda>_.
      bindE (exec (sql_delete t_keys t_keys_update (\<lambda>k. ak_OwnerID k = uid))) (\<lambda>_.
      void (exec (sql_delete_users (\<lambda>u. u_ID u = uid)))))))))"

definition EnsureUser :: "string \<Rightarrow> string \<Rightarrow> ('z, user) dbm" where
  "EnsureUser uid email = attempt (GetUserByID uid)
     (\<lambda>e. if e \<noteq> ErrNoRows then raise e
          else (let nu = \<lparr>u_ID = uid, u_Email = email, u_DisplayName = [], u_Role = ''user'',
                          u_PasswordHash = [], u_DefaultModel = [], u_CreatedAt = 0\<rparr> in
                bindE (CreateUser nu) (\<lambda>_. ret nu)))
     ret"

section \<open>Sessions\<close>

text \<open>Durations are nanoseconds.\<close>

definition SessionTTL :: int where
  "SessionTTL = 7 * 24 * 3600 * 1000000000"

definition hex_digit :: "nat \<Rightarrow> char" where
  "hex_digit n = (if n < 10 then char_of (48 + n) else char_of (87 + n))"

definition hex_encode :: "string \<Rightarrow> string" where
  "hex_encode bs = concat (map (\<lambda>b. [hex_digit (byte b div 16), hex_digit (byte b mod 16)]) bs)"

text \<open>\<open>rnd\<close> is what \<^verbatim>\<open>crypto/rand\<close> delivers: 32 bytes, or \<open>None\<close> when it fails.\<close>

definition NewSessionToken :: "string option \<Rightarrow> ('s, dberr, string) sm" where
  "NewSessionToken rnd = (case rnd of None \<Rightarrow> raise ErrEngine | Some bs \<Rightarrow> ret (hex_encode bs))"

definition CreateSession :: "string option \<Rightarrow> string \<Rightarrow> ('z, session) dbm" where
  "CreateSession rnd uid = bindE (NewSessionToken rnd) (\<lambda>token. with_now (\<lambda>now.
     let sess = \<lparr>s_Token = token, s_UserID = uid, s_CreatedAt = now, s_ExpiresAt = now + SessionTTL\<rparr> in
     bindE (exec (sql_insert t_sessions t_sessions_update uq_sessions
       (\<lambda>s r. user_exists s (s_UserID r)) sess)) (\<lambda>_. ret sess)))"

definition GetSession :: "string \<Rightarrow> ('z, session) dbm" where
  "GetSession token = with_now (\<lambda>now.
     exec (sql_row t_sessions (\<lambda>x. s_Token x = token \<and> s_ExpiresAt x > now)))"

definition DeleteSession :: "string \<Rightarrow> ('z, unit) dbm" where
  "DeleteSession token = void (exec (sql_delete t_sessions t_sessions_update (\<lambda>x. s_Token x = token)))"

definition DeleteExpiredSessions :: "('z, nat) dbm" where
  "DeleteExpiredSessions = with_now (\<lambda>now.
     exec (sql_delete t_sessions t_sessions_update (\<lambda>x. s_ExpiresAt x \<le> now)))"

section \<open>SSH keys\<close>

definition CreateSSHKey :: "sshkey \<Rightarrow> ('z, unit) dbm" where
  "CreateSSHKey k = with_now (\<lambda>now.
     exec (sql_insert t_sshkeys t_sshkeys_update uq_sshkeys (\<lambda>s r. user_exists s (k_UserID r))
       (k\<lparr>k_CreatedAt := now\<rparr>)))"

definition ListSSHKeysByUser :: "string \<Rightarrow> ('z, sshkey list) dbm" where
  "ListSSHKeysByUser uid =
     bindE (exec (sql_rows t_sshkeys (\<lambda>k. k_UserID k = uid))) (\<lambda>ks. ret (sort_key k_CreatedAt ks))"

definition DeleteSSHKey :: "string \<Rightarrow> string \<Rightarrow> ('z, unit) dbm" where
  "DeleteSSHKey kid owner =
     bindE (exec (sql_delete t_sshkeys t_sshkeys_update (\<lambda>k. k_ID k = kid \<and> k_UserID k = owner)))
       (\<lambda>n. if n = 0 then raise ErrNoRows else ret ())"

text \<open>The join reads no password hash and no default model, so those stay empty.\<close>

definition GetUserBySSHFingerprint :: "string \<Rightarrow> ('z, user) dbm" where
  "GetUserBySSHFingerprint fp = exec (sql_query (\<lambda>s.
     case find (\<lambda>u. list_ex (\<lambda>k. k_UserID k = u_ID u \<and> k_Fingerprint k = fp) (t_sshkeys s))
            (t_users s) of
       None \<Rightarrow> Inl ErrNoRows
     | Some u \<Rightarrow> Inr (u\<lparr>u_PasswordHash := [], u_DefaultModel := []\<rparr>)))"

section \<open>Operator settings\<close>

definition SettingNestingAllowed :: string where
  "SettingNestingAllowed = ''nesting_allowed''"

definition GetSetting :: "string \<Rightarrow> string \<Rightarrow> ('z, string) dbm" where
  "GetSetting key dflt = attempt (exec (sql_row t_settings (\<lambda>p. fst p = key)))
     (\<lambda>e. if e = ErrNoRows then ret dflt else raise e) (\<lambda>p. ret (snd p))"

definition sql_upsert_setting :: "string \<Rightarrow> string \<Rightarrow> ('z, nat) stmt" where
  "sql_upsert_setting key value s =
     (if key \<in> fst ` set (t_settings s)
      then sql_update t_settings t_settings_update uq_settings (\<lambda>p. fst p = key) (\<lambda>p. (fst p, value)) s
      else Inr (1, t_settings_update (\<lambda>ps. ps @ [(key, value)]) s))"

definition SetSetting :: "string \<Rightarrow> string \<Rightarrow> ('z, unit) dbm" where
  "SetSetting key value = void (exec (sql_upsert_setting key value))"

definition NestingAllowed :: "('z, bool) dbm" where
  "NestingAllowed = bindE (GetSetting SettingNestingAllowed ''1'') (\<lambda>v. ret (v = ''1''))"

definition SetNestingAllowed :: "bool \<Rightarrow> ('z, unit) dbm" where
  "SetNestingAllowed allowed = SetSetting SettingNestingAllowed (if allowed then ''1'' else ''0'')"

lemmas accounts_defs = CreateUser_def GetUserByID_def GetUserByEmail_def SetUserPassword_def
  CountUsers_def UpdateUser_def ListUsers_def DeleteUser_def EnsureUser_def NewSessionToken_def
  CreateSession_def GetSession_def DeleteSession_def DeleteExpiredSessions_def CreateSSHKey_def
  ListSSHKeysByUser_def DeleteSSHKey_def GetUserBySSHFingerprint_def GetSetting_def SetSetting_def
  NestingAllowed_def SetNestingAllowed_def

section \<open>Unique indexes are kept\<close>

lemma keeps_uniq_subquery [keeps_rules]:
  "keeps uniq_ok (exec (\<lambda>s. sql_delete t_access t_access_update (P1 s) s))"
  "keeps uniq_ok (exec (\<lambda>s. sql_delete t_links t_links_update (P2 s) s))"
  "keeps uniq_ok (exec (\<lambda>s. sql_delete t_aliases t_aliases_update (P3 s) s))"
  by (rule uniq.keeps_exec, auto simp: sql_delete_def uniq_ok_def uq_filter)+

lemma keeps_uniq_upsert [keeps_rules]: "keeps uniq_ok (exec (sql_upsert_setting k v))"
  by (rule uniq.keeps_exec)
     (auto simp: sql_upsert_setting_def sql_update_def uniq_ok_def uq_settings_def Let_def
       split: if_splits)

lemma accounts_keep_uniq [keeps_rules]:
  "keeps uniq_ok (CreateUser u)" "keeps uniq_ok (GetUserByID i)" "keeps uniq_ok (GetUserByEmail e)"
  "keeps uniq_ok (SetUserPassword i h)" "keeps uniq_ok CountUsers" "keeps uniq_ok (UpdateUser u)"
  "keeps uniq_ok ListUsers" "keeps uniq_ok (DeleteUser i)" "keeps uniq_ok (NewSessionToken rnd)"
  "keeps uniq_ok (GetSession t)" "keeps uniq_ok (DeleteSession t)"
  "keeps uniq_ok DeleteExpiredSessions" "keeps uniq_ok (CreateSSHKey k)"
  "keeps uniq_ok (ListSSHKeysByUser i)" "keeps uniq_ok (DeleteSSHKey i o')"
  "keeps uniq_ok (GetUserBySSHFingerprint fp)" "keeps uniq_ok (GetSetting x d)"
  "keeps uniq_ok (SetSetting x v)" "keeps uniq_ok NestingAllowed" "keeps uniq_ok (SetNestingAllowed b)"
  unfolding accounts_defs by (intro keeps_rules)+

lemma accounts_keep_uniq' [keeps_rules]:
  "keeps uniq_ok (EnsureUser i e)" "keeps uniq_ok (CreateSession rnd i)"
  unfolding EnsureUser_def CreateSession_def Let_def by (intro keeps_rules)+

section \<open>What DeleteUser does\<close>

text \<open>The specification: the account, its VMs and everything that hangs off either, except the
  rows of \<^verbatim>\<open>sessions\<close> and \<^verbatim>\<open>ssh_keys\<close>: a session goes with a
  foreign key only, and an SSH key not at all.\<close>

definition delete_user_rows :: "string \<Rightarrow> 'z store_scheme \<Rightarrow> 'z store_scheme" where
  "delete_user_rows uid s = s\<lparr>
     t_access := filter (\<lambda>p. snd p \<noteq> uid \<and> fst p \<notin> owned_ids uid s) (t_access s),
     t_links := filter (\<lambda>l. l_CreatedBy l \<noteq> uid \<and> l_ContainerID l \<notin> owned_ids uid s) (t_links s),
     t_aliases := filter (\<lambda>a. a_ContainerID a \<notin> owned_ids uid s) (t_aliases s),
     t_containers := filter (\<lambda>c. c_OwnerID c \<noteq> uid) (t_containers s),
     t_keys := filter (\<lambda>k. ak_OwnerID k \<noteq> uid) (t_keys s),
     t_users := filter (\<lambda>u. u_ID u \<noteq> uid) (t_users s),
     t_sessions := (if fk_on s \<and> user_exists s uid then filter (\<lambda>x. s_UserID x \<noteq> uid) (t_sessions s)
                    else t_sessions s)\<rparr>"

lemma owned_ids_frame [simp]:
  "owned_ids uid (t_access_update f s) = owned_ids uid s"
  "owned_ids uid (t_links_update g s) = owned_ids uid s"
  "owned_ids uid (t_aliases_update h s) = owned_ids uid s"
  "owned_ids uid (faults_update k s) = owned_ids uid s"
  by (simp_all add: owned_ids_def)

lemma user_exists_frame [simp]: "user_exists (faults_update k s) uid = user_exists s uid"
  by (simp add: user_exists_def)

text \<open>The effect of the two deletes that cascade, once their pragma check has passed.\<close>

lemma does_delete_containers:
  "does (exec (sql_delete_containers (\<lambda>c. c_OwnerID c = uid)))
     (\<lambda>s. if fk_on s then s\<lparr>t_containers := filter (\<lambda>c. c_OwnerID c \<noteq> uid) (t_containers s),
            t_aliases := filter (\<lambda>a. a_ContainerID a \<notin> owned_ids uid s) (t_aliases s),
            t_access := filter (\<lambda>p. fst p \<notin> owned_ids uid s) (t_access s)\<rparr>
          else s\<lparr>t_containers := filter (\<lambda>c. c_OwnerID c \<noteq> uid) (t_containers s)\<rparr>)"
  by (rule does_exec)
     (auto simp: blind_def sql_delete_containers_def owned_ids_def Let_def split: if_splits)

lemma does_delete_users:
  "does (exec (sql_delete_users (\<lambda>u. u_ID u = uid)))
     (\<lambda>s. if fk_on s \<and> user_exists s uid
          then s\<lparr>t_users := filter (\<lambda>u. u_ID u \<noteq> uid) (t_users s),
                 t_sessions := filter (\<lambda>x. s_UserID x \<noteq> uid) (t_sessions s),
                 t_access := filter (\<lambda>p. snd p \<noteq> uid) (t_access s)\<rparr>
          else s\<lparr>t_users := filter (\<lambda>u. u_ID u \<noteq> uid) (t_users s)\<rparr>)"
proof (rule does_exec)
  fix s a t assume "sql_delete_users (\<lambda>u. u_ID u = uid) s = Inr (a, t :: 'a store_scheme)"
  moreover have "set (map u_ID (filter (\<lambda>u. u_ID u = uid) (t_users s)))
      = (if user_exists s uid then {uid} else {})"
    by (auto simp: user_exists_def)
  ultimately show "t = (if fk_on s \<and> user_exists s uid
          then s\<lparr>t_users := filter (\<lambda>u. u_ID u \<noteq> uid) (t_users s),
                 t_sessions := filter (\<lambda>x. s_UserID x \<noteq> uid) (t_sessions s),
                 t_access := filter (\<lambda>p. snd p \<noteq> uid) (t_access s)\<rparr>
          else s\<lparr>t_users := filter (\<lambda>u. u_ID u \<noteq> uid) (t_users s)\<rparr>)"
    by (cases s) (auto simp: sql_delete_users_def Let_def simp del: set_map set_filter split: if_splits)
qed (simp add: blind_def)

lemma does_delete_sub:
  "does (exec (\<lambda>s. sql_delete t_access t_access_update (\<lambda>p. snd p = uid \<or> fst p \<in> owned_ids uid s) s))
     (\<lambda>s. s\<lparr>t_access := filter (\<lambda>p. snd p \<noteq> uid \<and> fst p \<notin> owned_ids uid s) (t_access s)\<rparr>)"
  "does (exec (\<lambda>s. sql_delete t_links t_links_update
       (\<lambda>l. l_CreatedBy l = uid \<or> l_ContainerID l \<in> owned_ids uid s) s))
     (\<lambda>s. s\<lparr>t_links := filter (\<lambda>l. l_CreatedBy l \<noteq> uid \<and> l_ContainerID l \<notin> owned_ids uid s) (t_links s)\<rparr>)"
  "does (exec (\<lambda>s. sql_delete t_aliases t_aliases_update (\<lambda>a. a_ContainerID a \<in> owned_ids uid s) s))
     (\<lambda>s. s\<lparr>t_aliases := filter (\<lambda>a. a_ContainerID a \<notin> owned_ids uid s) (t_aliases s)\<rparr>)"
  by (rule does_exec, auto simp: blind_def sql_delete_def)+

lemma DeleteUser_effect:
  assumes "DeleteUser uid s = (Inr u, t)"
  shows "same_data (delete_user_rows uid s) t"
proof -
  from assms obtain s1 s2 s3 s4 s5 s6 s7 a1 a2 a3 a4 a5 a6 where
      b: "same_data s s1" and c: "same_data s7 t"
    and 1: "exec (\<lambda>s. sql_delete t_access t_access_update
        (\<lambda>p. snd p = uid \<or> fst p \<in> owned_ids uid s) s) s1 = (Inr a1, s2)"
    and 2: "exec (\<lambda>s. sql_delete t_links t_links_update
        (\<lambda>l. l_CreatedBy l = uid \<or> l_ContainerID l \<in> owned_ids uid s) s) s2 = (Inr a2, s3)"
    and 3: "exec (\<lambda>s. sql_delete t_aliases t_aliases_update
        (\<lambda>a. a_ContainerID a \<in> owned_ids uid s) s) s3 = (Inr a3, s4)"
    and 4: "exec (sql_delete_containers (\<lambda>c. c_OwnerID c = uid)) s4 = (Inr a4, s5)"
    and 5: "exec (sql_delete t_keys t_keys_update (\<lambda>k. ak_OwnerID k = uid)) s5 = (Inr a5, s6)"
    and 6: "exec (sql_delete_users (\<lambda>u. u_ID u = uid)) s6 = (Inr a6, s7)"
    unfolding DeleteUser_def by (elim in_tx_InrE bindE_InrE) (auto simp: void_Inr)
  note f = same_data_fields [OF b] does_fields [OF does_delete_sub(1) 1]
    does_fields [OF does_delete_sub(2) 2] does_fields [OF does_delete_sub(3) 3]
    does_fields [OF does_delete_containers 4] does_fields [OF apikeys.does_delete 5]
    does_fields [OF does_delete_users 6] same_data_fields [OF c]
  have o: "owned_ids uid s1 = owned_ids uid s" "owned_ids uid s2 = owned_ids uid s"
      "owned_ids uid s3 = owned_ids uid s" "owned_ids uid s4 = owned_ids uid s"
    using f by (simp_all add: owned_ids_def)
  have x: "user_exists s6 uid = user_exists s uid"
    using f by (auto simp: user_exists_def split: if_splits)
  show ?thesis
    by (rule same_dataI; insert f)
       (auto simp: delete_user_rows_def o x cong: filter_cong split: if_splits intro!: filter_cong)
qed

text \<open>On the tables of the store, either an error with every table unchanged, or exactly the specification.  The connections
  to external services are a table of the hub; \<open>DeleteUser_removes\<close> of \<open>Ssh_Account\<close> is this statement with their cascade.\<close>

lemma DeleteUser_refines:
  "case DeleteUser uid s of
     (Inl e, t) \<Rightarrow> same_data s t
   | (Inr _, t) \<Rightarrow> same_data (delete_user_rows uid s) t"
  by (auto split: prod.split sum.split intro: DeleteUser_effect)
     (auto simp: DeleteUser_def intro: in_tx_error_same)

lemma DeleteUser_blocked_body:
  assumes "faults s = []" and "fk_on s" and "user_exists s uid"
    and "list_ex (\<lambda>k. k_UserID k = uid) (t_sshkeys s)"
  shows "DeleteUser uid s = (Inl ErrForeignKey, s)"
proof -
  let ?gone = "map u_ID (filter (\<lambda>u. u_ID u = uid) (t_users s))"
  have g: "list_ex (\<lambda>k. k_UserID k \<in> set ?gone) (t_sshkeys s)"
    using assms(3,4) by (auto simp: list_ex_iff user_exists_def)
  have l: "\<not> list_ex (\<lambda>l. l_ContainerID l \<in> set (map c_ID (filter (\<lambda>c. c_OwnerID c = uid) (t_containers s))))
      (filter (\<lambda>l. l_CreatedBy l \<noteq> uid \<and> l_ContainerID l \<notin> owned_ids uid s) (t_links s))"
    by (auto simp: list_ex_iff owned_ids_def)
  show ?thesis
    unfolding DeleteUser_def
    by (rule in_tx_rollback)
       (use assms g l in \<open>simp_all add: bindE_def void_def exec_no_fault sql_delete_def
          sql_delete_containers_def sql_delete_users_def Let_def del: set_map set_filter\<close>)
qed

text \<open>C34: an account that has registered an SSH key cannot be deleted while foreign keys are
  enforced.  DeleteUser removes nothing from \<^verbatim>\<open>ssh_keys\<close>, whose reference to
  \<^verbatim>\<open>users\<close> has no ON DELETE clause, so its last statement always fails and the whole
  transaction rolls back.\<close>

theorem DeleteUser_blocked_by_ssh_key:
  assumes "faults s = []" and "fk_on s" and "user_exists s uid"
    and "k \<in> set (t_sshkeys s)" and "k_UserID k = uid"
  shows "DeleteUser uid s = (Inl ErrForeignKey, s)"
  using assms by (intro DeleteUser_blocked_body) (auto simp: list_ex_iff)

section \<open>Sessions\<close>

lemma uq_sessions_find:
  "uq_sessions ss \<Longrightarrow> x \<in> set ss \<Longrightarrow>
   find (\<lambda>y. s_Token y = s_Token x \<and> n < s_ExpiresAt y) ss = (if n < s_ExpiresAt x then Some x else None)"
proof (induction ss)
  case (Cons y ss)
  then show ?case
    by (cases "x = y") (auto simp: uq_sessions_def find_None_mem image_iff)
qed simp

text \<open>A session lives exactly for its time to live.  A session created at some clock reading
  is what GetSession returns for its token at every later reading before that instant plus seven
  days, and is not returned from that instant on, whatever else is in the table.\<close>

theorem CreateSession_lifetime:
  assumes "faults s = []" and "CreateSession rnd uid s = (Inr sess, t)"
  shows "GetSession (s_Token sess) (t\<lparr>clock := n\<rparr>) =
     (if n < clock s + SessionTTL then Inr sess else Inl ErrNoRows, t\<lparr>clock := n\<rparr>)"
proof -
  from assms(2) obtain b where b: "rnd = Some b"
    by (cases rnd) (auto simp: CreateSession_def NewSessionToken_def)
  with assms have t: "t = s\<lparr>t_sessions := t_sessions s @ [sess]\<rparr>" and uq: "uq_sessions (t_sessions s @ [sess])"
    and e: "s_ExpiresAt sess = clock s + SessionTTL"
    by (auto simp: CreateSession_def NewSessionToken_def bindE_def Let_def exec_no_fault sql_insert_def
        split: if_splits)
  have "find (\<lambda>x. s_Token x = s_Token sess \<and> n < s_ExpiresAt x) (t_sessions s @ [sess]) =
      (if n < s_ExpiresAt sess then Some sess else None)"
    by (rule uq_sessions_find [OF uq]) simp
  with t e assms(1) show ?thesis
    by (simp add: GetSession_def exec_no_fault sql_row_def)
qed

theorem DeleteUser_blocked_witness:
  "DeleteUser ''u1'' (demo_store\<lparr>t_users := [demo_user ''u1'' ''guest''], t_sshkeys := [demo_sshkey ''k1'' ''u1'']\<rparr>)
   = (Inl ErrForeignKey, demo_store\<lparr>t_users := [demo_user ''u1'' ''guest''], t_sshkeys := [demo_sshkey ''k1'' ''u1'']\<rparr>)"
  by (rule DeleteUser_blocked_by_ssh_key [where k = "demo_sshkey ''k1'' ''u1''"])
     (simp_all add: demo_store_def demo_user_def demo_sshkey_def user_exists_def)

theorem CreateSession_lifetime_witness:
  "GetSession ''6162'' ((snd (CreateSession (Some ''ab'') ''u1'' (demo_store\<lparr>t_users := [demo_user ''u1'' ''user'']\<rparr>)))
      \<lparr>clock := SessionTTL\<rparr>) =
    (Inl ErrNoRows, (snd (CreateSession (Some ''ab'') ''u1'' (demo_store\<lparr>t_users := [demo_user ''u1'' ''user'']\<rparr>)))
      \<lparr>clock := SessionTTL\<rparr>)"
proof -
  let ?s = "demo_store\<lparr>t_users := [demo_user ''u1'' ''user'']\<rparr>"
  let ?x = "\<lparr>s_Token = ''6162'', s_UserID = ''u1'', s_CreatedAt = 0, s_ExpiresAt = SessionTTL\<rparr>"
  have h: "hex_encode ''ab'' = ''6162''" by code_simp
  have r: "CreateSession (Some ''ab'') ''u1'' ?s = (Inr ?x, ?s\<lparr>t_sessions := [?x]\<rparr>)"
    by (simp add: CreateSession_def NewSessionToken_def h bindE_def Let_def
        exec_no_fault sql_insert_def demo_store_def demo_user_def user_exists_def uq_sessions_def)
  show ?thesis
    unfolding r snd_conv
    using CreateSession_lifetime [OF _ r, of SessionTTL] by (simp add: demo_store_def)
qed

end
