(* ===== verification/Containers_Db.thy ===== *)
theory Containers_Db
  imports Accounts_Db
begin

text \<open>
  Virtual machines: \<^verbatim>\<open>src/internal/db/containers.go\<close>.  The names and ports a VM may
  have, the row operations, the nesting columns and the initial task with its states
  (\<^verbatim>\<open>pending\<close>, \<^verbatim>\<open>sent\<close>, \<^verbatim>\<open>working\<close>,
  \<^verbatim>\<open>done\<close>, \<^verbatim>\<open>failed\<close>).

  \<open>vms_ok\<close> is the invariant of the rows the rest of the gateway relies on: a stored port is
  never the agent's, and a task has a state exactly when it has a text.
\<close>

section \<open>Constants and names\<close>

definition DefaultAppPort :: int where "DefaultAppPort = 3000"
definition AgentPort :: int where "AgentPort = 9000"
definition MaxInitialTaskLen :: nat where "MaxInitialTaskLen = 4000"
definition DefaultNesting :: bool where "DefaultNesting = True"
definition TaskPending :: string where "TaskPending = ''pending''"
definition TaskSent :: string where "TaskSent = ''sent''"
definition TaskWorking :: string where "TaskWorking = ''working''"
definition TaskDone :: string where "TaskDone = ''done''"
definition TaskFailed :: string where "TaskFailed = ''failed''"

lemmas task_states = TaskPending_def TaskSent_def TaskWorking_def TaskDone_def TaskFailed_def

definition TaskInProgress :: "string \<Rightarrow> bool" where
  "TaskInProgress st \<longleftrightarrow> st = TaskSent \<or> st = TaskWorking"

definition NestingEffective :: "container \<Rightarrow> bool" where
  "NestingEffective c \<longleftrightarrow> c_NestingAllowed c \<and> c_Nesting c"

definition NestingPending :: "container \<Rightarrow> bool" where
  "NestingPending c \<longleftrightarrow> EqualFold (c_Status c) ''running'' \<and> c_NestingApplied c \<noteq> NestingEffective c"

text \<open>\<^verbatim>\<open>^[a-z0-9](?:[a-z0-9-]{0,61}[a-z0-9])?$\<close>\<close>

definition dns_label :: "string \<Rightarrow> bool" where
  "dns_label s \<longleftrightarrow> s \<noteq> [] \<and> is_lower_alnum (hd s) \<and>
     (tl s = [] \<or> length (tl s) \<le> 62 \<and> is_lower_alnum (last (tl s)) \<and>
        list_all (\<lambda>c. is_lower_alnum c \<or> c = CHR ''-'') (butlast (tl s)))"

text \<open>\<^verbatim>\<open>^[0-9]{1,5}-\<close>\<close>

definition has_port_prefix :: "string \<Rightarrow> bool" where
  "has_port_prefix s \<longleftrightarrow>
     (let ds = takeWhile is_digit s in
      1 \<le> length ds \<and> length ds \<le> 5 \<and> HasPrefix (drop (length ds) s) ''-'')"

definition AgentHostPrefix :: string where
  "AgentHostPrefix = ''agent-''"

definition ReservedName :: "string \<Rightarrow> bool" where
  "ReservedName name \<longleftrightarrow> HasPrefix name AgentHostPrefix \<or> has_port_prefix name"

definition ValidContainerName :: "string \<Rightarrow> bool" where
  "ValidContainerName name \<longleftrightarrow>
     2 \<le> length name \<and> length name \<le> 63 \<and> dns_label name \<and> \<not> ReservedName name"

definition ValidAppPort :: "int \<Rightarrow> bool" where
  "ValidAppPort port \<longleftrightarrow> 0 < port \<and> port \<le> 65535 \<and> port \<noteq> AgentPort"

section \<open>Row operations\<close>

text \<open>What a SELECT of \<^verbatim>\<open>containerColumns\<close> returns: the columns, and the three
  presentation fields at their zero values.\<close>

definition scanContainer :: "container \<Rightarrow> container" where
  "scanContainer c = c\<lparr>c_SharedAccess := False, c_Aliases := [], c_NestingAllowed := False\<rparr>"

definition update_container :: "string \<Rightarrow> (container \<Rightarrow> container) \<Rightarrow> ('z, nat) dbm" where
  "update_container cid f = with_now (\<lambda>now.
     exec (sql_update t_containers t_containers_update uq_containers (\<lambda>c. c_ID c = cid)
       (\<lambda>c. (f c)\<lparr>c_UpdatedAt := now\<rparr>)))"

definition get_container :: "(container \<Rightarrow> bool) \<Rightarrow> ('z, container) dbm" where
  "get_container P = bindE (exec (sql_row t_containers P)) (\<lambda>c. ret (scanContainer c))"

definition list_containers :: "(container \<Rightarrow> bool) \<Rightarrow> (container \<Rightarrow> int) \<Rightarrow> ('z, container list) dbm" where
  "list_containers P key =
     bindE (exec (sql_rows t_containers P)) (\<lambda>cs. ret (map scanContainer (sort_key key cs)))"

definition UpdateContainerPublish :: "string \<Rightarrow> int \<Rightarrow> bool \<Rightarrow> ('z, unit) dbm" where
  "UpdateContainerPublish cid port public =
     (if \<not> ValidAppPort port
      then raise (ErrInput ''port must be between 1 and 65535 and must not be 9000'')
      else void (update_container cid (\<lambda>c. c\<lparr>c_AppPort := port, c_AppPublic := public\<rparr>)))"

definition UpdateContainerNesting :: "string \<Rightarrow> bool \<Rightarrow> ('z, unit) dbm" where
  "UpdateContainerNesting cid nesting = void (update_container cid (\<lambda>c. c\<lparr>c_Nesting := nesting\<rparr>))"

definition SetNestingApplied :: "string \<Rightarrow> bool \<Rightarrow> ('z, unit) dbm" where
  "SetNestingApplied cid applied = void (update_container cid (\<lambda>c. c\<lparr>c_NestingApplied := applied\<rparr>))"

text \<open>The caller's rows come back with the ceiling filled in, beside the error if there was one.\<close>

definition AttachNestingPolicy ::
  "container list \<Rightarrow> ('z, container list \<times> dberr option) dbm" where
  "AttachNestingPolicy cs = attempt NestingAllowed
     (\<lambda>e. ret (map (c_NestingAllowed_update (\<lambda>_. True)) cs, Some e))
     (\<lambda>allowed. ret (map (c_NestingAllowed_update (\<lambda>_. allowed)) cs, None))"

definition CreateContainer :: "container \<Rightarrow> ('z, container) dbm" where
  "CreateContainer c0 =
     (let c1 = (if c_AppPort c0 = 0 then c0\<lparr>c_AppPort := DefaultAppPort\<rparr> else c0) in
      if \<not> ValidAppPort (c_AppPort c1) then raise (ErrInput ''invalid app port'')
      else
        let task = TrimSpace (c_InitialTask c1) in
        if length task > MaxInitialTaskLen then raise (ErrInput ''task must be at most 4000 characters'')
        else
          let c = c1\<lparr>c_InitialTask := task,
                     c_InitialTaskState := (if task \<noteq> [] then TaskPending else [])\<rparr> in
          with_now (\<lambda>now. bindE
            (exec (sql_insert t_containers t_containers_update uq_containers
              (\<lambda>s r. user_exists s (c_OwnerID r))
              (scanContainer (c\<lparr>c_InitialTaskError := [], c_InitialTaskConversation := [],
                c_InitialTaskResumes := 0, c_NestingApplied := False,
                c_CreatedAt := now, c_UpdatedAt := now\<rparr>))))
            (\<lambda>_. ret c)))"

definition GetContainerByID :: "string \<Rightarrow> ('z, container) dbm" where
  "GetContainerByID cid = get_container (\<lambda>c. c_ID c = cid)"

definition ListContainersByOwner :: "string \<Rightarrow> ('z, container list) dbm" where
  "ListContainersByOwner owner = list_containers (\<lambda>c. c_OwnerID c = owner) (\<lambda>c. - c_CreatedAt c)"

definition GetContainerByName :: "string \<Rightarrow> string \<Rightarrow> ('z, container) dbm" where
  "GetContainerByName name owner = get_container (\<lambda>c. c_Name c = name \<and> c_OwnerID c = owner)"

definition GetContainerByNameOnly :: "string \<Rightarrow> ('z, container) dbm" where
  "GetContainerByNameOnly name = get_container (\<lambda>c. c_Name c = name)"

definition GetContainerByIncusName :: "string \<Rightarrow> ('z, container) dbm" where
  "GetContainerByIncusName iname = get_container (\<lambda>c. c_IncusName c = iname)"

definition UpdateContainerStatus :: "string \<Rightarrow> string \<Rightarrow> string \<Rightarrow> ('z, unit) dbm" where
  "UpdateContainerStatus cid st ip =
     void (update_container cid (\<lambda>c. c\<lparr>c_Status := st, c_IPAddress := ip\<rparr>))"

definition ListAllContainers :: "('z, container list) dbm" where
  "ListAllContainers = list_containers (\<lambda>_. True) (\<lambda>c. - c_CreatedAt c)"

definition RenameContainer :: "string \<Rightarrow> string \<Rightarrow> ('z, unit) dbm" where
  "RenameContainer cid newName = void (update_container cid (\<lambda>c. c\<lparr>c_Name := newName\<rparr>))"

definition DeleteContainer :: "string \<Rightarrow> ('z, unit) dbm" where
  "DeleteContainer cid = in_tx
     (bindE (exec (sql_delete t_access t_access_update (\<lambda>p. fst p = cid))) (\<lambda>_.
      bindE (exec (sql_delete t_aliases t_aliases_update (\<lambda>a. a_ContainerID a = cid))) (\<lambda>_.
      void (exec (sql_delete_containers (\<lambda>c. c_ID c = cid))))))"

section \<open>The initial task\<close>

definition SetInitialTaskState :: "string \<Rightarrow> string \<Rightarrow> string \<Rightarrow> ('z, unit) dbm" where
  "SetInitialTaskState cid st reason =
     void (update_container cid (\<lambda>c. c\<lparr>c_InitialTaskState := st, c_InitialTaskError := reason\<rparr>))"

definition SetInitialTaskDelivered :: "string \<Rightarrow> string \<Rightarrow> ('z, unit) dbm" where
  "SetInitialTaskDelivered cid conv =
     void (update_container cid (\<lambda>c. c\<lparr>c_InitialTaskState := TaskSent, c_InitialTaskError := [],
       c_InitialTaskConversation := conv, c_InitialTaskResumes := 0\<rparr>))"

definition SetInitialTaskConversation :: "string \<Rightarrow> string \<Rightarrow> ('z, unit) dbm" where
  "SetInitialTaskConversation cid conv = with_now (\<lambda>now. bindE
     (exec (sql_update t_containers t_containers_update uq_containers
       (\<lambda>c. c_ID c = cid \<and> c_InitialTaskConversation c = [])
       (\<lambda>c. c\<lparr>c_InitialTaskConversation := conv, c_UpdatedAt := now\<rparr>)))
     (\<lambda>changed. if changed = 0 then raise (ErrInput ''no task waiting for conversation'') else ret ()))"

text \<open>\<^verbatim>\<open>UPDATE ... RETURNING initial_task_resumes\<close>: no row means ErrNoRows.\<close>

definition CountInitialTaskResume :: "string \<Rightarrow> ('z, int) dbm" where
  "CountInitialTaskResume cid = with_now (\<lambda>now. exec (\<lambda>s.
     case sql_update t_containers t_containers_update uq_containers (\<lambda>c. c_ID c = cid)
       (\<lambda>c. c\<lparr>c_InitialTaskResumes := c_InitialTaskResumes c + 1, c_UpdatedAt := now\<rparr>) s of
       Inl e \<Rightarrow> Inl e
     | Inr (_, s') \<Rightarrow>
         (case find (\<lambda>c. c_ID c = cid) (t_containers s') of
            None \<Rightarrow> Inl ErrNoRows
          | Some c \<Rightarrow> Inr (c_InitialTaskResumes c, s'))))"

definition ListContainersWithTaskInProgress :: "('z, container list) dbm" where
  "ListContainersWithTaskInProgress =
     list_containers (\<lambda>c. (c_InitialTaskState c = TaskSent \<or> c_InitialTaskState c = TaskWorking)
       \<and> c_Status c = ''running'') c_UpdatedAt"

definition RetryInitialTask :: "string \<Rightarrow> ('z, unit) dbm" where
  "RetryInitialTask cid = with_now (\<lambda>now. bindE
     (exec (sql_update t_containers t_containers_update uq_containers
       (\<lambda>c. c_ID c = cid \<and> c_InitialTask c \<noteq> [] \<and> c_InitialTaskState c = TaskFailed)
       (\<lambda>c. c\<lparr>c_InitialTaskState := TaskPending, c_InitialTaskError := [],
              c_InitialTaskConversation := [], c_InitialTaskResumes := 0, c_UpdatedAt := now\<rparr>)))
     (\<lambda>changed. if changed = 0 then raise (ErrInput ''no failed task to retry'') else ret ()))"

lemmas containers_defs = update_container_def get_container_def list_containers_def
  UpdateContainerPublish_def UpdateContainerNesting_def SetNestingApplied_def
  AttachNestingPolicy_def GetContainerByID_def ListContainersByOwner_def
  GetContainerByName_def GetContainerByNameOnly_def GetContainerByIncusName_def
  UpdateContainerStatus_def ListAllContainers_def RenameContainer_def DeleteContainer_def
  SetInitialTaskState_def SetInitialTaskDelivered_def SetInitialTaskConversation_def
  CountInitialTaskResume_def ListContainersWithTaskInProgress_def RetryInitialTask_def

section \<open>Unique indexes are kept\<close>

lemma keeps_uniq_resume [keeps_rules]: "keeps uniq_ok (CountInitialTaskResume cid)"
  unfolding CountInitialTaskResume_def
  by (intro keeps_rules uniq.keeps_exec)
     (auto simp: sql_update_def uniq_ok_def Let_def split: if_splits sum.splits option.splits)

lemma containers_keep_uniq [keeps_rules]:
  "keeps uniq_ok (UpdateContainerPublish i p b)" "keeps uniq_ok (UpdateContainerNesting i b)"
  "keeps uniq_ok (SetNestingApplied i b)" "keeps uniq_ok (AttachNestingPolicy cs)"
  "keeps uniq_ok (GetContainerByID i)" "keeps uniq_ok (ListContainersByOwner i)"
  "keeps uniq_ok (GetContainerByName n i)" "keeps uniq_ok (GetContainerByNameOnly n)"
  "keeps uniq_ok (GetContainerByIncusName n)" "keeps uniq_ok (UpdateContainerStatus i st ip)"
  "keeps uniq_ok ListAllContainers" "keeps uniq_ok (RenameContainer i n)"
  "keeps uniq_ok (DeleteContainer i)" "keeps uniq_ok (SetInitialTaskState i st r)"
  "keeps uniq_ok (SetInitialTaskDelivered i cv)" "keeps uniq_ok (SetInitialTaskConversation i cv)"
  "keeps uniq_ok ListContainersWithTaskInProgress" "keeps uniq_ok (RetryInitialTask i)"
  unfolding containers_defs by (intro keeps_rules)+

lemma keeps_uniq_CreateContainer [keeps_rules]: "keeps uniq_ok (CreateContainer c)"
  unfolding CreateContainer_def Let_def by (intro keeps_rules)

section \<open>Every stored VM stays well formed\<close>

definition vm_row_ok :: "container \<Rightarrow> bool" where
  "vm_row_ok c \<longleftrightarrow> ValidAppPort (c_AppPort c) \<and> length (c_InitialTask c) \<le> MaxInitialTaskLen"

definition vms_ok :: "'z store_scheme \<Rightarrow> bool" where
  "vms_ok s \<longleftrightarrow> list_all vm_row_ok (t_containers s)"

interpretation vms: store_inv vms_ok
  by unfold_locales (simp add: vms_ok_def)

lemma vms_ok_frame:
  "vms_ok (t_users_update f1 s) = vms_ok s" "vms_ok (t_sessions_update f2 s) = vms_ok s"
  "vms_ok (t_aliases_update f4 s) = vms_ok s" "vms_ok (t_keys_update f5 s) = vms_ok s"
  "vms_ok (t_links_update f6 s) = vms_ok s" "vms_ok (t_settings_update f7 s) = vms_ok s"
  "vms_ok (t_sshkeys_update f8 s) = vms_ok s" "vms_ok (t_access_update f9 s) = vms_ok s"
  by (simp_all add: vms_ok_def)

lemma vms_ok_filter: "vms_ok s \<Longrightarrow> vms_ok (t_containers_update (filter P) s)"
  by (auto simp: vms_ok_def list_all_iff)

text \<open>A statement on another table cannot touch a VM.\<close>

lemma keeps_vms_other [keeps_rules]:
  "keeps vms_ok (exec (sql_insert t_users t_users_update uq1 fk1 r1))"
  "keeps vms_ok (exec (sql_insert t_sessions t_sessions_update uq2 fk2 r2))"
  "keeps vms_ok (exec (sql_insert t_aliases t_aliases_update uq4 fk4 r4))"
  "keeps vms_ok (exec (sql_insert t_keys t_keys_update uq5 fk5 r5))"
  "keeps vms_ok (exec (sql_insert t_links t_links_update uq6 fk6 r6))"
  "keeps vms_ok (exec (sql_insert t_sshkeys t_sshkeys_update uq8 fk8 r8))"
  "keeps vms_ok (exec (sql_insert t_access t_access_update uq9 fk9 r9))"
  "keeps vms_ok (exec (sql_update t_users t_users_update uq1 P1 f1))"
  "keeps vms_ok (exec (sql_update t_aliases t_aliases_update uq4 P4 f4))"
  "keeps vms_ok (exec (sql_upsert_setting k v))"
  by (rule vms.keeps_exec,
      auto simp: sql_insert_def sql_update_def sql_upsert_setting_def vms_ok_frame Let_def
        split: if_splits)+

lemma keeps_vms_delete [keeps_rules]:
  "keeps vms_ok (exec (sql_delete t_sessions t_sessions_update P2))"
  "keeps vms_ok (exec (\<lambda>s. sql_delete t_aliases t_aliases_update (P4 s) s))"
  "keeps vms_ok (exec (sql_delete t_aliases t_aliases_update P4'))"
  "keeps vms_ok (exec (sql_delete t_keys t_keys_update P5))"
  "keeps vms_ok (exec (\<lambda>s. sql_delete t_links t_links_update (P6 s) s))"
  "keeps vms_ok (exec (sql_delete t_links t_links_update P6'))"
  "keeps vms_ok (exec (sql_delete t_sshkeys t_sshkeys_update P8))"
  "keeps vms_ok (exec (\<lambda>s. sql_delete t_access t_access_update (P9 s) s))"
  "keeps vms_ok (exec (sql_delete t_access t_access_update P9'))"
  "keeps vms_ok (exec (sql_delete_containers P3))" "keeps vms_ok (exec (sql_delete_users P1))"
  by (rule vms.keeps_exec,
      auto simp: sql_delete_def sql_delete_containers_def sql_delete_users_def vms_ok_frame
        vms_ok_filter Let_def split: if_splits)+

lemmas vms_rules [keeps_rules] = vms.keeps_query vms.keeps_in_tx

text \<open>An update of VMs keeps them well formed when it writes neither column the invariant reads,
  or writes a checked port.\<close>

lemma keeps_vms_update:
  "(\<And>c. P c \<Longrightarrow> vm_row_ok c \<Longrightarrow> vm_row_ok (f c)) \<Longrightarrow>
   keeps vms_ok (exec (sql_update t_containers t_containers_update uq P f))"
  by (rule vms.keeps_exec)
     (auto simp: sql_update_def vms_ok_def list_all_iff Let_def split: if_splits)

lemma keeps_vms_insert:
  "vm_row_ok r \<Longrightarrow> keeps vms_ok (exec (sql_insert t_containers t_containers_update uq fk r))"
  by (rule vms.keeps_exec) (auto simp: sql_insert_def vms_ok_def split: if_splits)

lemma accounts_keep_vms [keeps_rules]:
  "keeps vms_ok (CreateUser u)" "keeps vms_ok (GetUserByID i)" "keeps vms_ok (GetUserByEmail e)"
  "keeps vms_ok (SetUserPassword i h)" "keeps vms_ok CountUsers" "keeps vms_ok (UpdateUser u)"
  "keeps vms_ok ListUsers" "keeps vms_ok (DeleteUser i)" "keeps vms_ok (NewSessionToken rnd)"
  "keeps vms_ok (GetSession t)" "keeps vms_ok (DeleteSession t)"
  "keeps vms_ok DeleteExpiredSessions" "keeps vms_ok (CreateSSHKey k)"
  "keeps vms_ok (ListSSHKeysByUser i)" "keeps vms_ok (DeleteSSHKey i o')"
  "keeps vms_ok (GetUserBySSHFingerprint fp)" "keeps vms_ok (GetSetting x d)"
  "keeps vms_ok (SetSetting x v)" "keeps vms_ok NestingAllowed" "keeps vms_ok (SetNestingAllowed b)"
  unfolding accounts_defs by (intro keeps_rules)+

lemma accounts_keep_vms' [keeps_rules]:
  "keeps vms_ok (EnsureUser i e)" "keeps vms_ok (CreateSession rnd i)"
  unfolding EnsureUser_def CreateSession_def Let_def by (intro keeps_rules)+

lemma containers_keep_vms [keeps_rules]:
  "keeps vms_ok (UpdateContainerPublish i p b)" "keeps vms_ok (UpdateContainerNesting i b)"
  "keeps vms_ok (SetNestingApplied i b)" "keeps vms_ok (AttachNestingPolicy cs)"
  "keeps vms_ok (GetContainerByID i)" "keeps vms_ok (ListContainersByOwner i)"
  "keeps vms_ok (GetContainerByName n i)" "keeps vms_ok (GetContainerByNameOnly n)"
  "keeps vms_ok (GetContainerByIncusName n)" "keeps vms_ok (UpdateContainerStatus i st ip)"
  "keeps vms_ok ListAllContainers" "keeps vms_ok (RenameContainer i n)"
  "keeps vms_ok (DeleteContainer i)" "keeps vms_ok (SetInitialTaskState i st r)"
  "keeps vms_ok (SetInitialTaskDelivered i cv)" "keeps vms_ok (SetInitialTaskConversation i cv)"
  "keeps vms_ok ListContainersWithTaskInProgress" "keeps vms_ok (RetryInitialTask i)"
  unfolding containers_defs
  by (intro keeps_rules keeps_vms_update; simp add: vm_row_ok_def)+

lemma keeps_vms_CreateContainer [keeps_rules]: "keeps vms_ok (CreateContainer c)"
  unfolding CreateContainer_def Let_def
  by (intro keeps_rules keeps_vms_insert) (auto simp: vm_row_ok_def scanContainer_def)

lemma keeps_vms_resume [keeps_rules]: "keeps vms_ok (CountInitialTaskResume cid)"
  unfolding CountInitialTaskResume_def
  by (intro keeps_rules vms.keeps_exec)
     (auto simp: sql_update_def vms_ok_def vm_row_ok_def list_all_iff Let_def
       split: if_splits sum.splits option.splits)

section \<open>Names\<close>

definition label_char :: "char \<Rightarrow> bool" where
  "label_char c \<longleftrightarrow> is_lower_alnum c \<or> c = CHR ''-''"

lemma label_char_byte:
  "label_char c \<Longrightarrow> byte c < 128 \<and> (byte c < 65 \<or> 90 < byte c) \<and> c \<noteq> CHR ''.'' \<and> c \<noteq> CHR '':''"
  by (auto simp: label_char_def is_lower_alnum_def is_digit_def byte_def)

lemma dns_label_chars: "dns_label s \<Longrightarrow> c \<in> set s \<Longrightarrow> label_char c"
proof -
  assume "dns_label s" and c: "c \<in> set s"
  then obtain x r where s: "s = x # r" and x: "is_lower_alnum x"
    and r: "r = [] \<or> is_lower_alnum (last r) \<and> (\<forall>y\<in>set (butlast r). label_char y)"
    by (cases s) (auto simp: dns_label_def label_char_def list_all_iff)
  have "r \<noteq> [] \<Longrightarrow> set r = insert (last r) (set (butlast r))"
    by (metis Un_insert_right append_butlast_last_id list.simps(15) set_append set_empty2 sup_bot.right_neutral)
  with s x r c show ?thesis by (cases "r = []") (auto simp: label_char_def)
qed

lemma dns_label_ends: "dns_label s \<Longrightarrow> s \<noteq> [] \<and> is_lower_alnum (hd s) \<and> is_lower_alnum (last s)"
  by (cases s) (auto simp: dns_label_def)

lemma ValidContainerName_label: "ValidContainerName n \<Longrightarrow> dns_label n"
  by (simp add: ValidContainerName_def)

lemma ValidContainerName_no_dot: "ValidContainerName n \<Longrightarrow> CHR ''.'' \<notin> set n"
  using ValidContainerName_label dns_label_chars label_char_byte by blast

section \<open>What DeleteContainer does\<close>

definition delete_container_rows :: "string \<Rightarrow> 'z store_scheme \<Rightarrow> 'z store_scheme" where
  "delete_container_rows cid s = s\<lparr>
     t_access := filter (\<lambda>p. fst p \<noteq> cid) (t_access s),
     t_aliases := filter (\<lambda>a. a_ContainerID a \<noteq> cid) (t_aliases s),
     t_containers := filter (\<lambda>c. c_ID c \<noteq> cid) (t_containers s)\<rparr>"

lemma does_delete_container:
  "does (exec (sql_delete_containers (\<lambda>c. c_ID c = cid)))
     (\<lambda>s. if fk_on s \<and> container_exists s cid
          then s\<lparr>t_containers := filter (\<lambda>c. c_ID c \<noteq> cid) (t_containers s),
                 t_aliases := filter (\<lambda>a. a_ContainerID a \<noteq> cid) (t_aliases s),
                 t_access := filter (\<lambda>p. fst p \<noteq> cid) (t_access s)\<rparr>
          else s\<lparr>t_containers := filter (\<lambda>c. c_ID c \<noteq> cid) (t_containers s)\<rparr>)"
proof (rule does_exec)
  fix s a t assume "sql_delete_containers (\<lambda>c. c_ID c = cid) s = Inr (a, t :: 'a store_scheme)"
  moreover have "set (map c_ID (filter (\<lambda>c. c_ID c = cid) (t_containers s)))
      = (if container_exists s cid then {cid} else {})"
    by (auto simp: container_exists_def)
  ultimately show "t = (if fk_on s \<and> container_exists s cid
          then s\<lparr>t_containers := filter (\<lambda>c. c_ID c \<noteq> cid) (t_containers s),
                 t_aliases := filter (\<lambda>a. a_ContainerID a \<noteq> cid) (t_aliases s),
                 t_access := filter (\<lambda>p. fst p \<noteq> cid) (t_access s)\<rparr>
          else s\<lparr>t_containers := filter (\<lambda>c. c_ID c \<noteq> cid) (t_containers s)\<rparr>)"
    by (cases s) (auto simp: sql_delete_containers_def Let_def simp del: set_map set_filter split: if_splits)
qed (simp add: blind_def container_exists_def)

lemma DeleteContainer_effect:
  assumes "DeleteContainer cid s = (Inr u, t)"
  shows "same_data (delete_container_rows cid s) t"
proof -
  from assms obtain s1 s2 s3 s4 a1 a2 a3 where
      b: "same_data s s1" and c: "same_data s4 t"
    and 1: "exec (sql_delete t_access t_access_update (\<lambda>p. fst p = cid)) s1 = (Inr a1, s2)"
    and 2: "exec (sql_delete t_aliases t_aliases_update (\<lambda>a. a_ContainerID a = cid)) s2 = (Inr a2, s3)"
    and 3: "exec (sql_delete_containers (\<lambda>c. c_ID c = cid)) s3 = (Inr a3, s4)"
    unfolding DeleteContainer_def by (elim in_tx_InrE bindE_InrE) (auto simp: void_Inr)
  note f = same_data_fields [OF b] does_fields [OF access.does_delete 1]
    does_fields [OF caliases.does_delete 2] does_fields [OF does_delete_container 3]
    same_data_fields [OF c]
  show ?thesis
    by (rule same_dataI; insert f) (auto simp: delete_container_rows_def split: if_splits)
qed

text \<open>C18: DeleteContainer is one transaction: on any schedule of engine failures it either fails
  with every table unchanged or removes exactly the VM, its custom domains and its guest grants.  A
  dead VM keeps no hostname claimed, with foreign keys on or off.\<close>

theorem DeleteContainer_refines:
  "case DeleteContainer cid s of
     (Inl e, t) \<Rightarrow> same_data s t
   | (Inr _, t) \<Rightarrow> same_data (delete_container_rows cid s) t"
  by (auto split: prod.split sum.split intro: DeleteContainer_effect)
     (auto simp: DeleteContainer_def intro: in_tx_error_same)

text \<open>A VM that has a share link cannot be deleted while foreign keys are enforced:
  \<^verbatim>\<open>shared_links\<close> references it with no ON DELETE clause and DeleteContainer does not
  remove the links, so the transaction fails and rolls back (the callers have already destroyed the
  instance by then).\<close>

theorem DeleteContainer_blocked_by_share:
  assumes "faults s = []" and "fk_on s" and "container_exists s cid"
    and "l \<in> set (t_links s)" and "l_ContainerID l = cid"
  shows "DeleteContainer cid s = (Inl ErrForeignKey, s)"
proof -
  have "list_ex (\<lambda>l. l_ContainerID l \<in> set (map c_ID (filter (\<lambda>c. c_ID c = cid) (t_containers s))))
      (t_links s)"
    using assms(3-5) by (auto simp: list_ex_iff container_exists_def image_iff intro!: bexI [of _ l])
  with assms(1,2) show ?thesis
    unfolding DeleteContainer_def
    by (intro in_tx_rollback)
       (simp_all add: bindE_def void_def exec_no_fault sql_delete_def
          sql_delete_containers_def Let_def del: set_map set_filter)
qed

section \<open>Creating and reading back\<close>

lemma uq_containers_find_id:
  "uq_containers cs \<Longrightarrow> c \<in> set cs \<Longrightarrow> find (\<lambda>d. c_ID d = c_ID c) cs = Some c"
  by (auto simp: uq_containers_def intro: find_unique_key)

text \<open>What CreateContainer stores is what GetContainerByID returns: the requested row with the
  default port filled in, the task trimmed and queued as pending exactly when it is not blank, no
  nesting in effect yet and both timestamps at the clock; and the stored port is publishable.\<close>

theorem CreateContainer_roundtrip:
  assumes "faults s = []" and "CreateContainer c s = (Inr c', t)"
  shows "GetContainerByID (c_ID c) t = (Inr (scanContainer (c\<lparr>
      c_AppPort := (if c_AppPort c = 0 then DefaultAppPort else c_AppPort c),
      c_InitialTask := TrimSpace (c_InitialTask c),
      c_InitialTaskState := (if TrimSpace (c_InitialTask c) = [] then [] else TaskPending),
      c_InitialTaskError := [], c_InitialTaskConversation := [], c_InitialTaskResumes := 0,
      c_NestingApplied := False, c_CreatedAt := clock s, c_UpdatedAt := clock s\<rparr>)), t)
    \<and> ValidAppPort (c_AppPort c')"
proof -
  let ?r = "scanContainer (c\<lparr>
      c_AppPort := (if c_AppPort c = 0 then DefaultAppPort else c_AppPort c),
      c_InitialTask := TrimSpace (c_InitialTask c),
      c_InitialTaskState := (if TrimSpace (c_InitialTask c) = [] then [] else TaskPending),
      c_InitialTaskError := [], c_InitialTaskConversation := [], c_InitialTaskResumes := 0,
      c_NestingApplied := False, c_CreatedAt := clock s, c_UpdatedAt := clock s\<rparr>)"
  have "t = s\<lparr>t_containers := t_containers s @ [?r]\<rparr> \<and> uq_containers (t_containers s @ [?r])
      \<and> ValidAppPort (c_AppPort c')"
    using assms
    by (auto simp: CreateContainer_def Let_def bindE_def exec_no_fault sql_insert_def scanContainer_def
        split: if_splits)
  moreover from this have "find (\<lambda>d. c_ID d = c_ID ?r) (t_containers s @ [?r]) = Some ?r"
    by (intro uq_containers_find_id) auto
  ultimately show ?thesis
    using assms(1)
    by (simp add: GetContainerByID_def get_container_def bindE_def exec_no_fault sql_row_def
        scanContainer_def)
qed

section \<open>Retrying a task\<close>

lemma uq_containers_map:
  assumes "\<And>c. c_ID (f c) = c_ID c" and "\<And>c. c_IncusName (f c) = c_IncusName c"
    and "\<And>c. c_OwnerID (f c) = c_OwnerID c" and "\<And>c. c_Name (f c) = c_Name c"
  shows "uq_containers (map f cs) = uq_containers cs"
  by (simp add: uq_containers_def comp_def assms)

text \<open>RetryInitialTask re-queues a failed task and nothing else.  It succeeds exactly when the VM
  has a task in state failed, which it then leaves pending with a cleared error, conversation and
  resume budget; in every other case it reports an error and changes nothing.\<close>

theorem RetryInitialTask_only_failed:
  assumes "faults s = []" and "uniq_ok s" and "c \<in> set (t_containers s)"
  shows "RetryInitialTask (c_ID c) s =
    (if c_InitialTask c \<noteq> [] \<and> c_InitialTaskState c = TaskFailed
     then (Inr (), s\<lparr>t_containers := map (\<lambda>d. if d = c
        then c\<lparr>c_InitialTaskState := TaskPending, c_InitialTaskError := [],
                c_InitialTaskConversation := [], c_InitialTaskResumes := 0, c_UpdatedAt := clock s\<rparr>
        else d) (t_containers s)\<rparr>)
     else (Inl (ErrInput ''no failed task to retry''), s))"
proof -
  let ?Q = "\<lambda>d. c_InitialTask d \<noteq> [] \<and> c_InitialTaskState d = TaskFailed"
  let ?f = "\<lambda>d. d\<lparr>c_InitialTaskState := TaskPending, c_InitialTaskError := [],
      c_InitialTaskConversation := [], c_InitialTaskResumes := 0, c_UpdatedAt := clock s\<rparr>"
  have u: "uq_containers (t_containers s)" using assms(2) by (simp add: uniq_ok_def)
  then have k: "distinct (map c_ID (t_containers s))" by (simp add: uq_containers_def)
  note m = map_by_key [OF k assms(3), of ?Q ?f] and n = filter_by_key [OF k assms(3), of ?Q]
  have "uq_containers (map (\<lambda>d. if c_ID d = c_ID c \<and> ?Q d then ?f d else d) (t_containers s))"
    using u by (subst uq_containers_map) simp_all
  then show ?thesis
    unfolding RetryInitialTask_def with_now_run bindE_def exec_no_fault [OF assms(1)] sql_update_def Let_def n
    unfolding m by (cases "?Q c") simp_all
qed

text \<open>Reading a row back after an update by its identifier.\<close>

lemma update_container_run:
  assumes "faults s = []" and "uq_containers (t_containers s)" and "c \<in> set (t_containers s)"
    and "\<And>d. c_ID (f d) = c_ID d" and "\<And>d. c_IncusName (f d) = c_IncusName d"
    and "\<And>d. c_OwnerID (f d) = c_OwnerID d" and "\<And>d. c_Name (f d) = c_Name d"
  shows "\<exists>cs n. update_container (c_ID c) f s = (Inr n, s\<lparr>t_containers := cs\<rparr>)
    \<and> find (\<lambda>d. c_ID d = c_ID c) cs = Some ((f c)\<lparr>c_UpdatedAt := clock s\<rparr>)"
proof -
  let ?g = "\<lambda>d. (f d)\<lparr>c_UpdatedAt := clock s\<rparr>"
  let ?cs = "map (\<lambda>d. if c_ID d = c_ID c then ?g d else d) (t_containers s)"
  have u: "uq_containers ?cs" using assms(2) by (subst uq_containers_map) (simp_all add: assms)
  have "?g c \<in> set ?cs" using assms(3) by (auto intro!: image_eqI [of _ _ c])
  with u have "find (\<lambda>d. c_ID d = c_ID (?g c)) ?cs = Some (?g c)" by (intro uq_containers_find_id)
  then have "find (\<lambda>d. c_ID d = c_ID c) ?cs = Some (?g c)" by (simp add: assms(4))
  moreover have "update_container (c_ID c) f s
      = (Inr (length (filter (\<lambda>d. c_ID d = c_ID c) (t_containers s))), s\<lparr>t_containers := ?cs\<rparr>)"
    using u unfolding update_container_def with_now_run exec_no_fault [OF assms(1)] sql_update_def Let_def by simp
  ultimately show ?thesis by blast
qed

text \<open>Instances.\<close>

theorem DeleteContainer_blocked_witness:
  "DeleteContainer ''c1'' (demo_store\<lparr>t_containers := [demo_vm ''c1'' ''web'' ''u1''],
      t_links := [\<lparr>l_ID = ''l1'', l_ContainerID = ''c1'', l_CreatedBy = ''u1'', l_Token = ''t'', l_ExpiresAt = None, l_CreatedAt = 0\<rparr>]\<rparr>)
   = (Inl ErrForeignKey, demo_store\<lparr>t_containers := [demo_vm ''c1'' ''web'' ''u1''],
      t_links := [\<lparr>l_ID = ''l1'', l_ContainerID = ''c1'', l_CreatedBy = ''u1'', l_Token = ''t'', l_ExpiresAt = None, l_CreatedAt = 0\<rparr>]\<rparr>)"
  by (rule DeleteContainer_blocked_by_share [where l = "\<lparr>l_ID = ''l1'', l_ContainerID = ''c1'', l_CreatedBy = ''u1'',
        l_Token = ''t'', l_ExpiresAt = None, l_CreatedAt = 0\<rparr>"])
     (simp_all add: demo_store_def demo_vm_def container_exists_def)

theorem CreateContainer_roundtrip_witness:
  "\<exists>t. CreateContainer (demo_vm ''c1'' ''web'' ''u1''\<lparr>c_AppPort := 0, c_NestingApplied := False\<rparr>)
       (demo_store\<lparr>t_users := [demo_user ''u1'' ''user'']\<rparr>)
     = (Inr (demo_vm ''c1'' ''web'' ''u1''\<lparr>c_NestingApplied := False\<rparr>), t)
   \<and> fst (GetContainerByID ''c1'' t) = Inr (demo_vm ''c1'' ''web'' ''u1''\<lparr>c_NestingApplied := False\<rparr>)"
proof -
  let ?c = "demo_vm ''c1'' ''web'' ''u1''\<lparr>c_AppPort := 0, c_NestingApplied := False\<rparr>"
  let ?d = "demo_vm ''c1'' ''web'' ''u1''\<lparr>c_NestingApplied := False\<rparr>"
  let ?s = "demo_store\<lparr>t_users := [demo_user ''u1'' ''user'']\<rparr>"
  have ts: "TrimSpace [] = []" by code_simp
  have r: "CreateContainer ?c ?s = (Inr ?d, ?s\<lparr>t_containers := [?d]\<rparr>)"
    by (simp add: CreateContainer_def Let_def bindE_def exec_no_fault sql_insert_def demo_store_def
        demo_vm_def demo_user_def user_exists_def uq_containers_def ValidAppPort_def AgentPort_def
        DefaultAppPort_def MaxInitialTaskLen_def ts scanContainer_def)
  have "?s = ?s\<lparr>faults := []\<rparr>" by (simp add: demo_store_def)
  then show ?thesis
    using CreateContainer_roundtrip [OF _ r] r
    by (auto simp: demo_store_def demo_vm_def scanContainer_def DefaultAppPort_def ts)
qed

theorem RetryInitialTask_witness:
  "RetryInitialTask ''c1'' (demo_store\<lparr>t_containers := [demo_vm ''c1'' ''web'' ''u1''
      \<lparr>c_InitialTask := ''build it'', c_InitialTaskState := ''failed'', c_InitialTaskResumes := 3\<rparr>]\<rparr>)
   = (Inr (), demo_store\<lparr>t_containers := [demo_vm ''c1'' ''web'' ''u1''
      \<lparr>c_InitialTask := ''build it'', c_InitialTaskState := ''pending'', c_InitialTaskResumes := 0\<rparr>]\<rparr>)"
proof -
  let ?c = "demo_vm ''c1'' ''web'' ''u1''
      \<lparr>c_InitialTask := ''build it'', c_InitialTaskState := ''failed'', c_InitialTaskResumes := 3\<rparr>"
  let ?s = "demo_store\<lparr>t_containers := [?c]\<rparr>"
  have "uniq_ok ?s" by (simp add: uniq_ok_def uq_defs demo_store_def)
  moreover have "faults ?s = []" "?c \<in> set (t_containers ?s)" by (simp_all add: demo_store_def)
  ultimately show ?thesis
    using RetryInitialTask_only_failed [of ?s ?c] by (simp add: demo_vm_def demo_store_def task_states)
qed

end
