(* ===== verification/Aliases_Db.thy ===== *)
theory Aliases_Db
  imports Containers_Db
begin

text \<open>
  Custom domains: \<^verbatim>\<open>src/internal/db/container_aliases.go\<close>.

  Any VM may claim a hostname; a claim is routed only once a DNS check has verified it, and at most
  one verified row per hostname is admitted (the partial unique index, \<open>uq_aliases\<close>).  The
  identifier \<^verbatim>\<open>uuid.NewString()\<close> returns is an argument of \<open>CreateContainerAlias\<close>.
  \<open>aliases_ok\<close> is the invariant: no VM holds more than its cap, and a row is verified exactly when it
  has a verification time.
\<close>

definition MaxAliasesPerContainer :: nat where "MaxAliasesPerContainer = 10"

text \<open>The loop over the labels: the first error, or none.\<close>

fun label_error :: "string list \<Rightarrow> dberr option" where
  "label_error [] = None"
| "label_error (l # ls) =
     (if l = [] then Some (ErrInput ''hostname has an empty label'')
      else if length l > 63 then Some (ErrInput ''label is longer than 63 characters'')
      else if \<not> dns_label l then Some (ErrInput ''label may only contain a-z, 0-9 and hyphens'')
      else label_error ls)"

definition ValidAliasHostname :: "(string \<Rightarrow> string) \<Rightarrow> string \<Rightarrow> string \<Rightarrow> dberr + string" where
  "ValidAliasHostname uni hostname domain =
     (let h = TrimSuffix (ToLower uni (TrimSpace hostname)) ''.'' in
      if h = [] then Inl (ErrInput ''hostname is empty'')
      else if length h > 253 then Inl (ErrInput ''hostname is longer than 253 characters'')
      else if \<not> Contains h ''.'' then Inl (ErrInput ''hostname must be a full domain name'')
      else case label_error (Split h CHR ''.'') of
        Some e \<Rightarrow> Inl e
      | None \<Rightarrow>
          if list_all is_digit (after_last h CHR ''.'')
          then Inl (ErrInput ''hostname must not end in a numeric label'')
          else
            let d = ToLower uni (TrimSpace domain) in
            if d \<noteq> [] \<and> (h = d \<or> HasSuffix h (''.'' @ d))
            then Inl (ErrInput ''already routed by this gateway'')
            else Inr h)"

definition isUniqueViolation :: "dberr \<Rightarrow> bool" where
  "isUniqueViolation e \<longleftrightarrow> e = ErrUnique"

definition countAliases :: "string \<Rightarrow> ('z, nat) dbm" where
  "countAliases cid = exec (sql_value (\<lambda>s. length (filter (\<lambda>a. a_ContainerID a = cid) (t_aliases s))))"

definition GetAliasByID :: "string \<Rightarrow> ('z, calias) dbm" where
  "GetAliasByID aid = exec (sql_row t_aliases (\<lambda>a. a_ID a = aid))"

text \<open>The spelling every lookup compares: trimmed, without the trailing dot, in lower case.\<close>

definition lookup_name :: "(string \<Rightarrow> string) \<Rightarrow> string \<Rightarrow> string" where
  "lookup_name uni hostname = ToLower uni (TrimSuffix (TrimSpace hostname) ''.'')"

definition GetVerifiedAliasByHostname :: "(string \<Rightarrow> string) \<Rightarrow> string \<Rightarrow> ('z, calias) dbm" where
  "GetVerifiedAliasByHostname uni hostname =
     exec (sql_row t_aliases (\<lambda>a. a_Hostname a = lookup_name uni hostname \<and> a_Verified a))"

text \<open>The second half of CreateContainerAlias, from the check for the VM's own claim on.\<close>

definition claim_hostname :: "string \<Rightarrow> string \<Rightarrow> string \<Rightarrow> ('z, calias) dbm" where
  "claim_hostname nid cid hostname =
     bindE (exec (sql_value (\<lambda>s. length (filter
       (\<lambda>a. a_ContainerID a = cid \<and> a_Hostname a = hostname) (t_aliases s))))) (\<lambda>mine.
     if mine > 0 then raise ErrAliasAlreadyOnVM
     else with_now (\<lambda>now. attempt
       (exec (sql_insert t_aliases t_aliases_update uq_aliases
         (\<lambda>s r. container_exists s (a_ContainerID r))
         \<lparr>a_ID = nid, a_ContainerID = cid, a_Hostname = hostname, a_Verified = False,
          a_VerifiedAt = None, a_LastError = [], a_CreatedAt = now\<rparr>))
       (\<lambda>e. if isUniqueViolation e then raise ErrAliasHostnameTaken else raise e)
       (\<lambda>_. GetAliasByID nid)))"

text \<open>Three reads and the insert, in no transaction: as one step here, while in the source another request's insert may come
  between the count and this one's.\<close>

definition CreateContainerAlias ::
  "(string \<Rightarrow> string) \<Rightarrow> string \<Rightarrow> string \<Rightarrow> string \<Rightarrow> ('z, calias) dbm" where
  "CreateContainerAlias uni nid cid hostname =
     bindE (countAliases cid) (\<lambda>count.
       if count \<ge> MaxAliasesPerContainer
       then raise (ErrInput ''a VM can have at most 10 custom domains'')
       else attempt (GetVerifiedAliasByHostname uni hostname)
              (\<lambda>e. if e \<noteq> ErrNoRows then raise e else claim_hostname nid cid hostname)
              (\<lambda>owner. if a_ContainerID owner \<noteq> cid then raise ErrAliasHostnameTaken
                        else claim_hostname nid cid hostname))"

definition ListAliasesByContainer :: "string \<Rightarrow> ('z, calias list) dbm" where
  "ListAliasesByContainer cid =
     bindE (exec (sql_rows t_aliases (\<lambda>a. a_ContainerID a = cid)))
       (\<lambda>as. ret (sort_key (\<lambda>a. (a_CreatedAt a, a_Hostname a)) as))"

text \<open>The two subqueries of the DELETE read the verified row; with no such row they are NULL and the
  comparison selects nothing.\<close>

definition competing :: "string \<Rightarrow> 'z store_scheme \<Rightarrow> calias \<Rightarrow> bool" where
  "competing aid s a \<longleftrightarrow>
     (case find (\<lambda>b. a_ID b = aid) (t_aliases s) of
        None \<Rightarrow> False
      | Some b \<Rightarrow> a_Hostname a = a_Hostname b \<and> a_ContainerID a \<noteq> a_ContainerID b \<and> \<not> a_Verified a)"

definition SetAliasVerification :: "string \<Rightarrow> bool \<Rightarrow> string \<Rightarrow> ('z, unit) dbm" where
  "SetAliasVerification aid verified reason =
     (if \<not> verified
      then void (exec (sql_update t_aliases t_aliases_update uq_aliases (\<lambda>a. a_ID a = aid)
             (\<lambda>a. a\<lparr>a_Verified := False, a_VerifiedAt := None, a_LastError := reason\<rparr>)))
      else in_tx (with_now (\<lambda>now. attempt
             (exec (sql_update t_aliases t_aliases_update uq_aliases (\<lambda>a. a_ID a = aid)
               (\<lambda>a. a\<lparr>a_Verified := True, a_VerifiedAt := Some now, a_LastError := []\<rparr>)))
             (\<lambda>e. if isUniqueViolation e then raise ErrAliasHostnameTaken else raise e)
             (\<lambda>_. void (exec (\<lambda>s. sql_delete t_aliases t_aliases_update (competing aid s) s))))))"

record alias_with_owner =
  ao_Alias :: calias
  ao_ContainerName :: string
  ao_OwnerID :: string
  ao_OwnerEmail :: string

definition ListAllAliases :: "('z, alias_with_owner list) dbm" where
  "ListAllAliases = exec (sql_value (\<lambda>s.
     sort_key (\<lambda>x. (a_Hostname (ao_Alias x), \<not> a_Verified (ao_Alias x), a_CreatedAt (ao_Alias x)))
       (concat (map (\<lambda>a. concat (map (\<lambda>c. map (\<lambda>u.
            \<lparr>ao_Alias = a, ao_ContainerName = c_Name c, ao_OwnerID = u_ID u, ao_OwnerEmail = u_Email u\<rparr>)
          (filter (\<lambda>u. u_ID u = c_OwnerID c) (t_users s)))
          (filter (\<lambda>c. c_ID c = a_ContainerID a) (t_containers s)))) (t_aliases s)))))"

definition ListAliasesByHostname :: "(string \<Rightarrow> string) \<Rightarrow> string \<Rightarrow> ('z, calias list) dbm" where
  "ListAliasesByHostname uni hostname =
     bindE (exec (sql_rows t_aliases (\<lambda>a. a_Hostname a = lookup_name uni hostname)))
       (\<lambda>as. ret (sort_key (\<lambda>a. (\<not> a_Verified a, a_CreatedAt a)) as))"

definition DeleteAliasesByHostname :: "(string \<Rightarrow> string) \<Rightarrow> string \<Rightarrow> ('z, nat) dbm" where
  "DeleteAliasesByHostname uni hostname =
     exec (sql_delete t_aliases t_aliases_update (\<lambda>a. a_Hostname a = lookup_name uni hostname))"

text \<open>NULL sorts before every time.\<close>

definition ListVerifiedAliases :: "('z, calias list) dbm" where
  "ListVerifiedAliases =
     bindE (exec (sql_rows t_aliases a_Verified))
       (\<lambda>as. ret (sort_key (\<lambda>a. case a_VerifiedAt a of None \<Rightarrow> (False, 0) | Some t \<Rightarrow> (True, t)) as))"

definition DeleteContainerAlias :: "string \<Rightarrow> ('z, unit) dbm" where
  "DeleteContainerAlias aid = void (exec (sql_delete t_aliases t_aliases_update (\<lambda>a. a_ID a = aid)))"

text \<open>The containers come back with their domains, or all with none beside the error.  The Go map is
  keyed by VM, so of two entries with one identifier the later takes the rows.\<close>

definition attach_rows :: "container list \<Rightarrow> calias list \<Rightarrow> container list" where
  "attach_rows cs as =
     map (\<lambda>(i, c). c\<lparr>c_Aliases :=
        (if list_ex (\<lambda>d. c_ID d = c_ID c) (drop (Suc i) cs) then []
         else filter (\<lambda>a. a_ContainerID a = c_ID c) as)\<rparr>) (enumerate 0 cs)"

definition AttachAliases :: "container list \<Rightarrow> ('z, container list \<times> dberr option) dbm" where
  "AttachAliases cs =
     (if cs = [] then ret ([], None)
      else attempt (exec (sql_rows t_aliases (\<lambda>a. list_ex (\<lambda>c. c_ID c = a_ContainerID a) cs)))
        (\<lambda>e. ret (map (c_Aliases_update (\<lambda>_. [])) cs, Some e))
        (\<lambda>as. ret (attach_rows cs (sort_key (\<lambda>a. (a_CreatedAt a, a_Hostname a)) as), None)))"

lemmas aliases_defs = countAliases_def GetAliasByID_def GetVerifiedAliasByHostname_def
  ListAliasesByContainer_def SetAliasVerification_def ListAllAliases_def ListAliasesByHostname_def
  DeleteAliasesByHostname_def ListVerifiedAliases_def DeleteContainerAlias_def AttachAliases_def

section \<open>Invariants\<close>

definition alias_row_ok :: "calias \<Rightarrow> bool" where
  "alias_row_ok a \<longleftrightarrow> (a_Verified a \<longleftrightarrow> a_VerifiedAt a \<noteq> None)"

definition aliases_ok :: "'z store_scheme \<Rightarrow> bool" where
  "aliases_ok s \<longleftrightarrow> list_all alias_row_ok (t_aliases s)
     \<and> (\<forall>cid. length (filter (\<lambda>a. a_ContainerID a = cid) (t_aliases s)) \<le> MaxAliasesPerContainer)"

interpretation alias_inv: store_inv aliases_ok
  by unfold_locales (simp add: aliases_ok_def)

lemma aliases_keep_uniq [keeps_rules]:
  "keeps uniq_ok (countAliases i)" "keeps uniq_ok (GetAliasByID i)"
  "keeps uniq_ok (GetVerifiedAliasByHostname uni h)" "keeps uniq_ok (ListAliasesByContainer i)"
  "keeps uniq_ok (SetAliasVerification i b r)" "keeps uniq_ok ListAllAliases"
  "keeps uniq_ok (ListAliasesByHostname uni h)" "keeps uniq_ok (DeleteAliasesByHostname uni h)"
  "keeps uniq_ok ListVerifiedAliases" "keeps uniq_ok (DeleteContainerAlias i)"
  "keeps uniq_ok (AttachAliases cs)"
  unfolding aliases_defs by (intro keeps_rules)+

lemma keeps_uniq_CreateContainerAlias [keeps_rules]:
  "keeps uniq_ok (CreateContainerAlias uni nid cid h)"
  unfolding CreateContainerAlias_def claim_hostname_def by (intro keeps_rules)

lemma aliases_keep_vms [keeps_rules]:
  "keeps vms_ok (countAliases i)" "keeps vms_ok (GetAliasByID i)"
  "keeps vms_ok (GetVerifiedAliasByHostname uni h)" "keeps vms_ok (ListAliasesByContainer i)"
  "keeps vms_ok (SetAliasVerification i b r)" "keeps vms_ok ListAllAliases"
  "keeps vms_ok (ListAliasesByHostname uni h)" "keeps vms_ok (DeleteAliasesByHostname uni h)"
  "keeps vms_ok ListVerifiedAliases" "keeps vms_ok (DeleteContainerAlias i)"
  "keeps vms_ok (AttachAliases cs)"
  unfolding aliases_defs by (intro keeps_rules)+

lemma keeps_vms_CreateContainerAlias [keeps_rules]:
  "keeps vms_ok (CreateContainerAlias uni nid cid h)"
  unfolding CreateContainerAlias_def claim_hostname_def by (intro keeps_rules)

lemma aliases_ok_frame:
  "aliases_ok (t_users_update f1 s) = aliases_ok s" "aliases_ok (t_sessions_update f2 s) = aliases_ok s"
  "aliases_ok (t_containers_update f3 s) = aliases_ok s" "aliases_ok (t_keys_update f5 s) = aliases_ok s"
  "aliases_ok (t_links_update f6 s) = aliases_ok s" "aliases_ok (t_settings_update f7 s) = aliases_ok s"
  "aliases_ok (t_sshkeys_update f8 s) = aliases_ok s" "aliases_ok (t_access_update f9 s) = aliases_ok s"
  by (simp_all add: aliases_ok_def)

lemma length_filter_filter_le:
  "length (filter P xs) \<le> n \<Longrightarrow> length (filter P (filter Q xs)) \<le> n"
proof -
  have "length (filter P (filter Q xs)) \<le> length (filter P xs)" by (induction xs) auto
  then show "length (filter P xs) \<le> n \<Longrightarrow> length (filter P (filter Q xs)) \<le> n" by linarith
qed

lemma aliases_ok_filter: "aliases_ok s \<Longrightarrow> aliases_ok (t_aliases_update (filter P) s)"
  unfolding aliases_ok_def by (auto simp: list_all_iff simp del: filter_filter intro: length_filter_filter_le)

lemma keeps_aliases_other [keeps_rules]:
  "keeps aliases_ok (exec (sql_insert t_users t_users_update uq1 fk1 r1))"
  "keeps aliases_ok (exec (sql_insert t_sessions t_sessions_update uq2 fk2 r2))"
  "keeps aliases_ok (exec (sql_insert t_containers t_containers_update uq3 fk3 r3))"
  "keeps aliases_ok (exec (sql_insert t_keys t_keys_update uq5 fk5 r5))"
  "keeps aliases_ok (exec (sql_insert t_links t_links_update uq6 fk6 r6))"
  "keeps aliases_ok (exec (sql_insert t_sshkeys t_sshkeys_update uq8 fk8 r8))"
  "keeps aliases_ok (exec (sql_insert t_access t_access_update uq9 fk9 r9))"
  "keeps aliases_ok (exec (sql_update t_users t_users_update uq1 P1 f1))"
  "keeps aliases_ok (exec (sql_update t_containers t_containers_update uq3 P3 f3))"
  "keeps aliases_ok (exec (sql_upsert_setting k v))"
  by (rule alias_inv.keeps_exec,
      auto simp: sql_insert_def sql_update_def sql_upsert_setting_def aliases_ok_frame Let_def
        split: if_splits)+

lemma keeps_aliases_delete [keeps_rules]:
  "keeps aliases_ok (exec (sql_delete t_sessions t_sessions_update P2))"
  "keeps aliases_ok (exec (\<lambda>s. sql_delete t_aliases t_aliases_update (P4 s) s))"
  "keeps aliases_ok (exec (sql_delete t_aliases t_aliases_update P4'))"
  "keeps aliases_ok (exec (sql_delete t_keys t_keys_update P5))"
  "keeps aliases_ok (exec (\<lambda>s. sql_delete t_links t_links_update (P6 s) s))"
  "keeps aliases_ok (exec (sql_delete t_links t_links_update P6'))"
  "keeps aliases_ok (exec (sql_delete t_sshkeys t_sshkeys_update P8))"
  "keeps aliases_ok (exec (\<lambda>s. sql_delete t_access t_access_update (P9 s) s))"
  "keeps aliases_ok (exec (sql_delete t_access t_access_update P9'))"
  "keeps aliases_ok (exec (sql_delete_containers P3))" "keeps aliases_ok (exec (sql_delete_users P1))"
  by (rule alias_inv.keeps_exec,
      auto simp: sql_delete_def sql_delete_containers_def sql_delete_users_def aliases_ok_frame
        aliases_ok_filter Let_def split: if_splits)+

lemmas alias_inv_rules [keeps_rules] = alias_inv.keeps_query alias_inv.keeps_in_tx

lemma keeps_aliases_update:
  assumes "\<And>a. alias_row_ok a \<Longrightarrow> alias_row_ok (f a)" and "\<And>a. a_ContainerID (f a) = a_ContainerID a"
  shows "keeps aliases_ok (exec (sql_update t_aliases t_aliases_update uq P f))"
proof (rule alias_inv.keeps_exec)
  fix s :: "'z store_scheme" and n t
  assume ok: "aliases_ok s" and "sql_update t_aliases t_aliases_update uq P f s = Inr (n, t)"
  then have t: "t = s\<lparr>t_aliases := map (\<lambda>r. if P r then f r else r) (t_aliases s)\<rparr>"
    by (auto simp: sql_update_def Let_def split: if_splits)
  have "length (filter (\<lambda>a. a_ContainerID a = cid) (t_aliases t))
      = length (filter (\<lambda>a. a_ContainerID a = cid) (t_aliases s))" for cid
    by (simp add: t filter_map comp_def assms(2) if_distrib [of a_ContainerID] cong: if_cong)
  with ok assms(1) show "aliases_ok t"
    by (auto simp: aliases_ok_def t list_all_iff)
qed

lemma accounts_keep_aliases [keeps_rules]:
  "keeps aliases_ok (CreateUser u)" "keeps aliases_ok (GetUserByID i)" "keeps aliases_ok (GetUserByEmail e)"
  "keeps aliases_ok (SetUserPassword i h)" "keeps aliases_ok CountUsers" "keeps aliases_ok (UpdateUser u)"
  "keeps aliases_ok ListUsers" "keeps aliases_ok (DeleteUser i)" "keeps aliases_ok (NewSessionToken rnd)"
  "keeps aliases_ok (GetSession t)" "keeps aliases_ok (DeleteSession t)"
  "keeps aliases_ok DeleteExpiredSessions" "keeps aliases_ok (CreateSSHKey k)"
  "keeps aliases_ok (ListSSHKeysByUser i)" "keeps aliases_ok (DeleteSSHKey i o')"
  "keeps aliases_ok (GetUserBySSHFingerprint fp)" "keeps aliases_ok (GetSetting x d)"
  "keeps aliases_ok (SetSetting x v)" "keeps aliases_ok NestingAllowed"
  "keeps aliases_ok (SetNestingAllowed b)"
  unfolding accounts_defs by (intro keeps_rules)+

lemma accounts_keep_aliases' [keeps_rules]:
  "keeps aliases_ok (EnsureUser i e)" "keeps aliases_ok (CreateSession rnd i)"
  unfolding EnsureUser_def CreateSession_def Let_def by (intro keeps_rules)+

lemma containers_keep_aliases [keeps_rules]:
  "keeps aliases_ok (UpdateContainerPublish i p b)" "keeps aliases_ok (UpdateContainerNesting i b)"
  "keeps aliases_ok (SetNestingApplied i b)" "keeps aliases_ok (AttachNestingPolicy cs)"
  "keeps aliases_ok (GetContainerByID i)" "keeps aliases_ok (ListContainersByOwner i)"
  "keeps aliases_ok (GetContainerByName n i)" "keeps aliases_ok (GetContainerByNameOnly n)"
  "keeps aliases_ok (GetContainerByIncusName n)" "keeps aliases_ok (UpdateContainerStatus i st ip)"
  "keeps aliases_ok ListAllContainers" "keeps aliases_ok (RenameContainer i n)"
  "keeps aliases_ok (DeleteContainer i)" "keeps aliases_ok (SetInitialTaskState i st r)"
  "keeps aliases_ok (SetInitialTaskDelivered i cv)" "keeps aliases_ok (SetInitialTaskConversation i cv)"
  "keeps aliases_ok ListContainersWithTaskInProgress" "keeps aliases_ok (RetryInitialTask i)"
  unfolding containers_defs by (intro keeps_rules)+

lemma keeps_aliases_resume [keeps_rules]: "keeps aliases_ok (CountInitialTaskResume cid)"
  unfolding CountInitialTaskResume_def
  by (intro keeps_rules alias_inv.keeps_exec)
     (auto simp: sql_update_def aliases_ok_frame Let_def split: if_splits sum.splits option.splits)

lemma keeps_aliases_CreateContainer [keeps_rules]: "keeps aliases_ok (CreateContainer c)"
  unfolding CreateContainer_def Let_def by (intro keeps_rules)

lemma aliases_keep_aliases [keeps_rules]:
  "keeps aliases_ok (countAliases i)" "keeps aliases_ok (GetAliasByID i)"
  "keeps aliases_ok (GetVerifiedAliasByHostname uni h)" "keeps aliases_ok (ListAliasesByContainer i)"
  "keeps aliases_ok ListAllAliases"
  "keeps aliases_ok (ListAliasesByHostname uni h)" "keeps aliases_ok (DeleteAliasesByHostname uni h)"
  "keeps aliases_ok ListVerifiedAliases" "keeps aliases_ok (DeleteContainerAlias i)"
  "keeps aliases_ok (AttachAliases cs)"
  unfolding aliases_defs by (intro keeps_rules)+

lemma keeps_aliases_SetAliasVerification [keeps_rules]:
  "keeps aliases_ok (SetAliasVerification i b r)"
  unfolding SetAliasVerification_def
  by (intro keeps_rules keeps_aliases_update; simp add: alias_row_ok_def)

text \<open>The cap is checked by a count that the following reads leave true, so the insert it guards
  cannot exceed it.\<close>

definition below_cap :: "string \<Rightarrow> 'z store_scheme \<Rightarrow> bool" where
  "below_cap cid s \<longleftrightarrow> aliases_ok s
     \<and> length (filter (\<lambda>a. a_ContainerID a = cid) (t_aliases s)) < MaxAliasesPerContainer"

interpretation below_cap: store_inv "below_cap cid"
  by unfold_locales (simp add: below_cap_def)

lemma count_hoare:
  "hoare aliases_ok (countAliases cid)
     (\<lambda>n s. aliases_ok s \<and> n = length (filter (\<lambda>a. a_ContainerID a = cid) (t_aliases s))) (\<lambda>_. aliases_ok)"
proof (rule hoareI)
  fix s s' :: "'a store_scheme" and e assume "aliases_ok s" "countAliases cid s = (Inl e, s')"
  then show "aliases_ok s'" by (metis alias_inv.same_data_I countAliases_def exec_error_same)
next
  fix s s' :: "'a store_scheme" and n assume "aliases_ok s" "countAliases cid s = (Inr n, s')"
  then show "aliases_ok s' \<and> n = length (filter (\<lambda>a. a_ContainerID a = cid) (t_aliases s'))"
    unfolding countAliases_def by (elim exec_InrE) (auto simp: sql_value_def)
qed

lemma insert_below_cap:
  assumes "a_ContainerID r = cid" and "alias_row_ok r"
  shows "hoare (below_cap cid) (exec (sql_insert t_aliases t_aliases_update uq fk r))
    (\<lambda>_. aliases_ok) (\<lambda>_. aliases_ok)"
proof (rule hoareI)
  fix s s' :: "'a store_scheme" and e
  assume "below_cap cid s" "exec (sql_insert t_aliases t_aliases_update uq fk r) s = (Inl e, s')"
  then show "aliases_ok s'" by (metis alias_inv.same_data_I below_cap_def exec_error_same)
next
  fix s s' :: "'a store_scheme" and u
  assume "below_cap cid s" "exec (sql_insert t_aliases t_aliases_update uq fk r) s = (Inr u, s')"
  with assms show "aliases_ok s'"
    by (elim exec_InrE) (auto simp: sql_insert_def below_cap_def aliases_ok_def split: if_splits)
qed

lemma claim_below_cap:
  "hoare (below_cap cid) (claim_hostname nid cid h) (\<lambda>_. aliases_ok) (\<lambda>_. aliases_ok)"
  unfolding claim_hostname_def with_now_def
proof (rule hoare_bindE [where R = "\<lambda>_. below_cap cid"])
  show "hoare (below_cap cid) (exec (sql_value f)) (\<lambda>_. below_cap cid) (\<lambda>_. aliases_ok)"
    for f :: "'a store_scheme \<Rightarrow> nat"
    by (rule hoare_conseq [OF below_cap.keeps_query(3) [unfolded keeps_hoare]]) (auto simp: below_cap_def)
next
  fix mine :: nat
  have ins: "hoare (below_cap cid) (attempt (exec (sql_insert t_aliases t_aliases_update uq_aliases fk r))
      (\<lambda>e. if isUniqueViolation e then raise ErrAliasHostnameTaken else raise e) (\<lambda>_. GetAliasByID nid))
      (\<lambda>_. aliases_ok) (\<lambda>_. aliases_ok)" if "a_ContainerID r = cid" "alias_row_ok r"
      for fk r and cid :: string
    by (rule hoare_attempt [OF insert_below_cap [OF that]])
       (auto intro!: hoare_if hoare_raise aliases_keep_aliases [unfolded keeps_hoare])
  show "hoare (below_cap cid)
     (if 0 < mine then raise ErrAliasAlreadyOnVM
      else bindE (gets clock) (\<lambda>now. attempt
       (exec (sql_insert t_aliases t_aliases_update uq_aliases
         (\<lambda>s r. container_exists s (a_ContainerID r))
         \<lparr>a_ID = nid, a_ContainerID = cid, a_Hostname = h, a_Verified = False,
          a_VerifiedAt = None, a_LastError = [], a_CreatedAt = now\<rparr>))
       (\<lambda>e. if isUniqueViolation e then raise ErrAliasHostnameTaken else raise e)
       (\<lambda>_. GetAliasByID nid)))
     (\<lambda>_. aliases_ok) (\<lambda>_. aliases_ok)"
    by (intro hoare_if hoare_bindE [where R = "\<lambda>_. below_cap cid"] ins)
       (auto simp: hoare_def below_cap_def alias_row_ok_def)
qed

lemma keeps_aliases_CreateContainerAlias [keeps_rules]:
  "keeps aliases_ok (CreateContainerAlias uni nid cid h)"
  unfolding keeps_hoare CreateContainerAlias_def
proof (rule hoare_bindE [OF count_hoare])
  fix count
  have stop: "hoare (below_cap cid) (raise e) (\<lambda>_. aliases_ok) (\<lambda>_. aliases_ok)" for e
    by (rule hoare_raise) (simp add: below_cap_def)
  have att: "hoare (below_cap cid) (attempt (GetVerifiedAliasByHostname uni h)
        (\<lambda>e. if e \<noteq> ErrNoRows then raise e else claim_hostname nid cid h)
        (\<lambda>owner. if a_ContainerID owner \<noteq> cid then raise ErrAliasHostnameTaken else claim_hostname nid cid h))
      (\<lambda>_. aliases_ok) (\<lambda>_. aliases_ok)"
    unfolding GetVerifiedAliasByHostname_def
    by (rule hoare_attempt [OF below_cap.keeps_query(1) [unfolded keeps_hoare]]; intro hoare_if stop claim_below_cap)
  show "hoare (\<lambda>s. aliases_ok s \<and> count = length (filter (\<lambda>a. a_ContainerID a = cid) (t_aliases s)))
      (if MaxAliasesPerContainer \<le> count then raise (ErrInput ''a VM can have at most 10 custom domains'')
       else attempt (GetVerifiedAliasByHostname uni h)
        (\<lambda>e. if e \<noteq> ErrNoRows then raise e else claim_hostname nid cid h)
        (\<lambda>owner. if a_ContainerID owner \<noteq> cid then raise ErrAliasHostnameTaken else claim_hostname nid cid h))
      (\<lambda>_. aliases_ok) (\<lambda>_. aliases_ok)"
    by (intro hoare_if hoare_raise hoare_conseq [OF att]) (auto simp: below_cap_def)
qed

section \<open>Hostnames\<close>

definition alias_name_ok :: "string \<Rightarrow> bool" where
  "alias_name_ok h \<longleftrightarrow> list_all dns_label (Split h CHR ''.'') \<and> CHR ''.'' \<in> set h \<and> length h \<le> 253
     \<and> \<not> list_all is_digit (after_last h CHR ''.'')"

lemma dns_label_length: "dns_label l \<Longrightarrow> l \<noteq> [] \<and> length l \<le> 63"
  by (cases l) (auto simp: dns_label_def)

lemma label_error_None: "label_error ls = None \<longleftrightarrow> list_all dns_label ls"
  by (induction ls) (auto dest: dns_label_length)

lemma alias_name_chars:
  assumes "alias_name_ok h" and "c \<in> set h"
  shows "label_char c \<or> c = CHR ''.''"
  using assms set_Split [of h "CHR ''.''"] dns_label_chars
  by (fastforce simp: alias_name_ok_def list_all_iff)

lemma alias_name_ends:
  assumes "alias_name_ok h"
  shows "h \<noteq> [] \<and> is_lower_alnum (hd h) \<and> is_lower_alnum (last h)"
proof -
  have "dns_label (hd (Split h CHR ''.''))" "dns_label (last (Split h CHR ''.''))"
    using assms by (auto simp: alias_name_ok_def list_all_iff)
  then show ?thesis
    using Split_first Split_last dns_label_ends by metis
qed

lemma alias_name_fixed:
  assumes "alias_name_ok h"
  shows "TrimSpace h = h" and "ToLower uni h = h" and "TrimSuffix h ''.'' = h"
proof -
  note e = alias_name_ends [OF assms]
  show "TrimSpace h = h" using e by (intro TrimSpace_id) (simp add: alnum_no_space)
  show "ToLower uni h = h"
    by (rule ToLower_fixed) (use alias_name_chars [OF assms] label_char_byte in \<open>fastforce simp: byte_def\<close>)
  have "last h \<noteq> CHR ''.''" using e by (auto simp: is_lower_alnum_def is_digit_def byte_def)
  then have "\<not> HasSuffix h ''.''" by (auto simp: HasSuffix_iff)
  then show "TrimSuffix h ''.'' = h" by (rule TrimSuffix_same)
qed

lemma lookup_name_fixed: "alias_name_ok h \<Longrightarrow> lookup_name uni h = h"
  by (simp add: lookup_name_def alias_name_fixed)

lemma ValidAliasHostname_name:
  "ValidAliasHostname uni hostname domain = Inr h \<Longrightarrow> alias_name_ok h"
  by (auto simp: ValidAliasHostname_def alias_name_ok_def Let_def label_error_None
      Contains_char split: if_splits option.splits)

lemma ValidAliasHostname_accepts:
  "ValidAliasHostname uni h domain = Inr h \<longleftrightarrow>
    alias_name_ok h \<and> (let d = ToLower uni (TrimSpace domain) in d = [] \<or> h \<noteq> d \<and> \<not> HasSuffix h (''.'' @ d))"
proof
  assume v: "ValidAliasHostname uni h domain = Inr h"
  then show "alias_name_ok h \<and> (let d = ToLower uni (TrimSpace domain) in d = [] \<or> h \<noteq> d \<and> \<not> HasSuffix h (''.'' @ d))"
    using ValidAliasHostname_name [OF v]
    by (auto simp: ValidAliasHostname_def Let_def alias_name_fixed split: if_splits option.splits)
next
  assume a: "alias_name_ok h \<and> (let d = ToLower uni (TrimSpace domain) in d = [] \<or> h \<noteq> d \<and> \<not> HasSuffix h (''.'' @ d))"
  then have "label_error (Split h CHR ''.'') = None" by (simp add: alias_name_ok_def label_error_None)
  with a alias_name_ends [of h] show "ValidAliasHostname uni h domain = Inr h"
    by (auto simp: ValidAliasHostname_def Let_def alias_name_fixed alias_name_ok_def Contains_char)
qed

text \<open>Whatever text an owner submits, a hostname ValidAliasHostname accepts is a canonical domain
  name (at least two DNS labels, at most 253 bytes, the last not a number) outside the gateway's own
  domain; it is a fixed point of the validation, and the spelling under which
  GetVerifiedAliasByHostname looks a Host header up.\<close>

theorem ValidAliasHostname_canonical:
  assumes "ValidAliasHostname uni hostname domain = Inr h"
  shows "alias_name_ok h \<and> lookup_name uni h = h \<and> ValidAliasHostname uni h domain = Inr h
    \<and> (let d = ToLower uni (TrimSpace domain) in d = [] \<or> h \<noteq> d \<and> \<not> HasSuffix h (''.'' @ d))"
proof -
  have ok: "alias_name_ok h" by (rule ValidAliasHostname_name [OF assms])
  moreover have "let d = ToLower uni (TrimSpace domain) in d = [] \<or> h \<noteq> d \<and> \<not> HasSuffix h (''.'' @ d)"
    using assms by (auto simp: ValidAliasHostname_def Let_def split: if_splits option.splits)
  ultimately show ?thesis by (simp add: ValidAliasHostname_accepts lookup_name_fixed)
qed

section \<open>Verification\<close>

definition verified_row :: "int \<Rightarrow> calias \<Rightarrow> calias" where
  "verified_row now a = a\<lparr>a_Verified := True, a_VerifiedAt := Some now, a_LastError := []\<rparr>"

lemma verified_row_simps [simp]:
  "a_ID (verified_row n a) = a_ID a" "a_Hostname (verified_row n a) = a_Hostname a"
  "a_ContainerID (verified_row n a) = a_ContainerID a" "a_Verified (verified_row n a)"
  by (simp_all add: verified_row_def)

text \<open>The two statements of a successful verification: the row is marked, which the partial unique
  index admits, and then the competing claims are dropped.\<close>

lemma SetAliasVerification_steps:
  fixes s t :: "'z store_scheme"
  assumes "SetAliasVerification aid True reason s = (Inr u, t)"
  obtains rows and s1 :: "'z store_scheme" where "rows = map (\<lambda>a. if a_ID a = aid then verified_row (clock s) a else a) (t_aliases s)"
    and "uq_aliases rows" and "t_aliases s1 = rows"
    and "t_aliases t = filter (\<lambda>a. \<not> competing aid s1 a) rows"
proof -
  from assms obtain s1 s2 s3 n m where b: "same_data s s1" and c: "same_data s3 t"
    and 1: "exec (sql_update t_aliases t_aliases_update uq_aliases (\<lambda>a. a_ID a = aid)
        (verified_row (clock s1))) s1 = (Inr n, s2)"
    and 2: "exec (\<lambda>s. sql_delete t_aliases t_aliases_update (competing aid s) s) s2 = (Inr m, s3)"
    unfolding SetAliasVerification_def verified_row_def
    by (auto simp: attempt_def void_Inr split: prod.splits sum.splits if_splits elim!: in_tx_InrE)
  have del: "t_aliases s3 = filter (\<lambda>a. \<not> competing aid s2 a) (t_aliases s2)"
    using 2 by (elim exec_InrE) (auto simp: sql_delete_def competing_def)
  show thesis
    using caliases.update_ok [OF 1] del same_data_fields [OF b] same_data_fields [OF c]
    by (intro that [of _ s2]) auto
qed

text \<open>C12: once a claim has been verified, its VM holds the hostname alone.  After
  SetAliasVerification succeeds, the row it verified is the only one left with that hostname (every
  claim of another VM is gone), and no row of another hostname has changed.\<close>

theorem SetAliasVerification_exclusive:
  fixes s t :: "'z store_scheme"
  assumes "uniq_ok s" and "a \<in> set (t_aliases s)"
    and "SetAliasVerification (a_ID a) True reason s = (Inr u, t)"
  shows "filter (\<lambda>b. a_Hostname b = a_Hostname a) (t_aliases t)
      = [verified_row (clock s) a]
    \<and> filter (\<lambda>b. a_Hostname b \<noteq> a_Hostname a) (t_aliases t)
      = filter (\<lambda>b. a_Hostname b \<noteq> a_Hostname a) (t_aliases s)"
proof -
  let ?v = "verified_row (clock s) a"
  from assms(3) obtain rows and s1 :: "'z store_scheme"
    where rows: "rows = map (\<lambda>b. if a_ID b = a_ID a then verified_row (clock s) b else b) (t_aliases s)"
      and uq: "uq_aliases rows" and s1: "t_aliases s1 = rows"
      and t: "t_aliases t = filter (\<lambda>b. \<not> competing (a_ID a) s1 b) rows"
    by (rule SetAliasVerification_steps)
  have in_rows: "?v \<in> set rows" using assms(2) rows by force
  have ids: "distinct (map a_ID rows)" using uq by (simp add: uq_aliases_def)
  have "find (\<lambda>b. a_ID b = a_ID ?v) rows = Some ?v" by (rule find_unique_key [OF ids in_rows])
  then have comp: "competing (a_ID a) s1 b \<longleftrightarrow>
      a_Hostname b = a_Hostname a \<and> a_ContainerID b \<noteq> a_ContainerID a \<and> \<not> a_Verified b" for b
    by (simp add: competing_def s1)
  then have other: "(\<not> competing (a_ID a) s1 b \<and> a_Hostname b \<noteq> a_Hostname a) = (a_Hostname b \<noteq> a_Hostname a)" for b
    by blast
  have only: "b = ?v" if "b \<in> set rows" "a_Hostname b = a_Hostname a" "\<not> competing (a_ID a) s1 b" for b
  proof (cases "a_Verified b")
    case True
    with that in_rows have "b \<in> set (filter a_Verified rows)" "?v \<in> set (filter a_Verified rows)" by auto
    with uq that show ?thesis by (auto simp: uq_aliases_def intro: distinct_map_eqD [of a_Hostname])
  next
    case False
    with that(2,3) have "(a_ContainerID b, a_Hostname b) = (a_ContainerID ?v, a_Hostname ?v)"
      unfolding comp by simp
    with that(1) in_rows uq show ?thesis
      unfolding uq_aliases_def by (metis (mono_tags, lifting) distinct_map_eqD)
  qed
  have "filter (\<lambda>b. a_Hostname b = a_Hostname a) (t_aliases t) = [?v]"
    unfolding t
  proof (rule filter_single [OF distinct_map_filter [OF ids]])
    show "?v \<in> set (filter (\<lambda>b. \<not> competing (a_ID a) s1 b) rows)" using in_rows by (simp add: comp)
    show "y = ?v" if "y \<in> set (filter (\<lambda>b. \<not> competing (a_ID a) s1 b) rows)" "a_Hostname y = a_Hostname a" for y
      using that only by (simp del: verified_row_simps)
  qed simp
  moreover have "filter (\<lambda>b. a_Hostname b \<noteq> a_Hostname a) (t_aliases t)
      = filter (\<lambda>b. a_Hostname b \<noteq> a_Hostname a) rows"
    unfolding t filter_filter other ..
  moreover have "filter (\<lambda>b. a_Hostname b \<noteq> a_Hostname a) rows
      = filter (\<lambda>b. a_Hostname b \<noteq> a_Hostname a) (t_aliases s)"
    unfolding rows
    by (rule filter_map_by_key) (use assms(1,2) in \<open>simp_all add: uniq_ok_def uq_aliases_def\<close>)
  ultimately show ?thesis by simp
qed

text \<open>The first VM to prove a hostname keeps it.  While one VM's claim is verified, verifying
  another claim on the same hostname is refused with ErrAliasHostnameTaken and changes nothing.\<close>

theorem SetAliasVerification_taken:
  assumes "faults s = []" and "a \<in> set (t_aliases s)" and "b \<in> set (t_aliases s)"
    and "a_ID a \<noteq> a_ID b" and "a_Hostname a = a_Hostname b" and "a_Verified b"
  shows "SetAliasVerification (a_ID a) True reason s = (Inl ErrAliasHostnameTaken, s)"
proof -
  let ?rows = "map (\<lambda>x. if a_ID x = a_ID a then verified_row (clock s) x else x) (t_aliases s)"
  have "verified_row (clock s) a \<in> set (filter a_Verified ?rows)" "b \<in> set (filter a_Verified ?rows)"
    using assms by force+
  moreover have "verified_row (clock s) a \<noteq> b" using assms(4) by auto
  ultimately have "\<not> uq_aliases ?rows"
    using assms(5) distinct_map_eqD [of a_Hostname "filter a_Verified ?rows" "verified_row (clock s) a" b]
    by (auto simp: uq_aliases_def)
  with assms(1) show ?thesis
    unfolding SetAliasVerification_def verified_row_def [abs_def]
    by (simp, intro in_tx_rollback)
       (simp_all add: attempt_def exec_no_fault sql_update_def Let_def isUniqueViolation_def)
qed

text \<open>Instances: a pasted name with a trailing dot and capitals; two VMs claiming one name.\<close>

theorem ValidAliasHostname_canonical_witness:
  "ValidAliasHostname id '' App.Example.ORG. '' ''gw.test'' = Inr ''app.example.org''
   \<and> lookup_name id ''app.example.org'' = ''app.example.org''"
proof -
  have "ValidAliasHostname id '' App.Example.ORG. '' ''gw.test'' = Inr ''app.example.org''" by code_simp
  with ValidAliasHostname_canonical [OF this] show ?thesis by blast
qed

definition demo_claims :: store where
  "demo_claims = demo_store\<lparr>t_containers := [demo_vm ''c1'' ''web'' ''u1'', demo_vm ''c2'' ''web'' ''u2''],
     t_aliases := [demo_alias ''a1'' ''c1'' ''x.org'' False, demo_alias ''a2'' ''c2'' ''x.org'' False]\<rparr>"

theorem SetAliasVerification_exclusive_witness:
  "filter (\<lambda>b. a_Hostname b = ''x.org'') (t_aliases (snd (SetAliasVerification ''a2'' True [] demo_claims)))
    = [verified_row 0 (demo_alias ''a2'' ''c2'' ''x.org'' False)]"
proof -
  let ?a = "demo_alias ''a2'' ''c2'' ''x.org'' False"
  have u: "uniq_ok demo_claims"
    by (simp add: demo_claims_def demo_store_def uniq_ok_def uq_defs demo_vm_def demo_alias_def)
  have m: "?a \<in> set (t_aliases demo_claims)" and n: "a_ID ?a = ''a2''" "a_Hostname ?a = ''x.org''"
    and k: "clock demo_claims = 0"
    by (simp_all add: demo_claims_def demo_alias_def demo_store_def)
  obtain t where r: "SetAliasVerification (a_ID ?a) True [] demo_claims = (Inr (), t)"
    by (simp add: SetAliasVerification_def demo_claims_def demo_store_def demo_alias_def in_tx_def exec_no_fault
        sql_nop_def attempt_def sql_update_def Let_def void_def bindE_def sql_delete_def uq_aliases_def)
  show ?thesis
    using SetAliasVerification_exclusive [OF u m r] r k unfolding n by simp
qed

theorem SetAliasVerification_taken_witness:
  "SetAliasVerification ''a2'' True [] (demo_store\<lparr>t_aliases :=
      [demo_alias ''a1'' ''c1'' ''x.org'' True, demo_alias ''a2'' ''c2'' ''x.org'' False]\<rparr>)
   = (Inl ErrAliasHostnameTaken, demo_store\<lparr>t_aliases :=
      [demo_alias ''a1'' ''c1'' ''x.org'' True, demo_alias ''a2'' ''c2'' ''x.org'' False]\<rparr>)"
  using SetAliasVerification_taken [of "demo_store\<lparr>t_aliases :=
      [demo_alias ''a1'' ''c1'' ''x.org'' True, demo_alias ''a2'' ''c2'' ''x.org'' False]\<rparr>"
      "demo_alias ''a2'' ''c2'' ''x.org'' False" "demo_alias ''a1'' ''c1'' ''x.org'' True" "[]"]
  by (simp add: demo_store_def demo_alias_def)

end
