(* ===== verification/Access_Db.thy ===== *)
theory Access_Db
  imports Aliases_Db
begin

text \<open>
  Who may use a VM: \<^verbatim>\<open>src/internal/db/access.go\<close> and
  \<^verbatim>\<open>access_context.go\<close>.

  An owner invites a guest by e-mail address and SSH public key.  The parsers of the two
  (\<^verbatim>\<open>net/mail\<close>, \<^verbatim>\<open>golang.org/x/crypto/ssh\<close>) are arguments:
  \<open>parse_address\<close> gives the address of a parsed mailbox, \<open>parse_key\<close> an authorized key with the
  fingerprint and the canonical line that package derives from it.  The two identifiers
  \<^verbatim>\<open>uuid.NewString()\<close> returns are arguments as well.
\<close>

definition GuestRole :: string where
  "GuestRole = ''guest''"

record parsed_key =
  pk_Options :: "string list"
  pk_Rest :: string
  pk_Certificate :: bool
  pk_Fingerprint :: string
  pk_Marshal :: string

definition has_grant :: "'z store_scheme \<Rightarrow> string \<Rightarrow> string \<Rightarrow> bool" where
  "has_grant s cid uid \<longleftrightarrow> (cid, uid) \<in> set (t_access s)"

definition can_use :: "'z store_scheme \<Rightarrow> string \<Rightarrow> string \<Rightarrow> bool" where
  "can_use s cid uid \<longleftrightarrow> user_exists s uid \<and>
     list_ex (\<lambda>c. c_ID c = cid \<and> (c_OwnerID c = uid \<or> has_grant s (c_ID c) uid)) (t_containers s)"

text \<open>A failing query means no.\<close>

definition CanUseContainer :: "string \<Rightarrow> string \<Rightarrow> ('z, bool) dbm" where
  "CanUseContainer cid uid = attempt (exec (sql_value (\<lambda>s. can_use s cid uid))) (\<lambda>_. ret False) ret"

definition accessible :: "'z store_scheme \<Rightarrow> string \<Rightarrow> container list" where
  "accessible s uid =
     map (\<lambda>c. (scanContainer c)\<lparr>c_SharedAccess := (c_OwnerID c \<noteq> uid)\<rparr>)
       (sort_key (\<lambda>c. - c_CreatedAt c)
         (filter (\<lambda>c. c_OwnerID c = uid \<or> has_grant s (c_ID c) uid) (t_containers s)))"

definition ListAccessibleContainers :: "string \<Rightarrow> ('z, container list) dbm" where
  "ListAccessibleContainers uid = exec (sql_value (\<lambda>s. accessible s uid))"

fun find_accessible_name :: "container list \<Rightarrow> string \<Rightarrow> container option \<Rightarrow> dberr + container" where
  "find_accessible_name [] ref found =
     (case found of None \<Rightarrow> Inl ErrNoRows | Some c \<Rightarrow> Inr c)"
| "find_accessible_name (c # cs) ref found =
     (if c_Name c = ref
      then (if found \<noteq> None then Inl (ErrInput ''ambiguous VM name; use the VM ID or Incus name'')
            else find_accessible_name cs ref (Some c))
      else find_accessible_name cs ref found)"

definition uniqueAccessibleName :: "container list \<Rightarrow> string \<Rightarrow> dberr + container" where
  "uniqueAccessibleName cs ref = find_accessible_name cs ref None"

definition of_result :: "'e + 'a \<Rightarrow> ('s, 'e, 'a) sm" where
  "of_result r = (\<lambda>s. (r, s))"

definition ResolveAccessibleContainer :: "string \<Rightarrow> string \<Rightarrow> ('z, container) dbm" where
  "ResolveAccessibleContainer ref uid = bindE (ListAccessibleContainers uid) (\<lambda>cs.
     case find (\<lambda>c. c_ID c = ref \<or> c_IncusName c = ref) cs of
       Some c \<Rightarrow> ret c
     | None \<Rightarrow> of_result (uniqueAccessibleName cs ref))"

definition GetAccessibleContainerByName :: "string \<Rightarrow> string \<Rightarrow> ('z, container) dbm" where
  "GetAccessibleContainerByName name uid = bindE (ListAccessibleContainers uid) (\<lambda>cs.
     of_result (uniqueAccessibleName cs name))"

text \<open>The permission both Grant and Revoke check: the caller owns the VM and is no guest.\<close>

definition may_share :: "'z store_scheme \<Rightarrow> string \<Rightarrow> string \<Rightarrow> bool" where
  "may_share s cid owner \<longleftrightarrow>
     list_ex (\<lambda>c. c_ID c = cid \<and> c_OwnerID c = owner \<and>
       list_ex (\<lambda>u. u_ID u = c_OwnerID c \<and> u_Role u \<noteq> GuestRole) (t_users s)) (t_containers s)"

text \<open>SQLite's \<^verbatim>\<open>lower\<close> maps ASCII letters only.\<close>

definition sql_lower :: "string \<Rightarrow> string" where
  "sql_lower = map ascii_lower"

text \<open>\<^verbatim>\<open>INSERT INTO container_access ... ON CONFLICT DO NOTHING\<close>.\<close>

definition sql_grant :: "string \<times> string \<Rightarrow> ('z, unit) stmt" where
  "sql_grant p s = (if p \<in> set (t_access s) then Inr ((), s)
     else sql_insert t_access t_access_update uq_access
       (\<lambda>s p. container_exists s (fst p) \<and> user_exists s (snd p)) p s)"

text \<open>The account to share with: a fresh guest bound to the key, or an existing one that already has it.\<close>

definition guest_account :: "string \<Rightarrow> string \<Rightarrow> string \<Rightarrow> parsed_key \<Rightarrow> ('z, string) dbm" where
  "guest_account uuid1 uuid2 email key =
     attempt (exec (sql_row t_users (\<lambda>u. sql_lower (u_Email u) = sql_lower email)))
       (\<lambda>e. if e \<noteq> ErrNoRows then raise e
            else with_now (\<lambda>now.
              bindE (exec (sql_insert t_users t_users_update uq_users (\<lambda>_ _. True)
                \<lparr>u_ID = uuid1, u_Email = email, u_DisplayName = email, u_Role = GuestRole,
                 u_PasswordHash = [], u_DefaultModel = [], u_CreatedAt = now\<rparr>)) (\<lambda>_.
              attempt (exec (sql_insert t_sshkeys t_sshkeys_update uq_sshkeys
                  (\<lambda>s k. user_exists s (k_UserID k))
                  \<lparr>k_ID = uuid2, k_UserID = uuid1, k_Fingerprint = pk_Fingerprint key,
                   k_PublicKey = pk_Marshal key, k_Name = ''Invitation'', k_CreatedAt = now\<rparr>))
                (\<lambda>_. raise (ErrInput ''SSH key is already registered or could not be saved''))
                (\<lambda>_. ret uuid1))))
       (\<lambda>u. bindE (exec (sql_value (\<lambda>s. list_ex (\<lambda>k. k_UserID k = u_ID u
                \<and> k_Fingerprint k = pk_Fingerprint key) (t_sshkeys s)))) (\<lambda>matches.
            if \<not> matches
            then raise (ErrInput ''existing account requires one of its already registered SSH keys'')
            else ret (u_ID u)))"

definition grant_tx ::
  "string \<Rightarrow> string \<Rightarrow> string \<Rightarrow> string \<Rightarrow> string \<Rightarrow> parsed_key \<Rightarrow> ('z, unit) dbm" where
  "grant_tx uuid1 uuid2 owner cid email key = in_tx
     (bindE (exec (sql_value (\<lambda>s. may_share s cid owner))) (\<lambda>permitted.
      if \<not> permitted then raise ErrAccessDenied
      else bindE (guest_account uuid1 uuid2 email key) (\<lambda>uid.
        if uid = owner then raise (ErrInput ''the owner already has access'')
        else exec (sql_grant (cid, uid)))))"

definition GrantContainerAccess ::
  "(string \<Rightarrow> string) \<Rightarrow> (string \<Rightarrow> string option) \<Rightarrow> (string \<Rightarrow> parsed_key option) \<Rightarrow>
   string \<Rightarrow> string \<Rightarrow> string \<Rightarrow> string \<Rightarrow> string \<Rightarrow> string \<Rightarrow> ('z, unit) dbm" where
  "GrantContainerAccess uni parse_address parse_key uuid1 uuid2 owner cid email0 publicKey =
     (let email = ToLower uni (TrimSpace email0) in
      if parse_address email \<noteq> Some email \<or> length email > 254
      then raise (ErrInput ''enter a valid email address'')
      else case parse_key (TrimSpace publicKey) of
        None \<Rightarrow> raise (ErrInput ''enter one SSH public key without authorized_keys options'')
      | Some key \<Rightarrow>
          if pk_Rest key \<noteq> [] \<or> pk_Options key \<noteq> []
          then raise (ErrInput ''enter one SSH public key without authorized_keys options'')
          else if pk_Certificate key then raise (ErrInput ''SSH certificates are not supported'')
          else grant_tx uuid1 uuid2 owner cid email key)"

text \<open>The rows carry the identifier and the address only.\<close>

definition ListContainerAccess :: "string \<Rightarrow> ('z, (string \<times> string) list) dbm" where
  "ListContainerAccess cid = exec (sql_value (\<lambda>s.
     sort_key snd (map (\<lambda>u. (u_ID u, u_Email u)) (filter (\<lambda>u. has_grant s cid (u_ID u)) (t_users s)))))"

definition RevokeContainerAccess :: "string \<Rightarrow> string \<Rightarrow> string \<Rightarrow> ('z, unit) dbm" where
  "RevokeContainerAccess owner cid uid =
     bindE (exec (sql_value (\<lambda>s. may_share s cid owner))) (\<lambda>permitted.
     if \<not> permitted then raise ErrAccessDenied
     else void (exec (sql_delete t_access t_access_update (\<lambda>p. p = (cid, uid)))))"

text \<open>The context of a shared connection: whether it is cancelled, and whether the goroutine that
  watches the grant is still running.\<close>

record access_ctx =
  ac_Done :: bool
  ac_Watching :: bool

definition ContainerAccessContext :: "container \<Rightarrow> string \<Rightarrow> ('z, access_ctx) dbm" where
  "ContainerAccessContext c uid = bindE (CanUseContainer (c_ID c) uid) (\<lambda>allowed.
     if \<not> allowed then ret \<lparr>ac_Done = True, ac_Watching = False\<rparr>
     else if c_OwnerID c = uid then ret \<lparr>ac_Done = False, ac_Watching = False\<rparr>
     else ret \<lparr>ac_Done = False, ac_Watching = True\<rparr>)"

text \<open>One turn of the goroutine's loop, at a tick of its one-second timer.\<close>

definition watch_tick :: "container \<Rightarrow> string \<Rightarrow> access_ctx \<Rightarrow> ('z, access_ctx) dbm" where
  "watch_tick c uid x =
     (if \<not> ac_Watching x then ret x
      else if ac_Done x then ret (x\<lparr>ac_Watching := False\<rparr>)
      else bindE (CanUseContainer (c_ID c) uid) (\<lambda>allowed.
        if \<not> allowed then ret \<lparr>ac_Done = True, ac_Watching = False\<rparr> else ret x))"

lemmas access_defs = CanUseContainer_def ListAccessibleContainers_def ResolveAccessibleContainer_def
  GetAccessibleContainerByName_def grant_tx_def guest_account_def ListContainerAccess_def
  RevokeContainerAccess_def ContainerAccessContext_def watch_tick_def

section \<open>Invariants are kept\<close>

lemma keeps_of_result [keeps_rules]: "keeps I (of_result r)"
  by (simp add: keeps_def of_result_def)

lemma keeps_grant [keeps_rules]:
  "keeps uniq_ok (exec (sql_grant p))" "keeps vms_ok (exec (sql_grant p))"
  "keeps aliases_ok (exec (sql_grant p))"
proof -
  show "keeps uniq_ok (exec (sql_grant p))"
    by (rule uniq.keeps_exec) (auto simp: sql_grant_def sql_insert_def uniq_ok_def split: if_splits)
  show "keeps vms_ok (exec (sql_grant p))"
    by (rule vms.keeps_exec) (auto simp: sql_grant_def sql_insert_def vms_ok_frame split: if_splits)
  show "keeps aliases_ok (exec (sql_grant p))"
    by (rule alias_inv.keeps_exec)
       (auto simp: sql_grant_def sql_insert_def aliases_ok_frame split: if_splits)
qed

lemma access_keep_uniq [keeps_rules]:
  "keeps uniq_ok (CanUseContainer i u)" "keeps uniq_ok (ListAccessibleContainers u)"
  "keeps uniq_ok (ResolveAccessibleContainer r u)" "keeps uniq_ok (GetAccessibleContainerByName n u)"
  "keeps uniq_ok (grant_tx a b ow i e k)" "keeps uniq_ok (ListContainerAccess i)"
  "keeps uniq_ok (RevokeContainerAccess ow i u)" "keeps uniq_ok (ContainerAccessContext c u)"
  "keeps uniq_ok (watch_tick c u x)"
  unfolding access_defs by (intro keeps_rules)+

lemma access_keep_vms [keeps_rules]:
  "keeps vms_ok (CanUseContainer i u)" "keeps vms_ok (ListAccessibleContainers u)"
  "keeps vms_ok (ResolveAccessibleContainer r u)" "keeps vms_ok (GetAccessibleContainerByName n u)"
  "keeps vms_ok (grant_tx a b ow i e k)" "keeps vms_ok (ListContainerAccess i)"
  "keeps vms_ok (RevokeContainerAccess ow i u)" "keeps vms_ok (ContainerAccessContext c u)"
  "keeps vms_ok (watch_tick c u x)"
  unfolding access_defs by (intro keeps_rules)+

lemma access_keep_aliases [keeps_rules]:
  "keeps aliases_ok (CanUseContainer i u)" "keeps aliases_ok (ListAccessibleContainers u)"
  "keeps aliases_ok (ResolveAccessibleContainer r u)" "keeps aliases_ok (GetAccessibleContainerByName n u)"
  "keeps aliases_ok (grant_tx a b ow i e k)" "keeps aliases_ok (ListContainerAccess i)"
  "keeps aliases_ok (RevokeContainerAccess ow i u)" "keeps aliases_ok (ContainerAccessContext c u)"
  "keeps aliases_ok (watch_tick c u x)"
  unfolding access_defs by (intro keeps_rules)+

lemma Grant_keeps [keeps_rules]:
  "keeps uniq_ok (GrantContainerAccess uni pa pk a b ow i e k)"
  "keeps vms_ok (GrantContainerAccess uni pa pk a b ow i e k)"
  "keeps aliases_ok (GrantContainerAccess uni pa pk a b ow i e k)"
  unfolding GrantContainerAccess_def Let_def by (intro keeps_rules)+

section \<open>Listing and permission agree\<close>

lemma can_use_faults [simp]:
  "can_use (s\<lparr>faults := fs\<rparr>) cid uid = can_use s cid uid" "accessible (s\<lparr>faults := fs\<rparr>) uid = accessible s uid"
  "may_share (s\<lparr>faults := fs\<rparr>) cid uid = may_share s cid uid"
  by (simp_all add: can_use_def accessible_def may_share_def has_grant_def user_exists_def)

lemma in_accessible:
  "d \<in> set (accessible s uid) \<longleftrightarrow>
    (\<exists>c\<in>set (t_containers s). (c_OwnerID c = uid \<or> has_grant s (c_ID c) uid)
      \<and> d = (scanContainer c)\<lparr>c_SharedAccess := (c_OwnerID c \<noteq> uid)\<rparr>)"
  by (auto simp: accessible_def)

lemma scanContainer_id [simp]:
  "c_ID (scanContainer c) = c_ID c" "c_Name (scanContainer c) = c_Name c"
  "c_IncusName (scanContainer c) = c_IncusName c" "c_OwnerID (scanContainer c) = c_OwnerID c"
  by (simp_all add: scanContainer_def)

lemma can_use_accessible:
  "can_use s cid uid \<longleftrightarrow> user_exists s uid \<and> cid \<in> c_ID ` set (accessible s uid)"
  by (auto simp: can_use_def list_ex_iff image_iff in_accessible Bex_def)

text \<open>C19: what an account is shown is what it may use.  On a working engine,
  ListAccessibleContainers returns exactly the VMs for which CanUseContainer answers yes, and marks
  as shared exactly those the account does not own.\<close>

theorem ListAccessible_iff_CanUse:
  assumes "faults s = []" and "user_exists s uid"
  shows "\<exists>cs. ListAccessibleContainers uid s = (Inr cs, s)
    \<and> (\<forall>cid. (\<exists>c\<in>set cs. c_ID c = cid) = (CanUseContainer cid uid s = (Inr True, s)))
    \<and> list_all (\<lambda>c. c_SharedAccess c = (c_OwnerID c \<noteq> uid)) cs"
proof -
  have "(\<exists>c\<in>set (accessible s uid). c_ID c = cid) = can_use s cid uid" for cid
    using assms(2) by (auto simp: can_use_accessible image_iff)
  moreover have "list_all (\<lambda>c. c_SharedAccess c = (c_OwnerID c \<noteq> uid)) (accessible s uid)"
    by (simp add: accessible_def list_all_iff)
  ultimately show ?thesis
    using assms(1)
    by (simp add: ListAccessibleContainers_def CanUseContainer_def attempt_def exec_no_fault sql_value_def)
qed

section \<open>Name resolution\<close>

lemma find_accessible_name_found:
  "find_accessible_name cs ref (Some f) = Inr c \<Longrightarrow> c = f \<and> (\<forall>d\<in>set cs. c_Name d \<noteq> ref)"
  by (induction cs) (auto split: if_splits)

lemma uniqueAccessibleName_Inr:
  "uniqueAccessibleName cs ref = Inr c \<longleftrightarrow> filter (\<lambda>d. c_Name d = ref) cs = [c]"
proof -
  have some: "find_accessible_name cs ref (Some f) = Inr c \<longleftrightarrow> c = f \<and> filter (\<lambda>d. c_Name d = ref) cs = []" for f cs
    by (induction cs) auto
  show ?thesis
    unfolding uniqueAccessibleName_def by (induction cs) (auto simp: some)
qed

lemma uniqueAccessibleName_NoRows:
  "uniqueAccessibleName cs ref = Inl ErrNoRows \<longleftrightarrow> (\<forall>d\<in>set cs. c_Name d \<noteq> ref)"
proof -
  have some: "find_accessible_name cs ref (Some f) \<noteq> Inl ErrNoRows" for f cs
    by (induction cs) auto
  show ?thesis
    unfolding uniqueAccessibleName_def by (induction cs) (auto simp: some)
qed

text \<open>A reference never resolves by chance.  When ResolveAccessibleContainer returns a VM, the
  account may use it, and either the reference is that VM's identifier or instance name, or it is its
  display name and no other VM the account may use has that name.\<close>

theorem ResolveAccessible_unambiguous:
  assumes "faults s = []" and "user_exists s uid"
    and "ResolveAccessibleContainer ref uid s = (Inr c, t)"
  shows "t = s \<and> can_use s (c_ID c) uid
    \<and> (c_ID c = ref \<or> c_IncusName c = ref \<or>
       c_Name c = ref \<and> (\<forall>d\<in>set (accessible s uid). c_Name d = ref \<longrightarrow> d = c))"
proof -
  let ?cs = "accessible s uid"
  have r: "ResolveAccessibleContainer ref uid s =
      ((case find (\<lambda>c. c_ID c = ref \<or> c_IncusName c = ref) ?cs of
          Some c \<Rightarrow> Inr c | None \<Rightarrow> uniqueAccessibleName ?cs ref), s)"
    using assms(1)
    by (simp add: ResolveAccessibleContainer_def ListAccessibleContainers_def bindE_def exec_no_fault
        sql_value_def of_result_def split: option.split)
  have "c \<in> set ?cs \<and> (c_ID c = ref \<or> c_IncusName c = ref \<or> filter (\<lambda>d. c_Name d = ref) ?cs = [c])"
  proof (cases "find (\<lambda>c. c_ID c = ref \<or> c_IncusName c = ref) ?cs")
    case None
    with r assms(3) have "uniqueAccessibleName ?cs ref = Inr c" by simp
    then have f: "filter (\<lambda>d. c_Name d = ref) ?cs = [c]" by (simp only: uniqueAccessibleName_Inr)
    then have "c \<in> set ?cs" by (metis filter_is_subset list.set_intros(1) subsetD)
    with f show ?thesis by simp
  next
    case (Some d)
    with r assms(3) show ?thesis by (auto dest: find_Some_iff_mem)
  qed
  moreover have "c_Name c = ref \<and> (\<forall>d\<in>set ?cs. c_Name d = ref \<longrightarrow> d = c)"
    if f: "filter (\<lambda>d. c_Name d = ref) ?cs = [c]"
  proof -
    have "set (filter (\<lambda>d. c_Name d = ref) ?cs) = {c}" unfolding f by simp
    then show ?thesis by auto
  qed
  ultimately show ?thesis
    using r assms(2,3) by (auto simp: can_use_accessible)
qed

section \<open>Granting access\<close>

text \<open>What a successful invitation may do, as a relation between the databases before and after: the
  grant, and at most one new guest account with its own key.\<close>

definition granted :: "string \<Rightarrow> string \<Rightarrow> string \<Rightarrow> parsed_key \<Rightarrow> 'z store_scheme \<Rightarrow> 'z store_scheme \<Rightarrow> string \<Rightarrow> bool" where
  "granted owner cid email key s t uid \<longleftrightarrow>
     may_share s cid owner \<and> uid \<noteq> owner
     \<and> t_access t = (if (cid, uid) \<in> set (t_access s) then t_access s else t_access s @ [(cid, uid)])
     \<and> t_sessions t = t_sessions s \<and> t_containers t = t_containers s \<and> t_aliases t = t_aliases s
     \<and> t_keys t = t_keys s \<and> t_links t = t_links s \<and> t_settings t = t_settings s
     \<and> ((\<exists>u\<in>set (t_users s). u_ID u = uid \<and> sql_lower (u_Email u) = sql_lower email)
          \<and> (\<exists>k\<in>set (t_sshkeys s). k_UserID k = uid \<and> k_Fingerprint k = pk_Fingerprint key)
          \<and> t_users t = t_users s \<and> t_sshkeys t = t_sshkeys s
        \<or> (\<forall>u\<in>set (t_users s). sql_lower (u_Email u) \<noteq> sql_lower email)
          \<and> (\<exists>u. u_ID u = uid \<and> u_Email u = email \<and> u_Role u = GuestRole \<and> u_PasswordHash u = []
               \<and> t_users t = t_users s @ [u])
          \<and> (\<exists>k. k_UserID k = uid \<and> k_Fingerprint k = pk_Fingerprint key \<and> t_sshkeys t = t_sshkeys s @ [k]))"

lemma guest_account_Inr:
  assumes "guest_account uuid1 uuid2 email key s = (Inr uid, t)"
  shows "t_access t = t_access s \<and> t_sessions t = t_sessions s \<and> t_containers t = t_containers s
     \<and> t_aliases t = t_aliases s \<and> t_keys t = t_keys s \<and> t_links t = t_links s \<and> t_settings t = t_settings s
     \<and> ((\<exists>u\<in>set (t_users s). u_ID u = uid \<and> sql_lower (u_Email u) = sql_lower email)
          \<and> (\<exists>k\<in>set (t_sshkeys s). k_UserID k = uid \<and> k_Fingerprint k = pk_Fingerprint key)
          \<and> t_users t = t_users s \<and> t_sshkeys t = t_sshkeys s
        \<or> (\<forall>u\<in>set (t_users s). sql_lower (u_Email u) \<noteq> sql_lower email)
          \<and> (\<exists>u. u_ID u = uid \<and> u_Email u = email \<and> u_Role u = GuestRole \<and> u_PasswordHash u = []
               \<and> t_users t = t_users s @ [u])
          \<and> (\<exists>k. k_UserID k = uid \<and> k_Fingerprint k = pk_Fingerprint key \<and> t_sshkeys t = t_sshkeys s @ [k]))"
proof (cases "exec (sql_row t_users (\<lambda>u. sql_lower (u_Email u) = sql_lower email)) s")
  case (Pair r s1)
  show ?thesis
  proof (cases r)
    case (Inr u)
    with Pair have row: "exec (sql_row t_users (\<lambda>u. sql_lower (u_Email u) = sql_lower email)) s = (Inr u, s1)" by simp
    obtain s2 m where 1: "exec (sql_value (\<lambda>s. list_ex (\<lambda>k. k_UserID k = u_ID u
                \<and> k_Fingerprint k = pk_Fingerprint key) (t_sshkeys s))) s1 = (Inr m, s2)"
      and m: "m" "uid = u_ID u" "t = s2"
      using assms row by (auto simp: guest_account_def attempt_def elim!: bindE_InrE split: if_splits)
    from 1 have "m = list_ex (\<lambda>k. k_UserID k = u_ID u \<and> k_Fingerprint k = pk_Fingerprint key) (t_sshkeys s1)"
      and "same_data s1 s2" by (auto elim!: exec_InrE simp: sql_value_def)
    with users.row_ok [OF row] m show ?thesis
      by (auto dest!: same_data_fields simp: list_ex_iff)
  next
    case (Inl e)
    with Pair have row: "exec (sql_row t_users (\<lambda>u. sql_lower (u_Email u) = sql_lower email)) s = (Inl e, s1)" by simp
    with assms have e: "e = ErrNoRows" by (auto simp: guest_account_def attempt_def split: if_splits)
    obtain s2 where 1: "exec (sql_insert t_users t_users_update uq_users (\<lambda>_ _. True)
                \<lparr>u_ID = uuid1, u_Email = email, u_DisplayName = email, u_Role = GuestRole,
                 u_PasswordHash = [], u_DefaultModel = [], u_CreatedAt = clock s1\<rparr>) s1 = (Inr (), s2)"
      and 2: "exec (sql_insert t_sshkeys t_sshkeys_update uq_sshkeys (\<lambda>s k. user_exists s (k_UserID k))
                  \<lparr>k_ID = uuid2, k_UserID = uuid1, k_Fingerprint = pk_Fingerprint key,
                   k_PublicKey = pk_Marshal key, k_Name = ''Invitation'', k_CreatedAt = clock s1\<rparr>) s2 = (Inr (), t)"
      and "uid = uuid1"
      using assms row e
      by (auto simp: guest_account_def attempt_def elim!: bindE_InrE split: if_splits prod.splits sum.splits)
    with users.row_none [OF row [unfolded e]] same_data_fields [OF exec_error_same [OF row]]
      does_fields [OF users.does_insert 1] does_fields [OF sshkeys.does_insert 2]
    show ?thesis by auto
  qed
qed

lemma grant_tx_effect:
  assumes "grant_tx uuid1 uuid2 owner cid email key s = (Inr u, t)"
  shows "\<exists>uid. granted owner cid email key s t uid"
proof -
  from assms obtain s1 s2 s3 s4 p uid where b: "same_data s s1" and c: "same_data s4 t"
    and 1: "exec (sql_value (\<lambda>s. may_share s cid owner)) s1 = (Inr p, s2)" and p: "p"
    and 2: "guest_account uuid1 uuid2 email key s2 = (Inr uid, s3)" and o: "uid \<noteq> owner"
    and 3: "exec (sql_grant (cid, uid)) s3 = (Inr u, s4)"
    unfolding grant_tx_def by (elim in_tx_InrE bindE_InrE) (auto elim!: bindE_InrE split: if_splits)
  from 1 have q: "p = may_share s1 cid owner" "same_data s1 s2" by (auto elim!: exec_InrE simp: sql_value_def)
  with p b have m: "may_share s cid owner" by (auto elim!: same_dataE)
  from 3 have g: "t_access s4 = (if (cid, uid) \<in> set (t_access s3) then t_access s3 else t_access s3 @ [(cid, uid)])
      \<and> same_data (s3\<lparr>t_access := t_access s4\<rparr>) s4"
    by (elim exec_InrE) (auto intro!: same_dataI simp: sql_grant_def sql_insert_def split: if_splits)
  note f = same_data_fields [OF b] same_data_fields [OF q(2)] same_data_fields [OF conjunct2 [OF g]] same_data_fields [OF c]
  show ?thesis
    using guest_account_Inr [OF 2] conjunct1 [OF g] f m o
    by (intro exI [of _ uid]) (simp add: granted_def)
qed

text \<open>C16: sharing a VM is safe for everyone else's account.  On any schedule of engine failures, an
  invitation that is refused leaves every table as it was.  One that succeeds was made by the VM's
  owner, who is no guest; it adds one grant, and it either changes no account and no SSH key, the
  invited account having presented a key already registered to it, or creates one guest account with
  no password and binds the key to that new account only.\<close>

theorem GrantContainerAccess_safe:
  "case GrantContainerAccess uni parse_address parse_key uuid1 uuid2 owner cid email publicKey s of
     (Inl e, t) \<Rightarrow> same_data s t
   | (Inr _, t) \<Rightarrow> (\<exists>key uid. parse_key (TrimSpace publicKey) = Some key
        \<and> granted owner cid (ToLower uni (TrimSpace email)) key s t uid)"
proof -
  have tx: "case grant_tx uuid1 uuid2 owner cid e key s of (Inl e, t) \<Rightarrow> same_data s t
      | (Inr _, t) \<Rightarrow> \<exists>uid. granted owner cid e key s t uid" for e key
    using grant_tx_effect [of uuid1 uuid2 owner cid e key s]
    by (auto split: prod.split sum.split) (auto simp: grant_tx_def intro: in_tx_error_same)
  show ?thesis
  proof (cases "parse_key (TrimSpace publicKey)")
    case (Some key)
    with tx [of "ToLower uni (TrimSpace email)" key] show ?thesis
      by (auto simp: GrantContainerAccess_def Let_def split: prod.splits sum.splits if_splits)
  qed (simp add: GrantContainerAccess_def Let_def)
qed

section \<open>Revoking access\<close>

text \<open>C15: a revoked guest is disconnected.  When the owner revokes a guest's grant, the guest may no
  longer use the VM, the next tick of the watcher of every connection the guest has open cancels it,
  and no new connection starts; a connection the owner holds on the VM is untouched.\<close>

theorem Revoke_disconnects:
  assumes "faults s = []" and "c \<in> set (t_containers s)" and "uniq_ok s" and "uid \<noteq> c_OwnerID c"
    and "RevokeContainerAccess (c_OwnerID c) (c_ID c) uid s = (Inr u, t)"
  shows "\<not> can_use t (c_ID c) uid
    \<and> watch_tick c uid \<lparr>ac_Done = False, ac_Watching = True\<rparr> t = (Inr \<lparr>ac_Done = True, ac_Watching = False\<rparr>, t)
    \<and> ContainerAccessContext c uid t = (Inr \<lparr>ac_Done = True, ac_Watching = False\<rparr>, t)
    \<and> ContainerAccessContext c (c_OwnerID c) t = (Inr \<lparr>ac_Done = False, ac_Watching = False\<rparr>, t)"
proof -
  from assms(1,5) have m: "may_share s (c_ID c) (c_OwnerID c)"
    and t: "t = s\<lparr>t_access := filter (\<lambda>p. p \<noteq> (c_ID c, uid)) (t_access s)\<rparr>"
    by (auto simp: RevokeContainerAccess_def run_defs split: if_splits)
  have only: "d = c" if "d \<in> set (t_containers s)" "c_ID d = c_ID c" for d
    using distinct_map_eqD [of c_ID "t_containers s" d c] that assms(2,3) by (simp add: uniq_ok_def uq_containers_def)
  have no: "\<not> can_use t (c_ID c) uid"
    using only assms(4) by (auto simp: t can_use_def list_ex_iff has_grant_def)
  have yes: "can_use t (c_ID c) (c_OwnerID c)"
    using m assms(2) by (auto simp: t can_use_def may_share_def list_ex_iff user_exists_def image_iff Bex_def)
  have run: "CanUseContainer i v t = (Inr (can_use t i v), t)" for i v
    using assms(1) by (simp add: CanUseContainer_def attempt_def exec_no_fault sql_value_def t)
  show ?thesis
    using no yes by (simp add: watch_tick_def ContainerAccessContext_def bindE_def run)
qed

text \<open>Instances.\<close>

definition demo_shared :: store where
  "demo_shared = demo_store\<lparr>t_users := [demo_user ''u1'' ''user'', demo_user ''u2'' ''guest''],
     t_containers := [demo_vm ''c1'' ''web'' ''u1'', demo_vm ''c2'' ''web'' ''u2''],
     t_access := [(''c1'', ''u2'')]\<rparr>"

lemma demo_shared_facts:
  "faults demo_shared = []" "user_exists demo_shared ''u2''" "uniq_ok demo_shared"
  "demo_vm ''c1'' ''web'' ''u1'' \<in> set (t_containers demo_shared)"
  by (simp_all add: demo_shared_def demo_store_def demo_user_def demo_vm_def user_exists_def uniq_ok_def uq_defs)

theorem ListAccessible_iff_CanUse_witness:
  "\<exists>cs. ListAccessibleContainers ''u2'' demo_shared = (Inr cs, demo_shared)
     \<and> (\<exists>c\<in>set cs. c_ID c = ''c1'') \<and> \<not> (\<exists>c\<in>set cs. c_ID c = ''c3'')"
proof -
  have use: "CanUseContainer ''c1'' ''u2'' demo_shared = (Inr True, demo_shared)"
    "CanUseContainer ''c3'' ''u2'' demo_shared \<noteq> (Inr True, demo_shared)"
    by (simp_all add: CanUseContainer_def attempt_def exec_no_fault sql_value_def can_use_def has_grant_def
        demo_shared_def demo_store_def demo_user_def demo_vm_def user_exists_def)
  obtain cs where "ListAccessibleContainers ''u2'' demo_shared = (Inr cs, demo_shared)"
    and "\<forall>cid. (\<exists>c\<in>set cs. c_ID c = cid) = (CanUseContainer cid ''u2'' demo_shared = (Inr True, demo_shared))"
    using ListAccessible_iff_CanUse [OF demo_shared_facts(1,2)] by blast
  with use show ?thesis by (intro exI [of _ cs]) simp
qed

theorem ResolveAccessible_unambiguous_witness:
  "\<exists>c. ResolveAccessibleContainer ''c1'' ''u2'' demo_shared = (Inr c, demo_shared)
     \<and> can_use demo_shared (c_ID c) ''u2''"
proof -
  obtain c where r: "ResolveAccessibleContainer ''c1'' ''u2'' demo_shared = (Inr c, demo_shared)"
    by (simp add: ResolveAccessibleContainer_def ListAccessibleContainers_def bindE_def exec_no_fault
        sql_value_def accessible_def has_grant_def demo_shared_def demo_store_def demo_vm_def)
  then show ?thesis
    using ResolveAccessible_unambiguous [OF demo_shared_facts(1,2) r] by blast
qed

theorem Revoke_disconnects_witness:
  "\<exists>t. RevokeContainerAccess ''u1'' ''c1'' ''u2'' demo_shared = (Inr (), t) \<and> \<not> can_use t ''c1'' ''u2''"
proof -
  let ?c = "demo_vm ''c1'' ''web'' ''u1''"
  have i: "c_OwnerID ?c = ''u1''" "c_ID ?c = ''c1''" by (simp_all add: demo_vm_def)
  obtain t where r: "RevokeContainerAccess (c_OwnerID ?c) (c_ID ?c) ''u2'' demo_shared = (Inr (), t)"
    by (simp add: RevokeContainerAccess_def run_defs may_share_def GuestRole_def
        demo_shared_def demo_store_def demo_user_def demo_vm_def)
  moreover have "''u2'' \<noteq> c_OwnerID ?c" by (simp add: i)
  ultimately show ?thesis
    using Revoke_disconnects [OF demo_shared_facts(1,4,3) _ r] unfolding i by blast
qed

end
