(* ===== verification/Links_Db.thy ===== *)
theory Links_Db
  imports Access_Db
begin

text \<open>
  Share links: \<^verbatim>\<open>src/internal/db/shared_links.go\<close>.  A link is a bearer token for one VM,
  possibly with an expiry.  What \<^verbatim>\<open>crypto/rand\<close> delivers and the identifier
  \<^verbatim>\<open>uuid.New()\<close> returns are arguments.
\<close>

text \<open>\<^verbatim>\<open>base64.RawURLEncoding\<close>: three bytes to four characters, no padding.\<close>

definition b64_digit :: "nat \<Rightarrow> char" where
  "b64_digit n =
     (if n < 26 then char_of (65 + n) else if n < 52 then char_of (71 + n)
      else if n < 62 then char_of (n - 4) else if n = 62 then CHR ''-'' else CHR ''_'')"

fun RawURLEncoding :: "string \<Rightarrow> string" where
  "RawURLEncoding (a # b # c # r) =
     b64_digit (byte a div 4) # b64_digit (byte a mod 4 * 16 + byte b div 16)
     # b64_digit (byte b mod 16 * 4 + byte c div 64) # b64_digit (byte c mod 64) # RawURLEncoding r"
| "RawURLEncoding [a, b] =
     [b64_digit (byte a div 4), b64_digit (byte a mod 4 * 16 + byte b div 16), b64_digit (byte b mod 16 * 4)]"
| "RawURLEncoding [a] = [b64_digit (byte a div 4), b64_digit (byte a mod 4 * 16)]"
| "RawURLEncoding [] = []"

definition getSharedLinkByID :: "string \<Rightarrow> ('z, sharedlink) dbm" where
  "getSharedLinkByID lid = exec (sql_row t_links (\<lambda>l. l_ID l = lid))"

definition CreateSharedLink ::
  "string option \<Rightarrow> string \<Rightarrow> string \<Rightarrow> string \<Rightarrow> int option \<Rightarrow> ('z, sharedlink) dbm" where
  "CreateSharedLink rnd nid cid createdBy expiresAt =
     (case rnd of
        None \<Rightarrow> raise ErrEngine
      | Some raw \<Rightarrow> with_now (\<lambda>now.
          bindE (exec (sql_insert t_links t_links_update uq_links
            (\<lambda>s l. container_exists s (l_ContainerID l) \<and> user_exists s (l_CreatedBy l))
            \<lparr>l_ID = nid, l_ContainerID = cid, l_CreatedBy = createdBy, l_Token = RawURLEncoding raw,
             l_ExpiresAt = expiresAt, l_CreatedAt = now\<rparr>))
          (\<lambda>_. getSharedLinkByID nid)))"

definition LookupSharedLink :: "string \<Rightarrow> ('z, sharedlink) dbm" where
  "LookupSharedLink token = exec (sql_row t_links (\<lambda>l. l_Token l = token))"

text \<open>The statement compares the two times as texts, the current one to the second: in the last second of its life a link may
  there be live for the rest of that second.\<close>

definition link_live :: "int \<Rightarrow> sharedlink \<Rightarrow> bool" where
  "link_live now l \<longleftrightarrow> (case l_ExpiresAt l of None \<Rightarrow> True | Some e \<Rightarrow> e > now)"

definition GetSharedLinkByToken :: "string \<Rightarrow> ('z, sharedlink) dbm" where
  "GetSharedLinkByToken token = with_now (\<lambda>now.
     exec (sql_row t_links (\<lambda>l. l_Token l = token \<and> link_live now l)))"

definition ListSharedLinksByContainer :: "string \<Rightarrow> ('z, sharedlink list) dbm" where
  "ListSharedLinksByContainer cid =
     bindE (exec (sql_rows t_links (\<lambda>l. l_ContainerID l = cid)))
       (\<lambda>ls. ret (sort_key (\<lambda>l. - l_CreatedAt l) ls))"

definition DeleteSharedLink :: "string \<Rightarrow> ('z, unit) dbm" where
  "DeleteSharedLink lid = void (exec (sql_delete t_links t_links_update (\<lambda>l. l_ID l = lid)))"

definition DeleteSharedLinkByToken :: "string \<Rightarrow> ('z, unit) dbm" where
  "DeleteSharedLinkByToken token = void (exec (sql_delete t_links t_links_update (\<lambda>l. l_Token l = token)))"

lemmas links_defs = getSharedLinkByID_def CreateSharedLink_def LookupSharedLink_def
  GetSharedLinkByToken_def ListSharedLinksByContainer_def DeleteSharedLink_def DeleteSharedLinkByToken_def

lemma links_keep_uniq [keeps_rules]:
  "keeps uniq_ok (getSharedLinkByID i)" "keeps uniq_ok (CreateSharedLink r n i u e)"
  "keeps uniq_ok (LookupSharedLink t)" "keeps uniq_ok (GetSharedLinkByToken t)"
  "keeps uniq_ok (ListSharedLinksByContainer i)" "keeps uniq_ok (DeleteSharedLink i)"
  "keeps uniq_ok (DeleteSharedLinkByToken t)"
  unfolding links_defs by (intro keeps_rules)+

lemma links_keep_vms [keeps_rules]:
  "keeps vms_ok (getSharedLinkByID i)" "keeps vms_ok (CreateSharedLink r n i u e)"
  "keeps vms_ok (LookupSharedLink t)" "keeps vms_ok (GetSharedLinkByToken t)"
  "keeps vms_ok (ListSharedLinksByContainer i)" "keeps vms_ok (DeleteSharedLink i)"
  "keeps vms_ok (DeleteSharedLinkByToken t)"
  unfolding links_defs by (intro keeps_rules)+

lemma links_keep_aliases [keeps_rules]:
  "keeps aliases_ok (getSharedLinkByID i)" "keeps aliases_ok (CreateSharedLink r n i u e)"
  "keeps aliases_ok (LookupSharedLink t)" "keeps aliases_ok (GetSharedLinkByToken t)"
  "keeps aliases_ok (ListSharedLinksByContainer i)" "keeps aliases_ok (DeleteSharedLink i)"
  "keeps aliases_ok (DeleteSharedLinkByToken t)"
  unfolding links_defs by (intro keeps_rules)+

section \<open>The life of a link\<close>

lemma byte_less: "byte c < 256"
  by (simp add: byte_def)

lemma byte_inj: "byte a = byte b \<Longrightarrow> a = b"
  by (simp add: byte_def of_char_eq_iff)

lemma byte_char_of: "n < 256 \<Longrightarrow> byte (char_of n) = n"
  by (simp add: byte_def)

lemma b64_digit_byte:
  "n < 64 \<Longrightarrow> byte (b64_digit n) =
     (if n < 26 then 65 + n else if n < 52 then 71 + n else if n < 62 then n - 4 else if n = 62 then 45 else 95)"
  by (auto simp: b64_digit_def byte_char_of) (simp_all add: byte_def)

lemma b64_digit_inj:
  assumes "b64_digit n = b64_digit m" and "n < 64" and "m < 64"
  shows "n = m"
  using arg_cong [OF assms(1), of byte] assms(2,3) by (auto simp: b64_digit_byte split: if_splits)

lemma join_inj:
  fixes p q p' q' k :: nat
  assumes "p * k + q = p' * k + q'" and "q < k" and "q' < k"
  shows "p = p' \<and> q = q'"
proof -
  have "(p * k + q) div k = p" "(p' * k + q') div k = p'" using assms(2,3) by simp_all
  with assms(1) show ?thesis by auto
qed

lemma div_mod_inj: "(x::nat) div k = y div k \<Longrightarrow> x mod k = y mod k \<Longrightarrow> x = y"
  by (metis div_mult_mod_eq)

lemma first_two:
  assumes "b64_digit (byte a div 4) = b64_digit (byte a' div 4)"
    and "b64_digit (byte a mod 4 * 16 + x) = b64_digit (byte a' mod 4 * 16 + y)" and "x < 16" and "y < 16"
  shows "a = a' \<and> x = y"
proof -
  have 1: "byte a div 4 = byte a' div 4"
    by (rule b64_digit_inj [OF assms(1)]) (use byte_less [of a] byte_less [of a'] in \<open>simp_all add: div_less_iff_less_mult\<close>)
  have "byte a mod 4 < 4" "byte a' mod 4 < 4" by simp_all
  then have "byte a mod 4 * 16 + x = byte a' mod 4 * 16 + y"
    by (intro b64_digit_inj [OF assms(2)]) (use assms(3,4) in linarith)+
  with assms(3,4) have "byte a mod 4 = byte a' mod 4 \<and> x = y" by (intro join_inj) auto
  with 1 show ?thesis by (auto intro: byte_inj div_mod_inj)
qed

lemma second_third:
  assumes "byte b div 16 = byte b' div 16"
    and "b64_digit (byte b mod 16 * 4 + x) = b64_digit (byte b' mod 16 * 4 + y)" and "x < 4" and "y < 4"
  shows "b = b' \<and> x = y"
proof -
  have "byte b mod 16 < 16" "byte b' mod 16 < 16" by simp_all
  then have "byte b mod 16 * 4 + x = byte b' mod 16 * 4 + y"
    by (intro b64_digit_inj [OF assms(2)]) (use assms(3,4) in linarith)+
  with assms(3,4) have "byte b mod 16 = byte b' mod 16 \<and> x = y" by (intro join_inj) auto
  with assms(1) show ?thesis by (auto intro: byte_inj div_mod_inj)
qed

lemma byte_div: "byte b div 16 < 16" "byte c div 64 < 4"
  using byte_less [of b] byte_less [of c] by (simp_all add: div_less_iff_less_mult)

lemma RawURLEncoding_inj:
  "length xs = length ys \<Longrightarrow> RawURLEncoding xs = RawURLEncoding ys \<Longrightarrow> xs = ys"
proof (induction xs arbitrary: ys rule: RawURLEncoding.induct)
  case (1 a b c r)
  then obtain a' b' c' r' where ys: "ys = a' # b' # c' # r'" by (auto simp: length_Suc_conv Suc_length_conv)
  have ab: "a = a' \<and> byte b div 16 = byte b' div 16"
    by (rule first_two) (use 1(3) ys byte_div in auto)
  have bc: "b = b' \<and> byte c div 64 = byte c' div 64"
    by (rule second_third) (use 1(3) ys ab byte_div in auto)
  have "byte c mod 64 = byte c' mod 64"
    by (rule b64_digit_inj) (use 1(3) ys in auto)
  with bc have "c = c'" by (auto intro: byte_inj div_mod_inj)
  moreover have "r = r'" by (rule 1(1)) (use 1(2,3) ys in auto)
  ultimately show ?case using ys ab bc by simp
next
  case (2 a b)
  then obtain a' b' where ys: "ys = [a', b']" by (auto simp: length_Suc_conv Suc_length_conv)
  have ab: "a = a' \<and> byte b div 16 = byte b' div 16"
    by (rule first_two) (use 2(2) ys byte_div in auto)
  have "b = b' \<and> (0::nat) = 0"
    by (rule second_third) (use 2(2) ys ab in auto)
  with ab ys show ?case by simp
next
  case (3 a)
  then obtain a' where ys: "ys = [a']" by (auto simp: length_Suc_conv Suc_length_conv)
  have "a = a' \<and> (0::nat) = 0" by (rule first_two) (use 3(2) ys in auto)
  with ys show ?case by simp
qed simp

lemma uq_links_find:
  "uq_links ls \<Longrightarrow> l \<in> set ls \<Longrightarrow>
   find (\<lambda>y. l_Token y = l_Token l \<and> P y) ls = (if P l then Some l else None)"
proof (induction ls)
  case (Cons y ls)
  then show ?case
    by (cases "l = y") (auto simp: uq_links_def find_None_mem image_iff)
qed simp

text \<open>A share link opens its VM exactly while it is live.  The link CreateSharedLink returns is
  what GetSharedLinkByToken finds for its token at every instant before the expiry it was given (for
  ever when it was given none) and is not found from the expiry on; once its token is deleted it is
  never found again.\<close>

theorem CreateSharedLink_lifetime:
  assumes "faults s = []" and "CreateSharedLink (Some raw) nid cid by expires s = (Inr l, t)"
  shows "l_ContainerID l = cid \<and> l_Token l = RawURLEncoding raw
    \<and> GetSharedLinkByToken (l_Token l) (t\<lparr>clock := n\<rparr>)
        = (if (case expires of None \<Rightarrow> True | Some e \<Rightarrow> n < e) then Inr l else Inl ErrNoRows, t\<lparr>clock := n\<rparr>)
    \<and> fst (bindE (DeleteSharedLinkByToken (l_Token l)) (\<lambda>_. GetSharedLinkByToken (l_Token l)) (t\<lparr>clock := n\<rparr>))
        = Inl ErrNoRows"
proof -
  let ?l = "\<lparr>l_ID = nid, l_ContainerID = cid, l_CreatedBy = by, l_Token = RawURLEncoding raw,
             l_ExpiresAt = expires, l_CreatedAt = clock s\<rparr>"
  from assms have uq: "uq_links (t_links s @ [?l])" and t: "t = s\<lparr>t_links := t_links s @ [?l]\<rparr>"
    and find: "find (\<lambda>y. l_ID y = nid) (t_links s @ [?l]) = Some l"
    by (auto simp: CreateSharedLink_def getSharedLinkByID_def run_defs split: if_splits option.splits)
  have "find (\<lambda>y. l_ID y = l_ID ?l) (t_links s @ [?l]) = Some ?l"
    using uq by (intro find_unique_key) (simp_all add: uq_links_def)
  with find have l: "l = ?l" by simp
  have "find (\<lambda>y. l_Token y = l_Token l \<and> link_live n y) (t_links s @ [l])
      = (if link_live n l then Some l else None)"
    by (rule uq_links_find) (use uq l in auto)
  moreover have "find (\<lambda>y. l_Token y = l_Token l \<and> link_live n y)
      (filter (\<lambda>y. l_Token y \<noteq> l_Token l) ls) = None" for ls
    by (simp add: find_None_mem)
  ultimately show ?thesis
    using assms(1) unfolding t l [symmetric]
    by (simp add: GetSharedLinkByToken_def DeleteSharedLinkByToken_def run_defs)
       (auto simp: l link_live_def split: option.split)
qed

text \<open>Two share tokens of the same length are equal only when the random bytes they were made
  from are.  The encoding loses no entropy of the 32 bytes.\<close>

theorem share_token_injective:
  assumes "length xs = length ys"
  shows "RawURLEncoding xs = RawURLEncoding ys \<longleftrightarrow> xs = ys"
  using RawURLEncoding_inj [OF assms] by blast

text \<open>Instances.\<close>

theorem share_token_injective_witness: "RawURLEncoding ''ab'' \<noteq> RawURLEncoding ''ba''"
  using share_token_injective [of "''ab''" "''ba''"] by simp

theorem CreateSharedLink_lifetime_witness:
  "\<exists>l t. CreateSharedLink (Some ''abc'') ''l1'' ''c1'' ''u1'' (Some 5) demo_shared = (Inr l, t)
     \<and> fst (GetSharedLinkByToken (l_Token l) (t\<lparr>clock := 4\<rparr>)) = Inr l
     \<and> fst (GetSharedLinkByToken (l_Token l) (t\<lparr>clock := 5\<rparr>)) = Inl ErrNoRows"
proof -
  obtain l t where r: "CreateSharedLink (Some ''abc'') ''l1'' ''c1'' ''u1'' (Some 5) demo_shared = (Inr l, t)"
    by (simp add: CreateSharedLink_def getSharedLinkByID_def run_defs uq_links_def container_exists_def
        user_exists_def demo_shared_def demo_store_def demo_user_def demo_vm_def)
  then show ?thesis
    using CreateSharedLink_lifetime [OF demo_shared_facts(1) r, of 4]
      CreateSharedLink_lifetime [OF demo_shared_facts(1) r, of 5] by auto
qed

end
