(* ===== verification/Providers_Db.thy ===== *)
theory Providers_Db
  imports Links_Db
begin

text \<open>
  LLM provider connections: \<^verbatim>\<open>src/internal/db/provider.go\<close> and
  \<^verbatim>\<open>apikeys.go\<close>.

  AES-GCM is an argument: \<open>seal key nonce plaintext\<close> and \<open>unseal key nonce ciphertext\<close>, the latter
  failing on a ciphertext that does not authenticate.  \<^verbatim>\<open>url.Parse\<close> is an argument that
  returns the components the code looks at.  \<open>rnd\<close> is the nonce \<^verbatim>\<open>crypto/rand\<close> delivers.

  \<open>models_ok\<close> is the invariant: the default model an account has chosen is one it can reach through
  its own connections.
\<close>

record url =
  url_Scheme :: string
  url_Hostname :: string
  url_HasUser :: bool
  url_RawQuery :: string
  url_Fragment :: string

section \<open>Connections\<close>

text \<open>\<^verbatim>\<open>^custom-[a-z0-9][a-z0-9-]{0,47}$\<close>\<close>

definition custom_provider :: "string \<Rightarrow> bool" where
  "custom_provider p \<longleftrightarrow>
     (case CutPrefix p ''custom-'' of
        None \<Rightarrow> False
      | Some r \<Rightarrow> r \<noteq> [] \<and> is_lower_alnum (hd r) \<and> length (tl r) \<le> 47
          \<and> list_all (\<lambda>c. is_lower_alnum c \<or> c = CHR ''-'') (tl r))"

definition DefaultProtocol :: string where "DefaultProtocol = ''openai''"

definition protocols :: "string list" where
  "protocols = [''openai'', ''openai-responses'', ''anthropic'', ''gemini'']"

definition ValidProvider :: "string \<Rightarrow> bool" where
  "ValidProvider p \<longleftrightarrow>
     p \<in> {''openai'', ''anthropic'', ''gemini'', ''fireworks'', ''openrouter''} \<or> custom_provider p"

text \<open>\<^verbatim>\<open>strings.FieldsFunc\<close> with the separators comma, line feed and carriage return.\<close>

definition is_model_sep :: "char \<Rightarrow> bool" where
  "is_model_sep c \<longleftrightarrow> c = CHR '','' \<or> c = CHR 0x0A \<or> c = CHR 0x0D"

fun split_by :: "(char \<Rightarrow> bool) \<Rightarrow> string \<Rightarrow> string list" where
  "split_by p [] = [[]]"
| "split_by p (x # s) =
     (if p x then [] # split_by p s
      else (case split_by p s of [] \<Rightarrow> [[x]] | w # ws \<Rightarrow> (x # w) # ws))"

definition FieldsFunc :: "(char \<Rightarrow> bool) \<Rightarrow> string \<Rightarrow> string list" where
  "FieldsFunc p s = filter (\<lambda>w. w \<noteq> []) (split_by p s)"

text \<open>The loop over the names: the list collected so far doubles as the set of names seen.\<close>

fun normalize_models :: "string list \<Rightarrow> string list \<Rightarrow> dberr + string list" where
  "normalize_models [] acc = Inr acc"
| "normalize_models (n # ns) acc =
     (let name = TrimSpace n in
      if name = [] then normalize_models ns acc
      else if ContainsAny name [CHR 0x00, CHR 0x09, CHR 0x20]
      then Inl (ErrInput ''model IDs must not contain whitespace'')
      else normalize_models ns (if name \<in> set acc then acc else acc @ [name]))"

definition one_line :: "string \<Rightarrow> bool" where
  "one_line s \<longleftrightarrow> \<not> ContainsAny s [CHR 0x0D, CHR 0x0A, CHR 0x00]"

definition valid_base_url :: "(string \<Rightarrow> url option) \<Rightarrow> string \<Rightarrow> bool" where
  "valid_base_url parse_url baseURL \<longleftrightarrow>
     (case parse_url baseURL of
        None \<Rightarrow> False
      | Some u \<Rightarrow> (url_Scheme u = ''https'' \<or> url_Scheme u = ''http'') \<and> url_Hostname u \<noteq> []
          \<and> \<not> url_HasUser u \<and> url_RawQuery u = [] \<and> url_Fragment u = [] \<and> one_line baseURL)"

text \<open>The protocol after its switch: the error, or the value stored.\<close>

definition choose_protocol :: "string \<Rightarrow> string \<Rightarrow> dberr + string" where
  "choose_protocol baseURL protocol =
     (if baseURL = [] \<and> protocol \<noteq> [] then Inl (ErrInput ''protocol requires a base URL'')
      else if baseURL \<noteq> [] \<and> protocol = [] then Inr DefaultProtocol
      else if protocol \<noteq> [] \<and> protocol \<notin> set protocols then Inl (ErrInput ''protocol must be one of openai, openai-responses, anthropic, gemini'')
      else Inr protocol)"

definition NormalizeProvider ::
  "(string \<Rightarrow> string) \<Rightarrow> (string \<Rightarrow> url option) \<Rightarrow> string \<Rightarrow> string \<Rightarrow> string \<Rightarrow> string \<Rightarrow> string \<Rightarrow>
   dberr + string \<times> string \<times> string" where
  "NormalizeProvider uni parse_url provider baseURL0 models key protocol0 =
     (if \<not> ValidProvider provider then Inl (ErrInput ''invalid provider'')
      else if \<not> one_line key then Inl (ErrInput ''key must be a single line'')
      else
        let base1 = TrimRight (TrimSpace baseURL0) CHR ''/'';
            base = (if provider = ''openrouter'' \<and> base1 = [] then ''https://openrouter.ai/api/v1'' else base1) in
        if base \<noteq> [] \<and> \<not> valid_base_url parse_url base
        then Inl (ErrInput ''base URL must be an HTTP(S) API prefix without credentials, query or fragment'')
        else if HasPrefix provider ''custom-'' \<and> base = [] then Inl (ErrInput ''custom provider requires a base URL'')
        else if base \<noteq> [] \<and> (provider = ''anthropic'' \<or> provider = ''gemini'')
        then Inl (ErrInput ''custom endpoints require a custom or OpenAI-compatible provider'')
        else case choose_protocol base (ToLower uni (TrimSpace protocol0)) of
          Inl e \<Rightarrow> Inl e
        | Inr protocol \<Rightarrow>
            (case normalize_models (FieldsFunc is_model_sep models) [] of
               Inl e \<Rightarrow> Inl e
             | Inr names \<Rightarrow>
                 if base \<noteq> [] \<and> names = [] then Inl (ErrInput ''specify at least one model ID for this endpoint'')
                 else if base = [] \<and> names \<noteq> [] then Inl (ErrInput ''model IDs require a base URL'')
                 else if key = [] \<and> \<not> HasPrefix provider ''custom-'' then Inl (ErrInput ''key is required'')
                 else Inr (base, Join names CHR '','', protocol)))"

section \<open>Encryption\<close>

definition aes_key_ok :: "string \<Rightarrow> bool" where
  "aes_key_ok k \<longleftrightarrow> length k \<in> {16, 24, 32}"

definition gcm_nonce_size :: nat where "gcm_nonce_size = 12"

definition encryptAESGCM ::
  "(string \<Rightarrow> string \<Rightarrow> string \<Rightarrow> string) \<Rightarrow> string option \<Rightarrow> string \<Rightarrow> string \<Rightarrow> dberr + string" where
  "encryptAESGCM seal rnd key plaintext =
     (if \<not> aes_key_ok key then Inl (ErrInput ''invalid key size'')
      else case rnd of
        None \<Rightarrow> Inl ErrEngine
      | Some nonce \<Rightarrow> Inr (nonce @ seal key nonce plaintext))"

definition decryptAESGCM ::
  "(string \<Rightarrow> string \<Rightarrow> string \<Rightarrow> string option) \<Rightarrow> string \<Rightarrow> string \<Rightarrow> dberr + string" where
  "decryptAESGCM unseal key data =
     (if \<not> aes_key_ok key then Inl (ErrInput ''invalid key size'')
      else if length data < gcm_nonce_size then Inl (ErrInput ''ciphertext too short'')
      else case unseal key (take gcm_nonce_size data) (drop gcm_nonce_size data) of
        None \<Rightarrow> Inl (ErrInput ''message authentication failed'')
      | Some p \<Rightarrow> Inr p)"

definition CreateAPIKey ::
  "(string \<Rightarrow> string \<Rightarrow> string \<Rightarrow> string) \<Rightarrow> string option \<Rightarrow> string \<Rightarrow> string \<Rightarrow> string \<Rightarrow> string \<Rightarrow> string \<Rightarrow>
   ('z, unit) dbm" where
  "CreateAPIKey seal rnd kid owner provider plaintext encKey =
     bindE (of_result (encryptAESGCM seal rnd encKey plaintext)) (\<lambda>encrypted. with_now (\<lambda>now.
       exec (sql_insert t_keys t_keys_update uq_keys (\<lambda>s k. user_exists s (ak_OwnerID k))
         \<lparr>ak_ID = kid, ak_OwnerID = owner, ak_Provider = provider, ak_EncryptedKey = encrypted,
          ak_BaseURL = [], ak_Models = [], ak_Protocol = [], ak_CreatedAt = now\<rparr>)))"

definition GetAPIKeyPlaintext ::
  "(string \<Rightarrow> string \<Rightarrow> string \<Rightarrow> string option) \<Rightarrow> string \<Rightarrow> string \<Rightarrow> ('z, string) dbm" where
  "GetAPIKeyPlaintext unseal kid encKey =
     bindE (exec (sql_row t_keys (\<lambda>k. ak_ID k = kid)))
       (\<lambda>k. of_result (decryptAESGCM unseal encKey (ak_EncryptedKey k)))"

text \<open>The metadata only: no ciphertext leaves the listing.\<close>

definition ListAPIKeysByOwner :: "string \<Rightarrow> ('z, apikey list) dbm" where
  "ListAPIKeysByOwner owner =
     bindE (exec (sql_rows t_keys (\<lambda>k. ak_OwnerID k = owner)))
       (\<lambda>ks. ret (map (ak_EncryptedKey_update (\<lambda>_. [])) (sort_key (\<lambda>k. (- ak_CreatedAt k, ak_ID k)) ks)))"

section \<open>Models and the default model\<close>

definition UserModelPrefix :: string where "UserModelPrefix = ''svkexe_user:''"

definition UserModelID :: "string \<Rightarrow> string \<Rightarrow> string" where
  "UserModelID provider model = UserModelPrefix @ provider @ '':'' @ model"

definition key_models :: "apikey \<Rightarrow> string list" where
  "key_models k = map (UserModelID (ak_Provider k)) (filter (\<lambda>m. m \<noteq> []) (Split (ak_Models k) CHR '',''))"

definition model_ids :: "'z store_scheme \<Rightarrow> string \<Rightarrow> string list" where
  "model_ids s owner = concat (map key_models
     (sort_key (\<lambda>k. (- ak_CreatedAt k, ak_ID k))
       (filter (\<lambda>k. ak_OwnerID k = owner \<and> ak_BaseURL k \<noteq> []) (t_keys s))))"

definition ownerModelIDs :: "string \<Rightarrow> ('z, string list) dbm" where
  "ownerModelIDs owner = exec (sql_value (\<lambda>s. model_ids s owner))"

definition OwnerModelIDs :: "string \<Rightarrow> ('z, string list) dbm" where
  "OwnerModelIDs owner = ownerModelIDs owner"

definition set_default_model :: "string \<Rightarrow> string \<Rightarrow> ('z, nat) dbm" where
  "set_default_model owner model =
     exec (sql_update t_users t_users_update uq_users (\<lambda>u. u_ID u = owner) (u_DefaultModel_update (\<lambda>_. model)))"

definition pruneDefaultModel :: "string \<Rightarrow> ('z, unit) dbm" where
  "pruneDefaultModel owner = bindE (ownerModelIDs owner) (\<lambda>ids.
     attempt (exec (sql_row t_users (\<lambda>u. u_ID u = owner)))
       (\<lambda>e. if e = ErrNoRows then ret () else raise e)
       (\<lambda>u. if u_DefaultModel u = [] \<or> u_DefaultModel u \<in> set ids then ret ()
            else void (set_default_model owner [])))"

definition SetUserDefaultModel :: "string \<Rightarrow> string \<Rightarrow> ('z, unit) dbm" where
  "SetUserDefaultModel owner model = in_tx
     (bindE (set_default_model owner model) (\<lambda>n.
      if n = 0 then raise ErrNoRows
      else if model = [] then ret ()
      else bindE (ownerModelIDs owner) (\<lambda>ids.
        if model \<notin> set ids then raise (ErrUnknownModel model) else ret ())))"

definition UserDefaultModel :: "string \<Rightarrow> ('z, string) dbm" where
  "UserDefaultModel owner = attempt (exec (sql_row t_users (\<lambda>u. u_ID u = owner)))
     (\<lambda>e. if e = ErrNoRows then ret [] else raise e) (\<lambda>u. ret (u_DefaultModel u))"

text \<open>\<^verbatim>\<open>DELETE ... RETURNING owner_id\<close>, scoped to the owner when one is given.\<close>

definition sql_delete_key :: "string \<Rightarrow> string \<Rightarrow> ('z, string) stmt" where
  "sql_delete_key kid owner s =
     (let P = (\<lambda>k. ak_ID k = kid \<and> (owner = [] \<or> ak_OwnerID k = owner)) in
      case find P (t_keys s) of
        None \<Rightarrow> Inl ErrNoRows
      | Some k \<Rightarrow> Inr (ak_OwnerID k, t_keys_update (filter (\<lambda>k. \<not> P k)) s))"

definition deleteAPIKey :: "string \<Rightarrow> string \<Rightarrow> ('z, unit) dbm" where
  "deleteAPIKey kid owner = in_tx (bindE (exec (sql_delete_key kid owner)) pruneDefaultModel)"

definition DeleteAPIKey :: "string \<Rightarrow> ('z, unit) dbm" where
  "DeleteAPIKey kid = attempt (deleteAPIKey kid [])
     (\<lambda>e. if e \<noteq> ErrNoRows then raise e else ret ()) ret"

definition DeleteAPIKeyForOwner :: "string \<Rightarrow> string \<Rightarrow> ('z, unit) dbm" where
  "DeleteAPIKeyForOwner kid owner =
     (if owner = [] then raise (ErrInput ''delete api key for owner: no owner given'')
      else deleteAPIKey kid owner)"

definition same_connection :: "string \<Rightarrow> string \<Rightarrow> apikey \<Rightarrow> bool" where
  "same_connection owner provider k \<longleftrightarrow> ak_OwnerID k = owner \<and> sql_lower (ak_Provider k) = provider"

text \<open>The ciphertext to store: the one carried over when no key was submitted and one exists.\<close>

definition stored_secret ::
  "(string \<Rightarrow> string \<Rightarrow> string \<Rightarrow> string) \<Rightarrow> string option \<Rightarrow> string \<Rightarrow> string \<Rightarrow> string \<Rightarrow> string \<Rightarrow> ('z, string) dbm" where
  "stored_secret seal rnd owner provider key encKey =
     (let fresh = of_result (encryptAESGCM seal rnd encKey key) in
      if key = []
      then attempt (exec (sql_row t_keys (same_connection owner provider)))
             (\<lambda>e. if e \<noteq> ErrNoRows then raise e else fresh) (\<lambda>k. ret (ak_EncryptedKey k))
      else fresh)"

definition SaveProviderKey ::
  "(string \<Rightarrow> string) \<Rightarrow> (string \<Rightarrow> url option) \<Rightarrow> (string \<Rightarrow> string \<Rightarrow> string \<Rightarrow> string) \<Rightarrow> string option \<Rightarrow>
   string \<Rightarrow> string \<Rightarrow> string \<Rightarrow> string \<Rightarrow> string \<Rightarrow> string \<Rightarrow> string \<Rightarrow> string \<Rightarrow> ('z, unit) dbm" where
  "SaveProviderKey uni parse_url seal rnd kid owner provider key baseURL models protocol encKey =
     (case NormalizeProvider uni parse_url provider baseURL models key protocol of
        Inl e \<Rightarrow> raise e
      | Inr (base, names, proto) \<Rightarrow> in_tx
          (bindE (stored_secret seal rnd owner provider key encKey) (\<lambda>encrypted.
           bindE (exec (sql_delete t_keys t_keys_update (same_connection owner provider))) (\<lambda>_.
           bindE (with_now (\<lambda>now. exec (sql_insert t_keys t_keys_update uq_keys
             (\<lambda>s k. user_exists s (ak_OwnerID k))
             \<lparr>ak_ID = kid, ak_OwnerID = owner, ak_Provider = provider, ak_EncryptedKey = encrypted,
              ak_BaseURL = base, ak_Models = names, ak_Protocol = proto, ak_CreatedAt = now\<rparr>))) (\<lambda>_.
           pruneDefaultModel owner)))))"

lemmas providers_defs = CreateAPIKey_def GetAPIKeyPlaintext_def ListAPIKeysByOwner_def ownerModelIDs_def
  OwnerModelIDs_def set_default_model_def pruneDefaultModel_def SetUserDefaultModel_def UserDefaultModel_def
  deleteAPIKey_def DeleteAPIKey_def DeleteAPIKeyForOwner_def stored_secret_def

section \<open>Invariants are kept\<close>

lemma keeps_delete_key [keeps_rules]:
  "keeps uniq_ok (exec (sql_delete_key kid owner))" "keeps vms_ok (exec (sql_delete_key kid owner))"
  "keeps aliases_ok (exec (sql_delete_key kid owner))"
proof -
  show "keeps uniq_ok (exec (sql_delete_key kid owner))"
    by (rule uniq.keeps_exec) (auto simp: sql_delete_key_def uniq_ok_def uq_filter Let_def split: option.splits)
  show "keeps vms_ok (exec (sql_delete_key kid owner))"
    by (rule vms.keeps_exec) (auto simp: sql_delete_key_def vms_ok_frame Let_def split: option.splits)
  show "keeps aliases_ok (exec (sql_delete_key kid owner))"
    by (rule alias_inv.keeps_exec) (auto simp: sql_delete_key_def aliases_ok_frame Let_def split: option.splits)
qed

lemma keeps_prod [keeps_rules]: "(\<And>a b. keeps I (f a b)) \<Longrightarrow> keeps I (case p of (a, b) \<Rightarrow> f a b)"
  by (cases p) simp

lemma providers_keep_uniq [keeps_rules]:
  "keeps uniq_ok (CreateAPIKey seal rnd k ow p x ek)" "keeps uniq_ok (GetAPIKeyPlaintext un k ek)"
  "keeps uniq_ok (ListAPIKeysByOwner ow)" "keeps uniq_ok (OwnerModelIDs ow)"
  "keeps uniq_ok (SetUserDefaultModel ow m)" "keeps uniq_ok (UserDefaultModel ow)"
  "keeps uniq_ok (DeleteAPIKey k)" "keeps uniq_ok (DeleteAPIKeyForOwner k ow)"
  "keeps uniq_ok (SaveProviderKey uni pu seal rnd k ow p x b m pr ek)"
  unfolding SaveProviderKey_def providers_defs Let_def by (intro keeps_rules)+

lemma providers_keep_vms [keeps_rules]:
  "keeps vms_ok (CreateAPIKey seal rnd k ow p x ek)" "keeps vms_ok (GetAPIKeyPlaintext un k ek)"
  "keeps vms_ok (ListAPIKeysByOwner ow)" "keeps vms_ok (OwnerModelIDs ow)"
  "keeps vms_ok (SetUserDefaultModel ow m)" "keeps vms_ok (UserDefaultModel ow)"
  "keeps vms_ok (DeleteAPIKey k)" "keeps vms_ok (DeleteAPIKeyForOwner k ow)"
  "keeps vms_ok (SaveProviderKey uni pu seal rnd k ow p x b m pr ek)"
  unfolding SaveProviderKey_def providers_defs Let_def by (intro keeps_rules)+

lemma providers_keep_aliases [keeps_rules]:
  "keeps aliases_ok (CreateAPIKey seal rnd k ow p x ek)" "keeps aliases_ok (GetAPIKeyPlaintext un k ek)"
  "keeps aliases_ok (ListAPIKeysByOwner ow)" "keeps aliases_ok (OwnerModelIDs ow)"
  "keeps aliases_ok (SetUserDefaultModel ow m)" "keeps aliases_ok (UserDefaultModel ow)"
  "keeps aliases_ok (DeleteAPIKey k)" "keeps aliases_ok (DeleteAPIKeyForOwner k ow)"
  "keeps aliases_ok (SaveProviderKey uni pu seal rnd k ow p x b m pr ek)"
  unfolding SaveProviderKey_def providers_defs Let_def by (intro keeps_rules)+

section \<open>The chosen model stays reachable\<close>

definition model_ok :: "'z store_scheme \<Rightarrow> user \<Rightarrow> bool" where
  "model_ok s u \<longleftrightarrow> u_DefaultModel u = [] \<or> u_DefaultModel u \<in> set (model_ids s (u_ID u))"

definition models_ok :: "'z store_scheme \<Rightarrow> bool" where
  "models_ok s \<longleftrightarrow> distinct (map u_ID (t_users s)) \<and> distinct (map ak_ID (t_keys s))
     \<and> list_all (model_ok s) (t_users s)"

text \<open>The state inside a transaction that has changed one owner's connections and not pruned yet.\<close>

definition models_ok_but :: "string \<Rightarrow> 'z store_scheme \<Rightarrow> bool" where
  "models_ok_but owner s \<longleftrightarrow> distinct (map u_ID (t_users s)) \<and> distinct (map ak_ID (t_keys s))
     \<and> list_all (\<lambda>u. u_ID u \<noteq> owner \<longrightarrow> model_ok s u) (t_users s)"

lemma set_model_ids:
  "m \<in> set (model_ids s owner) \<longleftrightarrow>
    (\<exists>k\<in>set (t_keys s). ak_OwnerID k = owner \<and> ak_BaseURL k \<noteq> [] \<and> m \<in> set (key_models k))"
  by (auto simp: model_ids_def)

lemma model_ids_frame [simp]:
  "model_ids (t_users_update f1 s) = model_ids s" "model_ids (t_sessions_update f2 s) = model_ids s"
  "model_ids (t_containers_update f3 s) = model_ids s" "model_ids (t_aliases_update f4 s) = model_ids s"
  "model_ids (t_links_update f6 s) = model_ids s" "model_ids (t_settings_update f7 s) = model_ids s"
  "model_ids (t_sshkeys_update f8 s) = model_ids s" "model_ids (t_access_update f9 s) = model_ids s"
  "model_ids (faults_update f10 s) = model_ids s"
  by (simp_all add: model_ids_def fun_eq_iff)

lemma model_ok_frame [simp]:
  "model_ok (t_users_update f1 s) = model_ok s" "model_ok (t_sessions_update f2 s) = model_ok s"
  "model_ok (t_containers_update f3 s) = model_ok s" "model_ok (t_aliases_update f4 s) = model_ok s"
  "model_ok (t_links_update f6 s) = model_ok s" "model_ok (t_settings_update f7 s) = model_ok s"
  "model_ok (t_sshkeys_update f8 s) = model_ok s" "model_ok (t_access_update f9 s) = model_ok s"
  "model_ok (faults_update f10 s) = model_ok s"
  by (simp_all add: model_ok_def fun_eq_iff)

lemma models_ok_frame:
  "models_ok (t_sessions_update f2 s) = models_ok s"
  "models_ok (t_containers_update f3 s) = models_ok s" "models_ok (t_aliases_update f4 s) = models_ok s"
  "models_ok (t_links_update f6 s) = models_ok s" "models_ok (t_settings_update f7 s) = models_ok s"
  "models_ok (t_sshkeys_update f8 s) = models_ok s" "models_ok (t_access_update f9 s) = models_ok s"
  by (simp_all add: models_ok_def)

interpretation models: store_inv models_ok
  by unfold_locales (simp add: models_ok_def)

interpretation models_but: store_inv "models_ok_but owner"
  by unfold_locales (simp add: models_ok_but_def)

lemma models_ok_imp_but: "models_ok s \<Longrightarrow> models_ok_but owner s"
  by (auto simp: models_ok_def models_ok_but_def list_all_iff)

text \<open>Adding a connection can only make more models reachable; removing connections of one owner can
  only affect that owner.\<close>

lemma model_ok_add: "model_ok s u \<Longrightarrow> model_ok (t_keys_update (\<lambda>ks. ks @ [k]) s) u"
  by (auto simp: model_ok_def set_model_ids)

lemma model_ok_remove:
  "(\<And>k. k \<in> set (t_keys s) \<Longrightarrow> P k \<Longrightarrow> ak_OwnerID k \<noteq> u_ID u) \<Longrightarrow> model_ok s u \<Longrightarrow>
   model_ok (t_keys_update (filter (\<lambda>k. \<not> P k)) s) u"
  by (fastforce simp: model_ok_def set_model_ids)

lemma keeps_models_frame [keeps_rules]:
  "keeps models_ok (exec (sql_insert t_sessions t_sessions_update uq2 fk2 r2))"
  "keeps models_ok (exec (sql_insert t_containers t_containers_update uq3 fk3 r3))"
  "keeps models_ok (exec (sql_insert t_aliases t_aliases_update uq4 fk4 r4))"
  "keeps models_ok (exec (sql_insert t_links t_links_update uq6 fk6 r6))"
  "keeps models_ok (exec (sql_insert t_sshkeys t_sshkeys_update uq8 fk8 r8))"
  "keeps models_ok (exec (sql_insert t_access t_access_update uq9 fk9 r9))"
  "keeps models_ok (exec (sql_update t_containers t_containers_update uq3 P3 f3))"
  "keeps models_ok (exec (sql_update t_aliases t_aliases_update uq4 P4 f4))"
  "keeps models_ok (exec (sql_upsert_setting k v))" "keeps models_ok (exec (sql_grant p))"
  "keeps models_ok (exec (sql_delete t_sessions t_sessions_update D2))"
  "keeps models_ok (exec (\<lambda>s. sql_delete t_aliases t_aliases_update (D4 s) s))"
  "keeps models_ok (exec (sql_delete t_aliases t_aliases_update D4'))"
  "keeps models_ok (exec (sql_delete t_links t_links_update D6'))"
  "keeps models_ok (exec (sql_delete t_sshkeys t_sshkeys_update D8))"
  "keeps models_ok (exec (sql_delete t_access t_access_update D9'))"
  "keeps models_ok (exec (sql_delete_containers D3))"
  by (rule models.keeps_exec,
      auto simp: sql_insert_def sql_update_def sql_upsert_setting_def sql_grant_def sql_delete_def
        sql_delete_containers_def models_ok_frame Let_def split: if_splits)+

lemma keeps_models_keys [keeps_rules]:
  "keeps models_ok (exec (sql_insert t_keys t_keys_update uq_keys fk5 r5))"
  by (rule models.keeps_exec)
     (auto simp: sql_insert_def models_ok_def uq_keys_def list_all_iff model_ok_add split: if_splits)

lemma keeps_models_user_insert:
  "u_DefaultModel r = [] \<Longrightarrow> keeps models_ok (exec (sql_insert t_users t_users_update uq_users fk r))"
  by (rule models.keeps_exec)
     (auto simp: sql_insert_def models_ok_def list_all_iff uq_users_def split: if_splits, auto simp: model_ok_def)

lemma keeps_models_user_update:
  assumes "\<And>u. u_ID (f u) = u_ID u" and "\<And>u. u_DefaultModel (f u) = u_DefaultModel u"
  shows "keeps models_ok (exec (sql_update t_users t_users_update uq_users P f))"
proof (rule models.keeps_exec)
  fix s :: "'z store_scheme" and n t
  assume ok: "models_ok s" and "sql_update t_users t_users_update uq_users P f s = Inr (n, t)"
  then have t: "t = s\<lparr>t_users := map (\<lambda>r. if P r then f r else r) (t_users s)\<rparr>" and u: "uq_users (t_users t)"
    by (auto simp: sql_update_def Let_def split: if_splits)
  have m: "model_ok s (f u) = model_ok s u" for u
    by (simp add: model_ok_def assms)
  have "list_all (model_ok s) (map (\<lambda>r. if P r then f r else r) (t_users s))"
    using ok by (auto simp: models_ok_def list_all_iff m)
  with u ok show "models_ok t" by (simp add: models_ok_def uq_users_def t)
qed

lemmas models_rules [keeps_rules] = models.keeps_query models.keeps_in_tx

lemma accounts_keep_models [keeps_rules]:
  "keeps models_ok (CreateUser u)" "keeps models_ok (GetUserByID i)" "keeps models_ok (GetUserByEmail e)"
  "keeps models_ok (SetUserPassword i h)" "keeps models_ok CountUsers" "keeps models_ok (UpdateUser u)"
  "keeps models_ok ListUsers" "keeps models_ok (NewSessionToken rnd)"
  "keeps models_ok (GetSession t)" "keeps models_ok (DeleteSession t)"
  "keeps models_ok DeleteExpiredSessions" "keeps models_ok (CreateSSHKey k)"
  "keeps models_ok (ListSSHKeysByUser i)" "keeps models_ok (DeleteSSHKey i o')"
  "keeps models_ok (GetUserBySSHFingerprint fp)" "keeps models_ok (GetSetting x d)"
  "keeps models_ok (SetSetting x v)" "keeps models_ok NestingAllowed" "keeps models_ok (SetNestingAllowed b)"
  unfolding accounts_defs
  by (intro keeps_rules keeps_models_user_insert keeps_models_user_update; simp)+

lemma accounts_keep_models' [keeps_rules]:
  "keeps models_ok (EnsureUser i e)" "keeps models_ok (CreateSession rnd i)"
  unfolding EnsureUser_def CreateSession_def Let_def by (intro keeps_rules)+

text \<open>DeleteUser removes the connections before the account: only the whole transaction keeps it.\<close>

lemma keeps_models_DeleteUser [keeps_rules]: "keeps models_ok (DeleteUser uid)"
proof (rule keepsI)
  fix s :: "'z store_scheme" assume ok: "models_ok s"
  show "models_ok (snd (DeleteUser uid s))"
  proof (cases "DeleteUser uid s")
    case (Pair r t)
    show ?thesis
    proof (cases r)
      case (Inl e)
      with Pair have "same_data s t" by (auto simp: DeleteUser_def intro: in_tx_error_same)
      with ok Pair show ?thesis by (simp add: models.same_data_I)
    next
      case (Inr u)
      with Pair have t: "same_data (delete_user_rows uid s) t" using DeleteUser_effect by blast
      have "model_ok (delete_user_rows uid s) u" if "model_ok s u" "u_ID u \<noteq> uid" for u
        using that by (auto simp: model_ok_def set_model_ids delete_user_rows_def)
      then have "models_ok (delete_user_rows uid s)"
        using ok by (auto simp: models_ok_def list_all_iff delete_user_rows_def)
      with t Pair show ?thesis by (simp add: models.same_data_I)
    qed
  qed
qed

lemma containers_keep_models [keeps_rules]:
  "keeps models_ok (UpdateContainerPublish i p b)" "keeps models_ok (UpdateContainerNesting i b)"
  "keeps models_ok (SetNestingApplied i b)" "keeps models_ok (AttachNestingPolicy cs)"
  "keeps models_ok (GetContainerByID i)" "keeps models_ok (ListContainersByOwner i)"
  "keeps models_ok (GetContainerByName n i)" "keeps models_ok (GetContainerByNameOnly n)"
  "keeps models_ok (GetContainerByIncusName n)" "keeps models_ok (UpdateContainerStatus i st ip)"
  "keeps models_ok ListAllContainers" "keeps models_ok (RenameContainer i n)"
  "keeps models_ok (DeleteContainer i)" "keeps models_ok (SetInitialTaskState i st r)"
  "keeps models_ok (SetInitialTaskDelivered i cv)" "keeps models_ok (SetInitialTaskConversation i cv)"
  "keeps models_ok ListContainersWithTaskInProgress" "keeps models_ok (RetryInitialTask i)"
  unfolding containers_defs by (intro keeps_rules)+

lemma keeps_models_resume [keeps_rules]: "keeps models_ok (CountInitialTaskResume cid)"
  unfolding CountInitialTaskResume_def
  by (intro keeps_rules models.keeps_exec)
     (auto simp: sql_update_def models_ok_frame Let_def split: if_splits sum.splits option.splits)

lemma keeps_models_CreateContainer [keeps_rules]: "keeps models_ok (CreateContainer c)"
  unfolding CreateContainer_def Let_def by (intro keeps_rules)

lemma aliases_keep_models [keeps_rules]:
  "keeps models_ok (countAliases i)" "keeps models_ok (GetAliasByID i)"
  "keeps models_ok (GetVerifiedAliasByHostname uni h)" "keeps models_ok (ListAliasesByContainer i)"
  "keeps models_ok (SetAliasVerification i b r)" "keeps models_ok ListAllAliases"
  "keeps models_ok (ListAliasesByHostname uni h)" "keeps models_ok (DeleteAliasesByHostname uni h)"
  "keeps models_ok ListVerifiedAliases" "keeps models_ok (DeleteContainerAlias i)"
  "keeps models_ok (AttachAliases cs)" "keeps models_ok (CreateContainerAlias uni nid cid h)"
  unfolding aliases_defs CreateContainerAlias_def claim_hostname_def by (intro keeps_rules)+

lemma access_keep_models [keeps_rules]:
  "keeps models_ok (CanUseContainer i u)" "keeps models_ok (ListAccessibleContainers u)"
  "keeps models_ok (ResolveAccessibleContainer r u)" "keeps models_ok (GetAccessibleContainerByName n u)"
  "keeps models_ok (grant_tx a b ow i e k)" "keeps models_ok (ListContainerAccess i)"
  "keeps models_ok (RevokeContainerAccess ow i u)" "keeps models_ok (ContainerAccessContext c u)"
  "keeps models_ok (watch_tick c u x)"
  unfolding access_defs by (intro keeps_rules keeps_models_user_insert; simp)+

lemma Grant_keeps_models [keeps_rules]:
  "keeps models_ok (GrantContainerAccess uni pa pk a b ow i e k)"
  unfolding GrantContainerAccess_def Let_def by (intro keeps_rules)

lemma links_keep_models [keeps_rules]:
  "keeps models_ok (getSharedLinkByID i)" "keeps models_ok (CreateSharedLink r n i u e)"
  "keeps models_ok (LookupSharedLink t)" "keeps models_ok (GetSharedLinkByToken t)"
  "keeps models_ok (ListSharedLinksByContainer i)" "keeps models_ok (DeleteSharedLink i)"
  "keeps models_ok (DeleteSharedLinkByToken t)"
  unfolding links_defs by (intro keeps_rules)+

lemma models_ok_from_but:
  "models_ok_but owner s \<Longrightarrow> (\<And>u. u \<in> set (t_users s) \<Longrightarrow> u_ID u = owner \<Longrightarrow> model_ok s u) \<Longrightarrow> models_ok s"
  by (auto simp: models_ok_def models_ok_but_def list_all_iff)

lemma set_default_model_Inr:
  assumes "models_ok_but owner s" and "set_default_model owner model s = (Inr n, t)"
  shows "models_ok_but owner t \<and> (\<forall>u\<in>set (t_users t). u_ID u = owner \<longrightarrow> u_DefaultModel u = model)"
proof -
  from assms(2) have u: "t_users t = map (\<lambda>u. if u_ID u = owner then u\<lparr>u_DefaultModel := model\<rparr> else u) (t_users s)"
    and k: "t_keys t = t_keys s" and q: "uq_users (t_users t)"
    unfolding set_default_model_def
    by (auto elim!: exec_InrE simp: sql_update_def Let_def split: if_splits)
  have m: "model_ok t v = model_ok s v" for v by (simp add: model_ok_def model_ids_def k)
  have "(u_ID v = owner \<longrightarrow> u_DefaultModel v = model) \<and> (u_ID v \<noteq> owner \<longrightarrow> v \<in> set (t_users s))"
    if "v \<in> set (t_users t)" for v
  proof -
    from that obtain w where "w \<in> set (t_users s)"
      and "v = (if u_ID w = owner then w\<lparr>u_DefaultModel := model\<rparr> else w)"
      unfolding u set_map by (elim imageE)
    then show ?thesis by (cases "u_ID w = owner") simp_all
  qed
  then show ?thesis
    using assms(1) q unfolding models_ok_but_def uq_users_def list_all_iff m k by blast
qed

lemma clear_default_model:
  "models_ok_but owner s \<Longrightarrow> set_default_model owner [] s = (Inr n, t) \<Longrightarrow> models_ok t"
  using set_default_model_Inr [of owner s "[]" n t] by (intro models_ok_from_but) (auto simp: model_ok_def)

text \<open>Pruning restores the invariant: from a state where only one owner's choice may dangle, it
  succeeds only in a state where none does.\<close>

lemma prune_hoare: "hoare (models_ok_but owner) (pruneDefaultModel owner) (\<lambda>_. models_ok) (\<lambda>_ _. True)"
proof (rule hoareI)
  fix s t :: "'z store_scheme" and x
  assume pre: "models_ok_but owner s" and run: "pruneDefaultModel owner s = (Inr x, t)"
  let ?row = "exec (sql_row t_users (\<lambda>u. u_ID u = owner))"
  obtain s1 ids where 1: "exec (sql_value (\<lambda>s. model_ids s owner)) s = (Inr ids, s1)"
    and 2: "attempt ?row (\<lambda>e. if e = ErrNoRows then ret () else raise e)
       (\<lambda>u. if u_DefaultModel u = [] \<or> u_DefaultModel u \<in> set ids then ret ()
            else void (set_default_model owner [])) s1 = (Inr x, t)"
    using run unfolding pruneDefaultModel_def ownerModelIDs_def by (rule bindE_InrE)
  from 1 have ids: "ids = model_ids s1 owner" and "same_data s s1" by (auto elim!: exec_InrE simp: sql_value_def)
  with pre have pre1: "models_ok_but owner s1" by (simp add: models_but.same_data_I)
  obtain r s2 where row: "?row s1 = (r, s2)" by (cases "?row s1")
  show "models_ok t"
  proof (cases r)
    case (Inl e)
    with 2 row have none: "?row s1 = (Inl ErrNoRows, t)" by (auto simp: attempt_def split: if_splits)
    have "models_ok s1" by (rule models_ok_from_but [OF pre1]) (use users.row_none [OF none] in auto)
    then show ?thesis using exec_error_same [OF none] by (simp add: models.same_data_I)
  next
    case (Inr u)
    with row users.row_ok [of "\<lambda>u. u_ID u = owner" s1 u s2]
    have u: "u \<in> set (t_users s1)" "u_ID u = owner" and sd2: "same_data s1 s2" by auto
    have only: "v = u" if "v \<in> set (t_users s1)" "u_ID v = owner" for v
      using distinct_map_eqD [of u_ID "t_users s1" v u] pre1 u that by (auto simp: models_ok_but_def)
    show ?thesis
    proof (cases "u_DefaultModel u = [] \<or> u_DefaultModel u \<in> set ids")
      case True
      have "models_ok s1" by (rule models_ok_from_but [OF pre1]) (use only True ids in \<open>auto simp: model_ok_def\<close>)
      moreover have "t = s2" using 2 row Inr True by (simp add: attempt_def)
      ultimately show ?thesis using sd2 by (simp add: models.same_data_I)
    next
      case False
      from sd2 pre1 have "models_ok_but owner s2" by (simp add: models_but.same_data_I)
      moreover obtain n where "set_default_model owner [] s2 = (Inr n, t)"
        using 2 row Inr False by (auto simp: attempt_def void_Inr)
      ultimately show ?thesis by (rule clear_default_model)
    qed
  qed
qed simp

text \<open>The three transactions that can retire a model.\<close>

lemma models_remove:
  assumes "models_ok s" and "\<And>k. k \<in> set (t_keys s) \<Longrightarrow> P k \<Longrightarrow> ak_OwnerID k = owner"
  shows "models_ok_but owner (t_keys_update (filter (\<lambda>k. \<not> P k)) s)"
  using assms
  by (auto simp: models_ok_def models_ok_but_def list_all_iff intro!: model_ok_remove)

lemma keeps_models_deleteAPIKey [keeps_rules]: "keeps (models_ok :: 'z store_scheme \<Rightarrow> bool) (deleteAPIKey kid owner)"
  unfolding deleteAPIKey_def
proof (rule models.keeps_in_tx_hoare, rule hoare_bindE)
  show "hoare (models_ok :: 'z store_scheme \<Rightarrow> bool) (exec (sql_delete_key kid owner)) (\<lambda>ow. models_ok_but ow) (\<lambda>_ _. True)"
  proof (rule hoareI)
    fix s t :: "'z store_scheme" and ow
    assume ok: "models_ok s" and run: "exec (sql_delete_key kid owner) s = (Inr ow, t)"
    let ?s = "s\<lparr>faults := tl (faults s)\<rparr>"
    let ?P = "\<lambda>k. ak_ID k = kid \<and> (owner = [] \<or> ak_OwnerID k = owner)"
    from run obtain k where k: "find ?P (t_keys s) = Some k" "ow = ak_OwnerID k"
      and t: "t = t_keys_update (filter (\<lambda>k. \<not> ?P k)) ?s"
      by (elim exec_InrE) (auto simp: sql_delete_key_def Let_def split: option.splits)
    have mem: "?P k \<and> k \<in> set (t_keys s)" by (rule find_Some_iff_mem [OF k(1)])
    have "ak_OwnerID j = ow" if "j \<in> set (t_keys s)" "?P j" for j
      using distinct_map_eqD [of ak_ID "t_keys s" j k] ok that mem k(2) by (simp add: models_ok_def)
    with ok show "models_ok_but ow t" unfolding t by (intro models_remove) auto
  qed simp
qed (rule prune_hoare)

lemma SetUserDefaultModel_body:
  "hoare (models_ok :: 'z store_scheme \<Rightarrow> bool) (bindE (set_default_model owner model) (\<lambda>n.
      if n = 0 then raise ErrNoRows
      else if model = [] then ret ()
      else bindE (ownerModelIDs owner) (\<lambda>ids.
        if model \<notin> set ids then raise (ErrUnknownModel model) else ret ()))) (\<lambda>_. models_ok) (\<lambda>_ _. True)"
proof (rule hoare_bindE)
  let ?R = "\<lambda>s :: 'z store_scheme. models_ok_but owner s \<and> (\<forall>u\<in>set (t_users s). u_ID u = owner \<longrightarrow> u_DefaultModel u = model)"
  show "hoare models_ok (set_default_model owner model) (\<lambda>_. ?R) (\<lambda>_ _. True)"
    by (rule hoareI) (simp_all add: set_default_model_Inr [OF models_ok_imp_but])
  have pick: "models_ok (s :: 'z store_scheme)" if "?R s" "model = [] \<or> model \<in> set (model_ids s owner)" for s
    using that by (intro models_ok_from_but [of owner]) (auto simp: model_ok_def)
  have reach: "hoare ?R (bindE (ownerModelIDs owner) (\<lambda>ids.
        if model \<notin> set ids then raise (ErrUnknownModel model) else ret ())) (\<lambda>_. models_ok) (\<lambda>_ _. True)"
  proof (rule hoareI)
    fix s t :: "'z store_scheme" and x assume "?R s"
      and "bindE (ownerModelIDs owner) (\<lambda>ids.
        if model \<notin> set ids then raise (ErrUnknownModel model) else ret ()) s = (Inr x, t)"
    moreover from this have "model \<in> set (model_ids s owner) \<and> same_data s t"
      by (auto elim!: bindE_InrE exec_InrE simp: ownerModelIDs_def sql_value_def split: if_splits)
    ultimately show "models_ok t" using pick models.same_data_I by blast
  qed simp
  show "hoare ?R (if n = 0 then raise ErrNoRows else if model = [] then ret ()
      else bindE (ownerModelIDs owner) (\<lambda>ids.
        if model \<notin> set ids then raise (ErrUnknownModel model) else ret ())) (\<lambda>_. models_ok) (\<lambda>_ _. True)" for n :: nat
    by (intro hoare_if reach hoare_ret hoare_raise pick) simp_all
qed

lemma keeps_models_SetUserDefaultModel [keeps_rules]: "keeps models_ok (SetUserDefaultModel owner model)"
  unfolding SetUserDefaultModel_def by (rule models.keeps_in_tx_hoare [OF SetUserDefaultModel_body])

lemma keeps_models_stored_secret [keeps_rules]:
  "keeps models_ok (stored_secret seal rnd owner provider key encKey)"
  unfolding stored_secret_def Let_def by (intro keeps_rules)

lemma hoare_keeps: "keeps I m \<Longrightarrow> hoare I m (\<lambda>_. I) (\<lambda>_ _. True)"
  by (rule hoare_conseq [where P' = I and Q' = "\<lambda>_. I" and E' = "\<lambda>_. I"]) (simp_all add: keeps_hoare)

lemma keeps_models_SaveProviderKey [keeps_rules]:
  "keeps (models_ok :: 'z store_scheme \<Rightarrow> bool)
     (SaveProviderKey uni pu seal rnd kid owner provider key b m pr encKey)"
proof -
  have del: "hoare (models_ok :: 'z store_scheme \<Rightarrow> bool) (exec (sql_delete t_keys t_keys_update (same_connection owner provider)))
      (\<lambda>_. models_ok_but owner) (\<lambda>_ _. True)"
  proof (rule hoareI)
    fix s t :: "'z store_scheme" and n
    assume ok: "models_ok s"
      and "exec (sql_delete t_keys t_keys_update (same_connection owner provider)) s = (Inr n, t)"
    then have "t = t_keys_update (filter (\<lambda>k. \<not> same_connection owner provider k)) (s\<lparr>faults := tl (faults s)\<rparr>)"
      using apikeys.delete_ok by blast
    moreover have "models_ok (s\<lparr>faults := tl (faults s)\<rparr>)" using ok by simp
    ultimately show "models_ok_but owner t"
      using models_remove [of "s\<lparr>faults := tl (faults s)\<rparr>" "same_connection owner provider" owner]
      by (simp add: same_connection_def)
  qed simp
  have ins: "hoare (models_ok_but owner) (exec (sql_insert t_keys t_keys_update uq_keys fk r))
      (\<lambda>_. models_ok_but owner) (\<lambda>_ _. True)" for fk r
    by (rule hoare_keeps, rule models_but.keeps_exec)
       (auto simp: sql_insert_def models_ok_but_def uq_keys_def list_all_iff model_ok_add split: if_splits)
  have now: "hoare (models_ok_but owner) (gets clock) (\<lambda>_. models_ok_but owner) (\<lambda>_ _. True)"
    by (simp add: hoare_def)
  show ?thesis
    unfolding SaveProviderKey_def with_now_def bindE_assoc
    by (intro keeps_sum keeps_prod keeps_raise models.keeps_in_tx_hoare
        hoare_bindE [OF hoare_keeps [OF keeps_models_stored_secret]] hoare_bindE [OF del]
        hoare_bindE [OF now] hoare_bindE [OF ins] prune_hoare)
qed

lemma providers_keep_models [keeps_rules]:
  "keeps models_ok (CreateAPIKey seal rnd k ow p x ek)" "keeps models_ok (GetAPIKeyPlaintext un k ek)"
  "keeps models_ok (ListAPIKeysByOwner ow)" "keeps models_ok (OwnerModelIDs ow)"
  "keeps models_ok (UserDefaultModel ow)"
  "keeps models_ok (DeleteAPIKey k)" "keeps models_ok (DeleteAPIKeyForOwner k ow)"
  unfolding CreateAPIKey_def GetAPIKeyPlaintext_def ListAPIKeysByOwner_def ownerModelIDs_def
    OwnerModelIDs_def UserDefaultModel_def DeleteAPIKey_def DeleteAPIKeyForOwner_def
  by (intro keeps_rules)+

section \<open>What normalisation returns\<close>

lemma strip_seqs_subset: "set (strip_seqs ws s) \<subseteq> set s"
proof (induction ws s rule: strip_seqs.induct)
  case (1 ws s)
  show ?case
  proof (cases "find (\<lambda>w. w \<noteq> [] \<and> HasPrefix s w) ws")
    case None
    then show ?thesis by (subst strip_seqs.simps) simp
  next
    case (Some w)
    with 1 have "set (strip_seqs ws (drop (length w) s)) \<subseteq> set (drop (length w) s)" by simp
    with Some show ?thesis by (subst strip_seqs.simps) (auto dest: in_set_dropD)
  qed
qed

lemma TrimSpace_subset: "set (TrimSpace s) \<subseteq> set s"
  unfolding TrimSpace_def
  using strip_seqs_subset [of "map rev space_runes" "rev (strip_seqs space_runes s)"]
    strip_seqs_subset [of space_runes s] by auto

lemma split_by_sep: "w \<in> set (split_by p s) \<Longrightarrow> c \<in> set w \<Longrightarrow> \<not> p c"
proof (induction s arbitrary: w)
  case (Cons x s)
  then show ?case by (fastforce split: if_splits list.splits)
qed simp

lemma normalize_models_Inr:
  "normalize_models ws acc = Inr ns \<Longrightarrow> distinct acc \<Longrightarrow>
   distinct ns \<and> set ns = set acc \<union> {TrimSpace w |w. w \<in> set ws \<and> TrimSpace w \<noteq> []}"
proof (induction ws acc rule: normalize_models.induct)
  case (2 n ws acc)
  then show ?case by (auto simp: Let_def split: if_splits)
qed auto

lemma FieldsFunc_no_sep: "w \<in> set (FieldsFunc is_model_sep m) \<Longrightarrow> CHR '','' \<notin> set w"
  using split_by_sep [of w is_model_sep m "CHR '',''"] by (auto simp: FieldsFunc_def is_model_sep_def)

text \<open>A connection NormalizeProvider accepts is complete and can be read back.  It has a base
  URL exactly when it has models and exactly when it has a protocol, the protocol is one the agent
  speaks, and splitting the stored model list gives the distinct non-blank names that were submitted,
  each without a comma.\<close>

theorem NormalizeProvider_shape:
  assumes "NormalizeProvider uni parse_url provider baseURL models key protocol = Inr (base, stored, proto)"
  shows "(base = [] \<longleftrightarrow> proto = []) \<and> (proto \<noteq> [] \<longrightarrow> proto \<in> set protocols)
    \<and> (\<exists>names. filter (\<lambda>m. m \<noteq> []) (Split stored CHR '','') = names \<and> distinct names
         \<and> (base = [] \<longleftrightarrow> names = [])
         \<and> set names = {TrimSpace w |w. w \<in> set (FieldsFunc is_model_sep models) \<and> TrimSpace w \<noteq> []})"
proof -
  from assms obtain names where n: "normalize_models (FieldsFunc is_model_sep models) [] = Inr names"
    and c: "choose_protocol base (ToLower uni (TrimSpace protocol)) = Inr proto"
    and b: "base = [] \<longleftrightarrow> names = []" and s: "stored = Join names CHR '',''"
    by (auto simp: NormalizeProvider_def Let_def split: if_splits sum.splits)
  have d: "distinct names"
    and set: "set names = {TrimSpace w |w. w \<in> set (FieldsFunc is_model_sep models) \<and> TrimSpace w \<noteq> []}"
    using normalize_models_Inr [OF n] by auto
  have "CHR '','' \<notin> set w" if "w \<in> set names" for w
    using that set TrimSpace_subset FieldsFunc_no_sep by fastforce
  then have "Split stored CHR '','' = (if names = [] then [[]] else names)"
    using Split_Join [of names] by (simp add: s)
  moreover have "filter (\<lambda>m. m \<noteq> []) names = names" using set by (auto simp: filter_id_conv)
  moreover have "(base = [] \<longleftrightarrow> proto = []) \<and> (proto \<noteq> [] \<longrightarrow> proto \<in> set protocols)"
    using c by (auto simp: choose_protocol_def DefaultProtocol_def protocols_def split: if_splits)
  ultimately show ?thesis using d set b by auto
qed

section \<open>Saving a connection\<close>

lemma lower_fixed: "(\<And>c. c \<in> set p \<Longrightarrow> label_char c) \<Longrightarrow> sql_lower p = p"
  using label_char_byte unfolding sql_lower_def by (intro map_idI ascii_lower_fixed) force

lemma ValidProvider_lower: "ValidProvider p \<Longrightarrow> sql_lower p = p"
proof -
  assume v: "ValidProvider p"
  have "label_char c" if "c \<in> set p" for c
  proof (cases "custom_provider p")
    case True
    then obtain r where "p = ''custom-'' @ r" and "r \<noteq> []" "is_lower_alnum (hd r)"
      "list_all (\<lambda>c. is_lower_alnum c \<or> c = CHR ''-'') (tl r)"
      by (auto simp: custom_provider_def CutPrefix_Some split: option.splits)
    with that show ?thesis
      by (cases r) (auto simp: label_char_def list_all_iff is_lower_alnum_def is_digit_def byte_def)
  next
    case False
    with v that show ?thesis
      by (auto simp: ValidProvider_def label_char_def is_lower_alnum_def is_digit_def byte_def)
  qed
  then show ?thesis by (rule lower_fixed)
qed

lemma prune_keys: "pruneDefaultModel owner s = (Inr x, t) \<Longrightarrow> t_keys t = t_keys s"
  unfolding pruneDefaultModel_def ownerModelIDs_def set_default_model_def
  by (auto elim!: bindE_InrE exec_InrE simp: sql_value_def attempt_def void_Inr sql_update_def Let_def
      split: prod.splits sum.splits if_splits dest!: exec_error_same same_data_fields users.row_ok)

lemma stored_secret_Inr:
  assumes "stored_secret seal rnd owner provider key encKey s = (Inr enc, t)"
  shows "same_data s t \<and>
    (case find (same_connection owner provider) (t_keys s) of
       Some k \<Rightarrow> if key = [] then enc = ak_EncryptedKey k else encryptAESGCM seal rnd encKey key = Inr enc
     | None \<Rightarrow> encryptAESGCM seal rnd encKey key = Inr enc)"
proof (cases "key = []")
  case True
  obtain r s1 where row: "exec (sql_row t_keys (same_connection owner provider)) s = (r, s1)"
    by (cases "exec (sql_row t_keys (same_connection owner provider)) s")
  show ?thesis
  proof (cases r)
    case (Inl e)
    with row assms True have none: "exec (sql_row t_keys (same_connection owner provider)) s = (Inl ErrNoRows, s1)"
      and "encryptAESGCM seal rnd encKey key = Inr enc" "t = s1"
      by (auto simp: stored_secret_def attempt_def of_result_def split: if_splits)
    with apikeys.row_none [OF none] exec_error_same [OF none] True show ?thesis
      by (auto simp: find_None_mem split: option.split dest: find_Some_iff_mem)
  next
    case (Inr k)
    with row assms True have "exec (sql_row t_keys (same_connection owner provider)) s = (Inr k, t)"
      and "enc = ak_EncryptedKey k"
      by (auto simp: stored_secret_def attempt_def)
    with apikeys.row_ok True show ?thesis by fastforce
  qed
next
  case False
  with assms show ?thesis by (auto simp: stored_secret_def of_result_def split: option.split)
qed

lemma SaveProviderKey_effect:
  assumes "NormalizeProvider uni parse_url provider baseURL models key protocol = Inr (base, names, proto)"
    and "SaveProviderKey uni parse_url seal rnd kid owner provider key baseURL models protocol encKey s = (Inr u, t)"
  shows "\<exists>enc. t_keys t = filter (\<lambda>k. \<not> same_connection owner provider k) (t_keys s)
       @ [\<lparr>ak_ID = kid, ak_OwnerID = owner, ak_Provider = provider, ak_EncryptedKey = enc,
           ak_BaseURL = base, ak_Models = names, ak_Protocol = proto, ak_CreatedAt = clock s\<rparr>]
     \<and> (case find (same_connection owner provider) (t_keys s) of
          Some old \<Rightarrow> if key = [] then enc = ak_EncryptedKey old else encryptAESGCM seal rnd encKey key = Inr enc
        | None \<Rightarrow> encryptAESGCM seal rnd encKey key = Inr enc)"
proof -
  let ?row = "\<lambda>enc now. \<lparr>ak_ID = kid, ak_OwnerID = owner, ak_Provider = provider, ak_EncryptedKey = enc,
           ak_BaseURL = base, ak_Models = names, ak_Protocol = proto, ak_CreatedAt = now\<rparr>"
  from assms obtain s1 s2 s3 s4 s5 enc d v where b: "same_data s s1" and c: "same_data s5 t"
    and 1: "stored_secret seal rnd owner provider key encKey s1 = (Inr enc, s2)"
    and 2: "exec (sql_delete t_keys t_keys_update (same_connection owner provider)) s2 = (Inr d, s3)"
    and 3: "exec (sql_insert t_keys t_keys_update uq_keys (\<lambda>s k. user_exists s (ak_OwnerID k))
        (?row enc (clock s3))) s3 = (Inr v, s4)"
    and 4: "pruneDefaultModel owner s4 = (Inr u, s5)"
    unfolding SaveProviderKey_def by (auto elim!: in_tx_InrE bindE_InrE)
  note f = same_data_fields [OF b] same_data_fields [OF conjunct1 [OF stored_secret_Inr [OF 1]]]
    does_fields [OF apikeys.does_delete 2] does_fields [OF apikeys.does_insert 3] prune_keys [OF 4] same_data_fields [OF c]
  have "t_keys t = filter (\<lambda>k. \<not> same_connection owner provider k) (t_keys s) @ [?row enc (clock s)]"
    using f by simp
  moreover have "t_keys s1 = t_keys s" using f by simp
  ultimately show ?thesis using stored_secret_Inr [OF 1] by (intro exI [of _ enc]) simp
qed

text \<open>Saving a connection replaces exactly that connection.  Whatever the engine does,
  SaveProviderKey either fails with every table unchanged, or leaves the owner with one row for the
  provider, every other connection (the owner's and everybody else's) as it was, and as its secret
  the stored ciphertext when no key was submitted and one existed, otherwise the encryption of the
  submitted key.\<close>

theorem SaveProviderKey_replaces:
  "case SaveProviderKey uni parse_url seal rnd kid owner provider key baseURL models protocol encKey s of
     (Inl e, t) \<Rightarrow> same_data s t
   | (Inr _, t) \<Rightarrow>
       filter (\<lambda>k. \<not> same_connection owner provider k) (t_keys t)
         = filter (\<lambda>k. \<not> same_connection owner provider k) (t_keys s)
       \<and> (\<exists>k. filter (same_connection owner provider) (t_keys t) = [k] \<and> ak_ID k = kid
           \<and> NormalizeProvider uni parse_url provider baseURL models key protocol
               = Inr (ak_BaseURL k, ak_Models k, ak_Protocol k)
           \<and> (case find (same_connection owner provider) (t_keys s) of
                Some old \<Rightarrow> if key = [] then ak_EncryptedKey k = ak_EncryptedKey old
                             else encryptAESGCM seal rnd encKey key = Inr (ak_EncryptedKey k)
              | None \<Rightarrow> encryptAESGCM seal rnd encKey key = Inr (ak_EncryptedKey k)))"
proof (cases "NormalizeProvider uni parse_url provider baseURL models key protocol")
  case (Inl e)
  then show ?thesis by (simp add: SaveProviderKey_def)
next
  case (Inr n)
  obtain base names proto where n: "n = (base, names, proto)" by (cases n) auto
  have v: "sql_lower provider = provider"
    using Inr ValidProvider_lower by (auto simp: NormalizeProvider_def split: if_splits)
  let ?run = "SaveProviderKey uni parse_url seal rnd kid owner provider key baseURL models protocol encKey s"
  show ?thesis
  proof (cases ?run)
    case (Pair r t)
    show ?thesis
    proof (cases r)
      case (Inl e)
      with Pair have "?run = (Inl e, t)" by simp
      then have "same_data s t"
        by (simp add: SaveProviderKey_def Inr n) (rule in_tx_error_same)
      with Pair Inl show ?thesis by simp
    next
      case (Inr u)
      with Pair SaveProviderKey_effect [OF \<open>NormalizeProvider _ _ _ _ _ _ _ = Inr n\<close> [unfolded n], of seal rnd kid owner encKey s u t]
      obtain enc where "t_keys t = filter (\<lambda>k. \<not> same_connection owner provider k) (t_keys s)
         @ [\<lparr>ak_ID = kid, ak_OwnerID = owner, ak_Provider = provider, ak_EncryptedKey = enc,
             ak_BaseURL = base, ak_Models = names, ak_Protocol = proto, ak_CreatedAt = clock s\<rparr>]"
        and "case find (same_connection owner provider) (t_keys s) of
          Some old \<Rightarrow> if key = [] then enc = ak_EncryptedKey old else encryptAESGCM seal rnd encKey key = Inr enc
        | None \<Rightarrow> encryptAESGCM seal rnd encKey key = Inr enc" by auto
      with Pair Inr v \<open>NormalizeProvider _ _ _ _ _ _ _ = Inr n\<close> show ?thesis
        by (auto simp: n same_connection_def conj_commute split: option.splits)
    qed
  qed
qed

text \<open>A saved key can be read back.  For any cipher that decrypts what it encrypted, once an
  owner has saved a connection with a key, GetAPIKeyPlaintext returns exactly that key.\<close>

theorem SaveProviderKey_roundtrip:
  assumes "\<And>k n p. unseal k n (seal k n p) = Some p" and "length nonce = gcm_nonce_size"
    and "faults s = []" and "key \<noteq> []" and "uniq_ok s"
    and "SaveProviderKey uni parse_url seal (Some nonce) kid owner provider key baseURL models protocol encKey s
      = (Inr u, t)"
  shows "fst (GetAPIKeyPlaintext unseal kid encKey (t\<lparr>faults := []\<rparr>)) = Inr key"
proof -
  from assms(6) obtain base names proto
    where "NormalizeProvider uni parse_url provider baseURL models key protocol = Inr (base, names, proto)"
    by (auto simp: SaveProviderKey_def split: sum.splits)
  from SaveProviderKey_effect [OF this assms(6)] assms(4) obtain k
    where k: "k \<in> set (t_keys t)" "ak_ID k = kid" and e: "encryptAESGCM seal (Some nonce) encKey key = Inr (ak_EncryptedKey k)"
    by (force split: option.splits)
  have "uniq_ok t" using keepsD [OF providers_keep_uniq(9) assms(5)] assms(6) by (metis snd_conv)
  then have "find (\<lambda>j. ak_ID j = kid) (t_keys t) = Some k"
    using find_unique_key [of ak_ID "t_keys t" k] k by (simp add: uniq_ok_def uq_keys_def)
  moreover have "aes_key_ok encKey" and "ak_EncryptedKey k = nonce @ seal encKey nonce key"
    using e by (auto simp: encryptAESGCM_def split: if_splits)
  then have "decryptAESGCM unseal encKey (ak_EncryptedKey k) = Inr key"
    using assms(1,2) by (simp add: decryptAESGCM_def)
  ultimately show ?thesis by (simp add: GetAPIKeyPlaintext_def run_defs of_result_def)
qed

text \<open>C20: the model an account's VMs open on is always one it can reach.  Every operation that writes connections or accounts
  keeps that true on every schedule of engine failures, although saving and deleting connections retire models: choosing a model,
  saving, adding and deleting connections, creating an account (as such, at the first sign-in through a proxy, or as a guest of a
  shared VM), changing its name, role or password, and deleting it.\<close>

theorem default_model_reachable:
  assumes "models_ok s"
  shows "models_ok (snd (SetUserDefaultModel owner model s))
    \<and> models_ok (snd (SaveProviderKey uni parse_url seal rnd kid owner provider key b m p encKey s))
    \<and> models_ok (snd (DeleteAPIKeyForOwner kid owner s)) \<and> models_ok (snd (DeleteAPIKey kid s))
    \<and> models_ok (snd (DeleteUser owner s)) \<and> models_ok (snd (CreateAPIKey seal rnd kid owner provider key encKey s))
    \<and> models_ok (snd (CreateUser u s)) \<and> models_ok (snd (EnsureUser uid email s)) \<and> models_ok (snd (UpdateUser u s))
    \<and> models_ok (snd (SetUserPassword uid hash s))
    \<and> models_ok (snd (GrantContainerAccess uni parse_addr parse_key nu nk owner cid email line s))"
  by (intro conjI keepsD [of models_ok] assms keeps_rules)

section \<open>Instances\<close>

definition demo_url :: "string \<Rightarrow> url option" where
  "demo_url b = (if HasPrefix b ''https://''
     then Some \<lparr>url_Scheme = ''https'', url_Hostname = ''h'', url_HasUser = False, url_RawQuery = [], url_Fragment = []\<rparr>
     else None)"

definition demo_owner :: store where
  "demo_owner = demo_store\<lparr>t_users := [demo_user ''u1'' ''user'']\<rparr>"

lemma demo_normalize:
  "NormalizeProvider id demo_url ''custom-x'' ''https://h/v1/'' ''m1, m2,m1'' ''k'' [] =
     Inr (''https://h/v1'', ''m1,m2'', ''openai'')"
  by code_simp

theorem NormalizeProvider_shape_witness:
  "\<exists>names. filter (\<lambda>m. m \<noteq> []) (Split ''m1,m2'' CHR '','') = names \<and> distinct names"
  using NormalizeProvider_shape [OF demo_normalize] by auto

lemma demo_save:
  "SaveProviderKey id demo_url (\<lambda>k n p. p) (Some ''000000000000'') ''k1'' ''u1'' ''custom-x'' ''k'' ''https://h/v1/''
     ''m1, m2,m1'' [] ''0123456789abcdef'' demo_owner
   = (Inr (), demo_owner\<lparr>t_keys := [\<lparr>ak_ID = ''k1'', ak_OwnerID = ''u1'', ak_Provider = ''custom-x'',
       ak_EncryptedKey = ''000000000000k'', ak_BaseURL = ''https://h/v1'', ak_Models = ''m1,m2'',
       ak_Protocol = ''openai'', ak_CreatedAt = 0\<rparr>]\<rparr>)"
proof -
  have e: "encryptAESGCM (\<lambda>k n p. p) (Some ''000000000000'') ''0123456789abcdef'' ''k'' = Inr ''000000000000k''"
    by (simp add: encryptAESGCM_def aes_key_ok_def)
  show ?thesis
    unfolding SaveProviderKey_def demo_normalize
    by (simp add: stored_secret_def of_result_def e in_tx_def exec_no_fault sql_nop_def bindE_def sql_delete_def
        sql_insert_def pruneDefaultModel_def ownerModelIDs_def sql_value_def attempt_def sql_row_def
        demo_owner_def demo_store_def demo_user_def uq_keys_def user_exists_def)
qed

theorem SaveProviderKey_roundtrip_witness:
  "fst (GetAPIKeyPlaintext (\<lambda>k n c. Some c) ''k1'' ''0123456789abcdef''
     (snd (SaveProviderKey id demo_url (\<lambda>k n p. p) (Some ''000000000000'') ''k1'' ''u1'' ''custom-x'' ''k'' ''https://h/v1/''
     ''m1, m2,m1'' [] ''0123456789abcdef'' demo_owner))) = Inr ''k''"
proof -
  have u: "uniq_ok demo_owner" "faults demo_owner = []"
    by (simp_all add: demo_owner_def demo_store_def demo_user_def uniq_ok_def uq_defs)
  show ?thesis
    unfolding demo_save snd_conv
    using SaveProviderKey_roundtrip [where unseal = "\<lambda>k n c. Some c", OF _ _ u(2) _ u(1) demo_save]
    by (simp add: gcm_nonce_size_def demo_owner_def demo_store_def)
qed

theorem default_model_reachable_witness:
  "models_ok (snd (DeleteAPIKeyForOwner ''k1'' ''u1'' (demo_owner\<lparr>t_users := [demo_user ''u1'' ''user''
      \<lparr>u_DefaultModel := ''svkexe_user:p:m''\<rparr>], t_keys := [\<lparr>ak_ID = ''k1'', ak_OwnerID = ''u1'', ak_Provider = ''p'',
       ak_EncryptedKey = ''x'', ak_BaseURL = ''b'', ak_Models = ''m'', ak_Protocol = ''openai'', ak_CreatedAt = 0\<rparr>]\<rparr>)))"
  by (intro default_model_reachable [THEN conjunct2, THEN conjunct2, THEN conjunct1])
     (simp add: models_ok_def model_ok_def set_model_ids key_models_def UserModelID_def UserModelPrefix_def demo_owner_def
       demo_store_def demo_user_def)

end
