(* ===== verification/Dns_Check.thy ===== *)
theory Dns_Check
  imports Go_Strings
begin

text \<open>
  DNS verification: \<^verbatim>\<open>src/internal/dnscheck/dnscheck.go\<close>.

  The resolver is an argument.  It answers the \<open>n\<close>-th question that is put to it, so two questions about
  the same name may get different answers; the verifier's state counts the questions.  An address
  arrives as the bytes of a \<^verbatim>\<open>net.IP\<close>.  \<^verbatim>\<open>netip.ParseAddr\<close> and
  \<^verbatim>\<open>Addr.String\<close> are arguments too.  Times and durations are nanoseconds.

  Two kinds of failure are kept apart, because the periodic re-check acts on one of them only:
  \<open>PointsElsewhere\<close> (\<^verbatim>\<open>ErrPointsElsewhere\<close>: DNS answered, and the answer was not this
  gateway) and \<open>CannotTell\<close> (everything else).
\<close>

text \<open>\<^verbatim>\<open>netip.Addr\<close> by family; the bytes are 4 and 16.\<close>

datatype addr = Addr4 string | Addr6 string

datatype verify_err = PointsElsewhere string | CannotTell string

type_synonym resolver = "nat \<Rightarrow> string \<Rightarrow> string + string list"

record verifier =
  v_domain :: string
  v_staticIPs :: "addr list"
  v_cachedIPs :: "addr list"
  v_cachedAt :: "int option"
  v_questions :: nat

definition gatewayIPTTL :: int where
  "gatewayIPTTL = 5 * 60 * 1000000000"

definition AddrFromSlice :: "string \<Rightarrow> addr option" where
  "AddrFromSlice ip = (if length ip = 4 then Some (Addr4 ip) else if length ip = 16 then Some (Addr6 ip) else None)"

text \<open>\<^verbatim>\<open>Addr.Unmap\<close>: an IPv4-mapped IPv6 address as the IPv4 address.\<close>

definition mapped_prefix :: string where
  "mapped_prefix = replicate 10 (CHR 0x00) @ [CHR 0xFF, CHR 0xFF]"

fun Unmap :: "addr \<Rightarrow> addr" where
  "Unmap (Addr4 b) = Addr4 b"
| "Unmap (Addr6 b) = (if HasPrefix b mapped_prefix then Addr4 (drop 12 b) else Addr6 b)"

definition toAddr :: "string \<Rightarrow> addr option" where
  "toAddr ip = map_option Unmap (AddrFromSlice ip)"

definition usable :: "string list \<Rightarrow> addr list" where
  "usable ips = List.map_filter toAddr ips"

definition joinAddrs :: "(addr \<Rightarrow> string) \<Rightarrow> addr list \<Rightarrow> string" where
  "joinAddrs show_addr addrs =
     (if addrs = [] then ''no addresses''
      else concat (show_addr (hd addrs) # map (\<lambda>a. '', '' @ show_addr a) (tl addrs)))"

definition New_verifier :: "(string \<Rightarrow> addr option) \<Rightarrow> string \<Rightarrow> string list \<Rightarrow> verifier" where
  "New_verifier parse_addr domain staticIPs =
     \<lparr>v_domain = TrimSuffix (TrimSpace domain) ''.'',
      v_staticIPs = List.map_filter parse_addr (filter (\<lambda>raw. raw \<noteq> []) (map TrimSpace staticIPs)),
      v_cachedIPs = [], v_cachedAt = None, v_questions = 0\<rparr>"

definition NewFromEnv :: "(string \<Rightarrow> addr option) \<Rightarrow> string \<Rightarrow> string \<Rightarrow> verifier" where
  "NewFromEnv parse_addr env_domain env_ips =
     New_verifier parse_addr env_domain (if env_ips \<noteq> [] then Split env_ips CHR '','' else [])"

definition lookupIP :: "resolver \<Rightarrow> string \<Rightarrow> (verifier, string, string list) sm" where
  "lookupIP dns host v = (dns (v_questions v) host, v\<lparr>v_questions := Suc (v_questions v)\<rparr>)"

definition gatewayAddrs :: "resolver \<Rightarrow> int \<Rightarrow> (verifier, string, addr list) sm" where
  "gatewayAddrs dns now v =
     (if v_staticIPs v \<noteq> [] then (Inr (v_staticIPs v), v)
      else if v_domain v = [] then (Inl ''DOMAIN is not configured and GATEWAY_PUBLIC_IPS is empty'', v)
      else if (case v_cachedAt v of None \<Rightarrow> False | Some t \<Rightarrow> now - t < gatewayIPTTL)
      then (Inr (v_cachedIPs v), v)
      else attempt (lookupIP dns (v_domain v))
        (\<lambda>e. raise (''resolving '' @ v_domain v @ '': '' @ e))
        (\<lambda>ips. if usable ips = [] then raise (v_domain v @ '' resolved to no usable addresses'')
               else (\<lambda>w. (Inr (usable ips), w\<lparr>v_cachedIPs := usable ips, v_cachedAt := Some now\<rparr>))) v)"

definition Verify :: "(addr \<Rightarrow> string) \<Rightarrow> resolver \<Rightarrow> int \<Rightarrow> string \<Rightarrow> (verifier, verify_err, unit) sm" where
  "Verify show_addr dns now hostname =
     attempt (gatewayAddrs dns now)
       (\<lambda>e. raise (CannotTell (''cannot verify aliases because this gateway does not know its own address: '' @ e)))
       (\<lambda>gatewayIPs. attempt (lookupIP dns hostname)
          (\<lambda>e. raise (CannotTell (hostname @ '' does not resolve yet (DNS may still be propagating): '' @ e)))
          (\<lambda>aliasIPs.
             if aliasIPs = [] then raise (CannotTell (hostname @ '' does not resolve yet (DNS may still be propagating)''))
             else if usable aliasIPs = [] then raise (CannotTell (hostname @ '' resolved to no usable addresses''))
             else if list_ex (\<lambda>a. list_ex (\<lambda>g. a = g) gatewayIPs) (usable aliasIPs) then ret ()
             else (\<lambda>v. (Inl (PointsElsewhere
               (''hostname does not point at this gateway: '' @ hostname @ '' resolves to '' @ joinAddrs show_addr (usable aliasIPs)
                @ '', but this gateway answers on '' @ joinAddrs show_addr gatewayIPs
                @ '' '' @ [CHR 0xE2, CHR 0x80, CHR 0x94] @ '' point the record at '' @ v_domain v)), v))))"

section \<open>What an answer means\<close>

text \<open>What DNS said when the questions of one check were put: the addresses of the gateway, and of the name.\<close>

definition gateway_is :: "resolver \<Rightarrow> int \<Rightarrow> verifier \<Rightarrow> addr list \<Rightarrow> bool" where
  "gateway_is dns now v G \<longleftrightarrow> fst (gatewayAddrs dns now v) = Inr G"

definition name_is :: "resolver \<Rightarrow> int \<Rightarrow> verifier \<Rightarrow> string \<Rightarrow> addr list \<Rightarrow> bool" where
  "name_is dns now v h A \<longleftrightarrow>
     (\<exists>ips. dns (v_questions (snd (gatewayAddrs dns now v))) h = Inr ips \<and> usable ips = A \<and> A \<noteq> [])"

definition points_here :: "resolver \<Rightarrow> int \<Rightarrow> verifier \<Rightarrow> string \<Rightarrow> bool" where
  "points_here dns now v h \<longleftrightarrow> (\<exists>G A. gateway_is dns now v G \<and> name_is dns now v h A \<and> set A \<inter> set G \<noteq> {})"

definition points_elsewhere :: "resolver \<Rightarrow> int \<Rightarrow> verifier \<Rightarrow> string \<Rightarrow> bool" where
  "points_elsewhere dns now v h \<longleftrightarrow>
     (\<exists>G A. gateway_is dns now v G \<and> G \<noteq> [] \<and> name_is dns now v h A \<and> set A \<inter> set G = {})"

text \<open>A cached answer is never empty: only a usable one is stored.\<close>

definition verifier_ok :: "verifier \<Rightarrow> bool" where
  "verifier_ok v \<longleftrightarrow> (v_cachedAt v \<noteq> None \<longrightarrow> v_cachedIPs v \<noteq> [])"

lemma gatewayAddrs_ok:
  assumes "verifier_ok v" and "gatewayAddrs dns now v = (r, w)"
  shows "verifier_ok w \<and> (\<forall>G. r = Inr G \<longrightarrow> G \<noteq> [])"
  using assms
  by (auto simp: gatewayAddrs_def verifier_ok_def attempt_def lookupIP_def
      split: if_splits option.splits sum.splits)

lemma Verify_ok: "keeps verifier_ok (Verify show_addr dns now h)"
proof (rule keepsI)
  fix v assume v: "verifier_ok v"
  obtain r w where g: "gatewayAddrs dns now v = (r, w)" by (cases "gatewayAddrs dns now v")
  with v gatewayAddrs_ok have "verifier_ok w" by blast
  then show "verifier_ok (snd (Verify show_addr dns now h v))"
    by (cases r) (auto simp: Verify_def attempt_def g lookupIP_def verifier_ok_def split: sum.split)
qed

lemma Verify_Inr:
  assumes "Verify show_addr dns now h v = (Inr u, w)"
  shows "points_here dns now v h"
proof -
  from assms obtain G v1 where g: "gatewayAddrs dns now v = (Inr G, v1)"
    by (auto simp: Verify_def attempt_def split: prod.splits sum.splits)
  with assms obtain ips where "dns (v_questions v1) h = Inr ips" and "usable ips \<noteq> []"
    and "list_ex (\<lambda>a. list_ex (\<lambda>g. a = g) G) (usable ips)"
    by (auto simp: Verify_def attempt_def lookupIP_def split: sum.splits if_splits)
  with g show ?thesis
    by (auto simp: points_here_def gateway_is_def name_is_def list_ex_iff)
qed

lemma Verify_elsewhere:
  assumes "verifier_ok v" and "Verify show_addr dns now h v = (Inl (PointsElsewhere m), w)"
  shows "points_elsewhere dns now v h"
proof -
  from assms(2) obtain G v1 where g: "gatewayAddrs dns now v = (Inr G, v1)"
    by (auto simp: Verify_def attempt_def split: prod.splits sum.splits)
  with assms(1) gatewayAddrs_ok have "G \<noteq> []" by blast
  with assms(2) g show ?thesis
    by (auto simp: Verify_def attempt_def lookupIP_def points_elsewhere_def gateway_is_def name_is_def
        list_ex_iff split: sum.splits if_splits)
qed

text \<open>A DNS check never claims more than DNS said.  Verify succeeds only when the name and the
  gateway have an address in common; it says the name points elsewhere only when both were resolved
  to at least one usable address and none is common; and then it does say so.  A lookup that fails, an
  unusable answer, or a gateway that does not know its own address is never reported as pointing
  elsewhere.\<close>

theorem Verify_sound:
  assumes "verifier_ok v"
  shows "case fst (Verify show_addr dns now h v) of
      Inr _ \<Rightarrow> points_here dns now v h
    | Inl (PointsElsewhere m) \<Rightarrow> points_elsewhere dns now v h
    | Inl (CannotTell m) \<Rightarrow> \<not> points_here dns now v h \<and> \<not> points_elsewhere dns now v h"
proof (cases "Verify show_addr dns now h v")
  case (Pair r w)
  have "\<not> points_here dns now v h \<and> \<not> points_elsewhere dns now v h" if "r = Inl (CannotTell m)" for m
    using Pair that
    by (auto simp: Verify_def attempt_def lookupIP_def points_here_def points_elsewhere_def gateway_is_def
        name_is_def usable_def map_filter_simps split: prod.splits sum.splits if_splits)
  with Pair Verify_Inr Verify_elsewhere [OF assms] show ?thesis
    by (fastforce split: sum.split verify_err.split)
qed

text \<open>The resolver's spelling of an address does not matter: an IPv4 address and the same address
  wrapped in IPv6 are one address to the check, and no two different IPv4 addresses are.\<close>

theorem toAddr_mapped:
  assumes "length b = 4"
  shows "toAddr (mapped_prefix @ b) = toAddr b \<and> (length c = 4 \<and> toAddr c = toAddr b \<longrightarrow> c = b)"
proof -
  have "length mapped_prefix = 12" by (simp add: mapped_prefix_def)
  with assms show ?thesis by (simp add: toAddr_def AddrFromSlice_def)
qed

text \<open>The gateway's own address is looked up at most once per TTL.  After a lookup that gave usable
  addresses, every check within the TTL uses them and asks the resolver nothing about the gateway; a
  lookup that failed is not remembered.\<close>

theorem gatewayAddrs_cached:
  assumes "v_staticIPs v = []" and "v_domain v \<noteq> []" and "v_cachedAt v = None"
  shows "case gatewayAddrs dns now v of
      (Inr G, w) \<Rightarrow> now' - now < gatewayIPTTL \<longrightarrow> gatewayAddrs dns' now' w = (Inr G, w)
    | (Inl e, w) \<Rightarrow> v_cachedAt w = None \<and> v_cachedIPs w = v_cachedIPs v"
  using assms by (auto simp: gatewayAddrs_def attempt_def lookupIP_def split: sum.splits)

definition demo_verifier :: verifier where
  "demo_verifier = \<lparr>v_domain = ''gw.test'', v_staticIPs = [], v_cachedIPs = [], v_cachedAt = None, v_questions = 0\<rparr>"

definition demo_dns :: resolver where
  "demo_dns n h = (if h = ''gw.test'' then Inr [''1234'']
     else if h = ''a.org'' then Inr [mapped_prefix @ ''1234''] else Inl ''no such host'')"

theorem Verify_sound_witness: "points_here demo_dns 0 demo_verifier ''a.org''"
proof -
  have "verifier_ok demo_verifier" by (simp add: verifier_ok_def demo_verifier_def)
  moreover have "fst (Verify (\<lambda>_. []) demo_dns 0 ''a.org'' demo_verifier) = Inr ()" by code_simp
  ultimately show ?thesis
    using Verify_sound [where v = demo_verifier and h = "''a.org''" and show_addr = "\<lambda>_. []" and dns = demo_dns and now = 0] by simp
qed

theorem toAddr_mapped_witness:
  "toAddr (mapped_prefix @ ''1234'') = toAddr ''1234''"
  using toAddr_mapped [of "''1234''"] by simp

theorem gatewayAddrs_cached_witness:
  "gatewayAddrs demo_dns 5 (snd (gatewayAddrs demo_dns 0 demo_verifier))
   = (Inr [Addr4 ''1234''], snd (gatewayAddrs demo_dns 0 demo_verifier))"
proof -
  have g: "gatewayAddrs demo_dns 0 demo_verifier = (Inr [Addr4 ''1234''],
      demo_verifier\<lparr>v_questions := 1, v_cachedIPs := [Addr4 ''1234''], v_cachedAt := Some 0\<rparr>)"
    by code_simp
  show ?thesis
    using gatewayAddrs_cached [where v = demo_verifier and dns = demo_dns and now = 0 and dns' = demo_dns and now' = 5]
    by (simp add: g) (simp add: demo_verifier_def gatewayIPTTL_def)
qed

end
