(* ===== verification/Vm_Config.thy ===== *)
theory Vm_Config
  imports Providers_Db Dns_Check
begin

text \<open>
  The gateway's state, its container runtime, and the per-VM runtime settings of
  \<^verbatim>\<open>src/internal/vmconfig/nesting.go\<close>.

  The runtime is the interface \<^verbatim>\<open>ContainerRuntime\<close> of
  \<^verbatim>\<open>src/internal/runtime/runtime.go\<close>: a record of operations on a state \<open>'r\<close> of its own
  (the container daemon), each of which may fail.  Nothing is assumed about them.  The gateway's state
  is the database together with the state of the runtime and of the DNS verifier, and the key files the
  gateway keeps on its own disk, one per VM.

  Pointer arguments are non-nil.
\<close>

section \<open>The runtime\<close>

record rt_container =
  rc_ID :: string
  rc_Name :: string
  rc_Status :: string
  rc_OwnerID :: string
  rc_IP :: string
  rc_MAC :: string
  rc_AddressFiltered :: bool
  rc_CreatedAt :: int

record create_opts =
  co_Name :: string
  co_OwnerID :: string
  co_Image :: string
  co_CPULimit :: int
  co_MemoryMB :: int
  co_DiskGB :: int
  co_Nesting :: bool

record 'r runtime =
  rt_Create :: "create_opts \<Rightarrow> ('r, dberr, rt_container) sm"
  rt_Start :: "string \<Rightarrow> ('r, dberr, unit) sm"
  rt_Stop :: "string \<Rightarrow> ('r, dberr, unit) sm"
  rt_Delete :: "string \<Rightarrow> ('r, dberr, unit) sm"
  rt_Get :: "string \<Rightarrow> ('r, dberr, rt_container) sm"
  rt_List :: "string \<Rightarrow> ('r, dberr, rt_container list) sm"
  rt_Exec :: "string \<Rightarrow> string list \<Rightarrow> ('r, dberr, string) sm"
  rt_Snapshot :: "string \<Rightarrow> string \<Rightarrow> ('r, dberr, unit) sm"
  rt_SetNesting :: "string \<Rightarrow> bool \<Rightarrow> ('r, dberr, unit) sm"

record 'r gateway = store +
  g_rt :: 'r
  g_dns :: verifier
  g_keys :: "string \<rightharpoonup> string"

type_synonym ('r, 'a) gwm = "('r gateway, dberr, 'a) sm"

definition rt_call :: "('r, dberr, 'a) sm \<Rightarrow> ('r, 'a) gwm" where
  "rt_call m s = (case m (g_rt s) of (r, x) \<Rightarrow> (r, s\<lparr>g_rt := x\<rparr>))"

definition dns_call :: "(int \<Rightarrow> (verifier, 'e, 'a) sm) \<Rightarrow> ('r gateway, 'e, 'a) sm" where
  "dns_call m s = (case m (clock s) (g_dns s) of (r, v) \<Rightarrow> (r, s\<lparr>g_dns := v\<rparr>))"

text \<open>Neither can touch the database.\<close>

lemma model_ok_ext [simp]:
  "model_ok (g_rt_update f s) = model_ok s" "model_ok (g_dns_update g s) = model_ok s"
  "model_ok (g_keys_update h s) = model_ok s"
  by (simp_all add: fun_eq_iff model_ok_def model_ids_def)

lemma keeps_db_other [keeps_rules]:
  "keeps uniq_ok (rt_call m)" "keeps vms_ok (rt_call m)" "keeps aliases_ok (rt_call m)"
  "keeps models_ok (rt_call m)"
  by (rule keepsI, simp add: rt_call_def uniq_ok_def vms_ok_def aliases_ok_def models_ok_def
      split: prod.split)+

lemma keeps_db_dns [keeps_rules]:
  "keeps uniq_ok (dns_call f)" "keeps vms_ok (dns_call f)" "keeps aliases_ok (dns_call f)"
  "keeps models_ok (dns_call f)"
  by (rule keepsI, simp add: dns_call_def uniq_ok_def vms_ok_def aliases_ok_def models_ok_def
      split: prod.split)+

section \<open>Nesting\<close>

definition isRunning_vmconfig :: "string \<Rightarrow> bool" where
  "isRunning_vmconfig status \<longleftrightarrow> status = ''running'' \<or> status = ''Running'' \<or> status = ''RUNNING''"

text \<open>The value to act on, and the error when the policy could not be read.\<close>

definition EffectiveNesting :: "container \<Rightarrow> ('z, bool \<times> dberr list) dbm" where
  "EffectiveNesting c = attempt NestingAllowed
     (\<lambda>e. ret (False, [e])) (\<lambda>allowed. ret (allowed \<and> c_Nesting c, []))"

text \<open>The container as the caller sees it afterwards, and the joined errors (none when the list is
  empty).\<close>

definition ApplyNesting :: "'r runtime \<Rightarrow> container \<Rightarrow> ('r, container \<times> dberr list) gwm" where
  "ApplyNesting rt c = bindE (EffectiveNesting c) (\<lambda>(effective, resolveErr).
     attempt (rt_call (rt_SetNesting rt (c_IncusName c) effective))
       (\<lambda>e. ret (c, resolveErr @ [e]))
       (\<lambda>_. if isRunning_vmconfig (c_Status c) then ret (c, resolveErr)
            else attempt (SetNestingApplied (c_ID c) effective)
              (\<lambda>e. ret (c, resolveErr @ [e]))
              (\<lambda>_. ret (c\<lparr>c_NestingApplied := effective\<rparr>, resolveErr))))"

definition PrepareStart :: "'r runtime \<Rightarrow> container \<Rightarrow> ('r, container \<times> dberr list) gwm" where
  "PrepareStart rt c = bindE (EffectiveNesting c) (\<lambda>(effective, resolveErr).
     attempt (rt_call (rt_SetNesting rt (c_IncusName c) effective))
       (\<lambda>e. ret (c, resolveErr @ [e]))
       (\<lambda>_. attempt (SetNestingApplied (c_ID c) effective)
          (\<lambda>e. ret (c, resolveErr @ [e]))
          (\<lambda>_. ret (c\<lparr>c_NestingApplied := effective\<rparr>, resolveErr))))"

definition MarkStarted :: "container \<Rightarrow> bool \<Rightarrow> ('z, container) dbm" where
  "MarkStarted c effective = bindE (SetNestingApplied (c_ID c) effective)
     (\<lambda>_. ret (c\<lparr>c_NestingApplied := effective\<rparr>))"

lemma nesting_keeps [keeps_rules]:
  "keeps uniq_ok (ApplyNesting rt c)" "keeps uniq_ok (PrepareStart rt c)"
  "keeps vms_ok (ApplyNesting rt c)" "keeps vms_ok (PrepareStart rt c)"
  "keeps aliases_ok (ApplyNesting rt c)" "keeps aliases_ok (PrepareStart rt c)"
  "keeps models_ok (ApplyNesting rt c)" "keeps models_ok (PrepareStart rt c)"
  unfolding ApplyNesting_def PrepareStart_def EffectiveNesting_def by (intro keeps_rules)+

lemma MarkStarted_keeps [keeps_rules]:
  "keeps uniq_ok (MarkStarted c b)" "keeps vms_ok (MarkStarted c b)" "keeps aliases_ok (MarkStarted c b)"
  "keeps models_ok (MarkStarted c b)" "keeps uniq_ok (EffectiveNesting c)" "keeps vms_ok (EffectiveNesting c)"
  "keeps aliases_ok (EffectiveNesting c)" "keeps models_ok (EffectiveNesting c)"
  unfolding MarkStarted_def EffectiveNesting_def by (intro keeps_rules)+

section \<open>The ceiling holds\<close>

text \<open>A database operation cannot touch the runtime or the verifier: the extension of the record is an
  invariant of every statement.\<close>

definition ext_is :: "'z \<Rightarrow> 'z store_scheme \<Rightarrow> bool" where
  "ext_is x s \<longleftrightarrow> store.more s = x"

interpretation ext: store_inv "ext_is x"
  by unfold_locales (simp add: ext_is_def)

lemma keeps_ext_stmt [keeps_rules]:
  "keeps (ext_is x) (exec (sql_update t_containers t_containers_update uq P f))"
  "keeps (ext_is x) (exec (sql_upsert_setting k v))"
  by (rule ext.keeps_exec,
      auto simp: ext_is_def sql_update_def sql_upsert_setting_def Let_def split: if_splits)+

lemmas ext_rules [keeps_rules] = ext.keeps_query ext.keeps_in_tx

lemma nesting_ops_ext [keeps_rules]:
  "keeps (ext_is x) NestingAllowed" "keeps (ext_is x) (SetNestingApplied i b)"
  "keeps (ext_is x) (SetNestingAllowed b)"
  unfolding NestingAllowed_def GetSetting_def SetNestingApplied_def update_container_def SetNestingAllowed_def
    SetSetting_def
  by (intro keeps_rules)+

lemma ext_rt: "keeps (ext_is (store.more s)) m \<Longrightarrow> m s = (r, t) \<Longrightarrow> g_rt t = g_rt s \<and> g_dns t = g_dns s"
  using keepsD [of "ext_is (store.more s)" m s] by (cases s; cases t) (simp add: ext_is_def)

text \<open>What the runtime is told: yes only when the policy was read, allows it, and the owner wants it.\<close>

definition nesting_verdict :: "container \<Rightarrow> 'z store_scheme \<Rightarrow> bool" where
  "nesting_verdict c s \<longleftrightarrow> fst (NestingAllowed s) = Inr True \<and> c_Nesting c"

lemma EffectiveNesting_run:
  "EffectiveNesting c s = (Inr (nesting_verdict c s, case fst (NestingAllowed s) of Inl e \<Rightarrow> [e] | Inr _ \<Rightarrow> []),
     snd (NestingAllowed s))"
  by (cases "NestingAllowed s") (auto simp: EffectiveNesting_def attempt_def nesting_verdict_def split: sum.split)

lemma SetNestingApplied_rt: "SetNestingApplied i b s = (r, t) \<Longrightarrow> g_rt t = g_rt s"
  using ext_rt [OF nesting_ops_ext(2)] by blast

text \<open>C21: nesting fails closed.  Whatever the database does, starting a VM or changing its setting
  always writes a value to the runtime, and the value is yes only when the operator's policy could be
  read, allows nesting, and the owner asked for it.  A policy that cannot be read is written as no.\<close>

theorem nesting_fails_closed:
  "g_rt (snd (PrepareStart rt c s)) = snd (rt_SetNesting rt (c_IncusName c) (nesting_verdict c s) (g_rt s))
   \<and> g_rt (snd (ApplyNesting rt c s)) = snd (rt_SetNesting rt (c_IncusName c) (nesting_verdict c s) (g_rt s))"
proof -
  have "g_rt (snd (NestingAllowed s)) = g_rt s"
    using ext_rt [OF nesting_ops_ext(1)] by (metis prod.collapse)
  then show ?thesis
    by (auto simp: PrepareStart_def ApplyNesting_def bindE_def EffectiveNesting_run attempt_def rt_call_def
        split: prod.split sum.split dest!: SetNestingApplied_rt)
qed

text \<open>A VM that was started owes no restart.  After PrepareStart has succeeded for a stored VM, the
  VM read back with the operator's policy attached is not reported as pending, and its row records
  what the runtime was told.\<close>

theorem PrepareStart_settles:
  fixes s t :: "'r gateway"
  assumes "faults s = []" and "uniq_ok s" and "c \<in> set (t_containers s)"
    and "PrepareStart rt (scanContainer c) s = (Inr (c', []), t)"
  shows "\<exists>d. GetContainerByID (c_ID c) t = (Inr d, t) \<and> c_NestingApplied d = nesting_verdict c s
    \<and> (\<exists>d'. AttachNestingPolicy [d] t = (Inr ([d'], None), t) \<and> \<not> NestingPending d')"
proof -
  obtain a where na: "NestingAllowed t' = (Inr a, t')" if "faults t' = []" "t_settings t' = t_settings s"
      for t' :: "'r gateway"
    by (cases "find (\<lambda>p. fst p = SettingNestingAllowed) (t_settings s)")
       (auto simp: NestingAllowed_def GetSetting_def run_defs)
  have v: "nesting_verdict c s = (a \<and> c_Nesting c)" "nesting_verdict (scanContainer c) s = (a \<and> c_Nesting c)"
    using na [of s] assms(1) by (auto simp: nesting_verdict_def scanContainer_def)
  let ?e = "a \<and> c_Nesting c"
  let ?s = "s\<lparr>g_rt := snd (rt_SetNesting rt (c_IncusName c) ?e (g_rt s))\<rparr>"
  have u: "uq_containers (t_containers ?s)" "c \<in> set (t_containers ?s)" "faults ?s = []"
    using assms by (simp_all add: uniq_ok_def)
  obtain cs n where up: "update_container (c_ID c) (\<lambda>d. d\<lparr>c_NestingApplied := ?e\<rparr>) ?s = (Inr n, ?s\<lparr>t_containers := cs\<rparr>)"
    and f: "find (\<lambda>d. c_ID d = c_ID c) cs = Some (c\<lparr>c_NestingApplied := ?e, c_UpdatedAt := clock s\<rparr>)"
    using update_container_run [OF u(3,1,2), of "\<lambda>d. d\<lparr>c_NestingApplied := ?e\<rparr>"] by auto
  have n: "fst (NestingAllowed s) = Inr a" "snd (NestingAllowed s) = s" using na [of s] assms(1) by simp_all
  have c: "c_IncusName (scanContainer c) = c_IncusName c" "c_ID (scanContainer c) = c_ID c"
    by (simp_all add: scanContainer_def)
  have ap: "SetNestingApplied (c_ID c) ?e ?s = (Inr (), ?s\<lparr>t_containers := cs\<rparr>)"
    unfolding SetNestingApplied_def void_def using up by simp
  have run: "PrepareStart rt (scanContainer c) s =
      (case rt_SetNesting rt (c_IncusName c) ?e (g_rt s) of
         (Inl e, x) \<Rightarrow> (Inr (scanContainer c, [e]), s\<lparr>g_rt := x\<rparr>)
       | (Inr _, x) \<Rightarrow> attempt (SetNestingApplied (c_ID c) ?e) (\<lambda>e. ret (scanContainer c, [e]))
           (\<lambda>_. ret ((scanContainer c)\<lparr>c_NestingApplied := ?e\<rparr>, [])) (s\<lparr>g_rt := x\<rparr>))"
    unfolding PrepareStart_def bindE_def EffectiveNesting_run v n c
    by (simp add: attempt_def rt_call_def split: prod.split sum.split)
  have t: "t = ?s\<lparr>t_containers := cs\<rparr>"
  proof (cases "rt_SetNesting rt (c_IncusName c) ?e (g_rt s)")
    case (Pair r x)
    with ap have "SetNestingApplied (c_ID c) ?e (s\<lparr>g_rt := x\<rparr>) = (Inr (), s\<lparr>g_rt := x, t_containers := cs\<rparr>)" by simp
    with run assms(4) Pair show ?thesis by (cases r) (simp_all add: attempt_def)
  qed
  let ?d = "scanContainer (c\<lparr>c_NestingApplied := ?e, c_UpdatedAt := clock s\<rparr>)"
  have g: "GetContainerByID (c_ID c) t = (Inr ?d, t)"
    using f assms(1) by (simp add: GetContainerByID_def get_container_def run_defs t)
  moreover have "AttachNestingPolicy [?d] t = (Inr ([?d\<lparr>c_NestingAllowed := a\<rparr>], None), t)"
    using na [of t] assms(1) by (simp add: AttachNestingPolicy_def attempt_def t)
  moreover have "\<not> NestingPending (?d\<lparr>c_NestingAllowed := a\<rparr>)"
    by (simp add: NestingPending_def NestingEffective_def scanContainer_def)
  moreover have "c_NestingApplied ?d = nesting_verdict c s" by (simp add: v scanContainer_def)
  ultimately show ?thesis by blast
qed

section \<open>Instances\<close>

text \<open>A runtime on which everything succeeds, and a gateway with one stopped VM.\<close>

definition demo_rtc :: rt_container where
  "demo_rtc = \<lparr>rc_ID = ''vm-c1'', rc_Name = ''vm-c1'', rc_Status = ''Stopped'', rc_OwnerID = ''u1'', rc_IP = ''10.0.0.2'',
     rc_MAC = [], rc_AddressFiltered = True, rc_CreatedAt = 0\<rparr>"

definition demo_rt :: "unit runtime" where
  "demo_rt = \<lparr>rt_Create = (\<lambda>_. ret demo_rtc), rt_Start = (\<lambda>_. ret ()), rt_Stop = (\<lambda>_. ret ()),
     rt_Delete = (\<lambda>_. ret ()), rt_Get = (\<lambda>_. ret demo_rtc), rt_List = (\<lambda>_. ret []), rt_Exec = (\<lambda>_ _. ret []),
     rt_Snapshot = (\<lambda>_ _. ret ()), rt_SetNesting = (\<lambda>_ _. ret ())\<rparr>"

definition demo_gw :: "unit gateway" where
  "demo_gw = \<lparr>t_users = [demo_user ''u1'' ''user''], t_sessions = [\<lparr>s_Token = ''tok'', s_UserID = ''u1'', s_CreatedAt = 0, s_ExpiresAt = 10\<rparr>],
     t_containers = [demo_vm ''c1'' ''web'' ''u1''], t_aliases = [], t_keys = [],
     t_links = [], t_settings = [], t_sshkeys = [], t_access = [], fk_on = True, clock = 0, faults = [],
     g_rt = (), g_dns = demo_verifier, g_keys = Map.empty\<rparr>"

lemma demo_gw_facts:
  "faults demo_gw = []" "uniq_ok demo_gw" "demo_vm ''c1'' ''web'' ''u1'' \<in> set (t_containers demo_gw)"
  by (simp_all add: demo_gw_def uniq_ok_def uq_defs)

theorem PrepareStart_settles_witness:
  "\<exists>t d d'. PrepareStart demo_rt (demo_vm ''c1'' ''web'' ''u1'') demo_gw = (Inr (demo_vm ''c1'' ''web'' ''u1'', []), t)
     \<and> GetContainerByID ''c1'' t = (Inr d, t) \<and> AttachNestingPolicy [d] t = (Inr ([d'], None), t) \<and> \<not> NestingPending d'"
proof -
  let ?c = "demo_vm ''c1'' ''web'' ''u1''"
  have sc: "scanContainer ?c = ?c" "c_ID ?c = ''c1''" by (simp_all add: scanContainer_def demo_vm_def)
  obtain t where r: "PrepareStart demo_rt (scanContainer ?c) demo_gw = (Inr (?c, []), t)"
    by (simp add: PrepareStart_def EffectiveNesting_def NestingAllowed_def GetSetting_def run_defs rt_call_def demo_rt_def
        SetNestingApplied_def update_container_def Let_def uq_containers_def scanContainer_def demo_vm_def demo_gw_def
        SettingNestingAllowed_def)
  then show ?thesis
    using PrepareStart_settles [OF demo_gw_facts r] unfolding sc by blast
qed

end
