(* ===== verification/Lookups.thy ===== *)
theory Lookups
  imports Vm_Config
begin

text \<open>
  What the read operations of the database promise the HTTP handlers, under any schedule of engine
  failures: they leave every table as it was, and what they return is a row of the database the request
  started with.  \<open>looks_up s m R\<close> is that contract, and the rules below run a handler through it.
\<close>

named_theorems look_rules \<open>contracts of the read operations\<close>

definition looks_up :: "'z store_scheme \<Rightarrow> ('z, 'a) dbm \<Rightarrow> ('a \<Rightarrow> bool) \<Rightarrow> bool" where
  "looks_up s m R \<longleftrightarrow> hoare (same_data s) m (\<lambda>a t. same_data s t \<and> R a) (\<lambda>_. same_data s)"

lemma look_attempt:
  assumes "looks_up s m R" and "\<And>e. hoare (same_data s) (h e) Q F"
    and "\<And>a. R a \<Longrightarrow> hoare (same_data s) (f a) Q F"
  shows "hoare (same_data s) (attempt m h f) Q F"
proof (rule hoare_attempt [OF assms(1) [unfolded looks_up_def] assms(2)])
  fix a
  show "hoare (\<lambda>t. same_data s t \<and> R a) (f a) Q F"
    using assms(3) [of a] by (fastforce simp: hoare_def)
qed

lemma look_bindE:
  assumes "looks_up s m R" and "\<And>t e. same_data s t \<Longrightarrow> F e t"
    and "\<And>a. R a \<Longrightarrow> hoare (same_data s) (f a) Q F"
  shows "hoare (same_data s) (bindE m f) Q F"
proof (rule hoare_bindE)
  show "hoare (same_data s) m (\<lambda>a t. same_data s t \<and> R a) F"
    by (rule hoare_conseq [OF assms(1) [unfolded looks_up_def]]) (auto intro: assms(2))
  fix a
  show "hoare (\<lambda>t. same_data s t \<and> R a) (f a) Q F"
    using assms(3) [of a] by (fastforce simp: hoare_def)
qed

lemma looks_up_ret [look_rules]: "R a \<Longrightarrow> looks_up s (ret a) R"
  by (simp add: looks_up_def hoare_ret)

lemma looks_up_raise [look_rules]: "looks_up s (raise e) R"
  by (simp add: looks_up_def hoare_raise)

lemma looks_up_bindE:
  "looks_up s m S \<Longrightarrow> (\<And>a. S a \<Longrightarrow> looks_up s (f a) R) \<Longrightarrow> looks_up s (bindE m f) R"
  by (subst looks_up_def, erule look_bindE) (simp_all add: looks_up_def)

lemma looks_up_attempt:
  "looks_up s m S \<Longrightarrow> (\<And>e. looks_up s (h e) R) \<Longrightarrow> (\<And>a. S a \<Longrightarrow> looks_up s (f a) R) \<Longrightarrow> looks_up s (attempt m h f) R"
  by (subst looks_up_def, erule look_attempt) (simp_all add: looks_up_def)

lemma looks_up_weaken: "looks_up s m R \<Longrightarrow> (\<And>a. R a \<Longrightarrow> S a) \<Longrightarrow> looks_up s m S"
  by (fastforce simp: looks_up_def elim!: hoare_conseq)

lemma same_data_clock: "same_data s t \<Longrightarrow> clock t = clock s"
  using same_data_fields by blast

text \<open>A query that reads a table.\<close>

context table
begin

lemma looks_up_row:
  "looks_up s (exec (sql_row get P)) (\<lambda>r. r \<in> set (get s) \<and> P r)"
  unfolding looks_up_def
proof (rule hoareI)
  fix t e t' assume "same_data s t" "exec (sql_row get P) t = (Inl e, t')"
  then show "same_data s t'" using exec_error_same same_data_trans by blast
next
  fix t r t' assume d: "same_data s t" and x: "exec (sql_row get P) t = (Inr r, t')"
  from d have "get t = get s" by (metis get_faults same_data_def)
  with row_ok [OF x] d show "same_data s t' \<and> r \<in> set (get s) \<and> P r"
    using same_data_trans by auto
qed

lemma looks_up_rows: "looks_up s (exec (sql_rows get P)) (\<lambda>rs. rs = filter P (get s))"
  unfolding looks_up_def
proof (rule hoareI)
  fix t e t' assume "same_data s t" "exec (sql_rows get P) t = (Inl e, t')"
  then show "same_data s t'" using exec_error_same same_data_trans by blast
next
  fix t rs t' assume d: "same_data s t" and x: "exec (sql_rows get P) t = (Inr rs, t')"
  from d have "get t = get s" by (metis get_faults same_data_def)
  with rows_ok [OF x] d show "same_data s t' \<and> rs = filter P (get s)" using same_data_trans by auto
qed

end

lemma looks_up_value:
  assumes "\<And>t. same_data s t \<Longrightarrow> g t = g s"
  shows "looks_up s (exec (sql_value g)) (\<lambda>v. v = g s)"
  unfolding looks_up_def
proof (rule hoareI)
  fix t e t' assume "same_data s t" "exec (sql_value g) t = (Inl e, t')"
  then show "same_data s t'" using exec_error_same same_data_trans by blast
next
  fix t v t' assume d: "same_data s t" and x: "exec (sql_value g) t = (Inr v, t')"
  from x have "t' = t\<lparr>faults := tl (faults t)\<rparr>" "v = g (t\<lparr>faults := tl (faults t)\<rparr>)"
    by (auto elim!: exec_InrE simp: sql_value_def)
  moreover have "same_data s (t\<lparr>faults := tl (faults t)\<rparr>)" using d by simp
  ultimately show "same_data s t' \<and> v = g s" using assms by metis
qed

lemma looks_up_with_now:
  assumes "looks_up s (f (clock s)) R"
  shows "looks_up s (with_now f) R"
  using assms by (auto simp: looks_up_def hoare_def same_data_clock)

section \<open>The lookups the handlers use\<close>

definition live_session :: "'z store_scheme \<Rightarrow> string \<Rightarrow> string \<Rightarrow> bool" where
  "live_session s tok uid \<longleftrightarrow>
     list_ex (\<lambda>x. s_Token x = tok \<and> s_UserID x = uid \<and> s_ExpiresAt x > clock s) (t_sessions s)"

lemma look_GetSession [look_rules]:
  "looks_up s (GetSession tok) (\<lambda>x. live_session s tok (s_UserID x))"
  unfolding GetSession_def
  by (rule looks_up_with_now, rule looks_up_weaken [OF sessions.looks_up_row])
     (auto simp: live_session_def list_ex_iff)

lemma look_get_container:
  "looks_up s (get_container P) (\<lambda>c. \<exists>d\<in>set (t_containers s). P d \<and> c = scanContainer d)"
  unfolding get_container_def
  by (rule looks_up_bindE [OF containers.looks_up_row]) (rule looks_up_ret, auto)

lemma look_containers [look_rules]:
  "looks_up s (GetContainerByID i) (\<lambda>c. \<exists>d\<in>set (t_containers s). c_ID d = i \<and> c = scanContainer d)"
  "looks_up s (GetContainerByNameOnly n) (\<lambda>c. \<exists>d\<in>set (t_containers s). c_Name d = n \<and> c = scanContainer d)"
  unfolding GetContainerByID_def GetContainerByNameOnly_def by (rule look_get_container)+

lemma look_link [look_rules]:
  "looks_up s (GetSharedLinkByToken tok) (\<lambda>l. l \<in> set (t_links s) \<and> l_Token l = tok \<and> link_live (clock s) l)"
  unfolding GetSharedLinkByToken_def by (rule looks_up_with_now, rule links.looks_up_row)

lemma look_alias [look_rules]:
  "looks_up s (GetVerifiedAliasByHostname uni h)
     (\<lambda>a. a \<in> set (t_aliases s) \<and> a_Hostname a = lookup_name uni h \<and> a_Verified a)"
  unfolding GetVerifiedAliasByHostname_def by (rule caliases.looks_up_row)

text \<open>The VM of a name a signed-in account may use.\<close>

definition usable_by :: "'z store_scheme \<Rightarrow> string \<Rightarrow> container \<Rightarrow> bool" where
  "usable_by s uid d \<longleftrightarrow> d \<in> set (t_containers s) \<and> (c_OwnerID d = uid \<or> has_grant s (c_ID d) uid)"

lemma same_data_derived:
  "same_data s t \<Longrightarrow> accessible t uid = accessible s uid" "same_data s t \<Longrightarrow> can_use t cid uid = can_use s cid uid"
  "same_data s t \<Longrightarrow> may_share t cid uid = may_share s cid uid"
  by (auto elim!: same_dataE)

lemma look_accessible [look_rules]:
  "looks_up s (ListAccessibleContainers uid) (\<lambda>cs. cs = accessible s uid)"
  unfolding ListAccessibleContainers_def by (rule looks_up_value) (rule same_data_derived)

lemma look_of_result: "(\<And>a. r = Inr a \<Longrightarrow> R a) \<Longrightarrow> looks_up s (of_result r) R"
  by (cases r) (simp_all add: looks_up_def hoare_def of_result_def)

lemma look_by_name [look_rules]:
  "looks_up s (GetAccessibleContainerByName n uid)
     (\<lambda>c. \<exists>d. usable_by s uid d \<and> c_Name d = n \<and> c = (scanContainer d)\<lparr>c_SharedAccess := (c_OwnerID d \<noteq> uid)\<rparr>)"
  unfolding GetAccessibleContainerByName_def
proof (rule looks_up_bindE [OF look_accessible])
  fix cs assume "cs = accessible s uid"
  then show "looks_up s (of_result (uniqueAccessibleName cs n))
     (\<lambda>c. \<exists>d. usable_by s uid d \<and> c_Name d = n \<and> c = (scanContainer d)\<lparr>c_SharedAccess := (c_OwnerID d \<noteq> uid)\<rparr>)"
  proof (intro look_of_result)
    fix c assume "cs = accessible s uid" "uniqueAccessibleName cs n = Inr c"
    then have "set (filter (\<lambda>d. c_Name d = n) (accessible s uid)) = {c}" by (simp add: uniqueAccessibleName_Inr)
    then have "c \<in> set (accessible s uid)" "c_Name c = n" by auto
    then show "\<exists>d. usable_by s uid d \<and> c_Name d = n \<and> c = (scanContainer d)\<lparr>c_SharedAccess := (c_OwnerID d \<noteq> uid)\<rparr>"
      by (auto simp: in_accessible usable_by_def)
  qed
qed

lemma look_can_use [look_rules]: "looks_up s (CanUseContainer cid uid) (\<lambda>b. b \<longrightarrow> can_use s cid uid)"
  unfolding CanUseContainer_def
  by (rule looks_up_attempt [OF looks_up_value [of s "\<lambda>s. can_use s cid uid"]])
     (simp_all add: same_data_derived looks_up_ret)

lemma look_context [look_rules]:
  "looks_up s (ContainerAccessContext c uid)
     (\<lambda>x. \<not> ac_Done x \<longrightarrow> can_use s (c_ID c) uid \<and> (c_OwnerID c \<noteq> uid \<longrightarrow> ac_Watching x))"
  unfolding ContainerAccessContext_def
  by (rule looks_up_bindE [OF look_can_use]) (auto intro!: looks_up_ret)

lemma look_same_data: "looks_up s m R \<Longrightarrow> same_data s t \<Longrightarrow> same_data s (snd (m t))"
  by (cases "m t"; cases "fst (m t)") (fastforce simp: looks_up_def hoare_def)+

section \<open>Operations that do not write the database\<close>

text \<open>\<open>db_same s0 s\<close>: every table of \<open>s\<close> is the one of \<open>s0\<close>.  An operation that keeps it for every
  \<open>s0\<close> keeps every invariant of the data.\<close>

definition db_same :: "'z store_scheme \<Rightarrow> 'z store_scheme \<Rightarrow> bool" where
  "db_same s0 s \<longleftrightarrow> t_users s = t_users s0 \<and> t_sessions s = t_sessions s0 \<and> t_containers s = t_containers s0
     \<and> t_aliases s = t_aliases s0 \<and> t_keys s = t_keys s0 \<and> t_links s = t_links s0 \<and> t_settings s = t_settings s0
     \<and> t_sshkeys s = t_sshkeys s0 \<and> t_access s = t_access s0 \<and> fk_on s = fk_on s0 \<and> clock s = clock s0"

definition db_pure :: "('z store_scheme, 'e, 'a) sm \<Rightarrow> bool" where
  "db_pure m \<longleftrightarrow> (\<forall>s0. keeps (db_same s0) m)"

lemma db_pureD: "db_pure m \<Longrightarrow> db_same s (snd (m s))"
  by (auto simp: db_pure_def keeps_def db_same_def)

interpretation dbs: store_inv "db_same s0"
  by unfold_locales (simp add: db_same_def)

lemmas dbs_rules [keeps_rules] = dbs.keeps_query

lemma db_pure_keeps:
  assumes "db_pure m"
  shows "keeps uniq_ok m" "keeps vms_ok m" "keeps aliases_ok m" "keeps models_ok m"
  using db_pureD [OF assms]
  by (auto simp: keeps_def db_same_def uniq_ok_def vms_ok_def aliases_ok_def models_ok_def model_ok_def model_ids_def list_all_iff)

lemma dbs_other [keeps_rules]: "keeps (db_same s0) (rt_call m)" "keeps (db_same s0) (dns_call f)"
  by (rule keepsI, simp add: rt_call_def dns_call_def db_same_def split: prod.split)+

lemma dbs_reads [keeps_rules]:
  "keeps (db_same s0) (GetContainerByID i)" "keeps (db_same s0) (AttachAliases cs)" "keeps (db_same s0) (GetSession t)"
  "keeps (db_same s0) (GetUserByID u)" "keeps (db_same s0) (ListAPIKeysByOwner u)" "keeps (db_same s0) (GetAPIKeyPlaintext un k ek)"
  "keeps (db_same s0) (UserDefaultModel u)" "keeps (db_same s0) (OwnerModelIDs u)" "keeps (db_same s0) (CanUseContainer c u)"
  unfolding GetContainerByID_def get_container_def AttachAliases_def GetSession_def GetUserByID_def ListAPIKeysByOwner_def
    GetAPIKeyPlaintext_def UserDefaultModel_def OwnerModelIDs_def ownerModelIDs_def CanUseContainer_def
  by (intro keeps_rules)+

end
