(* ===== verification/Environment_Guide.thy ===== *)
theory Environment_Guide
  imports Lookups
begin

text \<open>
  The guide the gateway keeps inside a VM for the agent: \<^verbatim>\<open>verifiedAliases\<close>,
  \<^verbatim>\<open>writeEnvironmentGuide\<close> and \<^verbatim>\<open>RefreshEnvironmentGuide\<close> of
  \<^verbatim>\<open>src/internal/picoclaw/environment.go\<close>, and \<^verbatim>\<open>writeGuestFile\<close> of
  \<^verbatim>\<open>setup.go\<close>, through which every file the gateway writes into a VM goes.

  The prose of the guide (\<^verbatim>\<open>environmentGuide\<close>) is an argument: a text made from the VM and the
  addresses \<open>verifiedAliases\<close> lists.
\<close>

section \<open>Files in a VM\<close>

text \<open>\<^verbatim>\<open>base64.StdEncoding\<close>\<close>

definition std_digit :: "nat \<Rightarrow> char" where
  "std_digit n =
     (if n < 26 then char_of (65 + n) else if n < 52 then char_of (71 + n)
      else if n < 62 then char_of (n - 4) else if n = 62 then CHR ''+'' else CHR ''/'')"

fun StdEncoding :: "string \<Rightarrow> string" where
  "StdEncoding (a # b # c # r) =
     std_digit (byte a div 4) # std_digit (byte a mod 4 * 16 + byte b div 16)
     # std_digit (byte b mod 16 * 4 + byte c div 64) # std_digit (byte c mod 64) # StdEncoding r"
| "StdEncoding [a, b] =
     [std_digit (byte a div 4), std_digit (byte a mod 4 * 16 + byte b div 16), std_digit (byte b mod 16 * 4), CHR ''='']"
| "StdEncoding [a] = [std_digit (byte a div 4), std_digit (byte a mod 4 * 16), CHR ''='', CHR ''='']"
| "StdEncoding [] = []"

definition quote :: string where
  "quote = [CHR 0x27]"

definition guest_file_cmd :: "string \<Rightarrow> string \<Rightarrow> string" where
  "guest_file_cmd path data =
     ''umask 077; printf '' @ quote @ ''%s'' @ quote @ '' '' @ quote @ StdEncoding data @ quote @ '' | base64 -d > '' @ path"

definition writeGuestFile :: "'r runtime \<Rightarrow> string \<Rightarrow> string \<Rightarrow> string \<Rightarrow> ('r, unit) gwm" where
  "writeGuestFile rt name path data =
     void (rt_call (rt_Exec rt name [''sh'', ''-c'', guest_file_cmd path data]))"

section \<open>The guide\<close>

definition ConfigDir :: string where "ConfigDir = ''/etc/picoclaw''"
definition GuideFilePath :: string where "GuideFilePath = ConfigDir @ ''/AGENTS.md''"
definition ContainerUser :: string where "ContainerUser = ''user''"

definition verifiedAliases :: "container \<Rightarrow> string list" where
  "verifiedAliases c = map (\<lambda>a. ''**https://'' @ a_Hostname a @ ''/**'') (filter a_Verified (c_Aliases c))"

type_synonym guide = "container \<Rightarrow> string list \<Rightarrow> string"

definition writeEnvironmentGuide :: "guide \<Rightarrow> 'r runtime \<Rightarrow> container \<Rightarrow> ('r, unit) gwm" where
  "writeEnvironmentGuide guide rt c0 =
     bindE (AttachAliases [c0]) (\<lambda>(cs, _). let c = hd cs in
     bindE (writeGuestFile rt (c_IncusName c) GuideFilePath (guide c (verifiedAliases c))) (\<lambda>_.
     void (rt_call (rt_Exec rt (c_IncusName c) [''sh'', ''-c'',
       ''chown root:'' @ ContainerUser @ '' '' @ GuideFilePath @ '' && chmod 640 '' @ GuideFilePath]))))"

definition RefreshEnvironmentGuide :: "guide \<Rightarrow> 'r runtime option \<Rightarrow> container \<Rightarrow> ('r, unit) gwm" where
  "RefreshEnvironmentGuide guide rt c =
     (case rt of
        None \<Rightarrow> ret ()
      | Some r \<Rightarrow> if \<not> EqualFold (c_Status c) ''running'' then ret () else writeEnvironmentGuide guide r c)"

lemma guide_keeps [keeps_rules]:
  "keeps uniq_ok (RefreshEnvironmentGuide guide rt c)" "keeps vms_ok (RefreshEnvironmentGuide guide rt c)"
  "keeps aliases_ok (RefreshEnvironmentGuide guide rt c)"
  unfolding RefreshEnvironmentGuide_def writeEnvironmentGuide_def writeGuestFile_def Let_def
  by (intro keeps_rules)+

lemma guide_pure [keeps_rules]:
  "keeps (db_same s0) (writeGuestFile rt n p d)" "keeps (db_same s0) (writeEnvironmentGuide guide rt' c)"
  "keeps (db_same s0) (RefreshEnvironmentGuide guide rt'' c)"
  unfolding RefreshEnvironmentGuide_def writeEnvironmentGuide_def writeGuestFile_def Let_def
  by (intro keeps_rules)+

section \<open>What enters the shell\<close>

definition shell_inert :: "char \<Rightarrow> bool" where
  "shell_inert c \<longleftrightarrow> is_lower_alnum (ascii_lower c) \<or> c = CHR ''+'' \<or> c = CHR ''/'' \<or> c = CHR ''=''"

lemma std_digit_inert: "shell_inert (std_digit n)"
proof -
  have "ascii_lower (char_of (65 + n)) = char_of (97 + n)" if "n < 26"
    using that by (simp add: ascii_lower_def byte_char_of)
  moreover have "ascii_lower (char_of (71 + n)) = char_of (71 + n)" if "26 \<le> n" "n < 52"
    using that by (simp add: ascii_lower_def byte_char_of)
  moreover have "ascii_lower (char_of (n - 4)) = char_of (n - 4)" if "52 \<le> n" "n < 62"
    using that by (auto simp: ascii_lower_def byte_char_of)
  ultimately show ?thesis
    by (auto simp: std_digit_def shell_inert_def is_lower_alnum_def is_digit_def byte_char_of)
qed

lemma StdEncoding_inert: "list_all shell_inert (StdEncoding bs)"
proof -
  have "shell_inert CHR ''=''" by (simp add: shell_inert_def)
  then show ?thesis by (induction bs rule: StdEncoding.induct) (simp_all add: std_digit_inert)
qed

definition shell_special :: "char set" where
  "shell_special = {CHR 0x27, CHR 0x22, CHR '' '', CHR ''$'', CHR '';'', CHR 0x0A, CHR 0x60, CHR 0x5C}"

lemma shell_inert_not: "shell_inert c \<Longrightarrow> c \<notin> shell_special"
  by (auto simp: shell_special_def shell_inert_def is_lower_alnum_def is_digit_def ascii_lower_def byte_def)

lemma StdEncoding_length: "length (StdEncoding bs) = 4 * ((length bs + 2) div 3)"
proof (induction bs rule: StdEncoding.induct)
  case (1 a b c r)
  have d: "(length (a # b # c # r) + 2) div 3 = Suc ((length r + 2) div 3)" by simp
  have l: "length (StdEncoding (a # b # c # r)) = 4 + length (StdEncoding r)" by simp
  show ?case unfolding l d 1 by simp
qed simp_all

text \<open>What a file contains cannot run in the VM's shell.  Writing a file into a VM is one command,
  and whatever bytes are written, they occur in it in one place only, between two single quotes, spelled
  in characters none of which is a quote, a space, a dollar sign, a separator, a backslash or a line
  break.\<close>

theorem guest_file_inert:
  "\<exists>body. writeGuestFile rt name path data =
      void (rt_call (rt_Exec rt name [''sh'', ''-c'',
        ''umask 077; printf '' @ quote @ ''%s'' @ quote @ '' '' @ quote @ body @ quote @ '' | base64 -d > '' @ path]))
    \<and> set body \<inter> shell_special = {}
    \<and> length body = 4 * ((length data + 2) div 3)"
proof (intro exI conjI)
  show "writeGuestFile rt name path data =
      void (rt_call (rt_Exec rt name [''sh'', ''-c'',
        ''umask 077; printf '' @ quote @ ''%s'' @ quote @ '' '' @ quote @ StdEncoding data @ quote @ '' | base64 -d > '' @ path]))"
    unfolding writeGuestFile_def guest_file_cmd_def ..
  show "set (StdEncoding data) \<inter> shell_special = {}"
    using StdEncoding_inert [of data] shell_inert_not unfolding list_all_iff by blast
  show "length (StdEncoding data) = 4 * ((length data + 2) div 3)" by (rule StdEncoding_length)
qed

end
