(* ===== verification/Alias_Manager.thy ===== *)
theory Alias_Manager
  imports Environment_Guide
begin

text \<open>
  Custom domains from the owner's side: \<^verbatim>\<open>src/internal/aliases/aliases.go\<close>.  A Manager claims
  a hostname, checks it against DNS, records the outcome, and tells the agent; a background sweep stops
  routing the names that point elsewhere.

  The manager's optional parts (\<^verbatim>\<open>runtime\<close>, \<^verbatim>\<open>verifier\<close>) are options.  The
  verifier is the interface \<^verbatim>\<open>Verifier\<close> of the source; \<open>dns_verifier\<close> states what
  the manager relies on, and \<open>Dns_Check\<close>'s verifier is shown to provide it.  The context of a sweep is
  the number of names it gets to before it is cancelled.
\<close>

section \<open>The manager\<close>

datatype alias_err = ErrInvalid dberr | ErrNotFound | ErrOther dberr

type_synonym verify_fn = "int \<Rightarrow> string \<Rightarrow> (verifier, verify_err, unit) sm"

record 'r manager =
  m_guide :: guide
  m_rt :: "'r runtime option"
  m_verifier :: "verify_fn option"
  m_domain :: string

type_synonym ('r, 'a) mgm = "('r gateway, alias_err, 'a) sm"

definition ErrNoVerifier :: string where
  "ErrNoVerifier = ''alias verification is not configured on this gateway''"

definition taken_text :: string where
  "taken_text = ''hostname is already in use by another VM''"

definition err_text :: "verify_err \<Rightarrow> string" where
  "err_text e = (case e of PointsElsewhere m \<Rightarrow> m | CannotTell m \<Rightarrow> m)"

text \<open>A database call whose error the manager hands on.\<close>

definition pass :: "('s, dberr, 'a) sm \<Rightarrow> ('s, alias_err, 'a) sm" where
  "pass m = attempt m (\<lambda>e. raise (ErrOther e)) ret"

definition List_aliases :: "string \<Rightarrow> ('r, calias list) mgm" where
  "List_aliases cid = pass (ListAliasesByContainer cid)"

definition refreshGuide :: "'r manager \<Rightarrow> container \<Rightarrow> ('r, unit) mgm" where
  "refreshGuide m c =
     (case m_rt m of None \<Rightarrow> ret ()
      | Some rt \<Rightarrow> attempt (RefreshEnvironmentGuide (m_guide m) (Some rt) c) (\<lambda>_. ret ()) ret)"

definition owned :: "container \<Rightarrow> string \<Rightarrow> ('r, calias) mgm" where
  "owned c aliasID = attempt (GetAliasByID aliasID)
     (\<lambda>e. if e = ErrNoRows then raise ErrNotFound else raise (ErrOther e))
     (\<lambda>alias. if a_ContainerID alias \<noteq> c_ID c then raise ErrNotFound else ret alias)"

text \<open>The outcome of the DNS check: whether it passed, and the reason to record.\<close>

definition dns_outcome :: "'r manager \<Rightarrow> string \<Rightarrow> ('r, bool \<times> string) mgm" where
  "dns_outcome m h =
     (case m_verifier m of
        None \<Rightarrow> ret (False, ErrNoVerifier)
      | Some verify \<Rightarrow> attempt (dns_call (\<lambda>now. verify now h)) (\<lambda>e. ret (False, err_text e)) (\<lambda>_. ret (True, [])))"

definition check :: "'r manager \<Rightarrow> container \<Rightarrow> calias \<Rightarrow> ('r, calias) mgm" where
  "check m c alias =
     bindE (dns_outcome m (a_Hostname alias)) (\<lambda>(verified, reason).
     bindE (attempt (SetAliasVerification (a_ID alias) verified reason)
         (\<lambda>e. if e \<noteq> ErrAliasHostnameTaken then raise (ErrOther e)
              else pass (SetAliasVerification (a_ID alias) False taken_text))
         ret) (\<lambda>_.
     bindE (refreshGuide m c) (\<lambda>_.
     attempt (GetAliasByID (a_ID alias))
       (\<lambda>e. if e = ErrNoRows then raise ErrNotFound else raise (ErrOther e)) ret)))"

definition Add :: "(string \<Rightarrow> string) \<Rightarrow> 'r manager \<Rightarrow> string \<Rightarrow> container \<Rightarrow> string \<Rightarrow> ('r, calias) mgm" where
  "Add uni m nid c hostname =
     (case ValidAliasHostname uni hostname (m_domain m) of
        Inl e \<Rightarrow> raise (ErrInvalid e)
      | Inr normalised \<Rightarrow>
          bindE (pass (CreateContainerAlias uni nid (c_ID c) normalised)) (\<lambda>alias. check m c alias))"

definition Recheck :: "'r manager \<Rightarrow> container \<Rightarrow> string \<Rightarrow> ('r, calias) mgm" where
  "Recheck m c aliasID = bindE (owned c aliasID) (\<lambda>alias. check m c alias)"

definition Remove :: "'r manager \<Rightarrow> container \<Rightarrow> string \<Rightarrow> ('r, unit) mgm" where
  "Remove m c aliasID = bindE (owned c aliasID) (\<lambda>alias.
     bindE (pass (DeleteContainerAlias (a_ID alias))) (\<lambda>_. refreshGuide m c))"

text \<open>The loop over the released claims, each VM once.\<close>

fun refresh_claims :: "'r manager \<Rightarrow> calias list \<Rightarrow> string set \<Rightarrow> ('r, unit) mgm" where
  "refresh_claims m [] seen = ret ()"
| "refresh_claims m (claim # claims) seen =
     (if a_ContainerID claim \<in> seen then refresh_claims m claims seen
      else bindE (attempt (GetContainerByID (a_ContainerID claim)) (\<lambda>_. ret ()) (\<lambda>c. refreshGuide m c))
        (\<lambda>_. refresh_claims m claims (insert (a_ContainerID claim) seen)))"

definition Release :: "(string \<Rightarrow> string) \<Rightarrow> 'r manager \<Rightarrow> string \<Rightarrow> ('r, nat) mgm" where
  "Release uni m hostname =
     bindE (pass (ListAliasesByHostname uni hostname)) (\<lambda>claims.
     if claims = [] then raise ErrNotFound
     else bindE (pass (DeleteAliasesByHostname uni hostname)) (\<lambda>removed.
       bindE (refresh_claims m claims {}) (\<lambda>_. ret removed)))"

section \<open>The sweep\<close>

text \<open>The body of the loop once a name was found to point elsewhere, and the body of the loop.\<close>

definition stop_routing :: "guide \<Rightarrow> 'r runtime option \<Rightarrow> calias \<Rightarrow> string \<Rightarrow> ('r, unit) mgm" where
  "stop_routing guide rt a reason =
     attempt (SetAliasVerification (a_ID a) False reason) (\<lambda>_. ret ()) (\<lambda>_.
     case rt of
       None \<Rightarrow> ret ()
     | Some r \<Rightarrow>
         attempt (GetContainerByID (a_ContainerID a)) (\<lambda>_. ret ()) (\<lambda>c.
         attempt (RefreshEnvironmentGuide guide (Some r) c) (\<lambda>_. ret ()) ret))"

definition recheck_one :: "guide \<Rightarrow> 'r runtime option \<Rightarrow> verify_fn \<Rightarrow> calias \<Rightarrow> ('r, unit) mgm" where
  "recheck_one guide rt verify a =
     attempt (dns_call (\<lambda>now. verify now (a_Hostname a)))
       (\<lambda>e. case e of
          CannotTell _ \<Rightarrow> ret ()
        | PointsElsewhere reason \<Rightarrow> stop_routing guide rt a reason)
       ret"

fun recheck_all :: "guide \<Rightarrow> 'r runtime option \<Rightarrow> verify_fn \<Rightarrow> nat \<Rightarrow> calias list \<Rightarrow> ('r, unit) mgm" where
  "recheck_all guide rt verify budget [] = ret ()"
| "recheck_all guide rt verify 0 (a # as) = ret ()"
| "recheck_all guide rt verify (Suc n) (a # as) =
     bindE (recheck_one guide rt verify a) (\<lambda>_. recheck_all guide rt verify n as)"

definition reverifyOnce :: "guide \<Rightarrow> 'r runtime option \<Rightarrow> verify_fn \<Rightarrow> nat \<Rightarrow> ('r, unit) mgm" where
  "reverifyOnce guide rt verify budget =
     attempt ListVerifiedAliases (\<lambda>_. ret ()) (\<lambda>as. recheck_all guide rt verify budget as)"

text \<open>The loop of the background task: an entry is a tick, with its time and the number of names the
  sweep gets to.\<close>

definition Reverify ::
  "guide \<Rightarrow> 'r runtime option \<Rightarrow> verify_fn option \<Rightarrow> int \<Rightarrow> (int \<times> nat) list \<Rightarrow> ('r, unit) mgm" where
  "Reverify guide rt verifier interval ticks =
     (case verifier of
        None \<Rightarrow> ret ()
      | Some verify \<Rightarrow>
          if interval \<le> 0 then ret ()
          else foldr (\<lambda>(now, n) m. \<lambda>s. bindE (reverifyOnce guide rt verify n) (\<lambda>_. m) (s\<lparr>clock := now\<rparr>)) ticks (ret ()))"

section \<open>Invariants are kept\<close>

lemma keeps_pass [keeps_rules]: "keeps I m \<Longrightarrow> keeps I (pass m)"
  unfolding pass_def by (intro keeps_rules)

text \<open>The operations keep every invariant that their statements keep.\<close>

lemma keeps_refreshGuide:
  "(\<And>g rt. keeps I (RefreshEnvironmentGuide g (Some rt) c)) \<Longrightarrow> keeps I (refreshGuide m c)"
  unfolding refreshGuide_def by (intro keeps_rules)

lemma keeps_refresh_claims:
  assumes "\<And>c. keeps I (refreshGuide m c)" and "\<And>i. keeps I (GetContainerByID i)"
  shows "keeps I (refresh_claims m claims seen)"
proof (induction claims arbitrary: seen)
  case (Cons a as)
  show ?case unfolding refresh_claims.simps by (intro keeps_rules assms Cons)
qed (simp only: refresh_claims.simps keeps_ret)

lemma keeps_verify_err [keeps_rules]:
  "(\<And>r. keeps I (f r)) \<Longrightarrow> (\<And>r. keeps I (g r)) \<Longrightarrow>
   keeps I (case e of PointsElsewhere r \<Rightarrow> f r | CannotTell r \<Rightarrow> g r)"
  by (cases e) simp_all

lemma keeps_dns_outcome [keeps_rules]:
  "keeps uniq_ok (dns_outcome m h)" "keeps vms_ok (dns_outcome m h)" "keeps aliases_ok (dns_outcome m h)"
  unfolding dns_outcome_def by (intro keeps_rules)+

lemma manager_steps_keep [keeps_rules]:
  "keeps uniq_ok (refreshGuide m c)" "keeps vms_ok (refreshGuide m c)" "keeps aliases_ok (refreshGuide m c)"
  "keeps uniq_ok (refresh_claims m as seen)" "keeps vms_ok (refresh_claims m as seen)"
  "keeps aliases_ok (refresh_claims m as seen)"
  "keeps uniq_ok (owned c i)" "keeps vms_ok (owned c i)" "keeps aliases_ok (owned c i)"
  "keeps uniq_ok (recheck_one g rt f a)" "keeps vms_ok (recheck_one g rt f a)" "keeps aliases_ok (recheck_one g rt f a)"
  unfolding owned_def recheck_one_def stop_routing_def by (intro keeps_rules keeps_refreshGuide keeps_refresh_claims)+

lemma check_keeps [keeps_rules]:
  "keeps uniq_ok (check m c a)" "keeps vms_ok (check m c a)" "keeps aliases_ok (check m c a)"
  unfolding check_def by (intro keeps_rules)+

lemma manager_keeps [keeps_rules]:
  "keeps uniq_ok (Add uni m nid c h)" "keeps vms_ok (Add uni m nid c h)" "keeps aliases_ok (Add uni m nid c h)"
  "keeps uniq_ok (Recheck m c i)" "keeps vms_ok (Recheck m c i)" "keeps aliases_ok (Recheck m c i)"
  "keeps uniq_ok (Remove m c i)" "keeps vms_ok (Remove m c i)" "keeps aliases_ok (Remove m c i)"
  "keeps uniq_ok (Release uni m h)" "keeps vms_ok (Release uni m h)" "keeps aliases_ok (Release uni m h)"
  unfolding Add_def Recheck_def Remove_def Release_def by (intro keeps_rules)+

section \<open>What is routed was checked\<close>

text \<open>\<open>routed J now v\<close>: every verified row satisfies \<open>J\<close>, at time \<open>now\<close> and with
  the verifier in state \<open>v\<close>.\<close>

definition routed :: "(string \<Rightarrow> string \<Rightarrow> bool) \<Rightarrow> 'z store_scheme \<Rightarrow> bool" where
  "routed J s \<longleftrightarrow> list_all (\<lambda>a. a_Verified a \<longrightarrow> J (a_ID a) (a_Hostname a)) (t_aliases s)"

definition still :: "int \<Rightarrow> verifier \<Rightarrow> 'r gateway \<Rightarrow> bool" where
  "still now v s \<longleftrightarrow> clock s = now \<and> g_dns s = v"

interpretation routed: store_inv "routed J"
  by unfold_locales (simp add: routed_def)

interpretation still: store_inv "still now v"
  by unfold_locales (simp add: still_def)

lemma routed_stmt [keeps_rules]:
  "keeps (routed J) (exec (sql_delete t_aliases t_aliases_update P))"
  "\<not> a_Verified r \<Longrightarrow> keeps (routed J) (exec (sql_insert t_aliases t_aliases_update uq fk r))"
  by (rule routed.keeps_exec,
      auto simp: routed_def sql_delete_def sql_insert_def list_all_iff split: if_splits)+

lemma still_stmt [keeps_rules]:
  "keeps (still now v) (exec (sql_delete t_aliases t_aliases_update P))"
  "keeps (still now v) (exec (sql_insert t_aliases t_aliases_update uq fk r))"
  by (rule still.keeps_exec,
      auto simp: still_def sql_delete_def sql_insert_def split: if_splits)+

lemmas routed_rules [keeps_rules] = routed.keeps_query routed.keeps_in_tx still.keeps_query

lemma unverify_keeps [keeps_rules]: "keeps (routed J) (SetAliasVerification i False r)"
  unfolding SetAliasVerification_def
  by (simp, intro keeps_rules routed.keeps_exec)
     (auto simp: routed_def sql_update_def Let_def list_all_iff split: if_splits)

lemma routed_keeps [keeps_rules]:
  "keeps (routed J) (GetAliasByID i)" "keeps (routed J) (DeleteContainerAlias i)" "keeps (routed J) (AttachAliases cs)"
  "keeps (routed J) (GetContainerByID i)" "keeps (routed J) ListVerifiedAliases"
  "keeps (routed J) (ListAliasesByHostname uni h)" "keeps (routed J) (DeleteAliasesByHostname uni h)"
  "keeps (routed J) (ListAliasesByContainer i)" "keeps (routed J) (countAliases i)"
  "keeps (routed J) (GetVerifiedAliasByHostname uni h)"
  unfolding aliases_defs GetContainerByID_def get_container_def by (intro keeps_rules)+

lemma routed_other [keeps_rules]: "keeps (routed J) (rt_call m)" "keeps (routed J) (dns_call f)"
  by (rule keepsI, simp add: rt_call_def dns_call_def routed_def split: prod.split)+

lemma routed_steps [keeps_rules]:
  "keeps (routed J) (RefreshEnvironmentGuide g rt c)" "keeps (routed J) (claim_hostname nid cid h)"
  "keeps (routed J) (CreateContainerAlias uni nid cid h)"
  "keeps (still now v) (claim_hostname nid cid h)" "keeps (still now v) (CreateContainerAlias uni nid cid h)"
  unfolding RefreshEnvironmentGuide_def writeEnvironmentGuide_def writeGuestFile_def Let_def
    CreateContainerAlias_def claim_hostname_def countAliases_def GetVerifiedAliasByHostname_def GetAliasByID_def
  by (intro keeps_rules; simp)+

lemma routed_manager [keeps_rules]:
  "keeps (routed J) (refreshGuide m c)" "keeps (routed J) (refresh_claims m as seen)"
  "keeps (routed J) (owned c i)" "keeps (routed J) (Remove m c i)" "keeps (routed J) (Release uni m h)"
  "keeps (routed J) (recheck_one g rt f a)"
  unfolding owned_def Remove_def Release_def recheck_one_def stop_routing_def
  by (intro keeps_rules keeps_refreshGuide keeps_refresh_claims)+

lemma routed_sweep [keeps_rules]: "keeps (routed J) (reverifyOnce g rt f n)"
proof -
  have "keeps (routed J) (recheck_all g rt f n as)" for as
    by (induction g rt f n as rule: recheck_all.induct)
       (simp_all only: recheck_all.simps keeps_ret keeps_bindE routed_manager)
  then show ?thesis unfolding reverifyOnce_def by (intro keeps_rules)
qed

text \<open>The row the manager is about to verify carries the hostname it checked.\<close>

definition row_is :: "calias \<Rightarrow> 'z store_scheme \<Rightarrow> bool" where
  "row_is a s \<longleftrightarrow> (\<forall>b\<in>set (t_aliases s). a_ID b = a_ID a \<longrightarrow> a_Hostname b = a_Hostname a)"

interpretation row_is: store_inv "row_is a"
  by unfold_locales (simp add: row_is_def)

lemma verify_routed:
  "hoare (\<lambda>s. routed J s \<and> row_is a s \<and> (b \<longrightarrow> J (a_ID a) (a_Hostname a)))
     (SetAliasVerification (a_ID a) b r) (\<lambda>_. routed J) (\<lambda>_. routed J)"
proof (cases b)
  case False
  then have e: "b = False" by simp
  show ?thesis
    unfolding e by (rule hoare_conseq [OF unverify_keeps [unfolded keeps_hoare, of J "a_ID a" r]]) auto
next
  case True
  show ?thesis
  proof (rule hoareI)
    fix s e s' assume "routed J s \<and> row_is a s \<and> (b \<longrightarrow> J (a_ID a) (a_Hostname a))"
      "SetAliasVerification (a_ID a) b r s = (Inl e, s')"
    with True show "routed J s'"
      by (auto simp: SetAliasVerification_def dest!: in_tx_error_same routed.same_data_I)
  next
    fix s u s' assume p: "routed J s \<and> row_is a s \<and> (b \<longrightarrow> J (a_ID a) (a_Hostname a))"
      and "SetAliasVerification (a_ID a) b r s = (Inr u, s')"
    with True have "SetAliasVerification (a_ID a) True r s = (Inr u, s')" by simp
    then show "routed J s'"
      by (rule SetAliasVerification_steps) (use p True in \<open>auto simp: routed_def row_is_def list_all_iff\<close>)
  qed
qed

lemma row_is_unique: "uniq_ok s \<Longrightarrow> a \<in> set (t_aliases s) \<Longrightarrow> row_is a s"
  using distinct_map_eqD [of a_ID "t_aliases s"] by (fastforce simp: row_is_def uniq_ok_def uq_aliases_def)

lemma GetAliasByID_row: "GetAliasByID i s = (Inr a, t) \<Longrightarrow> a \<in> set (t_aliases t) \<and> a_ID a = i"
  using caliases.row_ok [of "\<lambda>a. a_ID a = i" s a t] same_data_fields [of s t] by (auto simp: GetAliasByID_def)

lemma row_is_found: "hoare uniq_ok (GetAliasByID i) row_is (\<lambda>_ _. True)"
proof (rule hoareI)
  fix s a t assume "uniq_ok s" and g: "GetAliasByID i s = (Inr a, t)"
  then have "uniq_ok t" using keepsD [OF aliases_keep_uniq(2), of s i] by simp
  with GetAliasByID_row [OF g] show "row_is a t" by (simp add: row_is_unique)
qed simp

lemma created_row_is: "hoare uniq_ok (CreateContainerAlias uni nid cid h) row_is (\<lambda>_ _. True)"
proof (rule hoareI)
  fix s a t assume u: "uniq_ok s" and c: "CreateContainerAlias uni nid cid h s = (Inr a, t)"
  from c obtain s1 where g: "GetAliasByID nid s1 = (Inr a, t)"
    by (auto simp: CreateContainerAlias_def claim_hostname_def bindE_def attempt_def split: prod.splits sum.splits if_splits)
  have "uniq_ok t" using keepsD [OF keeps_uniq_CreateContainerAlias u, of uni nid cid h] c by simp
  with GetAliasByID_row [OF g] show "row_is a t" by (simp add: row_is_unique)
qed simp

section \<open>The verifier's contract\<close>

text \<open>The states a verifier goes through while it answers questions at one time.\<close>

inductive asked :: "verify_fn \<Rightarrow> int \<Rightarrow> verifier \<Rightarrow> verifier \<Rightarrow> bool" for verify now v where
  asked_start: "asked verify now v v"
| asked_next: "asked verify now v w \<Longrightarrow> asked verify now v (snd (verify now h w))"

definition demoted :: "string \<Rightarrow> calias \<Rightarrow> calias" where
  "demoted r a = a\<lparr>a_Verified := False, a_VerifiedAt := None, a_LastError := r\<rparr>"

text \<open>What a sweep may do to a row: nothing, or stop routing a verified name that was found to point
  elsewhere at its turn.\<close>

definition sweep_row ::
  "verify_fn \<Rightarrow> (int \<Rightarrow> verifier \<Rightarrow> string \<Rightarrow> bool) \<Rightarrow> 'r gateway \<Rightarrow> calias \<Rightarrow> calias \<Rightarrow> bool" where
  "sweep_row verify elsewhere s a b \<longleftrightarrow> b = a \<or> a_Verified a \<and> (\<exists>r. b = demoted r a)
     \<and> (\<exists>w. asked verify (clock s) (g_dns s) w \<and> elsewhere (clock s) w (a_Hostname a))"

locale dns_verifier =
  fixes verify :: verify_fn
    and ok :: "verifier \<Rightarrow> bool"
    and here elsewhere :: "int \<Rightarrow> verifier \<Rightarrow> string \<Rightarrow> bool"
  assumes verify_keeps: "keeps ok (verify now h)"
    and verify_here: "ok v \<Longrightarrow> verify now h v = (Inr u, w) \<Longrightarrow> here now v h"
    and verify_elsewhere: "ok v \<Longrightarrow> verify now h v = (Inl (PointsElsewhere m), w) \<Longrightarrow> elsewhere now v h"
begin

lemma outcome_here:
  assumes "m_verifier m = Some verify" and "ok v"
  shows "hoare (still now v) (dns_outcome m h) (\<lambda>(b, _) _. b \<longrightarrow> here now v h) (\<lambda>_ _. True)"
  using assms verify_here [OF assms(2)]
  by (auto simp: hoare_def dns_outcome_def attempt_def dns_call_def still_def split: prod.splits sum.splits)

lemma check_routed:
  assumes "m_verifier m = Some verify" and "ok v" and "here now v (a_Hostname a) \<Longrightarrow> J (a_ID a) (a_Hostname a)"
  shows "hoare (\<lambda>s. routed J s \<and> still now v s \<and> row_is a s) (check m c a) (\<lambda>_. routed J) (\<lambda>_. routed J)"
proof -
  have kr: "keeps (\<lambda>s. routed J s \<and> row_is a s) (dns_outcome m (a_Hostname a))"
    by (rule keepsI) (auto simp: dns_outcome_def attempt_def dns_call_def routed_def row_is_def split: option.split prod.split sum.split)
  have out: "hoare (\<lambda>s. routed J s \<and> still now v s \<and> row_is a s) (dns_outcome m (a_Hostname a))
      (\<lambda>p s. routed J s \<and> row_is a s \<and> (fst p \<longrightarrow> J (a_ID a) (a_Hostname a))) (\<lambda>_. routed J)"
  proof -
    have "hoare (\<lambda>s. routed J s \<and> still now v s \<and> row_is a s) (dns_outcome m (a_Hostname a))
        (\<lambda>p _. fst p \<longrightarrow> J (a_ID a) (a_Hostname a)) (\<lambda>_ _. True)"
      by (rule hoare_conseq [OF outcome_here [OF assms(1,2)]]) (auto intro: assms(3))
    from hoare_also_keeps [OF this kr] show ?thesis by (rule hoare_conseq) auto
  qed
  have set: "hoare (\<lambda>s. routed J s \<and> row_is a s \<and> (b \<longrightarrow> J (a_ID a) (a_Hostname a)))
      (attempt (SetAliasVerification (a_ID a) b r)
         (\<lambda>e. if e \<noteq> ErrAliasHostnameTaken then raise (ErrOther e)
              else pass (SetAliasVerification (a_ID a) False taken_text)) ret)
      (\<lambda>_. routed J) (\<lambda>_. routed J)" for b r
    by (rule hoare_attempt [OF verify_routed])
       (auto intro!: hoare_if hoare_raise hoare_ret keeps_pass [OF unverify_keeps, unfolded keeps_hoare])
  have rest: "hoare (routed J) (bindE (refreshGuide m c) (\<lambda>_. attempt (GetAliasByID (a_ID a))
       (\<lambda>e. if e = ErrNoRows then raise ErrNotFound else raise (ErrOther e)) ret)) (\<lambda>_. routed J) (\<lambda>_. routed J)"
    unfolding keeps_hoare [symmetric] by (intro keeps_rules)
  show ?thesis
    unfolding check_def
    by (rule hoare_bindE [OF out]) (auto split: prod.split intro!: hoare_bindE [OF set] rest)
qed

lemma Recheck_routed:
  assumes "m_verifier m = Some verify" and "ok v" and "\<And>i h. here now v h \<Longrightarrow> J i h"
  shows "hoare (\<lambda>s. routed J s \<and> still now v s \<and> uniq_ok s) (Recheck m c i) (\<lambda>_. routed J) (\<lambda>_. routed J)"
proof -
  have k: "keeps (\<lambda>s. routed J s \<and> still now v s) (GetAliasByID i)"
    by (intro keeps_conj keeps_rules) (simp add: GetAliasByID_def still.keeps_query)
  have get: "hoare (\<lambda>s. routed J s \<and> still now v s \<and> uniq_ok s) (GetAliasByID i)
      (\<lambda>a s. routed J s \<and> still now v s \<and> row_is a s) (\<lambda>_. routed J)"
  proof -
    have "hoare (\<lambda>s. routed J s \<and> still now v s \<and> uniq_ok s) (GetAliasByID i) row_is (\<lambda>_ _. True)"
      by (rule hoare_conseq [OF row_is_found]) auto
    from hoare_also_keeps [OF this k] show ?thesis by (rule hoare_conseq) auto
  qed
  show ?thesis
    unfolding Recheck_def owned_def bindE_attempt
    by (rule hoare_attempt [OF get])
       (auto intro!: hoare_raise check_routed [OF assms(1,2)] hoare_if assms(3) simp: if_bindE)
qed

lemma Add_routed:
  assumes "m_verifier m = Some verify" and "ok v" and "\<And>i h. here now v h \<Longrightarrow> J i h"
  shows "hoare (\<lambda>s. routed J s \<and> still now v s \<and> uniq_ok s) (Add uni m nid c h) (\<lambda>_. routed J) (\<lambda>_. routed J)"
proof (cases "ValidAliasHostname uni h (m_domain m)")
  case (Inr n)
  have k: "keeps (\<lambda>s. routed J s \<and> still now v s) (CreateContainerAlias uni nid (c_ID c) n)"
    by (intro keeps_conj keeps_rules)
  have mk: "hoare (\<lambda>s. routed J s \<and> still now v s \<and> uniq_ok s) (CreateContainerAlias uni nid (c_ID c) n)
      (\<lambda>a s. routed J s \<and> still now v s \<and> row_is a s) (\<lambda>_. routed J)"
  proof -
    have "hoare (\<lambda>s. routed J s \<and> still now v s \<and> uniq_ok s) (CreateContainerAlias uni nid (c_ID c) n) row_is (\<lambda>_ _. True)"
      by (rule hoare_conseq [OF created_row_is]) auto
    from hoare_also_keeps [OF this k] show ?thesis by (rule hoare_conseq) auto
  qed
  show ?thesis
    unfolding Add_def Inr sum.case pass_def bindE_attempt
    by (rule hoare_attempt [OF mk]) (auto intro!: hoare_raise check_routed [OF assms(1,2)] assms(3))
qed (auto simp: Add_def intro!: hoare_raise)

definition swept :: "'r gateway \<Rightarrow> 'r gateway \<Rightarrow> bool" where
  "swept s0 s \<longleftrightarrow> clock s = clock s0 \<and> ok (g_dns s) \<and> asked verify (clock s0) (g_dns s0) (g_dns s)
     \<and> list_all2 (sweep_row verify elsewhere s0) (t_aliases s0) (t_aliases s)"

lemma swept_inv: "store_inv (swept s0)"
  by unfold_locales (simp add: swept_def)

lemma swept_other:
  "keeps (swept s0) (rt_call m)" "keeps (swept s0) (GetContainerByID i)" "keeps (swept s0) (AttachAliases cs)"
proof -
  show "keeps (swept s0) (rt_call m)" by (rule keepsI) (simp add: rt_call_def swept_def split: prod.split)
  show "keeps (swept s0) (GetContainerByID i)" "keeps (swept s0) (AttachAliases cs)"
    unfolding GetContainerByID_def get_container_def AttachAliases_def
    by (intro keeps_rules store_inv.keeps_query [OF swept_inv])+
qed

lemma swept_guide: "keeps (swept s0) (RefreshEnvironmentGuide g rt c)"
  unfolding RefreshEnvironmentGuide_def writeEnvironmentGuide_def writeGuestFile_def Let_def
  by (intro keeps_rules swept_other)

text \<open>One question, and what may be concluded from an answer.\<close>

lemma swept_dns:
  "hoare (swept s0) (dns_call (\<lambda>now. verify now h)) (\<lambda>_. swept s0)
     (\<lambda>e s. swept s0 s \<and> ((\<exists>r. e = PointsElsewhere r) \<longrightarrow>
        (\<exists>w. asked verify (clock s0) (g_dns s0) w \<and> elsewhere (clock s0) w h)))"
proof -
  have "swept s0 (s\<lparr>g_dns := w\<rparr>)" if "swept s0 s" "verify (clock s) h (g_dns s) = (r, w)" for s r w
    using that keepsD [OF verify_keeps, of "g_dns s" "clock s" h] asked_next [of verify "clock s0" "g_dns s0" "g_dns s" h]
    by (simp add: swept_def)
  moreover have "elsewhere (clock s0) (g_dns s) h" if "swept s0 s" "verify (clock s) h (g_dns s) = (Inl (PointsElsewhere r), w)" for s r w
    using verify_elsewhere that by (auto simp: swept_def)
  note at = this calculation
  show ?thesis
  proof (rule hoareI)
    fix s e t assume "swept s0 s" and d: "dns_call (\<lambda>now. verify now h) s = (Inl e, t)"
    moreover from d obtain w where "verify (clock s) h (g_dns s) = (Inl e, w)" "t = s\<lparr>g_dns := w\<rparr>"
      by (auto simp: dns_call_def split: prod.splits)
    ultimately show "swept s0 t \<and> ((\<exists>r. e = PointsElsewhere r) \<longrightarrow>
        (\<exists>w. asked verify (clock s0) (g_dns s0) w \<and> elsewhere (clock s0) w h))"
      using at(1) [of s] at(2) [of s] unfolding swept_def by blast
  next
    fix s u t assume "swept s0 s" and d: "dns_call (\<lambda>now. verify now h) s = (Inr u, t)"
    moreover from d obtain w where "verify (clock s) h (g_dns s) = (Inr u, w)" "t = s\<lparr>g_dns := w\<rparr>"
      by (auto simp: dns_call_def split: prod.splits)
    ultimately show "swept s0 t" using at(2) [of s] by blast
  qed
qed

lemma swept_demote:
  assumes "uniq_ok s0" and "a \<in> set (t_aliases s0)" and "a_Verified a"
    and "\<exists>w. asked verify (clock s0) (g_dns s0) w \<and> elsewhere (clock s0) w (a_Hostname a)"
  shows "keeps (swept s0) (SetAliasVerification (a_ID a) False r)"
proof -
  have only: "d = a" if "d \<in> set (t_aliases s0)" "a_ID d = a_ID a" for d
    using distinct_map_eqD [of a_ID "t_aliases s0" d a] assms(1,2) that by (simp add: uniq_ok_def uq_aliases_def)
  have row: "sweep_row verify elsewhere s0 d (if a_ID b = a_ID a then demoted r b else b)"
    if "d \<in> set (t_aliases s0)" "sweep_row verify elsewhere s0 d b" for d b
    using that only [OF that(1)] assms(3,4) by (auto simp: sweep_row_def demoted_def)
  have "list_all2 (sweep_row verify elsewhere s0) (t_aliases s0) (map (\<lambda>b. if a_ID b = a_ID a then demoted r b else b) bs)"
    if "list_all2 (sweep_row verify elsewhere s0) (t_aliases s0) bs" for bs
    unfolding list_all2_map2 by (rule list.rel_mono_strong [OF that]) (use row in auto)
  then have "keeps (swept s0) (exec (sql_update t_aliases t_aliases_update uq_aliases (\<lambda>b. a_ID b = a_ID a) (demoted r)))"
    by (intro store_inv.keeps_exec [OF swept_inv]) (auto simp: swept_def sql_update_def Let_def split: if_splits)
  then show ?thesis
    unfolding SetAliasVerification_def demoted_def by (simp add: keeps_void)
qed

lemma swept_one:
  assumes "uniq_ok s0" and "a \<in> set (t_aliases s0)" and "a_Verified a"
  shows "keeps (swept s0) (recheck_one g rt verify a)"
proof -
  let ?found = "\<exists>w. asked verify (clock s0) (g_dns s0) w \<and> elsewhere (clock s0) w (a_Hostname a)"
  have stop: "keeps (swept s0) (stop_routing g rt a r)" if ?found for r
    unfolding stop_routing_def
    by (intro keeps_rules swept_other swept_guide swept_demote [OF assms that])
  show ?thesis
    unfolding keeps_hoare recheck_one_def
  proof (rule hoare_attempt [OF swept_dns])
    fix e
    show "hoare (\<lambda>s. swept s0 s \<and> ((\<exists>r. e = PointsElsewhere r) \<longrightarrow> ?found))
      (case e of PointsElsewhere reason \<Rightarrow> stop_routing g rt a reason | CannotTell _ \<Rightarrow> ret ()) (\<lambda>_. swept s0) (\<lambda>_. swept s0)"
      using stop by (cases e) (auto simp: keeps_hoare hoare_def)
  qed (rule hoare_ret)
qed

lemma swept_all:
  assumes "uniq_ok s0" and "set as \<subseteq> {a \<in> set (t_aliases s0). a_Verified a}"
  shows "keeps (swept s0) (recheck_all g rt verify n as)"
  using assms(2)
proof (induction as arbitrary: n)
  case (Cons a as)
  then have "keeps (swept s0) (recheck_one g rt verify a)" "\<And>n. keeps (swept s0) (recheck_all g rt verify n as)"
    using swept_one [OF assms(1), of a g rt] by auto
  then show ?case by (cases n) (simp_all only: recheck_all.simps keeps_bindE keeps_ret)
qed (simp only: recheck_all.simps keeps_ret)

lemma sweep_safe:
  assumes "uniq_ok s" and "ok (g_dns s)" and "reverifyOnce g rt verify n s = (r, t)"
  shows "list_all2 (sweep_row verify elsewhere s) (t_aliases s) (t_aliases t)"
proof -
  have start: "swept s s'" if "same_data s s'" for s'
    using that assms(2) by (auto simp: swept_def list_all2_same sweep_row_def intro: asked_start elim!: same_dataE)
  have look: "looks_up s ListVerifiedAliases (\<lambda>as. set as = {a \<in> set (t_aliases s). a_Verified a})"
    unfolding ListVerifiedAliases_def
    by (rule looks_up_bindE [OF caliases.looks_up_rows]) (rule looks_up_ret, auto)
  have "hoare (same_data s) (reverifyOnce g rt verify n) (\<lambda>_. swept s) (\<lambda>_. swept s)"
    unfolding reverifyOnce_def
  proof (rule look_attempt [OF look])
    fix as assume "set as = {a \<in> set (t_aliases s). a_Verified a}"
    then show "hoare (same_data s) (recheck_all g rt verify n as) (\<lambda>_. swept s) (\<lambda>_. swept s)"
      using swept_all [OF assms(1), of as g rt n, unfolded keeps_hoare] start by (auto elim!: hoare_conseq)
  qed (auto intro!: hoare_ret start)
  from hoare_snd [OF this, of s] assms(3) have "swept s t" by simp
  then show ?thesis by (simp add: swept_def)
qed

end

text \<open>The DNS check of the gateway meets the contract.\<close>

interpretation dns: dns_verifier "Verify show_addr resolve" verifier_ok "points_here resolve" "points_elsewhere resolve"
  by unfold_locales (auto intro: Verify_ok Verify_Inr Verify_elsewhere)

section \<open>Properties\<close>

definition was_routed :: "'z store_scheme \<Rightarrow> string \<Rightarrow> string \<Rightarrow> bool" where
  "was_routed s i h \<longleftrightarrow> list_ex (\<lambda>a. a_ID a = i \<and> a_Hostname a = h \<and> a_Verified a) (t_aliases s)"

lemma routed_was: "routed (\<lambda>i h. was_routed s i h \<or> Q h) s"
  by (auto simp: routed_def was_routed_def list_all_iff list_ex_iff)

text \<open>C13: a custom domain is routed only after DNS was seen pointing here.  Whatever an owner adds or
  re-checks, and on any schedule of engine failures, a row that is routed afterwards was routed before or
  carries a hostname that, when the check put its questions, had an address in common with the gateway;
  removing and releasing domains routes nothing new.\<close>

theorem alias_routed_checked:
  assumes "uniq_ok s" and "verifier_ok (g_dns s)" and "m_verifier m = Some (Verify show_addr resolve)"
  shows "routed (\<lambda>i h. was_routed s i h \<or> points_here resolve (clock s) (g_dns s) h) (snd (Add uni m nid c hostname s))
    \<and> routed (\<lambda>i h. was_routed s i h \<or> points_here resolve (clock s) (g_dns s) h) (snd (Recheck m c aid s))
    \<and> routed (was_routed s) (snd (Remove m c aid s)) \<and> routed (was_routed s) (snd (Release uni m hostname s))"
proof (intro conjI)
  let ?J = "\<lambda>i h. was_routed s i h \<or> points_here resolve (clock s) (g_dns s) h"
  have pre: "routed ?J s \<and> still (clock s) (g_dns s) s \<and> uniq_ok s"
    using assms(1) routed_was by (simp add: still_def)
  have "hoare (\<lambda>t. routed ?J t \<and> still (clock s) (g_dns s) t \<and> uniq_ok t) (Add uni m nid c hostname) (\<lambda>_. routed ?J) (\<lambda>_. routed ?J)"
    by (rule dns.Add_routed [OF assms(3,2)]) simp
  from hoare_snd [OF this pre] show "routed ?J (snd (Add uni m nid c hostname s))" .
  have "hoare (\<lambda>t. routed ?J t \<and> still (clock s) (g_dns s) t \<and> uniq_ok t) (Recheck m c aid) (\<lambda>_. routed ?J) (\<lambda>_. routed ?J)"
    by (rule dns.Recheck_routed [OF assms(3,2)]) simp
  from hoare_snd [OF this pre] show "routed ?J (snd (Recheck m c aid s))" .
  have "routed (was_routed s) s" using routed_was [of s "\<lambda>_. False"] by simp
  then show "routed (was_routed s) (snd (Remove m c aid s))" "routed (was_routed s) (snd (Release uni m hostname s))"
    by (simp_all add: keepsD [OF routed_manager(4)] keepsD [OF routed_manager(5)])
qed

text \<open>The periodic re-check takes a domain out of service only for cause.  However far a sweep
  gets, whatever fails on the way, every row afterwards is the row it was, or was verified and is now
  unverified because at its turn DNS answered and the answer was somebody else.  No row is added, removed
  or verified.\<close>

theorem reverify_only_for_cause:
  assumes "uniq_ok s" and "verifier_ok (g_dns s)" and "reverifyOnce guide rt (Verify show_addr resolve) n s = (r, t)"
  shows "list_all2 (sweep_row (Verify show_addr resolve) (points_elsewhere resolve) s) (t_aliases s) (t_aliases t)"
  by (rule dns.sweep_safe [OF assms])

text \<open>A domain is out of reach from another VM.  Re-checking or removing an alias through a VM it does
  not belong to is answered exactly like an alias that does not exist, and changes nothing.\<close>

theorem foreign_alias_not_found:
  assumes "faults s = []" and "uniq_ok s" and "a \<in> set (t_aliases s)" and "a_ContainerID a \<noteq> c_ID c"
    and "list_all (\<lambda>b. a_ID b \<noteq> missing) (t_aliases s)"
  shows "Recheck m c (a_ID a) s = (Inl ErrNotFound, s) \<and> Remove m c (a_ID a) s = (Inl ErrNotFound, s)
    \<and> Recheck m c missing s = (Inl ErrNotFound, s) \<and> Remove m c missing s = (Inl ErrNotFound, s)"
proof -
  have "find (\<lambda>b. a_ID b = a_ID a) (t_aliases s) = Some a"
    using assms(2,3) by (intro find_unique_key) (simp_all add: uniq_ok_def uq_aliases_def)
  moreover have "find (\<lambda>b. a_ID b = missing) (t_aliases s) = None"
    using assms(5) by (simp add: find_None_mem list_all_iff)
  ultimately have "owned c (a_ID a) s = (Inl ErrNotFound, s)" "owned c missing s = (Inl ErrNotFound, s)"
    using assms(1,4) by (simp_all add: owned_def GetAliasByID_def run_defs sql_row_def)
  then show ?thesis by (simp add: Recheck_def Remove_def)
qed

section \<open>Instances\<close>

text \<open>A gateway whose one VM has two domains: the first still points here, the second does not.\<close>

definition demo_domains :: "unit gateway" where
  "demo_domains = demo_gw\<lparr>t_aliases := [demo_alias ''a1'' ''c1'' ''a.org'' False, demo_alias ''a2'' ''c1'' ''b.org'' True]\<rparr>"

definition demo_dns2 :: resolver where
  "demo_dns2 n h = (if h = ''b.org'' then Inr [''9999''] else demo_dns n h)"

definition demo_manager :: "unit manager" where
  "demo_manager = \<lparr>m_guide = (\<lambda>_ _. []), m_rt = None, m_verifier = Some (Verify (\<lambda>_. []) demo_dns2), m_domain = ''gw.test''\<rparr>"

lemma demo_domains_facts:
  "uniq_ok demo_domains" "verifier_ok (g_dns demo_domains)" "faults demo_domains = []"
  "m_verifier demo_manager = Some (Verify (\<lambda>_. []) demo_dns2)" "clock demo_domains = 0" "g_dns demo_domains = demo_verifier"
  by (simp_all add: demo_domains_def demo_gw_def uniq_ok_def uq_defs demo_alias_def verifier_ok_def demo_verifier_def demo_manager_def)

theorem alias_routed_checked_witness:
  "map a_Verified (t_aliases (snd (Recheck demo_manager (demo_vm ''c1'' ''web'' ''u1'') ''a1'' demo_domains))) = [True, True]
   \<and> points_here demo_dns2 0 demo_verifier ''a.org''"
proof -
  let ?t = "snd (Recheck demo_manager (demo_vm ''c1'' ''web'' ''u1'') ''a1'' demo_domains)"
  have v: "map (\<lambda>a. (a_ID a, a_Hostname a, a_Verified a)) (t_aliases ?t) = [(''a1'', ''a.org'', True), (''a2'', ''b.org'', True)]"
    by code_simp
  have "routed (\<lambda>i h. was_routed demo_domains i h \<or> points_here demo_dns2 0 demo_verifier h) ?t"
    using alias_routed_checked [OF demo_domains_facts(1,2,4), of id "[]" "demo_vm ''c1'' ''web'' ''u1''" "[]" "''a1''"]
    unfolding demo_domains_facts by blast
  moreover have "\<not> was_routed demo_domains ''a1'' ''a.org''"
    by (simp add: was_routed_def demo_domains_def demo_alias_def)
  ultimately show ?thesis using v by (auto simp: routed_def map_eq_Cons_conv)
qed

theorem reverify_only_for_cause_witness:
  "map a_Verified (t_aliases (snd (reverifyOnce (\<lambda>_ _. []) None (Verify (\<lambda>_. []) demo_dns2) 10 demo_domains))) = [False, False]
   \<and> (\<exists>w. points_elsewhere demo_dns2 0 w ''b.org'')"
proof -
  let ?m = "reverifyOnce (\<lambda>_ _. []) None (Verify (\<lambda>_. []) demo_dns2) 10 demo_domains"
  have v: "map a_Verified (t_aliases (snd ?m)) = [False, False]" by code_simp
  have a: "t_aliases demo_domains = [demo_alias ''a1'' ''c1'' ''a.org'' False, demo_alias ''a2'' ''c1'' ''b.org'' True]"
    by (simp add: demo_domains_def)
  have "list_all2 (sweep_row (Verify (\<lambda>_. []) demo_dns2) (points_elsewhere demo_dns2) demo_domains)
      (t_aliases demo_domains) (t_aliases (snd ?m))"
    by (rule reverify_only_for_cause [OF demo_domains_facts(1,2)]) (rule prod.collapse [symmetric])
  with v show ?thesis
    by (auto simp: a list_all2_Cons1 sweep_row_def demo_domains_facts demo_alias_def)
qed

theorem foreign_alias_not_found_witness:
  "Remove demo_manager (demo_vm ''c2'' ''db'' ''u2'') ''a1'' demo_domains = (Inl ErrNotFound, demo_domains)"
  using foreign_alias_not_found [OF demo_domains_facts(3,1), of "demo_alias ''a1'' ''c1'' ''a.org'' False"
      "demo_vm ''c2'' ''db'' ''u2''" "''none''" demo_manager]
  by (simp add: demo_domains_def demo_alias_def demo_vm_def)

end
