(* ===== verification/Agent_Models.thy ===== *)
theory Agent_Models
  imports Environment_Guide
begin

text \<open>
  The models of a VM's agent: which of them the VM opens on, and the SQL that puts the gateway's and the
  owner's models into the agent's database.  The pure functions of
  \<^verbatim>\<open>src/internal/picoclaw/provider_keys.go\<close> and \<^verbatim>\<open>seed.go\<close>.
\<close>

section \<open>Model identifiers\<close>

record provider_model =
  pm_Provider :: string
  pm_Model :: string
  pm_BaseURL :: string
  pm_Key :: string
  pm_Protocol :: string

definition ProviderModel_ID :: "provider_model \<Rightarrow> string" where
  "ProviderModel_ID m = UserModelID (pm_Provider m) (pm_Model m)"

definition gatewayModelPrefix :: string where
  "gatewayModelPrefix = ''svkexe-''"

record llm_config =
  lc_BaseURL :: string
  lc_Token :: string
  lc_Models :: "string list"
  lc_TokenForVM :: "(string \<Rightarrow> string \<Rightarrow> string) option"

definition providerModelIDs :: "provider_model list \<Rightarrow> string list" where
  "providerModelIDs = map ProviderModel_ID"

definition gatewaySeeded :: "string \<Rightarrow> bool" where
  "gatewaySeeded mid \<longleftrightarrow> HasPrefix mid UserModelPrefix \<or> HasPrefix mid gatewayModelPrefix"

definition gatewayModelIDs :: "llm_config option \<Rightarrow> string list" where
  "gatewayModelIDs cfg = (case cfg of None \<Rightarrow> [] | Some c \<Rightarrow> map (\<lambda>m. gatewayModelPrefix @ m) (lc_Models c))"

definition expectedSeedModelIDs :: "string list \<Rightarrow> string list" where
  "expectedSeedModelIDs models = sort (map (\<lambda>m. gatewayModelPrefix @ m) models)"

definition firstWithPrefix :: "string list \<Rightarrow> string \<Rightarrow> string" where
  "firstWithPrefix ids prefix = (case find (\<lambda>i. HasPrefix i prefix) ids of None \<Rightarrow> [] | Some i \<Rightarrow> i)"

section \<open>The model a VM opens on\<close>

definition reachable :: "string list \<Rightarrow> string \<Rightarrow> bool" where
  "reachable available mid \<longleftrightarrow> mid \<noteq> [] \<and> mid \<in> set available"

definition desiredModel :: "string list \<Rightarrow> string list \<Rightarrow> string list \<Rightarrow> string \<Rightarrow> string \<Rightarrow> string" where
  "desiredModel available own platform chosen current =
     (if reachable available chosen then chosen
      else if reachable available current \<and> \<not> gatewaySeeded current then current
      else
        let mine = filter (reachable available) own in
        if mine \<noteq> [] then (if current \<in> set mine then current else hd mine)
        else if reachable available current then current
        else case find (reachable available) platform of
          Some mid \<Rightarrow> mid
        | None \<Rightarrow>
            (let gateway = firstWithPrefix available gatewayModelPrefix in
             if gateway \<noteq> [] then gateway
             else if available \<noteq> [] then hd available else []))"

lemma desiredModel_reachable:
  assumes "list_all (\<lambda>m. m \<noteq> []) available" and "available \<noteq> []"
  shows "reachable available (desiredModel available own platform chosen current)"
proof -
  have mine: "reachable available (hd (filter (reachable available) own))" if "filter (reachable available) own \<noteq> []"
    using hd_in_set [OF that] by simp
  have plat: "reachable available m" if "find (reachable available) platform = Some m" for m
    using find_Some_iff_mem [OF that] by simp
  have first: "reachable available (firstWithPrefix available p)" if "firstWithPrefix available p \<noteq> []" for p
    using that by (auto simp: firstWithPrefix_def reachable_def split: option.splits dest: find_Some_iff_mem)
  have head: "reachable available (hd available)"
    using assms hd_in_set [OF assms(2)] by (auto simp: reachable_def list_all_iff)
  show ?thesis
    unfolding desiredModel_def Let_def using mine plat first head assms(2) by (simp split: option.split)
qed

lemma desiredModel_none: "desiredModel [] own platform chosen current = []"
  by (simp add: desiredModel_def reachable_def firstWithPrefix_def Let_def find_None_mem split: option.split)
     (auto dest: find_Some_iff_mem simp: reachable_def)

lemma desiredModel_mine:
  assumes "\<not> reachable available chosen" and "gatewaySeeded current \<or> \<not> reachable available current"
    and "filter (reachable available) own \<noteq> []"
  shows "desiredModel available own platform chosen current \<in> set (filter (reachable available) own)"
  using assms hd_in_set [OF assms(3)] by (auto simp: desiredModel_def Let_def)

lemma desiredModel_keeps:
  assumes "\<not> reachable available chosen" and "reachable available c"
    and "\<not> gatewaySeeded c \<or> filter (reachable available) own = [] \<or> c \<in> set own"
  shows "desiredModel available own platform chosen c = c"
  using assms by (auto simp: desiredModel_def Let_def)

text \<open>The model a VM opens on is one it has, and the choice is settled.  For every model list the
  agent reports, desiredModel names a model of that list, or none when the list is empty.  The owner's
  choice wins whenever the VM has it; otherwise a model the owner created inside the VM is left alone;
  otherwise an owner with a reachable connection of their own is never put on the platform's models.
  Deciding again changes nothing.\<close>

theorem desiredModel_correct:
  assumes "list_all (\<lambda>m. m \<noteq> []) available"
  shows "(if available = [] then desiredModel available own platform chosen current = []
      else reachable available (desiredModel available own platform chosen current))
    \<and> (reachable available chosen \<longrightarrow> desiredModel available own platform chosen current = chosen)
    \<and> (\<not> reachable available chosen \<and> reachable available current \<and> \<not> gatewaySeeded current \<longrightarrow>
        desiredModel available own platform chosen current = current)
    \<and> (\<not> reachable available chosen \<and> (gatewaySeeded current \<or> \<not> reachable available current)
        \<and> list_ex (reachable available) own \<longrightarrow> desiredModel available own platform chosen current \<in> set own)
    \<and> desiredModel available own platform chosen (desiredModel available own platform chosen current)
        = desiredModel available own platform chosen current"
proof (intro conjI impI)
  let ?d = "desiredModel available own platform chosen current"
  show "if available = [] then ?d = [] else reachable available ?d"
    using desiredModel_reachable [OF assms] desiredModel_none by simp
  show chosen: "?d = chosen" if "reachable available chosen" using that by (simp add: desiredModel_def)
  show "?d = current" if "\<not> reachable available chosen \<and> reachable available current \<and> \<not> gatewaySeeded current"
    using that desiredModel_keeps by blast
  show "?d \<in> set own" if "\<not> reachable available chosen \<and> (gatewaySeeded current \<or> \<not> reachable available current)
        \<and> list_ex (reachable available) own"
    using that desiredModel_mine [of available chosen current own platform]
    by (auto simp: list_ex_iff filter_empty_conv)
  show "desiredModel available own platform chosen ?d = ?d"
  proof (cases "available = [] \<or> reachable available chosen")
    case False
    have "?d \<in> set own" if "gatewaySeeded ?d" "filter (reachable available) own \<noteq> []"
    proof -
      from False that(1) have "gatewaySeeded current \<or> \<not> reachable available current" by (auto simp: desiredModel_def)
      with False that(2) desiredModel_mine [of available chosen current own platform] show ?thesis by simp
    qed
    with False desiredModel_reachable [OF assms] show ?thesis by (intro desiredModel_keeps) blast+
  next
    case True
    then show ?thesis
    proof
      assume "reachable available chosen"
      then show ?thesis by (simp add: desiredModel_def)
    qed (simp add: desiredModel_none)
  qed
qed

section \<open>SQL for the agent's database\<close>

definition sqlQuote :: "string \<Rightarrow> string" where
  "sqlQuote s = quote @ concat (map (\<lambda>c. if c = CHR 0x27 then quote @ quote else [c]) s) @ quote"

definition model_columns :: string where
  "model_columns = ''(model_id, display_name, provider_type, endpoint, api_key, model_name, max_tokens) VALUES (''"

definition newline :: string where
  "newline = [CHR 0x0A]"

definition provider_insert :: "provider_model \<Rightarrow> string" where
  "provider_insert m = ''INSERT INTO models '' @ model_columns
     @ sqlQuote (ProviderModel_ID m) @ '', '' @ sqlQuote (pm_Provider m @ '' / '' @ pm_Model m) @ '', ''
     @ sqlQuote (pm_Protocol m) @ '', '' @ sqlQuote (pm_BaseURL m) @ '', '' @ sqlQuote (pm_Key m) @ '', ''
     @ sqlQuote (pm_Model m) @ '', 200000);'' @ newline"

definition providerModelsSQL :: "provider_model list \<Rightarrow> string" where
  "providerModelsSQL models =
     ''PRAGMA busy_timeout=10000;'' @ newline @ ''BEGIN IMMEDIATE;'' @ newline
     @ ''DELETE FROM models WHERE model_id GLOB '' @ quote @ UserModelPrefix @ ''*'' @ quote @ '';'' @ newline
     @ concat (map provider_insert models) @ ''COMMIT;'' @ newline"

definition modelSeedStmt :: "string \<Rightarrow> string \<Rightarrow> string \<Rightarrow> string" where
  "modelSeedStmt model baseURL token =
     ''INSERT OR REPLACE INTO models '' @ model_columns
     @ sqlQuote (gatewayModelPrefix @ model) @ '', '' @ sqlQuote (after_last model CHR ''/'') @ '', '' @ quote @ ''openai'' @ quote @ '', ''
     @ sqlQuote baseURL @ '', '' @ sqlQuote token @ '', '' @ sqlQuote model @ '', 200000);''"

definition buildSeedSQL :: "string list \<Rightarrow> string \<Rightarrow> string \<Rightarrow> string" where
  "buildSeedSQL models baseURL token = Join
     ([''PRAGMA busy_timeout=10000;'', ''BEGIN IMMEDIATE;'',
       ''DELETE FROM models WHERE model_id LIKE '' @ quote @ gatewayModelPrefix @ ''%'' @ quote @ '';'']
      @ map (\<lambda>m. modelSeedStmt m baseURL token) models @ [''COMMIT;'']) CHR 0x0A"

text \<open>How SQLite reads a string literal: up to the next quote that is not doubled.\<close>

fun read_literal :: "string \<Rightarrow> (string \<times> string) option" where
  "read_literal [] = None"
| "read_literal (c # r) =
     (if c \<noteq> CHR 0x27 then map_option (\<lambda>(s, t). (c # s, t)) (read_literal r)
      else case r of
        [] \<Rightarrow> Some ([], [])
      | d # t \<Rightarrow> if d = CHR 0x27 then map_option (\<lambda>(s, t). (d # s, t)) (read_literal t) else Some ([], r))"

text \<open>A row of values: \<open>n\<close> literals, each followed by a comma and a space.\<close>

fun read_values :: "nat \<Rightarrow> string \<Rightarrow> (string list \<times> string) option" where
  "read_values 0 s = Some ([], s)"
| "read_values (Suc n) (c # s) =
     (if c \<noteq> CHR 0x27 then None
      else case read_literal s of
        Some (v, d # e # r) \<Rightarrow> if [d, e] = '', '' then map_option (\<lambda>(vs, t). (v # vs, t)) (read_values n r) else None
      | _ \<Rightarrow> None)"
| "read_values (Suc n) [] = None"

lemma read_literal_quoted:
  assumes "rest = [] \<or> hd rest \<noteq> CHR 0x27"
  shows "read_literal (concat (map (\<lambda>c. if c = CHR 0x27 then quote @ quote else [c]) s) @ quote @ rest) = Some (s, rest)"
  using assms by (induction s) (auto simp: quote_def split: list.split)

lemma read_values_quoted:
  "read_values (Suc n) (sqlQuote v @ '', '' @ rest) = map_option (\<lambda>(vs, t). (v # vs, t)) (read_values n rest)"
proof -
  have "read_literal (concat (map (\<lambda>c. if c = CHR 0x27 then quote @ quote else [c]) v) @ quote @ '', '' @ rest)
      = Some (v, '', '' @ rest)"
    by (rule read_literal_quoted) simp
  then show ?thesis by (simp add: sqlQuote_def quote_def)
qed

text \<open>No field of a connection can leave its place in the SQL that seeds a VM.  Whatever bytes a
  provider name, model name, address or key contain, the row SQLite reads from the statement has exactly
  those bytes in its six text columns, and the statement ends where it is meant to.\<close>

theorem seed_statement_roundtrip:
  "(\<exists>body. provider_insert m @ rest = ''INSERT INTO models '' @ model_columns @ body
     \<and> read_values 6 body = Some ([ProviderModel_ID m, pm_Provider m @ '' / '' @ pm_Model m, pm_Protocol m, pm_BaseURL m,
         pm_Key m, pm_Model m], ''200000);'' @ newline @ rest))
   \<and> (\<exists>body. modelSeedStmt model baseURL token @ rest = ''INSERT OR REPLACE INTO models '' @ model_columns @ body
     \<and> read_values 6 body = Some ([gatewayModelPrefix @ model, after_last model CHR ''/'', ''openai'', baseURL, token, model],
         ''200000);'' @ rest))"
proof -
  have six: "read_values 6 (sqlQuote a @ '', '' @ sqlQuote b @ '', '' @ sqlQuote c @ '', '' @ sqlQuote d @ '', ''
      @ sqlQuote e @ '', '' @ sqlQuote f @ '', '' @ tail) = Some ([a, b, c, d, e, f], tail)" for a b c d e f tail
    by (simp add: eval_nat_numeral(2,3) read_values_quoted del: append_Cons append_Nil)
  have openai: "quote @ ''openai'' @ quote = sqlQuote ''openai''" by (simp add: sqlQuote_def quote_def)
  show ?thesis
  proof (intro conjI exI)
    let ?b = "sqlQuote (ProviderModel_ID m) @ '', '' @ sqlQuote (pm_Provider m @ '' / '' @ pm_Model m) @ '', ''
     @ sqlQuote (pm_Protocol m) @ '', '' @ sqlQuote (pm_BaseURL m) @ '', '' @ sqlQuote (pm_Key m) @ '', ''
     @ sqlQuote (pm_Model m) @ '', '' @ ''200000);'' @ newline @ rest"
    show "provider_insert m @ rest = ''INSERT INTO models '' @ model_columns @ ?b" by (simp add: provider_insert_def)
    show "read_values 6 ?b = Some ([ProviderModel_ID m, pm_Provider m @ '' / '' @ pm_Model m, pm_Protocol m, pm_BaseURL m,
         pm_Key m, pm_Model m], ''200000);'' @ newline @ rest)" by (rule six)
    let ?c = "sqlQuote (gatewayModelPrefix @ model) @ '', '' @ sqlQuote (after_last model CHR ''/'') @ '', '' @ sqlQuote ''openai'' @ '', ''
     @ sqlQuote baseURL @ '', '' @ sqlQuote token @ '', '' @ sqlQuote model @ '', '' @ ''200000);'' @ rest"
    show "modelSeedStmt model baseURL token @ rest = ''INSERT OR REPLACE INTO models '' @ model_columns @ ?c"
      unfolding openai [symmetric] by (simp add: modelSeedStmt_def)
    show "read_values 6 ?c = Some ([gatewayModelPrefix @ model, after_last model CHR ''/'', ''openai'', baseURL, token, model],
         ''200000);'' @ rest)" by (rule six)
  qed
qed

theorem desiredModel_correct_witness:
  "desiredModel [''llama'', ''svkexe-gpt'', ''svkexe_user:openai:o3''] [''svkexe_user:openai:o3''] [''svkexe-gpt''] [] ''svkexe-gpt''
     \<in> set [''svkexe_user:openai:o3'']"
proof -
  let ?a = "[''llama'', ''svkexe-gpt'', ''svkexe_user:openai:o3'']"
  have "list_all (\<lambda>m. m \<noteq> []) ?a" "\<not> reachable ?a []" "gatewaySeeded ''svkexe-gpt''" "list_ex (reachable ?a) [''svkexe_user:openai:o3'']"
    by (simp_all add: reachable_def gatewaySeeded_def HasPrefix_def gatewayModelPrefix_def)
  with desiredModel_correct [of ?a "[''svkexe_user:openai:o3'']" "[''svkexe-gpt'']" "[]" "''svkexe-gpt''"] show ?thesis by blast
qed

end
