(* ===== verification/Secrets.thy ===== *)
theory Secrets
  imports Agent_Models
begin

text \<open>
  The owner's LLM keys as a VM gets them: \<^verbatim>\<open>src/internal/secrets/materialize.go\<close>.

  A key file is the content of \<^verbatim>\<open>{basePath}/{containerID}/env\<close>, held in \<open>g_keys\<close>.  Each call
  of package \<^verbatim>\<open>os\<close> may fail and draws its outcome from the same schedule as the database's
  statements; the file under its final name changes in the rename only.  \<open>unseal\<close> is AES-GCM's opening
  function, as in \<open>Providers_Db\<close>.
\<close>

section \<open>Files\<close>

text \<open>A call that has no effect the model keeps (a directory, a temporary file), and the calls on the
  key file.\<close>

definition os_call :: "('r gateway, dberr, unit) sm" where
  "os_call = exec (\<lambda>s. Inr ((), s))"

definition os_rename :: "string \<Rightarrow> string \<Rightarrow> ('r gateway, dberr, unit) sm" where
  "os_rename cid content = exec (\<lambda>s. Inr ((), s\<lparr>g_keys := (g_keys s)(cid \<mapsto> content)\<rparr>))"

definition os_read :: "string \<Rightarrow> ('r gateway, dberr, string) sm" where
  "os_read cid = exec (\<lambda>s. case g_keys s cid of None \<Rightarrow> Inl (ErrRuntime ''no such file'') | Some x \<Rightarrow> Inr (x, s))"

definition os_remove_all :: "string \<Rightarrow> ('r gateway, dberr, unit) sm" where
  "os_remove_all cid = exec (\<lambda>s. Inr ((), s\<lparr>g_keys := (g_keys s)(cid := None)\<rparr>))"

section \<open>The materializer\<close>

record materializer =
  mz_unseal :: "string \<Rightarrow> string \<Rightarrow> string \<Rightarrow> string option"
  mz_encKey :: string
  mz_upper :: "string \<Rightarrow> string"

definition env_line :: "(string \<Rightarrow> string) \<Rightarrow> apikey \<Rightarrow> string \<Rightarrow> string" where
  "env_line uni k plaintext = ToUpper uni (ak_Provider k) @ ''_API_KEY'' @ ''='' @ plaintext @ newline"

fun env_text :: "materializer \<Rightarrow> apikey list \<Rightarrow> ('r, string) gwm" where
  "env_text m [] = ret []"
| "env_text m (k # ks) =
     (if ak_BaseURL k \<noteq> [] then env_text m ks
      else bindE (GetAPIKeyPlaintext (mz_unseal m) (ak_ID k) (mz_encKey m)) (\<lambda>plaintext.
        bindE (env_text m ks) (\<lambda>rest. ret (env_line (mz_upper m) k plaintext @ rest))))"

text \<open>MkdirAll, the loop, then CreateTemp, WriteString, Chmod, Close and Rename.\<close>

definition MaterializeKeys :: "materializer \<Rightarrow> string \<Rightarrow> string \<Rightarrow> ('r, unit) gwm" where
  "MaterializeKeys m cid owner =
     bindE (ListAPIKeysByOwner owner) (\<lambda>keys.
     bindE os_call (\<lambda>_.
     bindE (env_text m keys) (\<lambda>content.
     bindE os_call (\<lambda>_. bindE os_call (\<lambda>_. bindE os_call (\<lambda>_. bindE os_call (\<lambda>_.
     os_rename cid content)))))))"

definition ReadKeys :: "string \<Rightarrow> ('r, string) gwm" where
  "ReadKeys cid = os_read cid"

definition RemoveKeys :: "string \<Rightarrow> ('r, unit) gwm" where
  "RemoveKeys cid = os_remove_all cid"

definition RefreshKeys :: "materializer \<Rightarrow> string \<Rightarrow> string \<Rightarrow> ('r, unit) gwm" where
  "RefreshKeys m cid owner = MaterializeKeys m cid owner"

fun provider_models :: "materializer \<Rightarrow> apikey list \<Rightarrow> ('z, provider_model list) dbm" where
  "provider_models m [] = ret []"
| "provider_models m (k # ks) =
     (if ak_BaseURL k = [] then provider_models m ks
      else bindE (GetAPIKeyPlaintext (mz_unseal m) (ak_ID k) (mz_encKey m)) (\<lambda>key.
        bindE (provider_models m ks) (\<lambda>rest. ret (map (\<lambda>model. \<lparr>pm_Provider = ak_Provider k, pm_Model = model,
            pm_BaseURL = ak_BaseURL k, pm_Key = key, pm_Protocol = ak_Protocol k\<rparr>)
          (filter (\<lambda>model. model \<noteq> []) (Split (ak_Models k) CHR '','')) @ rest))))"

definition ProviderModels :: "materializer \<Rightarrow> string \<Rightarrow> ('z, provider_model list) dbm" where
  "ProviderModels m owner = bindE (ListAPIKeysByOwner owner) (provider_models m)"

section \<open>The database is only read\<close>

lemma os_pure [keeps_rules]:
  "keeps (db_same s0) os_call" "keeps (db_same s0) (os_rename c x)" "keeps (db_same s0) (os_read c)"
  "keeps (db_same s0) (os_remove_all c)"
  unfolding os_call_def os_rename_def os_read_def os_remove_all_def
  by (rule dbs.keeps_exec, auto simp: db_same_def split: option.splits)+

lemma env_text_pure [keeps_rules]: "keeps (db_same s0) (env_text m ks)"
  by (induction ks) (simp_all only: env_text.simps keeps_rules)

lemma provider_models_pure [keeps_rules]: "keeps (db_same s0) (provider_models m ks)"
  by (induction ks) (simp_all only: provider_models.simps keeps_rules)

lemma secrets_pure [keeps_rules]:
  "keeps (db_same s0) (MaterializeKeys m c ow)" "keeps (db_same s0) (RefreshKeys m c ow)" "keeps (db_same s0) (ReadKeys c)"
  "keeps (db_same s0) (RemoveKeys c)" "keeps (db_same s0) (ProviderModels m ow)"
  unfolding MaterializeKeys_def RefreshKeys_def ReadKeys_def RemoveKeys_def ProviderModels_def
  by (intro keeps_rules)+

section \<open>What a key file contains\<close>

text \<open>The owner's connections in the order the listing has them, and the secret of one.\<close>

definition owner_keys :: "'z store_scheme \<Rightarrow> string \<Rightarrow> apikey list" where
  "owner_keys s owner = sort_key (\<lambda>k. (- ak_CreatedAt k, ak_ID k)) (filter (\<lambda>k. ak_OwnerID k = owner) (t_keys s))"

definition opens_to :: "materializer \<Rightarrow> apikey \<Rightarrow> string \<Rightarrow> bool" where
  "opens_to m k p \<longleftrightarrow> decryptAESGCM (mz_unseal m) (mz_encKey m) (ak_EncryptedKey k) = Inr p"

definition blank :: "apikey \<Rightarrow> apikey" where
  "blank k = k\<lparr>ak_EncryptedKey := []\<rparr>"

lemma blank_fields [simp]:
  "ak_ID (blank k) = ak_ID k" "ak_BaseURL (blank k) = ak_BaseURL k" "ak_Provider (blank k) = ak_Provider k"
  "ak_Models (blank k) = ak_Models k" "ak_Protocol (blank k) = ak_Protocol k" "env_line u (blank k) p = env_line u k p"
  by (simp_all add: blank_def env_line_def)

lemma look_keys [look_rules]: "looks_up s (ListAPIKeysByOwner owner) (\<lambda>ks. ks = map blank (owner_keys s owner))"
proof -
  have "ak_EncryptedKey_update (\<lambda>_. []) = blank" by (simp add: fun_eq_iff blank_def)
  then show ?thesis
    unfolding ListAPIKeysByOwner_def
    by (intro looks_up_bindE [OF apikeys.looks_up_rows]) (auto intro!: looks_up_ret simp: owner_keys_def)
qed

lemma look_plaintext:
  assumes "uniq_ok s" and "k \<in> set (t_keys s)"
  shows "looks_up s (GetAPIKeyPlaintext (mz_unseal m) (ak_ID k) (mz_encKey m)) (opens_to m k)"
  unfolding GetAPIKeyPlaintext_def
proof (rule looks_up_bindE [OF apikeys.looks_up_row])
  fix r assume "r \<in> set (t_keys s) \<and> ak_ID r = ak_ID k"
  then have "r = k" using distinct_map_eqD [of ak_ID "t_keys s" r k] assms by (simp add: uniq_ok_def uq_keys_def)
  then show "looks_up s (of_result (decryptAESGCM (mz_unseal m) (mz_encKey m) (ak_EncryptedKey r))) (opens_to m k)"
    by (intro look_of_result) (simp add: opens_to_def)
qed

lemma look_os_call [look_rules]: "looks_up s os_call (\<lambda>_. True)"
  by (auto simp: looks_up_def hoare_def os_call_def exec_def Let_def split: list.split bool.split)

lemma look_env_text:
  assumes "uniq_ok s" and "set ks \<subseteq> set (t_keys s)"
  shows "looks_up s (env_text m (map blank ks))
     (\<lambda>x. \<exists>ps. list_all2 (opens_to m) (filter (\<lambda>k. ak_BaseURL k = []) ks) ps
        \<and> x = concat (map2 (env_line (mz_upper m)) (filter (\<lambda>k. ak_BaseURL k = []) ks) ps))"
  using assms(2)
proof (induction ks)
  case (Cons k ks)
  show ?case
  proof (cases "ak_BaseURL k = []")
    case True
    have k: "k \<in> set (t_keys s)" "set ks \<subseteq> set (t_keys s)" using Cons.prems by auto
    note IH = Cons.IH [OF k(2)]
    have "looks_up s (bindE (GetAPIKeyPlaintext (mz_unseal m) (ak_ID k) (mz_encKey m)) (\<lambda>plaintext.
        bindE (env_text m (map blank ks)) (\<lambda>rest. ret (env_line (mz_upper m) k plaintext @ rest))))
      (\<lambda>x. \<exists>ps. list_all2 (opens_to m) (k # filter (\<lambda>k. ak_BaseURL k = []) ks) ps
        \<and> x = concat (map2 (env_line (mz_upper m)) (k # filter (\<lambda>k. ak_BaseURL k = []) ks) ps))"
    proof (intro looks_up_bindE [OF look_plaintext [OF assms(1) k(1)]] looks_up_bindE [OF IH] looks_up_ret)
      fix p x assume p: "opens_to m k p" and "\<exists>ps. list_all2 (opens_to m) (filter (\<lambda>k. ak_BaseURL k = []) ks) ps
        \<and> x = concat (map2 (env_line (mz_upper m)) (filter (\<lambda>k. ak_BaseURL k = []) ks) ps)"
      then obtain ps where "list_all2 (opens_to m) (filter (\<lambda>k. ak_BaseURL k = []) ks) ps"
        "x = concat (map2 (env_line (mz_upper m)) (filter (\<lambda>k. ak_BaseURL k = []) ks) ps)" by blast
      with p show "\<exists>ps. list_all2 (opens_to m) (k # filter (\<lambda>k. ak_BaseURL k = []) ks) ps
        \<and> env_line (mz_upper m) k p @ x = concat (map2 (env_line (mz_upper m)) (k # filter (\<lambda>k. ak_BaseURL k = []) ks) ps)"
        by (intro exI [of _ "p # ps"]) simp
    qed
    with True show ?thesis by simp
  qed (use Cons in simp)
qed (simp add: looks_up_ret)

text \<open>A VM's key file holds its owner's plain keys and nothing else.  When MaterializeKeys succeeds
  the file has one line per connection without an address, in the order of the listing, each with the
  secret that connection opens to, so the secret of a connection with an address of its own is never
  written; no other VM's file and no table changes.  When it fails nothing changes at all, the old file
  included.\<close>

theorem MaterializeKeys_exact:
  assumes "uniq_ok s"
  shows "case MaterializeKeys m cid owner s of
      (Inl e, t) \<Rightarrow> same_data s t
    | (Inr _, t) \<Rightarrow> (\<exists>ps. list_all2 (opens_to m) (filter (\<lambda>k. ak_BaseURL k = []) (owner_keys s owner)) ps
        \<and> same_data (s\<lparr>g_keys := (g_keys s)(cid \<mapsto>
            concat (map2 (env_line (mz_upper m)) (filter (\<lambda>k. ak_BaseURL k = []) (owner_keys s owner)) ps))\<rparr>) t)"
proof -
  let ?text = "\<lambda>x. \<exists>ps. list_all2 (opens_to m) (filter (\<lambda>k. ak_BaseURL k = []) (owner_keys s owner)) ps
      \<and> x = concat (map2 (env_line (mz_upper m)) (filter (\<lambda>k. ak_BaseURL k = []) (owner_keys s owner)) ps)"
  have ks: "set (owner_keys s owner) \<subseteq> set (t_keys s)" by (auto simp: owner_keys_def)
  have ren: "hoare (same_data s) (os_rename cid x)
      (\<lambda>_ t. same_data (s\<lparr>g_keys := (g_keys s)(cid \<mapsto> x)\<rparr>) t) (\<lambda>_. same_data s)" for x
    by (auto simp: hoare_def os_rename_def exec_def Let_def split: list.split bool.split elim!: same_dataE)
       (simp_all add: same_data_def)
  have env: "looks_up s (env_text m (map blank (owner_keys s owner))) ?text"
    by (rule look_env_text [OF assms ks])
  have h: "hoare (same_data s) (MaterializeKeys m cid owner)
      (\<lambda>_ t. \<exists>x. ?text x \<and> same_data (s\<lparr>g_keys := (g_keys s)(cid \<mapsto> x)\<rparr>) t) (\<lambda>_. same_data s)"
    unfolding MaterializeKeys_def
  proof (rule look_bindE [OF look_keys])
    fix ks assume k: "ks = map blank (owner_keys s owner)"
    show "hoare (same_data s) (bindE os_call (\<lambda>_. bindE (env_text m ks) (\<lambda>content.
        bindE os_call (\<lambda>_. bindE os_call (\<lambda>_. bindE os_call (\<lambda>_. bindE os_call (\<lambda>_. os_rename cid content)))))))
      (\<lambda>_ t. \<exists>x. ?text x \<and> same_data (s\<lparr>g_keys := (g_keys s)(cid \<mapsto> x)\<rparr>) t) (\<lambda>_. same_data s)"
      unfolding k
      by (intro look_bindE [OF look_os_call] look_bindE [OF env]) (auto intro: hoare_conseq [OF ren])
  qed simp
  obtain r t where run: "MaterializeKeys m cid owner s = (r, t)" by (rule prod.exhaust)
  show ?thesis
  proof (cases r)
    case (Inl e)
    then show ?thesis using hoare_Inl [OF h same_data_refl, of e t] run by simp
  next
    case (Inr u)
    then have "\<exists>x. ?text x \<and> same_data (s\<lparr>g_keys := (g_keys s)(cid \<mapsto> x)\<rparr>) t"
      using hoare_Inr [OF h same_data_refl, of u t] run by simp
    with Inr run show ?thesis by auto
  qed
qed

text \<open>An instance: one plain key and one connection with an address.\<close>

definition demo_key :: "string \<Rightarrow> string \<Rightarrow> string \<Rightarrow> string \<Rightarrow> apikey" where
  "demo_key kid provider secret url = \<lparr>ak_ID = kid, ak_OwnerID = ''u1'', ak_Provider = provider,
     ak_EncryptedKey = ''123456789012'' @ secret, ak_BaseURL = url, ak_Models = (if url = [] then [] else ''m''),
     ak_Protocol = (if url = [] then [] else ''openai''), ak_CreatedAt = 0\<rparr>"

definition demo_materializer :: materializer where
  "demo_materializer = \<lparr>mz_unseal = (\<lambda>_ _ c. Some c), mz_encKey = ''0123456789abcdef'', mz_upper = id\<rparr>"

definition demo_secrets :: "unit gateway" where
  "demo_secrets = demo_gw\<lparr>t_keys := [demo_key ''k1'' ''openai'' ''sk-1'' [], demo_key ''k2'' ''custom-x'' ''sk-2'' ''https://x'']\<rparr>"

theorem MaterializeKeys_exact_witness:
  "\<exists>t. MaterializeKeys demo_materializer ''c1'' ''u1'' demo_secrets = (Inr (), t)
     \<and> g_keys t ''c1'' = Some (''OPENAI_API_KEY=sk-1'' @ newline)"
proof -
  have u: "uniq_ok demo_secrets"
    by (simp add: demo_secrets_def demo_gw_def uniq_ok_def uq_defs demo_key_def)
  obtain t where r: "MaterializeKeys demo_materializer ''c1'' ''u1'' demo_secrets = (Inr (), t)"
    by (simp add: MaterializeKeys_def ListAPIKeysByOwner_def os_call_def os_rename_def GetAPIKeyPlaintext_def of_result_def
        run_defs demo_secrets_def demo_gw_def demo_key_def demo_materializer_def decryptAESGCM_def aes_key_ok_def gcm_nonce_size_def)
  have k: "filter (\<lambda>k. ak_BaseURL k = []) (owner_keys demo_secrets ''u1'') = [demo_key ''k1'' ''openai'' ''sk-1'' []]"
    by (simp add: owner_keys_def demo_secrets_def demo_gw_def demo_key_def)
  have o: "opens_to demo_materializer (demo_key ''k1'' ''openai'' ''sk-1'' []) p \<longleftrightarrow> p = ''sk-1''" for p
    by (auto simp: opens_to_def demo_materializer_def demo_key_def decryptAESGCM_def aes_key_ok_def gcm_nonce_size_def)
  have l: "env_line (mz_upper demo_materializer) (demo_key ''k1'' ''openai'' ''sk-1'' []) ''sk-1'' = ''OPENAI_API_KEY=sk-1'' @ newline"
    by code_simp
  obtain ps where ps: "list_all2 (opens_to demo_materializer) [demo_key ''k1'' ''openai'' ''sk-1'' []] ps"
    and d: "same_data (demo_secrets\<lparr>g_keys := (g_keys demo_secrets)(''c1'' \<mapsto>
      concat (map2 (env_line (mz_upper demo_materializer)) [demo_key ''k1'' ''openai'' ''sk-1'' []] ps))\<rparr>) t"
    using MaterializeKeys_exact [OF u, of demo_materializer "''u1''" "''c1''"] unfolding r k by auto
  from ps have "ps = [''sk-1'']" by (auto simp: list_all2_Cons1 o)
  with l have "concat (map2 (env_line (mz_upper demo_materializer)) [demo_key ''k1'' ''openai'' ''sk-1'' []] ps)
    = ''OPENAI_API_KEY=sk-1'' @ newline" by (simp only: list.map zip_Cons_Cons zip_Nil concat.simps prod.case append_Nil2)
  with d have "same_data (demo_secrets\<lparr>g_keys := (g_keys demo_secrets)(''c1'' \<mapsto> ''OPENAI_API_KEY=sk-1'' @ newline)\<rparr>) t"
    by (simp only:)
  then have "g_keys t ''c1'' = Some (''OPENAI_API_KEY=sk-1'' @ newline)" by (auto elim!: same_dataE)
  with r show ?thesis by blast
qed

end
