(* ===== verification/Agent_Setup.thy ===== *)
theory Agent_Setup
  imports Secrets
begin

text \<open>
  Installing and refreshing the agent inside a VM: \<^verbatim>\<open>setup.go\<close>, \<^verbatim>\<open>seed.go\<close>,
  \<^verbatim>\<open>provider_keys.go\<close>, \<^verbatim>\<open>metadata_route.go\<close>, \<^verbatim>\<open>backup.go\<close>,
  \<^verbatim>\<open>reconcile.go\<close> and \<^verbatim>\<open>update.go\<close> of \<^verbatim>\<open>src/internal/picoclaw\<close>.

  \<open>agent_env\<close> collects what these functions get from outside: the file half of the runtime, the host's
  files, \<^verbatim>\<open>encoding/json\<close>, SHA-256, the texts of the metadata route, and the patience of each
  waiting loop, which is the number of rounds its deadline leaves it.  A loop that ends by its context
  and one that ends by its deadline both return an error, and are not told apart.  The setup lock is held
  or was not obtained in time (\<open>ae_Locked\<close>).

  An assignment to a nil map is a Go panic.  It is the error \<open>ErrPanic\<close>, which no
  \<^verbatim>\<open>if err != nil\<close> of the callers sees: \<open>catch\<close> is that handler.
\<close>

section \<open>The environment\<close>

definition catch :: "('s, dberr, 'a) sm \<Rightarrow> (dberr \<Rightarrow> ('s, dberr, 'b) sm) \<Rightarrow> ('a \<Rightarrow> ('s, dberr, 'b) sm) \<Rightarrow> ('s, dberr, 'b) sm" where
  "catch m h f = attempt m (\<lambda>e. if e = ErrPanic then raise ErrPanic else h e) f"

lemma keeps_catch [keeps_rules]:
  "keeps I m \<Longrightarrow> (\<And>e. keeps I (h e)) \<Longrightarrow> (\<And>a. keeps I (f a)) \<Longrightarrow> keeps I (catch m h f)"
  unfolding catch_def by (intro keeps_rules)

datatype file_result = NotExist | FileError string | FileData string

record host =
  h_AgentBinary :: string
  h_ReadFile :: "string \<Rightarrow> file_result"
  h_ExecutableDir :: "string option"

record 'r file_runtime =
  fr_PushFile :: "string \<Rightarrow> string \<Rightarrow> string \<Rightarrow> ('r, dberr, unit) sm"
  fr_PullFile :: "string \<Rightarrow> string \<Rightarrow> ('r, dberr, string) sm"

text \<open>\<^verbatim>\<open>encoding/json\<close>, per type the source decodes into: a \<^verbatim>\<open>map[string]json.RawMessage\<close>
  (\<open>None\<close> is the nil map that a JSON null decodes to), a string, a struct of one string field, and the
  answer of the agent's version command.\<close>

type_synonym guest_config = "(string \<rightharpoonup> string) option"

record json =
  js_Object :: "string \<Rightarrow> guest_config option"
  js_ShowObject :: "guest_config \<Rightarrow> string option"
  js_String :: "string \<Rightarrow> string option"
  js_ShowString :: "string \<Rightarrow> string"
  js_Field :: "string \<Rightarrow> string \<Rightarrow> string option"
  js_Version :: "string \<Rightarrow> (string \<times> bool) option"
  js_ShowFields :: "(string \<times> string) list \<Rightarrow> string"

record waits =
  w_Systemd :: nat
  w_Start :: nat
  w_DB :: nat
  w_HTTP :: nat

record 'r agent_env =
  ae_Files :: "'r file_runtime option"
  ae_Host :: host
  ae_Json :: json
  ae_Sha256 :: "string \<Rightarrow> string"
  ae_Route :: "(string \<times> string) option"
  ae_Guide :: guide
  ae_Error :: "dberr \<Rightarrow> string"
  ae_Waits :: waits
  ae_Locked :: bool

definition script :: "string list \<Rightarrow> string" where
  "script ls = concat (map (\<lambda>l. l @ newline) ls)"

definition sh :: "string \<Rightarrow> string list" where
  "sh cmd = [''sh'', ''-c'', cmd]"

definition guest :: "'r runtime \<Rightarrow> string \<Rightarrow> string list \<Rightarrow> ('r, string) gwm" where
  "guest rt name argv = rt_call (rt_Exec rt name argv)"

section \<open>Paths and fixed texts\<close>

definition RequireHeader :: string where "RequireHeader = ''X-ExeDev-Userid''"
definition DBPath :: string where "DBPath = ''/data/picoclaw.db''"
definition LegacyDBPath :: string where "LegacyDBPath = ''/data/shelley.db''"
definition LegacyConfigDir :: string where "LegacyConfigDir = ''/etc/shelley''"
definition EnvFilePath :: string where "EnvFilePath = ConfigDir @ ''/env''"
definition ConfigFilePath :: string where "ConfigFilePath = ConfigDir @ ''/picoclaw.json''"
definition GatewayCredentialPath :: string where "GatewayCredentialPath = ConfigDir @ ''/llm-gateway.json''"

text \<open>The middle dot of the banner is two bytes of UTF-8.\<close>

definition SystemdUnitContent :: string where
  "SystemdUnitContent = script
     [''[Unit]'',
      ''Description=PicoClaw LLM execution service'',
      ''After=network.target'',
      [],
      ''[Service]'',
      ''Type=simple'',
      ''User='' @ ContainerUser,
      ''Group='' @ ContainerUser,
      ''WorkingDirectory=/home/'' @ ContainerUser,
      ''EnvironmentFile='' @ EnvFilePath,
      ''ExecStart=/usr/local/bin/picoclaw --config '' @ ConfigFilePath @ '' -db '' @ DBPath
        @ '' serve -port 9000 -require-header '' @ RequireHeader @ '' -banner \"PicoClaw '' @ [CHR 0xC2, CHR 0xB7] @ '' svkexe\"'',
      ''Restart=on-failure'',
      ''RestartSec=5'',
      [],
      ''[Install]'',
      ''WantedBy=multi-user.target'']"

definition stop_script :: string where
  "stop_script = script
     [''set -eu'',
      ''for unit in shelley.service picoclaw.service; do'',
      '' if systemctl cat \"$unit\" >/dev/null 2>&1; then systemctl disable --now \"$unit\"; fi'',
      ''done'',
      ''if [ -f '' @ LegacyDBPath @ '' ] && [ ! -f /data/picoclaw.pre-rename.db ]; then sqlite3 '' @ LegacyDBPath @ '' ''
        @ quote @ ''.backup /data/picoclaw.pre-rename.db'' @ quote @ ''; fi'',
      ''if [ -f '' @ LegacyDBPath @ '' ] && [ ! -f '' @ DBPath @ '' ]; then mv '' @ LegacyDBPath @ '' '' @ DBPath @ ''; fi'',
      ''for suffix in -wal -shm; do'',
      '' if [ -f '' @ LegacyDBPath @ ''$suffix ] && [ ! -f '' @ DBPath @ ''$suffix ]; then mv '' @ LegacyDBPath @ ''$suffix ''
        @ DBPath @ ''$suffix; fi'',
      ''done'',
      ''if [ -f '' @ LegacyConfigDir @ ''/env ] && [ ! -f '' @ EnvFilePath @ '' ]; then mv '' @ LegacyConfigDir @ ''/env '' @ EnvFilePath @ ''; fi'',
      ''rm -f /usr/local/bin/shelley /etc/systemd/system/shelley.service'',
      ''rm -rf '' @ LegacyConfigDir]"

definition configure_script :: string where
  "configure_script = script
     [''set -eu'',
      ''chown -R user:user /data'',
      ''chown root:user '' @ EnvFilePath @ '' '' @ ConfigFilePath,
      ''chmod 640 '' @ EnvFilePath @ '' '' @ ConfigFilePath,
      ''systemctl daemon-reload'']"

definition protect_cmd :: string where
  "protect_cmd = ''chown root:user '' @ EnvFilePath @ '' '' @ ConfigFilePath @ '' && chmod 640 '' @ EnvFilePath @ '' ''
     @ ConfigFilePath @ '' && systemctl restart picoclaw.service''"

section \<open>Waiting\<close>

fun poll :: "('s, 'e, 'a) sm \<Rightarrow> ('a \<Rightarrow> bool) \<Rightarrow> 'e \<Rightarrow> nat \<Rightarrow> ('s, 'e, unit) sm" where
  "poll m ok late 0 = raise late"
| "poll m ok late (Suc n) = attempt m (\<lambda>_. poll m ok late n) (\<lambda>a. if ok a then ret () else poll m ok late n)"

lemma keeps_poll [keeps_rules]: "keeps I m \<Longrightarrow> keeps I (poll m ok late n)"
  by (induction n) (auto intro!: keeps_rules)

definition waitForGuestSystemd :: "'r agent_env \<Rightarrow> 'r runtime \<Rightarrow> string \<Rightarrow> ('r, unit) gwm" where
  "waitForGuestSystemd ae rt name =
     poll (guest rt name (sh ''state=$(systemctl is-system-running 2>/dev/null); [ \"$state\" = running ] || [ \"$state\" = degraded ]''))
       (\<lambda>_. True) (ErrRuntime ''timed out waiting for guest systemd'') (w_Systemd (ae_Waits ae))"

definition startPicoClawService :: "'r agent_env \<Rightarrow> 'r runtime \<Rightarrow> string \<Rightarrow> ('r, unit) gwm" where
  "startPicoClawService ae rt name =
     bindE (guest rt name [''systemctl'', ''enable'', ''picoclaw.service'']) (\<lambda>_.
     poll (attempt (guest rt name [''systemctl'', ''start'', ''picoclaw.service''])
         (\<lambda>_. guest rt name [''systemctl'', ''is-active'', ''picoclaw.service''])
         (\<lambda>_. guest rt name [''systemctl'', ''is-active'', ''picoclaw.service'']))
       (\<lambda>out. TrimSpace out = ''active'') (ErrRuntime ''picoclaw.service did not become active'') (w_Start (ae_Waits ae)))"

definition waitForPicoClawDB :: "'r agent_env \<Rightarrow> 'r runtime \<Rightarrow> string \<Rightarrow> ('r, unit) gwm" where
  "waitForPicoClawDB ae rt name =
     poll (guest rt name (sh (''test -f '' @ DBPath @ '' && sqlite3 '' @ DBPath @ '' \"SELECT 1 FROM sqlite_master WHERE type=''
         @ quote @ ''table'' @ quote @ '' AND name='' @ quote @ ''models'' @ quote @ '' LIMIT 1;\"'')))
       (\<lambda>out. TrimSpace out = ''1'') (ErrRuntime ''timed out waiting for PicoClaw database'') (w_DB (ae_Waits ae))"

text \<open>The first request goes out whatever the deadline.\<close>

definition waitForAgentHTTP :: "'r agent_env \<Rightarrow> 'r runtime \<Rightarrow> string \<Rightarrow> ('r, unit) gwm" where
  "waitForAgentHTTP ae rt name =
     poll (guest rt name [''curl'', ''--fail'', ''--silent'', ''--max-time'', ''3'', ''-H'', RequireHeader @ '': setup'',
         ''http://127.0.0.1:9000/api/models''])
       (\<lambda>_. True) (ErrRuntime ''PicoClaw HTTP readiness'') (Suc (w_HTTP (ae_Waits ae)))"

section \<open>The agent's binary\<close>

definition platformBinary :: "host \<Rightarrow> file_result" where
  "platformBinary h =
     (let path = (if h_AgentBinary h = [] then ''/usr/local/lib/svkexe/picoclaw'' else h_AgentBinary h);
          r = h_ReadFile h path in
      if r = NotExist \<and> h_AgentBinary h = []
      then (case h_ExecutableDir h of None \<Rightarrow> r | Some dir \<Rightarrow> h_ReadFile h (TrimRight dir CHR ''/'' @ ''/picoclaw''))
      else r)"

definition verifyBinary :: "'r agent_env \<Rightarrow> 'r runtime \<Rightarrow> string \<Rightarrow> string \<Rightarrow> ('r, unit) gwm" where
  "verifyBinary ae rt name path = bindE (guest rt name [path, ''version'']) (\<lambda>out.
     case js_Version (ae_Json ae) out of
       None \<Rightarrow> raise (ErrRuntime ''invalid agent version response'')
     | Some (version, customized) \<Rightarrow>
         if \<not> customized \<or> \<not> HasPrefix version ''picoclaw-''
         then raise (ErrRuntime ''artifact is not the svkexe PicoClaw integration'')
         else ret ())"

definition new_binary :: string where "new_binary = ''/usr/local/bin/picoclaw.new''"
definition agent_binary :: string where "agent_binary = ''/usr/local/bin/picoclaw''"

definition installBinaryData :: "'r agent_env \<Rightarrow> 'r runtime \<Rightarrow> string \<Rightarrow> string \<Rightarrow> ('r, unit) gwm" where
  "installBinaryData ae rt name data =
     (case ae_Files ae of
        None \<Rightarrow> raise (ErrRuntime ''runtime cannot install PicoClaw binary'')
      | Some fr \<Rightarrow>
          bindE (rt_call (fr_PushFile fr name new_binary data)) (\<lambda>_.
          bindE (guest rt name [''chmod'', ''755'', new_binary]) (\<lambda>_.
          bindE (verifyBinary ae rt name new_binary) (\<lambda>_.
          void (guest rt name [''mv'', ''-f'', new_binary, agent_binary])))))"

definition installBinary :: "'r agent_env \<Rightarrow> 'r runtime \<Rightarrow> string \<Rightarrow> ('r, unit) gwm" where
  "installBinary ae rt name =
     (case platformBinary (ae_Host ae) of
        FileData data \<Rightarrow> installBinaryData ae rt name data
      | FileError e \<Rightarrow> raise (ErrRuntime e)
      | NotExist \<Rightarrow>
          if h_AgentBinary (ae_Host ae) = []
          then attempt (verifyBinary ae rt name agent_binary) (\<lambda>_. raise (ErrRuntime ''load PicoClaw binary'')) ret
          else raise (ErrRuntime ''load PicoClaw binary''))"

section \<open>Seeding the models\<close>

definition listGuestModels :: "'r runtime \<Rightarrow> string \<Rightarrow> ('r, string list) gwm" where
  "listGuestModels rt name =
     bindE (guest rt name [''sqlite3'', ''-cmd'', ''.timeout 10000'', DBPath, ''SELECT model_id FROM models ORDER BY model_id;''])
       (\<lambda>out. ret (filter (\<lambda>i. i \<noteq> []) (map TrimSpace (Split out CHR 0x0A))))"

text \<open>What the VM says about its database, for the text of an error.\<close>

definition diagnose :: "'r runtime \<Rightarrow> string \<Rightarrow> string list \<Rightarrow> (dberr \<Rightarrow> string) \<Rightarrow> (string \<Rightarrow> string) \<Rightarrow> ('r, string) gwm" where
  "diagnose rt name argv failed said = attempt (guest rt name argv) (\<lambda>e. ret (failed e)) (\<lambda>out. ret (said (TrimSpace out)))"

definition collectSeedDiagnostics :: "'r agent_env \<Rightarrow> 'r runtime \<Rightarrow> string \<Rightarrow> ('r, string) gwm" where
  "collectSeedDiagnostics ae rt name =
     bindE (diagnose rt name (sh (''if [ -f '' @ DBPath @ '' ]; then echo present; else echo missing; fi''))
       (\<lambda>e. ''db_file=unknown ('' @ ae_Error ae e @ '')'') (\<lambda>t. ''db_file='' @ t)) (\<lambda>p1.
     bindE (diagnose rt name (sh (''sqlite3 '' @ DBPath @ '' \"SELECT name FROM sqlite_master WHERE type='' @ quote @ ''table'' @ quote
         @ '' ORDER BY name;\" 2>/dev/null''))
       (\<lambda>e. ''tables=unavailable ('' @ ae_Error ae e @ '')'')
       (\<lambda>t. ''tables='' @ (if t = [] then ''<none>'' else map (\<lambda>c. if c = CHR 0x0A then CHR '','' else c) t))) (\<lambda>p2.
     bindE (diagnose rt name (sh (''sqlite3 '' @ DBPath @ '' \"SELECT COUNT(*) FROM sqlite_master WHERE type='' @ quote @ ''table'' @ quote
         @ '' AND name='' @ quote @ ''models'' @ quote @ '';\" 2>/dev/null''))
       (\<lambda>e. ''models_table=unknown ('' @ ae_Error ae e @ '')'')
       (\<lambda>t. if t = ''1'' then ''models_table=present'' else if t = ''0'' then ''models_table=missing''
            else ''models_table=unknown ('' @ t @ '')'')) (\<lambda>p3.
     ret (p1 @ ''; '' @ p2 @ ''; '' @ p3))))"

definition readSeededModelIDs :: "'r agent_env \<Rightarrow> 'r runtime \<Rightarrow> string \<Rightarrow> ('r, string list) gwm" where
  "readSeededModelIDs ae rt name =
     attempt (guest rt name [''sqlite3'', ''-cmd'', ''.timeout 10000'', DBPath,
         ''SELECT model_id FROM models WHERE model_id LIKE '' @ quote @ gatewayModelPrefix @ ''%'' @ quote @ '' ORDER BY model_id;''])
       (\<lambda>e. bindE (collectSeedDiagnostics ae rt name)
          (\<lambda>d. raise (ErrRuntime (''query model IDs: '' @ ae_Error ae e @ ''; diagnostics: '' @ d))))
       (\<lambda>out. let text = TrimSpace out in
          if text = [] then ret []
          else ret (sort (filter (\<lambda>i. i \<noteq> []) (map TrimSpace (Split text CHR 0x0A)))))"

definition apply_sql :: "string \<Rightarrow> string list" where
  "apply_sql path = sh (''sqlite3 -bail '' @ DBPath @ '' < '' @ path @ ''; result=$?; rm -f '' @ path @ ''; exit $result'')"

definition SeedLLMModels :: "'r agent_env \<Rightarrow> 'r runtime \<Rightarrow> string \<Rightarrow> llm_config option \<Rightarrow> ('r, unit) gwm" where
  "SeedLLMModels ae rt name cfg =
     (case cfg of None \<Rightarrow> ret () | Some c \<Rightarrow>
      if lc_BaseURL c = [] \<or> lc_Models c = [] then ret ()
      else
        bindE (waitForPicoClawDB ae rt name) (\<lambda>_.
        bindE (writeGuestFile rt name (ConfigDir @ ''/models.sql'') (buildSeedSQL (lc_Models c) (lc_BaseURL c) (lc_Token c))) (\<lambda>_.
        bindE (guest rt name (apply_sql (ConfigDir @ ''/models.sql''))) (\<lambda>_.
        bindE (readSeededModelIDs ae rt name) (\<lambda>gotIDs.
        if gotIDs \<noteq> expectedSeedModelIDs (lc_Models c) then raise (ErrRuntime ''seeded model IDs mismatch'') else ret ())))))"

definition seedProviderModels :: "'r runtime \<Rightarrow> string \<Rightarrow> provider_model list \<Rightarrow> ('r, unit) gwm" where
  "seedProviderModels rt name models =
     bindE (writeGuestFile rt name (ConfigDir @ ''/provider-models.sql'') (providerModelsSQL models)) (\<lambda>_.
     void (guest rt name (apply_sql (ConfigDir @ ''/provider-models.sql''))))"

section \<open>The agent's configuration\<close>

text \<open>The file is read at most twice.\<close>

fun read_config :: "json \<Rightarrow> 'r runtime \<Rightarrow> string \<Rightarrow> nat \<Rightarrow> ('r, guest_config) gwm" where
  "read_config js rt name 0 = ret (Some Map.empty)"
| "read_config js rt name (Suc n) =
     bindE (guest rt name (sh (''cat '' @ ConfigFilePath @ '' 2>/dev/null || true''))) (\<lambda>out.
       if TrimSpace out = [] then ret (Some Map.empty)
       else case js_Object js out of Some cfg \<Rightarrow> ret cfg | None \<Rightarrow> read_config js rt name n)"

definition readGuestConfig :: "json \<Rightarrow> 'r runtime \<Rightarrow> string \<Rightarrow> ('r, guest_config) gwm" where
  "readGuestConfig js rt name = read_config js rt name 2"

text \<open>Reading a nil map finds no key.\<close>

definition config_get :: "guest_config \<Rightarrow> string \<Rightarrow> string option" where
  "config_get cfg k = (case cfg of None \<Rightarrow> None | Some m \<Rightarrow> m k)"

text \<open>Decoding no bytes at all is an error.\<close>

definition guestDefaultModelOf :: "json \<Rightarrow> guest_config \<Rightarrow> string" where
  "guestDefaultModelOf js cfg =
     (case config_get cfg ''default_model'' of
        None \<Rightarrow> []
      | Some raw \<Rightarrow> (case js_String js raw of None \<Rightarrow> [] | Some current \<Rightarrow> current))"

definition guestNamesDefaultModel :: "guest_config \<Rightarrow> bool" where
  "guestNamesDefaultModel cfg \<longleftrightarrow> config_get cfg ''default_model'' \<noteq> None"

text \<open>The change of the map: deleting from a nil map does nothing, assigning to it panics.\<close>

definition set_config_model :: "json \<Rightarrow> guest_config \<Rightarrow> string \<Rightarrow> guest_config option" where
  "set_config_model js cfg value =
     (if value = [] then Some (map_option (\<lambda>m. m(''default_model'' := None)) cfg)
      else case cfg of None \<Rightarrow> None | Some m \<Rightarrow> Some (Some (m(''default_model'' \<mapsto> js_ShowString js value))))"

definition writeGuestConfig :: "json \<Rightarrow> 'r runtime \<Rightarrow> string \<Rightarrow> guest_config \<Rightarrow> string \<Rightarrow> ('r, unit) gwm" where
  "writeGuestConfig js rt name cfg value =
     (case set_config_model js cfg value of
        None \<Rightarrow> raise ErrPanic
      | Some cfg' \<Rightarrow>
          (case js_ShowObject js cfg' of
             None \<Rightarrow> raise (ErrRuntime ''json'')
           | Some data \<Rightarrow> writeGuestFile rt name ConfigFilePath data))"

definition applyDefaultModel :: "json \<Rightarrow> 'r runtime \<Rightarrow> string \<Rightarrow> provider_model list \<Rightarrow> string \<Rightarrow> llm_config option \<Rightarrow> ('r, unit) gwm" where
  "applyDefaultModel js rt name models chosen cfg =
     bindE (listGuestModels rt name) (\<lambda>available.
     bindE (readGuestConfig js rt name) (\<lambda>gc.
     let current = guestDefaultModelOf js gc;
         want = desiredModel available (providerModelIDs models) (gatewayModelIDs cfg) chosen current in
     if want = current \<and> (want \<noteq> [] \<or> \<not> guestNamesDefaultModel gc) then ret ()
     else writeGuestConfig js rt name gc want))"

section \<open>The route to the metadata service\<close>

definition GuestRouteScriptPath :: string where "GuestRouteScriptPath = ''/usr/local/sbin/svkexe-metadata-route''"
definition GuestRouteUnitName :: string where "GuestRouteUnitName = ''svkexe-metadata-route.service''"
definition GuestRouteUnitPath :: string where "GuestRouteUnitPath = ''/etc/systemd/system/'' @ GuestRouteUnitName"
definition metadataRouteStamp :: string where "metadataRouteStamp = ConfigDir @ ''/metadata-route.stamp''"

definition hexdigit :: "nat \<Rightarrow> char" where
  "hexdigit n = (if n < 10 then char_of (48 + n) else char_of (87 + n))"

definition EncodeToString :: "string \<Rightarrow> string" where
  "EncodeToString bs = concat (map (\<lambda>c. [hexdigit (byte c div 16), hexdigit (byte c mod 16)]) bs)"

definition contentStamp :: "(string \<Rightarrow> string) \<Rightarrow> string \<Rightarrow> string \<Rightarrow> string" where
  "contentStamp sha256 text unit = EncodeToString (take 8 (sha256 (text @ [CHR 0x00] @ unit)))"

definition installMetadataRoute :: "'r agent_env \<Rightarrow> 'r runtime \<Rightarrow> string \<Rightarrow> ('r, unit) gwm" where
  "installMetadataRoute ae rt name =
     (case ae_Route ae of None \<Rightarrow> ret () | Some (text, unit) \<Rightarrow>
      let stamp = contentStamp (ae_Sha256 ae) text unit in
      attempt (guest rt name (sh (''test \"$(cat '' @ metadataRouteStamp @ '' 2>/dev/null)\" = '' @ stamp
          @ '' && systemctl is-enabled --quiet '' @ GuestRouteUnitName)))
        (\<lambda>_. bindE (writeGuestFile rt name GuestRouteScriptPath text) (\<lambda>_.
             bindE (writeGuestFile rt name GuestRouteUnitPath unit) (\<lambda>_.
             void (guest rt name [''sh'', ''-euc'', script
               [''chmod 755 '' @ GuestRouteScriptPath, ''systemctl daemon-reload'', ''systemctl enable '' @ GuestRouteUnitName,
                ''systemctl start '' @ GuestRouteUnitName @ '' || true'',
                ''printf '' @ quote @ ''%s'' @ quote @ '' '' @ stamp @ '' > '' @ metadataRouteStamp]]))))
        (\<lambda>_. ret ()))"

section \<open>Setup\<close>

definition gateway_credential :: "'r agent_env \<Rightarrow> 'r runtime \<Rightarrow> string \<Rightarrow> llm_config option \<Rightarrow> ('r, unit) gwm" where
  "gateway_credential ae rt name cfg =
     (case cfg of None \<Rightarrow> ret () | Some c \<Rightarrow>
      if lc_BaseURL c = [] then ret ()
      else
        bindE (writeGuestFile rt name GatewayCredentialPath
          (js_ShowFields (ae_Json ae) [(''base_url'', lc_BaseURL c), (''api_key'', lc_Token c)])) (\<lambda>_.
        void (guest rt name (sh (''chown root:user '' @ GatewayCredentialPath @ '' && chmod 640 '' @ GatewayCredentialPath)))))"

definition vm_llm_config :: "llm_config option \<Rightarrow> string \<Rightarrow> string \<Rightarrow> llm_config option" where
  "vm_llm_config cfg cid owner = map_option (\<lambda>c.
     case lc_TokenForVM c of None \<Rightarrow> c | Some tok \<Rightarrow> c\<lparr>lc_Token := tok cid owner\<rparr>) cfg"

text \<open>The steps up to the agent's restart, and those that need it running.\<close>

definition setup_files :: "'r agent_env \<Rightarrow> 'r runtime \<Rightarrow> materializer option \<Rightarrow> container \<Rightarrow> ('r, unit) gwm" where
  "setup_files ae rt m c =
     (let name = c_IncusName c in
      bindE (readGuestConfig (ae_Json ae) rt name) (\<lambda>cfg.
      bindE (writeGuestConfig (ae_Json ae) rt name cfg (guestDefaultModelOf (ae_Json ae) cfg)) (\<lambda>_.
      bindE (writeEnvironmentGuide (ae_Guide ae) rt c) (\<lambda>_.
      bindE (attempt (installMetadataRoute ae rt name) (\<lambda>_. ret ()) ret) (\<lambda>_.
      bindE (case m of None \<Rightarrow> ret []
             | Some mz \<Rightarrow> bindE (MaterializeKeys mz (c_ID c) (c_OwnerID c)) (\<lambda>_. ReadKeys (c_ID c))) (\<lambda>env.
      bindE (writeGuestFile rt name EnvFilePath env) (\<lambda>_.
      void (guest rt name (sh configure_script)))))))))"

text \<open>From stopping the old agent on; the LLM settings are the VM's.\<close>

definition setup_agent ::
  "'r agent_env \<Rightarrow> 'r runtime \<Rightarrow> materializer option \<Rightarrow> container \<Rightarrow> llm_config option \<Rightarrow> ('r, unit) gwm" where
  "setup_agent ae rt m c cfg =
     (let name = c_IncusName c in
      bindE (guest rt name (sh stop_script)) (\<lambda>_.
      bindE (writeGuestFile rt name ''/etc/systemd/system/picoclaw.service'' SystemdUnitContent) (\<lambda>_.
      bindE (case m of None \<Rightarrow> ret [] | Some mz \<Rightarrow> ProviderModels mz (c_OwnerID c)) (\<lambda>models.
      bindE (UserDefaultModel (c_OwnerID c)) (\<lambda>chosen.
      bindE (setup_files ae rt m c) (\<lambda>_.
      bindE (startPicoClawService ae rt name) (\<lambda>_.
      bindE (SeedLLMModels ae rt name cfg) (\<lambda>_.
      bindE (if m = None then ret () else seedProviderModels rt name models) (\<lambda>_.
      bindE (applyDefaultModel (ae_Json ae) rt name models chosen cfg) (\<lambda>_.
      bindE (guest rt name [''systemctl'', ''restart'', ''picoclaw.service'']) (\<lambda>_.
      waitForAgentHTTP ae rt name)))))))))))"

definition SetupContainer ::
  "'r agent_env \<Rightarrow> 'r runtime \<Rightarrow> materializer option \<Rightarrow> container \<Rightarrow> llm_config option \<Rightarrow> ('r, unit) gwm" where
  "SetupContainer ae rt m c cfg0 =
     (let name = c_IncusName c; cfg = vm_llm_config cfg0 (c_ID c) (c_OwnerID c) in
      if \<not> ae_Locked ae then raise (ErrRuntime ''context deadline exceeded'')
      else
        bindE (waitForGuestSystemd ae rt name) (\<lambda>_.
        bindE (guest rt name [''mkdir'', ''-p'', ''/data'', ConfigDir, ''/etc/systemd/system'']) (\<lambda>_.
        bindE (gateway_credential ae rt name cfg) (\<lambda>_.
        bindE (installBinary ae rt name) (\<lambda>_.
        setup_agent ae rt m c cfg)))))"

definition RefreshProviderKeys ::
  "'r agent_env \<Rightarrow> 'r runtime \<Rightarrow> materializer \<Rightarrow> string \<Rightarrow> string \<Rightarrow> string \<Rightarrow> string \<Rightarrow> llm_config option \<Rightarrow> ('r, unit) gwm" where
  "RefreshProviderKeys ae rt m cid name owner chosen cfg =
     (if \<not> ae_Locked ae then raise (ErrRuntime ''context deadline exceeded'')
      else
        bindE (RefreshKeys m cid owner) (\<lambda>_.
        bindE (ReadKeys cid) (\<lambda>env.
        bindE (writeGuestFile rt name EnvFilePath env) (\<lambda>_.
        bindE (ProviderModels m owner) (\<lambda>models.
        bindE (seedProviderModels rt name models) (\<lambda>_.
        bindE (applyDefaultModel (ae_Json ae) rt name models chosen cfg) (\<lambda>_.
        bindE (guest rt name (sh protect_cmd)) (\<lambda>_.
        waitForAgentHTTP ae rt name))))))))"

section \<open>Backup, update and reconciliation\<close>

definition stop_for_backup :: "string list" where
  "stop_for_backup =
     [''set -eu'',
      ''for unit in picoclaw.service shelley.service; do'',
      '' if systemctl cat \"$unit\" >/dev/null 2>&1; then systemctl stop \"$unit\"; fi'',
      ''done'']"

definition backup_path :: string where "backup_path = ''/tmp/data-backup.tar.gz''"

definition BackupData :: "'r agent_env \<Rightarrow> 'r runtime \<Rightarrow> string \<Rightarrow> ('r, string) gwm" where
  "BackupData ae rt name =
     (case ae_Files ae of
        None \<Rightarrow> raise (ErrRuntime ''runtime cannot back up agent data'')
      | Some fr \<Rightarrow>
          bindE (guest rt name (sh (script stop_for_backup @ ''tar -czf '' @ backup_path @ '' -C / data''))) (\<lambda>_.
          bindE (rt_call (fr_PullFile fr name backup_path)) (\<lambda>data.
          if data = [] then raise (ErrRuntime ''empty agent backup'') else ret data)))"

definition RestoreData :: "'r agent_env \<Rightarrow> 'r runtime \<Rightarrow> string \<Rightarrow> string \<Rightarrow> ('r, unit) gwm" where
  "RestoreData ae rt name data =
     (case ae_Files ae of
        None \<Rightarrow> raise (ErrRuntime ''runtime cannot restore agent data'')
      | Some fr \<Rightarrow>
          bindE (rt_call (fr_PushFile fr name backup_path data)) (\<lambda>_.
          void (guest rt name (sh (script (stop_for_backup @ [''tar -xzf '' @ backup_path @ '' -C /'', ''rm -f '' @ backup_path])
            @ ''chown -R user:user /data'')))))"

record agent_update =
  au_CurrentVersion :: string
  au_LatestVersion :: string
  au_HasUpdate :: bool

definition is_hex :: "char \<Rightarrow> bool" where
  "is_hex c \<longleftrightarrow> is_digit c \<or> (97 \<le> byte c \<and> byte c \<le> 102) \<or> (65 \<le> byte c \<and> byte c \<le> 70)"

text \<open>\<^verbatim>\<open>strings.Fields\<close>, its first element: what stands before the first white space of the trimmed text.\<close>

fun until_space :: "string \<Rightarrow> string" where
  "until_space [] = []"
| "until_space (c # s) = (if list_ex (\<lambda>w. HasPrefix (c # s) w) space_runes then [] else c # until_space s)"

definition first_field :: "string \<Rightarrow> string" where
  "first_field s = until_space (TrimSpace s)"

definition CheckUpdate :: "'r agent_env \<Rightarrow> 'r runtime \<Rightarrow> string \<Rightarrow> ('r, agent_update) gwm" where
  "CheckUpdate ae rt name =
     (case platformBinary (ae_Host ae) of
        FileData data \<Rightarrow>
          bindE (guest rt name (sh (script [''set -eu'', ''pid=$(systemctl show --property MainPID --value picoclaw.service)'',
              ''[ \"$pid\" -gt 0 ]''] @ ''sha256sum /proc/$pid/exe''))) (\<lambda>out.
          let sum = first_field out; latest = EncodeToString (ae_Sha256 ae data) in
          if length sum \<noteq> 64 then raise (ErrRuntime ''invalid running agent checksum'')
          else if \<not> list_all is_hex sum then raise (ErrRuntime ''invalid running agent checksum'')
          else ret \<lparr>au_CurrentVersion = sum, au_LatestVersion = latest, au_HasUpdate = (sum \<noteq> latest)\<rparr>)
      | _ \<Rightarrow> raise (ErrRuntime ''read platform agent''))"

definition Update :: "'r agent_env \<Rightarrow> 'r runtime \<Rightarrow> string \<Rightarrow> ('r, unit) gwm" where
  "Update ae rt name =
     (if \<not> ae_Locked ae then raise (ErrRuntime ''context deadline exceeded'')
      else case platformBinary (ae_Host ae) of
        FileData data \<Rightarrow>
          bindE (installBinaryData ae rt name data) (\<lambda>_.
          bindE (guest rt name [''systemctl'', ''restart'', ''picoclaw.service'']) (\<lambda>_.
          waitForAgentHTTP ae rt name))
      | _ \<Rightarrow> raise (ErrRuntime ''read platform agent''))"

definition reconcile_one :: "'r agent_env \<Rightarrow> 'r runtime \<Rightarrow> materializer option \<Rightarrow> llm_config option \<Rightarrow> container \<Rightarrow> ('r, unit) gwm" where
  "reconcile_one ae rt m cfg c =
     (if \<not> EqualFold (c_Status c) ''running'' then ret ()
      else catch (SetupContainer ae rt m c cfg)
        (\<lambda>_. attempt (UpdateContainerStatus (c_ID c) ''error'' (c_IPAddress c)) (\<lambda>_. ret ()) ret) ret)"

fun reconcile_all :: "'r agent_env \<Rightarrow> 'r runtime \<Rightarrow> materializer option \<Rightarrow> llm_config option \<Rightarrow> container list \<Rightarrow> ('r, unit) gwm" where
  "reconcile_all ae rt m cfg [] = ret ()"
| "reconcile_all ae rt m cfg (c # cs) = bindE (reconcile_one ae rt m cfg c) (\<lambda>_. reconcile_all ae rt m cfg cs)"

definition ReconcileRunning :: "'r agent_env \<Rightarrow> 'r runtime \<Rightarrow> materializer option \<Rightarrow> llm_config option \<Rightarrow> ('r, unit) gwm" where
  "ReconcileRunning ae rt m cfg = attempt ListAllContainers (\<lambda>_. ret ()) (reconcile_all ae rt m cfg)"

end
