(* ===== verification/Guest_Trace.thy ===== *)
theory Guest_Trace
  imports Agent_Setup
begin

text \<open>
  What the agent's setup asks of the container runtime.  \<open>logged\<close> wraps any runtime in a log of the calls
  made to it, with the VM each one names and its answer, so that what the gateway does to VMs can be
  stated for every runtime.  The locale \<open>vm_confined\<close> is the argument that an operation touches one VM:
  its law is that a call naming that VM keeps a property of the runtime's state.
\<close>

section \<open>Logged runtimes\<close>

record call =
  cl_VM :: string
  cl_Args :: "string list"
  cl_Answer :: "dberr + string"

type_synonym 'r traced = "'r \<times> call list"

definition note_call :: "string \<Rightarrow> string list \<Rightarrow> ('a \<Rightarrow> string) \<Rightarrow> ('r, dberr, 'a) sm \<Rightarrow> ('r traced, dberr, 'a) sm" where
  "note_call vm args show_answer m xl =
     (case m (fst xl) of (r, x) \<Rightarrow>
        (r, x, snd xl @ [\<lparr>cl_VM = vm, cl_Args = args, cl_Answer = map_sum id show_answer r\<rparr>]))"

definition logged :: "'r runtime \<Rightarrow> 'r traced runtime" where
  "logged rt = \<lparr>
     rt_Create = (\<lambda>opts. note_call (co_Name opts) [''<create>''] rc_Name (rt_Create rt opts)),
     rt_Start = (\<lambda>n. note_call n [''<start>''] (\<lambda>_. []) (rt_Start rt n)),
     rt_Stop = (\<lambda>n. note_call n [''<stop>''] (\<lambda>_. []) (rt_Stop rt n)),
     rt_Delete = (\<lambda>n. note_call n [''<delete>''] (\<lambda>_. []) (rt_Delete rt n)),
     rt_Get = (\<lambda>n. note_call n [''<get>''] rc_Name (rt_Get rt n)),
     rt_List = (\<lambda>owner. note_call [] [''<list>'', owner] (\<lambda>_. []) (rt_List rt owner)),
     rt_Exec = (\<lambda>n argv. note_call n argv id (rt_Exec rt n argv)),
     rt_Snapshot = (\<lambda>n snap. note_call n [''<snapshot>'', snap] (\<lambda>_. []) (rt_Snapshot rt n snap)),
     rt_SetNesting = (\<lambda>n b. note_call n [''<nesting>''] (\<lambda>_. []) (rt_SetNesting rt n b))\<rparr>"

definition logged_files :: "'r file_runtime \<Rightarrow> 'r traced file_runtime" where
  "logged_files fr = \<lparr>
     fr_PushFile = (\<lambda>n path data. note_call n [''<push>'', path, data] (\<lambda>_. []) (fr_PushFile fr n path data)),
     fr_PullFile = (\<lambda>n path. note_call n [''<pull>'', path] id (fr_PullFile fr n path))\<rparr>"

definition logged_env :: "'r agent_env \<Rightarrow> 'r traced agent_env" where
  "logged_env ae = \<lparr>ae_Files = map_option logged_files (ae_Files ae), ae_Host = ae_Host ae, ae_Json = ae_Json ae,
     ae_Sha256 = ae_Sha256 ae, ae_Route = ae_Route ae, ae_Guide = ae_Guide ae, ae_Error = ae_Error ae,
     ae_Waits = ae_Waits ae, ae_Locked = ae_Locked ae\<rparr>"

lemma logged_calls [simp]:
  "rt_Exec (logged rt) n argv = note_call n argv id (rt_Exec rt n argv)"
  "ae_Files (logged_env ae) = map_option logged_files (ae_Files ae)"
  "ae_Json (logged_env ae) = ae_Json ae" "ae_Waits (logged_env ae) = ae_Waits ae" "ae_Locked (logged_env ae) = ae_Locked ae"
  "ae_Host (logged_env ae) = ae_Host ae"
  "fr_PushFile (logged_files fr) n path data = note_call n [''<push>'', path, data] (\<lambda>_. []) (fr_PushFile fr n path data)"
  "fr_PullFile (logged_files fr) n path = note_call n [''<pull>'', path] id (fr_PullFile fr n path)"
  by (simp_all add: logged_def logged_env_def logged_files_def)

section \<open>Properties of the runtime's state\<close>

definition rt_inv :: "('r \<Rightarrow> bool) \<Rightarrow> 'r gateway \<Rightarrow> bool" where
  "rt_inv I s \<longleftrightarrow> I (g_rt s)"

interpretation rti: store_inv "rt_inv I"
  by unfold_locales (simp add: rt_inv_def)

lemmas rti_rules [keeps_rules] = rti.keeps_query

lemma rti_update [keeps_rules]:
  "keeps (rt_inv I) (exec (sql_update t_containers t_containers_update uq P f))"
  "keeps (rt_inv I) (exec (sql_upsert_setting k v))"
  by (rule rti.keeps_exec, auto simp: rt_inv_def sql_update_def sql_upsert_setting_def Let_def split: if_splits)+

lemma rti_resume [keeps_rules]: "keeps (rt_inv I) (CountInitialTaskResume cid)"
  unfolding CountInitialTaskResume_def
  by (intro keeps_rules rti.keeps_exec)
     (auto simp: rt_inv_def sql_update_def Let_def split: if_splits sum.splits option.splits)

lemma rti_os [keeps_rules]:
  "keeps (rt_inv I) os_call" "keeps (rt_inv I) (os_rename c x)" "keeps (rt_inv I) (os_read c)" "keeps (rt_inv I) (os_remove_all c)"
  unfolding os_call_def os_rename_def os_read_def os_remove_all_def
  by (rule rti.keeps_exec, auto simp: rt_inv_def split: option.splits)+

lemma rti_reads [keeps_rules]:
  "keeps (rt_inv I) (AttachAliases cs)" "keeps (rt_inv I) (ListAPIKeysByOwner u)" "keeps (rt_inv I) (GetAPIKeyPlaintext un k ek)"
  "keeps (rt_inv I) (UserDefaultModel u)" "keeps (rt_inv I) (OwnerModelIDs u)" "keeps (rt_inv I) (GetContainerByID i)"
  "keeps (rt_inv I) ListAllContainers" "keeps (rt_inv I) ListContainersWithTaskInProgress"
  "keeps (rt_inv I) (UpdateContainerStatus i st ip)" "keeps (rt_inv I) (SetInitialTaskState i st r)"
  "keeps (rt_inv I) (SetInitialTaskDelivered i cv)" "keeps (rt_inv I) (SetInitialTaskConversation i cv)"
  unfolding AttachAliases_def ListAPIKeysByOwner_def GetAPIKeyPlaintext_def UserDefaultModel_def OwnerModelIDs_def
    ownerModelIDs_def containers_defs
  by (intro keeps_rules)+

lemma rti_env_text [keeps_rules]: "keeps (rt_inv I) (env_text m ks)"
  by (induction ks) (simp_all only: env_text.simps keeps_rules)

lemma rti_provider_models [keeps_rules]: "keeps (rt_inv I) (provider_models m ks)"
  by (induction ks) (simp_all only: provider_models.simps keeps_rules)

lemma rti_secrets [keeps_rules]:
  "keeps (rt_inv I) (MaterializeKeys m c ow)" "keeps (rt_inv I) (RefreshKeys m c ow)" "keeps (rt_inv I) (ReadKeys c)"
  "keeps (rt_inv I) (ProviderModels m ow)"
  unfolding MaterializeKeys_def RefreshKeys_def ReadKeys_def ProviderModels_def by (intro keeps_rules)+

section \<open>An operation on one VM\<close>

locale vm_confined =
  fixes rt :: "'r runtime" and name :: string and I :: "'r \<Rightarrow> bool"
  assumes exec_I: "I x \<Longrightarrow> I (snd (rt_Exec rt name argv x))"
begin

lemma c_guest [keeps_rules]: "keeps (rt_inv I) (guest rt name argv)" "keeps (rt_inv I) (writeGuestFile rt name p d)"
  unfolding guest_def writeGuestFile_def void_def
  by (intro keeps_rules keepsI; simp add: rt_call_def rt_inv_def split: prod.split; metis exec_I snd_conv)+

lemma c_config [keeps_rules]: "keeps (rt_inv I) (read_config js rt name n)"
  by (induction n) (simp_all only: read_config.simps, (intro keeps_rules, assumption?)+)

lemma c_waits [keeps_rules]:
  "keeps (rt_inv I) (waitForGuestSystemd ae rt name)" "keeps (rt_inv I) (startPicoClawService ae rt name)"
  "keeps (rt_inv I) (waitForPicoClawDB ae rt name)" "keeps (rt_inv I) (waitForAgentHTTP ae rt name)"
  "keeps (rt_inv I) (verifyBinary ae rt name path)"
  unfolding waitForGuestSystemd_def startPicoClawService_def waitForPicoClawDB_def waitForAgentHTTP_def verifyBinary_def
  by (intro keeps_rules)+

lemma c_models [keeps_rules]:
  "keeps (rt_inv I) (listGuestModels rt name)" "keeps (rt_inv I) (collectSeedDiagnostics ae rt name)"
  "keeps (rt_inv I) (readSeededModelIDs ae rt name)" "keeps (rt_inv I) (SeedLLMModels ae rt name cfg)"
  "keeps (rt_inv I) (seedProviderModels rt name models)" "keeps (rt_inv I) (readGuestConfig js rt name)"
  "keeps (rt_inv I) (writeGuestConfig js rt name gc v)" "keeps (rt_inv I) (applyDefaultModel js rt name models chosen cfg)"
  "keeps (rt_inv I) (installMetadataRoute ae rt name)" "keeps (rt_inv I) (gateway_credential ae rt name cfg)"
  unfolding listGuestModels_def collectSeedDiagnostics_def diagnose_def readSeededModelIDs_def SeedLLMModels_def
    seedProviderModels_def readGuestConfig_def writeGuestConfig_def applyDefaultModel_def installMetadataRoute_def
    gateway_credential_def void_def Let_def
  by (intro keeps_rules)+

end

lemma AttachAliases_one: "AttachAliases [c] s = (Inr a, t) \<Longrightarrow> c_IncusName (hd (fst a)) = c_IncusName c"
  by (auto simp: AttachAliases_def attach_rows_def attempt_def split: prod.splits sum.splits)

locale vm_files_confined = vm_confined rt name I for rt :: "'r runtime" and name :: string and I :: "'r \<Rightarrow> bool" +
  fixes ae :: "'r agent_env"
  assumes push_I: "ae_Files ae = Some fr \<Longrightarrow> I x \<Longrightarrow> I (snd (fr_PushFile fr name path data x))"
    and pull_I: "ae_Files ae = Some fr \<Longrightarrow> I x \<Longrightarrow> I (snd (fr_PullFile fr name path x))"
begin

lemma c_files [keeps_rules]:
  "ae_Files ae = Some fr \<Longrightarrow> keeps (rt_inv I) (rt_call (fr_PushFile fr name path data))"
  "ae_Files ae = Some fr \<Longrightarrow> keeps (rt_inv I) (rt_call (fr_PullFile fr name path))"
  by (intro keepsI; simp add: rt_call_def rt_inv_def split: prod.split; metis push_I pull_I snd_conv)+

lemma c_install [keeps_rules]:
  "keeps (rt_inv I) (installBinaryData ae rt name data)" "keeps (rt_inv I) (installBinary ae rt name)"
proof -
  show d: "keeps (rt_inv I) (installBinaryData ae rt name data)" for data
    unfolding installBinaryData_def void_def by (intro keeps_rules) simp_all
  show "keeps (rt_inv I) (installBinary ae rt name)"
    unfolding installBinary_def by (cases "platformBinary (ae_Host ae)") (auto intro!: keeps_rules d)
qed

lemma c_guide:
  assumes "c_IncusName c = name"
  shows "keeps (rt_inv I) (writeEnvironmentGuide g rt c)"
  unfolding writeEnvironmentGuide_def
proof (rule keeps_bindE_value [where R = "\<lambda>a. c_IncusName (hd (fst a)) = name"])
  show "keeps (rt_inv I) (AttachAliases [c])" by (rule keeps_rules)
  show "c_IncusName (hd (fst a)) = name" if "AttachAliases [c] s = (Inr a, t)" for s :: "'r gateway" and a t
    using AttachAliases_one [OF that] assms by simp
  fix a :: "container list \<times> dberr option" assume "c_IncusName (hd (fst a)) = name"
  then show "keeps (rt_inv I) (case a of (cs, uu_) \<Rightarrow> let c = hd cs in
      bindE (writeGuestFile rt (c_IncusName c) GuideFilePath (g c (verifiedAliases c))) (\<lambda>_.
      void (rt_call (rt_Exec rt (c_IncusName c) [''sh'', ''-c'',
        ''chown root:'' @ ContainerUser @ '' '' @ GuideFilePath @ '' && chmod 640 '' @ GuideFilePath]))))"
    using c_guest unfolding guest_def void_def Let_def by (cases a) (auto intro!: keeps_rules)
qed

lemma c_setup_agent:
  assumes "c_IncusName c = name"
  shows "keeps (rt_inv I) (setup_agent ae rt m c cfg)"
  unfolding setup_agent_def setup_files_def Let_def assms void_def
  by (intro keeps_rules c_guide [OF assms])

lemma c_setup:
  assumes "c_IncusName c = name"
  shows "keeps (rt_inv I) (SetupContainer ae rt m c cfg)"
  unfolding SetupContainer_def Let_def assms
  by (intro keeps_rules c_setup_agent [OF assms])

lemma c_refresh [keeps_rules]: "keeps (rt_inv I) (RefreshProviderKeys ae rt m cid name owner chosen cfg)"
  unfolding RefreshProviderKeys_def by (intro keeps_rules)

lemma c_backup [keeps_rules]:
  "keeps (rt_inv I) (BackupData ae rt name)" "keeps (rt_inv I) (RestoreData ae rt name data)"
  "keeps (rt_inv I) (CheckUpdate ae rt name)" "keeps (rt_inv I) (Update ae rt name)"
proof -
  show "keeps (rt_inv I) (BackupData ae rt name)" "keeps (rt_inv I) (RestoreData ae rt name data)"
    unfolding BackupData_def RestoreData_def void_def by (intro keeps_rules; simp)+
  show "keeps (rt_inv I) (CheckUpdate ae rt name)" "keeps (rt_inv I) (Update ae rt name)"
    unfolding CheckUpdate_def Update_def Let_def by (cases "platformBinary (ae_Host ae)"; auto intro!: keeps_rules)+
qed

end

section \<open>The log names one VM\<close>

definition only_about :: "string \<Rightarrow> call list \<Rightarrow> 'r traced \<Rightarrow> bool" where
  "only_about vm old x \<longleftrightarrow> (\<exists>new. snd x = old @ new \<and> list_all (\<lambda>c. cl_VM c = vm) new)"

lemma note_call_about: "only_about vm old x \<Longrightarrow> only_about vm old (snd (note_call vm args f m x))"
  by (auto simp: only_about_def note_call_def split: prod.split)

interpretation lg: vm_confined "logged rt" name "only_about name old"
  by unfold_locales (simp add: note_call_about)

interpretation lgf: vm_files_confined "logged rt" name "only_about name old" "logged_env ae"
  by unfold_locales (auto simp: note_call_about)

section \<open>The database is only read\<close>

lemma guest_pure [keeps_rules]: "keeps (db_same s0) (guest rt name argv)"
  unfolding guest_def by (rule keeps_rules)

lemma read_config_pure [keeps_rules]: "keeps (db_same s0) (read_config js rt name n)"
  by (induction n) (simp_all only: read_config.simps, (intro keeps_rules, assumption?)+)

lemma agent_pure [keeps_rules]:
  "keeps (db_same s0) (SetupContainer ae rt m c cfg)" "keeps (db_same s0) (RefreshProviderKeys ae rt mz cid name owner chosen cfg)"
  "keeps (db_same s0) (BackupData ae rt name)" "keeps (db_same s0) (RestoreData ae rt name data)"
  "keeps (db_same s0) (CheckUpdate ae rt name)" "keeps (db_same s0) (Update ae rt name)"
  "keeps (db_same s0) (listGuestModels rt name)"
proof -
  note ds = waitForGuestSystemd_def startPicoClawService_def waitForPicoClawDB_def waitForAgentHTTP_def verifyBinary_def
    listGuestModels_def collectSeedDiagnostics_def diagnose_def readSeededModelIDs_def SeedLLMModels_def
    seedProviderModels_def readGuestConfig_def writeGuestConfig_def applyDefaultModel_def installMetadataRoute_def
    gateway_credential_def installBinaryData_def void_def Let_def
  have i: "keeps (db_same s0) (installBinaryData ae rt name d)" for name d unfolding ds by (intro keeps_rules)
  have j: "keeps (db_same s0) (installBinary ae rt name)" for name
    unfolding installBinary_def by (cases "platformBinary (ae_Host ae)") (auto intro!: keeps_rules i simp: ds)
  show "keeps (db_same s0) (SetupContainer ae rt m c cfg)"
    unfolding SetupContainer_def setup_agent_def setup_files_def ds by (intro keeps_rules j)
  show "keeps (db_same s0) (RefreshProviderKeys ae rt mz cid name owner chosen cfg)"
    unfolding RefreshProviderKeys_def ds by (intro keeps_rules)
  show "keeps (db_same s0) (BackupData ae rt name)" "keeps (db_same s0) (RestoreData ae rt name data)"
    unfolding BackupData_def RestoreData_def void_def by (intro keeps_rules)+
  show "keeps (db_same s0) (CheckUpdate ae rt name)"
    unfolding CheckUpdate_def Let_def by (cases "platformBinary (ae_Host ae)"; auto intro!: keeps_rules)
  show "keeps (db_same s0) (Update ae rt name)"
    unfolding Update_def waitForAgentHTTP_def by (cases "platformBinary (ae_Host ae)"; auto intro!: keeps_rules i)
  show "keeps (db_same s0) (listGuestModels rt name)" unfolding ds by (intro keeps_rules)
qed

text \<open>C30: setting up an agent touches one VM.  Whatever the container runtime does and wherever setup
  stops, every call SetupContainer makes to it names the VM that is being set up, and no table changes;
  the same holds of a key refresh, a backup, a restore and an update of a VM.\<close>

theorem setup_confined:
  "(\<exists>new. snd (g_rt (snd (SetupContainer (logged_env ae) (logged rt) m c cfg s))) = snd (g_rt s) @ new
      \<and> list_all (\<lambda>e. cl_VM e = c_IncusName c) new)
   \<and> db_same s (snd (SetupContainer (logged_env ae) (logged rt) m c cfg s))
   \<and> list_all (\<lambda>op. (\<exists>new. snd (g_rt (op s)) = snd (g_rt s) @ new \<and> list_all (\<lambda>e. cl_VM e = vm) new) \<and> db_same s (op s))
       [\<lambda>s. snd (RefreshProviderKeys (logged_env ae) (logged rt) mz cid vm owner chosen cfg s),
        \<lambda>s. snd (BackupData (logged_env ae) (logged rt) vm s), \<lambda>s. snd (RestoreData (logged_env ae) (logged rt) vm data s),
        \<lambda>s. snd (CheckUpdate (logged_env ae) (logged rt) vm s), \<lambda>s. snd (Update (logged_env ae) (logged rt) vm s)]"
proof -
  have about: "\<exists>new. snd (g_rt (snd (m s))) = snd (g_rt s) @ new \<and> list_all (\<lambda>e. cl_VM e = vm) new"
    if "keeps (rt_inv (only_about vm (snd (g_rt s)))) m" for m :: "('b traced, 'c) gwm" and vm s
    using keepsD [OF that, of s] by (simp add: rt_inv_def only_about_def)
  have pure: "db_same s (snd (m s))" if "\<And>s0. keeps (db_same s0) m" for m :: "('b traced, 'c) gwm" and s
    using db_pureD [of m s] that by (simp add: db_pure_def)
  show ?thesis
    by (simp only: list.pred_inject, intro conjI TrueI about pure lgf.c_setup lgf.c_refresh lgf.c_backup agent_pure refl)
qed

section \<open>The working agent is stopped only for a verified one\<close>

definition stops :: "call \<Rightarrow> bool" where
  "stops c \<longleftrightarrow> cl_Args c = sh stop_script"

definition verifies :: "json \<Rightarrow> call \<Rightarrow> bool" where
  "verifies js c \<longleftrightarrow> (cl_Args c = [new_binary, ''version''] \<or> cl_Args c = [agent_binary, ''version''])
     \<and> (case cl_Answer c of Inl _ \<Rightarrow> False
        | Inr out \<Rightarrow> (case js_Version js out of None \<Rightarrow> False | Some (v, customized) \<Rightarrow> customized \<and> HasPrefix v ''picoclaw-''))"

text \<open>No call of the second kind before one of the first.\<close>

fun preceded :: "('a \<Rightarrow> bool) \<Rightarrow> ('a \<Rightarrow> bool) \<Rightarrow> 'a list \<Rightarrow> bool" where
  "preceded V S [] = True"
| "preceded V S (x # xs) = (V x \<or> (\<not> S x \<and> preceded V S xs))"

lemma preceded_none: "list_all (\<lambda>x. \<not> S x) xs \<Longrightarrow> preceded V S xs"
  by (induction xs) auto

lemma preceded_found: "list_all (\<lambda>x. \<not> S x) xs \<Longrightarrow> V v \<Longrightarrow> preceded V S (xs @ v # ys)"
  by (induction xs) auto

definition unstopped :: "call list \<Rightarrow> 'r traced \<Rightarrow> bool" where
  "unstopped old x \<longleftrightarrow> (\<exists>new. snd x = old @ new \<and> list_all (\<lambda>c. \<not> stops c) new)"

definition verified_first :: "json \<Rightarrow> call list \<Rightarrow> 'r traced \<Rightarrow> bool" where
  "verified_first js old x \<longleftrightarrow>
     (\<exists>new v more. snd x = old @ new @ v # more \<and> list_all (\<lambda>c. \<not> stops c) new \<and> verifies js v)"

definition stop_after_verify :: "json \<Rightarrow> call list \<Rightarrow> 'r traced \<Rightarrow> bool" where
  "stop_after_verify js old x \<longleftrightarrow> (\<exists>new. snd x = old @ new \<and> preceded (verifies js) stops new)"

lemma stop_after_verifyI:
  "unstopped old x \<Longrightarrow> stop_after_verify js old x" "verified_first js old x \<Longrightarrow> stop_after_verify js old x"
  unfolding unstopped_def verified_first_def stop_after_verify_def
  using preceded_none [of stops _ "verifies js"] preceded_found [of stops _ "verifies js"] by blast+

lemma note_call_verified: "verified_first js old x \<Longrightarrow> verified_first js old (snd (note_call vm args f m x))"
  by (fastforce simp: verified_first_def note_call_def split: prod.split)

interpretation vf: vm_files_confined "logged rt" name "verified_first js old" "logged_env ae"
  by unfold_locales (auto simp: note_call_verified)

lemma note_call_unstopped:
  "args \<noteq> sh stop_script \<Longrightarrow> unstopped old x \<Longrightarrow> unstopped old (snd (note_call vm args f m x))"
  by (auto simp: unstopped_def note_call_def stops_def split: prod.split)

lemma guest_unstopped:
  fixes rt :: "'r runtime"
  assumes "argv \<noteq> sh stop_script"
  shows "keeps (rt_inv (unstopped old)) (guest (logged rt) name argv)"
proof (rule keepsI)
  fix s :: "'r traced gateway" assume "rt_inv (unstopped old) s"
  then have "unstopped old (snd (note_call name argv id (rt_Exec rt name argv) (g_rt s)))"
    by (simp add: rt_inv_def note_call_unstopped [OF assms])
  then show "rt_inv (unstopped old) (snd (guest (logged rt) name argv s))"
    by (cases "note_call name argv id (rt_Exec rt name argv) (g_rt s)") (simp add: guest_def rt_call_def rt_inv_def)
qed

lemma not_stop_script:
  "HasPrefix cmd ''umask'' \<Longrightarrow> sh cmd \<noteq> sh stop_script" "HasPrefix cmd ''state'' \<Longrightarrow> sh cmd \<noteq> sh stop_script"
  "HasPrefix cmd ''chown'' \<Longrightarrow> sh cmd \<noteq> sh stop_script" "length argv \<noteq> 3 \<Longrightarrow> argv \<noteq> sh stop_script"
  "hd argv \<noteq> ''sh'' \<Longrightarrow> argv \<noteq> sh stop_script"
  by (auto simp: HasPrefix_iff sh_def stop_script_def script_def)

lemma file_unstopped: "keeps (rt_inv (unstopped old)) (writeGuestFile (logged rt) name path data)"
  using guest_unstopped [OF not_stop_script(1), of "guest_file_cmd path data" old rt name]
  unfolding writeGuestFile_def guest_def sh_def void_def by (auto intro!: keeps_rules simp: guest_file_cmd_def HasPrefix_def)

lemma verifyBinary_verified:
  fixes rt :: "'r runtime"
  assumes "path = new_binary \<or> path = agent_binary"
  shows "hoare (rt_inv (unstopped old)) (verifyBinary (logged_env ae) (logged rt) name path)
    (\<lambda>_. rt_inv (verified_first (ae_Json ae) old)) (\<lambda>_. rt_inv (unstopped old))"
proof (rule hoareI)
  have k: "keeps (rt_inv (unstopped old)) (verifyBinary (logged_env ae) (logged rt) name path)"
    unfolding verifyBinary_def by (intro keeps_rules guest_unstopped not_stop_script(4)) simp
  fix s :: "'r traced gateway" and e s' assume "rt_inv (unstopped old) s" "verifyBinary (logged_env ae) (logged rt) name path s = (Inl e, s')"
  then show "rt_inv (unstopped old) s'" using keepsD [OF k, of s] by simp
next
  fix s :: "'r traced gateway" and u s' assume u: "rt_inv (unstopped old) s" and v: "verifyBinary (logged_env ae) (logged rt) name path s = (Inr u, s')"
  from v obtain out where g: "guest (logged rt) name [path, ''version''] s = (Inr out, s')"
    and js: "\<exists>w. js_Version (ae_Json ae) out = Some (w, True) \<and> HasPrefix w ''picoclaw-''"
    unfolding verifyBinary_def by (elim bindE_InrE) (auto split: option.splits if_splits)
  from g have "snd (g_rt s') = snd (g_rt s) @ [\<lparr>cl_VM = name, cl_Args = [path, ''version''], cl_Answer = Inr out\<rparr>]"
    by (auto simp: guest_def rt_call_def note_call_def split: prod.splits)
  moreover have "verifies (ae_Json ae) \<lparr>cl_VM = name, cl_Args = [path, ''version''], cl_Answer = Inr out\<rparr>"
    using js assms by (auto simp: verifies_def)
  ultimately show "rt_inv (verified_first (ae_Json ae) old) s'"
    using u by (fastforce simp: rt_inv_def verified_first_def unstopped_def)
qed

lemma push_unstopped:
  fixes m :: "('r, dberr, 'a) sm"
  shows "keeps (rt_inv (unstopped old)) (rt_call (note_call name [''<push>'', path, data] f m))"
proof (rule keepsI)
  fix s :: "'r traced gateway" assume "rt_inv (unstopped old) s"
  then have "unstopped old (snd (note_call name [''<push>'', path, data] f m (g_rt s)))"
    by (simp add: rt_inv_def note_call_unstopped not_stop_script(5))
  then show "rt_inv (unstopped old) (snd (rt_call (note_call name [''<push>'', path, data] f m) s))"
    by (cases "note_call name [''<push>'', path, data] f m (g_rt s)") (simp add: rt_call_def rt_inv_def)
qed

text \<open>A step, its invariant, and what the rest needs.\<close>

lemma hoare_keep: "keeps I m \<Longrightarrow> (\<And>s. I s \<Longrightarrow> E s) \<Longrightarrow> hoare I m (\<lambda>_. I) (\<lambda>_. E)"
  unfolding keeps_hoare by (erule hoare_conseq)

lemma installBinary_verified:
  "hoare (rt_inv (unstopped old)) (installBinary (logged_env ae) (logged rt) name)
    (\<lambda>_. rt_inv (verified_first (ae_Json ae) old)) (\<lambda>_. rt_inv (stop_after_verify (ae_Json ae) old))"
proof -
  let ?U = "rt_inv (unstopped old)" and ?V = "rt_inv (verified_first (ae_Json ae) old)"
    and ?E = "rt_inv (stop_after_verify (ae_Json ae) old)"
  have ue: "?U s \<Longrightarrow> ?E s" and ve: "?V s \<Longrightarrow> ?E s" for s by (simp_all add: rt_inv_def stop_after_verifyI)
  have ver: "hoare ?U (verifyBinary (logged_env ae) (logged rt) name p) (\<lambda>_. ?V) (\<lambda>_. ?E)"
    if "p = new_binary \<or> p = agent_binary" for p
    by (rule hoare_conseq [OF verifyBinary_verified [OF that]]) (auto intro: ue)
  have chmod: "keeps ?U (guest (logged rt) name [''chmod'', ''755'', new_binary])"
    by (rule guest_unstopped) (simp add: not_stop_script(5))
  have data: "hoare ?U (installBinaryData (logged_env ae) (logged rt) name d) (\<lambda>_. ?V) (\<lambda>_. ?E)" for d
  proof (cases "ae_Files ae")
    case None
    then show ?thesis by (simp add: installBinaryData_def hoare_raise ue)
  next
    case (Some fr)
    show ?thesis
      unfolding installBinaryData_def logged_calls Some option.map option.case void_def
    proof (intro hoare_bindE)
      show "hoare ?U (rt_call (note_call name [''<push>'', new_binary, d] (\<lambda>_. []) (fr_PushFile fr name new_binary d)))
          (\<lambda>_. ?U) (\<lambda>_. ?E)"
        by (rule hoare_keep [OF push_unstopped]) (rule ue)
      show "hoare ?U (guest (logged rt) name [''chmod'', ''755'', new_binary]) (\<lambda>_. ?U) (\<lambda>_. ?E)"
        by (rule hoare_keep [OF chmod]) (rule ue)
      show "hoare ?U (verifyBinary (logged_env ae) (logged rt) name new_binary) (\<lambda>_. ?V) (\<lambda>_. ?E)" by (rule ver) simp
      show "hoare ?V (guest (logged rt) name [''mv'', ''-f'', new_binary, agent_binary]) (\<lambda>_. ?V) (\<lambda>_. ?E)"
        by (rule hoare_keep [OF vf.c_guest(1)]) (rule ve)
    qed (rule hoare_ret)
  qed
  show ?thesis
  proof (cases "platformBinary (ae_Host ae)")
    case NotExist
    show ?thesis
    proof (cases "h_AgentBinary (ae_Host ae) = []")
      case True
      have "hoare ?U (attempt (verifyBinary (logged_env ae) (logged rt) name agent_binary)
          (\<lambda>_. raise (ErrRuntime ''load PicoClaw binary'')) ret) (\<lambda>_. ?V) (\<lambda>_. ?E)"
        by (rule hoare_attempt [OF ver]) (simp, rule hoare_raise, assumption, rule hoare_ret)
      with NotExist True show ?thesis by (simp add: installBinary_def)
    qed (use NotExist in \<open>simp add: installBinary_def hoare_raise ue\<close>)
  next
    case (FileError e)
    then show ?thesis by (simp add: installBinary_def hoare_raise ue)
  next
    case (FileData d)
    then show ?thesis using data by (simp add: installBinary_def)
  qed
qed

text \<open>C31: a VM never loses a working agent to a broken artifact.  In every run of SetupContainer, over
  every runtime and wherever it stops, the command that stops the agents and migrates their state comes
  after a call in which the binary that will replace them answered with the version of a customised
  PicoClaw build.\<close>

theorem stop_after_verification:
  "\<exists>new. snd (g_rt (snd (SetupContainer (logged_env ae) (logged rt) m c cfg s))) = snd (g_rt s) @ new
     \<and> preceded (verifies (ae_Json ae)) stops new"
proof -
  let ?old = "snd (g_rt s)" and ?n = "c_IncusName c" and ?cfg = "vm_llm_config cfg (c_ID c) (c_OwnerID c)"
  let ?U = "rt_inv (unstopped ?old)" and ?V = "rt_inv (verified_first (ae_Json ae) ?old)"
    and ?E = "rt_inv (stop_after_verify (ae_Json ae) ?old)"
  have ue: "?U t \<Longrightarrow> ?E t" and ve: "?V t \<Longrightarrow> ?E t" for t by (simp_all add: rt_inv_def stop_after_verifyI)
  have w: "keeps ?U (waitForGuestSystemd (logged_env ae) (logged rt) ?n)"
    unfolding waitForGuestSystemd_def by (intro keeps_rules guest_unstopped not_stop_script(2)) (simp add: HasPrefix_def)
  have mk: "keeps ?U (guest (logged rt) ?n [''mkdir'', ''-p'', ''/data'', ConfigDir, ''/etc/systemd/system''])"
    by (rule guest_unstopped) (simp add: not_stop_script(5))
  have gc: "keeps ?U (gateway_credential (logged_env ae) (logged rt) ?n ?cfg)"
    unfolding gateway_credential_def void_def
    by (intro keeps_rules file_unstopped guest_unstopped not_stop_script(3)) (simp add: HasPrefix_def)
  have start: "?U s" by (simp add: rt_inv_def unstopped_def)
  have "hoare ?U (SetupContainer (logged_env ae) (logged rt) m c cfg) (\<lambda>_. ?E) (\<lambda>_. ?E)"
    unfolding SetupContainer_def Let_def logged_calls
  proof (rule hoare_if)
    show "hoare ?U (raise (ErrRuntime ''context deadline exceeded'')) (\<lambda>_. ?E) (\<lambda>_. ?E)"
      by (rule hoare_raise) (rule ue)
  next
    show "hoare ?U (bindE (waitForGuestSystemd (logged_env ae) (logged rt) ?n) (\<lambda>_.
        bindE (guest (logged rt) ?n [''mkdir'', ''-p'', ''/data'', ConfigDir, ''/etc/systemd/system'']) (\<lambda>_.
        bindE (gateway_credential (logged_env ae) (logged rt) ?n ?cfg) (\<lambda>_.
        bindE (installBinary (logged_env ae) (logged rt) ?n) (\<lambda>_.
        setup_agent (logged_env ae) (logged rt) m c ?cfg))))) (\<lambda>_. ?E) (\<lambda>_. ?E)"
    proof (intro hoare_bindE)
      show "hoare ?U (waitForGuestSystemd (logged_env ae) (logged rt) ?n) (\<lambda>_. ?U) (\<lambda>_. ?E)" by (rule hoare_keep [OF w ue])
      show "hoare ?U (guest (logged rt) ?n [''mkdir'', ''-p'', ''/data'', ConfigDir, ''/etc/systemd/system'']) (\<lambda>_. ?U) (\<lambda>_. ?E)"
        by (rule hoare_keep [OF mk ue])
      show "hoare ?U (gateway_credential (logged_env ae) (logged rt) ?n ?cfg) (\<lambda>_. ?U) (\<lambda>_. ?E)" by (rule hoare_keep [OF gc ue])
      show "hoare ?U (installBinary (logged_env ae) (logged rt) ?n) (\<lambda>_. ?V) (\<lambda>_. ?E)" by (rule installBinary_verified)
      show "hoare ?V (setup_agent (logged_env ae) (logged rt) m c ?cfg) (\<lambda>_. ?E) (\<lambda>_. ?E)"
        by (rule hoare_conseq [OF hoare_keep [OF vf.c_setup_agent [OF refl] ve]]) (auto intro: ve)
    qed
  qed
  from hoare_snd [OF this start] show ?thesis by (simp add: rt_inv_def stop_after_verify_def)
qed

text \<open>C33: a VM can make the gateway panic.  When a VM's configuration file reads JSON null, which decodes
  to a nil map without an error, and the VM has any model, applyDefaultModel assigns to the nil map.\<close>

theorem null_config_panics:
  assumes "js_Object js out = Some None" and "TrimSpace out \<noteq> []"
    and "listGuestModels rt name s = (Inr available, s1)" and "available \<noteq> []" and "list_all (\<lambda>m. m \<noteq> []) available"
    and "guest rt name (sh (''cat '' @ ConfigFilePath @ '' 2>/dev/null || true'')) s1 = (Inr out, s2)"
  shows "applyDefaultModel js rt name models chosen cfg s = (Inl ErrPanic, s2)"
proof -
  have "readGuestConfig js rt name s1 = (Inr None, s2)"
    using assms(1,2,6) by (simp add: readGuestConfig_def numeral_2_eq_2)
  moreover have "guestDefaultModelOf js None = []" by (simp add: guestDefaultModelOf_def config_get_def)
  moreover have "desiredModel available own plat chosen [] \<noteq> []" for own plat
    using desiredModel_reachable [OF assms(5,4), of own plat chosen "[]"] by (auto simp: reachable_def)
  ultimately show ?thesis
    using assms(3) by (simp add: applyDefaultModel_def Let_def writeGuestConfig_def set_config_model_def)
qed

text \<open>An instance: a decoder that knows null, and a VM with one model whose file says null.\<close>

definition demo_json :: json where
  "demo_json = \<lparr>js_Object = (\<lambda>t. if t = ''null'' then Some None else None), js_ShowObject = (\<lambda>_. Some ''{}''),
     js_String = (\<lambda>_. None), js_ShowString = id, js_Field = (\<lambda>_ _. None), js_Version = (\<lambda>_. None), js_ShowFields = (\<lambda>_. [])\<rparr>"

definition null_rt :: "unit runtime" where
  "null_rt = demo_rt\<lparr>rt_Exec := (\<lambda>_ argv. ret (if hd argv = ''sqlite3'' then ''gpt'' else ''null''))\<rparr>"

theorem null_config_panics_witness:
  "applyDefaultModel demo_json null_rt ''vm-c1'' [] [] None demo_gw = (Inl ErrPanic, demo_gw)"
proof -
  have g: "g_rt_update (\<lambda>_. ()) demo_gw = demo_gw" by (simp add: demo_gw_def)
  have t: "TrimSpace ''gpt'' = ''gpt''" "TrimSpace ''null'' = ''null''" by code_simp+
  have l: "listGuestModels null_rt ''vm-c1'' demo_gw = (Inr [''gpt''], demo_gw)"
    by (simp add: listGuestModels_def bindE_def guest_def null_rt_def rt_call_def g t)
  have c: "guest null_rt ''vm-c1'' (sh (''cat '' @ ConfigFilePath @ '' 2>/dev/null || true'')) demo_gw = (Inr ''null'', demo_gw)"
    by (simp add: guest_def null_rt_def rt_call_def sh_def g)
  show ?thesis
    by (rule null_config_panics [OF _ _ l _ _ c]) (simp_all add: demo_json_def t)
qed

end
