(* ===== verification/Task_Monitor.thy ===== *)
theory Task_Monitor
  imports Guest_Trace Go_Numbers
begin

text \<open>
  The initial task of a VM: handing it to the agent (\<^verbatim>\<open>src/internal/picoclaw/task.go\<close>) and
  following it until it ends (\<^verbatim>\<open>task_monitor.go\<close>).

  A function that changes the fields of the container it was given returns the container.  The runtime is
  \<open>None\<close> where the code accepts a nil one.  The ticker of \<^verbatim>\<open>MonitorTasks\<close> is the number of
  rounds that were run when its context ended; the time a failure is old is a 64-bit number of
  nanoseconds, computed with wrap-around.
\<close>

section \<open>Quoting\<close>

text \<open>\<^verbatim>\<open>%q\<close> of a string of printable ASCII; \<open>uni\<close> stands for the other strings.\<close>

definition go_quote :: "(string \<Rightarrow> string) \<Rightarrow> string \<Rightarrow> string" where
  "go_quote uni s =
     (if list_all (\<lambda>c. 32 \<le> byte c \<and> byte c < 127) s
      then [CHR 0x22] @ concat (map (\<lambda>c. if c = CHR 0x22 \<or> c = CHR 0x5C then [CHR 0x5C, c] else [c]) s) @ [CHR 0x22]
      else uni s)"

section \<open>Delivery\<close>

definition taskFilePath :: string where "taskFilePath = ConfigDir @ ''/initial-task.json''"
definition taskWorkDir :: string where "taskWorkDir = ''/home/'' @ ContainerUser"

text \<open>\<^verbatim>\<open>^[A-Za-z0-9_-]{1,64}$\<close>\<close>

definition id_char :: "char \<Rightarrow> bool" where
  "id_char c \<longleftrightarrow> is_lower_alnum (ascii_lower c) \<or> c = CHR ''_'' \<or> c = CHR ''-''"

definition validConversationID :: "string \<Rightarrow> bool" where
  "validConversationID i \<longleftrightarrow> 1 \<le> length i \<and> length i \<le> 64 \<and> list_all id_char i"

definition parseConversationID :: "json \<Rightarrow> string \<Rightarrow> dberr + string" where
  "parseConversationID js out =
     (case js_Field js ''conversation_id'' out of
        None \<Rightarrow> Inl (ErrRuntime ''decode agent reply'')
      | Some i \<Rightarrow> if \<not> validConversationID i then Inl (ErrRuntime ''agent returned conversation ID'') else Inr i)"

definition readConfiguredModel :: "json \<Rightarrow> 'r runtime \<Rightarrow> string \<Rightarrow> ('r, string) gwm" where
  "readConfiguredModel js rt name = attempt (guest rt name [''cat'', ConfigFilePath]) (\<lambda>_. ret [])
     (\<lambda>out. ret (case js_Field js ''default_model'' out of None \<Rightarrow> [] | Some m \<Rightarrow> m))"

definition resolveTaskModel ::
  "json \<Rightarrow> 'r runtime \<Rightarrow> string \<Rightarrow> string list \<Rightarrow> string list \<Rightarrow> string \<Rightarrow> ('r, string) gwm" where
  "resolveTaskModel js rt name own platform chosen =
     bindE (listGuestModels rt name) (\<lambda>available.
     bindE (readConfiguredModel js rt name) (\<lambda>current.
     ret (desiredModel available own platform chosen current)))"

definition post_cmd :: "(string \<Rightarrow> string) \<Rightarrow> string \<Rightarrow> string" where
  "post_cmd uni owner = ''curl --fail --silent --show-error --max-time 30 -H '' @ go_quote uni (RequireHeader @ '': '' @ owner)
     @ '' -H '' @ quote @ ''Content-Type: application/json'' @ quote @ '' --data @'' @ taskFilePath
     @ '' http://127.0.0.1:9000/api/conversations/new; result=$?; rm -f '' @ taskFilePath @ ''; exit $result''"

definition fail_task :: "container \<Rightarrow> string \<Rightarrow> ('r, 'a) gwm" where
  "fail_task c reason = attempt (SetInitialTaskState (c_ID c) TaskFailed reason)
     (\<lambda>_. raise (ErrRuntime reason)) (\<lambda>_. raise (ErrRuntime reason))"

text \<open>A step of the delivery: its error is recorded on the VM.\<close>

definition or_fail :: "container \<Rightarrow> ('r, 'a) gwm \<Rightarrow> string \<Rightarrow> ('a \<Rightarrow> ('r, 'b) gwm) \<Rightarrow> ('r, 'b) gwm" where
  "or_fail c m reason f = attempt m (\<lambda>_. fail_task c reason) f"

definition DeliverInitialTask ::
  "(string \<Rightarrow> string) \<Rightarrow> 'r agent_env \<Rightarrow> 'r runtime option \<Rightarrow> container \<Rightarrow> llm_config option \<Rightarrow> ('r, unit) gwm" where
  "DeliverInitialTask uni ae rto c cfg =
     (if c_InitialTask c = [] \<or> c_InitialTaskState c \<noteq> TaskPending then ret ()
      else case rto of None \<Rightarrow> ret () | Some rt \<Rightarrow>
      if \<not> ae_Locked ae then fail_task c ''the VM was busy being set up; retry the task''
      else
        or_fail c (UserDefaultModel (c_OwnerID c)) (''could not read the account'' @ quote @ ''s default model'') (\<lambda>chosen.
        or_fail c (OwnerModelIDs (c_OwnerID c)) (''could not list the account'' @ quote @ ''s own models'') (\<lambda>own.
        or_fail c (resolveTaskModel (ae_Json ae) rt (c_IncusName c) own (gatewayModelIDs cfg) chosen)
          ''could not list the models available to the agent'' (\<lambda>model.
        if model = [] then fail_task c ''no model is configured for this VM; add an LLM key and retry the task''
        else
          or_fail c (writeGuestFile rt (c_IncusName c) taskFilePath (js_ShowFields (ae_Json ae)
              [(''cwd'', taskWorkDir), (''message'', c_InitialTask c), (''model'', model)]))
            ''could not stage the task inside the VM'' (\<lambda>_.
          or_fail c (guest rt (c_IncusName c) (sh (post_cmd uni (c_OwnerID c)))) ''the agent did not accept the task'' (\<lambda>out.
          or_fail c (of_result (parseConversationID (ae_Json ae) out)) ''the agent did not name the conversation it opened'' (\<lambda>conv.
          SetInitialTaskDelivered (c_ID c) conv)))))))"

definition DeliverInitialTaskByID ::
  "(string \<Rightarrow> string) \<Rightarrow> 'r agent_env \<Rightarrow> 'r runtime option \<Rightarrow> string \<Rightarrow> llm_config option \<Rightarrow> ('r, unit) gwm" where
  "DeliverInitialTaskByID uni ae rt cid cfg = attempt (GetContainerByID cid) (\<lambda>_. ret ())
     (\<lambda>c. attempt (DeliverInitialTask uni ae rt c cfg) (\<lambda>_. ret ()) ret)"

section \<open>Progress\<close>

definition maxTaskErrorLen :: nat where "maxTaskErrorLen = 500"
definition maxTaskResumes :: int where "maxTaskResumes = 3"

text \<open>One hour in nanoseconds, and one second.\<close>

definition maxTaskResumeAge :: int where "maxTaskResumeAge = 3600 * 10 ^ 9"
definition second :: int where "second = 10 ^ 9"

record failed_turn =
  ft_retryable :: bool
  ft_age :: int

definition resumable :: "failed_turn \<Rightarrow> int \<Rightarrow> bool" where
  "resumable t spent \<longleftrightarrow> ft_retryable t \<and> spent < maxTaskResumes \<and> ft_age t \<le> maxTaskResumeAge"

definition queryAgentDB :: "'r runtime \<Rightarrow> string \<Rightarrow> string \<Rightarrow> ('r, string) gwm" where
  "queryAgentDB rt name query = guest rt name [''sqlite3'', ''-readonly'', DBPath, query]"

definition find_query :: "string \<Rightarrow> string" where
  "find_query task = ''SELECT conversation_id FROM messages AS m WHERE type='' @ quote @ ''user'' @ quote
     @ '' AND json_extract(llm_data, '' @ quote @ ''$.Content[0].Text'' @ quote @ '') = CAST(x'' @ quote @ EncodeToString task @ quote @ '' AS TEXT)''
     @ '' AND sequence_id = (SELECT MIN(sequence_id) FROM messages AS m2''
     @ '' WHERE m2.conversation_id = m.conversation_id AND m2.type='' @ quote @ ''user'' @ quote @ '')''
     @ '' ORDER BY created_at DESC, rowid DESC LIMIT 1;''"

definition findConversationByTask :: "'r runtime \<Rightarrow> string \<Rightarrow> string \<Rightarrow> ('r, string) gwm" where
  "findConversationByTask rt name task = bindE (queryAgentDB rt name (find_query task)) (\<lambda>out.
     let found = TrimSpace out in
     if found = [] then ret []
     else if \<not> validConversationID found then raise (ErrRuntime ''agent named conversation'')
     else ret found)"

definition lostConversationReason :: string where
  "lostConversationReason = ''the gateway cannot tell which conversation this task runs in; retry to hand it to the agent again''"

definition adoptConversation :: "'r runtime \<Rightarrow> container \<Rightarrow> ('r, container) gwm" where
  "adoptConversation rt c =
     (if TrimSpace (c_InitialTask c) = [] then ret c
      else bindE (findConversationByTask rt (c_IncusName c) (c_InitialTask c)) (\<lambda>found.
        if found = []
        then bindE (SetInitialTaskState (c_ID c) TaskFailed lostConversationReason)
          (\<lambda>_. ret (c\<lparr>c_InitialTaskState := TaskFailed, c_InitialTaskError := lostConversationReason\<rparr>))
        else bindE (SetInitialTaskConversation (c_ID c) found) (\<lambda>_. ret (c\<lparr>c_InitialTaskConversation := found\<rparr>))))"

definition latest_error :: "string \<Rightarrow> string \<Rightarrow> string" where
  "latest_error column conv = ''(SELECT '' @ column @ '' FROM messages WHERE conversation_id='' @ quote @ conv @ quote
     @ '' AND type='' @ quote @ ''error'' @ quote @ '' ORDER BY sequence_id DESC LIMIT 1)''"

definition failed_query :: "string \<Rightarrow> string" where
  "failed_query conv = ''SELECT COALESCE('' @ latest_error (''json_extract(user_data, '' @ quote @ ''$.retryable'' @ quote @ '')'') conv
     @ '', 0) || '' @ quote @ ''|'' @ quote @ '' || COALESCE(''
     @ latest_error (''CAST(MAX(0, (julianday('' @ quote @ ''now'' @ quote @ '') - julianday(created_at)) * 86400) AS INTEGER)'') conv
     @ '', '' @ quote @ ''unknown'' @ quote @ '');''"

definition failedTurnDetails :: "'r runtime \<Rightarrow> string \<Rightarrow> string \<Rightarrow> ('r, failed_turn) gwm" where
  "failedTurnDetails rt name conv = bindE (queryAgentDB rt name (failed_query conv)) (\<lambda>out.
     case Cut (TrimSpace out) CHR ''|'' of
       None \<Rightarrow> raise (ErrRuntime ''unexpected failure reply'')
     | Some (flag, age) \<Rightarrow>
         if age = ''unknown'' then ret \<lparr>ft_retryable = (flag = ''1''), ft_age = maxTaskResumeAge + second\<rparr>
         else case Atoi age of
           None \<Rightarrow> raise (ErrRuntime ''unexpected failure age'')
         | Some seconds \<Rightarrow> ret \<lparr>ft_retryable = (flag = ''1''), ft_age = wrap64 (seconds * second)\<rparr>)"

definition resume_args :: "string \<Rightarrow> string \<Rightarrow> string list" where
  "resume_args conv owner =
     [''curl'', ''--silent'', ''--show-error'', ''--max-time'', ''15'', ''--output'', ''/dev/null'', ''--write-out'', ''%{http_code}'',
      ''--request'', ''POST'', ''--header'', RequireHeader @ '': '' @ owner, ''http://127.0.0.1:9000/api/conversation/'' @ conv @ ''/retry'']"

definition resumeConversation :: "'r runtime \<Rightarrow> container \<Rightarrow> ('r, bool) gwm" where
  "resumeConversation rt c =
     bindE (guest rt (c_IncusName c) (resume_args (c_InitialTaskConversation c) (c_OwnerID c)))
       (\<lambda>out. ret (TrimSpace out = ''200'' \<or> TrimSpace out = ''202''))"

text \<open>The ellipsis is three bytes of UTF-8.\<close>

definition taskErrorText :: "'r runtime \<Rightarrow> string \<Rightarrow> string \<Rightarrow> ('r, string) gwm" where
  "taskErrorText rt name conv = attempt (queryAgentDB rt name
       (''SELECT COALESCE(json_extract(llm_data, '' @ quote @ ''$.Content[0].Text'' @ quote @ ''), '' @ quote @ quote @ '') FROM messages''
        @ '' WHERE conversation_id='' @ quote @ conv @ quote @ '' AND type='' @ quote @ ''error'' @ quote @ '' ORDER BY sequence_id DESC LIMIT 1;''))
     (\<lambda>_. ret ''the agent ended the task with an error'')
     (\<lambda>out. let text = TrimSpace out in
        ret (if text = [] then ''the agent ended the task with an error''
             else if length text > maxTaskErrorLen
             then TrimSpace (take maxTaskErrorLen text) @ [CHR 0xE2, CHR 0x80, CHR 0xA6] else text))"

definition report_failure :: "'r runtime \<Rightarrow> failed_turn \<Rightarrow> container \<Rightarrow> ('r, string \<times> string) gwm" where
  "report_failure rt turn c = bindE (taskErrorText rt (c_IncusName c) (c_InitialTaskConversation c)) (\<lambda>text.
     ret (TaskFailed,
       if ft_retryable turn \<and> c_InitialTaskResumes c \<ge> maxTaskResumes
       then text @ '' (resumed '' @ Itoa (c_InitialTaskResumes c) @ '' times without getting through)'' else text))"

definition resolveFailedTurn :: "'r runtime \<Rightarrow> container \<Rightarrow> ('r, string \<times> string) gwm" where
  "resolveFailedTurn rt c =
     bindE (failedTurnDetails rt (c_IncusName c) (c_InitialTaskConversation c)) (\<lambda>turn.
     if resumable turn (c_InitialTaskResumes c)
     then bindE (resumeConversation rt c) (\<lambda>resumed.
       attempt (CountInitialTaskResume (c_ID c))
         (\<lambda>e. if resumed then ret (TaskWorking, []) else raise e)
         (\<lambda>spent. if resumed then ret (TaskWorking, [])
            else report_failure rt turn (c\<lparr>c_InitialTaskResumes := spent\<rparr>)))
     else report_failure rt turn c)"

definition progress_query :: "string \<Rightarrow> string" where
  "progress_query conv = ''SELECT COALESCE((SELECT agent_working FROM conversations WHERE conversation_id='' @ quote @ conv @ quote
     @ ''), -1) || '' @ quote @ ''|'' @ quote @ '' || COALESCE((SELECT type FROM messages WHERE conversation_id='' @ quote @ conv @ quote
     @ '' AND type != '' @ quote @ ''slug'' @ quote @ '' ORDER BY sequence_id DESC LIMIT 1), '' @ quote @ quote @ '');''"

definition pollTaskState :: "'r runtime \<Rightarrow> container \<Rightarrow> ('r, string \<times> string) gwm" where
  "pollTaskState rt c = bindE (queryAgentDB rt (c_IncusName c) (progress_query (c_InitialTaskConversation c))) (\<lambda>out.
     case Cut (TrimSpace out) CHR ''|'' of
       None \<Rightarrow> raise (ErrRuntime ''unexpected progress reply'')
     | Some (working, lastMessage) \<Rightarrow>
         if working = ''-1'' then ret (TaskFailed, ''the conversation this task ran in is no longer in the VM'')
         else if working = ''1'' then ret (TaskWorking, [])
         else if working \<noteq> ''0'' then raise (ErrRuntime ''unexpected agent_working value'')
         else if lastMessage = ''agent'' then ret (TaskDone, [])
         else if lastMessage = ''error'' then resolveFailedTurn rt c
         else ret (TaskFailed, ''the agent stopped before answering; the VM or the agent restarted mid-task''))"

definition RefreshTaskState :: "'r runtime \<Rightarrow> container \<Rightarrow> ('r, unit) gwm" where
  "RefreshTaskState rt c0 =
     (if \<not> TaskInProgress (c_InitialTaskState c0) then ret ()
      else bindE (if c_InitialTaskConversation c0 = [] then adoptConversation rt c0 else ret c0) (\<lambda>c.
        if c_InitialTaskConversation c = [] then ret ()
        else if \<not> validConversationID (c_InitialTaskConversation c) then raise (ErrRuntime ''refusing conversation ID'')
        else bindE (pollTaskState rt c) (\<lambda>(state, reason).
          if state = c_InitialTaskState c \<and> reason = c_InitialTaskError c then ret ()
          else SetInitialTaskState (c_ID c) state reason)))"

fun refresh_all :: "'r runtime \<Rightarrow> container list \<Rightarrow> ('r, unit) gwm" where
  "refresh_all rt [] = ret ()"
| "refresh_all rt (c # cs) = bindE (attempt (RefreshTaskState rt c) (\<lambda>_. ret ()) ret) (\<lambda>_. refresh_all rt cs)"

definition RefreshTaskStates :: "'r runtime \<Rightarrow> ('r, unit) gwm" where
  "RefreshTaskStates rt = attempt ListContainersWithTaskInProgress (\<lambda>_. ret ()) (refresh_all rt)"

fun MonitorTasks :: "'r runtime \<Rightarrow> nat \<Rightarrow> ('r, unit) gwm" where
  "MonitorTasks rt 0 = ret ()"
| "MonitorTasks rt (Suc n) = bindE (RefreshTaskStates rt) (\<lambda>_. MonitorTasks rt n)"

section \<open>What following a task may change\<close>

text \<open>A row before and after: another row, or a running VM's task in progress that moved on.\<close>

definition task_step :: "container \<Rightarrow> container \<Rightarrow> bool" where
  "task_step d d' \<longleftrightarrow> d' = d \<or>
     (TaskInProgress (c_InitialTaskState d) \<and> c_Status d = ''running''
      \<and> c_InitialTaskState d' \<in> {c_InitialTaskState d, TaskWorking, TaskDone, TaskFailed}
      \<and> (c_InitialTaskConversation d' = c_InitialTaskConversation d
         \<or> c_InitialTaskConversation d = [] \<and> validConversationID (c_InitialTaskConversation d'))
      \<and> c_InitialTaskResumes d \<le> c_InitialTaskResumes d'
      \<and> d' = d\<lparr>c_InitialTaskState := c_InitialTaskState d', c_InitialTaskError := c_InitialTaskError d',
          c_InitialTaskConversation := c_InitialTaskConversation d', c_InitialTaskResumes := c_InitialTaskResumes d',
          c_UpdatedAt := c_UpdatedAt d'\<rparr>)"

definition tasks_moved :: "'z store_scheme \<Rightarrow> 'z store_scheme \<Rightarrow> bool" where
  "tasks_moved s0 s \<longleftrightarrow> list_all2 task_step (t_containers s0) (t_containers s) \<and> db_same (s0\<lparr>t_containers := t_containers s\<rparr>) s"

interpretation moved: store_inv "tasks_moved s0"
  by unfold_locales (simp add: tasks_moved_def db_same_def)

lemmas moved_rules [keeps_rules] = moved.keeps_query

lemma task_step_refl [simp]: "task_step d d" by (simp add: task_step_def)

lemma tasks_moved_refl: "tasks_moved s s"
  by (simp add: tasks_moved_def db_same_def list.rel_refl)

lemma task_step_id: "task_step d d' \<Longrightarrow> c_ID d' = c_ID d"
  unfolding task_step_def by (erule disjE) (simp, elim conjE, drule arg_cong [where f = c_ID], simp)

lemma moved_other [keeps_rules]: "keeps (tasks_moved s0) (rt_call m)" "keeps (tasks_moved s0) (guest rt name argv)"
  unfolding guest_def by (rule keepsI, simp add: rt_call_def tasks_moved_def db_same_def split: prod.split)+

text \<open>The VM a step is about is one of the listed ones.\<close>

definition live_task :: "'z store_scheme \<Rightarrow> string \<Rightarrow> bool" where
  "live_task s cid \<longleftrightarrow> list_all (\<lambda>d. c_ID d = cid \<longrightarrow> TaskInProgress (c_InitialTaskState d) \<and> c_Status d = ''running'') (t_containers s)"

definition task_update :: "(container \<Rightarrow> container) \<Rightarrow> bool" where
  "task_update f \<longleftrightarrow> (\<forall>d. c_InitialTaskState (f d) \<in> {c_InitialTaskState d, TaskWorking, TaskDone, TaskFailed}
     \<and> c_InitialTaskResumes d \<le> c_InitialTaskResumes (f d)
     \<and> f d = d\<lparr>c_InitialTaskState := c_InitialTaskState (f d), c_InitialTaskError := c_InitialTaskError (f d),
          c_InitialTaskConversation := c_InitialTaskConversation (f d), c_InitialTaskResumes := c_InitialTaskResumes (f d),
          c_UpdatedAt := c_UpdatedAt (f d)\<rparr>)"

lemma task_step_update:
  assumes "task_step d0 d" and "task_update f" and "TaskInProgress (c_InitialTaskState d0)" and "c_Status d0 = ''running''"
    and "c_InitialTaskConversation (f d) = c_InitialTaskConversation d
      \<or> c_InitialTaskConversation d = [] \<and> validConversationID (c_InitialTaskConversation (f d))"
  shows "task_step d0 (f d)"
proof -
  obtain a b c e u where d: "d = d0\<lparr>c_InitialTaskState := a, c_InitialTaskError := b, c_InitialTaskConversation := c,
      c_InitialTaskResumes := e, c_UpdatedAt := u\<rparr>"
    and ok: "a \<in> {c_InitialTaskState d0, TaskWorking, TaskDone, TaskFailed}" "c_InitialTaskResumes d0 \<le> e"
      "c = c_InitialTaskConversation d0 \<or> c_InitialTaskConversation d0 = [] \<and> validConversationID c"
  proof (cases "d = d0")
    case True
    then have "d = d0\<lparr>c_InitialTaskState := c_InitialTaskState d0, c_InitialTaskError := c_InitialTaskError d0,
      c_InitialTaskConversation := c_InitialTaskConversation d0, c_InitialTaskResumes := c_InitialTaskResumes d0,
      c_UpdatedAt := c_UpdatedAt d0\<rparr>" by simp
    then show thesis by (rule that) simp_all
  next
    case False
    then show thesis using assms(1) that unfolding task_step_def by blast
  qed
  obtain a' b' c' e' u' where fd: "f d = d\<lparr>c_InitialTaskState := a', c_InitialTaskError := b', c_InitialTaskConversation := c',
      c_InitialTaskResumes := e', c_UpdatedAt := u'\<rparr>"
    and a': "a' = c_InitialTaskState (f d)" "e' = c_InitialTaskResumes (f d)" "c' = c_InitialTaskConversation (f d)"
    using assms(2) unfolding task_update_def by blast
  have old: "c_InitialTaskState d = a" "c_InitialTaskResumes d = e" "c_InitialTaskConversation d = c" unfolding d by simp_all
  have f: "a' \<in> {a, TaskWorking, TaskDone, TaskFailed}" "e \<le> e'"
    using assms(2) unfolding task_update_def a' old [symmetric] by blast+
  have c': "c' = c \<or> c = [] \<and> validConversationID c'" using assms(5) unfolding a' old .
  have "f d = d0\<lparr>c_InitialTaskState := a', c_InitialTaskError := b', c_InitialTaskConversation := c',
      c_InitialTaskResumes := e', c_UpdatedAt := u'\<rparr>"
    unfolding fd by (simp add: d)
  then show ?thesis
    unfolding task_step_def using assms(3,4) ok f c' by auto
qed

lemma keeps_moved_update:
  assumes "live_task s0 cid" and "task_update f" and "\<And>d. P d \<Longrightarrow> c_ID d = cid"
    and "\<And>d. P d \<Longrightarrow> c_InitialTaskConversation (f d) = c_InitialTaskConversation d
      \<or> c_InitialTaskConversation d = [] \<and> validConversationID (c_InitialTaskConversation (f d))"
  shows "keeps (tasks_moved s0) (exec (sql_update t_containers t_containers_update uq P f))"
proof (rule moved.keeps_exec)
  fix s a t assume m: "tasks_moved s0 s" and u: "sql_update t_containers t_containers_update uq P f s = Inr (a, t)"
  have one: "task_step d0 (if P d then f d else d)" if "d0 \<in> set (t_containers s0)" "task_step d0 d" for d0 d
  proof (cases "P d")
    case True
    then have "c_ID d0 = cid" using assms(3) task_step_id [OF that(2)] by simp
    with assms(1) that(1) have "TaskInProgress (c_InitialTaskState d0)" "c_Status d0 = ''running''"
      by (auto simp: live_task_def list_all_iff)
    with task_step_update [OF that(2) assms(2)] assms(4) [OF True] True show ?thesis by simp
  qed (simp add: that)
  have "list_all2 task_step (t_containers s0) (map (\<lambda>d. if P d then f d else d) (t_containers s))"
    using m one unfolding tasks_moved_def by (simp add: list_all2_conv_all_nth)
  moreover have "t = s\<lparr>t_containers := map (\<lambda>d. if P d then f d else d) (t_containers s)\<rparr>"
    using u by (auto simp: sql_update_def Let_def split: if_splits)
  ultimately show "tasks_moved s0 t" using m by (simp add: tasks_moved_def db_same_def)
qed

lemma moved_writes:
  assumes "live_task s0 cid"
  shows "st \<in> {TaskWorking, TaskDone, TaskFailed} \<Longrightarrow> keeps (tasks_moved s0) (SetInitialTaskState cid st r)"
    and "validConversationID cv \<Longrightarrow> keeps (tasks_moved s0) (SetInitialTaskConversation cid cv)"
    and "keeps (tasks_moved s0) (CountInitialTaskResume cid)"
proof -
  show "keeps (tasks_moved s0) (SetInitialTaskState cid st r)" if "st \<in> {TaskWorking, TaskDone, TaskFailed}"
    unfolding SetInitialTaskState_def update_container_def void_def with_now_def
    by (intro keeps_rules keeps_moved_update [OF assms]) (use that in \<open>auto simp: task_update_def\<close>)
  show "keeps (tasks_moved s0) (SetInitialTaskConversation cid cv)" if "validConversationID cv"
    unfolding SetInitialTaskConversation_def with_now_def
    by (intro keeps_rules keeps_moved_update [OF assms]) (use that in \<open>auto simp: task_update_def\<close>)
  show "keeps (tasks_moved s0) (CountInitialTaskResume cid)"
    unfolding CountInitialTaskResume_def with_now_def
  proof (intro keeps_rules moved.keeps_exec)
    fix now :: int and s a t
    let ?u = "sql_update t_containers t_containers_update uq_containers (\<lambda>c. c_ID c = cid)
       (\<lambda>c. c\<lparr>c_InitialTaskResumes := c_InitialTaskResumes c + 1, c_UpdatedAt := now\<rparr>)"
    assume m: "tasks_moved s0 s" and "(case ?u s of Inl e \<Rightarrow> Inl e | Inr (_, s') \<Rightarrow>
        (case find (\<lambda>c. c_ID c = cid) (t_containers s') of None \<Rightarrow> Inl ErrNoRows | Some c \<Rightarrow> Inr (c_InitialTaskResumes c, s'))) = Inr (a, t)"
    then obtain n where u: "?u s = Inr (n, t)" by (auto split: sum.splits option.splits)
    have "keeps (tasks_moved s0) (exec ?u)" by (rule keeps_moved_update [OF assms]) (auto simp: task_update_def)
    then have "tasks_moved s0 (snd (exec ?u (s\<lparr>faults := []\<rparr>)))" using m by (simp add: keepsD)
    moreover have "?u (s\<lparr>faults := []\<rparr>) = Inr (n, t\<lparr>faults := []\<rparr>)"
      using u by (auto simp: sql_update_def Let_def split: if_splits)
    ultimately show "tasks_moved s0 t" by (simp add: exec_no_fault)
  qed
qed

text \<open>What the questions to the agent can answer.\<close>

lemma found_valid: "findConversationByTask rt n task s = (Inr i, t) \<Longrightarrow> i = [] \<or> validConversationID i"
  unfolding findConversationByTask_def Let_def by (elim bindE_InrE) (auto split: if_splits)

lemma report_state: "report_failure rt turn c s = (Inr a, t) \<Longrightarrow> fst a = TaskFailed"
  unfolding report_failure_def by (elim bindE_InrE) auto

lemma attempt_InrE:
  assumes "attempt m h f s = (Inr b, t)"
  obtains e s' where "m s = (Inl e, s')" "h e s' = (Inr b, t)" | a s' where "m s = (Inr a, s')" "f a s' = (Inr b, t)"
  using assms by (auto simp: attempt_def split: prod.splits sum.splits)

lemma resolve_state: "resolveFailedTurn rt c s = (Inr a, t) \<Longrightarrow> fst a \<in> {TaskWorking, TaskFailed}"
  unfolding resolveFailedTurn_def
  by (elim bindE_InrE) (auto split: if_splits elim!: bindE_InrE attempt_InrE dest: report_state)

lemma poll_state: "pollTaskState rt c s = (Inr a, t) \<Longrightarrow> fst a \<in> {TaskWorking, TaskDone, TaskFailed}"
  unfolding pollTaskState_def
  by (elim bindE_InrE) (auto split: option.splits if_splits dest: resolve_state)

lemma adopt_id:
  "adoptConversation rt c s = (Inr c', t) \<Longrightarrow> c_ID c' = c_ID c \<and> c_IncusName c' = c_IncusName c \<and> c_OwnerID c' = c_OwnerID c
     \<and> c_InitialTaskResumes c' = c_InitialTaskResumes c"
  unfolding adoptConversation_def by (auto split: if_splits elim!: bindE_InrE)

lemma moved_refresh:
  assumes "live_task s0 (c_ID c0)"
  shows "keeps (tasks_moved s0) (RefreshTaskState rt c0)"
proof -
  note w = moved_writes [OF assms]
  have adopt: "keeps (tasks_moved s0) (adoptConversation rt c0)"
    unfolding adoptConversation_def
  proof (rule keeps_if, rule keeps_ret)
    show "keeps (tasks_moved s0) (bindE (findConversationByTask rt (c_IncusName c0) (c_InitialTask c0)) (\<lambda>found.
        if found = []
        then bindE (SetInitialTaskState (c_ID c0) TaskFailed lostConversationReason)
          (\<lambda>_. ret (c0\<lparr>c_InitialTaskState := TaskFailed, c_InitialTaskError := lostConversationReason\<rparr>))
        else bindE (SetInitialTaskConversation (c_ID c0) found) (\<lambda>_. ret (c0\<lparr>c_InitialTaskConversation := found\<rparr>))))"
    proof (rule keeps_bindE_value [where R = "\<lambda>i. i = [] \<or> validConversationID i"])
      show "keeps (tasks_moved s0) (findConversationByTask rt (c_IncusName c0) (c_InitialTask c0))"
        unfolding findConversationByTask_def queryAgentDB_def Let_def by (intro keeps_rules)
      show "i = [] \<or> validConversationID i" if "findConversationByTask rt (c_IncusName c0) (c_InitialTask c0) s = (Inr i, t)" for s i t
        using that by (rule found_valid)
    qed (auto intro!: keeps_rules w)
  qed
  have report: "keeps (tasks_moved s0) (report_failure rt turn c)" for turn c
    unfolding report_failure_def taskErrorText_def queryAgentDB_def Let_def by (intro keeps_rules)
  have resolve: "keeps (tasks_moved s0) (resolveFailedTurn rt c)" if "c_ID c = c_ID c0" for c
    unfolding resolveFailedTurn_def failedTurnDetails_def resumeConversation_def queryAgentDB_def that
    by (intro keeps_rules w report)
  have poll: "keeps (tasks_moved s0) (pollTaskState rt c)" if "c_ID c = c_ID c0" for c
    unfolding pollTaskState_def queryAgentDB_def by (intro keeps_rules resolve that)
  have after: "keeps (tasks_moved s0) (bindE (pollTaskState rt c) (\<lambda>(state, reason).
      if state = c_InitialTaskState c \<and> reason = c_InitialTaskError c then ret () else SetInitialTaskState (c_ID c) state reason))"
    if "c_ID c = c_ID c0" for c
    by (rule keeps_bindE_value [OF poll [OF that] poll_state]) (auto simp: that intro!: keeps_rules w split: prod.splits)
  have whole: "keeps (tasks_moved s0) (bindE m (\<lambda>c. if c_InitialTaskConversation c = [] then ret ()
        else if \<not> validConversationID (c_InitialTaskConversation c) then raise (ErrRuntime ''refusing conversation ID'')
        else bindE (pollTaskState rt c) (\<lambda>(state, reason).
          if state = c_InitialTaskState c \<and> reason = c_InitialTaskError c then ret ()
          else SetInitialTaskState (c_ID c) state reason)))"
    if "keeps (tasks_moved s0) m" "\<And>s c t. m s = (Inr c, t) \<Longrightarrow> c_ID c = c_ID c0" for m
    by (rule keeps_bindE_value [OF that]) (auto intro!: keeps_rules after)
  show ?thesis
    unfolding RefreshTaskState_def
    by (intro keeps_rules whole adopt) (auto dest: adopt_id split: if_splits)
qed

lemma moved_refresh_all:
  "list_all (\<lambda>c. live_task s0 (c_ID c)) cs \<Longrightarrow> keeps (tasks_moved s0) (refresh_all rt cs)"
  by (induction cs) (auto intro!: keeps_rules moved_refresh)

text \<open>C23: following tasks changes only tasks in progress.  Under any answers of the VMs and any database
  failures, a round of RefreshTaskStates changes no other table, and in the table of VMs only the task
  columns of running VMs whose task was in progress; such a task stays, or becomes working, done or
  failed, its conversation is kept, or found by a valid identifier if it had none, and no resume that was
  counted is forgotten.  A task that is pending, done or failed is never touched.\<close>

theorem RefreshTaskStates_moves:
  fixes s :: "'r gateway"
  assumes "uniq_ok s"
  shows "tasks_moved s (snd (RefreshTaskStates rt s))"
proof -
  let ?Q = "\<lambda>c. (c_InitialTaskState c = TaskSent \<or> c_InitialTaskState c = TaskWorking) \<and> c_Status c = ''running''"
  have live: "live_task s (c_ID d)" if "d \<in> set (t_containers s)" "?Q d" for d
  proof -
    have "e = d" if "e \<in> set (t_containers s)" "c_ID e = c_ID d" for e
      using distinct_map_eqD [of c_ID "t_containers s" e d] assms that \<open>d \<in> set _\<close> by (simp add: uniq_ok_def uq_containers_def)
    with that(2) show ?thesis by (auto simp: live_task_def list_all_iff TaskInProgress_def)
  qed
  obtain r t where l: "ListContainersWithTaskInProgress s = (r, t)" by (rule prod.exhaust)
  have moved: "tasks_moved s t"
  proof -
    have "keeps (tasks_moved s) ListContainersWithTaskInProgress" unfolding containers_defs by (intro keeps_rules)
    from keepsD [OF this tasks_moved_refl] show ?thesis by (simp add: l)
  qed
  show ?thesis
  proof (cases r)
    case (Inr cs)
    have "list_all (\<lambda>c. live_task s (c_ID c)) cs"
      using l Inr live unfolding ListContainersWithTaskInProgress_def list_containers_def
      by (auto elim!: bindE_InrE dest!: containers.rows_ok simp: list_all_iff scanContainer_def)
    with moved Inr l show ?thesis using keepsD [OF moved_refresh_all, of s cs t rt] by (simp add: RefreshTaskStates_def)
  qed (use moved l in \<open>simp add: RefreshTaskStates_def\<close>)
qed

section \<open>The resume budget\<close>

text \<open>A request to resume that the agent of a VM answered.\<close>

definition answered_resume :: "string \<Rightarrow> call \<Rightarrow> bool" where
  "answered_resume vm c \<longleftrightarrow> cl_VM c = vm \<and> cl_Args c \<noteq> [] \<and> hd (cl_Args c) = ''curl'' \<and> (case cl_Answer c of Inl _ \<Rightarrow> False | Inr _ \<Rightarrow> True)"

definition resumes_answered :: "string \<Rightarrow> call list \<Rightarrow> int" where
  "resumes_answered vm log = int (length (filter (answered_resume vm) log))"

text \<open>Every answered request is charged to its VM, no VM is charged more than the budget, and the VMs
  still to be visited are as they were listed.\<close>

definition budget_inv :: "call list \<Rightarrow> container list \<Rightarrow> 'r traced gateway \<Rightarrow> bool" where
  "budget_inv old rem s \<longleftrightarrow> faults s = [] \<and> uq_containers (t_containers s)
     \<and> (\<exists>new. snd (g_rt s) = old @ new
         \<and> (\<forall>d\<in>set (t_containers s). resumes_answered (c_IncusName d) new \<le> c_InitialTaskResumes d))
     \<and> (\<forall>d\<in>set (t_containers s). c_InitialTaskResumes d \<le> maxTaskResumes)
     \<and> (\<forall>c\<in>set rem. \<exists>d\<in>set (t_containers s). c_ID d = c_ID c \<and> c_IncusName d = c_IncusName c
          \<and> c_InitialTaskResumes d = c_InitialTaskResumes c)"

lemma budget_tail: "budget_inv old (c # rem) s \<Longrightarrow> budget_inv old rem s"
  by (simp add: budget_inv_def)

lemma budget_listed:
  "budget_inv old rem s \<Longrightarrow> c \<in> set rem \<Longrightarrow> \<exists>d\<in>set (t_containers s). c_ID d = c_ID c \<and> c_IncusName d = c_IncusName c
     \<and> c_InitialTaskResumes d = c_InitialTaskResumes c"
  by (simp add: budget_inv_def)

lemma budget_call:
  assumes "argv \<noteq> []" and "hd argv \<noteq> ''curl''"
  shows "keeps (budget_inv old rem) (guest (logged rt) name argv)"
proof (rule keepsI)
  fix s :: "'a traced gateway" assume b: "budget_inv old rem s"
  obtain r x where e: "rt_Exec rt name argv (fst (g_rt s)) = (r, x)" by (rule prod.exhaust)
  let ?c = "\<lparr>cl_VM = name, cl_Args = argv, cl_Answer = map_sum id id r\<rparr>"
  have "snd (guest (logged rt) name argv s) = s\<lparr>g_rt := (x, snd (g_rt s) @ [?c])\<rparr>"
    by (simp add: guest_def rt_call_def note_call_def e)
  moreover have "resumes_answered vm (new @ [?c]) = resumes_answered vm new" for vm new
    using assms by (simp add: resumes_answered_def answered_resume_def)
  ultimately show "budget_inv old rem (snd (guest (logged rt) name argv s))"
    using b by (auto simp: budget_inv_def)
qed

text \<open>A write of task columns that keeps the count.\<close>

lemma budget_update:
  assumes "\<And>d. c_ID (f d) = c_ID d" "\<And>d. c_IncusName (f d) = c_IncusName d" "\<And>d. c_OwnerID (f d) = c_OwnerID d"
    "\<And>d. c_Name (f d) = c_Name d" "\<And>d. c_InitialTaskResumes (f d) = c_InitialTaskResumes d"
  shows "keeps (budget_inv old rem) (exec (sql_update t_containers t_containers_update uq_containers P f))"
proof (rule keepsI)
  fix s :: "'a traced gateway" assume b: "budget_inv old rem s"
  define g where "g = (\<lambda>d. if P d then f d else d)"
  have g: "c_ID (g d) = c_ID d" "c_IncusName (g d) = c_IncusName d" "c_OwnerID (g d) = c_OwnerID d" "c_Name (g d) = c_Name d"
    "c_InitialTaskResumes (g d) = c_InitialTaskResumes d" for d
    by (simp_all add: g_def assms)
  have u: "uq_containers (map g (t_containers s))" using b by (subst uq_containers_map) (auto simp: g budget_inv_def)
  have "snd (exec (sql_update t_containers t_containers_update uq_containers P f) s) = s\<lparr>t_containers := map g (t_containers s)\<rparr>"
    using b u by (simp add: budget_inv_def exec_no_fault sql_update_def Let_def g_def)
  then show "budget_inv old rem (snd (exec (sql_update t_containers t_containers_update uq_containers P f) s))"
    using b u unfolding budget_inv_def by (simp add: g)
qed

lemma budget_writes:
  "keeps (budget_inv old rem) (SetInitialTaskState cid st r)" "keeps (budget_inv old rem) (SetInitialTaskConversation cid cv)"
  unfolding SetInitialTaskState_def SetInitialTaskConversation_def update_container_def void_def with_now_def
  by (intro keeps_rules budget_update; simp)+

lemma budget_asks:
  "keeps (budget_inv old rem) (queryAgentDB (logged rt) n q)"
  "keeps (budget_inv old rem) (adoptConversation (logged rt) c)"
  "keeps (budget_inv old rem) (failedTurnDetails (logged rt) n cv)"
  "keeps (budget_inv old rem) (report_failure (logged rt) turn c)"
proof -
  show q: "keeps (budget_inv old rem) (queryAgentDB (logged rt) n q)" for n q
    unfolding queryAgentDB_def by (rule budget_call) simp_all
  show "keeps (budget_inv old rem) (adoptConversation (logged rt) c)"
    unfolding adoptConversation_def findConversationByTask_def Let_def by (intro keeps_rules q budget_writes)
  show "keeps (budget_inv old rem) (failedTurnDetails (logged rt) n cv)"
    unfolding failedTurnDetails_def by (intro keeps_rules q)
  show "keeps (budget_inv old rem) (report_failure (logged rt) turn c)"
    unfolding report_failure_def taskErrorText_def Let_def by (intro keeps_rules q)
qed

text \<open>The one place where a request goes out: the VM it goes to had budget left, and is charged.\<close>

lemma budget_charge:
  fixes s :: "'r traced gateway"
  assumes "budget_inv old (c # rem) s" and "c_InitialTaskResumes c < maxTaskResumes" and "c_ID c \<notin> c_ID ` set rem"
    and "snd (g_rt s1) = snd (g_rt s) @ [k]" and "s1 = s\<lparr>g_rt := g_rt s1\<rparr>" and "cl_VM k = c_IncusName c"
  shows "\<exists>n t. CountInitialTaskResume (c_ID c) s1 = (Inr n, t) \<and> budget_inv old rem t"
proof -
  let ?cs = "t_containers s"
  let ?f = "\<lambda>d. d\<lparr>c_InitialTaskResumes := c_InitialTaskResumes d + 1, c_UpdatedAt := clock s\<rparr>"
  define g :: "container \<Rightarrow> container" where "g = (\<lambda>d. if c_ID d = c_ID c then ?f d else d)"
  have g [simp]: "c_ID (g e) = c_ID e" "c_IncusName (g e) = c_IncusName e" "c_OwnerID (g e) = c_OwnerID e" "c_Name (g e) = c_Name e"
    "c_InitialTaskResumes (g e) = (if c_ID e = c_ID c then c_InitialTaskResumes e + 1 else c_InitialTaskResumes e)" for e
    by (simp_all add: g_def)
  obtain d where d: "d \<in> set ?cs" "c_ID d = c_ID c" "c_IncusName d = c_IncusName c" "c_InitialTaskResumes d = c_InitialTaskResumes c"
    using assms(1) by (auto simp: budget_inv_def)
  have uq: "uq_containers ?cs" and nf: "faults s1 = []" and cl: "clock s1 = clock s" and tc: "t_containers s1 = ?cs"
    using assms(1) by (auto simp: budget_inv_def) (subst assms(5), simp)+
  have u: "uq_containers (map g ?cs)" using uq by (subst uq_containers_map) auto
  have gd: "g d = ?f d" using d by (simp add: g_def)
  then have "?f d \<in> set (map g ?cs)" using d by (metis image_eqI set_map)
  from uq_containers_find_id [OF u this] have f: "find (\<lambda>e. c_ID e = c_ID c) (map g ?cs) = Some (?f d)" using d by simp
  let ?t = "s1\<lparr>t_containers := map g ?cs\<rparr>"
  have run: "CountInitialTaskResume (c_ID c) s1 = (Inr (c_InitialTaskResumes d + 1), ?t)"
    unfolding CountInitialTaskResume_def with_now_run cl exec_no_fault [OF nf] sql_update_def Let_def tc g_def [symmetric] using u f by simp
  obtain new where new: "snd (g_rt s) = old @ new"
    "\<And>e. e \<in> set ?cs \<Longrightarrow> resumes_answered (c_IncusName e) new \<le> c_InitialTaskResumes e"
    using assms(1) by (auto simp: budget_inv_def)
  have vm: "e = d" if "e \<in> set ?cs" "c_IncusName e = c_IncusName c" for e
    using distinct_map_eqD [of c_IncusName ?cs e d] uq that d by (simp add: uq_containers_def)
  have cid: "e = d" if "e \<in> set ?cs" "c_ID e = c_ID c" for e
    using distinct_map_eqD [of c_ID ?cs e d] uq that d by (simp add: uq_containers_def)
  have count: "resumes_answered (c_IncusName e) (new @ [k]) \<le> c_InitialTaskResumes (g e)" if "e \<in> set ?cs" for e
    using new(2) [OF that] vm [OF that] cid [OF that] d assms(6)
    by (cases "c_IncusName e = c_IncusName c") (auto simp: resumes_answered_def answered_resume_def)
  have cap: "c_InitialTaskResumes (g e) \<le> maxTaskResumes" if "e \<in> set ?cs" for e
    using assms(1,2) cid [OF that] d that by (auto simp: budget_inv_def)
  have rest: "\<exists>e\<in>set ?cs. c_ID (g e) = c_ID c' \<and> c_IncusName (g e) = c_IncusName c' \<and> c_InitialTaskResumes (g e) = c_InitialTaskResumes c'"
    if c': "c' \<in> set rem" for c'
  proof -
    obtain e where "e \<in> set ?cs" "c_ID e = c_ID c'" "c_IncusName e = c_IncusName c'" "c_InitialTaskResumes e = c_InitialTaskResumes c'"
      using budget_listed [OF budget_tail [OF assms(1)] c'] by blast
    moreover have "c_ID e \<noteq> c_ID c" using \<open>c_ID e = c_ID c'\<close> assms(3) c' by (metis image_eqI)
    ultimately show ?thesis by (intro bexI [of _ e]) auto
  qed
  have "budget_inv old rem ?t"
    unfolding budget_inv_def
  proof (intro conjI ballI)
    show "faults ?t = []" "uq_containers (t_containers ?t)" using nf u by simp_all
    show "\<exists>new'. snd (g_rt ?t) = old @ new' \<and> (\<forall>e\<in>set (t_containers ?t). resumes_answered (c_IncusName e) new' \<le> c_InitialTaskResumes e)"
      using count by (intro exI [of _ "new @ [k]"]) (auto simp: assms(4) new(1))
    show "c_InitialTaskResumes e \<le> maxTaskResumes" if "e \<in> set (t_containers ?t)" for e using that cap by auto
    show "\<exists>e\<in>set (t_containers ?t). c_ID e = c_ID c' \<and> c_IncusName e = c_IncusName c' \<and> c_InitialTaskResumes e = c_InitialTaskResumes c'"
      if "c' \<in> set rem" for c' using rest [OF that] by auto
  qed
  with run show ?thesis by blast
qed

lemma hoare_tail: "keeps (budget_inv old rem) m \<Longrightarrow> hoare (budget_inv old (c # rem)) m (\<lambda>_. budget_inv old rem) (\<lambda>_. budget_inv old rem)"
  unfolding keeps_hoare by (erule hoare_conseq) (auto intro: budget_tail)

lemma budget_resume:
  fixes rt :: "'r runtime"
  assumes "c_InitialTaskResumes c < maxTaskResumes" and "c_ID c \<notin> c_ID ` set rem" and "\<And>a b. keeps (budget_inv old rem) (f a b)"
  shows "hoare (budget_inv old (c # rem)) (bindE (resumeConversation (logged rt) c) (\<lambda>resumed.
      attempt (CountInitialTaskResume (c_ID c)) (h resumed) (f resumed))) (\<lambda>_. budget_inv old rem) (\<lambda>_. budget_inv old rem)"
    (is "hoare _ ?m _ _")
proof -
  have "budget_inv old rem (snd (?m s))" if b: "budget_inv old (c # rem) s" for s
  proof -
    let ?args = "resume_args (c_InitialTaskConversation c) (c_OwnerID c)"
    obtain r x where e: "rt_Exec rt (c_IncusName c) ?args (fst (g_rt s)) = (r, x)" by (rule prod.exhaust)
    let ?k = "\<lparr>cl_VM = c_IncusName c, cl_Args = ?args, cl_Answer = map_sum id id r\<rparr>"
    let ?s = "s\<lparr>g_rt := (x, snd (g_rt s) @ [?k])\<rparr>"
    have g: "guest (logged rt) (c_IncusName c) ?args s = (r, ?s)" by (simp add: guest_def rt_call_def note_call_def e)
    show ?thesis
    proof (cases r)
      case (Inl err)
      have "resumes_answered vm (new @ [?k]) = resumes_answered vm new" for vm new
        using Inl by (simp add: resumes_answered_def answered_resume_def)
      then have "budget_inv old rem ?s" using b by (auto simp: budget_inv_def)
      then show ?thesis using g Inl by (simp add: resumeConversation_def)
    next
      case (Inr out)
      obtain n t where "CountInitialTaskResume (c_ID c) ?s = (Inr n, t)" "budget_inv old rem t"
        using budget_charge [OF b assms(1,2), of ?s ?k] by auto
      then show ?thesis using g Inr keepsD [OF assms(3)] by (simp add: resumeConversation_def)
    qed
  qed
  then show ?thesis by (rule hoare_sndI)
qed

lemma budget_refresh:
  assumes "c_ID c0 \<notin> c_ID ` set rem"
  shows "hoare (budget_inv old (c0 # rem)) (RefreshTaskState (logged rt) c0) (\<lambda>_. budget_inv old rem) (\<lambda>_. budget_inv old rem)"
proof -
  let ?I = "\<lambda>_. budget_inv old rem"
  have resolve: "hoare (budget_inv old (c # rem)) (resolveFailedTurn (logged rt) c) ?I ?I" if "c_ID c \<notin> c_ID ` set rem" for c
    unfolding resolveFailedTurn_def
  proof (rule hoare_bindE)
    show "hoare (budget_inv old (c # rem)) (failedTurnDetails (logged rt) (c_IncusName c) (c_InitialTaskConversation c))
        (\<lambda>_. budget_inv old (c # rem)) ?I"
      by (rule hoare_keep [OF budget_asks(3) budget_tail])
    show "hoare (budget_inv old (c # rem))
        (if resumable turn (c_InitialTaskResumes c)
         then bindE (resumeConversation (logged rt) c) (\<lambda>resumed.
           attempt (CountInitialTaskResume (c_ID c)) (\<lambda>e. if resumed then ret (TaskWorking, []) else raise e)
             (\<lambda>spent. if resumed then ret (TaskWorking, []) else report_failure (logged rt) turn (c\<lparr>c_InitialTaskResumes := spent\<rparr>)))
         else report_failure (logged rt) turn c) ?I ?I" for turn
      by (rule hoare_if, rule budget_resume [OF _ that]) (auto simp: resumable_def intro!: keeps_rules hoare_tail budget_asks(4))
  qed
  have poll: "hoare (budget_inv old (c # rem)) (pollTaskState (logged rt) c) ?I ?I" if "c_ID c \<notin> c_ID ` set rem" for c
    unfolding pollTaskState_def
    by (rule hoare_bindE [OF hoare_keep [OF budget_asks(1) budget_tail]])
       (auto split: option.split intro!: hoare_raise hoare_ret resolve that intro: budget_tail)
  have rest: "hoare (budget_inv old (c # rem)) (if c_InitialTaskConversation c = [] then ret ()
        else if \<not> validConversationID (c_InitialTaskConversation c) then raise (ErrRuntime ''refusing conversation ID'')
        else bindE (pollTaskState (logged rt) c) (\<lambda>(state, reason).
          if state = c_InitialTaskState c \<and> reason = c_InitialTaskError c then ret ()
          else SetInitialTaskState (c_ID c) state reason)) ?I ?I" if "c_ID c \<notin> c_ID ` set rem" for c
  proof (intro hoare_if hoare_ret hoare_raise hoare_bindE [OF poll [OF that]])
    show "hoare (budget_inv old rem) (case a of (state, reason) \<Rightarrow>
          if state = c_InitialTaskState c \<and> reason = c_InitialTaskError c then ret ()
          else SetInitialTaskState (c_ID c) state reason) ?I ?I" for a
      unfolding keeps_hoare [symmetric] by (cases a) (auto intro!: keeps_rules budget_writes)
  qed (erule budget_tail)+
  let ?same = "\<lambda>c. c_ID c = c_ID c0 \<and> c_IncusName c = c_IncusName c0 \<and> c_InitialTaskResumes c = c_InitialTaskResumes c0"
  have same: "budget_inv old (c # rem) s = budget_inv old (c0 # rem) s" if "?same c" for c and s :: "'a traced gateway"
    using that by (simp add: budget_inv_def)
  have pick: "hoare (budget_inv old (c0 # rem)) (if c_InitialTaskConversation c0 = [] then adoptConversation (logged rt) c0 else ret c0)
      (\<lambda>c s. ?same c \<and> budget_inv old (c # rem) s) ?I"
  proof (rule hoare_if)
    show "hoare (budget_inv old (c0 # rem)) (adoptConversation (logged rt) c0) (\<lambda>c s. ?same c \<and> budget_inv old (c # rem) s) ?I"
    proof (rule hoareI)
      fix s :: "'a traced gateway" and e t
      assume "budget_inv old (c0 # rem) s" "adoptConversation (logged rt) c0 s = (Inl e, t)"
      then show "budget_inv old rem t" using keepsD [OF budget_asks(2), of old "c0 # rem" s rt c0] by (auto intro: budget_tail)
    next
      fix s :: "'a traced gateway" and c t
      assume "budget_inv old (c0 # rem) s" "adoptConversation (logged rt) c0 s = (Inr c, t)"
      then have "budget_inv old (c0 # rem) t" and s: "?same c"
        using keepsD [OF budget_asks(2), of old "c0 # rem" s rt c0] adopt_id [of "logged rt" c0 s c t] by simp_all
      with same [OF s] show "?same c \<and> budget_inv old (c # rem) t" by simp
    qed
  qed (simp add: hoare_ret)
  show ?thesis
    unfolding RefreshTaskState_def
  proof (rule hoare_if, rule hoare_ret, erule budget_tail, rule hoare_bindE [OF pick])
    fix c
    show "hoare (\<lambda>s. ?same c \<and> budget_inv old (c # rem) s) (if c_InitialTaskConversation c = [] then ret ()
        else if \<not> validConversationID (c_InitialTaskConversation c) then raise (ErrRuntime ''refusing conversation ID'')
        else bindE (pollTaskState (logged rt) c) (\<lambda>(state, reason).
          if state = c_InitialTaskState c \<and> reason = c_InitialTaskError c then ret ()
          else SetInitialTaskState (c_ID c) state reason)) ?I ?I"
    proof (rule hoare_pre_pure)
      assume "?same c"
      then have "c_ID c \<notin> c_ID ` set rem" using assms by simp
      then show "hoare (budget_inv old (c # rem)) (if c_InitialTaskConversation c = [] then ret ()
        else if \<not> validConversationID (c_InitialTaskConversation c) then raise (ErrRuntime ''refusing conversation ID'')
        else bindE (pollTaskState (logged rt) c) (\<lambda>(state, reason).
          if state = c_InitialTaskState c \<and> reason = c_InitialTaskError c then ret ()
          else SetInitialTaskState (c_ID c) state reason)) ?I ?I" by (rule rest)
    qed
  qed
qed

lemma budget_all:
  "distinct (map c_ID cs) \<Longrightarrow>
   hoare (budget_inv old cs) (refresh_all (logged rt) cs) (\<lambda>_. budget_inv old []) (\<lambda>_. budget_inv old [])"
proof (induction cs)
  case Nil
  show ?case unfolding refresh_all.simps by (rule hoare_ret)
next
  case (Cons c cs)
  then have "hoare (budget_inv old (c # cs)) (RefreshTaskState (logged rt) c) (\<lambda>_. budget_inv old cs) (\<lambda>_. budget_inv old cs)"
    by (intro budget_refresh) simp
  then have "hoare (budget_inv old (c # cs)) (attempt (RefreshTaskState (logged rt) c) (\<lambda>_. ret ()) ret)
      (\<lambda>_. budget_inv old cs) (\<lambda>_. budget_inv old [])"
    by (rule hoare_attempt) (rule hoare_ret, assumption)+
  with Cons show ?case unfolding refresh_all.simps by (auto intro: hoare_bindE)
qed

lemma budget_round: "keeps (budget_inv old []) (RefreshTaskStates (logged rt))"
proof (rule keepsI)
  fix s :: "'a traced gateway" assume b: "budget_inv old [] s"
  let ?Q = "\<lambda>c. (c_InitialTaskState c = TaskSent \<or> c_InitialTaskState c = TaskWorking) \<and> c_Status c = ''running''"
  let ?cs = "map scanContainer (sort_key c_UpdatedAt (filter ?Q (t_containers s)))"
  have l: "ListContainersWithTaskInProgress s = (Inr ?cs, s)"
    using b by (simp add: ListContainersWithTaskInProgress_def list_containers_def bindE_def exec_no_fault sql_rows_def budget_inv_def)
  have sc: "c_ID (scanContainer d) = c_ID d" "c_IncusName (scanContainer d) = c_IncusName d"
    "c_InitialTaskResumes (scanContainer d) = c_InitialTaskResumes d" for d by (simp_all add: scanContainer_def)
  have "distinct (map c_ID (t_containers s))" using b by (simp add: budget_inv_def uq_containers_def)
  then have "distinct (map c_ID ?cs)" by (auto simp: distinct_map inj_on_def sc)
  moreover have "budget_inv old ?cs s" using b by (auto simp: budget_inv_def sc)
  ultimately have "budget_inv old [] (snd (refresh_all (logged rt) ?cs s))" by (rule hoare_snd [OF budget_all])
  then show "budget_inv old [] (snd (RefreshTaskStates (logged rt) s))" by (simp add: RefreshTaskStates_def l)
qed

lemma budget_monitor: "keeps (budget_inv old []) (MonitorTasks (logged rt) n)"
  by (induction n) (simp_all only: MonitorTasks.simps, (intro keeps_rules budget_round, assumption?)+)

text \<open>C24: a task that keeps failing is not fed forever.  While the database works, that is when no statement of these rounds
  fails, however many rounds MonitorTasks runs and whatever the VMs answer, the agent of a VM answers at most maxTaskResumes
  requests to resume, and every answered request is charged to the VM's row.  A failing database is excluded: where the
  statement that charges a resume fails after the agent answered it, that resume is not charged.\<close>

theorem resume_budget:
  fixes s :: "'r traced gateway"
  assumes "faults s = []" and "uniq_ok s"
    and "list_all (\<lambda>d. 0 \<le> c_InitialTaskResumes d \<and> c_InitialTaskResumes d \<le> maxTaskResumes) (t_containers s)"
  shows "\<exists>new. snd (g_rt (snd (MonitorTasks (logged rt) n s))) = snd (g_rt s) @ new
    \<and> list_all (\<lambda>d. resumes_answered (c_IncusName d) new \<le> c_InitialTaskResumes d \<and> c_InitialTaskResumes d \<le> maxTaskResumes)
        (t_containers (snd (MonitorTasks (logged rt) n s)))"
proof -
  have "budget_inv (snd (g_rt s)) [] s"
    using assms by (auto simp: budget_inv_def resumes_answered_def uniq_ok_def list_all_iff)
  from keepsD [OF budget_monitor this, of rt n] show ?thesis
    unfolding budget_inv_def list_all_iff by blast
qed

end
