(* ===== verification/Task_Delivery.thy ===== *)
theory Task_Delivery
  imports Task_Monitor
begin

text \<open>
  Handing over the initial task happens once: the proof that \<open>DeliverInitialTask\<close> always leaves a pending
  task sent or failed while the database works, and instances of the properties of \<open>Task_Monitor\<close>.
\<close>

section \<open>Steps that leave the VMs alone\<close>

definition calm :: "container list \<Rightarrow> 'z store_scheme \<Rightarrow> bool" where
  "calm cs s \<longleftrightarrow> faults s = [] \<and> t_containers s = cs"

lemma calm_exec:
  assumes "\<And>s a t. f s = Inr (a, t) \<Longrightarrow> t = s"
  shows "keeps (calm cs) (exec f)"
proof (rule keepsI)
  fix s :: "'a store_scheme" assume "calm cs s"
  then show "calm cs (snd (exec f s))"
    using assms by (auto simp: calm_def exec_no_fault split: sum.splits prod.splits)
qed

lemma calm_query [keeps_rules]:
  "keeps (calm cs) (exec (sql_row get P))" "keeps (calm cs) (exec (sql_rows get P))"
  "keeps (calm cs) (exec (sql_value f))"
  by (rule calm_exec, auto simp: sql_row_def sql_rows_def sql_value_def split: option.splits)+

lemma calm_guest [keeps_rules]: "keeps (calm cs) (guest rt name argv)" "keeps (calm cs) (writeGuestFile rt name p d)"
  unfolding guest_def writeGuestFile_def void_def
  by (intro keeps_rules keepsI; simp add: rt_call_def calm_def split: prod.split)+

lemma calm_steps [keeps_rules]:
  "keeps (calm cs) (UserDefaultModel u)" "keeps (calm cs) (OwnerModelIDs u)"
  "keeps (calm cs) (resolveTaskModel js rt name own plat chosen)"
  unfolding UserDefaultModel_def OwnerModelIDs_def ownerModelIDs_def resolveTaskModel_def listGuestModels_def readConfiguredModel_def
  by (intro keeps_rules)+

lemma calm_of_result [keeps_rules]: "keeps (calm cs) (of_result r)"
  by (cases r) (simp_all add: of_result_def keeps_def)

section \<open>Delivery settles a pending task\<close>

definition task_row :: "'z store_scheme \<Rightarrow> string \<Rightarrow> (container \<Rightarrow> bool) \<Rightarrow> bool" where
  "task_row s cid P \<longleftrightarrow> faults s = [] \<and> uq_containers (t_containers s) \<and> (\<exists>d\<in>set (t_containers s). c_ID d = cid \<and> P d)"

lemma task_row_mono: "task_row s cid P \<Longrightarrow> (\<And>d. P d \<Longrightarrow> Q d) \<Longrightarrow> task_row s cid Q"
  unfolding task_row_def by blast

lemma update_settles:
  assumes "calm cs s" and "uq_containers cs" and "d \<in> set cs"
    and "\<And>e. c_ID (f e) = c_ID e" "\<And>e. c_IncusName (f e) = c_IncusName e" "\<And>e. c_OwnerID (f e) = c_OwnerID e" "\<And>e. c_Name (f e) = c_Name e"
  shows "\<exists>n t. update_container (c_ID d) f s = (Inr n, t) \<and> task_row t (c_ID d) (\<lambda>e. e = (f d)\<lparr>c_UpdatedAt := clock s\<rparr>)"
proof -
  let ?h = "\<lambda>e. (f e)\<lparr>c_UpdatedAt := clock s\<rparr>"
  define g where "g = (\<lambda>e. if c_ID e = c_ID d then ?h e else e)"
  have u: "uq_containers (map g cs)" using assms(2) by (subst uq_containers_map) (simp_all add: g_def assms(4-7))
  have s: "faults s = []" "t_containers s = cs" using assms(1) by (simp_all add: calm_def)
  have "update_container (c_ID d) f s = (Inr (length (filter (\<lambda>e. c_ID e = c_ID d) cs)), s\<lparr>t_containers := map g cs\<rparr>)"
    unfolding update_container_def with_now_run exec_no_fault [OF s(1)] sql_update_def Let_def s(2) g_def [symmetric] using u by simp
  moreover have "?h d \<in> set (map g cs)" using assms(3) by (auto simp: g_def intro!: image_eqI [of _ _ d])
  ultimately show ?thesis using u s(1) by (auto simp: task_row_def assms(4))
qed

definition delivered :: "container \<Rightarrow> bool" where
  "delivered d \<longleftrightarrow> c_InitialTaskState d = TaskSent \<and> validConversationID (c_InitialTaskConversation d)
     \<and> c_InitialTaskError d = [] \<and> c_InitialTaskResumes d = 0"

definition failed_with :: "dberr \<Rightarrow> container \<Rightarrow> bool" where
  "failed_with e d \<longleftrightarrow> c_InitialTaskState d = TaskFailed \<and> e = ErrRuntime (c_InitialTaskError d)"

lemma hoare_fail_task:
  assumes "uq_containers cs" and "d \<in> set cs" and "c_ID c = c_ID d"
  shows "hoare (calm cs) (fail_task c reason) Q (\<lambda>e s. task_row s (c_ID d) (failed_with e))"
proof (rule hoareI)
  fix s :: "'a gateway" and e t assume s: "calm cs s" and r: "fail_task c reason s = (Inl e, t)"
  obtain n t' where u: "update_container (c_ID d) (\<lambda>x. x\<lparr>c_InitialTaskState := TaskFailed, c_InitialTaskError := reason\<rparr>) s = (Inr n, t')"
    and row: "task_row t' (c_ID d) (\<lambda>e. e = d\<lparr>c_InitialTaskState := TaskFailed, c_InitialTaskError := reason\<rparr>\<lparr>c_UpdatedAt := clock s\<rparr>)"
    using update_settles [OF s assms(1,2), of "\<lambda>x. x\<lparr>c_InitialTaskState := TaskFailed, c_InitialTaskError := reason\<rparr>"] by auto
  from u r have "t = t'" "e = ErrRuntime reason"
    by (simp_all add: fail_task_def SetInitialTaskState_def void_def assms(3) attempt_def)
  with row show "task_row t (c_ID d) (failed_with e)" by (auto simp: failed_with_def elim!: task_row_mono)
qed (auto simp: fail_task_def attempt_def split: prod.splits sum.splits)

lemma hoare_or_fail:
  assumes "uq_containers cs" and "d \<in> set cs" and "c_ID c = c_ID d" and "keeps (calm cs) m"
    and "\<And>a. hoare (calm cs) (f a) Q (\<lambda>e s. task_row s (c_ID d) (failed_with e))"
  shows "hoare (calm cs) (or_fail c m reason f) Q (\<lambda>e s. task_row s (c_ID d) (failed_with e))"
  unfolding or_fail_def
  by (rule hoare_attempt [OF assms(4) [unfolded keeps_hoare]]) (rule hoare_fail_task [OF assms(1-3)], rule assms(5))

lemma delivered_run:
  assumes "uq_containers cs" and "d \<in> set cs" and "c_ID c = c_ID d" and "validConversationID conv" and s: "calm cs s"
  shows "\<exists>t. SetInitialTaskDelivered (c_ID c) conv s = (Inr (), t) \<and> task_row t (c_ID d) delivered"
proof -
  let ?f = "\<lambda>x. x\<lparr>c_InitialTaskState := TaskSent, c_InitialTaskError := [], c_InitialTaskConversation := conv, c_InitialTaskResumes := 0\<rparr>"
  obtain n t where u: "update_container (c_ID d) ?f s = (Inr n, t)"
    and row: "task_row t (c_ID d) (\<lambda>e. e = (?f d)\<lparr>c_UpdatedAt := clock s\<rparr>)"
    using update_settles [OF s assms(1,2), of ?f] by auto
  have "task_row t (c_ID d) delivered" using row by (rule task_row_mono) (simp add: delivered_def assms(4))
  with u show ?thesis by (simp add: SetInitialTaskDelivered_def void_def assms(3))
qed

lemma hoare_delivered:
  assumes "uq_containers cs" and "d \<in> set cs" and "c_ID c = c_ID d" and "validConversationID conv"
  shows "hoare (calm cs) (SetInitialTaskDelivered (c_ID c) conv) (\<lambda>_ s. task_row s (c_ID d) delivered)
    (\<lambda>e s. task_row s (c_ID d) (failed_with e))"
  by (rule hoareI) (use delivered_run [OF assms] in fastforce)+

lemma parse_valid: "parseConversationID js out = Inr i \<Longrightarrow> validConversationID i"
  by (auto simp: parseConversationID_def split: option.splits if_splits)

lemma deliver_settles:
  assumes "uq_containers cs" and "d \<in> set cs" and "c_ID c = c_ID d"
    and "c_InitialTask c \<noteq> []" and "c_InitialTaskState c = TaskPending"
  shows "hoare (calm cs) (DeliverInitialTask uni ae (Some rt) c cfg) (\<lambda>_ s. task_row s (c_ID d) delivered)
    (\<lambda>e s. task_row s (c_ID d) (failed_with e))"
proof -
  note fl = hoare_fail_task [OF assms(1-3)] and orf = hoare_or_fail [OF assms(1-3)]
  have parsed: "hoare (calm cs) (or_fail c (of_result (parseConversationID js out)) r (\<lambda>conv. SetInitialTaskDelivered (c_ID c) conv))
      (\<lambda>_ s. task_row s (c_ID d) delivered) (\<lambda>e s. task_row s (c_ID d) (failed_with e))" for js out r
  proof (cases "parseConversationID js out")
    case (Inl e)
    then show ?thesis using fl by (simp add: or_fail_def of_result_def hoare_def attempt_def)
  next
    case (Inr i)
    then show ?thesis using hoare_delivered [OF assms(1-3) parse_valid]
      by (simp add: or_fail_def of_result_def hoare_def attempt_def)
  qed
  show ?thesis
    unfolding DeliverInitialTask_def using assms(4,5)
    by (simp, intro conjI impI fl orf parsed hoare_if keeps_rules)
qed

text \<open>C22: a task is handed over once.  While the database works, delivering a pending task of a stored VM
  ends in one of two ways: the task is sent, in a conversation with a valid identifier and with a fresh
  resume budget, or it is failed with the reason the error names, so the owner can retry it; it is never
  left pending.  Delivering again then does nothing at all, inside the VM or out.\<close>

theorem deliver_once:
  fixes s t :: "'r gateway"
  assumes "faults s = []" and "uniq_ok s" and "d \<in> set (t_containers s)"
    and "c_InitialTask d \<noteq> []" and "c_InitialTaskState d = TaskPending"
    and "DeliverInitialTask uni ae (Some rt) (scanContainer d) cfg s = (r, t)"
  shows "\<exists>d'\<in>set (t_containers t). c_ID d' = c_ID d
    \<and> (case r of Inr _ \<Rightarrow> delivered d' | Inl e \<Rightarrow> failed_with e d')
    \<and> DeliverInitialTaskByID uni ae (Some rt) (c_ID d) cfg t = (Inr (), t)"
proof -
  let ?P = "\<lambda>x. case r of Inr _ \<Rightarrow> delivered x | Inl e \<Rightarrow> failed_with e x"
  have uq: "uq_containers (t_containers s)" using assms(2) by (simp add: uniq_ok_def)
  have h: "hoare (calm (t_containers s)) (DeliverInitialTask uni ae (Some rt) (scanContainer d) cfg)
      (\<lambda>_ s. task_row s (c_ID d) delivered) (\<lambda>e s. task_row s (c_ID d) (failed_with e))"
    by (rule deliver_settles [OF uq assms(3)]) (simp_all add: scanContainer_def assms(4,5))
  have c: "calm (t_containers s) s" using assms(1) by (simp add: calm_def)
  have "task_row t (c_ID d) ?P"
  proof (cases r)
    case (Inl e)
    then show ?thesis using hoare_Inl [OF h c] assms(6) by simp
  next
    case (Inr u)
    then show ?thesis using hoare_Inr [OF h c] assms(6) by simp
  qed
  then obtain d' where d': "d' \<in> set (t_containers t)" "c_ID d' = c_ID d" "?P d'" and t: "faults t = []" "uq_containers (t_containers t)"
    by (auto simp: task_row_def)
  have "c_InitialTaskState d' \<noteq> TaskPending"
    using d'(3) by (auto simp: delivered_def failed_with_def task_states split: sum.splits)
  moreover have "find (\<lambda>x. c_ID x = c_ID d) (t_containers t) = Some d'"
    using uq_containers_find_id [OF t(2) d'(1)] d'(2) by simp
  ultimately have "DeliverInitialTaskByID uni ae (Some rt) (c_ID d) cfg t = (Inr (), t)"
    using t(1) by (simp add: DeliverInitialTaskByID_def GetContainerByID_def get_container_def bindE_def attempt_def exec_no_fault
        sql_row_def DeliverInitialTask_def scanContainer_def)
  with d' show ?thesis by blast
qed

section \<open>Instances\<close>

definition task_vm :: "string \<Rightarrow> string \<Rightarrow> container" where
  "task_vm st conv = (demo_vm ''c1'' ''web'' ''u1'')\<lparr>c_InitialTask := ''build it'', c_InitialTaskState := st, c_InitialTaskConversation := conv\<rparr>"

definition task_gw :: "'r \<Rightarrow> string \<Rightarrow> string \<Rightarrow> 'r gateway" where
  "task_gw x st conv = \<lparr>t_users = [demo_user ''u1'' ''user''], t_sessions = [], t_containers = [task_vm st conv], t_aliases = [],
     t_keys = [], t_links = [], t_settings = [], t_sshkeys = [], t_access = [], fk_on = True, clock = 0, faults = [],
     g_rt = x, g_dns = demo_verifier, g_keys = Map.empty\<rparr>"

text \<open>A VM that answers every command alike, and an agent that opens conversation c-1.\<close>

definition saying :: "string \<Rightarrow> unit runtime" where
  "saying out = demo_rt\<lparr>rt_Exec := (\<lambda>_ _. ret out)\<rparr>"

definition task_env :: "unit agent_env" where
  "task_env = \<lparr>ae_Files = None, ae_Host = \<lparr>h_AgentBinary = [], h_ReadFile = (\<lambda>_. NotExist), h_ExecutableDir = None\<rparr>,
     ae_Json = demo_json\<lparr>js_Field := (\<lambda>k _. if k = ''conversation_id'' then Some ''c-1'' else None)\<rparr>, ae_Sha256 = id, ae_Route = None,
     ae_Guide = (\<lambda>_ _. []), ae_Error = (\<lambda>_. []), ae_Waits = \<lparr>w_Systemd = 1, w_Start = 1, w_DB = 1, w_HTTP = 1\<rparr>, ae_Locked = True\<rparr>"

lemma task_gw_facts:
  "faults (task_gw x st conv) = []" "uniq_ok (task_gw x st conv)" "task_vm st conv \<in> set (t_containers (task_gw x st conv))"
  by (simp_all add: task_gw_def demo_gw_def uniq_ok_def uq_defs)

lemma trims: "TrimSpace ''gpt'' = ''gpt''" "TrimSpace ''0|agent'' = ''0|agent''" by code_simp+

lemma saying_guest: "guest (saying out) name argv (s :: unit gateway) = (Inr out, s)"
  by (cases s) (simp add: guest_def rt_call_def saying_def)

theorem RefreshTaskStates_moves_witness:
  "tasks_moved (task_gw () TaskSent ''c-1'') (snd (RefreshTaskStates (saying ''0|agent'') (task_gw () TaskSent ''c-1'')))
   \<and> map c_InitialTaskState (t_containers (snd (RefreshTaskStates (saying ''0|agent'') (task_gw () TaskSent ''c-1'')))) = [TaskDone]"
proof -
  let ?s = "task_gw () TaskSent ''c-1''"
  have v: "validConversationID ''c-1''" by code_simp
  have "ListContainersWithTaskInProgress ?s = (Inr [task_vm TaskSent ''c-1''], ?s)"
    by (simp add: ListContainersWithTaskInProgress_def list_containers_def run_defs task_gw_def demo_gw_def task_vm_def demo_vm_def
        scanContainer_def)
  then have "map c_InitialTaskState (t_containers (snd (RefreshTaskStates (saying ''0|agent'') ?s))) = [TaskDone]"
    by (simp add: RefreshTaskStates_def RefreshTaskState_def TaskInProgress_def pollTaskState_def queryAgentDB_def bindE_def attempt_def
        saying_guest trims v task_vm_def demo_vm_def SetInitialTaskState_def update_container_def run_defs task_gw_def demo_gw_def Let_def
        uq_containers_def TaskSent_def TaskDone_def)
  moreover have "tasks_moved ?s (snd (RefreshTaskStates (saying ''0|agent'') ?s))"
    by (rule RefreshTaskStates_moves) (rule task_gw_facts)
  ultimately show ?thesis by (intro conjI)
qed

theorem resume_budget_witness:
  "\<exists>new. snd (g_rt (snd (MonitorTasks (logged (saying ''0|error'')) 9 (task_gw ((), []) TaskSent ''c-1'')))) = new
     \<and> list_all (\<lambda>d. resumes_answered (c_IncusName d) new \<le> c_InitialTaskResumes d \<and> c_InitialTaskResumes d \<le> maxTaskResumes)
        (t_containers (snd (MonitorTasks (logged (saying ''0|error'')) 9 (task_gw ((), []) TaskSent ''c-1''))))"
proof -
  let ?s = "task_gw ((), [] :: call list) TaskSent ''c-1''"
  have h: "list_all (\<lambda>d. 0 \<le> c_InitialTaskResumes d \<and> c_InitialTaskResumes d \<le> maxTaskResumes) (t_containers ?s)"
    by (simp add: task_gw_def task_vm_def demo_vm_def maxTaskResumes_def)
  have n: "snd (g_rt ?s) @ new = new" for new by (simp add: task_gw_def)
  show ?thesis
    using resume_budget [OF task_gw_facts(1,2) h, of "saying ''0|error''" 9] unfolding n .
qed

theorem deliver_once_witness:
  "\<exists>t. DeliverInitialTask id task_env (Some (saying ''gpt'')) (task_vm TaskPending []) None (task_gw () TaskPending []) = (Inr (), t)
     \<and> DeliverInitialTaskByID id task_env (Some (saying ''gpt'')) ''c1'' None t = (Inr (), t)"
proof -
  let ?s = "task_gw () TaskPending []" and ?d = "task_vm TaskPending []" and ?rt = "saying ''gpt''"
  have d: "scanContainer ?d = ?d" "c_ID ?d = ''c1''" "c_InitialTask ?d \<noteq> []" "c_InitialTaskState ?d = TaskPending" "c_OwnerID ?d = ''u1''"
    by (simp_all add: task_vm_def demo_vm_def scanContainer_def)
  have p: "parseConversationID (ae_Json task_env) out = Inr ''c-1''" for out
    by (simp add: parseConversationID_def task_env_def) code_simp
  have own: "UserDefaultModel ''u1'' ?s = (Inr [], ?s)" "\<exists>ms. OwnerModelIDs ''u1'' ?s = (Inr ms, ?s)"
    by (simp_all add: UserDefaultModel_def OwnerModelIDs_def ownerModelIDs_def run_defs task_gw_def demo_user_def)
  then obtain ms where ms: "OwnerModelIDs ''u1'' ?s = (Inr ms, ?s)" by blast
  have m: "\<exists>model. resolveTaskModel (ae_Json task_env) ?rt n ms [] [] ?s = (Inr model, ?s) \<and> model \<noteq> []" for n
  proof -
    have l: "listGuestModels ?rt n ?s = (Inr [''gpt''], ?s)" by (simp add: listGuestModels_def bindE_def saying_guest trims)
    have c: "\<exists>x. readConfiguredModel (ae_Json task_env) ?rt n ?s = (Inr x, ?s)" by (simp add: readConfiguredModel_def attempt_def saying_guest)
    then obtain x where c: "readConfiguredModel (ae_Json task_env) ?rt n ?s = (Inr x, ?s)" by blast
    have "desiredModel [''gpt''] ms [] [] x \<noteq> []"
      using desiredModel_reachable [of "[''gpt'']" ms "[]" "[]" x] by (auto simp: reachable_def)
    with l c show ?thesis by (simp add: resolveTaskModel_def bindE_def)
  qed
  obtain model where model: "resolveTaskModel (ae_Json task_env) ?rt (c_IncusName ?d) ms [] [] ?s = (Inr model, ?s)" "model \<noteq> []"
    using m by blast
  have w: "writeGuestFile ?rt n path data ?s = (Inr (), ?s)" for n path data
    using saying_guest [of "''gpt''" n _ ?s] by (simp add: writeGuestFile_def void_def guest_def bindE_def)
  have v: "validConversationID ''c-1''" by code_simp
  have "uq_containers [?d]" "calm [?d] ?s" by (simp_all add: uq_containers_def calm_def task_gw_def)
  then obtain t where del: "SetInitialTaskDelivered ''c1'' ''c-1'' ?s = (Inr (), t)"
    using delivered_run [of "[?d]" ?d ?d "''c-1''" ?s] v d(2) by auto
  have "ae_Locked task_env" by (simp add: task_env_def)
  then have r: "DeliverInitialTask id task_env (Some ?rt) (scanContainer ?d) None ?s = (Inr (), t)"
    using d own(1) ms model w del p by (simp add: DeliverInitialTask_def or_fail_def attempt_def gatewayModelIDs_def saying_guest of_result_def)
  show ?thesis using deliver_once [OF task_gw_facts d(3,4) r] r unfolding d by blast
qed

end
