(* ===== verification/Api_Auth.thy ===== *)
theory Api_Auth
  imports Alias_Manager Task_Delivery
begin

text \<open>
  The HTTP API's requests, responses and server, the session and guest checks of
  \<^verbatim>\<open>src/internal/api/middleware.go\<close>, and the sign-in pages of \<^verbatim>\<open>auth.go\<close>.

  A handler returns a response; its only error is \<open>ErrPanic\<close>, which \<^verbatim>\<open>middleware.Recoverer\<close>
  answers.  The request carries what the handler draws besides the wire: the identifier of the next
  \<^verbatim>\<open>uuid.New()\<close> and the bytes of \<^verbatim>\<open>crypto/rand\<close>.  The server holds its
  dependencies; bcrypt, the JSON decoders of the request bodies and the parser of SSH keys are arguments.
\<close>

section \<open>Requests and responses\<close>

record api_request =
  ar_Method :: string
  ar_Path :: string
  ar_RequestURI :: string
  ar_Accept :: string
  ar_Session :: "string option"
  ar_Next :: string
  ar_Domain :: string
  ar_FormOK :: bool
  ar_Email :: string
  ar_Password :: string
  ar_Confirm :: string
  ar_Body :: string
  ar_ContentLength :: int
  ar_UUID :: string
  ar_Random :: "string option"

record user_response =
  ur_ID :: string
  ur_Email :: string
  ur_DisplayName :: string
  ur_Role :: string
  ur_CreatedAt :: int

datatype body =
    NoBody
  | Message string
  | Page string
  | Containers "container list"
  | OneContainer container
  | ShareLink string string "int option"
  | ShareLinks "sharedlink list"
  | OneAlias calias
  | AliasList "calias list"
  | AllAliases "alias_with_owner list"
  | KeyList "apikey list"
  | Identifier string
  | ModelList "string list" string
  | ModelChoice string
  | SshKeys "sshkey list"
  | UserBody user_response
  | UserList "user_response list"

record response =
  rs_Status :: nat
  rs_Body :: body
  rs_Location :: "string option"
  rs_Cookie :: "string option"

type_synonym 'r http = "('r gateway, dberr, response) sm"

definition respond :: "nat \<Rightarrow> body \<Rightarrow> 'r http" where
  "respond st b = ret \<lparr>rs_Status = st, rs_Body = b, rs_Location = None, rs_Cookie = None\<rparr>"

definition http_error :: "string \<Rightarrow> nat \<Rightarrow> 'r http" where
  "http_error msg st = respond st (Message msg)"

definition see_other :: "string \<Rightarrow> string option \<Rightarrow> 'r http" where
  "see_other dest cookie = ret \<lparr>rs_Status = 303, rs_Body = NoBody, rs_Location = Some dest, rs_Cookie = cookie\<rparr>"

text \<open>The bodies a handler decodes.\<close>

record create_request =
  cr_Name :: string
  cr_Image :: string
  cr_CPULimit :: int
  cr_MemoryMB :: int
  cr_DiskGB :: int
  cr_InitialTask :: string
  cr_Nesting :: "bool option"

record key_request =
  kr_Provider :: string
  kr_BaseURL :: string
  kr_Models :: string
  kr_Key :: string
  kr_Protocol :: string

record decoders =
  dc_Create :: "string \<Rightarrow> create_request option"
  dc_Publish :: "string \<Rightarrow> (int \<times> bool) option"
  dc_Share :: "string \<Rightarrow> int option option"
  dc_Alias :: "string \<Rightarrow> string option"
  dc_Key :: "string \<Rightarrow> key_request option"
  dc_Model :: "string \<Rightarrow> string option"
  dc_SshKey :: "string \<Rightarrow> (string \<times> string) option"

record 'r server =
  sv_Runtime :: "'r runtime"
  sv_Env :: "'r agent_env"
  sv_Materializer :: "materializer option"
  sv_LLM :: "llm_config option"
  sv_EncKey :: string
  sv_Domain :: string
  sv_Aliases :: "'r manager"
  sv_Lower :: "string \<Rightarrow> string"
  sv_ParseURL :: "string \<Rightarrow> url option"
  sv_Seal :: "string \<Rightarrow> string \<Rightarrow> string \<Rightarrow> string"
  sv_Compare :: "string \<Rightarrow> string \<Rightarrow> bool"
  sv_Hash :: "string \<Rightarrow> string option"
  sv_Fingerprint :: "string \<Rightarrow> string option"
  sv_Error :: "dberr \<Rightarrow> string"
  sv_Decode :: decoders

section \<open>Who is asking\<close>

definition authenticate :: "api_request \<Rightarrow> ('r, user option) gwm" where
  "authenticate r =
     (case ar_Session r of
        None \<Rightarrow> ret None
      | Some tok \<Rightarrow>
          if tok = [] then ret None
          else attempt (GetSession tok) (\<lambda>_. ret None)
            (\<lambda>sess. attempt (GetUserByID (s_UserID sess)) (\<lambda>_. ret None) (\<lambda>u. ret (Some u))))"

definition wantsHTML :: "api_request \<Rightarrow> bool" where
  "wantsHTML r \<longleftrightarrow> \<not> (HasPrefix (ar_Path r) ''/api/'' \<or> HasPrefix (ar_Path r) ''/metrics'')
     \<and> (Contains (ar_Accept r) ''text/html'' \<or> ar_Accept r = [])"

definition guestRequestAllowed :: "string \<Rightarrow> string \<Rightarrow> bool" where
  "guestRequestAllowed verb path0 \<longleftrightarrow>
     (let path = TrimSuffix path0 ''/'' in
      if path = ''/api/ssh-keys'' \<or> HasPrefix path ''/api/ssh-keys/'' \<or> path = ''/dashboard/ssh-keys''
        \<or> HasPrefix path ''/dashboard/ssh-keys/'' then True
      else if verb \<noteq> ''GET'' then False
      else if path \<in> {''/api/me'', ''/api/containers'', ''/dashboard'', ''/dashboard/vms'', ''/dashboard/vms/list''} then True
      else case CutPrefix path ''/api/containers/'' of
        Some rest \<Rightarrow> rest \<noteq> [] \<and> \<not> Contains rest ''/''
      | None \<Rightarrow>
          (case CutPrefix path ''/dashboard/vms/'' of
             Some rest \<Rightarrow>
               (let parts = Split rest CHR ''/'' in
                if length parts = 1 then hd parts \<noteq> [] \<and> hd parts \<noteq> ''create''
                else length parts = 2 \<and> parts ! 1 \<in> {''shell'', ''ws'', ''card''})
           | None \<Rightarrow> False))"

definition AuthMiddleware :: "api_request \<Rightarrow> (user \<Rightarrow> 'r http) \<Rightarrow> 'r http" where
  "AuthMiddleware r next = bindE (authenticate r) (\<lambda>who.
     case who of
       None \<Rightarrow>
         if wantsHTML r
         then see_other (''/login'' @ (if ar_Path r \<noteq> [] then ''?next='' @ ar_RequestURI r else [])) None
         else http_error ''unauthorized'' 401
     | Some u \<Rightarrow>
         if u_Role u = GuestRole \<and> \<not> guestRequestAllowed (ar_Method r) (ar_Path r)
         then http_error ''guest accounts may only use assigned VMs and manage their SSH keys'' 403
         else next u)"

definition AdminMiddleware :: "user \<Rightarrow> 'r http \<Rightarrow> 'r http" where
  "AdminMiddleware u next = (if u_Role u \<noteq> ''admin'' then http_error ''forbidden'' 403 else next)"

definition OwnershipMiddleware :: "api_request \<Rightarrow> user \<Rightarrow> string \<Rightarrow> 'r http \<Rightarrow> 'r http" where
  "OwnershipMiddleware r u cid next =
     attempt (GetContainerByID cid)
       (\<lambda>e. if e = ErrNoRows then http_error ''container not found'' 404 else http_error ''internal error'' 500)
       (\<lambda>c. if c_OwnerID c = u_ID u then next
            else if ar_Method r = ''GET'' \<and> TrimSuffix (ar_Path r) ''/'' = ''/api/containers/'' @ cid
            then bindE (CanUseContainer (c_ID c) (u_ID u)) (\<lambda>can. if can then next else http_error ''forbidden'' 403)
            else http_error ''forbidden'' 403)"

section \<open>Signing in\<close>

definition noUsersYet :: "('z, bool) dbm" where
  "noUsersYet = bindE CountUsers (\<lambda>n. ret (n = 0))"

definition safeRedirectPath :: "string \<Rightarrow> string" where
  "safeRedirectPath next =
     (if next = [] then ''/dashboard/''
      else if \<not> HasPrefix next ''/'' \<or> HasPrefix next ''//'' then ''/dashboard/''
      else if Contains next [CHR 0x5C] then ''/dashboard/''
      else next)"

definition loginGet :: "'r http" where
  "loginGet = attempt noUsersYet (\<lambda>_. respond 200 (Page [])) (\<lambda>allow. respond 200 (Page (if allow then ''register'' else [])))"

definition form_email :: "'r server \<Rightarrow> api_request \<Rightarrow> string" where
  "form_email sv r = TrimSpace (ToLower (sv_Lower sv) (ar_Email r))"

definition loginPost :: "'r server \<Rightarrow> api_request \<Rightarrow> 'r http" where
  "loginPost sv r =
     (if \<not> ar_FormOK r then http_error ''bad request'' 400
      else attempt (GetUserByEmail (form_email sv r))
        (\<lambda>e. if e = ErrNoRows then respond 401 (Page ''Invalid email or password.'') else http_error ''internal error'' 500)
        (\<lambda>u. if u_PasswordHash u = [] then respond 401 (Page ''Account has no password set. Contact the operator.'')
             else if \<not> sv_Compare sv (u_PasswordHash u) (ar_Password r) then respond 401 (Page ''Invalid email or password.'')
             else attempt (CreateSession (ar_Random r) (u_ID u)) (\<lambda>_. http_error ''internal error'' 500)
               (\<lambda>sess. see_other (safeRedirectPath (ar_Next r)) (Some (s_Token sess)))))"

definition logoutPost :: "api_request \<Rightarrow> 'r http" where
  "logoutPost r =
     bindE (case ar_Session r of
              None \<Rightarrow> ret ()
            | Some tok \<Rightarrow> if tok = [] then ret () else attempt (DeleteSession tok) (\<lambda>_. ret ()) ret)
       (\<lambda>_. see_other ''/login'' (Some []))"

definition registerGet :: "'r http" where
  "registerGet = attempt noUsersYet (\<lambda>_. http_error ''internal error'' 500)
     (\<lambda>allow. if \<not> allow then see_other ''/login'' None else respond 200 (Page []))"

definition registerPost :: "'r server \<Rightarrow> api_request \<Rightarrow> 'r http" where
  "registerPost sv r = attempt noUsersYet (\<lambda>_. http_error ''internal error'' 500) (\<lambda>allow.
     if \<not> allow then see_other ''/login'' None
     else if \<not> ar_FormOK r then http_error ''bad request'' 400
     else if \<not> Contains (form_email sv r) ''@'' then respond 400 (Page ''Enter a valid email address.'')
     else if length (ar_Password r) < 8 then respond 400 (Page ''Password must be at least 8 characters.'')
     else if ar_Password r \<noteq> ar_Confirm r then respond 400 (Page ''Passwords do not match.'')
     else case sv_Hash sv (ar_Password r) of
       None \<Rightarrow> http_error ''internal error'' 500
     | Some hash \<Rightarrow>
         attempt (CreateUser \<lparr>u_ID = ar_UUID r, u_Email = form_email sv r, u_DisplayName = [], u_Role = ''admin'',
             u_PasswordHash = hash, u_DefaultModel = [], u_CreatedAt = 0\<rparr>)
           (\<lambda>e. respond 400 (Page (''Could not create user: '' @ sv_Error sv e)))
           (\<lambda>_. attempt (CreateSession (ar_Random r) (ar_UUID r)) (\<lambda>_. http_error ''internal error'' 500)
              (\<lambda>sess. see_other ''/dashboard/'' (Some (s_Token sess)))))"

end
