(* ===== verification/Api_Vms.thy ===== *)
theory Api_Vms
  imports Api_Auth
begin

text \<open>
  The handlers that act on a VM: \<^verbatim>\<open>handlers.go\<close>, \<^verbatim>\<open>publish.go\<close>,
  \<^verbatim>\<open>shared.go\<close> and \<^verbatim>\<open>aliases.go\<close> of \<^verbatim>\<open>src/internal/api\<close>.
  Every route of one VM runs behind \<open>OwnershipMiddleware\<close>.

  \<open>doRecreate\<close> is the goroutine \<open>recreateContainer\<close> starts; the handler's model runs it before it
  answers.  What a \<^verbatim>\<open>log.Printf\<close> reports is not a value.
\<close>

section \<open>Reading a VM\<close>

text \<open>The first lines of most handlers.\<close>

definition with_vm :: "string \<Rightarrow> (container \<Rightarrow> 'r http) \<Rightarrow> 'r http" where
  "with_vm cid f = attempt (GetContainerByID cid)
     (\<lambda>e. if e = ErrNoRows then http_error ''not found'' 404 else http_error ''internal error'' 500) f"

definition listContainers :: "user \<Rightarrow> 'r http" where
  "listContainers u = attempt (ListAccessibleContainers (u_ID u)) (\<lambda>_. http_error ''internal error'' 500)
     (\<lambda>cs. bindE (AttachNestingPolicy cs) (\<lambda>(cs', _). respond 200 (Containers cs')))"

definition getContainer :: "string \<Rightarrow> 'r http" where
  "getContainer cid = with_vm cid (\<lambda>c. bindE (AttachNestingPolicy [c]) (\<lambda>(cs, _). respond 200 (OneContainer (hd cs))))"

section \<open>Creating\<close>

definition DefaultImage :: string where "DefaultImage = ''svkexe-base''"

definition fill_defaults :: "create_request \<Rightarrow> create_request" where
  "fill_defaults q = q\<lparr>cr_CPULimit := (if cr_CPULimit q = 0 then 2 else cr_CPULimit q),
     cr_Image := (if cr_Image q = [] then DefaultImage else cr_Image q),
     cr_MemoryMB := (if cr_MemoryMB q = 0 then 2048 else cr_MemoryMB q),
     cr_DiskGB := (if cr_DiskGB q = 0 then 10 else cr_DiskGB q)\<rparr>"

definition new_container :: "create_request \<Rightarrow> string \<Rightarrow> string \<Rightarrow> rt_container \<Rightarrow> bool \<Rightarrow> container" where
  "new_container q nid owner rtc nesting = \<lparr>c_ID = nid, c_Name = cr_Name q, c_OwnerID = owner, c_IncusName = rc_Name rtc,
     c_Status = rc_Status rtc, c_IPAddress = rc_IP rtc, c_CPULimit = cr_CPULimit q, c_MemoryMB = cr_MemoryMB q,
     c_DiskGB = cr_DiskGB q, c_AppPort = 0, c_AppPublic = False, c_InitialTask = cr_InitialTask q, c_InitialTaskState = [],
     c_InitialTaskError = [], c_InitialTaskConversation = [], c_InitialTaskResumes = 0, c_Nesting = nesting,
     c_NestingApplied = False, c_CreatedAt = 0, c_UpdatedAt = 0, c_SharedAccess = False, c_Aliases = [], c_NestingAllowed = False\<rparr>"

text \<open>A status write whose error is dropped, before a response.\<close>

definition and_status :: "string \<Rightarrow> string \<Rightarrow> string \<Rightarrow> ('r gateway, dberr, 'a) sm \<Rightarrow> ('r gateway, dberr, 'a) sm" where
  "and_status cid st ip f = attempt (UpdateContainerStatus cid st ip) (\<lambda>_. f) (\<lambda>_. f)"

text \<open>From the started instance to the answer.\<close>

definition finish_create :: "'r server \<Rightarrow> container \<Rightarrow> 'r http" where
  "finish_create sv c =
     (let finish = attempt (UpdateContainerStatus (c_ID c) ''running'' (c_IPAddress c))
            (\<lambda>_. http_error ''failed to update status'' 500)
            (\<lambda>_. respond 201 (OneContainer (c\<lparr>c_Status := ''running''\<rparr>))) in
      case sv_Materializer sv of
        None \<Rightarrow> finish
      | Some mz \<Rightarrow>
          catch (SetupContainer (sv_Env sv) (sv_Runtime sv) (Some mz) c (sv_LLM sv))
            (\<lambda>e. and_status (c_ID c) ''error'' (c_IPAddress c) (http_error (''PicoClaw setup failed: '' @ sv_Error sv e) 500))
            (\<lambda>_. bindE (DeliverInitialTaskByID (sv_Lower sv) (sv_Env sv) (Some (sv_Runtime sv)) (c_ID c) (sv_LLM sv)) (\<lambda>_. finish)))"

definition start_created :: "'r server \<Rightarrow> rt_container \<Rightarrow> container \<Rightarrow> 'r http" where
  "start_created sv rtc c =
     (let go = attempt (rt_call (rt_Get (sv_Runtime sv) (rc_Name rtc))) (\<lambda>_. finish_create sv c)
            (\<lambda>x. finish_create sv (c\<lparr>c_IPAddress := rc_IP x\<rparr>)) in
      if EqualFold (rc_Status rtc) ''running'' then go
      else attempt (rt_call (rt_Start (sv_Runtime sv) (rc_Name rtc)))
        (\<lambda>e. and_status (c_ID c) ''stopped'' (c_IPAddress c) (http_error (''failed to start container: '' @ sv_Error sv e) 500))
        (\<lambda>_. go))"

definition make_container :: "'r server \<Rightarrow> user \<Rightarrow> string \<Rightarrow> create_request \<Rightarrow> 'r http" where
  "make_container sv u nid q = attempt NestingAllowed (\<lambda>_. http_error ''internal error'' 500) (\<lambda>allowed.
     let nesting = (case cr_Nesting q of None \<Rightarrow> DefaultNesting | Some b \<Rightarrow> b); effective = allowed \<and> nesting in
     attempt (rt_call (rt_Create (sv_Runtime sv) \<lparr>co_Name = cr_Name q, co_OwnerID = u_ID u, co_Image = cr_Image q,
         co_CPULimit = cr_CPULimit q, co_MemoryMB = cr_MemoryMB q, co_DiskGB = cr_DiskGB q, co_Nesting = effective\<rparr>))
       (\<lambda>e. http_error (''failed to create container: '' @ sv_Error sv e) 500)
       (\<lambda>rtc. attempt (CreateContainer (new_container q nid (u_ID u) rtc nesting))
          (\<lambda>e. if e = ErrUnique then http_error ''container name already exists'' 409 else http_error ''failed to persist container'' 500)
          (\<lambda>c. attempt (MarkStarted c effective) (\<lambda>_. start_created sv rtc c) (\<lambda>c'. start_created sv rtc c'))))"

definition createContainer :: "'r server \<Rightarrow> api_request \<Rightarrow> user \<Rightarrow> 'r http" where
  "createContainer sv r u =
     (case dc_Create (sv_Decode sv) (ar_Body r) of
        None \<Rightarrow> http_error ''invalid request body'' 400
      | Some q \<Rightarrow>
          if cr_Name q = [] then http_error ''name is required'' 400
          else if \<not> ValidContainerName (cr_Name q) then http_error ''invalid container name'' 400
          else attempt (GetContainerByName (cr_Name q) (u_ID u))
            (\<lambda>e. if e \<noteq> ErrNoRows then http_error ''internal error'' 500 else make_container sv u (ar_UUID r) (fill_defaults q))
            (\<lambda>_. http_error ''container name already exists'' 409))"

section \<open>Deleting, starting, stopping\<close>

definition deleteContainer :: "'r server \<Rightarrow> string \<Rightarrow> 'r http" where
  "deleteContainer sv cid = with_vm cid (\<lambda>c.
     attempt (rt_call (rt_Delete (sv_Runtime sv) (c_IncusName c)))
       (\<lambda>e. http_error (''failed to delete container: '' @ sv_Error sv e) 500)
       (\<lambda>_. attempt (DeleteContainer cid) (\<lambda>_. http_error ''failed to remove container record'' 500)
          (\<lambda>_. if sv_Materializer sv = None then respond 204 NoBody
               else attempt (RemoveKeys cid) (\<lambda>_. respond 204 NoBody) (\<lambda>_. respond 204 NoBody))))"

definition finish_start :: "'r server \<Rightarrow> container \<Rightarrow> 'r http" where
  "finish_start sv c =
     (let done = (\<lambda>ip. attempt (UpdateContainerStatus (c_ID c) ''running'' ip)
            (\<lambda>_. http_error ''failed to update status'' 500) (\<lambda>_. respond 204 NoBody)) in
      attempt (rt_call (rt_Get (sv_Runtime sv) (c_IncusName c))) (\<lambda>_. done (c_IPAddress c)) (\<lambda>x. done (rc_IP x)))"

definition boot :: "'r server \<Rightarrow> container \<Rightarrow> 'r http" where
  "boot sv c0 = bindE (PrepareStart (sv_Runtime sv) c0) (\<lambda>(c, _).
     attempt (rt_call (rt_Start (sv_Runtime sv) (c_IncusName c)))
       (\<lambda>e. and_status (c_ID c) ''stopped'' [] (http_error (''failed to start container: '' @ sv_Error sv e) 500))
       (\<lambda>_. case sv_Materializer sv of
          None \<Rightarrow> finish_start sv c
        | Some mz \<Rightarrow>
            catch (SetupContainer (sv_Env sv) (sv_Runtime sv) (Some mz) c (sv_LLM sv))
              (\<lambda>e. and_status (c_ID c) ''error'' (c_IPAddress c) (http_error (''PicoClaw setup failed: '' @ sv_Error sv e) 500))
              (\<lambda>_. bindE (DeliverInitialTaskByID (sv_Lower sv) (sv_Env sv) (Some (sv_Runtime sv)) (c_ID c) (sv_LLM sv))
                 (\<lambda>_. finish_start sv c))))"

definition startContainer :: "'r server \<Rightarrow> string \<Rightarrow> 'r http" where
  "startContainer sv cid = with_vm cid (\<lambda>c.
     case sv_Materializer sv of
       None \<Rightarrow> boot sv c
     | Some mz \<Rightarrow> attempt (RefreshKeys mz cid (c_OwnerID c))
         (\<lambda>e. http_error (''failed to refresh keys: '' @ sv_Error sv e) 500) (\<lambda>_. boot sv c))"

definition stopContainer :: "'r server \<Rightarrow> string \<Rightarrow> 'r http" where
  "stopContainer sv cid = with_vm cid (\<lambda>c.
     attempt (rt_call (rt_Stop (sv_Runtime sv) (c_IncusName c)))
       (\<lambda>e. http_error (''failed to stop container: '' @ sv_Error sv e) 500)
       (\<lambda>_. attempt (UpdateContainerStatus cid ''stopped'' (c_IPAddress c))
          (\<lambda>_. http_error ''failed to update status'' 500) (\<lambda>_. respond 204 NoBody)))"

section \<open>Recreating\<close>

text \<open>The steps up to the removal of the old instance, those that make the new one, and those that bring it up.\<close>

definition revive :: "'r server \<Rightarrow> string \<Rightarrow> container \<Rightarrow> string \<Rightarrow> ('r, unit) gwm" where
  "revive sv cid c backup =
     (let rt = sv_Runtime sv; give_up = (\<lambda>st. and_status cid st [] (ret ())) in
      attempt (rt_call (rt_Start rt (c_IncusName c))) (\<lambda>_. give_up ''stopped'') (\<lambda>_.
      bindE (attempt (rt_call (rt_Get rt (c_IncusName c))) (\<lambda>_. ret []) (\<lambda>x. ret (rc_IP x))) (\<lambda>ip.
      attempt (RestoreData (sv_Env sv) rt (c_IncusName c) backup) (\<lambda>_. give_up ''error'') (\<lambda>_.
      catch (SetupContainer (sv_Env sv) rt (sv_Materializer sv) c (sv_LLM sv)) (\<lambda>_. give_up ''error'') (\<lambda>_.
      and_status cid ''running'' ip (ret ()))))))"

definition rebuild :: "'r server \<Rightarrow> container \<Rightarrow> string \<Rightarrow> ('r, unit) gwm" where
  "rebuild sv c backup =
     bindE (EffectiveNesting c) (\<lambda>(effective, _).
     attempt (rt_call (rt_Create (sv_Runtime sv) \<lparr>co_Name = c_Name c, co_OwnerID = c_OwnerID c, co_Image = DefaultImage,
         co_CPULimit = c_CPULimit c, co_MemoryMB = c_MemoryMB c, co_DiskGB = c_DiskGB c, co_Nesting = effective\<rparr>))
       (\<lambda>_. and_status (c_ID c) ''error'' [] (ret ())) (\<lambda>_.
     bindE (attempt (MarkStarted c effective) (\<lambda>_. ret c) ret) (\<lambda>c'. revive sv (c_ID c) c' backup)))"

definition doRecreate :: "'r server \<Rightarrow> container \<Rightarrow> ('r, unit) gwm" where
  "doRecreate sv c0 =
     (let rt = sv_Runtime sv; give_up = and_status (c_ID c0) ''error'' [] (ret ()) in
      bindE (PrepareStart rt c0) (\<lambda>(c, _).
      attempt (rt_call (rt_Start rt (c_IncusName c))) (\<lambda>_. give_up) (\<lambda>_.
      attempt (BackupData (sv_Env sv) rt (c_IncusName c)) (\<lambda>_. give_up) (\<lambda>backup.
      attempt (rt_call (rt_Stop rt (c_IncusName c))) (\<lambda>_. give_up) (\<lambda>_.
      attempt (rt_call (rt_Delete rt (c_IncusName c))) (\<lambda>_. give_up) (\<lambda>_.
      rebuild sv c backup))))))"

definition recreateContainer :: "'r server \<Rightarrow> string \<Rightarrow> 'r http" where
  "recreateContainer sv cid = with_vm cid (\<lambda>c.
     if c_Status c = ''creating'' \<or> c_Status c = ''recreating'' then http_error ''VM is busy, please wait'' 409
     else and_status cid ''recreating'' (c_IPAddress c)
       (bindE (doRecreate sv c) (\<lambda>_. respond 202 NoBody)))"

section \<open>Publishing and the task\<close>

definition updatePublish :: "'r server \<Rightarrow> api_request \<Rightarrow> string \<Rightarrow> 'r http" where
  "updatePublish sv r cid =
     (case dc_Publish (sv_Decode sv) (ar_Body r) of
        None \<Rightarrow> http_error ''invalid request body'' 400
      | Some (port0, public) \<Rightarrow>
          let port = (if port0 = 0 then DefaultAppPort else port0) in
          if \<not> ValidAppPort port then http_error ''port must be between 1 and 65535 and must not be the agent port'' 400
          else attempt (UpdateContainerPublish cid port public) (\<lambda>_. http_error ''failed to save publish settings'' 500) (\<lambda>_.
            attempt (GetContainerByID cid) (\<lambda>_. http_error ''internal error'' 500) (\<lambda>c.
            attempt (RefreshEnvironmentGuide (ae_Guide (sv_Env sv)) (Some (sv_Runtime sv)) c)
              (\<lambda>_. respond 200 (OneContainer c)) (\<lambda>_. respond 200 (OneContainer c)))))"

definition retryInitialTask :: "'r server \<Rightarrow> string \<Rightarrow> 'r http" where
  "retryInitialTask sv cid =
     attempt (RetryInitialTask cid) (\<lambda>e. http_error (sv_Error sv e) 400) (\<lambda>_.
     bindE (DeliverInitialTaskByID (sv_Lower sv) (sv_Env sv) (Some (sv_Runtime sv)) cid (sv_LLM sv)) (\<lambda>_.
     attempt (GetContainerByID cid) (\<lambda>_. http_error ''internal error'' 500) (\<lambda>c. respond 200 (OneContainer c))))"

section \<open>Share links\<close>

definition createSharedLink :: "'r server \<Rightarrow> api_request \<Rightarrow> user \<Rightarrow> string \<Rightarrow> 'r http" where
  "createSharedLink sv r u cid =
     (let decoded = dc_Share (sv_Decode sv) (ar_Body r) in
      if decoded = None \<and> ar_ContentLength r \<noteq> 0 then http_error ''invalid request body'' 400
      else let expires = (case decoded of None \<Rightarrow> None | Some e \<Rightarrow> e) in
        attempt (GetContainerByID cid) (\<lambda>_. http_error ''internal error'' 500) (\<lambda>c.
        attempt (CreateSharedLink (ar_Random r) (ar_UUID r) cid (u_ID u) expires)
          (\<lambda>_. http_error ''failed to create shared link'' 500)
          (\<lambda>l. respond 201 (ShareLink (l_Token l)
             (''https://'' @ c_Name c @ ''.'' @ sv_Domain sv @ ''/?share='' @ l_Token l) (l_ExpiresAt l)))))"

definition listSharedLinks :: "string \<Rightarrow> 'r http" where
  "listSharedLinks cid = attempt (ListSharedLinksByContainer cid) (\<lambda>_. http_error ''internal error'' 500)
     (\<lambda>ls. respond 200 (ShareLinks ls))"

definition revokeSharedLink :: "user \<Rightarrow> string \<Rightarrow> 'r http" where
  "revokeSharedLink u token =
     (let lost = (\<lambda>e. if e = ErrNoRows then http_error ''not found'' 404 else http_error ''internal error'' 500) in
      if token = [] then http_error ''token is required'' 400
      else attempt (LookupSharedLink token) lost (\<lambda>l.
        attempt (GetContainerByID (l_ContainerID l)) lost (\<lambda>c.
        if c_OwnerID c \<noteq> u_ID u then http_error ''forbidden'' 403
        else attempt (DeleteSharedLinkByToken token) (\<lambda>_. http_error ''failed to revoke shared link'' 500)
          (\<lambda>_. respond 204 NoBody))))"

section \<open>Custom domains\<close>

definition containerForAlias :: "string \<Rightarrow> (container \<Rightarrow> 'r http) \<Rightarrow> 'r http" where
  "containerForAlias cid f = attempt (GetContainerByID cid) (\<lambda>_. http_error ''container not found'' 404) f"

definition writeAliasError :: "'r server \<Rightarrow> alias_err \<Rightarrow> 'r http" where
  "writeAliasError sv e =
     (case e of
        ErrInvalid d \<Rightarrow> http_error (sv_Error sv d) 400
      | ErrNotFound \<Rightarrow> http_error ''alias not found'' 404
      | ErrOther d \<Rightarrow> if d = ErrAliasHostnameTaken \<or> d = ErrAliasAlreadyOnVM then http_error (sv_Error sv d) 409
          else http_error ''internal error'' 500)"

definition listAliases :: "string \<Rightarrow> 'r http" where
  "listAliases cid = containerForAlias cid (\<lambda>c.
     attempt (List_aliases (c_ID c)) (\<lambda>_. http_error ''internal error'' 500) (\<lambda>as. respond 200 (AliasList as)))"

definition createAlias :: "'r server \<Rightarrow> api_request \<Rightarrow> string \<Rightarrow> 'r http" where
  "createAlias sv r cid = containerForAlias cid (\<lambda>c.
     case dc_Alias (sv_Decode sv) (ar_Body r) of
       None \<Rightarrow> http_error ''invalid request body'' 400
     | Some hostname \<Rightarrow> attempt (Add (sv_Lower sv) (sv_Aliases sv) (ar_UUID r) c hostname) (writeAliasError sv)
         (\<lambda>a. respond 201 (OneAlias a)))"

definition verifyAlias :: "'r server \<Rightarrow> string \<Rightarrow> string \<Rightarrow> 'r http" where
  "verifyAlias sv cid aid = containerForAlias cid (\<lambda>c.
     attempt (Recheck (sv_Aliases sv) c aid) (writeAliasError sv) (\<lambda>a. respond 200 (OneAlias a)))"

definition deleteAlias :: "'r server \<Rightarrow> string \<Rightarrow> string \<Rightarrow> 'r http" where
  "deleteAlias sv cid aid = containerForAlias cid (\<lambda>c.
     attempt (Remove (sv_Aliases sv) c aid) (writeAliasError sv) (\<lambda>_. respond 204 NoBody))"

definition maxTLSCheckDomainLen :: nat where "maxTLSCheckDomainLen = 256"

definition tlsCheck :: "'r server \<Rightarrow> api_request \<Rightarrow> 'r http" where
  "tlsCheck sv r =
     (let raw = ar_Domain r; no = http_error ''not a custom domain served by this gateway'' 404 in
      if TrimSpace raw = [] then http_error ''missing domain'' 400
      else if length raw > maxTLSCheckDomainLen then no
      else
        let host = ToLower (sv_Lower sv) (TrimSuffix (TrimSpace raw) ''.'') in
        case ValidAliasHostname (sv_Lower sv) host (sv_Domain sv) of
          Inl _ \<Rightarrow> no
        | Inr _ \<Rightarrow> attempt (GetVerifiedAliasByHostname (sv_Lower sv) host) (\<lambda>_. no) (\<lambda>_. respond 200 NoBody))"

end
