(* ===== verification/Incus_Runtime.thy ===== *)
theory Incus_Runtime
  imports Agent_Setup Go_Numbers
begin

text \<open>
  The container runtime on Incus, \<^verbatim>\<open>src/internal/runtime/incus.go\<close>.

  The Incus client is a record of operations on the daemon's state \<open>'r\<close>.  A call that starts an operation
  on the daemon can fail at once (\<open>Rejected\<close>) or when the operation is waited for (\<open>Aborted\<close>); the text
  is the error's.  A nil map of the client reads like an empty one and is the empty map; the devices of an
  instance are a list of pairs in the order Go happens to visit them.  The output that accompanies a failed
  command is not kept.  Interactive sessions are left out.
\<close>

section \<open>The client\<close>

datatype op_error = Rejected string | Aborted string

record instance_req =
  iq_Name :: string
  iq_Alias :: string
  iq_Profiles :: "string list"
  iq_Config :: "string \<rightharpoonup> string"
  iq_Devices :: "(string \<times> (string \<times> string) list) list"

record incus_instance =
  in_Name :: string
  in_Status :: string
  in_Config :: "string \<rightharpoonup> string"
  in_Devices :: "(string \<times> (string \<rightharpoonup> string)) list"
  in_CreatedAt :: int

record incus_addr =
  ad_Family :: string
  ad_Scope :: string
  ad_Address :: string

record incus_nic =
  nic_Addresses :: "incus_addr list"
  nic_Hwaddr :: string

text \<open>The network of a state is nil or a map from interface names.\<close>

type_synonym incus_state = "(string \<rightharpoonup> incus_nic) option"

record exec_result =
  ex_Stdout :: string
  ex_Stderr :: string
  ex_Return :: "int option"

record 'r incus =
  ic_CreateInstance :: "instance_req \<Rightarrow> ('r, op_error, unit) sm"
  ic_GetInstance :: "string \<Rightarrow> ('r, string, incus_instance \<times> string) sm"
  ic_GetInstanceState :: "string \<Rightarrow> ('r, string, incus_state) sm"
  ic_GetInstances :: "('r, string, incus_instance list) sm"
  ic_UpdateInstance :: "string \<Rightarrow> incus_instance \<Rightarrow> string \<Rightarrow> ('r, op_error, unit) sm"
  ic_UpdateInstanceState :: "string \<Rightarrow> string \<Rightarrow> ('r, op_error, unit) sm"
  ic_DeleteInstance :: "string \<Rightarrow> ('r, op_error, unit) sm"
  ic_ExecInstance :: "string \<Rightarrow> string list \<Rightarrow> ('r, op_error, exec_result) sm"
  ic_CreateSnapshot :: "string \<Rightarrow> string \<Rightarrow> ('r, op_error, unit) sm"
  ic_GetInstanceFile :: "string \<Rightarrow> string \<Rightarrow> ('r, op_error, string) sm"
  ic_CreateInstanceFile :: "string \<Rightarrow> string \<Rightarrow> string \<Rightarrow> ('r, string, unit) sm"

text \<open>\<^verbatim>\<open>fmt.Errorf("... %w", err)\<close> of the two ways a call can fail.\<close>

definition wrapped :: "string \<Rightarrow> string \<Rightarrow> dberr" where
  "wrapped what e = ErrRuntime (what @ '': '' @ e)"

fun op_failed :: "string \<Rightarrow> string \<Rightarrow> op_error \<Rightarrow> dberr" where
  "op_failed at_once waiting (Rejected e) = wrapped at_once e"
| "op_failed at_once waiting (Aborted e) = wrapped waiting e"

fun op_text :: "op_error \<Rightarrow> string" where
  "op_text (Rejected e) = e"
| "op_text (Aborted e) = e"

section \<open>Reading an instance\<close>

definition containerPrefix :: string where "containerPrefix = ''svkexe''"
definition nestingKey :: string where "nestingKey = ''security.nesting''"
definition ipv4FilteringKey :: string where "ipv4FilteringKey = ''security.ipv4_filtering''"

definition isAlreadyRunningError :: "(string \<Rightarrow> string) \<Rightarrow> string \<Rightarrow> bool" where
  "isAlreadyRunningError uni e \<longleftrightarrow> Contains (ToLower uni e) ''already running''"

definition containerName :: "string \<Rightarrow> string \<Rightarrow> string" where
  "containerName owner name = containerPrefix @ ''-'' @ owner @ ''-'' @ name"

definition boolConfig :: "bool \<Rightarrow> string" where
  "boolConfig v = (if v then ''true'' else ''false'')"

text \<open>A missing key of a Go map reads as the empty string.\<close>

definition map_get :: "(string \<rightharpoonup> string) \<Rightarrow> string \<Rightarrow> string" where
  "map_get m k = (case m k of None \<Rightarrow> [] | Some v \<Rightarrow> v)"

fun filtered_from :: "(string \<Rightarrow> string) \<Rightarrow> bool \<Rightarrow> (string \<times> (string \<rightharpoonup> string)) list \<Rightarrow> bool" where
  "filtered_from uni found [] = found"
| "filtered_from uni found ((_, device) # ds) =
     (if map_get device ''type'' \<noteq> ''nic'' then filtered_from uni found ds
      else if ToLower uni (map_get device ipv4FilteringKey) \<in> {''true'', ''yes'', ''1'', ''on''} then filtered_from uni True ds
      else False)"

definition addressFiltered :: "(string \<Rightarrow> string) \<Rightarrow> (string \<times> (string \<rightharpoonup> string)) list \<Rightarrow> bool" where
  "addressFiltered uni devices = filtered_from uni False devices"

definition extractAddress :: "incus_state \<Rightarrow> string \<times> string" where
  "extractAddress st =
     (case st of None \<Rightarrow> ([], []) | Some net \<Rightarrow>
        (case net ''eth0'' of None \<Rightarrow> ([], []) | Some nic \<Rightarrow>
           (case find (\<lambda>a. ad_Family a = ''inet'' \<and> ad_Scope a = ''global'') (nic_Addresses nic) of
              None \<Rightarrow> ([], []) | Some a \<Rightarrow> (ad_Address a, nic_Hwaddr nic))))"

definition instance_view :: "(string \<Rightarrow> string) \<Rightarrow> incus_instance \<Rightarrow> incus_state \<Rightarrow> rt_container" where
  "instance_view uni i st = \<lparr>rc_ID = in_Name i, rc_Name = in_Name i, rc_Status = ToLower uni (in_Status i),
     rc_OwnerID = map_get (in_Config i) ''user.owner_id'', rc_IP = fst (extractAddress st), rc_MAC = snd (extractAddress st),
     rc_AddressFiltered = addressFiltered uni (in_Devices i), rc_CreatedAt = in_CreatedAt i\<rparr>"

definition incus_Get :: "(string \<Rightarrow> string) \<Rightarrow> 'r incus \<Rightarrow> string \<Rightarrow> ('r, dberr, rt_container) sm" where
  "incus_Get uni cl i =
     attempt (ic_GetInstance cl i) (\<lambda>e. raise (wrapped (''get container '' @ i) e)) (\<lambda>(inst, _).
     attempt (ic_GetInstanceState cl i) (\<lambda>e. raise (wrapped (''get container state '' @ i) e)) (\<lambda>st.
     ret (instance_view uni inst st)))"

fun list_each :: "(string \<Rightarrow> string) \<Rightarrow> 'r incus \<Rightarrow> string \<Rightarrow> incus_instance list \<Rightarrow> ('r, dberr, rt_container list) sm" where
  "list_each uni cl owner [] = ret []"
| "list_each uni cl owner (i # is) =
     (if \<not> HasPrefix (in_Name i) (containerPrefix @ ''-'') then list_each uni cl owner is
      else if owner \<noteq> [] \<and> map_get (in_Config i) ''user.owner_id'' \<noteq> owner then list_each uni cl owner is
      else attempt (ic_GetInstanceState cl (in_Name i)) (\<lambda>_. list_each uni cl owner is)
        (\<lambda>st. bindE (list_each uni cl owner is) (\<lambda>rest. ret (instance_view uni i st # rest))))"

definition incus_List :: "(string \<Rightarrow> string) \<Rightarrow> 'r incus \<Rightarrow> string \<Rightarrow> ('r, dberr, rt_container list) sm" where
  "incus_List uni cl owner = attempt (ic_GetInstances cl) (\<lambda>e. raise (wrapped ''list containers'' e)) (list_each uni cl owner)"

section \<open>Changing an instance\<close>

definition create_req :: "create_opts \<Rightarrow> instance_req" where
  "create_req o' =
     (let base = [''user.owner_id'' \<mapsto> co_OwnerID o', nestingKey \<mapsto> boolConfig (co_Nesting o')];
          cpu = (if co_CPULimit o' > 0 then base(''limits.cpu'' \<mapsto> Itoa (co_CPULimit o')) else base);
          mem = (if co_MemoryMB o' > 0 then cpu(''limits.memory'' \<mapsto> Itoa (co_MemoryMB o') @ ''MB'') else cpu) in
      \<lparr>iq_Name = containerName (co_OwnerID o') (co_Name o'), iq_Alias = co_Image o', iq_Profiles = [''svkexe-default''], iq_Config = mem,
       iq_Devices = (if co_DiskGB o' > 0
         then [(''root'', [(''type'', ''disk''), (''path'', ''/''), (''pool'', ''svkexe-pool''), (''size'', Itoa (co_DiskGB o') @ ''GB'')])]
         else [])\<rparr>)"

definition incus_Create :: "(string \<Rightarrow> string) \<Rightarrow> 'r incus \<Rightarrow> create_opts \<Rightarrow> ('r, dberr, rt_container) sm" where
  "incus_Create uni cl o' =
     (let name = containerName (co_OwnerID o') (co_Name o') in
      attempt (ic_CreateInstance cl (create_req o'))
        (\<lambda>e. raise (op_failed (''create container '' @ name) (''wait for container creation '' @ name) e)) (\<lambda>_. incus_Get uni cl name))"

definition incus_SetNesting :: "'r incus \<Rightarrow> string \<Rightarrow> bool \<Rightarrow> ('r, dberr, unit) sm" where
  "incus_SetNesting cl i enabled =
     attempt (ic_GetInstance cl i) (\<lambda>e. raise (wrapped (''get container '' @ i) e)) (\<lambda>(inst, etag).
     let want = boolConfig enabled in
     if map_get (in_Config inst) nestingKey = want then ret ()
     else attempt (ic_UpdateInstance cl i (inst\<lparr>in_Config := (in_Config inst)(nestingKey \<mapsto> want)\<rparr>) etag)
       (\<lambda>e. raise (op_failed (''set '' @ nestingKey @ '' on '' @ i) (''wait for '' @ nestingKey @ '' update on '' @ i) e)) ret)"

definition incus_Start :: "(string \<Rightarrow> string) \<Rightarrow> 'r incus \<Rightarrow> string \<Rightarrow> ('r, dberr, unit) sm" where
  "incus_Start uni cl i = attempt (ic_UpdateInstanceState cl i ''start'')
     (\<lambda>e. if isAlreadyRunningError uni (op_text e) then ret ()
          else raise (op_failed (''start container '' @ i) (''wait for container start '' @ i) e)) ret"

definition incus_Stop :: "'r incus \<Rightarrow> string \<Rightarrow> ('r, dberr, unit) sm" where
  "incus_Stop cl i = attempt (ic_UpdateInstanceState cl i ''stop'')
     (\<lambda>e. raise (op_failed (''stop container '' @ i) (''wait for container stop '' @ i) e)) ret"

definition incus_Delete :: "'r incus \<Rightarrow> string \<Rightarrow> ('r, dberr, unit) sm" where
  "incus_Delete cl i = attempt (ic_DeleteInstance cl i)
     (\<lambda>e. raise (op_failed (''delete container '' @ i) (''wait for container deletion '' @ i) e)) ret"

definition incus_Snapshot :: "'r incus \<Rightarrow> string \<Rightarrow> string \<Rightarrow> ('r, dberr, unit) sm" where
  "incus_Snapshot cl i name = attempt (ic_CreateSnapshot cl i name)
     (\<lambda>e. raise (op_failed (''snapshot container '' @ i) (''wait for snapshot '' @ name @ '' on container '' @ i) e)) ret"

definition incus_Exec :: "'r incus \<Rightarrow> string \<Rightarrow> string list \<Rightarrow> ('r, dberr, string) sm" where
  "incus_Exec cl i cmd = attempt (ic_ExecInstance cl i cmd)
     (\<lambda>e. raise (op_failed (''exec in container '' @ i) (''wait for exec in container '' @ i) e))
     (\<lambda>x. case ex_Return x of
        None \<Rightarrow> ret (ex_Stdout x)
      | Some code \<Rightarrow>
          if code = 0 then ret (ex_Stdout x)
          else let err = TrimSpace (ex_Stderr x); msg = (if err = [] then TrimSpace (ex_Stdout x) else err) in
            raise (wrapped (''exec in container '' @ i @ '' exited with status '' @ Itoa code) msg))"

definition incus_PullFile :: "'r incus \<Rightarrow> string \<Rightarrow> string \<Rightarrow> ('r, dberr, string) sm" where
  "incus_PullFile cl i path = attempt (ic_GetInstanceFile cl i path)
     (\<lambda>e. raise (op_failed (''pull file '' @ path @ '' from '' @ i) (''read file '' @ path @ '' from '' @ i) e)) ret"

definition incus_PushFile :: "'r incus \<Rightarrow> string \<Rightarrow> string \<Rightarrow> string \<Rightarrow> ('r, dberr, unit) sm" where
  "incus_PushFile cl i path data = attempt (ic_CreateInstanceFile cl i path data)
     (\<lambda>e. raise (wrapped (''push file '' @ path @ '' to '' @ i) e)) ret"

text \<open>The two interfaces the gateway uses.\<close>

definition incus_runtime :: "(string \<Rightarrow> string) \<Rightarrow> 'r incus \<Rightarrow> 'r runtime" where
  "incus_runtime uni cl = \<lparr>rt_Create = incus_Create uni cl, rt_Start = incus_Start uni cl, rt_Stop = incus_Stop cl,
     rt_Delete = incus_Delete cl, rt_Get = incus_Get uni cl, rt_List = incus_List uni cl, rt_Exec = incus_Exec cl,
     rt_Snapshot = incus_Snapshot cl, rt_SetNesting = incus_SetNesting cl\<rparr>"

definition incus_files :: "'r incus \<Rightarrow> 'r file_runtime" where
  "incus_files cl = \<lparr>fr_PushFile = incus_PushFile cl, fr_PullFile = incus_PullFile cl\<rparr>"

section \<open>What the answers mean\<close>

text \<open>A network card that Incus pins to its address.\<close>

definition is_nic :: "(string \<rightharpoonup> string) \<Rightarrow> bool" where
  "is_nic d \<longleftrightarrow> map_get d ''type'' = ''nic''"

definition pins :: "(string \<Rightarrow> string) \<Rightarrow> (string \<rightharpoonup> string) \<Rightarrow> bool" where
  "pins uni d \<longleftrightarrow> ToLower uni (map_get d ipv4FilteringKey) \<in> {''true'', ''yes'', ''1'', ''on''}"

lemma filtered_from_iff:
  "filtered_from uni found ds \<longleftrightarrow> (\<forall>d\<in>set ds. is_nic (snd d) \<longrightarrow> pins uni (snd d)) \<and> (found \<or> (\<exists>d\<in>set ds. is_nic (snd d)))"
  by (induction uni found ds rule: filtered_from.induct) (auto simp: is_nic_def pins_def)

text \<open>An instance counts as address-filtered exactly when it has a network card and every network card of it is
  pinned, whatever the order in which Go visits the map of its devices.\<close>

theorem addressFiltered_all:
  "addressFiltered uni ds \<longleftrightarrow> (\<exists>d\<in>set ds. is_nic (snd d)) \<and> (\<forall>d\<in>set ds. is_nic (snd d) \<longrightarrow> pins uni (snd d))"
  by (auto simp: addressFiltered_def filtered_from_iff)

lemma addressFiltered_order: "set ds = set es \<Longrightarrow> addressFiltered uni ds = addressFiltered uni es"
  by (simp add: addressFiltered_all)

text \<open>Instances of accounts whose identifiers have the same length, as the generated ones do, never share a name.\<close>

lemma containerName_inj:
  "length a = length b \<Longrightarrow> containerName a n = containerName b m \<longleftrightarrow> a = b \<and> n = m"
  by (simp add: containerName_def)

lemma list_each_sound:
  "list_each uni cl owner is r = (Inr cs, r') \<Longrightarrow> c \<in> set cs \<Longrightarrow>
   \<exists>i\<in>set is. \<exists>st. c = instance_view uni i st \<and> HasPrefix (in_Name i) (containerPrefix @ ''-'') \<and> (owner = [] \<or> rc_OwnerID c = owner)"
proof (induction "is" arbitrary: r cs)
  case (Cons i "is")
  show ?case
  proof (cases "HasPrefix (in_Name i) (containerPrefix @ ''-'') \<and> \<not> (owner \<noteq> [] \<and> map_get (in_Config i) ''user.owner_id'' \<noteq> owner)")
    case False
    then have "list_each uni cl owner is r = (Inr cs, r')" using Cons.prems(1) by (auto split: if_splits)
    from Cons.IH [OF this Cons.prems(2)] show ?thesis by simp
  next
    case True
    obtain x r1 where g: "ic_GetInstanceState cl (in_Name i) r = (x, r1)" by (cases "ic_GetInstanceState cl (in_Name i) r") auto
    show ?thesis
    proof (cases x)
      case (Inl e)
      with True g have "list_each uni cl owner is r1 = (Inr cs, r')" using Cons.prems(1) by auto
      from Cons.IH [OF this Cons.prems(2)] show ?thesis by simp
    next
      case (Inr st)
      with True g obtain rest where rest: "list_each uni cl owner is r1 = (Inr rest, r')" "cs = instance_view uni i st # rest"
        using Cons.prems(1) by (auto elim!: bindE_InrE)
      show ?thesis
      proof (cases "c = instance_view uni i st")
        case here: True
        with True show ?thesis by (auto simp: instance_view_def)
      next
        case False
        with rest Cons.prems(2) have "c \<in> set rest" by simp
        from Cons.IH [OF rest(1) this] show ?thesis by simp
      qed
    qed
  qed
qed simp

end
