(* ===== verification/Api_Recreate.thy ===== *)
theory Api_Recreate
  imports Api_Vms Incus_Runtime
begin

text \<open>
  Recreating a VM whose display name was changed: the whole request of \<^verbatim>\<open>recreateContainer\<close> with its
  \<^verbatim>\<open>doRecreate\<close>, split at the deletion of the instance.  \<open>doRecreate\<close> removes the instance by the name the row
  stores (\<^verbatim>\<open>incus_name\<close>), and Incus creates the new one under a name made of the owner and the
  row's current display name, which renaming changes.  From there on every step names an instance that does
  not exist, and the backup of the VM's data is in no step any more.
\<close>

section \<open>The daemon\<close>

text \<open>\<open>inst\<close> is the set of instances the daemon has.  Creating adds at most the name that was asked for, reading
  changes nothing, an instance whose deletion succeeded is gone, and changing the state of one that does not exist fails.\<close>

definition daemon_laws :: "(string \<Rightarrow> string) \<Rightarrow> ('r \<Rightarrow> string set) \<Rightarrow> 'r incus \<Rightarrow> bool" where
  "daemon_laws uni inst cl \<longleftrightarrow>
     (\<forall>q r. inst (snd (ic_CreateInstance cl q r)) \<subseteq> insert (iq_Name q) (inst r))
     \<and> (\<forall>i r. inst (snd (ic_GetInstance cl i r)) = inst r \<and> inst (snd (ic_GetInstanceState cl i r)) = inst r)
     \<and> (\<forall>i r. fst (ic_DeleteInstance cl i r) = Inr () \<longrightarrow> i \<notin> inst (snd (ic_DeleteInstance cl i r)))
     \<and> (\<forall>i a r. i \<notin> inst r \<longrightarrow> (\<exists>e. ic_UpdateInstanceState cl i a r = (Inl (Rejected e), r) \<and> \<not> isAlreadyRunningError uni e))"

text \<open>The instance is not there and the row does not say it runs.\<close>

definition lost :: "('r \<Rightarrow> string set) \<Rightarrow> string \<Rightarrow> string \<Rightarrow> 'r gateway \<Rightarrow> bool" where
  "lost inst n cid s \<longleftrightarrow> n \<notin> inst (g_rt s) \<and> (\<forall>d\<in>set (t_containers s). c_ID d = cid \<longrightarrow> c_Status d \<noteq> ''running'')"

interpretation lost: store_inv "lost inst n cid"
  by unfold_locales (simp add: lost_def)

lemmas lost_rules [keeps_rules] = lost.keeps_query

lemma keeps_lost_update [keeps_rules]:
  "(\<And>d. c_ID (f d) = c_ID d) \<Longrightarrow> (\<And>d. c_Status (f d) = ''running'' \<Longrightarrow> c_Status d = ''running'')
    \<Longrightarrow> keeps (lost inst n cid) (update_container i f)"
  unfolding update_container_def
  by (intro keeps_rules, rule lost.keeps_exec) (auto simp: sql_update_def lost_def Let_def split: if_splits)

lemma keeps_lost_status [keeps_rules]: "st \<noteq> ''running'' \<Longrightarrow> keeps (lost inst n cid) (UpdateContainerStatus i st ip)"
  unfolding UpdateContainerStatus_def by (intro keeps_rules) simp_all

lemma keeps_lost_nesting [keeps_rules]:
  "keeps (lost inst n cid) (EffectiveNesting c)" "keeps (lost inst n cid) (MarkStarted c b)"
  unfolding EffectiveNesting_def MarkStarted_def NestingAllowed_def GetSetting_def SetNestingApplied_def
  by (intro keeps_rules; simp)+

lemma keeps_lost_create:
  assumes "daemon_laws uni inst cl" and "containerName (co_OwnerID o') (co_Name o') \<noteq> n"
  shows "keeps (lost inst n cid) (rt_call (rt_Create (incus_runtime uni cl) o'))"
proof -
  have req: "iq_Name (create_req o') = containerName (co_OwnerID o') (co_Name o')" by (simp add: create_req_def Let_def)
  have "keeps (\<lambda>r. n \<notin> inst r) (incus_Get uni cl i)" for i
    unfolding incus_Get_def case_prod_unfold
    by (intro keeps_rules; rule keepsI) (use assms(1) in \<open>simp_all add: daemon_laws_def\<close>)
  moreover have "keeps (\<lambda>r. n \<notin> inst r) (ic_CreateInstance cl (create_req o'))"
    by (rule keepsI) (use assms req in \<open>fastforce simp: daemon_laws_def\<close>)
  ultimately have "keeps (\<lambda>r. n \<notin> inst r) (incus_Create uni cl o')"
    unfolding incus_Create_def Let_def by (intro keeps_rules)
  then show ?thesis
    by (auto simp: keeps_def lost_def rt_call_def incus_runtime_def split: prod.split)
qed

lemma start_lost:
  assumes "daemon_laws uni inst cl" and "lost inst n cid s"
  shows "\<exists>e. rt_call (rt_Start (incus_runtime uni cl) n) s = (Inl e, s)"
proof -
  obtain e where "ic_UpdateInstanceState cl n ''start'' (g_rt s) = (Inl (Rejected e), g_rt s)" "\<not> isAlreadyRunningError uni e"
    using assms unfolding daemon_laws_def lost_def by blast
  then show ?thesis by (simp add: rt_call_def incus_runtime_def incus_Start_def)
qed

section \<open>Recreation\<close>

lemma bindE_agree:
  "hoare P m R E \<Longrightarrow> P s \<Longrightarrow> (\<And>a t. R a t \<Longrightarrow> f a t = g a t) \<Longrightarrow> bindE m f s = bindE m g s"
  by (fastforce simp: hoare_def bindE_def split: prod.splits sum.splits)

lemma attempt_agree:
  "hoare P m R E \<Longrightarrow> P s \<Longrightarrow> (\<And>a t. R a t \<Longrightarrow> f a t = g a t) \<Longrightarrow> attempt m h f s = attempt m h g s"
  by (fastforce simp: hoare_def attempt_def split: prod.splits sum.splits)

text \<open>What is left of \<open>rebuild\<close> when the instance is not there.\<close>

definition rebuild_lost :: "'r server \<Rightarrow> container \<Rightarrow> ('r, unit) gwm" where
  "rebuild_lost sv c =
     bindE (EffectiveNesting c) (\<lambda>(effective, _).
     attempt (rt_call (rt_Create (sv_Runtime sv) \<lparr>co_Name = c_Name c, co_OwnerID = c_OwnerID c, co_Image = DefaultImage,
         co_CPULimit = c_CPULimit c, co_MemoryMB = c_MemoryMB c, co_DiskGB = c_DiskGB c, co_Nesting = effective\<rparr>))
       (\<lambda>_. and_status (c_ID c) ''error'' [] (ret ())) (\<lambda>_.
     bindE (attempt (MarkStarted c effective) (\<lambda>_. ret c) ret) (\<lambda>c'. and_status (c_ID c) ''stopped'' [] (ret ()))))"

lemma marked_same:
  "hoare (lost inst n cid) (attempt (MarkStarted c b) (\<lambda>_. ret c) ret)
     (\<lambda>c' t. c_IncusName c' = c_IncusName c \<and> c_ID c' = c_ID c \<and> lost inst n cid t) (\<lambda>_. lost inst n cid)"
proof (rule hoareI)
  fix s e t assume "lost inst n cid s" "attempt (MarkStarted c b) (\<lambda>_. ret c) ret s = (Inl e, t)"
  then show "lost inst n cid t" by (auto simp: attempt_def split: prod.splits sum.splits)
next
  fix s c' t assume l: "lost inst n cid s" and x: "attempt (MarkStarted c b) (\<lambda>_. ret c) ret s = (Inr c', t)"
  have "lost inst n cid (snd (MarkStarted c b s))" using l by (rule keepsD [OF keeps_lost_nesting(2)])
  with x show "c_IncusName c' = c_IncusName c \<and> c_ID c' = c_ID c \<and> lost inst n cid t"
    by (auto simp: attempt_def MarkStarted_def bindE_def split: prod.splits sum.splits)
qed

lemma rebuild_is_lost:
  fixes s :: "'r gateway" and sv :: "'r server"
  assumes laws: "daemon_laws uni inst cl" "sv_Runtime sv = incus_runtime uni cl"
    and "c_IncusName c \<noteq> containerName (c_OwnerID c) (c_Name c)" and s: "lost inst (c_IncusName c) cid s"
  shows "rebuild sv c backup s = rebuild_lost sv c s"
proof -
  let ?n = "c_IncusName c"
  have made: "hoare (lost inst ?n cid) (rt_call (rt_Create (incus_runtime uni cl) o'))
      (\<lambda>_. lost inst ?n cid) (\<lambda>_. lost inst ?n cid)" if "co_OwnerID o' = c_OwnerID c" "co_Name o' = c_Name c" for o'
    using keeps_lost_create [OF laws(1), of o' ?n cid] assms(3) that by (simp add: keeps_hoare)
  have gone: "revive sv (c_ID c) c' backup u = and_status (c_ID c) ''stopped'' [] (ret ()) u"
    if m: "c_IncusName c' = ?n \<and> c_ID c' = c_ID c \<and> lost inst ?n cid u" for c' u
  proof -
    from m start_lost [OF laws(1)] obtain e where "rt_call (rt_Start (incus_runtime uni cl) (c_IncusName c')) u = (Inl e, u)" by metis
    then show ?thesis by (simp add: revive_def Let_def laws(2))
  qed
  show ?thesis
    unfolding rebuild_def rebuild_lost_def case_prod_unfold laws(2)
    by (rule bindE_agree [where P = "lost inst ?n cid", OF keeps_lost_nesting(1) [unfolded keeps_hoare] s],
        rule attempt_agree [where P = "lost inst ?n cid", OF made], simp, simp, assumption,
        rule bindE_agree [where P = "lost inst ?n cid", OF marked_same], assumption, rule gone)
qed

lemma keeps_lost_rebuild:
  assumes "daemon_laws uni inst cl" "sv_Runtime sv = incus_runtime uni cl"
    and "c_IncusName c \<noteq> containerName (c_OwnerID c) (c_Name c)"
  shows "keeps (lost inst (c_IncusName c) cid) (rebuild_lost sv c)"
  unfolding rebuild_lost_def assms(2) and_status_def case_prod_unfold
  by (intro keeps_rules keeps_lost_create [OF assms(1)]) (use assms(3) in simp_all)

section \<open>The whole request\<close>

text \<open>The first half of \<open>doRecreate\<close>, up to the deletion of the instance; \<open>None\<close> where it gave up.\<close>

definition take_down :: "'r server \<Rightarrow> container \<Rightarrow> ('r, (container \<times> string) option) gwm" where
  "take_down sv c0 =
     (let rt = sv_Runtime sv; give_up = and_status (c_ID c0) ''error'' [] (ret None) in
      bindE (PrepareStart rt c0) (\<lambda>(c, _).
      attempt (rt_call (rt_Start rt (c_IncusName c))) (\<lambda>_. give_up) (\<lambda>_.
      attempt (BackupData (sv_Env sv) rt (c_IncusName c)) (\<lambda>_. give_up) (\<lambda>backup.
      attempt (rt_call (rt_Stop rt (c_IncusName c))) (\<lambda>_. give_up) (\<lambda>_.
      attempt (rt_call (rt_Delete rt (c_IncusName c))) (\<lambda>_. give_up) (\<lambda>_.
      ret (Some (c, backup))))))))"

text \<open>The second half, with \<open>f\<close> applied to the backup.\<close>

definition put_back :: "'r server \<Rightarrow> (string \<Rightarrow> string) \<Rightarrow> (container \<times> string) option \<Rightarrow> ('r, unit) gwm" where
  "put_back sv f x = (case x of None \<Rightarrow> ret () | Some (c, backup) \<Rightarrow> rebuild sv c (f backup))"

lemma and_status_then: "bindE (and_status cid st ip m) f = and_status cid st ip (bindE m f)"
  by (rule ext) (simp add: and_status_def attempt_def bindE_def split: prod.split sum.split)

lemma attempt_then: "bindE (attempt m h g) f = attempt m (\<lambda>e. bindE (h e) f) (\<lambda>a. bindE (g a) f)"
  by (rule ext) (simp add: attempt_def bindE_def split: prod.split sum.split)

lemma bindE_then: "bindE (bindE m g) f = bindE m (\<lambda>a. bindE (g a) f)"
  by (rule ext) (simp add: bindE_def split: prod.split sum.split)

lemma ret_then: "bindE (ret a) f = f a"
  by (rule ext) (simp add: bindE_def)

lemma doRecreate_halves: "doRecreate sv c = bindE (take_down sv c) (put_back sv (\<lambda>b. b))"
  by (simp add: doRecreate_def take_down_def put_back_def Let_def bindE_then attempt_then and_status_then ret_then case_prod_unfold)
    (simp add: ret_def)

text \<open>The request, with \<open>f\<close> applied to the backup before it is restored.\<close>

definition recreate_with :: "(string \<Rightarrow> string) \<Rightarrow> 'r server \<Rightarrow> string \<Rightarrow> 'r http" where
  "recreate_with f sv cid = with_vm cid (\<lambda>c.
     if c_Status c = ''creating'' \<or> c_Status c = ''recreating'' then http_error ''VM is busy, please wait'' 409
     else and_status cid ''recreating'' (c_IPAddress c)
       (bindE (bindE (take_down sv c) (put_back sv f)) (\<lambda>_. respond 202 NoBody)))"

lemma recreate_with_id: "recreate_with (\<lambda>b. b) sv cid = recreateContainer sv cid"
  by (simp add: recreate_with_def recreateContainer_def doRecreate_halves cong: if_cong)

lemma prepared_same: "PrepareStart rt c s = (Inr (c', es), t) \<Longrightarrow>
   c_IncusName c' = c_IncusName c \<and> c_ID c' = c_ID c \<and> c_Name c' = c_Name c \<and> c_OwnerID c' = c_OwnerID c"
  by (auto simp: PrepareStart_def bindE_def attempt_def case_prod_unfold split: sum.splits prod.splits)

lemma keeps_row_call [keeps_rules]: "keeps (lost (\<lambda>_. {}) n cid) (rt_call m)"
  by (auto simp: keeps_def lost_def rt_call_def split: prod.split)

lemma keeps_row_take_down: "keeps (lost (\<lambda>_. {}) n cid) (take_down sv c)"
  unfolding take_down_def Let_def PrepareStart_def SetNestingApplied_def BackupData_def guest_def and_status_def
  by (intro keeps_rules; simp)

lemma gave_up: "attempt m (\<lambda>_. and_status i st ip (ret None)) f s = (Inr (Some x), t) \<Longrightarrow> \<exists>a u. m s = (Inr a, u) \<and> f a u = (Inr (Some x), t)"
  by (auto simp: attempt_def and_status_def split: prod.splits sum.splits)

lemma take_down_gone:
  fixes s t :: "'r gateway" and sv :: "'r server"
  assumes laws: "daemon_laws uni inst cl" "sv_Runtime sv = incus_runtime uni cl" and run: "take_down sv c s = (Inr (Some (c', b)), t)"
  shows "c_IncusName c' = c_IncusName c \<and> c_ID c' = c_ID c \<and> c_Name c' = c_Name c \<and> c_OwnerID c' = c_OwnerID c
    \<and> c_IncusName c \<notin> inst (g_rt t)"
proof -
  from run obtain c1 es u where p: "PrepareStart (sv_Runtime sv) c s = (Inr (c1, es), u)" and v: "\<exists>v. rt_call (rt_Delete (sv_Runtime sv) (c_IncusName c1)) v = (Inr (), t) \<and> c' = c1"
    unfolding take_down_def Let_def by (elim bindE_InrE) (auto dest!: gave_up, blast)
  then obtain v where d: "rt_call (rt_Delete (sv_Runtime sv) (c_IncusName c1)) v = (Inr (), t)" "c' = c1" by blast
  have "ic_DeleteInstance cl (c_IncusName c1) (g_rt v) = (Inr (), g_rt t)"
    using d(1) unfolding laws(2) by (auto simp: rt_call_def incus_runtime_def incus_Delete_def attempt_def split: prod.splits sum.splits)
  then have "c_IncusName c1 \<notin> inst (g_rt t)" using laws(1) unfolding daemon_laws_def by (metis fst_conv snd_conv)
  with prepared_same [OF p] d(2) show ?thesis by simp
qed

text \<open>What the two halves do to a VM whose row does not say that it runs.\<close>

lemma halves_lose:
  fixes s :: "'r gateway" and sv :: "'r server"
  assumes laws: "daemon_laws uni inst cl" "sv_Runtime sv = incus_runtime uni cl"
    and renamed: "c_IncusName c \<noteq> containerName (c_OwnerID c) (c_Name c)" and s: "lost (\<lambda>_. {}) n (c_ID c) s"
  shows "bindE (take_down sv c) (put_back sv f) s = bindE (take_down sv c) (put_back sv g) s"
    and "lost (\<lambda>_. {}) n (c_ID c) (snd (bindE (take_down sv c) (put_back sv f) s))"
    and "take_down sv c s = (Inr (Some x), u) \<Longrightarrow> c_IncusName c \<notin> inst (g_rt (snd (bindE (take_down sv c) (put_back sv f) s)))"
proof -
  obtain r t where run: "take_down sv c s = (r, t)" by fastforce
  have row: "lost (\<lambda>_. {}) n (c_ID c) t" using keepsD [OF keeps_row_take_down s, of sv c] run by simp
  have gone: "rebuild sv c' b' t = rebuild_lost sv c' t \<and> lost inst (c_IncusName c) (c_ID c) (snd (rebuild_lost sv c' t))"
    if "r = Inr (Some (c', b))" for c' b b'
  proof -
    have f: "c_IncusName c' = c_IncusName c" "c_ID c' = c_ID c" "c_Name c' = c_Name c" "c_OwnerID c' = c_OwnerID c"
      "c_IncusName c \<notin> inst (g_rt t)" using take_down_gone [OF laws, of c s c' b t] run that by simp_all
    have l: "lost inst (c_IncusName c') (c_ID c) t" using f(5) row by (simp add: lost_def f(1))
    have n: "c_IncusName c' \<noteq> containerName (c_OwnerID c') (c_Name c')" using renamed f by simp
    from rebuild_is_lost [OF laws n l] keepsD [OF keeps_lost_rebuild [OF laws n] l] show ?thesis by (simp add: f(1))
  qed
  show "bindE (take_down sv c) (put_back sv f) s = bindE (take_down sv c) (put_back sv g) s"
    using run gone by (auto simp: bindE_def put_back_def split: sum.split option.split)
  show "lost (\<lambda>_. {}) n (c_ID c) (snd (bindE (take_down sv c) (put_back sv f) s))"
    using run gone row by (auto simp: bindE_def put_back_def lost_def split: sum.split option.split)
  show "c_IncusName c \<notin> inst (g_rt (snd (bindE (take_down sv c) (put_back sv f) s)))" if "take_down sv c s = (Inr (Some x), u)"
    using run gone that by (cases x) (auto simp: bindE_def put_back_def lost_def)
qed

lemma marked_not_running:
  "UpdateContainerStatus cid st ip s = (Inr (), t) \<Longrightarrow> st \<noteq> ''running'' \<Longrightarrow> lost (\<lambda>_. {}) n cid t"
proof -
  assume run: "UpdateContainerStatus cid st ip s = (Inr (), t)" and st: "st \<noteq> ''running''"
  from run obtain n where "exec (sql_update t_containers t_containers_update uq_containers (\<lambda>c. c_ID c = cid)
      (\<lambda>c. c\<lparr>c_Status := st, c_IPAddress := ip\<rparr>\<lparr>c_UpdatedAt := clock s\<rparr>)) s = (Inr n, t)"
    unfolding UpdateContainerStatus_def update_container_def with_now_def void_Inr by (elim exE bindE_InrE) simp
  then have "t_containers t = map (\<lambda>c. if c_ID c = cid then c\<lparr>c_Status := st, c_IPAddress := ip\<rparr>\<lparr>c_UpdatedAt := clock s\<rparr> else c) (t_containers s)"
    by (rule containers.update_ok [THEN conjunct1])
  with st show ?thesis by (simp add: lost_def ball_Un)
qed

lemma row_by_id: "GetContainerByID cid s = (Inr c, t) \<Longrightarrow> c_ID c = cid"
  unfolding GetContainerByID_def get_container_def
  by (elim bindE_InrE) (auto simp: scanContainer_def dest!: containers.row_ok)

text \<open>C32: recreating a VM whose display name was changed after it was created loses its data.  For the whole request, from a row
  that was read, is not busy and was marked as recreating, under any daemon that keeps the laws above and any engine failures
  from then on: whatever is put in place of the data that was backed up, the request has the same result and leaves the same
  state, so what was backed up is restored nowhere; the VM is not reported as running; and where the request got as far as
  deleting the instance, the instance stays away.\<close>

theorem recreate_renamed_loses_data:
  fixes s :: "'r gateway" and sv :: "'r server"
  assumes "daemon_laws uni inst cl" "sv_Runtime sv = incus_runtime uni cl"
    and "GetContainerByID cid s = (Inr c, s1)" and "c_Status c \<noteq> ''creating'' \<and> c_Status c \<noteq> ''recreating''"
    and "UpdateContainerStatus cid ''recreating'' (c_IPAddress c) s1 = (Inr (), s2)"
    and "c_IncusName c \<noteq> containerName (c_OwnerID c) (c_Name c)"
  shows "recreateContainer sv cid s = recreate_with f sv cid s
    \<and> (\<forall>d\<in>set (t_containers (snd (recreateContainer sv cid s))). c_ID d = cid \<longrightarrow> c_Status d \<noteq> ''running'')
    \<and> (case take_down sv c s2 of (Inr (Some _), _) \<Rightarrow> c_IncusName c \<notin> inst (g_rt (snd (recreateContainer sv cid s))) | _ \<Rightarrow> True)"
proof -
  have cid: "c_ID c = cid" using row_by_id [OF assms(3)] .
  have l: "lost (\<lambda>_. {}) [] (c_ID c) s2" using marked_not_running [OF assms(5)] cid by simp
  have run: "recreate_with g sv cid s = bindE (bindE (take_down sv c) (put_back sv g)) (\<lambda>_. respond 202 NoBody) s2" for g
    using assms(3-5) by (simp add: recreate_with_def with_vm_def attempt_def and_status_def)
  note halves = halves_lose [OF assms(1,2,6) l]
  have answer: "snd (bindE m (\<lambda>_. respond 202 NoBody) u) = snd (m u)" for m :: "('r, unit) gwm" and u
    by (simp add: bindE_def respond_def split: prod.split sum.split)
  show ?thesis
    unfolding recreate_with_id [symmetric] run answer
    using halves(1) [of "\<lambda>b. b" f] halves(2) [of "\<lambda>b. b"] halves(3) [of _ _ "\<lambda>b. b"] cid
    by (auto simp: bindE_def [of "bindE (take_down sv c) (put_back sv _)"] lost_def split: prod.split sum.split option.split)
qed

section \<open>Instances\<close>

text \<open>A daemon whose state is its instances, and a gateway whose VM was made as \<open>old\<close> and renamed to \<open>web\<close>.\<close>

definition demo_instance :: "string \<Rightarrow> incus_instance" where
  "demo_instance n = \<lparr>in_Name = n, in_Status = ''Stopped'', in_Config = Map.empty, in_Devices = [], in_CreatedAt = 0\<rparr>"

definition demo_incus :: "string set incus" where
  "demo_incus = \<lparr>ic_CreateInstance = (\<lambda>q is. (Inr (), insert (iq_Name q) is)),
     ic_GetInstance = (\<lambda>i is. (if i \<in> is then Inr (demo_instance i, []) else Inl ''not found'', is)),
     ic_GetInstanceState = (\<lambda>i is. (if i \<in> is then Inr None else Inl ''not found'', is)),
     ic_GetInstances = (\<lambda>is. (Inr [], is)),
     ic_UpdateInstance = (\<lambda>i _ _ is. (if i \<in> is then Inr () else Inl (Rejected ''not found''), is)),
     ic_UpdateInstanceState = (\<lambda>i _ is. (if i \<in> is then Inr () else Inl (Rejected ''not found''), is)),
     ic_DeleteInstance = (\<lambda>i is. (Inr (), is - {i})),
     ic_ExecInstance = (\<lambda>_ _. ret \<lparr>ex_Stdout = [], ex_Stderr = [], ex_Return = Some 0\<rparr>),
     ic_CreateSnapshot = (\<lambda>_ _. ret ()), ic_GetInstanceFile = (\<lambda>_ _. ret ''data''), ic_CreateInstanceFile = (\<lambda>_ _ _. ret ())\<rparr>"

definition demo_env :: "string set agent_env" where
  "demo_env = \<lparr>ae_Files = Some (incus_files demo_incus), ae_Host = \<lparr>h_AgentBinary = [], h_ReadFile = (\<lambda>_. NotExist), h_ExecutableDir = None\<rparr>,
     ae_Json = demo_json, ae_Sha256 = id, ae_Route = None, ae_Guide = (\<lambda>_ _. []), ae_Error = (\<lambda>_. []),
     ae_Waits = \<lparr>w_Systemd = 1, w_Start = 1, w_DB = 1, w_HTTP = 1\<rparr>, ae_Locked = True\<rparr>"

definition demo_daemon_server :: "string set server" where
  "demo_daemon_server = \<lparr>sv_Runtime = incus_runtime id demo_incus, sv_Env = demo_env, sv_Materializer = None, sv_LLM = None,
     sv_EncKey = [], sv_Domain = ''gw.test'',
     sv_Aliases = \<lparr>m_guide = (\<lambda>_ _. []), m_rt = None, m_verifier = None, m_domain = ''gw.test''\<rparr>,
     sv_Lower = id, sv_ParseURL = (\<lambda>_. None), sv_Seal = (\<lambda>_ _ x. x), sv_Compare = (=), sv_Hash = Some, sv_Fingerprint = Some,
     sv_Error = (\<lambda>_. []),
     sv_Decode = \<lparr>dc_Create = (\<lambda>_. None), dc_Publish = (\<lambda>_. None), dc_Share = (\<lambda>_. None), dc_Alias = (\<lambda>_. None),
       dc_Key = (\<lambda>_. None), dc_Model = (\<lambda>_. None), dc_SshKey = (\<lambda>_. None)\<rparr>\<rparr>"

definition demo_renamed :: container where
  "demo_renamed = (demo_vm ''c1'' ''web'' ''u1'')\<lparr>c_IncusName := ''svkexe-u1-old'', c_Status := ''running''\<rparr>"

definition demo_daemon_gw :: "string set gateway" where
  "demo_daemon_gw = \<lparr>t_users = [demo_user ''u1'' ''user''], t_sessions = [], t_containers = [demo_renamed], t_aliases = [], t_keys = [],
     t_links = [], t_settings = [], t_sshkeys = [], t_access = [], fk_on = True, clock = 0, faults = [],
     g_rt = {''svkexe-u1-old''}, g_dns = demo_verifier, g_keys = Map.empty\<rparr>"

lemma demo_incus_laws: "daemon_laws id (\<lambda>is. is) demo_incus"
proof -
  have "\<not> isAlreadyRunningError id ''not found''" by code_simp
  then show ?thesis by (auto simp: daemon_laws_def demo_incus_def)
qed

text \<open>The VM runs; the request deletes its instance and ends with none of that name.\<close>

definition demo_marked :: "string set gateway" where
  "demo_marked = demo_daemon_gw\<lparr>t_containers := [demo_renamed\<lparr>c_Status := ''recreating'', c_UpdatedAt := 0\<rparr>]\<rparr>"

lemma demo_row_read: "GetContainerByID ''c1'' demo_daemon_gw = (Inr demo_renamed, demo_daemon_gw)"
  by (simp add: GetContainerByID_def get_container_def run_defs demo_daemon_gw_def demo_renamed_def demo_vm_def scanContainer_def)

lemma demo_mark: "UpdateContainerStatus ''c1'' ''recreating'' (c_IPAddress demo_renamed) demo_daemon_gw = (Inr (), demo_marked)"
  by (simp add: UpdateContainerStatus_def update_container_def run_defs uq_containers_def demo_marked_def demo_daemon_gw_def demo_renamed_def demo_vm_def)

lemma demo_taken: "\<exists>x u. take_down demo_daemon_server demo_renamed demo_marked = (Inr (Some x), u)"
  by (simp add: Let_def take_down_def PrepareStart_def EffectiveNesting_def NestingAllowed_def GetSetting_def SetNestingApplied_def update_container_def
      run_defs uq_containers_def rt_call_def guest_def BackupData_def incus_runtime_def incus_files_def incus_SetNesting_def incus_Start_def incus_Stop_def
      incus_Delete_def incus_Exec_def incus_PullFile_def demo_incus_def demo_env_def demo_daemon_server_def demo_marked_def demo_daemon_gw_def
      demo_renamed_def demo_vm_def demo_instance_def)

theorem recreate_renamed_witness:
  "recreateContainer demo_daemon_server ''c1'' demo_daemon_gw = recreate_with (\<lambda>_. []) demo_daemon_server ''c1'' demo_daemon_gw
    \<and> ''svkexe-u1-old'' \<in> g_rt demo_daemon_gw
    \<and> ''svkexe-u1-old'' \<notin> g_rt (snd (recreateContainer demo_daemon_server ''c1'' demo_daemon_gw))"
proof -
  have f: "c_IncusName demo_renamed = ''svkexe-u1-old''" "c_IncusName demo_renamed \<noteq> containerName (c_OwnerID demo_renamed) (c_Name demo_renamed)"
    "c_Status demo_renamed \<noteq> ''creating'' \<and> c_Status demo_renamed \<noteq> ''recreating''"
    by (simp_all add: demo_renamed_def demo_vm_def containerName_def containerPrefix_def)
  have sv: "sv_Runtime demo_daemon_server = incus_runtime id demo_incus" by (simp add: demo_daemon_server_def)
  obtain x u where t: "take_down demo_daemon_server demo_renamed demo_marked = (Inr (Some x), u)" using demo_taken by blast
  have "''svkexe-u1-old'' \<in> g_rt demo_daemon_gw" by (simp add: demo_daemon_gw_def)
  with recreate_renamed_loses_data [OF demo_incus_laws sv demo_row_read f(3) demo_mark f(2), of "\<lambda>_. []"] show ?thesis
    unfolding f(1) t prod.case sum.case option.case by blast
qed

end
