(* ===== verification/Integrations.thy ===== *)
theory Integrations
  imports Api_Auth Incus_Runtime
begin

text \<open>
  An account's connections to external services: \<^verbatim>\<open>src/internal/integrations\<close>.

  The table \<^verbatim>\<open>user_integrations\<close> extends the gateway's state.  Its rows go with their account by
  ON DELETE CASCADE: \<open>cascade_connections\<close> of \<open>Ssh_Account\<close>.  A Go map is a list of
  pairs with distinct keys, in the order Go visits it; \<^verbatim>\<open>encoding/json\<close>, AES-GCM with its additional
  data, the regular expression of names and the answer of the external service are arguments.
\<close>

section \<open>Connections\<close>

record integration =
  ig_Owner :: string
  ig_Provider :: string
  ig_Config :: string
  ig_Credentials :: string
  ig_Version :: int
  ig_UpdatedAt :: int

record 'r hub = "'r gateway" +
  t_integrations :: "integration list"

type_synonym go_map = "(string \<times> string) list"

datatype int_err = ErrInvalid_input | ErrRejected | ErrVerificationUnavailable | ErrStore dberr | ErrFailed string

type_synonym ('r, 'y, 'a) hubm = "(('r, 'y) hub_scheme, int_err, 'a) sm"

text \<open>A query whose error goes to the caller as it is.\<close>

definition db_do :: "('s, dberr, 'a) sm \<Rightarrow> ('s, int_err, 'a) sm" where
  "db_do m = attempt m (\<lambda>e. raise (ErrStore e)) ret"

record int_field =
  fd_Name :: string
  fd_Label :: string
  fd_Required :: bool

record descriptor =
  ds_Authentication :: string
  ds_ID :: string
  ds_Name :: string
  ds_Config :: "int_field list"
  ds_Secrets :: "int_field list"
  ds_Credentials :: "string list"

record int_input =
  ip_Config :: go_map
  ip_Secrets :: go_map

record provider =
  pv_Descriptor :: descriptor
  pv_Validate :: "int_input \<Rightarrow> int_err option"
  pv_Credential :: "int_input \<Rightarrow> string \<Rightarrow> int_err + string"

record connection =
  cn_Provider :: string
  cn_Config :: go_map
  cn_UpdatedAt :: int

record int_service =
  sr_Key :: string
  sr_Providers :: "provider list"

record int_codec =
  cd_ShowMap :: "go_map \<Rightarrow> string option"
  cd_ReadMap :: "string \<Rightarrow> go_map option"
  cd_Binding :: "string \<Rightarrow> string \<Rightarrow> string"
  cd_Seal :: "string \<Rightarrow> string \<Rightarrow> string \<Rightarrow> string \<Rightarrow> string"
  cd_Open :: "string \<Rightarrow> string \<Rightarrow> string \<Rightarrow> string \<Rightarrow> string option"

section \<open>GitHub\<close>

datatype github_reply = NoReply | Reply int "(int \<times> string) option"

definition github_descriptor :: descriptor where
  "github_descriptor = \<lparr>ds_Authentication = ''personal-access-token'', ds_ID = ''github'', ds_Name = ''GitHub'', ds_Config = [],
     ds_Secrets = [\<lparr>fd_Name = ''token'', fd_Label = ''Personal access token'', fd_Required = True\<rparr>], ds_Credentials = [''token'']\<rparr>"

definition go_get :: "go_map \<Rightarrow> string \<Rightarrow> string" where
  "go_get m k = map_get (map_of m) k"

definition github_validate :: "(string \<Rightarrow> github_reply) \<Rightarrow> int_input \<Rightarrow> int_err option" where
  "github_validate api i =
     (let token = go_get (ip_Secrets i) ''token'' in
      if token = [] \<or> 4096 < length token \<or> ContainsAny token [CHR '' '', CHR 0x09, CHR 0x0D, CHR 0x0A] then Some ErrInvalid_input
      else case api token of
        NoReply \<Rightarrow> Some ErrVerificationUnavailable
      | Reply status who \<Rightarrow>
          if status = 401 then Some ErrRejected
          else if status \<noteq> 200 then Some ErrVerificationUnavailable
          else case who of None \<Rightarrow> Some ErrVerificationUnavailable
            | Some (uid, login) \<Rightarrow> if uid \<le> 0 \<or> login = [] then Some ErrVerificationUnavailable else None)"

definition github :: "(string \<Rightarrow> github_reply) \<Rightarrow> provider" where
  "github api = \<lparr>pv_Descriptor = github_descriptor, pv_Validate = github_validate api,
     pv_Credential = (\<lambda>i name. Inr (go_get (ip_Secrets i) name))\<rparr>"

section \<open>The registry\<close>

definition provider_of :: "int_service \<Rightarrow> string \<Rightarrow> provider option" where
  "provider_of sv i = find (\<lambda>p. ds_ID (pv_Descriptor p) = i) (sr_Providers sv)"

definition provider_ok :: "(string \<Rightarrow> bool) \<Rightarrow> provider \<Rightarrow> bool" where
  "provider_ok safeName p \<longleftrightarrow>
     (let d = pv_Descriptor p; names = map fd_Name (ds_Config d @ ds_Secrets d) in
      safeName (ds_ID d) \<and> list_all safeName names \<and> distinct names \<and> list_all safeName (ds_Credentials d) \<and> distinct (ds_Credentials d))"

text \<open>\<^verbatim>\<open>New\<close>; \<open>None\<close> is its panic.\<close>

definition New_integrations :: "(string \<Rightarrow> bool) \<Rightarrow> string \<Rightarrow> provider list \<Rightarrow> int_service option" where
  "New_integrations safeName key ps =
     (if list_all (provider_ok safeName) ps \<and> distinct (map (\<lambda>p. ds_ID (pv_Descriptor p)) ps)
      then Some \<lparr>sr_Key = key, sr_Providers = ps\<rparr> else None)"

definition Descriptors :: "int_service \<Rightarrow> descriptor list" where
  "Descriptors sv = sort_key ds_ID (map pv_Descriptor (sr_Providers sv))"

definition Descriptor :: "int_service \<Rightarrow> string \<Rightarrow> int_err + descriptor" where
  "Descriptor sv i = (case provider_of sv i of None \<Rightarrow> Inl ErrInvalid_input | Some p \<Rightarrow> Inr (pv_Descriptor p))"

definition validFields :: "go_map \<Rightarrow> int_field list \<Rightarrow> bool" where
  "validFields values fds \<longleftrightarrow>
     list_all (\<lambda>(n, v). length v \<le> 16384 \<and> list_ex (\<lambda>f. fd_Name f = n) fds) values
     \<and> list_all (\<lambda>f. \<not> (fd_Required f \<and> TrimSpace (go_get values (fd_Name f)) = [])) fds"

section \<open>Operations\<close>

definition int_key :: "string \<Rightarrow> string \<Rightarrow> integration \<Rightarrow> bool" where
  "int_key owner provider g \<longleftrightarrow> ig_Owner g = owner \<and> ig_Provider g = provider"

text \<open>The INSERT with ON CONFLICT(owner_id, provider) DO UPDATE.\<close>

definition sql_upsert_integration :: "integration \<Rightarrow> ('r, 'y) hub_scheme \<Rightarrow> dberr + (unit \<times> ('r, 'y) hub_scheme)" where
  "sql_upsert_integration g s =
     (let mine = int_key (ig_Owner g) (ig_Provider g) in
      if list_ex mine (t_integrations s)
      then Inr ((), s\<lparr>t_integrations := map (\<lambda>x. if mine x then x\<lparr>ig_Config := ig_Config g, ig_Credentials := ig_Credentials g,
             ig_Version := 1, ig_UpdatedAt := ig_UpdatedAt g\<rparr> else x) (t_integrations s)\<rparr>)
      else if fk_on s \<and> \<not> user_exists s (ig_Owner g) then Inl ErrForeignKey
      else Inr ((), s\<lparr>t_integrations := t_integrations s @ [g]\<rparr>))"

text \<open>What the provider says of the input, classified.\<close>

definition safe_error :: "int_err \<Rightarrow> int_err" where
  "safe_error e = (if e = ErrRejected then ErrRejected else if e = ErrInvalid_input then ErrInvalid_input else ErrVerificationUnavailable)"

definition Save :: "int_codec \<Rightarrow> int_service \<Rightarrow> string option \<Rightarrow> string \<Rightarrow> string \<Rightarrow> int_input \<Rightarrow> ('r, 'y, unit) hubm" where
  "Save cd sv rnd owner provider i =
     (case provider_of sv provider of
        None \<Rightarrow> raise ErrInvalid_input
      | Some p \<Rightarrow>
          let d = pv_Descriptor p in
          if owner = [] then raise ErrInvalid_input
          else if \<not> validFields (ip_Config i) (ds_Config d) \<or> \<not> validFields (ip_Secrets i) (ds_Secrets d) then raise ErrInvalid_input
          else case pv_Validate p i of
            Some e \<Rightarrow> raise (safe_error e)
          | None \<Rightarrow>
              (case (cd_ShowMap cd (ip_Config i), cd_ShowMap cd (ip_Secrets i)) of
                 (Some config, Some plain) \<Rightarrow>
                   if \<not> aes_key_ok (sr_Key sv) then raise (ErrFailed ''invalid key size'')
                   else (case rnd of
                     None \<Rightarrow> raise (ErrStore ErrEngine)
                   | Some nonce \<Rightarrow> db_do (with_now (\<lambda>now. exec (sql_upsert_integration
                       \<lparr>ig_Owner = owner, ig_Provider = provider, ig_Config = config,
                        ig_Credentials = nonce @ cd_Seal cd (sr_Key sv) nonce (cd_Binding cd owner provider) plain,
                        ig_Version = 1, ig_UpdatedAt = now\<rparr>))))
               | _ \<Rightarrow> raise (ErrFailed ''json'')))"

fun list_connections :: "int_codec \<Rightarrow> int_service \<Rightarrow> integration list \<Rightarrow> int_err + connection list" where
  "list_connections cd sv [] = Inr []"
| "list_connections cd sv (g # gs) =
     (if provider_of sv (ig_Provider g) = None then list_connections cd sv gs
      else case cd_ReadMap cd (ig_Config g) of
        None \<Rightarrow> Inl (ErrFailed ''json'')
      | Some config \<Rightarrow>
          (case list_connections cd sv gs of
             Inl e \<Rightarrow> Inl e
           | Inr cs \<Rightarrow> Inr (\<lparr>cn_Provider = ig_Provider g, cn_Config = config, cn_UpdatedAt = ig_UpdatedAt g\<rparr> # cs)))"

definition List_connections :: "int_codec \<Rightarrow> int_service \<Rightarrow> string \<Rightarrow> ('r, 'y, connection list) hubm" where
  "List_connections cd sv owner =
     (if owner = [] then raise ErrInvalid_input
      else bindE (db_do (exec (sql_value (\<lambda>s. sort_key ig_Provider (filter (\<lambda>g. ig_Owner g = owner) (t_integrations s))))))
        (\<lambda>gs. case list_connections cd sv gs of Inl e \<Rightarrow> raise e | Inr cs \<Rightarrow> ret cs))"

definition Delete_connection :: "int_service \<Rightarrow> string \<Rightarrow> string \<Rightarrow> ('r, 'y, unit) hubm" where
  "Delete_connection sv owner provider =
     (if owner = [] \<or> provider_of sv provider = None then raise ErrInvalid_input
      else db_do (exec (\<lambda>s. Inr ((), s\<lparr>t_integrations := filter (\<lambda>g. \<not> int_key owner provider g) (t_integrations s)\<rparr>))))"

definition int_nonce :: nat where "int_nonce = 12"

text \<open>The credential that a stored row projects to.\<close>

definition row_credential :: "int_codec \<Rightarrow> int_service \<Rightarrow> provider \<Rightarrow> string \<Rightarrow> integration \<Rightarrow> int_err + string" where
  "row_credential cd sv p name g =
     (let enc = ig_Credentials g in
      if ig_Version g \<noteq> 1 then Inl (ErrFailed ''unsupported integration schema'')
      else if \<not> aes_key_ok (sr_Key sv) then Inl (ErrFailed ''invalid key size'')
      else if length enc < int_nonce then Inl (ErrFailed ''invalid encrypted credentials'')
      else case cd_Open cd (sr_Key sv) (take int_nonce enc) (cd_Binding cd (ig_Owner g) (ig_Provider g)) (drop int_nonce enc) of
        None \<Rightarrow> Inl (ErrFailed ''message authentication failed'')
      | Some plain \<Rightarrow>
          (case (cd_ReadMap cd (ig_Config g), cd_ReadMap cd plain) of
             (Some config, Some secrets) \<Rightarrow> pv_Credential p \<lparr>ip_Config = config, ip_Secrets = secrets\<rparr> name
           | _ \<Rightarrow> Inl (ErrFailed ''json'')))"

definition Credential :: "int_codec \<Rightarrow> int_service \<Rightarrow> string \<Rightarrow> string \<Rightarrow> string \<Rightarrow> ('r, 'y, string) hubm" where
  "Credential cd sv owner provider name =
     (case provider_of sv provider of
        None \<Rightarrow> raise (ErrStore ErrNoRows)
      | Some p \<Rightarrow>
          if owner = [] \<or> name \<notin> set (ds_Credentials (pv_Descriptor p)) then raise (ErrStore ErrNoRows)
          else bindE (db_do (exec (sql_row t_integrations (int_key owner provider))))
            (\<lambda>g. case row_credential cd sv p name g of Inl e \<Rightarrow> raise e | Inr v \<Rightarrow> ret v))"

section \<open>The management handler\<close>

text \<open>\<^verbatim>\<open>DecodeInput\<close>: \<open>decode\<close> reads one JSON value with no unknown field, and what follows it.\<close>

definition DecodeInput :: "(string \<Rightarrow> (int_input \<times> string) option) \<Rightarrow> string \<Rightarrow> int_err + int_input" where
  "DecodeInput decode text =
     (if 65536 < length text then Inl ErrInvalid_input
      else case decode text of
        None \<Rightarrow> Inl ErrInvalid_input
      | Some (i, rest) \<Rightarrow> if TrimSpace rest = [] then Inr i else Inl ErrInvalid_input)"

definition PublicError :: "int_err \<Rightarrow> nat \<times> string" where
  "PublicError e =
     (case e of
        ErrInvalid_input \<Rightarrow> (400, ''invalid integration configuration'')
      | ErrRejected \<Rightarrow> (400, ''credentials rejected by the external service; check that the token is valid and has not expired or been revoked'')
      | ErrVerificationUnavailable \<Rightarrow> (503, ''could not verify credentials with the external service; try again later'')
      | _ \<Rightarrow> (500, ''integration operation failed''))"

datatype int_body = NoContent | Connections "connection list" | Refusal string

definition int_handler ::
  "int_codec \<Rightarrow> int_service \<Rightarrow> (string \<Rightarrow> (int_input \<times> string) option) \<Rightarrow> string option \<Rightarrow> string \<Rightarrow> string \<Rightarrow> string \<Rightarrow> string \<Rightarrow>
   ('r, 'y, nat \<times> int_body) hubm" where
  "int_handler cd sv decode rnd owner provider verb text =
     (let refuse = (\<lambda>e. ret (fst (PublicError e), Refusal (snd (PublicError e)))) in
      if owner = [] then ret (401, Refusal ''unauthorized'')
      else if verb = ''GET'' then attempt (List_connections cd sv owner) refuse (\<lambda>cs. ret (200, Connections cs))
      else if verb = ''PUT'' then
        (case DecodeInput decode text of Inl e \<Rightarrow> refuse e
         | Inr i \<Rightarrow> attempt (Save cd sv rnd owner provider i) refuse (\<lambda>_. ret (204, NoContent)))
      else if verb = ''DELETE'' then attempt (Delete_connection sv owner provider) refuse (\<lambda>_. ret (204, NoContent))
      else ret (405, Refusal ''method not allowed''))"

section \<open>What an account's connections are worth\<close>

text \<open>The documented behaviour of the codec: texts of JSON objects read back, and a sealed text opens with the
  nonce and the additional data it was sealed with.\<close>

definition codec_ok :: "int_codec \<Rightarrow> bool" where
  "codec_ok cd \<longleftrightarrow> (\<forall>m x. cd_ShowMap cd m = Some x \<longrightarrow> cd_ReadMap cd x = Some m)
     \<and> (\<forall>k n a x. length n = int_nonce \<longrightarrow> cd_Open cd k n a (cd_Seal cd k n a x) = Some x)"

lemma Save_run:
  assumes "faults s = []" and "Save cd sv rnd owner provider i s = (Inr (), t)"
  obtains p config plain nonce g where "provider_of sv provider = Some p" "owner \<noteq> []" "pv_Validate p i = None"
    "cd_ShowMap cd (ip_Config i) = Some config" "cd_ShowMap cd (ip_Secrets i) = Some plain" "rnd = Some nonce"
    "aes_key_ok (sr_Key sv)"
    "g = \<lparr>ig_Owner = owner, ig_Provider = provider, ig_Config = config,
       ig_Credentials = nonce @ cd_Seal cd (sr_Key sv) nonce (cd_Binding cd owner provider) plain, ig_Version = 1, ig_UpdatedAt = clock s\<rparr>"
    "sql_upsert_integration g s = Inr ((), t)"
  using assms
  by (auto simp: Save_def Let_def db_do_def attempt_def exec_no_fault split: option.splits if_splits prod.splits sum.splits)

lemma find_append: "find P (xs @ ys) = (case find P xs of None \<Rightarrow> find P ys | Some x \<Rightarrow> Some x)"
  by (induction xs) auto

text \<open>C36: after a connection is saved, and until it is changed, each credential it offers reads back as what its provider
  makes of the saved input.\<close>

theorem integration_roundtrip:
  fixes s t :: "('r, 'y) hub_scheme"
  assumes "codec_ok cd" and "faults s = []" and "Save cd sv (Some nonce) owner provider i s = (Inr (), t)" and "length nonce = int_nonce"
    and "provider_of sv provider = Some p" and "name \<in> set (ds_Credentials (pv_Descriptor p))"
  shows "Credential cd sv owner provider name t = (pv_Credential p i name, t)"
proof -
  obtain p' config plain n' g where o: "owner \<noteq> []" "aes_key_ok (sr_Key sv)" and n': "Some nonce = Some n'"
    and shown: "cd_ShowMap cd (ip_Config i) = Some config" "cd_ShowMap cd (ip_Secrets i) = Some plain"
    and g': "g = \<lparr>ig_Owner = owner, ig_Provider = provider, ig_Config = config,
       ig_Credentials = n' @ cd_Seal cd (sr_Key sv) n' (cd_Binding cd owner provider) plain, ig_Version = 1, ig_UpdatedAt = clock s\<rparr>"
    and u: "sql_upsert_integration g s = Inr ((), t)"
    by (rule Save_run [OF assms(2,3)])
  from n' g' have g: "g = \<lparr>ig_Owner = owner, ig_Provider = provider, ig_Config = config,
       ig_Credentials = nonce @ cd_Seal cd (sr_Key sv) nonce (cd_Binding cd owner provider) plain, ig_Version = 1, ig_UpdatedAt = clock s\<rparr>"
    by simp
  from shown assms(1) have j: "cd_ReadMap cd config = Some (ip_Config i)" "cd_ReadMap cd plain = Some (ip_Secrets i)"
    by (simp_all add: codec_ok_def)
  have v: "row_credential cd sv p name x = pv_Credential p i name"
    if "int_key owner provider x" "ig_Config x = config" "ig_Credentials x = ig_Credentials g" "ig_Version x = 1" for x
    using that j o assms(1,4) g by (cases i) (simp add: row_credential_def int_key_def codec_ok_def)
  have f: "faults t = []" and r: "\<exists>x. find (int_key owner provider) (t_integrations t) = Some x \<and> ig_Config x = config
      \<and> ig_Credentials x = ig_Credentials g \<and> ig_Version x = 1"
  proof -
    show "faults t = []" using u assms(2) by (auto simp: sql_upsert_integration_def Let_def split: if_splits)
    have m: "find (int_key owner provider) (map (\<lambda>x. if int_key owner provider x then h x else x) xs)
        = map_option h (find (int_key owner provider) xs)" if "\<And>x. int_key owner provider (h x) = int_key owner provider x" for h xs
      using that by (induction xs) auto
    show "\<exists>x. find (int_key owner provider) (t_integrations t) = Some x \<and> ig_Config x = config
      \<and> ig_Credentials x = ig_Credentials g \<and> ig_Version x = 1"
    proof (cases "list_ex (int_key owner provider) (t_integrations s)")
      case True
      let ?h = "\<lambda>x. x\<lparr>ig_Config := config, ig_Credentials := ig_Credentials g, ig_Version := 1, ig_UpdatedAt := clock s\<rparr>"
      have "t_integrations t = map (\<lambda>x. if int_key owner provider x then ?h x else x) (t_integrations s)"
        using u True g by (auto simp: sql_upsert_integration_def Let_def)
      moreover obtain y where "find (int_key owner provider) (t_integrations s) = Some y"
        using True by (metis list_ex_iff find_None_mem not_None_eq)
      ultimately show ?thesis using m [of ?h "t_integrations s"] by (simp add: int_key_def)
    next
      case False
      then have "find (int_key owner provider) (t_integrations s) = None" by (simp add: find_None_mem list_ex_iff)
      moreover have "t_integrations t = t_integrations s @ [g]"
        using u False g by (auto simp: sql_upsert_integration_def Let_def split: if_splits)
      moreover have "int_key owner provider g" "ig_Config g = config" "ig_Version g = 1" by (simp_all add: g int_key_def)
      ultimately show ?thesis by (simp add: find_append)
    qed
  qed
  from r obtain x where x: "find (int_key owner provider) (t_integrations t) = Some x" "ig_Config x = config"
    "ig_Credentials x = ig_Credentials g" "ig_Version x = 1" by blast
  then have "int_key owner provider x" by (auto dest: find_Some_iff_mem)
  with x v have "row_credential cd sv p name x = pv_Credential p i name" by blast
  with x(1) f o assms(5,6) show ?thesis
    by (simp add: Credential_def db_do_def attempt_def exec_no_fault sql_row_def bindE_def split: sum.split)
qed

text \<open>Nothing but the rows of one connection, with the reason.\<close>

definition only_connection :: "string \<Rightarrow> string \<Rightarrow> ('r, 'y) hub_scheme \<Rightarrow> ('r, 'y) hub_scheme \<Rightarrow> bool" where
  "only_connection owner provider s t \<longleftrightarrow> same_data (s\<lparr>t_integrations := t_integrations t\<rparr>) t
     \<and> filter (\<lambda>g. \<not> int_key owner provider g) (t_integrations t) = filter (\<lambda>g. \<not> int_key owner provider g) (t_integrations s)"

lemma only_connection_same: "same_data s t \<Longrightarrow> only_connection owner provider s t"
  by (erule same_dataE, cases s) (simp add: only_connection_def same_data_def)

lemma exec_only_connection:
  assumes "\<And>s0 a t. f s0 = Inr (a, t) \<Longrightarrow> t = s0\<lparr>t_integrations := t_integrations t\<rparr>
      \<and> filter (\<lambda>g. \<not> int_key owner provider g) (t_integrations t) = filter (\<lambda>g. \<not> int_key owner provider g) (t_integrations s0)"
  shows "only_connection owner provider s (snd (exec f s))"
proof (cases "exec f s")
  case (Pair r t)
  show ?thesis
  proof (cases r)
    case (Inl e)
    with Pair show ?thesis using exec_error_same [of f s e t] by (simp add: only_connection_same)
  next
    case (Inr a)
    with Pair have "f (s\<lparr>faults := tl (faults s)\<rparr>) = Inr (a, t)" by (auto elim: exec_InrE)
    note r = assms [OF this]
    define X where "X = t_integrations t"
    have t: "t = s\<lparr>faults := tl (faults s), t_integrations := X\<rparr>"
      and f: "filter (\<lambda>g. \<not> int_key owner provider g) X = filter (\<lambda>g. \<not> int_key owner provider g) (t_integrations s)"
      using r by (simp_all add: X_def)
    have "same_data (s\<lparr>t_integrations := t_integrations t\<rparr>) t" unfolding t by (cases s) (simp add: same_data_def)
    with f Pair show ?thesis by (simp add: only_connection_def X_def)
  qed
qed

lemma filter_others: "(\<And>x. int_key owner provider (h x) = int_key owner provider x) \<Longrightarrow>
   filter (\<lambda>g. \<not> int_key owner provider g) (map (\<lambda>x. if int_key owner provider x then h x else x) xs)
     = filter (\<lambda>g. \<not> int_key owner provider g) xs"
  by (induction xs) auto

lemma upsert_only: "int_key owner provider g \<Longrightarrow> only_connection owner provider s (snd (exec (sql_upsert_integration g) s))"
proof (rule exec_only_connection)
  fix s0 a t assume g: "int_key owner provider g" and u: "sql_upsert_integration g s0 = Inr (a, t)"
  let ?h = "\<lambda>x. x\<lparr>ig_Config := ig_Config g, ig_Credentials := ig_Credentials g, ig_Version := 1, ig_UpdatedAt := ig_UpdatedAt g\<rparr>"
  have k: "int_key (ig_Owner g) (ig_Provider g) = int_key owner provider" using g by (auto simp: int_key_def fun_eq_iff)
  have "t = s0\<lparr>t_integrations := map (\<lambda>x. if int_key owner provider x then ?h x else x) (t_integrations s0)\<rparr>
      \<or> t = s0\<lparr>t_integrations := t_integrations s0 @ [g]\<rparr>"
    using u unfolding sql_upsert_integration_def Let_def k by (auto split: if_splits)
  then show "t = s0\<lparr>t_integrations := t_integrations t\<rparr>
      \<and> filter (\<lambda>g. \<not> int_key owner provider g) (t_integrations t) = filter (\<lambda>g. \<not> int_key owner provider g) (t_integrations s0)"
  proof
    assume t: "t = s0\<lparr>t_integrations := map (\<lambda>x. if int_key owner provider x then ?h x else x) (t_integrations s0)\<rparr>"
    show ?thesis using filter_others [of owner provider ?h "t_integrations s0"] by (simp add: t int_key_def)
  next
    assume "t = s0\<lparr>t_integrations := t_integrations s0 @ [g]\<rparr>"
    then show ?thesis using g by simp
  qed
qed

lemma db_do_snd: "snd (db_do m s) = snd (m s)"
  by (simp add: db_do_def attempt_def split: prod.split sum.split)

lemma Save_only:
  "only_connection owner provider s (snd (Save cd sv rnd owner provider i s))"
  using upsert_only [of owner provider _ s]
  by (simp add: Save_def Let_def db_do_snd only_connection_same int_key_def split: option.split)

lemma Delete_only: "only_connection owner provider s (snd (Delete_connection sv owner provider s))"
  unfolding Delete_connection_def
  by (simp add: db_do_snd only_connection_same, intro impI exec_only_connection) auto

lemma refused_save:
  assumes "provider_of sv provider = Some p" and "pv_Validate p i \<noteq> None"
  shows "snd (Save cd sv rnd owner provider i s) = s"
  using assms by (auto simp: Save_def Let_def)

text \<open>C10: saving or deleting a connection touches no row but the account's one for that service and no other table; input the
  external service did not accept leaves the stored connection as it was, and an error changes no row.\<close>

theorem integration_isolated:
  fixes s :: "('r, 'y) hub_scheme"
  shows "only_connection owner provider s (snd (Save cd sv rnd owner provider i s))
    \<and> only_connection owner provider s (snd (Delete_connection sv owner provider s))
    \<and> (\<forall>p. provider_of sv provider = Some p \<and> pv_Validate p i \<noteq> None \<longrightarrow> snd (Save cd sv rnd owner provider i s) = s)
    \<and> (\<forall>e t. Save cd sv rnd owner provider i s = (Inl e, t) \<or> Delete_connection sv owner provider s = (Inl e, t) \<longrightarrow> same_data s t)"
proof -
  have "same_data s t" if "Save cd sv rnd owner provider i s = (Inl e, t)" for e t
    using that by (auto simp: Save_def Let_def db_do_def attempt_def dest: exec_error_same split: option.splits if_splits prod.splits sum.splits)
  moreover have "same_data s t" if "Delete_connection sv owner provider s = (Inl e, t)" for e t
    using that by (auto simp: Delete_connection_def db_do_def attempt_def dest: exec_error_same split: if_splits prod.splits sum.splits)
  ultimately show ?thesis using refused_save [of sv provider _ i cd rnd owner s]
    by (intro conjI allI impI Save_only Delete_only) (elim conjE disjE, simp_all)+
qed

section \<open>Instances\<close>

definition demo_codec :: int_codec where
  "demo_codec = \<lparr>cd_ShowMap = (\<lambda>m. if m = [] then Some ''{}'' else if m = [(''token'', ''t0'')] then Some ''T'' else None),
     cd_ReadMap = (\<lambda>x. if x = ''{}'' then Some [] else if x = ''T'' then Some [(''token'', ''t0'')] else None),
     cd_Binding = (\<lambda>o' p. o' @ p), cd_Seal = (\<lambda>_ _ _ x. x), cd_Open = (\<lambda>_ _ _ x. Some x)\<rparr>"

definition demo_integrations :: int_service where
  "demo_integrations = \<lparr>sr_Key = replicate 16 (CHR ''k''), sr_Providers = [github (\<lambda>_. Reply 200 (Some (1, ''ann'')))]\<rparr>"

definition demo_hub :: "unit hub" where
  "demo_hub = \<lparr>t_users = [demo_user ''u1'' ''user''], t_sessions = [], t_containers = [demo_vm ''c1'' ''web'' ''u1''], t_aliases = [],
     t_keys = [], t_links = [], t_settings = [], t_sshkeys = [], t_access = [], fk_on = True, clock = 0, faults = [],
     g_rt = (), g_dns = demo_verifier, g_keys = Map.empty, t_integrations = []\<rparr>"

definition demo_input :: int_input where
  "demo_input = \<lparr>ip_Config = [], ip_Secrets = [(''token'', ''t0'')]\<rparr>"

definition demo_nonce :: string where "demo_nonce = replicate 12 (CHR ''n'')"

lemma demo_codec_ok: "codec_ok demo_codec"
  by (simp add: codec_ok_def demo_codec_def)

lemma demo_hub_save: "\<exists>t. Save demo_codec demo_integrations (Some demo_nonce) ''u1'' ''github'' demo_input demo_hub = (Inr (), t)"
proof -
  have t: "TrimSpace ''t0'' = ''t0''" "\<not> ContainsAny ''t0'' [CHR '' '', CHR 0x09, CHR 0x0D, CHR 0x0A]" by code_simp+
  have "validFields (ip_Secrets demo_input) (ds_Secrets github_descriptor)" "validFields (ip_Config demo_input) (ds_Config github_descriptor)"
    "github_validate (\<lambda>_. Reply 200 (Some (1, ''ann''))) demo_input = None"
    by (simp_all add: validFields_def demo_input_def github_descriptor_def go_get_def map_get_def github_validate_def t)
  then show ?thesis
    by (simp add: Save_def demo_integrations_def provider_of_def github_def github_descriptor_def Let_def db_do_def attempt_def exec_no_fault
        sql_upsert_integration_def demo_codec_def demo_input_def aes_key_ok_def demo_hub_def demo_user_def user_exists_def)
qed

theorem integration_roundtrip_witness:
  "\<exists>t. Save demo_codec demo_integrations (Some demo_nonce) ''u1'' ''github'' demo_input demo_hub = (Inr (), t)
    \<and> Credential demo_codec demo_integrations ''u1'' ''github'' ''token'' t = (Inr ''t0'', t)"
proof -
  obtain t where r: "Save demo_codec demo_integrations (Some demo_nonce) ''u1'' ''github'' demo_input demo_hub = (Inr (), t)"
    using demo_hub_save by blast
  let ?p = "github (\<lambda>_. Reply 200 (Some (1, ''ann'')))"
  have p: "provider_of demo_integrations ''github'' = Some ?p" "''token'' \<in> set (ds_Credentials (pv_Descriptor ?p))"
    "pv_Credential ?p demo_input ''token'' = Inr ''t0''"
    by (simp_all add: demo_integrations_def provider_of_def github_def github_descriptor_def demo_input_def go_get_def map_get_def)
  have "faults demo_hub = []" "length demo_nonce = int_nonce" by (simp_all add: demo_hub_def demo_nonce_def int_nonce_def)
  from integration_roundtrip [OF demo_codec_ok this(1) r this(2) p(1,2)] r show ?thesis unfolding p(3) by blast
qed

text \<open>A saved connection changes one row, a token the service refuses changes nothing, and neither does a missing account.\<close>

definition refusing :: int_service where
  "refusing = \<lparr>sr_Key = replicate 16 (CHR ''k''), sr_Providers = [github (\<lambda>_. Reply 401 None)]\<rparr>"

theorem integration_isolated_witness:
  "only_connection ''u1'' ''github'' demo_hub (snd (Save demo_codec demo_integrations (Some demo_nonce) ''u1'' ''github'' demo_input demo_hub))
    \<and> snd (Save demo_codec refusing (Some demo_nonce) ''u1'' ''github'' demo_input demo_hub) = demo_hub
    \<and> same_data demo_hub (snd (Delete_connection demo_integrations [] ''github'' demo_hub))"
proof -
  let ?p = "github (\<lambda>_. Reply 401 None)"
  have p: "provider_of refusing ''github'' = Some ?p" by (simp add: refusing_def provider_of_def github_def github_descriptor_def)
  have "TrimSpace ''t0'' = ''t0''" by code_simp
  then have v: "pv_Validate ?p demo_input \<noteq> None"
    by (simp add: github_def github_validate_def demo_input_def go_get_def map_get_def)
  have d: "Delete_connection demo_integrations [] ''github'' demo_hub = (Inl ErrInvalid_input, demo_hub)"
    by (simp add: Delete_connection_def)
  show ?thesis
    using integration_isolated [of "''u1''" "''github''" demo_hub demo_codec demo_integrations "Some demo_nonce" demo_input]
      integration_isolated [of "''u1''" "''github''" demo_hub demo_codec refusing "Some demo_nonce" demo_input] p v
      integration_isolated [of "[]" "''github''" demo_hub demo_codec demo_integrations "Some demo_nonce" demo_input] d
    by auto
qed

end
