(* ===== verification/Metadata_Resolver.thy ===== *)
theory Metadata_Resolver
  imports Integrations Lookups
begin

text \<open>
  Who is asking the metadata service: \<^verbatim>\<open>src/internal/metadata/resolver.go\<close> and
  \<^verbatim>\<open>identity.go\<close>.

  The resolver's cached view extends the gateway's state, and its clock is the gateway's.  Parsing an address
  and printing one are arguments.  The mutex serialises \<open>holderOf\<close> and \<open>remember\<close>, which are the steps of
  one \<open>Resolve\<close> here.
\<close>

section \<open>The view\<close>

record holder =
  hd_IncusName :: string
  hd_MAC :: string

record identity =
  id_ContainerID :: string
  id_Name :: string
  id_IncusName :: string
  id_OwnerID :: string
  id_IPv4 :: string
  id_MAC :: string
  id_CPULimit :: int
  id_MemoryMB :: int
  id_DiskGB :: int
  id_AppPort :: int
  id_AppPublic :: bool
  id_Nesting :: bool
  id_NestingApplied :: bool
  id_InitialTask :: string
  id_InitialTaskState :: string
  id_Aliases :: "string list"
  id_PublicKeys :: "(string \<times> string) list"
  id_CreatedAt :: int

record 'r meta = "'r hub" +
  md_Holders :: "addr \<rightharpoonup> holder"
  md_Fetched :: int
  md_Loaded :: bool
  md_StaleFor :: int
  md_Identities :: "string \<rightharpoonup> identity"
  md_Warned :: "string set"

datatype meta_err = ErrUnknownCaller | ErrStaleView int | ErrList dberr | ErrLoad string dberr

type_synonym ('r, 'a) mdm = "('r meta, meta_err, 'a) sm"

record meta_codec =
  mp_ParseAddr :: "string \<Rightarrow> addr option"
  mp_ShowAddr :: "addr \<Rightarrow> string"

definition DefaultResolveTTL :: int where "DefaultResolveTTL = 5 * 1000000000"
definition maxStaleWindows :: int where "maxStaleWindows = 6"

definition md_list :: "'r runtime \<Rightarrow> ('r, rt_container list) mdm" where
  "md_list rt s = (case rt_List rt [] (g_rt s) of (Inl e, x) \<Rightarrow> (Inl (ErrList e), s\<lparr>g_rt := x\<rparr>) | (Inr cs, x) \<Rightarrow> (Inr cs, s\<lparr>g_rt := x\<rparr>))"

text \<open>The instance names warned about, and whether this one is pinned.\<close>

definition addressIsPinned :: "string set \<Rightarrow> rt_container \<Rightarrow> bool \<times> string set" where
  "addressIsPinned warned i = (if rc_AddressFiltered i then (True, warned) else (False, insert (rc_ID i) warned))"

definition instance_addr :: "meta_codec \<Rightarrow> rt_container \<Rightarrow> addr option" where
  "instance_addr mc i = (if rc_IP i = [] then None else map_option Unmap (mp_ParseAddr mc (rc_IP i)))"

fun view_of :: "meta_codec \<Rightarrow> (addr \<rightharpoonup> holder) \<Rightarrow> addr set \<Rightarrow> string set \<Rightarrow> rt_container list \<Rightarrow> (addr \<rightharpoonup> holder) \<times> string set" where
  "view_of mc holders ambiguous warned [] = (holders, warned)"
| "view_of mc holders ambiguous warned (i # is) =
     (case instance_addr mc i of
        None \<Rightarrow> view_of mc holders ambiguous warned is
      | Some a \<Rightarrow>
          if a \<in> ambiguous then view_of mc holders ambiguous warned is
          else case addressIsPinned warned i of (pinned, warned') \<Rightarrow>
            if \<not> pinned then view_of mc holders ambiguous warned' is
            else if holders a \<noteq> None then view_of mc (holders(a := None)) (insert a ambiguous) warned' is
            else view_of mc (holders(a \<mapsto> \<lparr>hd_IncusName = rc_ID i, hd_MAC = rc_MAC i\<rparr>)) ambiguous warned' is)"

definition snapshot :: "meta_codec \<Rightarrow> 'r runtime \<Rightarrow> ('r, addr \<rightharpoonup> holder) mdm" where
  "snapshot mc rt = bindE (md_list rt) (\<lambda>live s.
     case view_of mc Map.empty {} (md_Warned s) live of (holders, warned) \<Rightarrow> (Inr holders, s\<lparr>md_Warned := warned\<rparr>))"

text \<open>The refresh of the cached view; a failed one starts a window too.\<close>

definition refresh :: "meta_codec \<Rightarrow> 'r runtime \<Rightarrow> int \<Rightarrow> ('r, unit) mdm" where
  "refresh mc rt ttl s =
     (if md_Loaded s \<and> clock s - md_Fetched s < ttl then (Inr (), s)
      else case snapshot mc rt s of
        (Inr holders, t) \<Rightarrow> (Inr (), t\<lparr>md_Fetched := clock t, md_Holders := holders, md_Loaded := True, md_StaleFor := 0,
            md_Identities := Map.empty\<rparr>)
      | (Inl e, t) \<Rightarrow>
          if \<not> md_Loaded t then (Inl e, t\<lparr>md_Fetched := clock t\<rparr>)
          else (Inr (), t\<lparr>md_Fetched := clock t, md_StaleFor := md_StaleFor t + 1\<rparr>))"

definition holderOf :: "meta_codec \<Rightarrow> 'r runtime \<Rightarrow> int \<Rightarrow> addr \<Rightarrow> ('r, holder \<times> identity option) mdm" where
  "holderOf mc rt ttl a = bindE (refresh mc rt ttl) (\<lambda>_ s.
     if md_StaleFor s > maxStaleWindows then (Inl (ErrStaleView (md_StaleFor s)), s)
     else case md_Holders s (Unmap a) of
       None \<Rightarrow> (Inl ErrUnknownCaller, s)
     | Some h \<Rightarrow> (Inr (h, md_Identities s (hd_IncusName h)), s))"

section \<open>The identity\<close>

definition base_identity :: "meta_codec \<Rightarrow> holder \<Rightarrow> addr \<Rightarrow> container \<Rightarrow> identity" where
  "base_identity mc h a c = \<lparr>id_ContainerID = c_ID c, id_Name = c_Name c, id_IncusName = c_IncusName c, id_OwnerID = c_OwnerID c,
     id_IPv4 = mp_ShowAddr mc (Unmap a), id_MAC = hd_MAC h, id_CPULimit = c_CPULimit c, id_MemoryMB = c_MemoryMB c,
     id_DiskGB = c_DiskGB c, id_AppPort = c_AppPort c, id_AppPublic = c_AppPublic c, id_Nesting = False,
     id_NestingApplied = c_NestingApplied c, id_InitialTask = c_InitialTask c, id_InitialTaskState = c_InitialTaskState c,
     id_Aliases = [], id_PublicKeys = [], id_CreatedAt = c_CreatedAt c\<rparr>"

definition identify :: "meta_codec \<Rightarrow> holder \<Rightarrow> addr \<Rightarrow> ('r, identity) mdm" where
  "identify mc h a =
     attempt (GetContainerByIncusName (hd_IncusName h))
       (\<lambda>e. if e = ErrNoRows then raise ErrUnknownCaller else raise (ErrLoad (hd_IncusName h) e)) (\<lambda>c.
     bindE (attempt NestingAllowed (\<lambda>_. ret False) ret) (\<lambda>allowed.
     bindE (attempt (ListAliasesByContainer (c_ID c)) (\<lambda>_. ret []) (\<lambda>as. ret (map a_Hostname (filter a_Verified as)))) (\<lambda>aliases.
     bindE (attempt (ListSSHKeysByUser (c_OwnerID c)) (\<lambda>_. ret []) (\<lambda>ks. ret (map (\<lambda>k. (k_Name k, k_PublicKey k)) ks))) (\<lambda>keys.
     ret ((base_identity mc h a c)\<lparr>id_Nesting := allowed \<and> c_Nesting c, id_Aliases := aliases, id_PublicKeys := keys\<rparr>)))))"

definition remember :: "string \<Rightarrow> identity \<Rightarrow> ('r, unit) mdm" where
  "remember name i s = (Inr (), s\<lparr>md_Identities := (md_Identities s)(name \<mapsto> i)\<rparr>)"

definition Resolve :: "meta_codec \<Rightarrow> 'r runtime \<Rightarrow> int \<Rightarrow> addr \<Rightarrow> ('r, identity) mdm" where
  "Resolve mc rt ttl a = bindE (holderOf mc rt ttl a) (\<lambda>(h, cached).
     case cached of
       Some i \<Rightarrow> ret (i\<lparr>id_IPv4 := mp_ShowAddr mc (Unmap a), id_MAC := hd_MAC h\<rparr>)
     | None \<Rightarrow> bindE (identify mc h a) (\<lambda>i. bindE (remember (hd_IncusName h) i) (\<lambda>_. ret i)))"

section \<open>The view is exact\<close>

text \<open>The instances that hold an address and are pinned to it.\<close>

definition pinned_at :: "meta_codec \<Rightarrow> addr \<Rightarrow> rt_container list \<Rightarrow> rt_container list" where
  "pinned_at mc a is = filter (\<lambda>i. instance_addr mc i = Some a \<and> rc_AddressFiltered i) is"

definition holder_of :: "rt_container list \<Rightarrow> holder option" where
  "holder_of is = (case is of [i] \<Rightarrow> Some \<lparr>hd_IncusName = rc_ID i, hd_MAC = rc_MAC i\<rparr> | _ \<Rightarrow> None)"

lemma pinned_snoc:
  "pinned_at mc a (is @ [i]) = pinned_at mc a is @ (if instance_addr mc i = Some a \<and> rc_AddressFiltered i then [i] else [])"
  by (simp add: pinned_at_def)

lemma holder_of_None: "holder_of is = None \<longleftrightarrow> length is \<noteq> 1" "None = holder_of is \<longleftrightarrow> length is \<noteq> 1"
  by (auto simp: holder_of_def split: list.split)

lemma holder_of_single [simp]: "holder_of [i] = Some \<lparr>hd_IncusName = rc_ID i, hd_MAC = rc_MAC i\<rparr>"
  by (simp add: holder_of_def)

lemma view_of_exact:
  assumes "\<And>a. a \<in> ambiguous \<longleftrightarrow> 2 \<le> length (pinned_at mc a seen)" and "\<And>a. holders a = holder_of (pinned_at mc a seen)"
  shows "fst (view_of mc holders ambiguous warned is) a = holder_of (pinned_at mc a (seen @ is))"
  using assms
proof (induction "is" arbitrary: holders ambiguous warned seen)
  case Nil
  then show ?case by simp
next
  case (Cons i "is")
  let ?now = "seen @ [i]"
  have go: "fst (view_of mc holders' ambiguous' warned' is) a = holder_of (pinned_at mc a (seen @ i # is))"
    if "\<And>b. b \<in> ambiguous' \<longleftrightarrow> 2 \<le> length (pinned_at mc b ?now)" "\<And>b. holders' b = holder_of (pinned_at mc b ?now)"
    for holders' ambiguous' warned' using Cons.IH [OF that] by simp
  show ?case
  proof (cases "instance_addr mc i")
    case None
    then have v: "view_of mc holders ambiguous warned (i # is) = view_of mc holders ambiguous warned is" by simp
    show ?thesis unfolding v by (rule go) (use Cons.prems None in \<open>auto simp: pinned_snoc\<close>)
  next
    case (Some b)
    show ?thesis
    proof (cases "b \<in> ambiguous \<or> \<not> rc_AddressFiltered i")
      case True
      have same: "holder_of (pinned_at mc c ?now) = holder_of (pinned_at mc c seen)" "2 \<le> length (pinned_at mc c ?now) \<longleftrightarrow> 2 \<le> length (pinned_at mc c seen)" for c
      proof -
        have "2 \<le> length (pinned_at mc b seen)" if "rc_AddressFiltered i" using True that Cons.prems(1) by blast
        then show "holder_of (pinned_at mc c ?now) = holder_of (pinned_at mc c seen)"
          "2 \<le> length (pinned_at mc c ?now) \<longleftrightarrow> 2 \<le> length (pinned_at mc c seen)"
          using Some by (auto simp: pinned_snoc holder_of_def split: list.split)
      qed
      have v: "view_of mc holders ambiguous warned (i # is)
          = view_of mc holders ambiguous (if b \<in> ambiguous then warned else insert (rc_ID i) warned) is"
        using True Some by (auto simp: addressIsPinned_def)
      show ?thesis unfolding v by (rule go) (use Cons.prems same in auto)
    next
      case False
      then have len: "length (pinned_at mc b seen) < 2" using Cons.prems(1) [of b] by simp
      show ?thesis
      proof (cases "holders b")
        case None
        then have "holder_of (pinned_at mc b seen) = None" using Cons.prems(2) [of b] by simp
        then have "length (pinned_at mc b seen) \<noteq> 1" by (simp add: holder_of_None)
        with len have e: "pinned_at mc b seen = []" by (cases "pinned_at mc b seen") auto
        have v: "view_of mc holders ambiguous warned (i # is)
            = view_of mc (holders(b \<mapsto> \<lparr>hd_IncusName = rc_ID i, hd_MAC = rc_MAC i\<rparr>)) ambiguous warned is"
          using False Some None by (simp add: addressIsPinned_def)
        show ?thesis unfolding v by (rule go) (use Cons.prems False Some e in \<open>auto simp: pinned_snoc\<close>)
      next
        case (Some h)
        with Cons.prems(2) [of b] have one: "length (pinned_at mc b seen) = 1" using holder_of_None(1) [of "pinned_at mc b seen"] by auto
        have v: "view_of mc holders ambiguous warned (i # is) = view_of mc (holders(b := None)) (insert b ambiguous) warned is"
          using False Some \<open>instance_addr mc i = Some b\<close> by (simp add: addressIsPinned_def)
        show ?thesis unfolding v
          by (rule go) (use Cons.prems False one \<open>instance_addr mc i = Some b\<close> in \<open>auto simp: pinned_snoc holder_of_None\<close>)
      qed
    qed
  qed
qed

text \<open>In the view of a list of instances an address belongs to an instance exactly when that instance holds it, is
  pinned to its address on every network card, and no other pinned instance holds it too.\<close>

theorem snapshot_exact:
  "fst (view_of mc Map.empty {} warned live) a = holder_of (pinned_at mc a live)"
  using view_of_exact [of "{}" mc "[]" Map.empty warned live a] by (simp add: pinned_at_def holder_of_def)

section \<open>Attribution\<close>

text \<open>The cache holds identities of the instances it names.\<close>

definition cache_ok :: "'r meta \<Rightarrow> bool" where
  "cache_ok s \<longleftrightarrow> (\<forall>n i. md_Identities s n = Some i \<longrightarrow> id_IncusName i = n)"

text \<open>What an answer says: the address belongs to the instance in the view, and the view is not too stale.\<close>

definition attributed :: "meta_codec \<Rightarrow> addr \<Rightarrow> identity \<Rightarrow> 'r meta \<Rightarrow> bool" where
  "attributed mc a i t \<longleftrightarrow> md_StaleFor t \<le> maxStaleWindows \<and> (\<exists>h. md_Holders t (Unmap a) = Some h
     \<and> id_IncusName i = hd_IncusName h \<and> id_MAC i = hd_MAC h \<and> id_IPv4 i = mp_ShowAddr mc (Unmap a))"

text \<open>The database operations leave the resolver's state alone.\<close>

definition view_same :: "'r meta \<Rightarrow> 'r meta \<Rightarrow> bool" where
  "view_same s0 s \<longleftrightarrow> md_Holders s = md_Holders s0 \<and> md_Fetched s = md_Fetched s0 \<and> md_Loaded s = md_Loaded s0
     \<and> md_StaleFor s = md_StaleFor s0 \<and> md_Identities s = md_Identities s0 \<and> t_containers s = t_containers s0"

interpretation view: store_inv "view_same s0"
  by unfold_locales (simp add: view_same_def)

lemmas view_rules [keeps_rules] = view.keeps_query

lemma keeps_view_identify: "keeps (view_same s0) (identify mc h a)"
  unfolding identify_def GetContainerByIncusName_def get_container_def NestingAllowed_def GetSetting_def ListAliasesByContainer_def
    ListSSHKeysByUser_def
  by (intro keeps_rules)

lemma identify_ok:
  assumes "identify mc h a s = (Inr i, t)"
  shows "view_same s t \<and> id_IncusName i = hd_IncusName h \<and> id_MAC i = hd_MAC h \<and> id_IPv4 i = mp_ShowAddr mc (Unmap a)"
proof -
  have "view_same s s" by (simp add: view_same_def)
  with keeps_view_identify [of s mc h a] assms have v: "view_same s t" by (metis keepsD snd_conv)
  from assms obtain c s1 f where c: "GetContainerByIncusName (hd_IncusName h) s = (Inr c, s1)"
    and i: "i = (base_identity mc h a c)\<lparr>id_Nesting := fst f, id_Aliases := fst (snd f), id_PublicKeys := snd (snd f)\<rparr>"
    by (auto simp: identify_def attempt_def split: prod.splits sum.splits if_splits elim!: bindE_InrE)
  have "c_IncusName c = hd_IncusName h"
    using c by (auto simp: GetContainerByIncusName_def get_container_def scanContainer_def elim!: bindE_InrE dest!: containers.row_ok)
  with v show ?thesis unfolding i by (simp add: base_identity_def)
qed

definition due :: "int \<Rightarrow> 'r meta \<Rightarrow> bool" where
  "due ttl s \<longleftrightarrow> \<not> md_Loaded s \<or> ttl \<le> clock s - md_Fetched s"

lemma refresh_cases:
  assumes "refresh mc rt ttl s = (r, t)"
  shows "\<not> due ttl s \<and> r = Inr () \<and> t = s
    \<or> due ttl s \<and> (\<exists>live. fst (rt_List rt [] (g_rt s)) = Inr live \<and> r = Inr () \<and> md_StaleFor t = 0 \<and> md_Identities t = Map.empty
        \<and> md_Loaded t \<and> md_Fetched t = clock s \<and> md_Holders t = fst (view_of mc Map.empty {} (md_Warned s) live))
    \<or> due ttl s \<and> (\<exists>e. fst (rt_List rt [] (g_rt s)) = Inl e) \<and> md_Holders t = md_Holders s \<and> md_Identities t = md_Identities s
        \<and> md_Loaded t = md_Loaded s \<and> md_Fetched t = clock s
        \<and> (if md_Loaded s then r = Inr () \<and> md_StaleFor t = md_StaleFor s + 1 else r \<noteq> Inr () \<and> md_StaleFor t = md_StaleFor s)"
proof (cases "due ttl s")
  case False
  then show ?thesis using assms by (simp add: refresh_def due_def)
next
  case True
  obtain l x where l: "rt_List rt [] (g_rt s) = (l, x)" by (cases "rt_List rt [] (g_rt s)")
  show ?thesis
  proof (cases l)
    case (Inl e)
    with True l assms show ?thesis by (auto simp: refresh_def due_def snapshot_def md_list_def bindE_def)
  next
    case (Inr live)
    obtain hs w where "view_of mc Map.empty {} (md_Warned s) live = (hs, w)" by (cases "view_of mc Map.empty {} (md_Warned s) live")
    with Inr True l assms show ?thesis by (auto simp: refresh_def due_def snapshot_def md_list_def bindE_def)
  qed
qed

lemma holderOf_cases:
  assumes "holderOf mc rt ttl a s = (Inr (h, cached), t)"
  shows "refresh mc rt ttl s = (Inr (), t) \<and> md_StaleFor t \<le> maxStaleWindows \<and> md_Holders t (Unmap a) = Some h
    \<and> cached = md_Identities t (hd_IncusName h)"
  using assms by (auto simp: holderOf_def bindE_def split: prod.splits sum.splits if_splits option.splits)

text \<open>An answer of the resolver is about the instance that the view gives the address to, with that instance's
  identifiers, and the view is not too stale; when a refresh was due and the runtime answered, that instance is the only
  one the runtime lists that holds the address and is pinned to it.  The cache keeps its invariant.\<close>

theorem Resolve_attributes:
  assumes "cache_ok s" and "Resolve mc rt ttl a s = (Inr i, t)"
  shows "cache_ok t \<and> attributed mc a i t
    \<and> (\<forall>live. due ttl s \<and> fst (rt_List rt [] (g_rt s)) = Inr live \<longrightarrow>
         (\<exists>j. pinned_at mc (Unmap a) live = [j] \<and> rc_ID j = id_IncusName i \<and> rc_MAC j = id_MAC i))"
proof -
  from assms(2) obtain h cached s1 where h: "holderOf mc rt ttl a s = (Inr (h, cached), s1)"
    and rest: "(case cached of Some i \<Rightarrow> ret (i\<lparr>id_IPv4 := mp_ShowAddr mc (Unmap a), id_MAC := hd_MAC h\<rparr>)
      | None \<Rightarrow> bindE (identify mc h a) (\<lambda>i. bindE (remember (hd_IncusName h) i) (\<lambda>_. ret i))) s1 = (Inr i, t)"
    unfolding Resolve_def by (auto elim!: bindE_InrE)
  note f = holderOf_cases [OF h]
  note c = refresh_cases [of mc rt ttl s "Inr ()" s1]
  have cache: "cache_ok s1" using c f assms(1) by (auto simp: cache_ok_def split: if_splits)
  have i: "cache_ok t \<and> id_IncusName i = hd_IncusName h \<and> id_MAC i = hd_MAC h \<and> id_IPv4 i = mp_ShowAddr mc (Unmap a)
      \<and> md_StaleFor t = md_StaleFor s1 \<and> md_Holders t = md_Holders s1"
  proof (cases cached)
    case (Some k)
    then have "i = k\<lparr>id_IPv4 := mp_ShowAddr mc (Unmap a), id_MAC := hd_MAC h\<rparr>" "t = s1" using rest by simp_all
    then show ?thesis using cache f Some by (auto simp: cache_ok_def)
  next
    case None
    then obtain s2 where s2: "identify mc h a s1 = (Inr i, s2)" "t = s2\<lparr>md_Identities := (md_Identities s2)(hd_IncusName h \<mapsto> i)\<rparr>"
      using rest by (auto simp: remember_def elim!: bindE_InrE)
    from identify_ok [OF s2(1)] cache s2(2) show ?thesis by (auto simp: cache_ok_def view_same_def)
  qed
  have "\<exists>j. pinned_at mc (Unmap a) live = [j] \<and> rc_ID j = hd_IncusName h \<and> rc_MAC j = hd_MAC h"
    if "due ttl s" "fst (rt_List rt [] (g_rt s)) = Inr live" for live
  proof -
    have "holder_of (pinned_at mc (Unmap a) live) = Some h"
      using c f that view_of_exact [of "{}" mc "[]" Map.empty "md_Warned s" live "Unmap a"] by (auto simp: pinned_at_def holder_of_def)
    then show ?thesis by (auto simp: holder_of_def split: list.splits)
  qed
  with i f show ?thesis by (auto simp: attributed_def)
qed

text \<open>C35: the bound on staleness counts failed refreshes and not time: a view of any age is used again for the first
  request after a silence, when the runtime cannot be asked.\<close>

theorem stale_view_any_age:
  assumes "md_Loaded s" and "md_StaleFor s < maxStaleWindows" and "0 < ttl" and "ttl \<le> age" and "clock s = md_Fetched s + age"
    and "fst (rt_List rt [] (g_rt s)) = Inl e" and "md_Holders s (Unmap a) = Some h"
  shows "\<exists>t. holderOf mc rt ttl a s = (Inr (h, md_Identities s (hd_IncusName h)), t)"
proof -
  obtain t r where t: "refresh mc rt ttl s = (r, t)" by (cases "refresh mc rt ttl s")
  have "due ttl s" using assms by (simp add: due_def)
  with refresh_cases [OF t] assms(1,6) have f: "r = Inr ()" "md_StaleFor t = md_StaleFor s + 1" "md_Holders t = md_Holders s"
    "md_Identities t = md_Identities s" by auto
  with t assms(2,7) show ?thesis by (simp add: holderOf_def maxStaleWindows_def)
qed

section \<open>Instances\<close>

definition demo_meta :: "unit meta" where
  "demo_meta = \<lparr>t_users = [demo_user ''u1'' ''user''], t_sessions = [], t_containers = [demo_vm ''c1'' ''web'' ''u1''], t_aliases = [],
     t_keys = [], t_links = [], t_settings = [], t_sshkeys = [], t_access = [], fk_on = True, clock = 0, faults = [],
     g_rt = (), g_dns = demo_verifier, g_keys = Map.empty, t_integrations = [],
     md_Holders = Map.empty, md_Fetched = 0, md_Loaded = False, md_StaleFor = 0, md_Identities = Map.empty, md_Warned = {}\<rparr>"

definition demo_listing :: "(dberr + rt_container list) \<Rightarrow> unit runtime" where
  "demo_listing r = demo_rt\<lparr>rt_List := (\<lambda>_ x. (r, x))\<rparr>"

definition demo_addrs :: meta_codec where
  "demo_addrs = \<lparr>mp_ParseAddr = (\<lambda>_. Some (Addr4 ''abcd'')), mp_ShowAddr = (\<lambda>_. ''10.0.0.2'')\<rparr>"

lemma demo_resolves: "\<exists>i t. Resolve demo_addrs (demo_listing (Inr [demo_rtc])) 1 (Addr4 ''abcd'') demo_meta = (Inr i, t)"
  by (simp add: Resolve_def holderOf_def refresh_def snapshot_def md_list_def demo_listing_def demo_rt_def bindE_def demo_meta_def
      demo_rtc_def demo_addrs_def instance_addr_def addressIsPinned_def maxStaleWindows_def identify_def GetContainerByIncusName_def
      get_container_def attempt_def exec_no_fault sql_row_def demo_vm_def NestingAllowed_def GetSetting_def ListAliasesByContainer_def
      ListSSHKeysByUser_def sql_rows_def remember_def)

theorem Resolve_attributes_witness:
  "\<exists>i t. Resolve demo_addrs (demo_listing (Inr [demo_rtc])) 1 (Addr4 ''abcd'') demo_meta = (Inr i, t)
     \<and> attributed demo_addrs (Addr4 ''abcd'') i t \<and> id_IncusName i = ''vm-c1''"
proof -
  let ?rt = "demo_listing (Inr [demo_rtc])"
  obtain i t where r: "Resolve demo_addrs ?rt 1 (Addr4 ''abcd'') demo_meta = (Inr i, t)" using demo_resolves by blast
  have c: "cache_ok demo_meta" by (simp add: cache_ok_def demo_meta_def)
  have d: "due 1 demo_meta" "fst (rt_List ?rt [] (g_rt demo_meta)) = Inr [demo_rtc]" by (simp_all add: due_def demo_meta_def demo_listing_def)
  have p: "pinned_at demo_addrs (Unmap (Addr4 ''abcd'')) [demo_rtc] = [demo_rtc]" "rc_ID demo_rtc = ''vm-c1''"
    by (simp_all add: pinned_at_def instance_addr_def demo_addrs_def demo_rtc_def)
  from Resolve_attributes [OF c r] d have "\<exists>j. pinned_at demo_addrs (Unmap (Addr4 ''abcd'')) [demo_rtc] = [j] \<and> rc_ID j = id_IncusName i"
    by blast
  with p Resolve_attributes [OF c r] r show ?thesis by auto
qed

text \<open>An hour-old view is used.\<close>

theorem stale_view_witness:
  "\<exists>x t. holderOf demo_addrs (demo_listing (Inl ErrEngine)) DefaultResolveTTL (Addr4 ''abcd'')
      (demo_meta\<lparr>md_Loaded := True, clock := 3600 * 1000000000, md_Holders := [Addr4 ''abcd'' \<mapsto> \<lparr>hd_IncusName = ''vm-c1'', hd_MAC = []\<rparr>]\<rparr>)
    = (Inr (\<lparr>hd_IncusName = ''vm-c1'', hd_MAC = []\<rparr>, x), t)"
proof -
  let ?s = "demo_meta\<lparr>md_Loaded := True, clock := 3600 * 1000000000, md_Holders := [Addr4 ''abcd'' \<mapsto> \<lparr>hd_IncusName = ''vm-c1'', hd_MAC = []\<rparr>]\<rparr>"
  have "md_Loaded ?s" "md_StaleFor ?s < maxStaleWindows" "0 < DefaultResolveTTL" "DefaultResolveTTL \<le> 3600 * 1000000000"
    "clock ?s = md_Fetched ?s + 3600 * 1000000000" "fst (rt_List (demo_listing (Inl ErrEngine)) [] (g_rt ?s)) = Inl ErrEngine"
    "md_Holders ?s (Unmap (Addr4 ''abcd'')) = Some \<lparr>hd_IncusName = ''vm-c1'', hd_MAC = []\<rparr>"
    by (simp_all add: demo_meta_def maxStaleWindows_def DefaultResolveTTL_def demo_listing_def)
  from stale_view_any_age [OF this, of demo_addrs] show ?thesis by blast
qed

end
