(* ===== verification/Metadata_Token.thy ===== *)
theory Metadata_Token
  imports Go_Numbers
begin

text \<open>
  The session tokens of the metadata service, \<^verbatim>\<open>src/internal/metadata/token.go\<close>: an expiry and the VM
  it was issued to, signed with a key that lives in the process.  HMAC-SHA-256 is the argument \<open>hmac\<close>; base64 in
  its URL alphabet without padding is written out.  Times are nanoseconds.
\<close>

section \<open>Base64\<close>

definition url_digit :: "nat \<Rightarrow> char" where
  "url_digit n =
     (if n < 26 then char_of (65 + n) else if n < 52 then char_of (71 + n) else if n < 62 then char_of (n - 4)
      else if n = 62 then CHR ''-'' else CHR ''_'')"

definition url_value :: "char \<Rightarrow> nat option" where
  "url_value c =
     (let b = byte c in
      if 65 \<le> b \<and> b \<le> 90 then Some (b - 65) else if 97 \<le> b \<and> b \<le> 122 then Some (b - 71)
      else if 48 \<le> b \<and> b \<le> 57 then Some (b + 4) else if c = CHR ''-'' then Some 62 else if c = CHR ''_'' then Some 63 else None)"

fun RawURLEncode :: "string \<Rightarrow> string" where
  "RawURLEncode (a # b # c # s) =
     url_digit (byte a div 4) # url_digit (byte a mod 4 * 16 + byte b div 16)
       # url_digit (byte b mod 16 * 4 + byte c div 64) # url_digit (byte c mod 64) # RawURLEncode s"
| "RawURLEncode [a, b] =
     [url_digit (byte a div 4), url_digit (byte a mod 4 * 16 + byte b div 16), url_digit (byte b mod 16 * 4)]"
| "RawURLEncode [a] = [url_digit (byte a div 4), url_digit (byte a mod 4 * 16)]"
| "RawURLEncode [] = []"

text \<open>The decoder skips line ends and does not look at the bits left over.\<close>

fun decode_digits :: "nat list \<Rightarrow> string option" where
  "decode_digits (p # q # r # t # ds) = map_option (\<lambda>s. char_of (p * 4 + q div 16) # char_of (q mod 16 * 16 + r div 4)
     # char_of (r mod 4 * 64 + t) # s) (decode_digits ds)"
| "decode_digits [p, q, r] = Some [char_of (p * 4 + q div 16), char_of (q mod 16 * 16 + r div 4)]"
| "decode_digits [p, q] = Some [char_of (p * 4 + q div 16)]"
| "decode_digits [p] = None"
| "decode_digits [] = Some []"

definition RawURLDecode :: "string \<Rightarrow> string option" where
  "RawURLDecode s =
     (let vs = map url_value (filter (\<lambda>c. c \<noteq> CHR 0x0A \<and> c \<noteq> CHR 0x0D) s) in
      if None \<in> set vs then None else decode_digits (map the vs))"

lemma url_value_digit: "n < 64 \<Longrightarrow> url_value (url_digit n) = Some n"
  by (auto simp: url_value_def url_digit_def byte_def Let_def)

lemma byte_lt: "byte c < 256"
  by (simp add: byte_def)

lemma char_of_byte: "char_of (byte c) = c"
  by (simp add: byte_def)

lemma digit_bounds:
  "byte a div 4 < 64" "byte a mod 4 * 16 + byte b div 16 < 64" "byte b mod 16 * 4 + byte c div 64 < 64" "byte c mod 64 < 64"
  "byte a mod 4 * 16 < 64" "byte b mod 16 * 4 < 64"
proof -
  have "byte a mod 4 \<le> 3" "byte b div 16 \<le> 15" "byte b mod 16 \<le> 15" "byte c div 64 \<le> 3"
    using byte_lt [of a] byte_lt [of b] byte_lt [of c] by linarith+
  then show "byte a mod 4 * 16 + byte b div 16 < 64" "byte b mod 16 * 4 + byte c div 64 < 64" "byte a mod 4 * 16 < 64" "byte b mod 16 * 4 < 64"
    by linarith+
qed (use byte_lt [of a] in linarith, simp)

lemma digit_joins:
  "byte a div 4 * 4 + (byte a mod 4 * 16 + byte b div 16) div 16 = byte a"
  "(byte a mod 4 * 16 + byte b div 16) mod 16 * 16 + (byte b mod 16 * 4 + byte c div 64) div 4 = byte b"
  "(byte b mod 16 * 4 + byte c div 64) mod 4 * 64 + byte c mod 64 = byte c"
  "byte a div 4 * 4 + byte a mod 4 * 16 div 16 = byte a"
  "(byte a mod 4 * 16 + byte b div 16) mod 16 * 16 + byte b mod 16 * 4 div 4 = byte b"
proof -
  have b: "byte b div 16 < 16" "byte c div 64 < 4" using byte_lt [of b] byte_lt [of c] by linarith+
  show "byte a div 4 * 4 + (byte a mod 4 * 16 + byte b div 16) div 16 = byte a" using b by simp
  show "(byte a mod 4 * 16 + byte b div 16) mod 16 * 16 + (byte b mod 16 * 4 + byte c div 64) div 4 = byte b" using b by simp
  show "(byte b mod 16 * 4 + byte c div 64) mod 4 * 64 + byte c mod 64 = byte c" using b by simp
  show "byte a div 4 * 4 + byte a mod 4 * 16 div 16 = byte a" by simp
  show "(byte a mod 4 * 16 + byte b div 16) mod 16 * 16 + byte b mod 16 * 4 div 4 = byte b" using b by simp
qed

lemma url_digit_plain: "n < 64 \<Longrightarrow> url_digit n \<noteq> CHR ''.'' \<and> url_digit n \<noteq> CHR 0x0A \<and> url_digit n \<noteq> CHR 0x0D"
proof -
  assume "n < 64"
  then have "url_value (url_digit n) = Some n" by (rule url_value_digit)
  moreover have "url_value (CHR ''.'') = None" "url_value (CHR 0x0A) = None" "url_value (CHR 0x0D) = None"
    by (simp_all add: url_value_def byte_def)
  ultimately show ?thesis by force
qed

lemma encoded_plain: "c \<in> set (RawURLEncode s) \<Longrightarrow> c \<noteq> CHR ''.'' \<and> c \<noteq> CHR 0x0A \<and> c \<noteq> CHR 0x0D"
  by (induction s rule: RawURLEncode.induct) (auto simp: url_digit_plain digit_bounds)

lemma encoded_values:
  "map url_value (RawURLEncode s) = map Some (map (\<lambda>c. the (url_value c)) (RawURLEncode s))"
  by (induction s rule: RawURLEncode.induct) (simp_all add: url_value_digit digit_bounds)

lemma decode_encoded: "decode_digits (map (\<lambda>c. the (url_value c)) (RawURLEncode s)) = Some s"
  by (induction s rule: RawURLEncode.induct)
     (simp_all only: RawURLEncode.simps list.map decode_digits.simps url_value_digit digit_bounds digit_joins char_of_byte
        option.sel option.map)

text \<open>Base64 texts read back, and hold none of the separators of a token.\<close>

lemma RawURL_roundtrip: "RawURLDecode (RawURLEncode s) = Some s"
proof -
  have f: "filter (\<lambda>c. c \<noteq> CHR 0x0A \<and> c \<noteq> CHR 0x0D) (RawURLEncode s) = RawURLEncode s"
    by (simp add: filter_id_conv encoded_plain)
  have "None \<notin> set (map url_value (RawURLEncode s))" by (subst encoded_values) auto
  then show ?thesis unfolding RawURLDecode_def Let_def f by (simp add: decode_encoded o_def)
qed

section \<open>Tokens\<close>

definition cutLast :: "string \<Rightarrow> char \<Rightarrow> (string \<times> string) option" where
  "cutLast s c = (if c \<in> set s
     then Some (rev (tl (dropWhile (\<lambda>x. x \<noteq> c) (rev s))), rev (takeWhile (\<lambda>x. x \<noteq> c) (rev s))) else None)"

definition sign :: "(string \<Rightarrow> string \<Rightarrow> string) \<Rightarrow> string \<Rightarrow> string \<Rightarrow> string" where
  "sign hmac key payload = RawURLEncode (hmac key payload)"

definition one_second :: int where "one_second = 10 ^ 9"

text \<open>\<open>rnd\<close> is the nonce \<^verbatim>\<open>crypto/rand\<close> delivers.\<close>

definition issue :: "(string \<Rightarrow> string \<Rightarrow> string) \<Rightarrow> string \<Rightarrow> string option \<Rightarrow> int \<Rightarrow> string \<Rightarrow> int \<Rightarrow> string option" where
  "issue hmac key rnd now container ttl =
     (if key = [] then None
      else case rnd of None \<Rightarrow> None
      | Some nonce \<Rightarrow>
          let expiry = (now + ttl) div one_second;
              payload = Itoa expiry @ ''.'' @ RawURLEncode container @ ''.'' @ RawURLEncode nonce in
          Some (payload @ ''.'' @ sign hmac key payload))"

definition valid_token :: "(string \<Rightarrow> string \<Rightarrow> string) \<Rightarrow> string \<Rightarrow> int \<Rightarrow> string \<Rightarrow> string \<Rightarrow> bool" where
  "valid_token hmac key now token container \<longleftrightarrow> key \<noteq> [] \<and>
     (case cutLast token CHR ''.'' of None \<Rightarrow> False
      | Some (payload, signature) \<Rightarrow>
          signature = sign hmac key payload \<and>
          (case Cut payload CHR ''.'' of None \<Rightarrow> False
           | Some (rawExpiry, rest) \<Rightarrow>
               (case Cut rest CHR ''.'' of None \<Rightarrow> False
                | Some (rawContainer, _) \<Rightarrow>
                    (case Atoi rawExpiry of None \<Rightarrow> False
                     | Some expiry \<Rightarrow> now < expiry * one_second \<and> RawURLDecode rawContainer = Some container))))"

lemma cutLast_append: "c \<notin> set b \<Longrightarrow> cutLast (a @ c # b) c = Some (a, b)"
proof -
  assume c: "c \<notin> set b"
  have "dropWhile (\<lambda>x. x \<noteq> c) (rev b @ c # rev a) = c # rev a" by (subst dropWhile_append2) (use c in auto)
  moreover have "takeWhile (\<lambda>x. x \<noteq> c) (rev b @ c # rev a) = rev b" by (subst takeWhile_append2) (use c in auto)
  ultimately show ?thesis by (simp add: cutLast_def)
qed

lemma cutLast_Some: "cutLast s c = Some (a, b) \<Longrightarrow> s = a @ c # b \<and> c \<notin> set b"
proof -
  assume r: "cutLast s c = Some (a, b)"
  then have "c \<in> set s" by (auto simp: cutLast_def split: if_splits)
  then obtain x y where "s = x @ c # y" "c \<notin> set y" by (meson split_list_last)
  with r cutLast_append [of c y x] show ?thesis by simp
qed

lemma Cut_append: "c \<notin> set a \<Longrightarrow> Cut (a @ c # b) c = Some (a, b)"
  by (induction a) auto

lemma Itoa_plain: "CHR ''.'' \<notin> set (Itoa i)"
proof -
  have "CHR ''.'' \<notin> set (show_nat n)" for n using show_nat_digits [of n] by (auto simp: list_all_iff is_digit_def byte_def)
  then show ?thesis by (simp add: Itoa_def)
qed

text \<open>A token that was issued is accepted for the VM it was issued to, for no other, and until its expiry in whole
  seconds, which is never after the time to live has passed.\<close>

theorem token_roundtrip:
  assumes "issue hmac key rnd now container ttl = Some token" and "0 \<le> now + ttl" and "now + ttl < 2 ^ 63 * one_second"
  shows "(valid_token hmac key later token claimed \<longleftrightarrow> claimed = container \<and> later < (now + ttl) div one_second * one_second)
    \<and> (now + ttl) div one_second * one_second \<le> now + ttl"
proof -
  let ?e = "(now + ttl) div one_second"
  from assms(1) obtain nonce where k: "key \<noteq> []" and
    tok: "token = (Itoa ?e @ CHR ''.'' # RawURLEncode container @ CHR ''.'' # RawURLEncode nonce) @ CHR ''.'' #
        sign hmac key (Itoa ?e @ CHR ''.'' # RawURLEncode container @ CHR ''.'' # RawURLEncode nonce)"
    by (auto simp: issue_def Let_def split: if_splits option.splits)
  have plain: "CHR ''.'' \<notin> set (RawURLEncode x)" for x using encoded_plain by blast
  then have "CHR ''.'' \<notin> set (sign hmac key x)" for x by (simp add: sign_def)
  from cutLast_append [OF this] tok have cl: "cutLast token CHR ''.'' = Some (Itoa ?e @ CHR ''.'' # RawURLEncode container @ CHR ''.'' # RawURLEncode nonce,
      sign hmac key (Itoa ?e @ CHR ''.'' # RawURLEncode container @ CHR ''.'' # RawURLEncode nonce))" by blast
  have c1: "Cut (Itoa ?e @ CHR ''.'' # RawURLEncode container @ CHR ''.'' # RawURLEncode nonce) CHR ''.''
      = Some (Itoa ?e, RawURLEncode container @ CHR ''.'' # RawURLEncode nonce)"
    using Cut_append [OF Itoa_plain] by simp
  have c2: "Cut (RawURLEncode container @ CHR ''.'' # RawURLEncode nonce) CHR ''.'' = Some (RawURLEncode container, RawURLEncode nonce)"
    using Cut_append [OF plain] by simp
  have "0 \<le> ?e" "?e < 2 ^ 63" using assms(2,3) by (auto simp: one_second_def)
  then have "Atoi (Itoa ?e) = Some ?e" by (intro Atoi_Itoa) simp_all
  then have "valid_token hmac key later token claimed \<longleftrightarrow> claimed = container \<and> later < ?e * one_second"
    using k by (auto simp: valid_token_def cl c1 c2 RawURL_roundtrip)
  moreover have "?e * one_second \<le> now + ttl" unfolding one_second_def by (simp add: div_times_less_eq_dividend)
  ultimately show ?thesis by simp
qed

theorem token_roundtrip_witness:
  "\<exists>token. issue (\<lambda>_ _. ''m'') ''k'' (Some ''n'') 0 ''c1'' (60 * one_second) = Some token
     \<and> valid_token (\<lambda>_ _. ''m'') ''k'' (59 * one_second) token ''c1''
     \<and> \<not> valid_token (\<lambda>_ _. ''m'') ''k'' (59 * one_second) token ''c2''
     \<and> \<not> valid_token (\<lambda>_ _. ''m'') ''k'' (60 * one_second) token ''c1''"
proof -
  obtain token where i: "issue (\<lambda>_ _. ''m'') ''k'' (Some ''n'') 0 ''c1'' (60 * one_second) = Some token" by (simp add: issue_def Let_def)
  have b: "0 \<le> 0 + 60 * one_second" "0 + 60 * one_second < 2 ^ 63 * one_second" "(0 + 60 * one_second) div one_second = 60"
    by (simp_all add: one_second_def)
  have "59 * one_second < 60 * one_second" "\<not> 60 * one_second < 60 * one_second" by (simp_all add: one_second_def)
  then show ?thesis using i token_roundtrip [OF i b(1,2)] unfolding b(3) by simp
qed

text \<open>An accepted token ends in the signature of what stands before it, and names one VM.\<close>

lemma valid_tokenE:
  assumes "valid_token hmac key now token container"
  obtains payload e rest rc x expiry where "cutLast token CHR ''.'' = Some (payload, sign hmac key payload)"
    "Cut payload CHR ''.'' = Some (e, rest)" "Cut rest CHR ''.'' = Some (rc, x)" "RawURLDecode rc = Some container"
    "Atoi e = Some expiry" "now < expiry * one_second"
proof -
  note v = assms [unfolded valid_token_def]
  from v obtain p sg where p: "cutLast token CHR ''.'' = Some (p, sg)" by (cases "cutLast token CHR ''.''") auto
  from v p obtain e rest where e: "Cut p CHR ''.'' = Some (e, rest)" by (cases "Cut p CHR ''.''") auto
  from v p e obtain rc x where rc: "Cut rest CHR ''.'' = Some (rc, x)" by (cases "Cut rest CHR ''.''") auto
  from v p e rc obtain n where n: "Atoi e = Some n" by (cases "Atoi e") auto
  from v p e rc n that show thesis by auto
qed

lemma token_authentic:
  assumes "valid_token hmac key now token container"
  shows "\<exists>payload. token = payload @ CHR ''.'' # sign hmac key payload" "valid_token hmac key later token other \<Longrightarrow> other = container"
  using assms by (auto elim!: valid_tokenE dest: cutLast_Some)

end
