(* ===== verification/Metadata_Service.thy ===== *)
theory Metadata_Service
  imports Metadata_Resolver Metadata_Token
begin

text \<open>
  The metadata service: the tree of \<^verbatim>\<open>tree.go\<close>, the requests of \<^verbatim>\<open>service.go\<close> and the
  credentials of \<^verbatim>\<open>integrations.go\<close> in \<^verbatim>\<open>src/internal/metadata\<close>.

  The answer of the rate limiter for an address, the split of a socket address, the texts of times and of the
  identity document, and HMAC are arguments.  Response headers are left out.
\<close>

section \<open>The tree\<close>

datatype node = Node (nd_name: string) (nd_label: string) (nd_value: string) (nd_children: "node list")

definition isDir :: "node \<Rightarrow> bool" where
  "isDir n \<longleftrightarrow> nd_children n \<noteq> []"

definition answers_to :: "string \<Rightarrow> node \<Rightarrow> bool" where
  "answers_to name c \<longleftrightarrow> nd_name c = name \<or> nd_label c \<noteq> [] \<and> nd_label c = name"

definition child :: "node \<Rightarrow> string \<Rightarrow> node option" where
  "child n name = find (answers_to name) (nd_children n)"

definition nl :: string where "nl = [CHR 0x0A]"

definition listing :: "node \<Rightarrow> string" where
  "listing n = concat (map (\<lambda>c. if nd_label c \<noteq> [] then nd_label c @ nl
     else nd_name c @ (if isDir c then ''/'' else []) @ nl) (nd_children n))"

definition leaf :: "string \<Rightarrow> string \<Rightarrow> node" where
  "leaf name v = Node name [] v []"

definition dir :: "string \<Rightarrow> node option list \<Rightarrow> node" where
  "dir name cs = Node name [] [] (sort_key nd_name (List.map_filter id cs))"

definition optional :: "string \<Rightarrow> string \<Rightarrow> node option" where
  "optional name v = (if v = [] then None else Some (leaf name v))"

record meta_config =
  mg_Domain :: string
  mg_PublicIPs :: "string list"
  mg_ImageID :: string
  mg_Region :: string
  mg_Zone :: string

definition New_config :: "meta_config \<Rightarrow> meta_config" where
  "New_config g = (let g1 = (if mg_Region g = [] then g\<lparr>mg_Region := ''svkexe''\<rparr> else g) in
     if mg_Zone g1 = [] then g1\<lparr>mg_Zone := mg_Region g1 @ ''-a''\<rparr> else g1)"

record meta_texts =
  mt_Time :: "int \<Rightarrow> string"
  mt_Arch :: string
  mt_Document :: "(string \<times> string) list \<Rightarrow> string"

definition FormatBool :: "bool \<Rightarrow> string" where
  "FormatBool b = (if b then ''true'' else ''false'')"

definition instanceType :: "identity \<Rightarrow> string" where
  "instanceType i = (if id_CPULimit i \<le> 0 \<or> id_MemoryMB i \<le> 0 then ''svkexe.custom''
     else ''svkexe.c'' @ Itoa (id_CPULimit i) @ ''-m'' @ Itoa (id_MemoryMB i))"

definition publicHostname :: "identity \<Rightarrow> meta_config \<Rightarrow> string" where
  "publicHostname i g = (if mg_Domain g = [] then [] else id_Name i @ ''.'' @ mg_Domain g)"

definition agentHost :: "identity \<Rightarrow> meta_config \<Rightarrow> string" where
  "agentHost i g = (if mg_Domain g = [] then [] else AgentHostPrefix @ id_Name i @ ''.'' @ mg_Domain g)"

definition serviceDomain :: "meta_config \<Rightarrow> string" where
  "serviceDomain g = (if mg_Domain g = [] then ''svkexe.internal'' else mg_Domain g)"

definition firstNonEmpty :: "string list \<Rightarrow> string" where
  "firstNonEmpty vs = (case filter (\<lambda>v. v \<noteq> []) (map TrimSpace vs) of [] \<Rightarrow> [] | v # _ \<Rightarrow> v)"

definition identityDocument :: "meta_texts \<Rightarrow> identity \<Rightarrow> meta_config \<Rightarrow> string" where
  "identityDocument mt i g = mt_Document mt
     [(''accountId'', id_OwnerID i), (''architecture'', mt_Arch mt), (''availabilityZone'', mg_Zone g), (''imageId'', mg_ImageID g),
      (''instanceId'', id_ContainerID i), (''instanceType'', instanceType i), (''pendingTime'', mt_Time mt (id_CreatedAt i)),
      (''privateIp'', id_IPv4 i), (''region'', mg_Region g), (''version'', ''2017-09-30'')]"

definition networkTree :: "identity \<Rightarrow> node option" where
  "networkTree i = (if id_MAC i = [] then None else Some
     (dir ''network'' [Some (dir ''interfaces'' [Some (dir ''macs'' [Some (dir (id_MAC i)
        [Some (leaf ''device-number'' ''0''), Some (leaf ''interface-id'' (id_IncusName i @ ''-eth0'')),
         Some (leaf ''local-hostname'' (id_IncusName i)), Some (leaf ''local-ipv4s'' (id_IPv4 i)), Some (leaf ''mac'' (id_MAC i)),
         Some (leaf ''owner-id'' (id_OwnerID i))])])])]))"

fun key_slots :: "nat \<Rightarrow> (string \<times> string) list \<Rightarrow> node list" where
  "key_slots n [] = []"
| "key_slots n ((name, key) # ks) =
     Node (Itoa (int n)) (Itoa (int n) @ ''='' @ (if name = [] then ''key-'' @ Itoa (int n) else name)) [] [leaf ''openssh-key'' key]
     # key_slots (Suc n) ks"

definition publicKeys :: "identity \<Rightarrow> node option" where
  "publicKeys i = (if id_PublicKeys i = [] then None else Some (Node ''public-keys'' [] [] (key_slots 0 (id_PublicKeys i))))"

definition join_lines :: "string list \<Rightarrow> string" where
  "join_lines ls = Join ls (CHR 0x0A)"

definition svkexeTree :: "meta_texts \<Rightarrow> identity \<Rightarrow> meta_config \<Rightarrow> node" where
  "svkexeTree mt i g = dir ''svkexe''
     [optional ''agent-host'' (agentHost i g), optional ''aliases'' (join_lines (id_Aliases i)),
      Some (leaf ''app-port'' (Itoa (id_AppPort i))), Some (leaf ''app-public'' (FormatBool (id_AppPublic i))),
      Some (leaf ''container-name'' (id_Name i)), optional ''created-at'' (mt_Time mt (id_CreatedAt i)),
      Some (leaf ''disk-gb'' (Itoa (id_DiskGB i))), optional ''gateway-domain'' (mg_Domain g), optional ''initial-task'' (id_InitialTask i),
      optional ''initial-task-state'' (id_InitialTaskState i), Some (leaf ''nesting'' (FormatBool (id_Nesting i))),
      Some (leaf ''nesting-applied'' (FormatBool (id_NestingApplied i))), Some (leaf ''owner-id'' (id_OwnerID i))]"

definition metaData :: "meta_texts \<Rightarrow> identity \<Rightarrow> meta_config \<Rightarrow> node" where
  "metaData mt i g = dir ''meta-data''
     [optional ''ami-id'' (mg_ImageID g), Some (leaf ''ami-launch-index'' ''0''), Some (leaf ''hostname'' (id_IncusName i)),
      Some (leaf ''instance-action'' ''none''), Some (leaf ''instance-id'' (id_ContainerID i)),
      Some (leaf ''instance-life-cycle'' ''on-demand''), Some (leaf ''instance-type'' (instanceType i)),
      Some (leaf ''local-hostname'' (id_IncusName i)), Some (leaf ''local-ipv4'' (id_IPv4 i)), optional ''mac'' (id_MAC i), networkTree i,
      Some (dir ''placement'' [Some (leaf ''availability-zone'' (mg_Zone g)), Some (leaf ''region'' (mg_Region g))]),
      optional ''public-hostname'' (publicHostname i g), optional ''public-ipv4'' (firstNonEmpty (mg_PublicIPs g)), publicKeys i,
      Some (leaf ''reservation-id'' (''r-'' @ id_ContainerID i)), Some (leaf ''security-groups'' ''default''),
      Some (dir ''services'' [Some (leaf ''domain'' (serviceDomain g)), Some (leaf ''partition'' ''svkexe'')]),
      Some (svkexeTree mt i g)]"

definition buildTree :: "meta_texts \<Rightarrow> identity \<Rightarrow> meta_config \<Rightarrow> node" where
  "buildTree mt i g = dir ''latest''
     [Some (dir ''dynamic'' [Some (dir ''instance-identity'' [Some (leaf ''document'' (identityDocument mt i g))])]),
      Some (metaData mt i g)]"

section \<open>Paths\<close>

definition cleanPath :: "string \<Rightarrow> string" where
  "cleanPath p =
     (let segs = filter (\<lambda>x. x \<noteq> [] \<and> x \<noteq> ''.'') (Split p CHR ''/''); out = ''/'' @ Join segs CHR ''/'' in
      if HasSuffix p ''/'' \<and> out \<noteq> ''/'' then out @ ''/'' else out)"

definition Trim :: "string \<Rightarrow> char \<Rightarrow> string" where
  "Trim s c = rev (dropWhile (\<lambda>x. x = c) (rev (dropWhile (\<lambda>x. x = c) s)))"

record meta_response =
  mr_Status :: nat
  mr_Body :: string

definition m_write :: "string \<Rightarrow> meta_response" where
  "m_write b = \<lparr>mr_Status = 200, mr_Body = b\<rparr>"

definition m_fail :: "nat \<Rightarrow> string \<Rightarrow> meta_response" where
  "m_fail st reason = \<lparr>mr_Status = st, mr_Body = reason @ nl\<rparr>"

fun walk :: "node \<Rightarrow> string list \<Rightarrow> node option" where
  "walk n [] = Some n"
| "walk n (p # ps) = (case child n p of None \<Rightarrow> None | Some c \<Rightarrow> walk c ps)"

text \<open>The answer out of a tree, from the cleaned path that is not the root's.\<close>

definition answer_tree :: "node \<Rightarrow> string \<Rightarrow> meta_response" where
  "answer_tree n requested =
     (let segments = Split (Trim requested CHR ''/'') CHR ''/'' in
      if hd segments \<noteq> nd_name n then m_fail 404 ''not found''
      else case walk n (tl segments) of
        None \<Rightarrow> m_fail 404 ''not found''
      | Some m \<Rightarrow>
          if isDir m then m_write (listing m)
          else if HasSuffix requested ''/'' then m_fail 404 ''not found''
          else m_write (nd_value m))"

section \<open>Requests\<close>

record meta_request =
  mq_Method :: string
  mq_Path :: string
  mq_Remote :: string
  mq_Forwarded :: bool
  mq_Token :: string
  mq_TokenTTL :: string
  mq_Nonce :: "string option"

record 'r meta_service =
  ms_Runtime :: "'r runtime"
  ms_TTL :: int
  ms_Addrs :: meta_codec
  ms_Config :: meta_config
  ms_Texts :: meta_texts
  ms_Integrations :: "int_service option"
  ms_Codec :: int_codec
  ms_Hmac :: "string \<Rightarrow> string \<Rightarrow> string"
  ms_Key :: string
  ms_Allow :: "addr \<Rightarrow> bool"
  ms_SplitHostPort :: "string \<Rightarrow> string option"

type_synonym ('r, 'a) mds = "'r meta \<Rightarrow> 'a \<times> 'r meta"

definition callerAddr :: "'r meta_service \<Rightarrow> string \<Rightarrow> addr option" where
  "callerAddr ms remote =
     (let host0 = (case ms_SplitHostPort ms remote of None \<Rightarrow> remote | Some h \<Rightarrow> h);
          host1 = takeWhile (\<lambda>c. c \<noteq> CHR ''%'') host0 in
      map_option Unmap (mp_ParseAddr (ms_Addrs ms) host1))"

definition integrationPath :: string where "integrationPath = ''/latest/meta-data/svkexe/integrations''"
definition tokenPath :: string where "tokenPath = ''/latest/api/token''"

definition issueToken :: "'r meta_service \<Rightarrow> meta_request \<Rightarrow> identity \<Rightarrow> int \<Rightarrow> meta_response" where
  "issueToken ms r i now =
     (if mq_Method r \<noteq> ''PUT'' then m_fail 405 ''the token endpoint accepts PUT only''
      else case Atoi (mq_TokenTTL r) of
        None \<Rightarrow> m_fail 400 ''X-aws-ec2-metadata-token-ttl-seconds must be between 1 and 21600''
      | Some n \<Rightarrow>
          if n < 1 \<or> n > 21600 then m_fail 400 ''X-aws-ec2-metadata-token-ttl-seconds must be between 1 and 21600''
          else case issue (ms_Hmac ms) (ms_Key ms) (mq_Nonce r) now (id_ContainerID i) (n * one_second) of
            None \<Rightarrow> m_fail 503 ''could not issue a token''
          | Some token \<Rightarrow> m_write token)"

definition token_ok :: "'r meta_service \<Rightarrow> meta_request \<Rightarrow> identity \<Rightarrow> int \<Rightarrow> bool" where
  "token_ok ms r i now \<longleftrightarrow> valid_token (ms_Hmac ms) (ms_Key ms) now (mq_Token r) (id_ContainerID i)"

definition unavailable :: meta_response where "unavailable = m_fail 503 ''metadata is temporarily unavailable''"
definition not_found :: meta_response where "not_found = m_fail 404 ''not found''"

definition one_credential :: "'r meta_service \<Rightarrow> int_service \<Rightarrow> meta_request \<Rightarrow> identity \<Rightarrow> string \<Rightarrow> string \<Rightarrow> ('r, meta_response) mds" where
  "one_credential ms sv r i provider name s =
     (if HasSuffix (cleanPath (mq_Path r)) ''/'' then (not_found, s)
      else if \<not> token_ok ms r i (clock s) then (m_fail 401 ''unauthorized'', s)
      else case Credential (ms_Codec ms) sv (id_OwnerID i) provider name s of
        (Inl e, t) \<Rightarrow> (if e = ErrStore ErrNoRows then not_found else unavailable, t)
      | (Inr v, t) \<Rightarrow> (if mq_Method r = ''HEAD'' then \<lparr>mr_Status = 200, mr_Body = []\<rparr> else m_write v, t))"

definition serve_connected :: "'r meta_service \<Rightarrow> int_service \<Rightarrow> meta_request \<Rightarrow> identity \<Rightarrow> string \<Rightarrow> connection list \<Rightarrow> ('r, meta_response) mds" where
  "serve_connected ms sv r i rest cs s =
     (if rest = []
      then (if cs = [] then not_found else m_write (concat (map (\<lambda>c. cn_Provider c @ ''/'' @ nl) cs)), s)
      else
        let parts = Split rest CHR ''/'' in
        if hd parts \<notin> set (map cn_Provider cs) \<or> length parts > 2 then (not_found, s)
        else case Descriptor sv (hd parts) of
          Inl _ \<Rightarrow> (not_found, s)
        | Inr d \<Rightarrow>
            if length parts = 1 then (m_write (Join (ds_Credentials d) (CHR 0x0A) @ nl), s)
            else one_credential ms sv r i (hd parts) (parts ! 1) s)"

definition is_integration_path :: "string \<Rightarrow> bool" where
  "is_integration_path path \<longleftrightarrow> path = integrationPath \<or> HasPrefix path (integrationPath @ ''/'')"

definition serveIntegrations :: "'r meta_service \<Rightarrow> meta_request \<Rightarrow> identity \<Rightarrow> ('r, meta_response) mds" where
  "serveIntegrations ms r i s =
     (case ms_Integrations ms of
        None \<Rightarrow> (not_found, s)
      | Some sv \<Rightarrow>
          (case List_connections (ms_Codec ms) sv (id_OwnerID i) s of
             (Inl _, t) \<Rightarrow> (unavailable, t)
           | (Inr cs, t) \<Rightarrow>
               serve_connected ms sv r i (Trim (drop (length integrationPath) (cleanPath (mq_Path r))) CHR ''/'') cs t))"

fun provider_nodes :: "int_service \<Rightarrow> connection list \<Rightarrow> node list" where
  "provider_nodes sv [] = []"
| "provider_nodes sv (c # cs) =
     (case Descriptor sv (cn_Provider c) of
        Inl _ \<Rightarrow> provider_nodes sv cs
      | Inr d \<Rightarrow> dir (cn_Provider c) (map (\<lambda>n. Some (leaf n [])) (ds_Credentials d)) # provider_nodes sv cs)"

text \<open>The change of the first child of a name.\<close>

fun at_child :: "string \<Rightarrow> (node \<Rightarrow> node) \<Rightarrow> node list \<Rightarrow> node list" where
  "at_child name f [] = []"
| "at_child name f (c # cs) = (if answers_to name c then f c # cs else c # at_child name f cs)"

definition in_child :: "string \<Rightarrow> (node \<Rightarrow> node) \<Rightarrow> node \<Rightarrow> node" where
  "in_child name f n = Node (nd_name n) (nd_label n) (nd_value n) (at_child name f (nd_children n))"

definition with_integrations :: "int_service \<Rightarrow> connection list \<Rightarrow> node \<Rightarrow> node" where
  "with_integrations sv cs n =
     (if cs = [] then n
      else in_child ''meta-data'' (in_child ''svkexe'' (\<lambda>p. Node (nd_name p) (nd_label p) (nd_value p)
        (nd_children (dir ''svkexe'' (map Some (nd_children p) @ [Some (dir ''integrations'' (map Some (provider_nodes sv cs)))]))))) n)"

definition serveTree :: "'r meta_service \<Rightarrow> meta_request \<Rightarrow> identity \<Rightarrow> ('r, meta_response) mds" where
  "serveTree ms r i s =
     (let requested = cleanPath (mq_Path r); n = buildTree (ms_Texts ms) i (ms_Config ms) in
      if requested = ''/'' then (m_write (''latest'' @ nl), s)
      else case ms_Integrations ms of
        None \<Rightarrow> (answer_tree n requested, s)
      | Some sv \<Rightarrow>
          (case List_connections (ms_Codec ms) sv (id_OwnerID i) s of
             (Inl _, t) \<Rightarrow> (unavailable, t)
           | (Inr cs, t) \<Rightarrow> (answer_tree (with_integrations sv cs n) requested, t)))"

definition answer_known :: "'r meta_service \<Rightarrow> meta_request \<Rightarrow> identity \<Rightarrow> ('r, meta_response) mds" where
  "answer_known ms r i s =
     (if cleanPath (mq_Path r) = tokenPath then (issueToken ms r i (clock s), s)
      else if mq_Token r \<noteq> [] \<and> \<not> token_ok ms r i (clock s) then (m_fail 401 ''unauthorized'', s)
      else if mq_Method r \<noteq> ''GET'' \<and> mq_Method r \<noteq> ''HEAD'' then (m_fail 405 ''method not allowed'', s)
      else if is_integration_path (cleanPath (mq_Path r)) then serveIntegrations ms r i s
      else serveTree ms r i s)"

definition ServeHTTP_meta :: "'r meta_service \<Rightarrow> meta_request \<Rightarrow> ('r, meta_response) mds" where
  "ServeHTTP_meta ms r s =
     (if mq_Forwarded r then (m_fail 421 ''the metadata service refuses proxied requests'', s)
      else case callerAddr ms (mq_Remote r) of
        None \<Rightarrow> (m_fail 403 ''forbidden'', s)
      | Some a \<Rightarrow>
          if \<not> ms_Allow ms a then (m_fail 429 ''too many requests'', s)
          else case Resolve (ms_Addrs ms) (ms_Runtime ms) (ms_TTL ms) a s of
            (Inl e, t) \<Rightarrow> (if e = ErrUnknownCaller then m_fail 403 ''forbidden'' else unavailable, t)
          | (Inr i, t) \<Rightarrow> answer_known ms r i t)"

section \<open>Who is answered\<close>

text \<open>C8: an answer other than a refusal goes to a caller that is attributed to one VM by its socket address, and is
  computed for that VM; a request that went through a proxy, or whose address no VM of the view holds, gets a fixed
  text, and one that presents a token is served only when the token was issued to this VM and is alive.\<close>

theorem metadata_attributed:
  fixes s t :: "'r meta"
  assumes "cache_ok s" and "ServeHTTP_meta ms r s = (x, t)" and "mr_Status x = 200"
  shows "\<not> mq_Forwarded r \<and> (\<exists>a i u. callerAddr ms (mq_Remote r) = Some a
     \<and> Resolve (ms_Addrs ms) (ms_Runtime ms) (ms_TTL ms) a s = (Inr i, u) \<and> attributed (ms_Addrs ms) a i u
     \<and> answer_known ms r i u = (x, t) \<and> (mq_Token r \<noteq> [] \<and> cleanPath (mq_Path r) \<noteq> tokenPath \<longrightarrow> token_ok ms r i (clock u)))"
proof -
  have st: "mr_Status (m_fail n y) = n" for n y by (simp add: m_fail_def)
  from assms(2,3) obtain a i u where a: "\<not> mq_Forwarded r" "callerAddr ms (mq_Remote r) = Some a"
    and res: "Resolve (ms_Addrs ms) (ms_Runtime ms) (ms_TTL ms) a s = (Inr i, u)" and known: "answer_known ms r i u = (x, t)"
    by (auto simp: ServeHTTP_meta_def st unavailable_def split: if_splits option.splits prod.splits sum.splits)
  have "token_ok ms r i (clock u)" if "mq_Token r \<noteq> []" "cleanPath (mq_Path r) \<noteq> tokenPath"
    using known that assms(3) by (auto simp: answer_known_def st split: if_splits)
  with a res known Resolve_attributes [OF assms(1) res] show ?thesis by blast
qed

section \<open>Credentials\<close>

text \<open>The state without the stored credentials.\<close>

definition without_credentials :: "'r meta \<Rightarrow> 'r meta" where
  "without_credentials s = s\<lparr>t_integrations := map (ig_Credentials_update (\<lambda>_. [])) (t_integrations s)\<rparr>"

lemma insort_key_map: "insort_key k (f x) (map f xs) = map f (insort_key (\<lambda>y. k (f y)) x xs)"
  by (induction xs) auto

lemma sort_key_map: "sort_key k (map f xs) = map f (sort_key (\<lambda>y. k (f y)) xs)"
  by (induction xs) (simp_all add: insort_key_map)

lemma list_connections_blind:
  "list_connections cd sv (map (ig_Credentials_update (\<lambda>_. [])) gs) = list_connections cd sv gs"
proof (induction gs)
  case (Cons g gs)
  then show ?case by (cases g) (simp split: sum.split option.split)
qed simp

lemma listed_blind:
  "sort_key ig_Provider (filter (\<lambda>g. ig_Owner g = owner) (map (ig_Credentials_update (\<lambda>_. [])) gs))
     = map (ig_Credentials_update (\<lambda>_. [])) (sort_key ig_Provider (filter (\<lambda>g. ig_Owner g = owner) gs))"
  by (simp add: filter_map sort_key_map o_def)

lemma List_connections_blind:
  "List_connections cd sv owner (without_credentials s) =
     (fst (List_connections cd sv owner s), without_credentials (snd (List_connections cd sv owner s)))"
  by (simp add: List_connections_def db_do_def bindE_def attempt_def exec_def sql_value_def without_credentials_def listed_blind
      list_connections_blind split: list.split bool.split sum.split)

lemma fst_connected_blind:
  "\<not> token_ok ms r i (clock s) \<Longrightarrow>
   fst (serve_connected ms sv r i rest cs (without_credentials s)) = fst (serve_connected ms sv r i rest cs s)"
  by (auto simp: serve_connected_def one_credential_def without_credentials_def Let_def split: sum.split)

lemma List_connections_clock: "clock (snd (List_connections cd sv owner s)) = clock s"
  by (auto simp: List_connections_def db_do_def bindE_def attempt_def exec_def sql_value_def split: list.split bool.split sum.split)

text \<open>C9: without a token of this VM that is alive, nothing the service answers depends on the credentials that are stored:
  the answer is the one of a database from which they were erased.\<close>

theorem credentials_need_token:
  fixes s :: "'r meta"
  assumes "\<not> token_ok ms r i (clock s)"
  shows "fst (answer_known ms r i (without_credentials s)) = fst (answer_known ms r i s)"
proof -
  have c: "clock (without_credentials s) = clock s" by (simp add: without_credentials_def)
  have "fst (serveIntegrations ms r i (without_credentials s)) = fst (serveIntegrations ms r i s)"
  proof (cases "ms_Integrations ms")
    case None
    then show ?thesis by (simp add: serveIntegrations_def)
  next
    case (Some sv)
    obtain y t where l: "List_connections (ms_Codec ms) sv (id_OwnerID i) s = (y, t)" by (cases "List_connections (ms_Codec ms) sv (id_OwnerID i) s")
    then have "clock t = clock s" using List_connections_clock [of "ms_Codec ms" sv "id_OwnerID i" s] by simp
    then show ?thesis
      using Some l assms List_connections_blind [of "ms_Codec ms" sv "id_OwnerID i" s]
      by (cases y) (simp_all add: serveIntegrations_def fst_connected_blind)
  qed
  moreover have "fst (serveTree ms r i (without_credentials s)) = fst (serveTree ms r i s)"
  proof (cases "ms_Integrations ms")
    case None
    then show ?thesis by (simp add: serveTree_def Let_def)
  next
    case (Some sv)
    then show ?thesis
      by (cases "List_connections (ms_Codec ms) sv (id_OwnerID i) s"; cases "fst (List_connections (ms_Codec ms) sv (id_OwnerID i) s)")
        (simp_all add: serveTree_def Let_def List_connections_blind)
  qed
  ultimately show ?thesis by (simp add: answer_known_def c)
qed

section \<open>A listing is a promise\<close>

text \<open>A name that can stand in a path, the name a listing shows of a node, and a tree whose names can be asked for: an
  entry of a directory is answered by that entry.\<close>

definition segment_ok :: "string \<Rightarrow> bool" where
  "segment_ok x \<longleftrightarrow> x \<noteq> [] \<and> x \<noteq> ''.'' \<and> CHR ''/'' \<notin> set x"

definition entry :: "node \<Rightarrow> string" where
  "entry c = (if nd_label c \<noteq> [] then nd_label c else nd_name c)"

definition line :: "node \<Rightarrow> string" where
  "line c = (if nd_label c \<noteq> [] then nd_label c else nd_name c @ (if isDir c then ''/'' else []))"

lemma listing_lines: "listing n = concat (map (\<lambda>c. line c @ nl) (nd_children n))"
  unfolding listing_def line_def by (rule arg_cong [where f = concat]) simp

definition told_apart :: "node list \<Rightarrow> bool" where
  "told_apart cs \<longleftrightarrow> (\<forall>c\<in>set cs. \<forall>d\<in>set cs. answers_to (entry c) d \<longrightarrow> d = c)"

fun node_ok :: "node \<Rightarrow> bool" where
  "node_ok (Node n l v cs) \<longleftrightarrow> segment_ok n \<and> (l = [] \<or> segment_ok l) \<and> told_apart cs \<and> (\<forall>c\<in>set cs. node_ok c)"

lemma child_entry: "told_apart (nd_children n) \<Longrightarrow> c \<in> set (nd_children n) \<Longrightarrow> child n (entry c) = Some c"
proof -
  assume t: "told_apart (nd_children n)" and c: "c \<in> set (nd_children n)"
  then have a: "answers_to (entry c) c" by (auto simp: answers_to_def entry_def)
  show ?thesis
  proof (cases "find (answers_to (entry c)) (nd_children n)")
    case None
    with a c show ?thesis by (simp add: find_None_iff)
  next
    case (Some d)
    then have "d \<in> set (nd_children n)" "answers_to (entry c) d" by (auto simp: find_Some_iff)
    with Some t c show ?thesis by (auto simp: child_def told_apart_def)
  qed
qed

lemma child_ok: "child n p = Some c \<Longrightarrow> node_ok n \<Longrightarrow> node_ok c \<and> segment_ok p"
proof -
  assume c: "child n p = Some c" and n: "node_ok n"
  from c have "c \<in> set (nd_children n)" "answers_to p c" by (auto simp: child_def find_Some_iff)
  with n show ?thesis by (cases n; cases c) (auto simp: answers_to_def)
qed

lemma walk_ok: "walk n ps = Some m \<Longrightarrow> node_ok n \<Longrightarrow> node_ok m \<and> list_all segment_ok ps"
  by (induction ps arbitrary: n) (auto split: option.splits dest: child_ok)

lemma walk_append: "walk n (ps @ [p]) = (case walk n ps of None \<Rightarrow> None | Some m \<Rightarrow> child m p)"
  by (induction ps arbitrary: n) (auto split: option.split)

text \<open>The path of an entry survives the cleaning, and its segments come back.\<close>

definition path_of :: "string list \<Rightarrow> string" where
  "path_of ps = ''/'' @ Join ps CHR ''/''"

lemma Join_ends:
  "list_all segment_ok ps \<Longrightarrow> ps \<noteq> [] \<Longrightarrow>
   Join ps c \<noteq> [] \<and> hd (Join ps c) = hd (hd ps) \<and> last (Join ps c) = last (last ps)"
  by (induction ps c rule: Join.induct) (auto simp: segment_ok_def)

lemma Join_snoc: "ps \<noteq> [] \<Longrightarrow> Join (ps @ [x]) c = Join ps c @ c # x"
  by (induction ps c rule: Join.induct) auto

lemma Split_cons: "Split (c # r) c = [] # Split r c"
  by simp

lemma ends_open:
  assumes segs: "list_all segment_ok ps" and some: "ps \<noteq> []"
  shows "hd (Join ps CHR ''/'') \<noteq> CHR ''/''" "last (Join ps CHR ''/'') \<noteq> CHR ''/''"
proof -
  have m: "hd (hd ps) \<in> set (hd ps)" "last (last ps) \<in> set (last ps)" "segment_ok (hd ps)" "segment_ok (last ps)"
    using segs some by (auto simp: list_all_iff segment_ok_def)
  then show "hd (Join ps CHR ''/'') \<noteq> CHR ''/''" "last (Join ps CHR ''/'') \<noteq> CHR ''/''"
    using Join_ends [OF segs some, of "CHR ''/''"] by (metis segment_ok_def)+
qed

lemma Split_path:
  assumes segs: "list_all segment_ok ps" and some: "ps \<noteq> []"
  shows "Split (path_of ps) CHR ''/'' = [] # ps" "Split (path_of ps @ ''/'') CHR ''/'' = [] # ps @ [[]]"
proof -
  have "CHR ''/'' \<notin> set w" if "w \<in> set (ps @ [[]])" for w using that segs by (auto simp: list_all_iff segment_ok_def)
  then show "Split (path_of ps) CHR ''/'' = [] # ps" "Split (path_of ps @ ''/'') CHR ''/'' = [] # ps @ [[]]"
    using Split_Join [of ps "CHR ''/''"] Split_Join [of "ps @ [[]]" "CHR ''/''"] some by (auto simp: path_of_def Join_snoc)
qed

lemma kept_segments:
  assumes segs: "list_all segment_ok ps" and some: "ps \<noteq> []"
  shows "filter (\<lambda>x. x \<noteq> [] \<and> x \<noteq> ''.'') ps = ps"
  using segs by (auto simp: filter_id_conv list_all_iff segment_ok_def)

lemma HasSuffix_path:
  assumes segs: "list_all segment_ok ps" and some: "ps \<noteq> []"
  shows "\<not> HasSuffix (path_of ps) ''/''" "HasSuffix (path_of ps @ ''/'') ''/''"
proof -
  have n: "Join ps CHR ''/'' \<noteq> []" using Join_ends [OF segs some] by blast
  show "\<not> HasSuffix (path_of ps) ''/''"
    using ends_open(2) [OF segs some] n by (cases "Join ps CHR ''/''" rule: rev_cases) (auto simp: path_of_def HasSuffix_iff)
  show "HasSuffix (path_of ps @ ''/'') ''/''" by (simp add: HasSuffix_def)
qed

lemma cleanPath_path:
  assumes segs: "list_all segment_ok ps" and some: "ps \<noteq> []"
  shows "cleanPath (path_of ps) = path_of ps" "cleanPath (path_of ps @ ''/'') = path_of ps @ ''/''"
proof -
  have "path_of ps \<noteq> ''/''" using Join_ends [OF segs some] by (simp add: path_of_def)
  then show "cleanPath (path_of ps) = path_of ps" "cleanPath (path_of ps @ ''/'') = path_of ps @ ''/''"
    using kept_segments [OF segs some] HasSuffix_path [OF segs some]
    by (simp_all add: cleanPath_def Split_path [OF segs some] Let_def) (simp_all add: path_of_def)
qed

lemma Trim_path:
  assumes segs: "list_all segment_ok ps" and some: "ps \<noteq> []"
  shows "Trim (path_of ps) CHR ''/'' = Join ps CHR ''/''" "Trim (path_of ps @ ''/'') CHR ''/'' = Join ps CHR ''/''"
proof -
  have n: "Join ps CHR ''/'' \<noteq> []" using Join_ends [OF segs some] by blast
  then obtain x xs y ys where j: "Join ps CHR ''/'' = x # xs" "Join ps CHR ''/'' = ys @ [y]" by (metis list.exhaust rev_exhaust)
  have "x \<noteq> CHR ''/''" using ends_open(1) [OF segs some] j(1) by simp
  moreover have "y \<noteq> CHR ''/''" using ends_open(2) [OF segs some] j(2) by simp
  moreover have "rev (x # xs) = y # rev ys" using j by (metis rev_eq_Cons_iff rev_rev_ident)
  ultimately have "rev (dropWhile (\<lambda>z. z = CHR ''/'') (rev (x # xs))) = x # xs"
    "rev (dropWhile (\<lambda>z. z = CHR ''/'') (CHR ''/'' # rev (x # xs))) = x # xs"
    by (metis (full_types) dropWhile.simps(2) rev_rev_ident)+
  with \<open>x \<noteq> CHR ''/''\<close> j(1) show "Trim (path_of ps) CHR ''/'' = Join ps CHR ''/''"
    "Trim (path_of ps @ ''/'') CHR ''/'' = Join ps CHR ''/''"
    by (simp_all add: Trim_def path_of_def)
qed

lemma answer_path:
  assumes n: "node_ok n" and w: "walk n ps = Some m"
  shows "mr_Status (answer_tree n (path_of (nd_name n # ps))) = 200"
    "isDir m \<Longrightarrow> mr_Status (answer_tree n (path_of (nd_name n # ps) @ ''/'')) = 200"
proof -
  let ?ps = "nd_name n # ps"
  have segs: "list_all segment_ok ?ps" using walk_ok [OF w n] n by (cases n) simp
  then have "CHR ''/'' \<notin> set x" if "x \<in> set ?ps" for x using that by (auto simp: list_all_iff segment_ok_def)
  then have "Split (Join ?ps CHR ''/'') CHR ''/'' = ?ps" by (intro Split_Join) auto
  with w Trim_path [OF segs] HasSuffix_path [OF segs]
  show "mr_Status (answer_tree n (path_of ?ps)) = 200"
    "isDir m \<Longrightarrow> mr_Status (answer_tree n (path_of ?ps @ ''/'')) = 200"
    by (auto simp: answer_tree_def Let_def m_write_def)
qed

text \<open>The tree of an identity is of that kind when its names can stand in a path.\<close>

definition named_ok :: "identity \<Rightarrow> bool" where
  "named_ok i \<longleftrightarrow> (id_MAC i = [] \<or> segment_ok (id_MAC i)) \<and> (\<forall>(name, key)\<in>set (id_PublicKeys i). CHR ''/'' \<notin> set name)"

definition slot :: "string \<Rightarrow> node option \<Rightarrow> bool" where
  "slot x c \<longleftrightarrow> (case c of None \<Rightarrow> True | Some d \<Rightarrow> nd_name d = x \<and> nd_label d = [] \<and> node_ok d)"

lemma slots_names: "list_all2 slot ns cs \<Longrightarrow> nd_name ` set (List.map_filter id cs) \<subseteq> set ns"
  by (induction ns cs rule: list_all2_induct) (auto simp: slot_def List.map_filter_simps split: option.splits)

lemma slots_distinct: "list_all2 slot ns cs \<Longrightarrow> distinct ns \<Longrightarrow> distinct (map nd_name (List.map_filter id cs))"
proof (induction ns cs rule: list_all2_induct)
  case (Cons n ns c cs)
  with slots_names [OF Cons(2)] show ?case by (auto simp: slot_def List.map_filter_simps id_def split: option.splits)
qed (simp add: List.map_filter_simps)

lemma slots_each: "list_all2 slot ns cs \<Longrightarrow> d \<in> set (List.map_filter id cs) \<Longrightarrow> nd_label d = [] \<and> node_ok d"
  by (induction ns cs rule: list_all2_induct) (auto simp: slot_def List.map_filter_simps split: option.splits)

lemma dir_ok: "segment_ok x \<Longrightarrow> list_all2 slot ns cs \<Longrightarrow> distinct ns \<Longrightarrow> node_ok (dir x cs)"
proof -
  assume x: "segment_ok x" and l: "list_all2 slot ns cs" and d: "distinct ns"
  have "told_apart (sort_key nd_name (List.map_filter id cs))"
    using slots_each [OF l] slots_distinct [OF l d] by (auto simp: told_apart_def answers_to_def entry_def distinct_map inj_on_def)
  with x slots_each [OF l] show ?thesis by (auto simp: dir_def)
qed

lemma leaf_ok [simp]: "node_ok (leaf x v) \<longleftrightarrow> segment_ok x"
  by (simp add: leaf_def told_apart_def)

lemma slot_leaf [simp]: "slot x (Some (leaf x v)) \<longleftrightarrow> segment_ok x"
  by (simp add: slot_def) (simp add: leaf_def)

lemma slot_optional [simp]: "segment_ok x \<Longrightarrow> slot x (optional x v)"
  by (simp add: optional_def) (simp add: slot_def)

lemma slot_None [simp]: "slot x None"
  by (simp add: slot_def)

lemma slot_dir [simp]: "slot x (Some (dir x cs)) \<longleftrightarrow> node_ok (dir x cs)"
  by (simp add: slot_def) (simp add: dir_def)

definition key_slot :: "nat \<Rightarrow> string \<times> string \<Rightarrow> node" where
  "key_slot n p = Node (Itoa (int n)) (Itoa (int n) @ ''='' @ (if fst p = [] then ''key-'' @ Itoa (int n) else fst p)) []
     [leaf ''openssh-key'' (snd p)]"

lemma key_slots_nth: "c \<in> set (key_slots n ks) \<Longrightarrow> \<exists>m<length ks. c = key_slot (n + m) (ks ! m)"
proof (induction n ks rule: key_slots.induct)
  case (2 n name key ks)
  show ?case
  proof (cases "c \<in> set (key_slots (Suc n) ks)")
    case True
    with 2 obtain m where "m < length ks" "c = key_slot (Suc n + m) (ks ! m)" by blast
    then show ?thesis by (intro exI [of _ "Suc m"]) simp
  next
    case False
    with 2 have "c = key_slot n (name, key)" by (simp add: key_slot_def)
    then show ?thesis by (intro exI [of _ 0]) simp
  qed
qed simp

lemma Itoa_digits: "list_all is_digit (Itoa (int n))"
  by (simp add: Itoa_def show_nat_digits)

lemma Itoa_inj: "Itoa (int m) = Itoa (int n) \<Longrightarrow> m = n"
  by (simp add: Itoa_def) (metis digits_val_show_nat)

lemma Itoa_no: "\<not> is_digit c \<Longrightarrow> c \<notin> set (Itoa (int n))"
  using Itoa_digits [of n] unfolding list_all_iff by blast

lemma key_slots_apart: "told_apart (key_slots 0 ks)"
proof -
  have eq: "CHR ''='' \<notin> set (Itoa (int n))" for n by (rule Itoa_no) (simp add: is_digit_def byte_def)
  have cut: "xs @ y # r = xs' @ y # r' \<Longrightarrow> y \<notin> set xs \<Longrightarrow> y \<notin> set xs' \<Longrightarrow> xs = xs'" for xs xs' r r' :: string and y
    by (induction xs arbitrary: xs') (auto simp: Cons_eq_append_conv)
  have "m = n" if "answers_to (entry (key_slot m p)) (key_slot n q)" for m n p q
  proof -
    have "Itoa (int m) = Itoa (int n)"
      using that eq [of n] by (auto simp: answers_to_def entry_def key_slot_def dest: cut [OF _ eq eq])
    then show ?thesis by (rule Itoa_inj)
  qed
  then show ?thesis unfolding told_apart_def using key_slots_nth [where n = 0] by (metis add_0)
qed

lemma key_slots_ok: "\<forall>(name, key)\<in>set ks. CHR ''/'' \<notin> set name \<Longrightarrow> c \<in> set (key_slots 0 ks) \<Longrightarrow> node_ok c"
proof -
  assume k: "\<forall>(name, key)\<in>set ks. CHR ''/'' \<notin> set name" and c: "c \<in> set (key_slots 0 ks)"
  then obtain m where m: "m < length ks" "c = key_slot m (ks ! m)" using key_slots_nth [where n = 0] by fastforce
  with k have f: "CHR ''/'' \<notin> set (fst (ks ! m))" by (metis (mono_tags, lifting) case_prod_beta nth_mem)
  have n: "CHR ''/'' \<notin> set (Itoa (int m))" "CHR ''.'' \<notin> set (Itoa (int m))" "Itoa (int m) \<noteq> []"
    by (auto simp: Itoa_def intro!: Itoa_no [unfolded Itoa_def, simplified]) (simp_all add: is_digit_def byte_def)
  then have "Itoa (int m) \<noteq> ''.''" by auto
  with n f m(2) show ?thesis by (auto simp: key_slot_def segment_ok_def told_apart_def append_eq_Cons_conv)
qed

lemma segment_okI: "x \<noteq> [] \<Longrightarrow> hd x \<noteq> CHR ''.'' \<Longrightarrow> CHR ''/'' \<notin> set x \<Longrightarrow> segment_ok x"
  by (auto simp: segment_ok_def)

lemma dir_in: "segment_ok x \<Longrightarrow> node_ok (dir y cs) \<Longrightarrow> node_ok (dir x [Some (dir y cs)])"
  by (rule dir_ok [where ns = "[y]"]) simp_all

lemma networkTree_ok: "named_ok i \<Longrightarrow> slot ''network'' (networkTree i)"
proof -
  assume i: "named_ok i"
  show ?thesis
  proof (cases "id_MAC i = []")
    case False
    with i have mac: "segment_ok (id_MAC i)" by (simp add: named_ok_def)
    have "node_ok (dir (id_MAC i) [Some (leaf ''device-number'' ''0''), Some (leaf ''interface-id'' (id_IncusName i @ ''-eth0'')),
         Some (leaf ''local-hostname'' (id_IncusName i)), Some (leaf ''local-ipv4s'' (id_IPv4 i)), Some (leaf ''mac'' (id_MAC i)),
         Some (leaf ''owner-id'' (id_OwnerID i))])"
      by (rule dir_ok [where ns = "[''device-number'', ''interface-id'', ''local-hostname'', ''local-ipv4s'', ''mac'', ''owner-id'']"])
        (simp_all add: mac segment_okI)
    with False show ?thesis by (simp add: networkTree_def dir_in mac segment_okI)
  qed (simp add: networkTree_def)
qed

lemma publicKeys_ok: "named_ok i \<Longrightarrow> slot ''public-keys'' (publicKeys i)"
  using key_slots_apart [of "id_PublicKeys i"] key_slots_ok [of "id_PublicKeys i"]
  by (auto simp: publicKeys_def slot_def named_ok_def segment_okI)

lemma svkexeTree_ok: "node_ok (svkexeTree mt i g)"
  unfolding svkexeTree_def
  by (rule dir_ok [where ns = "[''agent-host'', ''aliases'', ''app-port'', ''app-public'', ''container-name'', ''created-at'', ''disk-gb'',
      ''gateway-domain'', ''initial-task'', ''initial-task-state'', ''nesting'', ''nesting-applied'', ''owner-id'']"])
    (simp_all add: segment_okI)

lemma slot_svkexe: "slot ''svkexe'' (Some (svkexeTree mt i g))"
  using svkexeTree_ok [of mt i g] by (simp add: svkexeTree_def)

lemma metaData_ok: "named_ok i \<Longrightarrow> node_ok (metaData mt i g)"
proof -
  assume i: "named_ok i"
  have "node_ok (dir ''placement'' [Some (leaf ''availability-zone'' (mg_Zone g)), Some (leaf ''region'' (mg_Region g))])"
    "node_ok (dir ''services'' [Some (leaf ''domain'' (serviceDomain g)), Some (leaf ''partition'' ''svkexe'')])"
    by (rule dir_ok [where ns = "[''availability-zone'', ''region'']"] dir_ok [where ns = "[''domain'', ''partition'']"]; simp add: segment_okI)+
  with networkTree_ok [OF i] publicKeys_ok [OF i] slot_svkexe [of mt i g] show ?thesis
    unfolding metaData_def
    by (intro dir_ok [where ns = "[''ami-id'', ''ami-launch-index'', ''hostname'', ''instance-action'', ''instance-id'',
        ''instance-life-cycle'', ''instance-type'', ''local-hostname'', ''local-ipv4'', ''mac'', ''network'', ''placement'',
        ''public-hostname'', ''public-ipv4'', ''public-keys'', ''reservation-id'', ''security-groups'', ''services'', ''svkexe'']"])
      (simp_all add: segment_okI)
qed

lemma buildTree_ok: "named_ok i \<Longrightarrow> node_ok (buildTree mt i g)"
proof -
  assume i: "named_ok i"
  have "node_ok (dir ''instance-identity'' [Some (leaf ''document'' (identityDocument mt i g))])"
    by (rule dir_ok [where ns = "[''document'']"]; simp add: segment_okI)
  then have "node_ok (dir ''dynamic'' [Some (dir ''instance-identity'' [Some (leaf ''document'' (identityDocument mt i g))])])"
    by (simp add: dir_in segment_okI)
  moreover have "slot ''meta-data'' (Some (metaData mt i g))"
    using metaData_ok [OF i, of mt g] by (simp add: metaData_def)
  ultimately show ?thesis
    unfolding buildTree_def by (intro dir_ok [where ns = "[''dynamic'', ''meta-data'']"]) (simp_all add: segment_okI)
qed

text \<open>The account has no connection to list: the service has none configured, or the database lists none.\<close>

definition nothing_connected :: "'r meta_service \<Rightarrow> identity \<Rightarrow> 'r meta \<Rightarrow> bool" where
  "nothing_connected ms i s \<longleftrightarrow> (case ms_Integrations ms of
     None \<Rightarrow> True | Some sv \<Rightarrow> fst (List_connections (ms_Codec ms) sv (id_OwnerID i) s) = Inr [])"

text \<open>C37: a listing is a promise, for the tree of a VM whose MAC address and key names hold no slash and whose owner has no
  connection to an external service: each line of each directory the service lists is answered, as it stands, under the path of
  the directory.  The two hypotheses are needed: the name of an SSH key may hold a slash, and its line is then not answered
  (\<open>slash_key_breaks\<close>); and the credentials listed under a connection are answered to a token only.\<close>

theorem listing_answers:
  assumes "named_ok i" and "nothing_connected ms i s"
    and "walk (buildTree (ms_Texts ms) i (ms_Config ms)) ps = Some m" and "c \<in> set (nd_children m)"
  shows "child m (entry c) = Some c \<and>
    (mq_Path r = path_of (''latest'' # ps @ [entry c]) \<or> mq_Path r = path_of (''latest'' # ps) @ ''/'' @ line c \<longrightarrow>
     mr_Status (fst (serveTree ms r i s)) = 200)"
proof -
  let ?n = "buildTree (ms_Texts ms) i (ms_Config ms)" and ?ps = "ps @ [entry c]"
  have n: "node_ok ?n" "nd_name ?n = ''latest''" using buildTree_ok [OF assms(1)] by (simp_all add: buildTree_def) (simp add: dir_def)
  have "node_ok m" using walk_ok [OF assms(3) n(1)] by blast
  then have c: "child m (entry c) = Some c" using child_entry [OF _ assms(4)] by (cases m) simp
  then have w: "walk ?n ?ps = Some c" using assms(3) by (simp add: walk_append)
  have segs: "list_all segment_ok (''latest'' # ?ps)" using walk_ok [OF w n(1)] by (simp add: segment_okI)
  have p: "path_of (''latest'' # ps) @ ''/'' @ line c = path_of (''latest'' # ?ps) @ (if nd_label c = [] \<and> isDir c then ''/'' else [])"
    using Join_snoc [of "''latest'' # ps" "entry c" "CHR ''/''"] by (simp add: path_of_def line_def entry_def)
  have serve: "fst (serveTree ms r i s) = (if cleanPath (mq_Path r) = ''/'' then m_write (''latest'' @ nl) else answer_tree ?n (cleanPath (mq_Path r)))"
    using assms(2) by (auto simp: serveTree_def Let_def nothing_connected_def with_integrations_def split: option.splits prod.splits)
  have "path_of (''latest'' # ?ps) \<noteq> ''/''" using Join_ends [OF segs] by (simp add: path_of_def)
  with p show ?thesis
    using c cleanPath_path [OF segs] answer_path [OF n(1) w] serve by (auto simp: n(2) m_write_def)
qed

section \<open>Examples\<close>

definition demo_ms :: "unit meta_service" where
  "demo_ms = \<lparr>ms_Runtime = demo_listing (Inr [demo_rtc]), ms_TTL = 1, ms_Addrs = demo_addrs,
     ms_Config = New_config \<lparr>mg_Domain = ''vm.io'', mg_PublicIPs = [], mg_ImageID = ''svk'', mg_Region = [], mg_Zone = []\<rparr>,
     ms_Texts = \<lparr>mt_Time = Itoa, mt_Arch = ''x86_64'', mt_Document = (\<lambda>_. ''{}'')\<rparr>,
     ms_Integrations = Some demo_integrations, ms_Codec = demo_codec, ms_Hmac = (\<lambda>k m. replicate 32 (CHR ''h'')), ms_Key = ''k'',
     ms_Allow = (\<lambda>_. True), ms_SplitHostPort = (\<lambda>_. Some ''10.0.0.2'')\<rparr>"

definition demo_get :: "string \<Rightarrow> meta_request" where
  "demo_get p = \<lparr>mq_Method = ''GET'', mq_Path = p, mq_Remote = ''10.0.0.2:4711'', mq_Forwarded = False, mq_Token = [],
     mq_TokenTTL = [], mq_Nonce = None\<rparr>"

definition demo_identity :: "string \<Rightarrow> identity" where
  "demo_identity keyname = \<lparr>id_ContainerID = ''c1'', id_Name = ''web'', id_IncusName = ''vm-c1'', id_OwnerID = ''u1'',
     id_IPv4 = ''10.0.0.2'', id_MAC = ''00:16:3e'', id_CPULimit = 1, id_MemoryMB = 512, id_DiskGB = 10, id_AppPort = 8080,
     id_AppPublic = False, id_Nesting = False, id_NestingApplied = False, id_InitialTask = [], id_InitialTaskState = [],
     id_Aliases = [], id_PublicKeys = [(keyname, ''ssh-ed25519 A'')], id_CreatedAt = 7\<rparr>"

text \<open>The machine at its own address is answered.\<close>

theorem metadata_attributed_witness:
  "\<exists>x t i u. ServeHTTP_meta demo_ms (demo_get ''/'') demo_meta = (x, t) \<and> mr_Status x = 200
     \<and> attributed demo_addrs (Addr4 ''abcd'') i u \<and> answer_known demo_ms (demo_get ''/'') i u = (x, t)"
proof -
  obtain i u where res: "Resolve demo_addrs (demo_listing (Inr [demo_rtc])) 1 (Addr4 ''abcd'') demo_meta = (Inr i, u)"
    using demo_resolves by blast
  have caller: "callerAddr demo_ms ''10.0.0.2:4711'' = Some (Addr4 ''abcd'')"
    by (simp add: callerAddr_def demo_ms_def demo_addrs_def Let_def)
  have paths: "cleanPath ''/'' = ''/''" "''/'' \<noteq> tokenPath" "\<not> is_integration_path ''/''" by code_simp+
  obtain x t where run: "ServeHTTP_meta demo_ms (demo_get ''/'') demo_meta = (x, t)" "mr_Status x = 200"
    using res caller paths
    by (simp add: ServeHTTP_meta_def demo_get_def answer_known_def serveTree_def demo_ms_def m_write_def Let_def)
  have c: "cache_ok demo_meta" by (simp add: cache_ok_def demo_meta_def)
  have "callerAddr demo_ms (mq_Remote (demo_get ''/'')) = Some (Addr4 ''abcd'')" "ms_Addrs demo_ms = demo_addrs"
    using caller by (simp_all add: demo_get_def demo_ms_def)
  with metadata_attributed [OF c run] run show ?thesis by auto
qed

text \<open>A stored credential asked for without a token.\<close>

definition stored_credential :: "unit meta" where
  "stored_credential = demo_meta\<lparr>t_integrations := [\<lparr>ig_Owner = ''u1'', ig_Provider = ''github'', ig_Config = ''{}'',
     ig_Credentials = ''nnnnnnnnnnnnT'', ig_Version = 1, ig_UpdatedAt = 0\<rparr>]\<rparr>"

lemma cutLast_empty: "cutLast [] c = None"
  by (simp add: cutLast_def)

theorem credentials_need_token_witness:
  "\<not> token_ok demo_ms (demo_get (integrationPath @ ''/github/token'')) (demo_identity ''laptop'') (clock stored_credential)
   \<and> without_credentials stored_credential \<noteq> stored_credential
   \<and> fst (answer_known demo_ms (demo_get (integrationPath @ ''/github/token'')) (demo_identity ''laptop'') (without_credentials stored_credential))
     = fst (answer_known demo_ms (demo_get (integrationPath @ ''/github/token'')) (demo_identity ''laptop'') stored_credential)"
proof -
  have n: "\<not> token_ok demo_ms (demo_get (integrationPath @ ''/github/token'')) (demo_identity ''laptop'') (clock stored_credential)"
    by (simp add: token_ok_def demo_get_def valid_token_def cutLast_empty)
  have "t_integrations (without_credentials stored_credential) \<noteq> t_integrations stored_credential"
    by (simp add: without_credentials_def stored_credential_def)
  then have "without_credentials stored_credential \<noteq> stored_credential" by metis
  with n credentials_need_token [OF n] show ?thesis by blast
qed

text \<open>The key of a VM, and one whose name has a slash.\<close>

definition plain_ms :: "unit meta_service" where
  "plain_ms = demo_ms\<lparr>ms_Integrations := None\<rparr>"

definition only :: "string \<Rightarrow> node \<Rightarrow> node option \<Rightarrow> bool" where
  "only x d c \<longleftrightarrow> (case c of None \<Rightarrow> True | Some e \<Rightarrow> answers_to x e \<longrightarrow> e = d)"

lemma child_dir:
  assumes "Some d \<in> set cs" and "nd_name d = x" and "list_all (only x d) cs"
  shows "child (dir n cs) x = Some d"
proof -
  have m: "e \<in> set (sort_key nd_name (List.map_filter id cs)) \<longleftrightarrow> Some e \<in> set cs" for e
    by (auto simp: List.map_filter_def image_iff)
  show ?thesis
  proof (cases "find (answers_to x) (sort_key nd_name (List.map_filter id cs))")
    case None
    with assms(1,2) m show ?thesis by (auto simp: find_None_iff answers_to_def)
  next
    case (Some e)
    then have "e \<in> set (sort_key nd_name (List.map_filter id cs))" "answers_to x e"
      unfolding find_Some_iff by (metis length_sort nth_mem)+
    with m assms(3) have "e = d" by (auto simp: list_all_iff only_def split: option.splits)
    with Some show ?thesis by (simp add: child_def dir_def)
  qed
qed

lemma only_simps [simp]:
  "only x d (Some d)" "only x d None"
  "y \<noteq> x \<Longrightarrow> only x d (Some (leaf y v))" "y \<noteq> x \<Longrightarrow> only x d (optional y v)" "y \<noteq> x \<Longrightarrow> only x d (Some (dir y cs))"
  by (simp_all add: only_def answers_to_def leaf_def dir_def optional_def)

lemma dir_name [simp]: "nd_name (dir y cs) = y"
  by (simp add: dir_def)

lemma child_metaData: "child (buildTree mt i g) ''meta-data'' = Some (metaData mt i g)"
  unfolding buildTree_def by (rule child_dir) (simp_all add: metaData_def)

lemma child_publicKeys: "publicKeys i = Some n \<Longrightarrow> child (metaData mt i g) ''public-keys'' = Some n"
proof -
  assume n: "publicKeys i = Some n"
  then have k: "nd_name n = ''public-keys''" by (auto simp: publicKeys_def split: if_splits)
  have "only ''public-keys'' n (networkTree i)" "only ''public-keys'' n (Some (svkexeTree mt i g))"
    by (simp_all add: networkTree_def svkexeTree_def)
  with n k show ?thesis unfolding metaData_def by (intro child_dir) simp_all
qed

lemma demo_keys:
  "walk (buildTree mt (demo_identity k) g) [''meta-data'', ''public-keys''] = Some (Node ''public-keys'' [] [] (key_slots 0 [(k, ''ssh-ed25519 A'')]))"
  using child_publicKeys [of "demo_identity k"] by (simp add: child_metaData publicKeys_def demo_identity_def)

lemma demo_paths:
  "''/latest/meta-data/public-keys/0=laptop'' = path_of (''latest'' # [''meta-data'', ''public-keys''] @ [''0=laptop''])"
  "key_slots 0 [(''laptop'', ''ssh-ed25519 A'')] = [Node ''0'' ''0=laptop'' [] [leaf ''openssh-key'' ''ssh-ed25519 A'']]"
  by code_simp+

theorem listing_answers_witness:
  "mr_Status (fst (serveTree plain_ms (demo_get ''/latest/meta-data/public-keys/0=laptop'') (demo_identity ''laptop'') demo_meta)) = 200"
proof -
  let ?c = "Node ''0'' ''0=laptop'' [] [leaf ''openssh-key'' ''ssh-ed25519 A'']" and ?r = "demo_get ''/latest/meta-data/public-keys/0=laptop''"
  have n: "named_ok (demo_identity ''laptop'')" by code_simp
  have i: "nothing_connected plain_ms (demo_identity ''laptop'') demo_meta" by (simp add: nothing_connected_def plain_ms_def)
  have c: "?c \<in> set (nd_children (Node ''public-keys'' [] [] (key_slots 0 [(''laptop'', ''ssh-ed25519 A'')])))"
    unfolding demo_paths(2) by simp
  have "mq_Path ?r = path_of (''latest'' # [''meta-data'', ''public-keys''] @ [entry ?c])"
    using demo_paths(1) by (simp add: demo_get_def entry_def)
  with listing_answers [OF n i demo_keys c, of ?r] show ?thesis by blast
qed

text \<open>The name of an SSH key may hold a slash, and then the line of the listing is not answered.\<close>

lemma slash_key_breaks:
  "let n = buildTree (ms_Texts plain_ms) (demo_identity ''a/b'') (ms_Config plain_ms) in
   mr_Body (answer_tree n ''/latest/meta-data/public-keys'') = ''0=a/b'' @ nl
   \<and> mr_Status (answer_tree n ''/latest/meta-data/public-keys/0=a/b'') = 404"
proof -
  have "Split (Trim ''/latest/meta-data/public-keys'' CHR ''/'') CHR ''/'' = [''latest'', ''meta-data'', ''public-keys'']"
    "Split (Trim ''/latest/meta-data/public-keys/0=a/b'' CHR ''/'') CHR ''/'' = [''latest'', ''meta-data'', ''public-keys'', ''0=a'', ''b'']"
    "key_slots 0 [(''a/b'', ''ssh-ed25519 A'')] = [Node ''0'' ''0=a/b'' [] [leaf ''openssh-key'' ''ssh-ed25519 A'']]"
    by code_simp+
  moreover have "child (Node ''public-keys'' [] [] [Node ''0'' ''0=a/b'' [] [leaf ''openssh-key'' ''ssh-ed25519 A'']]) ''0=a'' = None"
    by (simp add: child_def answers_to_def)
  moreover have "nd_name (buildTree (ms_Texts plain_ms) (demo_identity ''a/b'') (ms_Config plain_ms)) = ''latest''" by (simp add: buildTree_def)
  ultimately show ?thesis
    using demo_keys [of "ms_Texts plain_ms" "''a/b''" "ms_Config plain_ms"] child_metaData [of "ms_Texts plain_ms" "demo_identity ''a/b''" "ms_Config plain_ms"]
    by (simp add: Let_def answer_tree_def isDir_def listing_def m_write_def m_fail_def split: option.splits)
qed

end
