(* ===== verification/LLM_Gateway.thy ===== *)
theory LLM_Gateway
  imports Api_Auth Secrets Metadata_Token
begin

text \<open>
  The LLM gateway the agents in the VMs talk to: \<^verbatim>\<open>src/internal/llmproxy\<close> and
  \<^verbatim>\<open>src/internal/api/llm_gateway.go\<close>.  A VM presents a token that names it and its owner; the
  gateway forwards its requests with the owner's own connections, or, when the owner has none, with the platform's key.

  The other side is a function: \<open>up n q\<close> is the answer to the \<open>n\<close>-th request that is sent.  A handler yields its
  response and the requests it sent.  JSON, HMAC and URL parsing are arguments.  A response keeps its status, its body
  and, of its headers, nothing: those of an upstream answer are copied as they are.
\<close>

section \<open>Tokens of VMs\<close>

record llm_codec =
  lj_ShowIdentity :: "string \<times> string \<Rightarrow> string"
  lj_ReadIdentity :: "string \<Rightarrow> (string \<times> string) option"
  lj_Object :: "string \<Rightarrow> (string \<times> string) list option"
  lj_ShowObject :: "(string \<times> string) list \<Rightarrow> string option"
  lj_String :: "string \<Rightarrow> string option"
  lj_ShowString :: "string \<Rightarrow> string"
  lj_ShowModels :: "(string \<times> string \<times> string) list \<Rightarrow> string"
  lj_ShowError :: "string \<Rightarrow> string"
  lj_URL :: "string \<Rightarrow> bool"
  lj_AltSse :: "string \<Rightarrow> string"
  lj_Hmac :: "string \<Rightarrow> string \<Rightarrow> string"

definition vm_signature :: "llm_codec \<Rightarrow> string \<Rightarrow> string \<Rightarrow> string" where
  "vm_signature lj key encoded = RawURLEncode (lj_Hmac lj key (''svkexe-llm-vm-v1:'' @ encoded))"

definition VMToken :: "llm_codec \<Rightarrow> string \<Rightarrow> string \<Rightarrow> string \<Rightarrow> string" where
  "VMToken lj key container owner =
     (let encoded = RawURLEncode (lj_ShowIdentity lj (container, owner)) in ''vm1.'' @ encoded @ ''.'' @ vm_signature lj key encoded)"

definition ParseVMToken :: "llm_codec \<Rightarrow> string \<Rightarrow> string \<Rightarrow> (string \<times> string) option" where
  "ParseVMToken lj key token =
     (if length key \<noteq> 32 then None
      else case CutPrefix token ''vm1.'' of None \<Rightarrow> None
      | Some rest \<Rightarrow>
          (case Cut rest CHR ''.'' of None \<Rightarrow> None
           | Some (payload, signature) \<Rightarrow>
               (case RawURLDecode payload of None \<Rightarrow> None
                | Some raw \<Rightarrow>
                    (case lj_ReadIdentity lj raw of None \<Rightarrow> None
                     | Some (container, owner) \<Rightarrow>
                         if container = [] \<or> owner = [] then None
                         else case Cut (drop 4 (VMToken lj key container owner)) CHR ''.'' of
                           None \<Rightarrow> None
                         | Some (_, expected) \<Rightarrow> if signature = expected then Some (container, owner) else None))))"

section \<open>Requests and answers\<close>

record llm_request =
  lq_Method :: string
  lq_Path :: string
  lq_Auth :: string
  lq_ReadOK :: bool
  lq_Body :: string
  lq_Version :: string
  lq_Beta :: string

record llm_response =
  lr_Status :: nat
  lr_Body :: string

record upstream =
  us_URL :: string
  us_Headers :: "(string \<times> string) list"
  us_Body :: string

datatype reply = Unreachable string | Answered nat string

type_synonym far_side = "nat \<Rightarrow> upstream \<Rightarrow> reply"
type_synonym served = "llm_response \<times> upstream list"

definition l_error :: "string \<Rightarrow> nat \<Rightarrow> served" where
  "l_error msg st = (\<lparr>lr_Status = st, lr_Body = msg @ [CHR 0x0A]\<rparr>, [])"

definition l_notfound :: served where "l_notfound = l_error ''404 page not found'' 404"

definition maxBody :: nat where "maxBody = 10485760"

section \<open>The owner's connections\<close>

text \<open>\<open>url.PathEscape\<close>\<close>

definition hex_upper :: "nat \<Rightarrow> char" where
  "hex_upper n = (if n < 10 then char_of (48 + n) else char_of (55 + n))"

definition path_plain :: "char \<Rightarrow> bool" where
  "path_plain c \<longleftrightarrow> is_lower_alnum (ascii_lower c) \<or> c \<in> set ''-_.~$&+:=@''"

definition PathEscape :: "string \<Rightarrow> string" where
  "PathEscape s = concat (map (\<lambda>c. if path_plain c then [c] else [CHR ''%'', hex_upper (byte c div 16), hex_upper (byte c mod 16)]) s)"

definition gemini_target :: "string \<Rightarrow> string \<times> string" where
  "gemini_target rest = (case cutLast rest CHR '':'' of None \<Rightarrow> (rest, []) | Some (name, action) \<Rightarrow> (name, action))"

text \<open>The protocol of a path, with the model and the action a Gemini path names.\<close>

definition path_protocol :: "string \<Rightarrow> string \<times> string \<times> string" where
  "path_protocol path =
     (if path = ''/chat/completions'' then (''openai'', [], [])
      else if path = ''/responses'' then (''openai-responses'', [], [])
      else if path = ''/messages'' then (''anthropic'', [], [])
      else case CutPrefix path ''/models/'' of
        None \<Rightarrow> ([], [], [])
      | Some rest \<Rightarrow>
          let (name, action) = gemini_target rest in
          (if action = ''generateContent'' \<or> action = ''streamGenerateContent'' then ''gemini'' else [], name, action))"

datatype pick = Picked provider_model | Ambiguous | Missing

definition pick_connection :: "provider_model list \<Rightarrow> string \<Rightarrow> string \<Rightarrow> pick" where
  "pick_connection models protocol requested =
     (case find (\<lambda>m. requested = ProviderModel_ID m) models of
        Some m \<Rightarrow> Picked m
      | None \<Rightarrow>
          if requested \<noteq> []
          then (case filter (\<lambda>m. pm_Model m = requested) models of [] \<Rightarrow> Missing | [m] \<Rightarrow> Picked m | _ \<Rightarrow> Ambiguous)
          else (case find (\<lambda>m. pm_Protocol m = protocol) models of Some m \<Rightarrow> Picked m | None \<Rightarrow> Missing))"

definition put_field :: "string \<Rightarrow> string \<Rightarrow> (string \<times> string) list \<Rightarrow> (string \<times> string) list" where
  "put_field k v fs = (k, v) # filter (\<lambda>f. fst f \<noteq> k) fs"

definition connection_url :: "string \<Rightarrow> string \<Rightarrow> string \<Rightarrow> provider_model \<Rightarrow> string" where
  "connection_url protocol path action m =
     (let base = TrimRight (pm_BaseURL m) CHR ''/'' in
      if protocol = ''anthropic'' then base
      else if protocol = ''gemini'' then base @ ''/models/'' @ PathEscape (pm_Model m) @ '':'' @ action
      else base @ path)"

definition connection_headers :: "llm_request \<Rightarrow> string \<Rightarrow> provider_model \<Rightarrow> (string \<times> string) list" where
  "connection_headers q protocol m =
     (''Content-Type'', ''application/json'') #
     (if protocol = ''anthropic''
      then [(''X-Api-Key'', pm_Key m), (''Anthropic-Version'', if lq_Version q = [] then ''2023-06-01'' else lq_Version q)]
           @ (if lq_Beta q = [] then [] else [(''Anthropic-Beta'', lq_Beta q)])
      else if protocol = ''gemini'' then [(''X-Goog-Api-Key'', pm_Key m)]
      else [(''Authorization'', ''Bearer '' @ pm_Key m)])"

text \<open>The request to the provider of the chosen connection, and its answer.\<close>

definition forward_connection ::
  "llm_codec \<Rightarrow> far_side \<Rightarrow> llm_request \<Rightarrow> string \<Rightarrow> string \<Rightarrow> string \<Rightarrow> (string \<times> string) list \<Rightarrow> provider_model \<Rightarrow> served" where
  "forward_connection lj up q protocol path action payload m =
     (let payload' = (if protocol = ''gemini'' then filter (\<lambda>f. fst f \<noteq> ''model'') payload
                      else put_field ''model'' (lj_ShowString lj (pm_Model m)) payload);
          url = connection_url protocol path action m in
      case lj_ShowObject lj payload' of
        None \<Rightarrow> l_error ''invalid request'' 400
      | Some body \<Rightarrow>
          if \<not> lj_URL lj url then l_error ''invalid connection endpoint'' 502
          else
            let u = \<lparr>us_URL = (if protocol = ''gemini'' \<and> action = ''streamGenerateContent'' then lj_AltSse lj url else url),
                     us_Headers = connection_headers q protocol m, us_Body = body\<rparr> in
            (case up 0 u of
               Unreachable _ \<Rightarrow> (fst (l_error ''LLM provider request failed'' 502), [u])
             | Answered st answer \<Rightarrow>
                 if st < 200 \<or> st \<ge> 300 then (fst (l_error (''LLM provider returned HTTP '' @ Itoa (int st)) 502), [u])
                 else (\<lparr>lr_Status = st, lr_Body = answer\<rparr>, [u])))"

definition choose_connection ::
  "llm_codec \<Rightarrow> far_side \<Rightarrow> llm_request \<Rightarrow> provider_model list \<Rightarrow> string \<Rightarrow> string \<Rightarrow> string \<Rightarrow> string \<Rightarrow> string \<Rightarrow> (string \<times> string) list \<Rightarrow> served" where
  "choose_connection lj up q models chosen protocol path name action payload =
     (case (case map_of payload ''model'' of None \<Rightarrow> Some [] | Some raw \<Rightarrow> lj_String lj raw) of
        None \<Rightarrow> l_error ''model must be a string'' 400
      | Some field \<Rightarrow>
          let requested0 = (if protocol = ''gemini'' then name else field);
              requested = (if requested0 = [] then chosen else requested0) in
          (case pick_connection models protocol requested of
             Ambiguous \<Rightarrow> l_error ''ambiguous model; use its connection-qualified ID from /models'' 400
           | Missing \<Rightarrow> l_error ''model not available in your LLM connections'' 404
           | Picked m \<Rightarrow>
               if pm_Protocol m \<noteq> protocol then l_error (''model uses protocol '' @ pm_Protocol m @ ''; use its native endpoint'') 400
               else forward_connection lj up q protocol path action payload m))"

definition ServeConnections :: "llm_codec \<Rightarrow> far_side \<Rightarrow> llm_request \<Rightarrow> provider_model list \<Rightarrow> string \<Rightarrow> served" where
  "ServeConnections lj up q models chosen =
     (let path = (case CutPrefix (lq_Path q) ''/api/llm/v1'' of None \<Rightarrow> lq_Path q | Some p \<Rightarrow> p) in
      if path = ''/models'' \<and> lq_Method q = ''GET''
      then (\<lparr>lr_Status = 200, lr_Body = lj_ShowModels lj (map (\<lambda>m. (ProviderModel_ID m, pm_Provider m, pm_Protocol m)) models)\<rparr>, [])
      else if lq_Method q \<noteq> ''POST'' then l_error ''method not allowed'' 405
      else
        let (protocol, name, action) = path_protocol path in
        if protocol = [] then l_notfound
        else if \<not> lq_ReadOK q \<or> length (lq_Body q) > maxBody then l_error ''invalid or oversized request'' 400
        else case lj_Object lj (lq_Body q) of
          None \<Rightarrow> l_error ''invalid JSON object'' 400
        | Some payload \<Rightarrow> choose_connection lj up q models chosen protocol path name action payload)"

section \<open>The platform's key\<close>

record llm_platform =
  lp_APIKey :: string
  lp_Models :: "string list"
  lp_InternalToken :: string

text \<open>A chat request: the model, and the text that the other fields make with a model put in.\<close>

record chat_request =
  ch_Model :: string
  ch_Text :: "string \<Rightarrow> string option"

definition openRouterURL :: string where "openRouterURL = ''https://openrouter.ai/api/v1/chat/completions''"

definition checkAuth :: "llm_platform \<Rightarrow> llm_request \<Rightarrow> bool" where
  "checkAuth lp q \<longleftrightarrow> lp_InternalToken lp = [] \<or> CutPrefix (lq_Auth q) ''Bearer '' = Some (lp_InternalToken lp)"

definition unauthorized :: served where "unauthorized = l_error ''unauthorized'' 401"

definition ServeModels :: "llm_codec \<Rightarrow> llm_platform \<Rightarrow> llm_request \<Rightarrow> served" where
  "ServeModels lj lp q =
     (if \<not> checkAuth lp q then unauthorized
      else (\<lparr>lr_Status = 200, lr_Body = lj_ShowModels lj (map (\<lambda>m. (m, ''openrouter'', [])) (lp_Models lp))\<rparr>, []))"

definition prioritize :: "string \<Rightarrow> string list \<Rightarrow> string list" where
  "prioritize preferred models = preferred # filter (\<lambda>m. m \<noteq> preferred) models"

definition platform_request :: "llm_platform \<Rightarrow> string \<Rightarrow> upstream" where
  "platform_request lp body = \<lparr>us_URL = openRouterURL,
     us_Headers = [(''Content-Type'', ''application/json''), (''Authorization'', ''Bearer '' @ lp_APIKey lp)], us_Body = body\<rparr>"

text \<open>What is quoted of a failing answer.\<close>

definition maxErrBody :: nat where "maxErrBody = 4096"

definition failure_text :: "string \<Rightarrow> reply \<Rightarrow> string" where
  "failure_text model r =
     (case r of
        Unreachable e \<Rightarrow> ''model '' @ model @ '': '' @ e
      | Answered st answer \<Rightarrow> ''model '' @ model @ '': status '' @ Itoa (int st) @ '': '' @ take maxErrBody answer)"

fun relay :: "llm_codec \<Rightarrow> llm_platform \<Rightarrow> far_side \<Rightarrow> chat_request \<Rightarrow> nat \<Rightarrow> string \<Rightarrow> string list \<Rightarrow> served" where
  "relay lj lp up c n failure [] = (\<lparr>lr_Status = 502, lr_Body = lj_ShowError lj (''all models failed: '' @ failure)\<rparr>, [])"
| "relay lj lp up c n failure (m # ms) =
     (case ch_Text c m of
        None \<Rightarrow> l_error ''internal error'' 500
      | Some body \<Rightarrow>
          let u = platform_request lp body; r = up n u in
          case r of
            Answered st answer \<Rightarrow>
              if st = 200 then (\<lparr>lr_Status = 200, lr_Body = answer\<rparr>, [u])
              else map_prod id ((#) u) (relay lj lp up c (Suc n) (failure_text m r) ms)
          | Unreachable _ \<Rightarrow> map_prod id ((#) u) (relay lj lp up c (Suc n) (failure_text m r) ms))"

text \<open>\<open>parse\<close> reads a chat request, or gives the error.\<close>

definition models_for :: "llm_platform \<Rightarrow> chat_request \<Rightarrow> string list" where
  "models_for lp c = (if ch_Model c \<in> set (lp_Models lp) then prioritize (ch_Model c) (lp_Models lp) else lp_Models lp)"

definition ServeHTTP_llm :: "llm_codec \<Rightarrow> llm_platform \<Rightarrow> (string \<Rightarrow> string + chat_request) \<Rightarrow> far_side \<Rightarrow> llm_request \<Rightarrow> served" where
  "ServeHTTP_llm lj lp parse up q =
     (if lq_Method q \<noteq> ''POST'' then l_error ''method not allowed'' 405
      else if \<not> checkAuth lp q then unauthorized
      else if \<not> lq_ReadOK q then l_error ''failed to read request body'' 400
      else case parse (take maxBody (lq_Body q)) of
        Inl e \<Rightarrow> l_error (''invalid JSON: '' @ e) 400
      | Inr c \<Rightarrow> relay lj lp up c 0 ''<nil>'' (models_for lp c))"

definition platform_route :: "llm_codec \<Rightarrow> llm_platform \<Rightarrow> (string \<Rightarrow> string + chat_request) \<Rightarrow> far_side \<Rightarrow> llm_request \<Rightarrow> served" where
  "platform_route lj lp parse up q =
     (if lq_Path q = ''/api/llm/v1/models''
      then (if lq_Method q \<noteq> ''GET'' then l_error ''method not allowed'' 405 else ServeModels lj lp q)
      else if lq_Path q = ''/api/llm/v1/chat/completions'' then ServeHTTP_llm lj lp parse up q
      else l_notfound)"

definition ServeVM :: "llm_codec \<Rightarrow> llm_platform \<Rightarrow> (string \<Rightarrow> string + chat_request) \<Rightarrow> far_side \<Rightarrow> llm_request \<Rightarrow> served" where
  "ServeVM lj lp parse up q = platform_route lj lp parse up (q\<lparr>lq_Auth := ''Bearer '' @ lp_InternalToken lp\<rparr>)"

section \<open>The gateway\<close>

definition for_owner ::
  "llm_codec \<Rightarrow> materializer \<Rightarrow> llm_platform option \<Rightarrow> (string \<Rightarrow> string + chat_request) \<Rightarrow> far_side \<Rightarrow> llm_request \<Rightarrow> string
   \<Rightarrow> ('z, served) dbm" where
  "for_owner lj mz lp parse up q owner =
     attempt (ProviderModels mz owner) (\<lambda>_. ret (l_error ''LLM connections unavailable'' 503)) (\<lambda>models.
       if models = []
       then (case lp of None \<Rightarrow> ret (l_error ''no LLM models configured'' 503) | Some p \<Rightarrow> ret (ServeVM lj p parse up q))
       else attempt (UserDefaultModel owner) (\<lambda>_. ret (l_error ''LLM settings unavailable'' 503))
         (\<lambda>chosen. ret (ServeConnections lj up q models chosen)))"

definition llmGateway ::
  "llm_codec \<Rightarrow> materializer \<Rightarrow> llm_platform option \<Rightarrow> (string \<Rightarrow> string + chat_request) \<Rightarrow> far_side \<Rightarrow> llm_request
   \<Rightarrow> ('z, served) dbm" where
  "llmGateway lj mz lp parse up q =
     (let bearer = CutPrefix (lq_Auth q) ''Bearer ''; token = (case bearer of None \<Rightarrow> lq_Auth q | Some x \<Rightarrow> x) in
      if \<not> HasPrefix token ''vm1.''
      then (case lp of None \<Rightarrow> ret unauthorized | Some p \<Rightarrow> ret (platform_route lj p parse up q))
      else case ParseVMToken lj (mz_encKey mz) token of
        None \<Rightarrow> ret unauthorized
      | Some (container, owner) \<Rightarrow>
          if bearer = None then ret unauthorized
          else attempt (GetContainerByID container) (\<lambda>_. ret unauthorized)
            (\<lambda>c. if c_OwnerID c \<noteq> owner then ret unauthorized else for_owner lj mz lp parse up q owner))"

section \<open>Tokens name one VM\<close>

lemma encoded_token: "Cut (drop 4 (VMToken lj key c w)) CHR ''.'' =
    Some (RawURLEncode (lj_ShowIdentity lj (c, w)), vm_signature lj key (RawURLEncode (lj_ShowIdentity lj (c, w))))"
  using Cut_append [of "CHR ''.''" "RawURLEncode (lj_ShowIdentity lj (c, w))"] encoded_plain
  by (simp add: VMToken_def Let_def) (metis encoded_plain)

lemma ParseVMToken_VMToken:
  assumes "\<And>x. lj_ReadIdentity lj (lj_ShowIdentity lj x) = Some x" and "length key = 32" and "container \<noteq> []" and "owner \<noteq> []"
  shows "ParseVMToken lj key (VMToken lj key container owner) = Some (container, owner)"
proof -
  have "Cut (RawURLEncode (lj_ShowIdentity lj (container, owner)) @ ''.'' @ vm_signature lj key (RawURLEncode (lj_ShowIdentity lj (container, owner)))) CHR ''.''
    = Some (RawURLEncode (lj_ShowIdentity lj (container, owner)), vm_signature lj key (RawURLEncode (lj_ShowIdentity lj (container, owner))))"
    using encoded_token [of lj key container owner] by (simp add: VMToken_def Let_def)
  moreover have "CutPrefix (VMToken lj key container owner) ''vm1.'' = Some (RawURLEncode (lj_ShowIdentity lj (container, owner)) @ ''.''
      @ vm_signature lj key (RawURLEncode (lj_ShowIdentity lj (container, owner))))"
    by (simp add: VMToken_def Let_def CutPrefix_def HasPrefix_def)
  ultimately show ?thesis
    using assms by (simp add: ParseVMToken_def encoded_token RawURL_roundtrip del: append.simps)
qed

text \<open>C38: the gateway accepts the token it makes for a VM and its owner, and whatever token it accepts carries the signature
  it makes for the VM and the owner it takes the token for, neither of which is empty; without a 32-byte key it accepts
  none.\<close>

theorem vm_token_roundtrip:
  assumes "\<And>x. lj_ReadIdentity lj (lj_ShowIdentity lj x) = Some x" and "length key = 32" and "container \<noteq> []" and "owner \<noteq> []"
  shows "ParseVMToken lj key (VMToken lj key container owner) = Some (container, owner)
    \<and> (\<forall>k token c w. ParseVMToken lj k token = Some (c, w) \<longrightarrow> length k = 32 \<and> c \<noteq> [] \<and> w \<noteq> []
         \<and> (\<exists>payload. token = ''vm1.'' @ payload @ ''.'' @ vm_signature lj k (RawURLEncode (lj_ShowIdentity lj (c, w)))
              \<and> Option.bind (RawURLDecode payload) (lj_ReadIdentity lj) = Some (c, w)))"
proof (intro conjI allI impI)
  show "ParseVMToken lj key (VMToken lj key container owner) = Some (container, owner)"
    using assms by (rule ParseVMToken_VMToken)
next
  fix k token c w assume p: "ParseVMToken lj k token = Some (c, w)"
  then obtain rest payload raw where t: "CutPrefix token ''vm1.'' = Some rest"
      "Cut rest CHR ''.'' = Some (payload, vm_signature lj k (RawURLEncode (lj_ShowIdentity lj (c, w))))"
      "RawURLDecode payload = Some raw" "lj_ReadIdentity lj raw = Some (c, w)" and n: "length k = 32" "c \<noteq> []" "w \<noteq> []"
    by (auto simp: ParseVMToken_def encoded_token split: if_splits option.splits)
  from n show "length k = 32" "c \<noteq> []" "w \<noteq> []" by simp_all
  have "token = ''vm1.'' @ rest" using t(1) by (simp add: CutPrefix_Some)
  with Cut_Some [OF t(2)] t(3,4) show "\<exists>payload. token = ''vm1.'' @ payload @ ''.'' @ vm_signature lj k (RawURLEncode (lj_ShowIdentity lj (c, w)))
      \<and> Option.bind (RawURLDecode payload) (lj_ReadIdentity lj) = Some (c, w)"
    by (intro exI [of _ payload]) simp
qed

section \<open>Whose key is used\<close>

text \<open>A model of a connection that the owner has stored.\<close>

definition owners_model :: "materializer \<Rightarrow> 'z store_scheme \<Rightarrow> string \<Rightarrow> provider_model \<Rightarrow> bool" where
  "owners_model mz s owner m \<longleftrightarrow> (\<exists>k\<in>set (t_keys s). ak_OwnerID k = owner \<and> ak_BaseURL k \<noteq> [] \<and> pm_BaseURL m = ak_BaseURL k
     \<and> pm_Provider m = ak_Provider k \<and> pm_Protocol m = ak_Protocol k \<and> pm_Model m \<in> set (Split (ak_Models k) CHR '','')
     \<and> opens_to mz k (pm_Key m))"

lemma look_provider_models:
  assumes "uniq_ok s" and "\<forall>k\<in>set ks. k \<in> set (t_keys s) \<and> ak_OwnerID k = owner"
  shows "looks_up s (provider_models mz (map blank ks)) (\<lambda>ms. \<forall>m\<in>set ms. owners_model mz s owner m)"
  using assms(2)
proof (induction ks)
  case (Cons k ks)
  then have k: "k \<in> set (t_keys s)" "ak_OwnerID k = owner" and IH: "looks_up s (provider_models mz (map blank ks)) (\<lambda>ms. \<forall>m\<in>set ms. owners_model mz s owner m)"
    by simp_all
  show ?case
  proof (cases "ak_BaseURL k = []")
    case False
    have "looks_up s (bindE (GetAPIKeyPlaintext (mz_unseal mz) (ak_ID k) (mz_encKey mz)) (\<lambda>key.
        bindE (provider_models mz (map blank ks)) (\<lambda>rest. ret (map (\<lambda>model. \<lparr>pm_Provider = ak_Provider k, pm_Model = model,
            pm_BaseURL = ak_BaseURL k, pm_Key = key, pm_Protocol = ak_Protocol k\<rparr>)
          (filter (\<lambda>model. model \<noteq> []) (Split (ak_Models k) CHR '','')) @ rest)))) (\<lambda>ms. \<forall>m\<in>set ms. owners_model mz s owner m)"
    proof (intro looks_up_bindE [OF look_plaintext [OF assms(1) k(1)]] looks_up_bindE [OF IH] looks_up_ret)
      fix p ms assume "opens_to mz k p" "\<forall>m\<in>set ms. owners_model mz s owner m"
      with k False show "\<forall>m\<in>set (map (\<lambda>model. \<lparr>pm_Provider = ak_Provider k, pm_Model = model,
            pm_BaseURL = ak_BaseURL k, pm_Key = p, pm_Protocol = ak_Protocol k\<rparr>)
          (filter (\<lambda>model. model \<noteq> []) (Split (ak_Models k) CHR '','')) @ ms). owners_model mz s owner m"
        by (auto simp: owners_model_def)
    qed
    with False show ?thesis by simp
  qed (use IH in simp)
qed (simp add: looks_up_ret)

lemma look_ProviderModels: "uniq_ok s \<Longrightarrow> looks_up s (ProviderModels mz owner) (\<lambda>ms. \<forall>m\<in>set ms. owners_model mz s owner m)"
  unfolding ProviderModels_def
  by (rule looks_up_bindE [OF look_keys]) (auto intro!: look_provider_models simp: owner_keys_def)

lemma pick_member: "pick_connection models protocol requested = Picked m \<Longrightarrow> m \<in> set models"
proof -
  assume p: "pick_connection models protocol requested = Picked m"
  have one: "m \<in> set models" if "filter P models = [m]" for P
  proof -
    have "m \<in> set (filter P models)" using that by simp
    then show ?thesis by simp
  qed
  from p show ?thesis
    by (auto simp: pick_connection_def find_Some_iff split: option.splits if_splits list.splits intro: one)
qed

text \<open>A request that carries the key of a model's connection to the address of that connection and nothing else of it.\<close>

definition sent_for :: "llm_codec \<Rightarrow> llm_request \<Rightarrow> provider_model \<Rightarrow> upstream \<Rightarrow> bool" where
  "sent_for lj q m u \<longleftrightarrow> us_Headers u = connection_headers q (pm_Protocol m) m
     \<and> (\<exists>url. HasPrefix url (TrimRight (pm_BaseURL m) CHR ''/'') \<and> (us_URL u = url \<or> us_URL u = lj_AltSse lj url))"

lemma url_prefix: "HasPrefix (connection_url protocol path action m) (TrimRight (pm_BaseURL m) CHR ''/'')"
  by (simp add: connection_url_def Let_def HasPrefix_def)

lemma forwarded_for:
  "u \<in> set (snd (forward_connection lj up q protocol path action payload m)) \<Longrightarrow> pm_Protocol m = protocol \<Longrightarrow> sent_for lj q m u"
  unfolding sent_for_def
  using url_prefix [of "pm_Protocol m" path action m]
  by (auto simp: forward_connection_def l_error_def Let_def split: option.splits if_splits reply.splits)

lemma ServeConnections_sent: "u \<in> set (snd (ServeConnections lj up q models chosen)) \<Longrightarrow> \<exists>m\<in>set models. sent_for lj q m u"
proof -
  assume u: "u \<in> set (snd (ServeConnections lj up q models chosen))"
  have no: "u \<notin> set (snd (l_error msg st))" for msg st by (simp add: l_error_def)
  have choose: "\<exists>m\<in>set models. sent_for lj q m u"
    if "u \<in> set (snd (choose_connection lj up q models chosen protocol path name action payload))" for protocol path name action payload
    using that no by (auto simp: choose_connection_def Let_def split: option.splits pick.splits if_splits dest: pick_member forwarded_for)
  from u no show ?thesis
    by (auto simp: ServeConnections_def l_notfound_def Let_def split: option.splits if_splits prod.splits dest: choose)
qed

lemma relay_sent: "u \<in> set (snd (relay lj lp up c n f ms)) \<Longrightarrow> u = platform_request lp (us_Body u)"
  by (induction lj lp up c n f ms rule: relay.induct)
    (auto simp: l_error_def platform_request_def Let_def split: option.splits reply.splits if_splits)

lemma platform_sent: "u \<in> set (snd (platform_route lj lp parse up q)) \<Longrightarrow> checkAuth lp q \<and> u = platform_request lp (us_Body u)"
  by (auto simp: platform_route_def ServeModels_def ServeHTTP_llm_def unauthorized_def l_error_def l_notfound_def
      split: if_splits sum.splits dest: relay_sent)

text \<open>The request presents a token of a VM that exists and belongs to the owner the token names.\<close>

definition from_vm :: "llm_codec \<Rightarrow> materializer \<Rightarrow> llm_request \<Rightarrow> 'z store_scheme \<Rightarrow> string \<Rightarrow> bool" where
  "from_vm lj mz q s owner \<longleftrightarrow> (\<exists>token cid. lq_Auth q = ''Bearer '' @ token \<and> ParseVMToken lj (mz_encKey mz) token = Some (cid, owner)
     \<and> (\<exists>c\<in>set (t_containers s). c_ID c = cid \<and> c_OwnerID c = owner))"

definition rightly_sent :: "llm_codec \<Rightarrow> materializer \<Rightarrow> llm_platform option \<Rightarrow> llm_request \<Rightarrow> 'z store_scheme \<Rightarrow> upstream \<Rightarrow> bool" where
  "rightly_sent lj mz lp q s u \<longleftrightarrow>
     (\<exists>owner m. from_vm lj mz q s owner \<and> owners_model mz s owner m \<and> sent_for lj q m u)
     \<or> (\<exists>p. lp = Some p \<and> (checkAuth p q \<or> (\<exists>owner. from_vm lj mz q s owner)) \<and> u = platform_request p (us_Body u))"

lemma look_default_model: "looks_up s (UserDefaultModel owner) (\<lambda>_. True)"
  unfolding UserDefaultModel_def
  by (rule looks_up_attempt [OF users.looks_up_row]) (auto intro!: look_rules)

lemma look_for_owner:
  assumes "uniq_ok s" and "from_vm lj mz q s owner"
  shows "looks_up s (for_owner lj mz lp parse up q owner) (\<lambda>x. \<forall>u\<in>set (snd x). rightly_sent lj mz lp q s u)"
  unfolding for_owner_def
proof (rule looks_up_attempt [OF look_ProviderModels [OF assms(1)]])
  fix models assume m: "\<forall>m\<in>set models. owners_model mz s owner m"
  show "looks_up s (if models = [] then case lp of None \<Rightarrow> ret (l_error ''no LLM models configured'' 503) | Some p \<Rightarrow> ret (ServeVM lj p parse up q)
      else attempt (UserDefaultModel owner) (\<lambda>_. ret (l_error ''LLM settings unavailable'' 503)) (\<lambda>chosen. ret (ServeConnections lj up q models chosen)))
    (\<lambda>x. \<forall>u\<in>set (snd x). rightly_sent lj mz lp q s u)"
  proof (cases "models = []")
    case True
    have "rightly_sent lj mz lp q s u" if "lp = Some p" "u \<in> set (snd (ServeVM lj p parse up q))" for u p
      using platform_sent [OF that(2) [unfolded ServeVM_def]] that(1) assms(2) by (auto simp: rightly_sent_def)
    with True show ?thesis by (auto intro!: looks_up_ret simp: l_error_def split: option.split)
  next
    case False
    have "rightly_sent lj mz lp q s u" if "u \<in> set (snd (ServeConnections lj up q models chosen))" for u chosen
      using ServeConnections_sent [OF that] m assms(2) by (auto simp: rightly_sent_def)
    with False show ?thesis
      by (simp, intro looks_up_attempt [OF look_default_model] looks_up_ret) (auto simp: l_error_def)
  qed
qed (auto intro!: looks_up_ret simp: l_error_def)

text \<open>C11: whatever the LLM gateway sends out is sent either with the key, and to the address, of a connection stored by the
  owner of the VM whose signed token the request presents, or with the platform's key to the platform's address, for
  such a VM or for a request that knows the internal token; an owner's key never leaves for another owner's request.
  The gateway changes no data.\<close>

theorem llm_gateway_isolated:
  fixes s t :: "'z store_scheme"
  assumes "uniq_ok s" and "llmGateway lj mz lp parse up q s = (Inr (resp, sent), t)"
  shows "same_data s t \<and> (\<forall>u\<in>set sent. rightly_sent lj mz lp q s u)"
proof -
  let ?R = "\<lambda>x :: served. \<forall>u\<in>set (snd x). rightly_sent lj mz lp q s u"
  have no: "?R unauthorized" by (simp add: unauthorized_def l_error_def)
  have platform: "?R (platform_route lj p parse up q)" if "lp = Some p" for p
    using that by (auto simp: rightly_sent_def dest: platform_sent)
  have vm: "looks_up s (attempt (GetContainerByID cid) (\<lambda>_. ret unauthorized)
      (\<lambda>c. if c_OwnerID c \<noteq> owner then ret unauthorized else for_owner lj mz lp parse up q owner)) ?R"
    if tok: "lq_Auth q = ''Bearer '' @ token" "ParseVMToken lj (mz_encKey mz) token = Some (cid, owner)" for token cid owner
  proof (rule looks_up_attempt [OF look_containers(1)])
    fix c assume c: "\<exists>d\<in>set (t_containers s). c_ID d = cid \<and> c = scanContainer d"
    show "looks_up s (if c_OwnerID c \<noteq> owner then ret unauthorized else for_owner lj mz lp parse up q owner) ?R"
    proof (cases "c_OwnerID c = owner")
      case True
      with c tok have "from_vm lj mz q s owner" by (auto simp: from_vm_def scanContainer_def)
      with True show ?thesis using look_for_owner [OF assms(1)] by simp
    qed (simp add: looks_up_ret no)
  qed (simp add: looks_up_ret no)
  have "looks_up s (llmGateway lj mz lp parse up q) ?R"
  proof (cases "CutPrefix (lq_Auth q) ''Bearer ''")
    case None
    then show ?thesis using no platform by (auto simp: llmGateway_def Let_def intro!: looks_up_ret split: option.split)
  next
    case (Some token)
    then have "lq_Auth q = ''Bearer '' @ token" by (simp only: CutPrefix_Some)
    note vm = vm [OF this]
    show ?thesis
    proof (cases "HasPrefix token ''vm1.''")
      case True
      with Some no vm show ?thesis by (cases "ParseVMToken lj (mz_encKey mz) token") (auto simp: llmGateway_def intro!: looks_up_ret)
    next
      case False
      with Some no platform show ?thesis by (cases lp) (auto simp: llmGateway_def intro!: looks_up_ret)
    qed
  qed
  then have "hoare (same_data s) (llmGateway lj mz lp parse up q) (\<lambda>a t. same_data s t \<and> ?R a) (\<lambda>_. same_data s)"
    by (simp add: looks_up_def)
  from hoare_Inr [OF this _ assms(2)] show ?thesis by simp
qed

section \<open>The platform's models in turn\<close>

text \<open>The request for a model, and the answer to it when it is the \<open>n\<close>-th that is sent.\<close>

definition model_request :: "llm_platform \<Rightarrow> chat_request \<Rightarrow> string \<Rightarrow> upstream" where
  "model_request lp c m = platform_request lp (the (ch_Text c m))"

definition success :: "reply \<Rightarrow> string option" where
  "success r = (case r of Answered st body \<Rightarrow> if st = 200 then Some body else None | Unreachable _ \<Rightarrow> None)"

lemma relay_step:
  assumes "ch_Text c m \<noteq> None"
  shows "relay lj lp up c n f (m # ms) =
    (case success (up n (model_request lp c m)) of
       Some body \<Rightarrow> (\<lparr>lr_Status = 200, lr_Body = body\<rparr>, [model_request lp c m])
     | None \<Rightarrow> map_prod id ((#) (model_request lp c m))
         (relay lj lp up c (Suc n) (failure_text m (up n (model_request lp c m))) ms))"
  using assms by (auto simp: model_request_def success_def Let_def split: reply.split)

text \<open>The \<open>k\<close>-th model is the first that answers.\<close>

definition first_answer :: "llm_platform \<Rightarrow> far_side \<Rightarrow> chat_request \<Rightarrow> nat \<Rightarrow> string list \<Rightarrow> nat \<Rightarrow> string \<Rightarrow> bool" where
  "first_answer lp up c n ms k body \<longleftrightarrow> k < length ms \<and> success (up (n + k) (model_request lp c (ms ! k))) = Some body
     \<and> (\<forall>i<k. success (up (n + i) (model_request lp c (ms ! i))) = None)"

definition none_answers :: "llm_platform \<Rightarrow> far_side \<Rightarrow> chat_request \<Rightarrow> nat \<Rightarrow> string list \<Rightarrow> bool" where
  "none_answers lp up c n ms \<longleftrightarrow> (\<forall>i<length ms. success (up (n + i) (model_request lp c (ms ! i))) = None)"

lemma first_answer_0: "success (up n (model_request lp c m)) = Some body \<Longrightarrow> first_answer lp up c n (m # ms) 0 body"
  by (simp add: first_answer_def)

lemma first_answer_Suc:
  assumes "success (up n (model_request lp c m)) = None" and "first_answer lp up c (Suc n) ms k body"
  shows "first_answer lp up c n (m # ms) (Suc k) body"
  using assms unfolding first_answer_def by (auto simp: less_Suc_eq_0_disj)

lemma none_answers_Cons: "none_answers lp up c n (m # ms) \<longleftrightarrow>
    success (up n (model_request lp c m)) = None \<and> none_answers lp up c (Suc n) ms"
  unfolding none_answers_def by (auto simp: less_Suc_eq_0_disj)

lemma relay_outcome:
  assumes "\<forall>m\<in>set ms. ch_Text c m \<noteq> None"
  shows "(\<exists>k body. first_answer lp up c n ms k body
      \<and> relay lj lp up c n f ms = (\<lparr>lr_Status = 200, lr_Body = body\<rparr>, map (model_request lp c) (take (Suc k) ms)))
    \<or> (none_answers lp up c n ms \<and> lr_Status (fst (relay lj lp up c n f ms)) = 502
      \<and> snd (relay lj lp up c n f ms) = map (model_request lp c) ms)"
  using assms
proof (induction ms arbitrary: n f)
  case (Cons m ms)
  then have m: "ch_Text c m \<noteq> None" and ms: "\<forall>m\<in>set ms. ch_Text c m \<noteq> None" by simp_all
  show ?case
  proof (cases "success (up n (model_request lp c m))")
    case None
    from Cons.IH [OF ms, of "Suc n" "failure_text m (up n (model_request lp c m))"] show ?thesis
    proof (elim disjE exE conjE)
      fix k body assume "first_answer lp up c (Suc n) ms k body"
        and "relay lj lp up c (Suc n) (failure_text m (up n (model_request lp c m))) ms
          = (\<lparr>lr_Status = 200, lr_Body = body\<rparr>, map (model_request lp c) (take (Suc k) ms))"
      with first_answer_Suc [of up n lp c m, OF None] show ?thesis
        by (intro disjI1 exI [of _ "Suc k"] exI [of _ body]) (simp add: relay_step [OF m] None del: relay.simps)
    qed (simp add: relay_step [OF m] None none_answers_Cons del: relay.simps)
  next
    case (Some body)
    then show ?thesis
      by (intro disjI1 exI [of _ 0] exI [of _ body]) (simp add: relay_step [OF m] first_answer_0 del: relay.simps)
  qed
qed (simp add: none_answers_def)

lemma set_models_for: "set (models_for lp c) = set (lp_Models lp)"
  by (auto simp: models_for_def prioritize_def)

lemma distinct_models_for: "distinct (lp_Models lp) \<Longrightarrow> distinct (models_for lp c)"
  by (simp add: models_for_def prioritize_def)

lemma hd_models_for: "ch_Model c \<in> set (lp_Models lp) \<Longrightarrow> hd (models_for lp c) = ch_Model c"
  by (simp add: models_for_def prioritize_def)

text \<open>C25: a chat request that is let in ends, whatever the provider does: the configured models are asked in turn, the one the
  request names first and none twice, until one answers 200; its answer is the response, and no model after it is
  asked. When none does, each has been asked and the response is 502.\<close>

theorem relay_ends:
  assumes "lq_Method q = ''POST''" and "checkAuth lp q" and "lq_ReadOK q" and "parse (take maxBody (lq_Body q)) = Inr c"
    and "\<forall>m\<in>set (lp_Models lp). ch_Text c m \<noteq> None" and "distinct (lp_Models lp)"
  shows "\<exists>order. set order = set (lp_Models lp) \<and> distinct order
    \<and> (ch_Model c \<in> set (lp_Models lp) \<longrightarrow> hd order = ch_Model c)
    \<and> ((\<exists>k body. first_answer lp up c 0 order k body \<and> ServeHTTP_llm lj lp parse up q
          = (\<lparr>lr_Status = 200, lr_Body = body\<rparr>, map (model_request lp c) (take (Suc k) order)))
       \<or> (none_answers lp up c 0 order \<and> lr_Status (fst (ServeHTTP_llm lj lp parse up q)) = 502
          \<and> snd (ServeHTTP_llm lj lp parse up q) = map (model_request lp c) order))"
proof (intro exI [of _ "models_for lp c"] conjI impI)
  have "ServeHTTP_llm lj lp parse up q = relay lj lp up c 0 ''<nil>'' (models_for lp c)"
    using assms by (simp add: ServeHTTP_llm_def)
  with relay_outcome [of "models_for lp c" c lp up 0 lj "''<nil>''"] assms(5)
  show "(\<exists>k body. first_answer lp up c 0 (models_for lp c) k body \<and> ServeHTTP_llm lj lp parse up q
          = (\<lparr>lr_Status = 200, lr_Body = body\<rparr>, map (model_request lp c) (take (Suc k) (models_for lp c))))
       \<or> (none_answers lp up c 0 (models_for lp c) \<and> lr_Status (fst (ServeHTTP_llm lj lp parse up q)) = 502
          \<and> snd (ServeHTTP_llm lj lp parse up q) = map (model_request lp c) (models_for lp c))"
    by (simp add: set_models_for)
qed (use assms in \<open>simp_all add: set_models_for distinct_models_for hd_models_for\<close>)

text \<open>The two halves of the gateway differ in what they tell of a failure: the owner's connections give the status only, the
  platform's relay the answer itself.\<close>

lemma platform_error_echoed:
  assumes "ch_Text c m = Some body" and "up n (platform_request lp body) = Answered st answer" and "st \<noteq> 200"
  shows "fst (relay lj lp up c n f [m]) = \<lparr>lr_Status = 502, lr_Body = lj_ShowError lj
    (''all models failed: model '' @ m @ '': status '' @ Itoa (int st) @ '': '' @ take maxErrBody answer)\<rparr>"
  using assms by (simp add: failure_text_def Let_def)

section \<open>Every request is answered\<close>

definition response_status :: "nat \<Rightarrow> bool" where
  "response_status st \<longleftrightarrow> (200 \<le> st \<and> st < 300) \<or> st \<in> {400, 401, 404, 405, 500, 502, 503}"

lemma response_statuses [simp]: "response_status 200" "response_status 400" "response_status 401" "response_status 404"
  "response_status 405" "response_status 500" "response_status 502" "response_status 503"
  by (simp_all add: response_status_def)

lemma l_error_shape [simp]: "lr_Status (fst (l_error msg st)) = st" "snd (l_error msg st) = []"
  by (simp_all add: l_error_def)

text \<open>A response with a status of these, after at most \<open>n\<close> requests.\<close>

definition well_served :: "nat \<Rightarrow> served \<Rightarrow> bool" where
  "well_served n x \<longleftrightarrow> response_status (lr_Status (fst x)) \<and> length (snd x) \<le> n"

lemma served_refused [simp]: "response_status st \<Longrightarrow> well_served n (l_error msg st)"
  by (simp add: well_served_def)

lemma served_unauthorized [simp]: "well_served n unauthorized"
  by (simp add: unauthorized_def)

lemma served_notfound [simp]: "well_served n l_notfound"
  by (simp add: l_notfound_def)

lemma well_served_mono: "well_served n x \<Longrightarrow> n \<le> k \<Longrightarrow> well_served k x"
  by (simp add: well_served_def)

lemma well_served_more: "well_served n x \<Longrightarrow> well_served (Suc n) (map_prod id ((#) u) x)"
  by (simp add: well_served_def)

lemma served_relay: "well_served (length ms) (relay lj lp up c n f ms)"
proof (induction ms arbitrary: n f)
  case (Cons m ms)
  show ?case
  proof (cases "ch_Text c m")
    case (Some body)
    have "ch_Text c m \<noteq> None" using Some by simp
    then show ?thesis
      using Cons.IH by (simp add: relay_step well_served_more well_served_def [of _ "(_, _)"] del: relay.simps split: option.split)
  qed simp
qed (simp add: well_served_def)

lemma length_models_for: "length (models_for lp c) \<le> length (lp_Models lp)"
  using length_filter_less [of "ch_Model c" "lp_Models lp" "\<lambda>m. m \<noteq> ch_Model c"]
  by (auto simp: models_for_def prioritize_def)

lemma served_platform: "well_served (length (lp_Models lp)) (platform_route lj lp parse up q)"
proof -
  have "well_served (length (lp_Models lp)) (relay lj lp up c 0 f (models_for lp c))" for c f
    using well_served_mono [OF served_relay length_models_for] .
  then have "well_served (length (lp_Models lp)) (ServeHTTP_llm lj lp parse up q)"
    by (simp add: ServeHTTP_llm_def split: sum.split)
  moreover have "well_served (length (lp_Models lp)) (ServeModels lj lp q)"
    by (simp add: ServeModels_def well_served_def [of _ "(_, _)"])
  ultimately show ?thesis by (simp add: platform_route_def)
qed

lemma served_reply: "well_served 1 (case r of
    Unreachable _ \<Rightarrow> (fst (l_error a 502), [u])
  | Answered st answer \<Rightarrow>
      if st < 200 \<or> st \<ge> 300 then (fst (l_error (b st) 502), [u]) else (\<lparr>lr_Status = st, lr_Body = answer\<rparr>, [u]))"
  by (simp add: well_served_def response_status_def split: reply.split)

lemma served_if: "(b \<Longrightarrow> well_served n x) \<Longrightarrow> (\<not> b \<Longrightarrow> well_served n y) \<Longrightarrow> well_served n (if b then x else y)"
  by simp

lemma served_option: "(r = None \<Longrightarrow> well_served n x) \<Longrightarrow> (\<And>a. r = Some a \<Longrightarrow> well_served n (f a))
    \<Longrightarrow> well_served n (case r of None \<Rightarrow> x | Some a \<Rightarrow> f a)"
  by (cases r) simp_all

lemma served_listing: "well_served n (\<lparr>lr_Status = 200, lr_Body = b\<rparr>, [])"
  by (simp add: well_served_def)

lemma served_forward: "well_served 1 (forward_connection lj up q protocol path action payload m)"
  unfolding forward_connection_def Let_def
  by (intro served_option served_if served_reply served_refused response_statuses)

lemma served_choose: "well_served 1 (choose_connection lj up q models chosen protocol path name action payload)"
  unfolding choose_connection_def Let_def
proof (intro served_option served_refused response_statuses)
  fix field
  show "well_served 1 (case pick_connection models protocol r of
      Picked m \<Rightarrow> if pm_Protocol m \<noteq> protocol then l_error (''model uses protocol '' @ pm_Protocol m @ ''; use its native endpoint'') 400
        else forward_connection lj up q protocol path action payload m
    | Ambiguous \<Rightarrow> l_error ''ambiguous model; use its connection-qualified ID from /models'' 400
    | Missing \<Rightarrow> l_error ''model not available in your LLM connections'' 404)" for r
    by (cases "pick_connection models protocol r") (simp_all only: pick.case, intro served_if served_forward served_refused response_statuses, simp_all)
qed

lemma served_connections: "well_served 1 (ServeConnections lj up q models chosen)"
  unfolding ServeConnections_def Let_def case_prod_beta
  by (intro served_if served_option served_listing served_choose served_notfound served_refused response_statuses)

text \<open>How many requests one request can cause.\<close>

definition request_budget :: "llm_platform option \<Rightarrow> nat" where
  "request_budget lp = (case lp of None \<Rightarrow> 1 | Some p \<Rightarrow> max 1 (length (lp_Models p)))"

definition answers :: "nat \<Rightarrow> ('z, served) dbm \<Rightarrow> bool" where
  "answers n m \<longleftrightarrow> (\<forall>s. \<exists>x t. m s = (Inr x, t) \<and> well_served n x)"

lemma answers_ret: "well_served n x \<Longrightarrow> answers n (ret x)"
  by (simp add: answers_def ret_def)

lemma answers_attempt: "(\<And>e. answers n (h e)) \<Longrightarrow> (\<And>a. answers n (f a)) \<Longrightarrow> answers n (attempt m h f)"
  unfolding answers_def attempt_def by (auto split: prod.split sum.split)

lemma answers_if: "(b \<Longrightarrow> answers n m) \<Longrightarrow> (\<not> b \<Longrightarrow> answers n m') \<Longrightarrow> answers n (if b then m else m')"
  by simp

lemmas answers_rules = answers_if answers_attempt answers_ret

lemma answers_platform: "answers (request_budget (Some p)) (ret (platform_route lj p parse up q))"
  by (intro answers_ret well_served_mono [OF served_platform]) (simp add: request_budget_def)

lemma answers_owner: "answers (request_budget lp) (for_owner lj mz lp parse up q owner)"
  unfolding for_owner_def
proof (intro answers_rules)
  fix models :: "provider_model list"
  show "answers (request_budget lp) (case lp of None \<Rightarrow> ret (l_error ''no LLM models configured'' 503) | Some p \<Rightarrow> ret (ServeVM lj p parse up q))"
    by (auto intro: answers_ret answers_platform simp: ServeVM_def split: option.split)
  show "well_served (request_budget lp) (ServeConnections lj up q models chosen)" for chosen
    by (rule well_served_mono [OF served_connections]) (simp add: request_budget_def split: option.split)
qed simp_all

lemma answers_vm: "answers (request_budget lp) (attempt (GetContainerByID cid) (\<lambda>_. ret unauthorized)
    (\<lambda>c. if c_OwnerID c \<noteq> owner then ret unauthorized else for_owner lj mz lp parse up q owner))"
  by (intro answers_rules answers_owner) simp_all

text \<open>Whatever is sent to it and however the database and the providers fail, the gateway answers every request, with the
  status of a provider's success or one of 400, 401, 404, 405, 500, 502 and 503, and it has sent at most one request, or
  one for each of the platform's models.\<close>

theorem llm_gateway_answers:
  "\<exists>resp sent t. llmGateway lj mz lp parse up q s = (Inr (resp, sent), t) \<and> response_status (lr_Status resp)
     \<and> length sent \<le> request_budget lp"
proof -
  have "answers (request_budget lp) (llmGateway lj mz lp parse up q)"
    unfolding llmGateway_def Let_def
    by (auto intro!: answers_ret answers_platform answers_vm split: option.split)
  then obtain x t where "llmGateway lj mz lp parse up q s = (Inr x, t)" "well_served (request_budget lp) x"
    unfolding answers_def by blast
  then show ?thesis by (cases x) (simp add: well_served_def)
qed

section \<open>Examples\<close>

fun demo_show :: "string \<Rightarrow> string \<Rightarrow> string" where
  "demo_show [] w = CHR ''.'' # w"
| "demo_show (c # cs) w = CHR ''+'' # c # demo_show cs w"

fun demo_read :: "string \<Rightarrow> (string \<times> string) option" where
  "demo_read [] = None"
| "demo_read (d # cs) =
     (if d = CHR ''.'' then Some ([], cs)
      else case cs of [] \<Rightarrow> None | c # rest \<Rightarrow> map_option (\<lambda>(a, b). (c # a, b)) (demo_read rest))"

lemma demo_read_show: "demo_read (demo_show c w) = Some (c, w)"
  by (induction c) simp_all

definition demo_llm :: llm_codec where
  "demo_llm = \<lparr>lj_ShowIdentity = case_prod demo_show, lj_ReadIdentity = demo_read, lj_Object = (\<lambda>_. Some []),
     lj_ShowObject = (\<lambda>_. Some ''{}''), lj_String = Some, lj_ShowString = id, lj_ShowModels = (\<lambda>_. ''[]''), lj_ShowError = id,
     lj_URL = (\<lambda>_. True), lj_AltSse = id, lj_Hmac = (\<lambda>_ _. ''sig'')\<rparr>"

definition demo_secret :: string where "demo_secret = replicate 32 (CHR ''k'')"

lemma demo_llm_reads: "lj_ReadIdentity demo_llm (lj_ShowIdentity demo_llm x) = Some x"
  by (cases x) (simp add: demo_llm_def demo_read_show)

theorem vm_token_roundtrip_witness: "ParseVMToken demo_llm demo_secret (VMToken demo_llm demo_secret ''c1'' ''u1'') = Some (''c1'', ''u1'')"
  by (rule vm_token_roundtrip [THEN conjunct1, OF demo_llm_reads]) (simp_all add: demo_secret_def)

definition demo_platform :: llm_platform where
  "demo_platform = \<lparr>lp_APIKey = ''sk'', lp_Models = [''a'', ''b'', ''c''], lp_InternalToken = ''tok''\<rparr>"

definition demo_chat :: chat_request where "demo_chat = \<lparr>ch_Model = ''b'', ch_Text = Some\<rparr>"

definition demo_post :: "string \<Rightarrow> llm_request" where
  "demo_post auth = \<lparr>lq_Method = ''POST'', lq_Path = ''/api/llm/v1/chat/completions'', lq_Auth = auth, lq_ReadOK = True, lq_Body = [],
     lq_Version = [], lq_Beta = []\<rparr>"

text \<open>The provider answers only for \<open>a\<close>; the request names \<open>b\<close>.\<close>

definition demo_far :: far_side where
  "demo_far n u = (if us_Body u = ''b'' \<or> us_Body u = ''c'' then Answered 429 ''slow down'' else Answered 200 ''hello'')"

lemma demo_relay: "ServeHTTP_llm demo_llm demo_platform (\<lambda>_. Inr demo_chat) demo_far (demo_post ''Bearer tok'')
    = (\<lparr>lr_Status = 200, lr_Body = ''hello''\<rparr>, map (model_request demo_platform demo_chat) [''b'', ''a''])"
  by (simp add: ServeHTTP_llm_def demo_platform_def demo_chat_def demo_post_def demo_far_def checkAuth_def CutPrefix_def HasPrefix_def
      models_for_def prioritize_def model_request_def platform_request_def Let_def)

theorem relay_ends_witness:
  "\<exists>order. set order = {''a'', ''b'', ''c''} \<and> distinct order \<and> hd order = ''b''
    \<and> (\<exists>k body. first_answer demo_platform demo_far demo_chat 0 order k body
        \<and> map (model_request demo_platform demo_chat) (take (Suc k) order) = map (model_request demo_platform demo_chat) [''b'', ''a''])"
  using relay_ends [of "demo_post ''Bearer tok''" demo_platform "\<lambda>_. Inr demo_chat" demo_chat demo_far demo_llm]
  unfolding demo_relay by (fastforce simp: demo_post_def demo_platform_def demo_chat_def checkAuth_def CutPrefix_def HasPrefix_def)

text \<open>A machine whose owner has one connection.\<close>

definition demo_vault :: materializer where
  "demo_vault = \<lparr>mz_unseal = (\<lambda>_ _ c. Some c), mz_encKey = demo_secret, mz_upper = id\<rparr>"

definition demo_connected :: "unit gateway" where
  "demo_connected = demo_gw\<lparr>t_keys := [demo_key ''k2'' ''custom-x'' ''sk-2'' ''https://x'']\<rparr>"

definition demo_model :: provider_model where
  "demo_model = \<lparr>pm_Provider = ''custom-x'', pm_Model = ''m'', pm_BaseURL = ''https://x'', pm_Key = ''sk-2'', pm_Protocol = ''openai''\<rparr>"

definition demo_call :: llm_request where
  "demo_call = demo_post (''Bearer '' @ VMToken demo_llm demo_secret ''c1'' ''u1'')"

lemma demo_connected_models: "ProviderModels demo_vault ''u1'' demo_connected = (Inr [demo_model], demo_connected)"
  by (simp add: ProviderModels_def ListAPIKeysByOwner_def GetAPIKeyPlaintext_def of_result_def run_defs ret_def demo_connected_def demo_gw_def
      demo_key_def demo_vault_def demo_secret_def decryptAESGCM_def aes_key_ok_def gcm_nonce_size_def demo_model_def)

lemma demo_connected_choice: "UserDefaultModel ''u1'' demo_connected = (Inr [], demo_connected)"
  by (simp add: UserDefaultModel_def run_defs ret_def demo_connected_def demo_gw_def demo_user_def)

lemma demo_connected_vm: "\<exists>c. GetContainerByID ''c1'' demo_connected = (Inr c, demo_connected) \<and> c_OwnerID c = ''u1''"
  by (simp add: GetContainerByID_def get_container_def AttachAliases_def AttachNestingPolicy_def NestingAllowed_def GetSetting_def
      run_defs ret_def demo_connected_def demo_gw_def demo_vm_def scanContainer_def)

lemma demo_connected_sent: "ServeConnections demo_llm demo_far demo_call [demo_model] [] = (\<lparr>lr_Status = 200, lr_Body = ''hello''\<rparr>,
    [\<lparr>us_URL = ''https://x/chat/completions'', us_Headers = connection_headers demo_call ''openai'' demo_model, us_Body = ''{}''\<rparr>])"
proof -
  have p: "lq_Path demo_call = ''/api/llm/v1'' @ ''/chat/completions''" "path_protocol ''/chat/completions'' = (''openai'', [], [])"
    "ProviderModel_ID demo_model \<noteq> []" "connection_url ''openai'' ''/chat/completions'' [] demo_model = ''https://x/chat/completions''"
    by (simp add: demo_call_def demo_post_def, code_simp, code_simp, code_simp)
  show ?thesis
    by (simp add: ServeConnections_def p CutPrefix_def HasPrefix_def Let_def)
      (simp add: demo_call_def demo_post_def demo_llm_def demo_far_def demo_model_def choose_connection_def pick_connection_def
        forward_connection_def put_field_def p [unfolded demo_model_def] Let_def)
qed

theorem llm_gateway_isolated_witness:
  "\<exists>u t. llmGateway demo_llm demo_vault None (\<lambda>_. Inl []) demo_far demo_call demo_connected = (Inr (\<lparr>lr_Status = 200, lr_Body = ''hello''\<rparr>, [u]), t)
     \<and> rightly_sent demo_llm demo_vault None demo_call demo_connected u"
proof -
  let ?u = "\<lparr>us_URL = ''https://x/chat/completions'', us_Headers = connection_headers demo_call ''openai'' demo_model, us_Body = ''{}''\<rparr>"
  have q: "lq_Auth demo_call = ''Bearer '' @ VMToken demo_llm demo_secret ''c1'' ''u1''" by (simp add: demo_call_def demo_post_def)
  have p: "ParseVMToken demo_llm demo_secret (VMToken demo_llm demo_secret ''c1'' ''u1'') = Some (''c1'', ''u1'')"
    by (rule ParseVMToken_VMToken [OF demo_llm_reads]) (simp_all add: demo_secret_def)
  have h: "HasPrefix (VMToken demo_llm demo_secret ''c1'' ''u1'') ''vm1.''" by (simp add: VMToken_def Let_def HasPrefix_def)
  have c: "CutPrefix (''Bearer '' @ x) ''Bearer '' = Some x" for x by (simp add: CutPrefix_def HasPrefix_def)
  obtain vm where vm: "GetContainerByID ''c1'' demo_connected = (Inr vm, demo_connected)" "c_OwnerID vm = ''u1''"
    using demo_connected_vm by blast
  have r: "llmGateway demo_llm demo_vault None (\<lambda>_. Inl []) demo_far demo_call demo_connected
    = (Inr (\<lparr>lr_Status = 200, lr_Body = ''hello''\<rparr>, [?u]), demo_connected)"
    unfolding llmGateway_def q c Let_def option.case
    using p h vm demo_connected_models demo_connected_choice demo_connected_sent
    by (simp add: demo_vault_def [THEN arg_cong, of mz_encKey] for_owner_def ret_def)
  have "uniq_ok demo_connected" by (simp add: demo_connected_def demo_gw_def uniq_ok_def uq_defs demo_key_def)
  from llm_gateway_isolated [OF this r] r show ?thesis by auto
qed

end
