(* ===== verification/Api_Account.thy ===== *)
theory Api_Account
  imports Api_Vms
begin

text \<open>
  The handlers that act on the account: LLM connections and the default model (\<^verbatim>\<open>keys.go\<close>),
  SSH keys (\<^verbatim>\<open>ssh_keys.go\<close>), the account itself and the operator's view
  (\<^verbatim>\<open>admin.go\<close>, \<^verbatim>\<open>users.go\<close>, the operator's part of
  \<^verbatim>\<open>aliases.go\<close>), and the route table of \<^verbatim>\<open>server.go\<close>.

  \<open>serve_api\<close> is what \<^verbatim>\<open>registerAuthedRoutes\<close> mounts under \<^verbatim>\<open>/api\<close>
  behind \<open>AuthMiddleware\<close> and \<^verbatim>\<open>Recoverer\<close>.  The routes of the integrations, the
  self-update and the dashboard are the argument \<open>rest\<close>.  Paths have no percent escapes, and an unmatched
  route or method is \<open>rest\<close> as well.
\<close>

section \<open>LLM connections\<close>

text \<open>The value says whether any VM could not be brought up to date.\<close>

fun refresh_each :: "'r server \<Rightarrow> materializer \<Rightarrow> string \<Rightarrow> string \<Rightarrow> container list \<Rightarrow> ('r, bool) gwm" where
  "refresh_each sv mz uid chosen [] = ret False"
| "refresh_each sv mz uid chosen (c # cs) =
     (if c_Status c \<noteq> ''running'' then refresh_each sv mz uid chosen cs
      else catch (RefreshProviderKeys (sv_Env sv) (sv_Runtime sv) mz (c_ID c) (c_IncusName c) uid chosen (sv_LLM sv))
        (\<lambda>_. bindE (refresh_each sv mz uid chosen cs) (\<lambda>_. ret True)) (\<lambda>_. refresh_each sv mz uid chosen cs))"

definition refreshKeysForUser :: "'r server \<Rightarrow> string \<Rightarrow> ('r, bool) gwm" where
  "refreshKeysForUser sv uid =
     (case sv_Materializer sv of
        None \<Rightarrow> ret False
      | Some mz \<Rightarrow>
          attempt (ListContainersByOwner uid) (\<lambda>_. ret True) (\<lambda>cs.
          attempt (UserDefaultModel uid) (\<lambda>_. ret True) (\<lambda>chosen. refresh_each sv mz uid chosen cs)))"

definition after_sync :: "'r server \<Rightarrow> string \<Rightarrow> string \<Rightarrow> 'r http \<Rightarrow> 'r http" where
  "after_sync sv uid msg f = bindE (refreshKeysForUser sv uid) (\<lambda>failed. if failed then http_error msg 500 else f)"

definition listKeys :: "user \<Rightarrow> 'r http" where
  "listKeys u = attempt (ListAPIKeysByOwner (u_ID u)) (\<lambda>_. http_error ''internal error'' 500) (\<lambda>ks. respond 200 (KeyList ks))"

definition sync_message :: string where
  "sync_message = ''Settings saved, but VM sync failed; restart the VM to retry''"

definition createKey :: "'r server \<Rightarrow> api_request \<Rightarrow> user \<Rightarrow> 'r http" where
  "createKey sv r u =
     (case dc_Key (sv_Decode sv) (ar_Body r) of
        None \<Rightarrow> http_error ''invalid request body'' 400
      | Some q \<Rightarrow>
          let provider = ToLower (sv_Lower sv) (TrimSpace (kr_Provider q)) in
          case NormalizeProvider (sv_Lower sv) (sv_ParseURL sv) provider (kr_BaseURL q) (kr_Models q) (kr_Key q) (kr_Protocol q) of
            Inl e \<Rightarrow> http_error (sv_Error sv e) 400
          | Inr (baseURL, models, protocol) \<Rightarrow>
              attempt (SaveProviderKey (sv_Lower sv) (sv_ParseURL sv) (sv_Seal sv) (ar_Random r) (ar_UUID r) (u_ID u) provider
                  (kr_Key q) baseURL models protocol (sv_EncKey sv))
                (\<lambda>_. http_error ''failed to store key'' 500)
                (\<lambda>_. after_sync sv (u_ID u) sync_message (respond 201 (Identifier (ar_UUID r)))))"

definition deleteKey :: "'r server \<Rightarrow> user \<Rightarrow> string \<Rightarrow> 'r http" where
  "deleteKey sv u kid = attempt (DeleteAPIKeyForOwner kid (u_ID u))
     (\<lambda>e. if e = ErrNoRows then http_error ''not found'' 404 else http_error ''failed to delete key'' 500)
     (\<lambda>_. after_sync sv (u_ID u) sync_message (respond 204 NoBody))"

definition listLLMModels :: "user \<Rightarrow> 'r http" where
  "listLLMModels u = attempt (OwnerModelIDs (u_ID u)) (\<lambda>_. http_error ''internal error'' 500) (\<lambda>models.
     attempt (UserDefaultModel (u_ID u)) (\<lambda>_. http_error ''internal error'' 500) (\<lambda>chosen. respond 200 (ModelList models chosen)))"

definition putDefaultModel :: "'r server \<Rightarrow> api_request \<Rightarrow> user \<Rightarrow> 'r http" where
  "putDefaultModel sv r u =
     (case dc_Model (sv_Decode sv) (ar_Body r) of
        None \<Rightarrow> http_error ''invalid request body'' 400
      | Some model \<Rightarrow> attempt (SetUserDefaultModel (u_ID u) model)
          (\<lambda>e. case e of
             ErrUnknownModel _ \<Rightarrow> http_error (sv_Error sv e) 400
           | ErrNoRows \<Rightarrow> http_error ''not found'' 404
           | _ \<Rightarrow> http_error ''failed to save the default model'' 500)
          (\<lambda>_. after_sync sv (u_ID u) ''Default model saved, but VM sync failed; repeat the request or restart the VM''
             (respond 200 (ModelChoice model))))"

section \<open>SSH keys\<close>

definition listSSHKeys :: "user \<Rightarrow> 'r http" where
  "listSSHKeys u = attempt (ListSSHKeysByUser (u_ID u)) (\<lambda>_. http_error ''internal error'' 500) (\<lambda>ks. respond 200 (SshKeys ks))"

definition createSSHKey :: "'r server \<Rightarrow> api_request \<Rightarrow> user \<Rightarrow> 'r http" where
  "createSSHKey sv r u =
     (case dc_SshKey (sv_Decode sv) (ar_Body r) of
        None \<Rightarrow> http_error ''invalid JSON'' 400
      | Some (name0, key0) \<Rightarrow>
          let name = TrimSpace name0; public = TrimSpace key0 in
          if name = [] \<or> public = [] then http_error ''name and public_key are required'' 400
          else case sv_Fingerprint sv public of
            None \<Rightarrow> http_error ''invalid public key format'' 400
          | Some fp \<Rightarrow>
              let key = \<lparr>k_ID = ar_UUID r, k_UserID = u_ID u, k_Fingerprint = fp, k_PublicKey = public, k_Name = name, k_CreatedAt = 0\<rparr> in
              attempt (CreateSSHKey key)
                (\<lambda>e. if e = ErrUnique then http_error ''key already exists'' 409 else http_error ''internal error'' 500)
                (\<lambda>_. respond 201 (SshKeys [key])))"

definition deleteSSHKey :: "user \<Rightarrow> string \<Rightarrow> 'r http" where
  "deleteSSHKey u kid = attempt (DeleteSSHKey kid (u_ID u)) (\<lambda>_. http_error ''not found'' 404) (\<lambda>_. respond 204 NoBody)"

section \<open>The account and the operator's view\<close>

definition userToResponse :: "user \<Rightarrow> user_response" where
  "userToResponse u = \<lparr>ur_ID = u_ID u, ur_Email = u_Email u, ur_DisplayName = u_DisplayName u, ur_Role = u_Role u,
     ur_CreatedAt = u_CreatedAt u\<rparr>"

definition usersToResponse :: "user list \<Rightarrow> user_response list" where
  "usersToResponse us = map userToResponse us"

definition getMe :: "user \<Rightarrow> 'r http" where
  "getMe u = respond 200 (UserBody (userToResponse u))"

definition adminListUsers :: "'r http" where
  "adminListUsers = attempt ListUsers (\<lambda>_. http_error ''internal error'' 500) (\<lambda>us. respond 200 (UserList (usersToResponse us)))"

definition adminListContainers :: "'r http" where
  "adminListContainers = attempt ListAllContainers (\<lambda>_. http_error ''internal error'' 500) (\<lambda>cs. respond 200 (Containers cs))"

definition adminDeleteUser :: "string \<Rightarrow> 'r http" where
  "adminDeleteUser uid = attempt (GetUserByID uid)
     (\<lambda>e. if e = ErrNoRows then http_error ''user not found'' 404 else http_error ''internal error'' 500)
     (\<lambda>_. attempt (DeleteUser uid) (\<lambda>_. http_error ''internal error'' 500) (\<lambda>_. respond 204 NoBody))"

definition adminListAliases :: "'r http" where
  "adminListAliases = attempt ListAllAliases (\<lambda>_. http_error ''internal error'' 500) (\<lambda>as. respond 200 (AllAliases as))"

definition adminReleaseAlias :: "'r server \<Rightarrow> string \<Rightarrow> 'r http" where
  "adminReleaseAlias sv hostname = attempt (Release (sv_Lower sv) (sv_Aliases sv) hostname)
     (\<lambda>e. if e = ErrNotFound then http_error ''no VM claims that hostname'' 404 else http_error ''internal error'' 500)
     (\<lambda>_. respond 204 NoBody)"

section \<open>Routes\<close>

datatype vm_route =
    VmGet | VmDelete | VmStart | VmStop | VmRecreate | VmPublish | VmTaskRetry | VmShare | VmShares
  | VmAliases | VmAddAlias | VmVerifyAlias string | VmDeleteAlias string

datatype admin_route = AdminUsers | AdminDeleteUser string | AdminVms | AdminAliases | AdminReleaseAlias string

datatype route =
    Me | ListVms | CreateVm | Vm string vm_route | RevokeShare string
  | ListKeys | CreateKey | DeleteKey string | ListModels | PutModel
  | ListSsh | CreateSsh | DeleteSsh string | Admin admin_route

definition vm_route :: "string \<Rightarrow> string list \<Rightarrow> vm_route option" where
  "vm_route verb rest =
     (if rest \<in> {[], [[]]}
      then (if verb = ''GET'' then Some VmGet else if verb = ''DELETE'' then Some VmDelete else None)
      else if rest = [''start''] then (if verb = ''POST'' then Some VmStart else None)
      else if rest = [''stop''] then (if verb = ''POST'' then Some VmStop else None)
      else if rest = [''recreate''] then (if verb = ''POST'' then Some VmRecreate else None)
      else if rest = [''publish''] then (if verb = ''PUT'' then Some VmPublish else None)
      else if rest = [''task'', ''retry''] then (if verb = ''POST'' then Some VmTaskRetry else None)
      else if rest = [''share''] then (if verb = ''POST'' then Some VmShare else None)
      else if rest = [''shares''] then (if verb = ''GET'' then Some VmShares else None)
      else if rest \<in> {[''aliases''], [''aliases'', []]}
      then (if verb = ''GET'' then Some VmAliases else if verb = ''POST'' then Some VmAddAlias else None)
      else if hd rest = ''aliases'' \<and> length rest = 2 then (if verb = ''DELETE'' then Some (VmDeleteAlias (rest ! 1)) else None)
      else if hd rest = ''aliases'' \<and> length rest = 3 \<and> rest ! 2 = ''verify''
      then (if verb = ''POST'' then Some (VmVerifyAlias (rest ! 1)) else None)
      else None)"

definition admin_route :: "string \<Rightarrow> string list \<Rightarrow> admin_route option" where
  "admin_route verb rest =
     (if rest = [''users''] then (if verb = ''GET'' then Some AdminUsers else None)
      else if rest = [''containers''] then (if verb = ''GET'' then Some AdminVms else None)
      else if rest = [''aliases''] then (if verb = ''GET'' then Some AdminAliases else None)
      else if length rest = 2 \<and> rest ! 1 \<noteq> [] \<and> verb = ''DELETE''
      then (if hd rest = ''users'' then Some (AdminDeleteUser (rest ! 1))
            else if hd rest = ''aliases'' then Some (AdminReleaseAlias (rest ! 1)) else None)
      else None)"

text \<open>The path after \<^verbatim>\<open>/api/\<close>, by its segments.\<close>

definition segments_route :: "string \<Rightarrow> string list \<Rightarrow> route option" where
  "segments_route verb parts =
     (if parts = [''me''] then (if verb = ''GET'' then Some Me else None)
     else if parts = [''containers'']
     then (if verb = ''GET'' then Some ListVms else if verb = ''POST'' then Some CreateVm else None)
     else if hd parts = ''containers'' \<and> 2 \<le> length parts \<and> parts ! 1 \<noteq> []
     then map_option (Vm (parts ! 1)) (vm_route verb (drop 2 parts))
     else if hd parts = ''shares'' \<and> length parts = 2 \<and> parts ! 1 \<noteq> [] then (if verb = ''DELETE'' then Some (RevokeShare (parts ! 1)) else None)
     else if parts = [''keys'']
     then (if verb = ''GET'' then Some ListKeys else if verb = ''POST'' then Some CreateKey else None)
     else if hd parts = ''keys'' \<and> length parts = 2 \<and> parts ! 1 \<noteq> [] then (if verb = ''DELETE'' then Some (DeleteKey (parts ! 1)) else None)
     else if parts = [''llm'', ''models''] then (if verb = ''GET'' then Some ListModels else None)
     else if parts = [''llm'', ''default''] then (if verb = ''PUT'' then Some PutModel else None)
     else if parts = [''ssh-keys'']
     then (if verb = ''GET'' then Some ListSsh else if verb = ''POST'' then Some CreateSsh else None)
     else if hd parts = ''ssh-keys'' \<and> length parts = 2 \<and> parts ! 1 \<noteq> [] then (if verb = ''DELETE'' then Some (DeleteSsh (parts ! 1)) else None)
     else if hd parts = ''admin'' then map_option Admin (admin_route verb (tl parts))
     else None)"

definition api_route :: "string \<Rightarrow> string \<Rightarrow> route option" where
  "api_route verb path = (case CutPrefix path ''/api/'' of None \<Rightarrow> None | Some tail \<Rightarrow> segments_route verb (Split tail CHR ''/''))"

fun serve_vm :: "'r server \<Rightarrow> api_request \<Rightarrow> user \<Rightarrow> string \<Rightarrow> vm_route \<Rightarrow> 'r http" where
  "serve_vm sv r u cid VmGet = getContainer cid"
| "serve_vm sv r u cid VmDelete = deleteContainer sv cid"
| "serve_vm sv r u cid VmStart = startContainer sv cid"
| "serve_vm sv r u cid VmStop = stopContainer sv cid"
| "serve_vm sv r u cid VmRecreate = recreateContainer sv cid"
| "serve_vm sv r u cid VmPublish = updatePublish sv r cid"
| "serve_vm sv r u cid VmTaskRetry = retryInitialTask sv cid"
| "serve_vm sv r u cid VmShare = createSharedLink sv r u cid"
| "serve_vm sv r u cid VmShares = listSharedLinks cid"
| "serve_vm sv r u cid VmAliases = listAliases cid"
| "serve_vm sv r u cid VmAddAlias = createAlias sv r cid"
| "serve_vm sv r u cid (VmVerifyAlias aid) = verifyAlias sv cid aid"
| "serve_vm sv r u cid (VmDeleteAlias aid) = deleteAlias sv cid aid"

fun serve_admin :: "'r server \<Rightarrow> admin_route \<Rightarrow> 'r http" where
  "serve_admin sv AdminUsers = adminListUsers"
| "serve_admin sv (AdminDeleteUser uid) = adminDeleteUser uid"
| "serve_admin sv AdminVms = adminListContainers"
| "serve_admin sv AdminAliases = adminListAliases"
| "serve_admin sv (AdminReleaseAlias h) = adminReleaseAlias sv h"

fun serve_route :: "'r server \<Rightarrow> api_request \<Rightarrow> user \<Rightarrow> route \<Rightarrow> 'r http" where
  "serve_route sv r u Me = getMe u"
| "serve_route sv r u ListVms = listContainers u"
| "serve_route sv r u CreateVm = createContainer sv r u"
| "serve_route sv r u (Vm cid vr) = OwnershipMiddleware r u cid (serve_vm sv r u cid vr)"
| "serve_route sv r u (RevokeShare tok) = revokeSharedLink u tok"
| "serve_route sv r u ListKeys = listKeys u"
| "serve_route sv r u CreateKey = createKey sv r u"
| "serve_route sv r u (DeleteKey kid) = deleteKey sv u kid"
| "serve_route sv r u ListModels = listLLMModels u"
| "serve_route sv r u PutModel = putDefaultModel sv r u"
| "serve_route sv r u ListSsh = listSSHKeys u"
| "serve_route sv r u CreateSsh = createSSHKey sv r u"
| "serve_route sv r u (DeleteSsh kid) = deleteSSHKey u kid"
| "serve_route sv r u (Admin ar) = AdminMiddleware u (serve_admin sv ar)"

definition serve_api :: "'r server \<Rightarrow> (api_request \<Rightarrow> user \<Rightarrow> 'r http) \<Rightarrow> api_request \<Rightarrow> 'r http" where
  "serve_api sv rest r = attempt
     (AuthMiddleware r (\<lambda>u. case api_route (ar_Method r) (ar_Path r) of
        None \<Rightarrow> rest r u | Some rt \<Rightarrow> serve_route sv r u rt))
     (\<lambda>_. respond 500 NoBody) ret"

end
