(* ===== verification/Ssh_Line.thy ===== *)
theory Ssh_Line
  imports Go_Numbers
begin

text \<open>
  The command line of the SSH gateway: how a line becomes words and how the words become an action
  (\<^verbatim>\<open>src/internal/sshgw/command.go\<close>), and how a line is read from the session (\<^verbatim>\<open>menu.go\<close>).

  A line is valid UTF-8, of which only ASCII characters are looked at.  An error is the format and the arguments it is made
  from; the usage line that \<^verbatim>\<open>explain\<close> adds to a usage error is left out, as are the texts that only the help prints.
\<close>

section \<open>Words\<close>

datatype line_error =
    Usage string "string list"
  | Refused string "string list"
  | UnknownCommand string

definition add_char :: "string option \<Rightarrow> char \<Rightarrow> string option" where
  "add_char w c = Some (case w of None \<Rightarrow> [c] | Some s \<Rightarrow> s @ [c])"

definition opened_word :: "string option \<Rightarrow> string option" where
  "opened_word w = Some (case w of None \<Rightarrow> [] | Some s \<Rightarrow> s)"

text \<open>The quote that is open, the word that has started, and the rest of the line.\<close>

fun split_from :: "char option \<Rightarrow> string option \<Rightarrow> string \<Rightarrow> line_error + string list" where
  "split_from (Some q) w [] = Inl (Refused ''unbalanced %c quote'' [[q]])"
| "split_from None w [] = Inr (case w of None \<Rightarrow> [] | Some s \<Rightarrow> [s])"
| "split_from (Some q) w (c # cs) = (if c = q then split_from None w cs else split_from (Some q) (add_char w c) cs)"
| "split_from None w (c # cs) =
     (if c = CHR 0x27 \<or> c = CHR 0x22 then split_from (Some c) (opened_word w) cs
      else if c = CHR '' '' \<or> c = CHR 0x09 then
        (case w of None \<Rightarrow> split_from None None cs
         | Some s \<Rightarrow> (case split_from None None cs of Inl e \<Rightarrow> Inl e | Inr ts \<Rightarrow> Inr (s # ts)))
      else split_from None (add_char w c) cs)"

definition splitArgs :: "string \<Rightarrow> line_error + string list" where
  "splitArgs line = split_from None None line"

section \<open>Declarations\<close>

text \<open>An argument, a flag, an action and a command; \<open>'run\<close> are the handlers.\<close>

record arg_spec =
  as_Name :: string
  as_Optional :: bool
  as_Repeated :: bool

record flag_spec =
  fs_Name :: string
  fs_Value :: bool

record 'run sub_spec =
  sb_Name :: string
  sb_Args :: "arg_spec list"
  sb_Flags :: "flag_spec list"
  sb_JSON :: bool
  sb_Run :: 'run

record 'run ssh_command =
  cm_Name :: string
  cm_Group :: string
  cm_Args :: "arg_spec list"
  cm_Flags :: "flag_spec list"
  cm_Subs :: "'run sub_spec list"
  cm_Aliases :: "string list"
  cm_AdminOnly :: bool
  cm_JSON :: bool
  cm_Interactive :: bool
  cm_Run :: "'run option"

definition sub_of :: "'run ssh_command \<Rightarrow> string \<Rightarrow> 'run sub_spec option" where
  "sub_of cmd name = find (\<lambda>x. sb_Name x = name) (cm_Subs cmd)"

definition indexRegistry :: "'run ssh_command list \<Rightarrow> (string \<rightharpoonup> 'run ssh_command)" where
  "indexRegistry cmds = foldl (\<lambda>m c. foldl (\<lambda>m a. m(a \<mapsto> c)) (m(cm_Name c \<mapsto> c)) (cm_Aliases c)) Map.empty cmds"

definition withJSONFlag :: "flag_spec list \<Rightarrow> bool \<Rightarrow> flag_spec list" where
  "withJSONFlag fs json = (if json then fs @ [\<lparr>fs_Name = ''json'', fs_Value = False\<rparr>] else fs)"

definition subcommandNames :: "'run ssh_command \<Rightarrow> string" where
  "subcommandNames cmd = concat (case map sb_Name (cm_Subs cmd) of [] \<Rightarrow> [] | n # ns \<Rightarrow> n # map (\<lambda>x. '', '' @ x) ns)"

section \<open>Actions\<close>

record 'run action =
  ac_Cmd :: "'run ssh_command"
  ac_Sub :: "'run sub_spec option"
  ac_Run :: 'run
  ac_Args :: "string list"
  ac_Flags :: "(string \<times> string) list"

definition declared_flags :: "'run ssh_command \<Rightarrow> 'run sub_spec option \<Rightarrow> flag_spec list" where
  "declared_flags cmd sub =
     (case sub of Some x \<Rightarrow> withJSONFlag (sb_Flags x) (sb_JSON x) | None \<Rightarrow> withJSONFlag (cm_Flags cmd) (cm_JSON cmd))"

definition declared_args :: "'run ssh_command \<Rightarrow> 'run sub_spec option \<Rightarrow> arg_spec list" where
  "declared_args cmd sub = (case sub of Some x \<Rightarrow> sb_Args x | None \<Rightarrow> cm_Args cmd)"

definition action_name :: "'run ssh_command \<Rightarrow> 'run sub_spec option \<Rightarrow> string" where
  "action_name cmd sub = (case sub of Some x \<Rightarrow> cm_Name cmd @ '' '' @ sb_Name x | None \<Rightarrow> cm_Name cmd)"

text \<open>One flag: what stands after the two hyphens.\<close>

definition take_flag :: "string \<Rightarrow> flag_spec list \<Rightarrow> (string \<times> string) list \<Rightarrow> string \<Rightarrow> line_error + (string \<times> string)" where
  "take_flag who allowed given body =
     (let (name, value, hasValue) = (case Cut body CHR ''='' of None \<Rightarrow> (body, [], False) | Some (n, v) \<Rightarrow> (n, v, True)) in
      case find (\<lambda>f. fs_Name f = name) (rev allowed) of
        None \<Rightarrow> Inl (Usage ''unknown flag --%s for %q'' [name, who])
      | Some spec \<Rightarrow>
          if fs_Value spec \<and> \<not> hasValue then Inl (Usage ''--%s needs a value, as --%s=...'' [name, name])
          else if \<not> fs_Value spec \<and> hasValue then Inl (Usage ''--%s takes no value'' [name])
          else if name \<in> fst ` set given then Inl (Usage ''--%s is given more than once'' [name])
          else Inr (name, value))"

fun take_words :: "string \<Rightarrow> flag_spec list \<Rightarrow> bool \<Rightarrow> string list \<Rightarrow> (string \<times> string) list \<Rightarrow> string list
    \<Rightarrow> line_error + (string list \<times> (string \<times> string) list)" where
  "take_words who allowed literal args given [] = Inr (args, given)"
| "take_words who allowed literal args given (tok # toks) =
     (if literal \<or> \<not> HasPrefix tok ''--'' then take_words who allowed literal (args @ [tok]) given toks
      else if tok = ''--'' then take_words who allowed True args given toks
      else case take_flag who allowed given (drop 2 tok) of
        Inl e \<Rightarrow> Inl e
      | Inr f \<Rightarrow> take_words who allowed literal args (given @ [f]) toks)"

definition joinRepeated :: "arg_spec list \<Rightarrow> string list \<Rightarrow> string list" where
  "joinRepeated declared args =
     (if declared = [] \<or> \<not> as_Repeated (last declared) \<or> length args \<le> length declared - 1 then args
      else take (length declared - 1) args @ [Join (drop (length declared - 1) args) CHR '' ''])"

definition argumentCount :: "arg_spec list \<Rightarrow> string" where
  "argumentCount declared =
     (case declared of [] \<Rightarrow> ''no arguments'' | [_] \<Rightarrow> ''one argument'' | _ \<Rightarrow> ''at most '' @ Itoa (int (length declared)) @ '' arguments'')"

definition finish_line :: "'run ssh_command \<Rightarrow> 'run sub_spec option \<Rightarrow> 'run \<Rightarrow> string list \<Rightarrow> line_error + 'run action" where
  "finish_line cmd sub run rest =
     (case take_words (action_name cmd sub) (declared_flags cmd sub) False [] [] rest of
        Inl e \<Rightarrow> Inl e
      | Inr (args0, flags) \<Rightarrow>
          let declared = declared_args cmd sub; args = joinRepeated declared args0 in
          if length args > length declared then
            (if sub = None \<and> cm_Subs cmd \<noteq> []
             then Inl (Usage ''%q has no action %q: use %s'' [cm_Name cmd, hd args, subcommandNames cmd])
             else Inl (Usage ''%s takes %s'' [action_name cmd sub, argumentCount declared]))
          else Inr \<lparr>ac_Cmd = cmd, ac_Sub = sub, ac_Run = run, ac_Args = args, ac_Flags = flags\<rparr>)"

definition parseLine :: "'run ssh_command list \<Rightarrow> string list \<Rightarrow> line_error + 'run action" where
  "parseLine registry tokens =
     (case indexRegistry registry (hd tokens) of
        None \<Rightarrow> Inl (UnknownCommand (hd tokens))
      | Some cmd \<Rightarrow>
          let rest = tl tokens; sub = (case rest of [] \<Rightarrow> None | w # _ \<Rightarrow> if w = ''--'' then None else sub_of cmd w) in
          (case sub of
             Some x \<Rightarrow> finish_line cmd (Some x) (sb_Run x) (tl rest)
           | None \<Rightarrow>
               (case cm_Run cmd of
                  None \<Rightarrow> Inl (Usage ''%q needs an action: %s'' [cm_Name cmd, subcommandNames cmd])
                | Some run \<Rightarrow> finish_line cmd None run rest)))"

definition ac_JSON :: "'run action \<Rightarrow> bool" where
  "ac_JSON a \<longleftrightarrow> ''json'' \<in> fst ` set (ac_Flags a)"

section \<open>Every vector of words can be typed\<close>

text \<open>A word in single quotes, each of its own single quotes in double ones.\<close>

definition quoted_char :: "char \<Rightarrow> string" where
  "quoted_char c = (if c = CHR 0x27 then [CHR 0x27, CHR 0x22, CHR 0x27, CHR 0x22, CHR 0x27] else [c])"

definition quote_word :: "string \<Rightarrow> string" where
  "quote_word t = CHR 0x27 # concat (map quoted_char t) @ [CHR 0x27]"

lemma split_quoted: "split_from (Some CHR 0x27) (Some w) (concat (map quoted_char t) @ CHR 0x27 # rest) = split_from None (Some (w @ t)) rest"
proof (induction t arbitrary: w)
  case (Cons c t)
  show ?case
  proof (cases "c = CHR 0x27")
    case True
    then show ?thesis using Cons [of "w @ [c]"] by (simp add: quoted_char_def add_char_def opened_word_def)
  next
    case False
    then show ?thesis using Cons [of "w @ [c]"] by (simp add: quoted_char_def add_char_def)
  qed
qed simp

lemma split_word: "split_from None None (quote_word t @ rest) = split_from None (Some t) rest"
  using split_quoted [of "[]" t rest] by (simp add: quote_word_def opened_word_def)

text \<open>Every vector of words, empty ones and any characters included, can be typed.\<close>

lemma split_quoted_words: "splitArgs (Join (map quote_word ts) CHR '' '') = Inr ts"
proof (induction ts rule: induct_list012)
  case (2 t)
  then show ?case using split_word [of t "[]"] by (simp add: splitArgs_def)
next
  case (3 t u ts)
  then have "split_from None None (Join (map quote_word (u # ts)) CHR '' '') = Inr (u # ts)" by (simp add: splitArgs_def)
  then show ?case using split_word [of t "CHR '' '' # Join (map quote_word (u # ts)) CHR '' ''"] by (simp add: splitArgs_def)
qed (simp add: splitArgs_def)

section \<open>What a parsed line is\<close>

text \<open>A flag that the action declares; one that takes no value has none.\<close>

definition flag_ok :: "flag_spec list \<Rightarrow> string \<times> string \<Rightarrow> bool" where
  "flag_ok allowed f \<longleftrightarrow> (\<exists>spec\<in>set allowed. fs_Name spec = fst f \<and> (fs_Value spec \<or> snd f = []))"

definition action_ok :: "'run ssh_command list \<Rightarrow> 'run action \<Rightarrow> bool" where
  "action_ok registry a \<longleftrightarrow>
     ac_Cmd a \<in> set registry
     \<and> (case ac_Sub a of None \<Rightarrow> cm_Run (ac_Cmd a) = Some (ac_Run a) | Some x \<Rightarrow> x \<in> set (cm_Subs (ac_Cmd a)) \<and> ac_Run a = sb_Run x)
     \<and> length (ac_Args a) \<le> length (declared_args (ac_Cmd a) (ac_Sub a))
     \<and> distinct (map fst (ac_Flags a)) \<and> list_all (flag_ok (declared_flags (ac_Cmd a) (ac_Sub a))) (ac_Flags a)"

lemma indexRegistry_aliases: "foldl (\<lambda>m a. m(a \<mapsto> c)) m as w = Some d \<Longrightarrow> d = c \<or> m w = Some d"
  by (induction as arbitrary: m) (auto split: if_splits, metis fun_upd_apply option.inject)

lemma indexRegistry_mem: "indexRegistry registry w = Some c \<Longrightarrow> c \<in> set registry"
proof -
  have "foldl (\<lambda>m c. foldl (\<lambda>m a. m(a \<mapsto> c)) (m(cm_Name c \<mapsto> c)) (cm_Aliases c)) m cmds w = Some c \<Longrightarrow> c \<in> set cmds \<or> m w = Some c" for m cmds
  proof (induction cmds arbitrary: m)
    case (Cons d cmds)
    from Cons.IH [OF Cons.prems [unfolded foldl.simps]] show ?case
      by (auto dest!: indexRegistry_aliases split: if_splits)
  qed simp
  from this [of Map.empty registry] show "indexRegistry registry w = Some c \<Longrightarrow> c \<in> set registry"
    by (auto simp: indexRegistry_def)
qed

lemma find_member: "find P xs = Some x \<Longrightarrow> x \<in> set xs \<and> P x"
  by (auto simp: find_Some_iff)

lemma sub_of_mem: "sub_of cmd w = Some x \<Longrightarrow> x \<in> set (cm_Subs cmd)"
  by (auto simp: sub_of_def dest: find_member)

lemma take_flag_ok: "take_flag who allowed given body = Inr f \<Longrightarrow> flag_ok allowed f \<and> fst f \<notin> fst ` set given"
  by (fastforce simp: take_flag_def flag_ok_def image_iff split: option.splits if_splits prod.splits dest!: find_member)

lemma take_words_ok:
  "take_words who allowed literal args given toks = Inr (args', flags) \<Longrightarrow> distinct (map fst given) \<Longrightarrow> list_all (flag_ok allowed) given
   \<Longrightarrow> distinct (map fst flags) \<and> list_all (flag_ok allowed) flags"
proof (induction who allowed literal args given toks rule: take_words.induct)
  case (2 who allowed literal args given tok toks)
  show ?case
  proof (cases "literal \<or> \<not> HasPrefix tok ''--''")
    case False
    show ?thesis
    proof (cases "tok = ''--''")
      case True
      then show ?thesis using 2 False by simp
    next
      case nodash: False
      with 2(4) False obtain f where f: "take_flag who allowed given (drop 2 tok) = Inr f" by (auto split: sum.splits)
      have "take_words who allowed literal args (given @ [f]) toks = Inr (args', flags)" using 2(4) False nodash f by simp
      with 2(3) [OF False nodash f] 2(5,6) take_flag_ok [OF f] show ?thesis by auto
    qed
  qed (use 2 in simp)
qed simp

lemma length_joinRepeated: "length (joinRepeated declared args) \<le> length args"
  by (auto simp: joinRepeated_def)

lemma finish_line_ok:
  assumes "finish_line cmd sub run rest = Inr a"
  shows "ac_Cmd a = cmd \<and> ac_Sub a = sub \<and> ac_Run a = run \<and> length (ac_Args a) \<le> length (declared_args cmd sub)
    \<and> distinct (map fst (ac_Flags a)) \<and> list_all (flag_ok (declared_flags cmd sub)) (ac_Flags a)"
proof -
  from assms obtain args flags where w: "take_words (action_name cmd sub) (declared_flags cmd sub) False [] [] rest = Inr (args, flags)"
    by (auto simp: finish_line_def split: sum.splits)
  from take_words_ok [OF w] assms w show ?thesis by (auto simp: finish_line_def Let_def split: if_splits)
qed

lemma parse_outcome: "case parseLine registry tokens of Inl _ \<Rightarrow> True | Inr a \<Rightarrow> action_ok registry a"
proof (cases "parseLine registry tokens")
  case (Inr a)
  then obtain cmd where c: "indexRegistry registry (hd tokens) = Some cmd" by (auto simp: parseLine_def split: option.splits)
  define sub where "sub = (case tl tokens of [] \<Rightarrow> None | w # _ \<Rightarrow> if w = ''--'' then None else sub_of cmd w)"
  have a: "(case sub of Some x \<Rightarrow> finish_line cmd (Some x) (sb_Run x) (tl (tl tokens))
      | None \<Rightarrow> (case cm_Run cmd of None \<Rightarrow> Inl (Usage ''%q needs an action: %s'' [cm_Name cmd, subcommandNames cmd])
          | Some run \<Rightarrow> finish_line cmd None run (tl tokens))) = Inr a"
    using Inr c unfolding parseLine_def sub_def by (simp add: Let_def)
  show ?thesis
  proof (cases sub)
    case None
    with a obtain run where "cm_Run cmd = Some run" "finish_line cmd None run (tl tokens) = Inr a" by (auto split: option.splits)
    with finish_line_ok [OF this(2)] indexRegistry_mem [OF c] Inr show ?thesis by (simp add: action_ok_def)
  next
    case (Some x)
    then have "x \<in> set (cm_Subs cmd)" by (auto simp: sub_def split: list.splits if_splits dest: sub_of_mem)
    moreover from a Some have "finish_line cmd (Some x) (sb_Run x) (tl (tl tokens)) = Inr a" by simp
    ultimately show ?thesis using finish_line_ok indexRegistry_mem [OF c] Inr by (fastforce simp: action_ok_def)
  qed
qed simp

lemma parse_action_ok: "parseLine registry tokens = Inr a \<Longrightarrow> action_ok registry a"
  using parse_outcome [of registry tokens] by simp

text \<open>How a flag is written: its name after two hyphens, and an equals sign with the value for a flag that takes one.\<close>

definition takes_value :: "flag_spec list \<Rightarrow> string \<Rightarrow> bool option" where
  "takes_value allowed name = map_option fs_Value (find (\<lambda>f. fs_Name f = name) (rev allowed))"

definition typed_flag :: "flag_spec list \<Rightarrow> string \<times> string \<Rightarrow> string" where
  "typed_flag allowed f = ''--'' @ fst f @ (if takes_value allowed (fst f) = Some True then CHR ''='' # snd f else [])"

text \<open>A flag that some word writes.\<close>

definition writable :: "flag_spec list \<Rightarrow> string \<times> string \<Rightarrow> bool" where
  "writable allowed f \<longleftrightarrow> CHR ''='' \<notin> set (fst f)
     \<and> (takes_value allowed (fst f) = Some True \<or> takes_value allowed (fst f) = Some False \<and> snd f = [])"

text \<open>The words of a line that stand for flags, and those that stand for arguments: all that follow two hyphens on their own, and
  before them those that do not begin with two hyphens.\<close>

definition flag_words :: "string list \<Rightarrow> string list" where
  "flag_words ws = filter (\<lambda>w. HasPrefix w ''--'') (takeWhile (\<lambda>w. w \<noteq> ''--'') ws)"

definition plain_words :: "string list \<Rightarrow> string list" where
  "plain_words ws = filter (\<lambda>w. \<not> HasPrefix w ''--'') (takeWhile (\<lambda>w. w \<noteq> ''--'') ws) @ tl (dropWhile (\<lambda>w. w \<noteq> ''--'') ws)"

text \<open>What an action must be to be what a line says: the first word names its command, the second its action where the command
  has one of that name, the flags are what the flag words write, each once, and the arguments are the plain words.\<close>

definition says :: "'run ssh_command list \<Rightarrow> string list \<Rightarrow> 'run action \<Rightarrow> bool" where
  "says registry tokens a \<longleftrightarrow>
     (let cmd = ac_Cmd a; sub = ac_Sub a; allowed = declared_flags cmd sub; declared = declared_args cmd sub;
          named = (case tl tokens of [] \<Rightarrow> None | w # _ \<Rightarrow> if w = ''--'' then None else sub_of cmd w);
          rest = (if sub = None then tl tokens else tl (tl tokens)) in
      indexRegistry registry (hd tokens) = Some cmd \<and> sub = named
      \<and> Some (ac_Run a) = (case sub of None \<Rightarrow> cm_Run cmd | Some x \<Rightarrow> Some (sb_Run x))
      \<and> map (typed_flag allowed) (ac_Flags a) = flag_words rest \<and> list_all (writable allowed) (ac_Flags a)
      \<and> distinct (map fst (ac_Flags a))
      \<and> ac_Args a = joinRepeated declared (plain_words rest) \<and> length (ac_Args a) \<le> length declared)"

lemma take_flag_iff:
  assumes "HasPrefix tok ''--''"
  shows "take_flag who allowed given (drop 2 tok) = Inr f
    \<longleftrightarrow> typed_flag allowed f = tok \<and> writable allowed f \<and> fst f \<notin> fst ` set given"
proof -
  obtain body where tok: "tok = ''--'' @ body" using assms by (auto simp: HasPrefix_iff)
  obtain name val where f: "f = (name, val)" by (cases f)
  show ?thesis
  proof (cases "Cut body CHR ''=''")
    case None
    then have "CHR ''='' \<notin> set body" by (simp add: Cut_None)
    with None show ?thesis
      by (auto simp: tok f take_flag_def typed_flag_def writable_def takes_value_def split: option.splits if_splits)
  next
    case (Some nv)
    then obtain n v where nv: "nv = (n, v)" and body: "body = n @ CHR ''='' # v" "CHR ''='' \<notin> set n" by (cases nv) (auto dest: Cut_Some)
    have cut: "n @ CHR ''='' # v = name @ CHR ''='' # val \<longleftrightarrow> n = name \<and> v = val" if "CHR ''='' \<notin> set name"
      using body(2) that by (auto simp: append_eq_append_conv2 append_eq_Cons_conv Cons_eq_append_conv)
    show ?thesis
    proof (cases "CHR ''='' \<in> set name \<or> n \<noteq> name")
      case True
      with Some nv body cut show ?thesis
        by (auto simp: tok f take_flag_def typed_flag_def writable_def takes_value_def split: option.splits if_splits)
    next
      case False
      with Some nv body show ?thesis
        by (auto simp: tok f take_flag_def typed_flag_def writable_def takes_value_def split: option.splits if_splits)
    qed
  qed
qed

lemma take_literally: "take_words who allowed True args given toks = Inr (args @ toks, given)"
  by (induction toks arbitrary: args) simp_all

lemma take_words_iff:
  "take_words who allowed False args given toks = Inr (args', flags)
   \<longleftrightarrow> args' = args @ plain_words toks
     \<and> (\<exists>fs. flags = given @ fs \<and> map (typed_flag allowed) fs = flag_words toks \<and> list_all (writable allowed) fs
           \<and> distinct (map fst fs) \<and> fst ` set fs \<inter> fst ` set given = {})"
proof (induction toks arbitrary: args given)
  case Nil
  show ?case by (auto simp: plain_words_def flag_words_def)
next
  case (Cons tok toks)
  consider "tok = ''--''" | "\<not> HasPrefix tok ''--''" | "tok \<noteq> ''--''" "HasPrefix tok ''--''" by blast
  then show ?case
  proof cases
    case 1
    then show ?thesis by (auto simp: HasPrefix_def take_literally plain_words_def flag_words_def)
  next
    case 2
    then have "tok \<noteq> ''--''" by (auto simp: HasPrefix_def)
    with 2 show ?thesis by (simp add: Cons.IH plain_words_def flag_words_def)
  next
    case 3
    then have w: "plain_words (tok # toks) = plain_words toks" "flag_words (tok # toks) = tok # flag_words toks"
      by (simp_all add: plain_words_def flag_words_def)
    have "take_words who allowed False args given (tok # toks) = Inr (args', flags)
      \<longleftrightarrow> (\<exists>f. take_flag who allowed given (drop 2 tok) = Inr f \<and> take_words who allowed False args (given @ [f]) toks = Inr (args', flags))"
      using 3 by (auto split: sum.splits)
    also have "\<dots> \<longleftrightarrow> args' = args @ plain_words toks
      \<and> (\<exists>f fs. flags = given @ f # fs \<and> typed_flag allowed f = tok \<and> map (typed_flag allowed) fs = flag_words toks
           \<and> list_all (writable allowed) (f # fs) \<and> distinct (map fst (f # fs)) \<and> fst ` set (f # fs) \<inter> fst ` set given = {})"
      unfolding take_flag_iff [OF 3(2)] Cons.IH by fastforce
    also have "\<dots> \<longleftrightarrow> args' = args @ plain_words (tok # toks)
      \<and> (\<exists>fs. flags = given @ fs \<and> map (typed_flag allowed) fs = flag_words (tok # toks) \<and> list_all (writable allowed) fs
           \<and> distinct (map fst fs) \<and> fst ` set fs \<inter> fst ` set given = {})"
      unfolding w map_eq_Cons_conv by blast
    finally show ?thesis .
  qed
qed

lemma finish_line_iff:
  "finish_line cmd sub run rest = Inr a
   \<longleftrightarrow> ac_Cmd a = cmd \<and> ac_Sub a = sub \<and> ac_Run a = run
     \<and> map (typed_flag (declared_flags cmd sub)) (ac_Flags a) = flag_words rest
     \<and> list_all (writable (declared_flags cmd sub)) (ac_Flags a) \<and> distinct (map fst (ac_Flags a))
     \<and> ac_Args a = joinRepeated (declared_args cmd sub) (plain_words rest) \<and> length (ac_Args a) \<le> length (declared_args cmd sub)"
proof -
  have "finish_line cmd sub run rest = Inr a \<longleftrightarrow> (\<exists>args flags.
      take_words (action_name cmd sub) (declared_flags cmd sub) False [] [] rest = Inr (args, flags)
      \<and> length (joinRepeated (declared_args cmd sub) args) \<le> length (declared_args cmd sub)
      \<and> a = \<lparr>ac_Cmd = cmd, ac_Sub = sub, ac_Run = run, ac_Args = joinRepeated (declared_args cmd sub) args, ac_Flags = flags\<rparr>)"
    by (auto simp: finish_line_def Let_def split: sum.splits if_splits)
  also have "\<dots> \<longleftrightarrow> ac_Cmd a = cmd \<and> ac_Sub a = sub \<and> ac_Run a = run
     \<and> map (typed_flag (declared_flags cmd sub)) (ac_Flags a) = flag_words rest
     \<and> list_all (writable (declared_flags cmd sub)) (ac_Flags a) \<and> distinct (map fst (ac_Flags a))
     \<and> ac_Args a = joinRepeated (declared_args cmd sub) (plain_words rest) \<and> length (ac_Args a) \<le> length (declared_args cmd sub)"
    unfolding take_words_iff by (cases a) auto
  finally show ?thesis .
qed

lemma parseLine_iff: "parseLine registry tokens = Inr a \<longleftrightarrow> says registry tokens a"
proof (cases "indexRegistry registry (hd tokens)")
  case None
  then show ?thesis by (simp add: parseLine_def says_def Let_def)
next
  case (Some cmd)
  let ?named = "case tl tokens of [] \<Rightarrow> None | w # _ \<Rightarrow> if w = ''--'' then None else sub_of cmd w"
  show ?thesis
  proof (cases ?named)
    case None
    then show ?thesis using Some
      by (cases "cm_Run cmd") (auto simp: parseLine_def says_def Let_def finish_line_iff)
  next
    case (Some x)
    then show ?thesis using \<open>indexRegistry registry (hd tokens) = Some cmd\<close>
      by (auto simp: parseLine_def says_def Let_def finish_line_iff)
  qed
qed

text \<open>C29: an action is what a line is taken for exactly when the line says it: the first word names its command, the second its
  action where that command has one of that name; the words that begin with two hyphens, up to two hyphens on their own, are its
  flags as they are written, every one declared for this action, with a value exactly when it takes one, and none given twice; the
  other words, and all after the two hyphens, are its arguments, those of a repeated last argument joined, and no more of them than
  declared.  A line that says no action is refused; and an action that is parsed is a registered command's own.\<close>

theorem parseLine_sound:
  "(parseLine registry tokens = Inr a \<longleftrightarrow> says registry tokens a) \<and> (case parseLine registry tokens of Inl _ \<Rightarrow> True | Inr b \<Rightarrow> action_ok registry b)"
  by (intro conjI parseLine_iff parse_outcome)

section \<open>Every action can be typed\<close>

text \<open>An action is typed as its words, its flags, two hyphens and its arguments.\<close>

definition typable :: "flag_spec list \<Rightarrow> string \<times> string \<Rightarrow> bool" where
  "typable allowed f \<longleftrightarrow> fst f \<noteq> [] \<and> CHR ''='' \<notin> set (fst f)
     \<and> (takes_value allowed (fst f) = Some True \<or> takes_value allowed (fst f) = Some False \<and> snd f = [])"

definition typed :: "'run action \<Rightarrow> string list" where
  "typed a = cm_Name (ac_Cmd a) # (case ac_Sub a of None \<Rightarrow> [] | Some x \<Rightarrow> [sb_Name x])
     @ map (typed_flag (declared_flags (ac_Cmd a) (ac_Sub a))) (ac_Flags a) @ ''--'' # ac_Args a"

lemma Cut_none: "c \<notin> set n \<Longrightarrow> Cut n c = None"
  by (induction n) auto

lemma Cut_at: "c \<notin> set n \<Longrightarrow> Cut (n @ c # v) c = Some (n, v)"
  by (induction n) auto

lemma take_typed:
  assumes "typable allowed f" and "fst f \<notin> fst ` set given"
  shows "take_flag who allowed given (drop 2 (typed_flag allowed f)) = Inr f"
proof (cases "takes_value allowed (fst f) = Some True")
  case True
  then obtain spec where "find (\<lambda>x. fs_Name x = fst f) (rev allowed) = Some spec" "fs_Value spec" by (auto simp: takes_value_def)
  with True assms show ?thesis by (cases f) (auto simp: take_flag_def typed_flag_def typable_def Cut_at)
next
  case False
  with assms(1) have "takes_value allowed (fst f) = Some False" "snd f = []" by (auto simp: typable_def)
  moreover from this obtain spec where "find (\<lambda>x. fs_Name x = fst f) (rev allowed) = Some spec" "\<not> fs_Value spec" by (auto simp: takes_value_def)
  ultimately show ?thesis using assms by (cases f) (auto simp: take_flag_def typed_flag_def typable_def Cut_none)
qed

lemma typed_flag_word: "fst f \<noteq> [] \<Longrightarrow> HasPrefix (typed_flag allowed f) ''--'' \<and> typed_flag allowed f \<noteq> ''--''"
  by (simp add: typed_flag_def HasPrefix_def)

lemma take_typed_flags:
  assumes "list_all (typable allowed) fs" and "distinct (map fst (given @ fs))"
  shows "take_words who allowed False [] given (map (typed_flag allowed) fs @ ''--'' # args) = Inr (args, given @ fs)"
  using assms
proof (induction fs arbitrary: given)
  case Nil
  then show ?case by (simp add: HasPrefix_def take_literally)
next
  case (Cons f fs)
  then have f: "typable allowed f" "fst f \<notin> fst ` set given" "fst f \<noteq> []" by (auto simp: typable_def)
  have "take_words who allowed False [] (given @ [f]) (map (typed_flag allowed) fs @ ''--'' # args) = Inr (args, (given @ [f]) @ fs)"
    using Cons by (intro Cons.IH) auto
  then show ?case using typed_flag_word [OF f(3)] take_typed [OF f(1,2)] by simp
qed

lemma Join_single: "length args \<le> length declared \<Longrightarrow> joinRepeated declared args = args"
proof (cases "declared = [] \<or> \<not> as_Repeated (last declared) \<or> length args \<le> length declared - 1")
  case False
  assume "length args \<le> length declared"
  with False have n: "length args = length declared" "args \<noteq> []" by auto
  then have "drop (length declared - 1) args = [last args]" by (metis append_butlast_last_id append_eq_conv_conj length_butlast)
  moreover have "take (length declared - 1) args = butlast args" using n by (simp add: butlast_conv_take)
  ultimately show ?thesis using n False by (simp add: joinRepeated_def)
qed (simp add: joinRepeated_def)

text \<open>An action that is typed is parsed back, also where an argument looks like a flag or is called like another action.\<close>

lemma parse_typed:
  assumes "indexRegistry registry (cm_Name (ac_Cmd a)) = Some (ac_Cmd a)" and "action_ok registry a"
    and "list_all (typable (declared_flags (ac_Cmd a) (ac_Sub a))) (ac_Flags a)"
    and "case ac_Sub a of None \<Rightarrow> \<forall>x\<in>set (cm_Subs (ac_Cmd a)). \<not> HasPrefix (sb_Name x) ''--''
      | Some x \<Rightarrow> sub_of (ac_Cmd a) (sb_Name x) = Some x \<and> sb_Name x \<noteq> ''--''"
  shows "parseLine registry (typed a) = Inr a"
proof -
  let ?c = "ac_Cmd a" let ?sub = "ac_Sub a" let ?al = "declared_flags ?c ?sub"
  let ?rest = "map (typed_flag ?al) (ac_Flags a) @ ''--'' # ac_Args a"
  have ok: "length (ac_Args a) \<le> length (declared_args ?c ?sub)" "distinct (map fst (ac_Flags a))"
    using assms(2) by (simp_all add: action_ok_def)
  have fin: "finish_line ?c ?sub (ac_Run a) ?rest = Inr a"
    using take_typed_flags [OF assms(3), of "[]" "action_name ?c ?sub" "ac_Args a"] ok Join_single [OF ok(1)]
    by (simp add: finish_line_def)
  show ?thesis
  proof (cases ?sub)
    case (Some x)
    with assms(2) have "ac_Run a = sb_Run x" by (simp add: action_ok_def)
    with Some fin assms(1,4) show ?thesis by (simp add: parseLine_def typed_def Let_def)
  next
    case None
    with assms(2) have run: "cm_Run ?c = Some (ac_Run a)" by (simp add: action_ok_def)
    have no: "(case ?rest of [] \<Rightarrow> None | w # _ \<Rightarrow> if w = ''--'' then None else sub_of ?c w) = None"
    proof (cases "ac_Flags a")
      case (Cons f fs)
      with assms(3) have "fst f \<noteq> []" by (simp add: typable_def)
      then have w: "HasPrefix (typed_flag ?al f) ''--''" using typed_flag_word by blast
      have "sub_of ?c (typed_flag ?al f) = None"
      proof (cases "sub_of ?c (typed_flag ?al f)")
        case (Some y)
        then have "y \<in> set (cm_Subs ?c)" "sb_Name y = typed_flag ?al f" by (auto simp: sub_of_def dest!: find_member)
        with assms(4) None w show ?thesis by auto
      qed
      with Cons show ?thesis by simp
    qed simp
    from None run fin no assms(1) show ?thesis by (simp add: parseLine_def typed_def Let_def)
  qed
qed

end
