(* ===== verification/Ssh_Registry.thy ===== *)
theory Ssh_Registry
  imports Ssh_Line Sql_Store
begin

text \<open>
  The commands of the SSH gateway as they are declared: the tables of \<^verbatim>\<open>src/internal/sshgw/commands_*.go\<close>, of
  \<^verbatim>\<open>help.go\<close> and of \<^verbatim>\<open>commands_access.go\<close>, with the texts of the help left out.  A handler is named by a constructor of
  \<open>ssh_run\<close>; what the handlers do is in \<open>Ssh_Commands\<close>.
\<close>

datatype ssh_run =
    RunLs | RunNew | RunRm | RunStart | RunStop | RunRestart | RunRename | RunStat | RunSSH | RunRecreate
  | RunPublish | RunNesting | RunTask | RunTaskRetry | RunAgent | RunAgentUpdate | RunShareCreate | RunShareList
  | RunShareRevoke | RunURL | RunDomainList | RunDomainAdd | RunDomainVerify | RunDomainRm | RunWhoami | RunSSHKeyList
  | RunSSHKeyAdd | RunSSHKeyRemove | RunLLMList | RunLLMAdd | RunLLMRemove | RunLLMModels | RunLLMDefault
  | RunIntegrationList | RunIntegrationProviders | RunIntegrationAdd | RunIntegrationRemove | RunPasswd | RunHelp | RunExit
  | RunAdminUsers | RunAdminRemoveUser | RunAdminVMs | RunAdminNesting | RunAdminDomains | RunAdminRelease | RunAdminUpdate

type_synonym cmd = "ssh_run ssh_command"

definition groupVM :: string where "groupVM = ''VM lifecycle''"
definition groupConfig :: string where "groupConfig = ''VM configuration''"
definition groupDomains :: string where "groupDomains = ''Custom domains''"
definition groupAccount :: string where "groupAccount = ''Account''"
definition groupSession :: string where "groupSession = ''Session''"
definition groupAdmin :: string where "groupAdmin = ''Administration''"

definition groupOrder :: "string list" where
  "groupOrder = [groupVM, groupConfig, groupDomains, groupAccount, groupSession, groupAdmin]"

text \<open>An argument, an optional and a repeated one; a switch and a flag with a value.\<close>

definition arg1 :: "string \<Rightarrow> arg_spec" where "arg1 n = \<lparr>as_Name = n, as_Optional = False, as_Repeated = False\<rparr>"
definition opt_arg :: "string \<Rightarrow> arg_spec" where "opt_arg n = \<lparr>as_Name = n, as_Optional = True, as_Repeated = False\<rparr>"
definition rest_arg :: "string \<Rightarrow> arg_spec" where "rest_arg n = \<lparr>as_Name = n, as_Optional = False, as_Repeated = True\<rparr>"
definition switch :: "string \<Rightarrow> flag_spec" where "switch n = \<lparr>fs_Name = n, fs_Value = False\<rparr>"
definition valued :: "string \<Rightarrow> flag_spec" where "valued n = \<lparr>fs_Name = n, fs_Value = True\<rparr>"

definition plain_command :: "string \<Rightarrow> string \<Rightarrow> arg_spec list \<Rightarrow> flag_spec list \<Rightarrow> bool \<Rightarrow> ssh_run \<Rightarrow> cmd" where
  "plain_command n g as fs json run = \<lparr>cm_Name = n, cm_Group = g, cm_Args = as, cm_Flags = fs, cm_Subs = [], cm_Aliases = [],
     cm_AdminOnly = False, cm_JSON = json, cm_Interactive = False, cm_Run = Some run\<rparr>"

definition action_of :: "string \<Rightarrow> arg_spec list \<Rightarrow> flag_spec list \<Rightarrow> bool \<Rightarrow> ssh_run \<Rightarrow> ssh_run sub_spec" where
  "action_of n as fs json run = \<lparr>sb_Name = n, sb_Args = as, sb_Flags = fs, sb_JSON = json, sb_Run = run\<rparr>"

definition vmCommands :: "cmd list" where
  "vmCommands =
     [(plain_command ''ls'' groupVM [] [] True RunLs)\<lparr>cm_Aliases := [''ps'']\<rparr>,
      plain_command ''new'' groupVM [arg1 ''name''] [valued ''cpu'', valued ''memory'', valued ''disk'', valued ''task''] False RunNew,
      plain_command ''rm'' groupVM [arg1 ''name''] [switch ''force''] False RunRm,
      plain_command ''start'' groupVM [arg1 ''name''] [] False RunStart,
      plain_command ''stop'' groupVM [arg1 ''name''] [] False RunStop,
      plain_command ''restart'' groupVM [arg1 ''name''] [] False RunRestart,
      plain_command ''rename'' groupVM [arg1 ''old'', arg1 ''new''] [] False RunRename,
      plain_command ''stat'' groupVM [arg1 ''name''] [] True RunStat,
      plain_command ''ssh'' groupVM [arg1 ''name''] [] False RunSSH,
      plain_command ''recreate'' groupVM [arg1 ''name''] [switch ''force''] False RunRecreate]"

definition configCommands :: "cmd list" where
  "configCommands =
     [plain_command ''publish'' groupConfig [arg1 ''vm'', opt_arg ''port'', opt_arg ''visibility''] [] True RunPublish,
      plain_command ''nesting'' groupConfig [arg1 ''vm'', opt_arg ''state''] [] True RunNesting,
      (plain_command ''task'' groupConfig [arg1 ''vm''] [] True RunTask)
        \<lparr>cm_Subs := [action_of ''retry'' [arg1 ''vm''] [] False RunTaskRetry]\<rparr>,
      (plain_command ''agent'' groupConfig [arg1 ''vm''] [] True RunAgent)
        \<lparr>cm_Subs := [action_of ''update'' [arg1 ''vm''] [] False RunAgentUpdate]\<rparr>,
      (plain_command ''share'' groupConfig [arg1 ''vm''] [valued ''ttl''] True RunShareCreate)
        \<lparr>cm_Subs := [action_of ''list'' [arg1 ''vm''] [] True RunShareList, action_of ''revoke'' [arg1 ''token''] [] False RunShareRevoke]\<rparr>,
      plain_command ''url'' groupConfig [arg1 ''vm''] [] True RunURL]"

definition domainCommands :: "cmd list" where
  "domainCommands =
     [\<lparr>cm_Name = ''domain'', cm_Group = groupDomains, cm_Args = [], cm_Flags = [],
       cm_Subs = [action_of ''list'' [arg1 ''vm''] [] True RunDomainList,
         action_of ''add'' [arg1 ''vm'', arg1 ''hostname''] [] False RunDomainAdd,
         action_of ''verify'' [arg1 ''vm'', arg1 ''hostname''] [] False RunDomainVerify,
         action_of ''rm'' [arg1 ''vm'', arg1 ''hostname''] [] False RunDomainRm],
       cm_Aliases = [], cm_AdminOnly = False, cm_JSON = False, cm_Interactive = False, cm_Run = None\<rparr>]"

definition accountCommands :: "cmd list" where
  "accountCommands =
     [plain_command ''whoami'' groupAccount [] [] True RunWhoami,
      (plain_command ''ssh-key'' groupAccount [] [] True RunSSHKeyList)
        \<lparr>cm_Subs := [action_of ''list'' [] [] True RunSSHKeyList,
           action_of ''add'' [arg1 ''name'', rest_arg ''public-key''] [] False RunSSHKeyAdd,
           action_of ''remove'' [arg1 ''name''] [] False RunSSHKeyRemove]\<rparr>,
      (plain_command ''llm'' groupAccount [] [] True RunLLMList)
        \<lparr>cm_Subs := [action_of ''list'' [] [] True RunLLMList,
           action_of ''add'' [arg1 ''provider'', opt_arg ''key''] [valued ''base-url'', valued ''models'', valued ''protocol''] False RunLLMAdd,
           action_of ''rm'' [arg1 ''provider''] [] False RunLLMRemove,
           action_of ''models'' [] [] True RunLLMModels,
           action_of ''default'' [arg1 ''model''] [] False RunLLMDefault]\<rparr>]"

definition integrationCommand :: cmd where
  "integrationCommand = (plain_command ''integration'' groupAccount [] [] True RunIntegrationList)
     \<lparr>cm_Subs := [action_of ''list'' [] [] True RunIntegrationList, action_of ''providers'' [] [] True RunIntegrationProviders,
        action_of ''add'' [arg1 ''provider''] [] False RunIntegrationAdd, action_of ''rm'' [arg1 ''provider''] [] False RunIntegrationRemove]\<rparr>"

definition passwordCommand :: cmd where
  "passwordCommand = plain_command ''passwd'' groupAccount [] [] False RunPasswd"

definition sessionCommands :: "cmd list" where
  "sessionCommands =
     [plain_command ''help'' groupSession [opt_arg ''command'', opt_arg ''action''] [] True RunHelp,
      (plain_command ''exit'' groupSession [] [] False RunExit)\<lparr>cm_Aliases := [''quit''], cm_Interactive := True\<rparr>]"

definition adminCommands :: "cmd list" where
  "adminCommands =
     [\<lparr>cm_Name = ''admin'', cm_Group = groupAdmin, cm_Args = [], cm_Flags = [],
       cm_Subs = [action_of ''users'' [] [] True RunAdminUsers,
         action_of ''rmuser'' [arg1 ''account''] [switch ''force''] False RunAdminRemoveUser,
         action_of ''vms'' [] [] True RunAdminVMs,
         action_of ''nesting'' [opt_arg ''state''] [] False RunAdminNesting,
         action_of ''domains'' [] [] True RunAdminDomains,
         action_of ''release'' [arg1 ''hostname''] [] False RunAdminRelease,
         action_of ''update'' [opt_arg ''action''] [switch ''force''] True RunAdminUpdate],
       cm_Aliases = [], cm_AdminOnly = True, cm_JSON = False, cm_Interactive = False, cm_Run = None\<rparr>]"

definition registry :: "cmd list" where
  "registry = vmCommands @ configCommands @ domainCommands @ accountCommands @ [integrationCommand, passwordCommand]
     @ sessionCommands @ adminCommands"

definition guestCommandAllowed :: "string \<Rightarrow> bool" where
  "guestCommandAllowed name \<longleftrightarrow> name \<in> set [''help'', ''ls'', ''stat'', ''ssh'', ''whoami'', ''ssh-key'', ''passwd'', ''exit'', ''clear'']"

definition isAdmin :: "user \<Rightarrow> bool" where
  "isAdmin u \<longleftrightarrow> u_Role u = ''admin''"

definition visible :: "user \<Rightarrow> cmd \<Rightarrow> bool" where
  "visible u c \<longleftrightarrow> (isAdmin u \<or> \<not> cm_AdminOnly c) \<and> (u_Role u \<noteq> ''guest'' \<or> guestCommandAllowed (cm_Name c))"

definition visibleCommands :: "user \<Rightarrow> cmd list" where
  "visibleCommands u = concat (map (\<lambda>g. sort_key cm_Name (filter (\<lambda>c. cm_Group c = g \<and> visible u c) registry)) groupOrder)"

section \<open>The table\<close>

lemmas registry_defs = registry_def vmCommands_def configCommands_def domainCommands_def accountCommands_def integrationCommand_def
  passwordCommand_def sessionCommands_def adminCommands_def plain_command_def action_of_def

text \<open>Every name and alias is used once, so a word means one command, and every command is in a group that is printed.\<close>

lemma registry_words: "distinct (concat (map (\<lambda>c. cm_Name c # cm_Aliases c) registry))"
  by code_simp

lemma registry_groups: "list_all (\<lambda>c. cm_Group c \<in> set groupOrder) registry"
  by code_simp

text \<open>What an administrator's command can run, and what a guest's can.\<close>

definition runs_of :: "cmd \<Rightarrow> ssh_run list" where
  "runs_of c = (case cm_Run c of None \<Rightarrow> [] | Some r \<Rightarrow> [r]) @ map sb_Run (cm_Subs c)"

definition admin_runs :: "ssh_run list" where
  "admin_runs = [RunAdminUsers, RunAdminRemoveUser, RunAdminVMs, RunAdminNesting, RunAdminDomains, RunAdminRelease, RunAdminUpdate]"

definition guest_runs :: "ssh_run list" where
  "guest_runs = [RunHelp, RunLs, RunStat, RunSSH, RunWhoami, RunSSHKeyList, RunSSHKeyAdd, RunSSHKeyRemove, RunPasswd, RunExit]"

lemma registry_admin: "list_all (\<lambda>c. cm_AdminOnly c \<or> list_all (\<lambda>r. r \<notin> set admin_runs) (runs_of c)) registry"
  by code_simp

lemma registry_guest: "list_all (\<lambda>c. guestCommandAllowed (cm_Name c) \<longrightarrow> list_all (\<lambda>r. r \<in> set guest_runs) (runs_of c)) registry"
  by code_simp

section \<open>Every action can be typed on one line\<close>

lemma foldl_aliases: "foldl (\<lambda>m a. m(a \<mapsto> c)) m as w = (if w \<in> set as then Some c else m w)"
  by (induction as arbitrary: m) auto

lemma foldl_other:
  "w \<notin> set (concat (map (\<lambda>c. cm_Name c # cm_Aliases c) cmds)) \<Longrightarrow>
   foldl (\<lambda>m c. foldl (\<lambda>m a. m(a \<mapsto> c)) (m(cm_Name c \<mapsto> c)) (cm_Aliases c)) m cmds w = m w"
  by (induction cmds arbitrary: m) (auto simp: foldl_aliases)

lemma foldl_index:
  "distinct (concat (map (\<lambda>c. cm_Name c # cm_Aliases c) cmds)) \<Longrightarrow> c \<in> set cmds \<Longrightarrow>
   foldl (\<lambda>m c. foldl (\<lambda>m a. m(a \<mapsto> c)) (m(cm_Name c \<mapsto> c)) (cm_Aliases c)) m cmds (cm_Name c) = Some c"
proof (induction cmds arbitrary: m)
  case (Cons d cmds)
  show ?case
  proof (cases "c \<in> set cmds")
    case True
    with Cons show ?thesis by auto
  next
    case False
    with Cons.prems(2) have d: "c = d" by simp
    have "cm_Name d \<notin> set (concat (map (\<lambda>c. cm_Name c # cm_Aliases c) cmds))" using Cons.prems(1) by auto
    note foldl_other [OF this, of "foldl (\<lambda>m a. m(a \<mapsto> d)) (m(cm_Name d \<mapsto> d)) (cm_Aliases d)"]
    moreover have "foldl (\<lambda>m a. m(a \<mapsto> d)) (m(cm_Name d \<mapsto> d)) (cm_Aliases d) (cm_Name d) = Some d"
      by (simp add: foldl_aliases del: fun_upd_apply) simp
    ultimately show ?thesis unfolding d by (simp del: fun_upd_apply)
  qed
qed simp

lemma registry_index: "c \<in> set registry \<Longrightarrow> indexRegistry registry (cm_Name c) = Some c"
  using foldl_index [OF registry_words] by (simp add: indexRegistry_def)

text \<open>The names of flags are proper and distinct in each action, and no action is called like a flag.\<close>

definition flags_fit :: "flag_spec list \<Rightarrow> bool" where
  "flags_fit fs \<longleftrightarrow> distinct (map fs_Name fs) \<and> list_all (\<lambda>f. fs_Name f \<noteq> [] \<and> CHR ''='' \<notin> set (fs_Name f)) fs"

lemma registry_flags: "list_all (\<lambda>c. flags_fit (declared_flags c None) \<and> list_all (\<lambda>x. flags_fit (declared_flags c (Some x))) (cm_Subs c)) registry"
  by code_simp

lemma registry_subs: "list_all (\<lambda>c. distinct (map sb_Name (cm_Subs c)) \<and> list_all (\<lambda>x. \<not> HasPrefix (sb_Name x) ''--'') (cm_Subs c)) registry"
  by code_simp

lemma find_by_key: "distinct (map k xs) \<Longrightarrow> x \<in> set xs \<Longrightarrow> find (\<lambda>y. k y = k x) xs = Some x"
  by (induction xs) auto

lemma flag_typable: "flags_fit allowed \<Longrightarrow> flag_ok allowed f \<Longrightarrow> typable allowed f"
proof -
  assume fit: "flags_fit allowed" and "flag_ok allowed f"
  then obtain spec where s: "spec \<in> set allowed" "fs_Name spec = fst f" "fs_Value spec \<or> snd f = []" by (auto simp: flag_ok_def)
  have "find (\<lambda>x. fs_Name x = fs_Name spec) (rev allowed) = Some spec"
    using fit s(1) by (intro find_by_key) (simp_all add: flags_fit_def rev_map [symmetric])
  then have "takes_value allowed (fst f) = Some (fs_Value spec)" using s(2) by (simp add: takes_value_def)
  with s fit show ?thesis by (cases "fs_Value spec") (auto simp: typable_def flags_fit_def list_all_iff)
qed

text \<open>C28: whatever action of the gateway, with whatever texts for its arguments and the values of its flags, it can be typed on one
  line: the line is split and parsed back into exactly that action.\<close>

theorem line_roundtrip:
  assumes "action_ok registry a"
  shows "(case splitArgs (Join (map quote_word (typed a)) CHR '' '') of Inl e \<Rightarrow> Inl e | Inr tokens \<Rightarrow> parseLine registry tokens) = Inr a"
proof -
  let ?c = "ac_Cmd a" let ?sub = "ac_Sub a"
  have c: "?c \<in> set registry" and sub: "\<And>x. ?sub = Some x \<Longrightarrow> x \<in> set (cm_Subs ?c)"
    and flags: "list_all (flag_ok (declared_flags ?c ?sub)) (ac_Flags a)"
    using assms by (auto simp: action_ok_def)
  have fit: "flags_fit (declared_flags ?c ?sub)"
    using registry_flags c sub by (cases ?sub) (auto simp: list_all_iff)
  have names: "distinct (map sb_Name (cm_Subs ?c))" "\<forall>x\<in>set (cm_Subs ?c). \<not> HasPrefix (sb_Name x) ''--''"
    using registry_subs c by (auto simp: list_all_iff)
  have "parseLine registry (typed a) = Inr a"
  proof (rule parse_typed [OF registry_index [OF c] assms])
    show "list_all (typable (declared_flags ?c ?sub)) (ac_Flags a)"
      using flags flag_typable [OF fit] by (auto simp: list_all_iff)
    show "case ?sub of None \<Rightarrow> \<forall>x\<in>set (cm_Subs ?c). \<not> HasPrefix (sb_Name x) ''--''
      | Some x \<Rightarrow> sub_of ?c (sb_Name x) = Some x \<and> sb_Name x \<noteq> ''--''"
    proof (cases ?sub)
      case (Some x)
      then have "sb_Name x \<noteq> ''--''" using names(2) sub by (fastforce simp: HasPrefix_def)
      with Some sub find_by_key [OF names(1)] show ?thesis by (simp add: sub_of_def)
    qed (use names in simp)
  qed
  then show ?thesis by (simp add: split_quoted_words)
qed

text \<open>A share link on a VM that is called like an action of the command.\<close>

theorem line_roundtrip_witness:
  "\<exists>c\<in>set registry. parseLine registry [''share'', ''--ttl=24h'', ''--'', ''list'']
     = Inr \<lparr>ac_Cmd = c, ac_Sub = None, ac_Run = RunShareCreate, ac_Args = [''list''], ac_Flags = [(''ttl'', ''24h'')]\<rparr>"
proof -
  let ?c = "(plain_command ''share'' groupConfig [arg1 ''vm''] [valued ''ttl''] True RunShareCreate)
    \<lparr>cm_Subs := [action_of ''list'' [arg1 ''vm''] [] True RunShareList, action_of ''revoke'' [arg1 ''token''] [] False RunShareRevoke]\<rparr>"
  let ?a = "\<lparr>ac_Cmd = ?c, ac_Sub = None, ac_Run = RunShareCreate, ac_Args = [''list''], ac_Flags = [(''ttl'', ''24h'')]\<rparr>"
  have c: "?c \<in> set registry" by (simp add: registry_def configCommands_def)
  have ok: "action_ok registry ?a"
    using c by (simp add: action_ok_def plain_command_def declared_args_def declared_flags_def flag_ok_def withJSONFlag_def valued_def)
  have t: "typed ?a = [''share'', ''--ttl=24h'', ''--'', ''list'']"
    by (simp add: typed_def typed_flag_def takes_value_def plain_command_def declared_flags_def withJSONFlag_def valued_def)
  have "parseLine registry (typed ?a) = Inr ?a"
    using line_roundtrip [OF ok] by (simp add: split_quoted_words)
  with c t show ?thesis by auto
qed

end
