(* ===== verification/Updater.thy ===== *)
theory Updater
  imports Go_Numbers
begin

text \<open>
  The gateway's self-update: \<^verbatim>\<open>src/internal/updater\<close>, the version stamp of \<^verbatim>\<open>src/internal/version\<close> and the
  operator's handlers of \<^verbatim>\<open>src/internal/api/update.go\<close>.

  GitHub is a function from requests to replies, one for each check; JSON and the text of a time are arguments.  The
  checker's mutex is held from its first to its last access, so checks are a sequence of the step \<open>check_build\<close>.  The runner
  works on the host's files, a map from paths to texts; an operation of the host fails when the schedule \<open>h_Faults\<close> says so.
\<close>

section \<open>The version stamp\<close>

record version_info =
  vi_Version :: string
  vi_Commit :: string
  vi_BuildDate :: string
  vi_PicoClaw :: string
  vi_Shelley :: string

definition IsDev :: "version_info \<Rightarrow> bool" where
  "IsDev i \<longleftrightarrow> vi_Commit i = [] \<or> vi_Commit i = ''unknown''"

definition shortSHA :: "string \<Rightarrow> string" where
  "shortSHA sha = take 7 sha"

definition Short :: "version_info \<Rightarrow> string" where
  "Short i = (if IsDev i then vi_Version i else vi_Version i @ '' ('' @ shortSHA (vi_Commit i) @ '')'')"

section \<open>Texts\<close>

text \<open>\<^verbatim>\<open>strings.Cut\<close> at a text, \<^verbatim>\<open>strings.Fields\<close> and \<^verbatim>\<open>filepath.Dir\<close>.\<close>

fun CutText :: "string \<Rightarrow> string \<Rightarrow> (string \<times> string) option" where
  "CutText [] sep = (if sep = [] then Some ([], []) else None)"
| "CutText (c # s) sep =
     (if HasPrefix (c # s) sep then Some ([], drop (length sep) (c # s))
      else map_option (\<lambda>(a, b). (c # a, b)) (CutText s sep))"

definition space_at :: "string \<Rightarrow> nat" where
  "space_at s = (case find (\<lambda>w. HasPrefix s w) space_runes of None \<Rightarrow> 0 | Some w \<Rightarrow> length w)"

fun Fields_from :: "nat \<Rightarrow> string \<Rightarrow> string \<Rightarrow> string list" where
  "Fields_from skip word [] = (if word = [] then [] else [rev word])"
| "Fields_from skip word (c # s) =
     (if 0 < skip then Fields_from (skip - 1) word s
      else if space_at (c # s) = 0 then Fields_from 0 (c # word) s
      else (if word = [] then [] else [rev word]) @ Fields_from (space_at (c # s) - 1) [] s)"

definition Fields :: "string \<Rightarrow> string list" where
  "Fields s = Fields_from 0 [] s"

fun clean_segs :: "bool \<Rightarrow> string list \<Rightarrow> string list \<Rightarrow> string list" where
  "clean_segs rooted out [] = rev out"
| "clean_segs rooted out (p # ps) =
     (if p = [] \<or> p = ''.'' then clean_segs rooted out ps
      else if p = ''..'' then
        (if out \<noteq> [] \<and> hd out \<noteq> ''..'' then clean_segs rooted (tl out) ps
         else clean_segs rooted (if rooted then out else ''..'' # out) ps)
      else clean_segs rooted (p # out) ps)"

definition Clean :: "string \<Rightarrow> string" where
  "Clean p =
     (let rooted = HasPrefix p ''/''; body = Join (clean_segs rooted [] (Split p CHR ''/'')) CHR ''/'' in
      if rooted then ''/'' @ body else if body = [] then ''.'' else body)"

definition Dir :: "string \<Rightarrow> string" where
  "Dir p = Clean (rev (dropWhile (\<lambda>c. c \<noteq> CHR ''/'') (rev p)))"

section \<open>The checker\<close>

record upd_config =
  uc_Owner :: string
  uc_Repo :: string
  uc_Branch :: string
  uc_Channel :: string
  uc_APIBase :: string
  uc_CacheTTL :: int
  uc_Token :: string

definition ChannelBranch :: string where "ChannelBranch = ''branch''"
definition ChannelRelease :: string where "ChannelRelease = ''release''"

definition or_default :: "string \<Rightarrow> string \<Rightarrow> string" where
  "or_default x d = (if x = [] then d else x)"

definition DefaultCacheTTL :: int where "DefaultCacheTTL = 15 * 60 * 1000000000"

definition withDefaults :: "upd_config \<Rightarrow> upd_config" where
  "withDefaults c = \<lparr>uc_Owner = or_default (uc_Owner c) ''skrashevich'', uc_Repo = or_default (uc_Repo c) ''svkexe'',
     uc_Branch = or_default (uc_Branch c) ''main'', uc_Channel = or_default (uc_Channel c) ChannelBranch,
     uc_APIBase = TrimRight (or_default (uc_APIBase c) ''https://api.github.com'') CHR ''/'',
     uc_CacheTTL = (if uc_CacheTTL c \<le> 0 then DefaultCacheTTL else uc_CacheTTL c), uc_Token = uc_Token c\<rparr>"

definition parseChannel :: "string \<Rightarrow> string" where
  "parseChannel s = (if EqualFold (TrimSpace s) ChannelRelease then ChannelRelease else ChannelBranch)"

text \<open>The configuration from the environment; \<open>dur\<close> reads Go's notation of a duration.\<close>

definition env_ttl :: "(string \<Rightarrow> int option) \<Rightarrow> string \<Rightarrow> int" where
  "env_ttl dur raw =
     (if raw = [] then 0
      else case dur raw of
        Some d \<Rightarrow> if d > 0 then d else (case Atoi raw of Some n \<Rightarrow> if n > 0 then wrap64 (n * 1000000000) else 0 | None \<Rightarrow> 0)
      | None \<Rightarrow> (case Atoi raw of Some n \<Rightarrow> if n > 0 then wrap64 (n * 1000000000) else 0 | None \<Rightarrow> 0))"

definition NewConfigFromEnv :: "(string \<Rightarrow> string) \<Rightarrow> (string \<Rightarrow> int option) \<Rightarrow> upd_config" where
  "NewConfigFromEnv env dur = withDefaults \<lparr>uc_Owner = env ''SVKEXE_UPDATE_OWNER'', uc_Repo = env ''SVKEXE_UPDATE_REPO'',
     uc_Branch = env ''SVKEXE_UPDATE_BRANCH'', uc_Channel = parseChannel (env ''SVKEXE_UPDATE_CHANNEL''),
     uc_APIBase = env ''SVKEXE_UPDATE_API_BASE'', uc_CacheTTL = env_ttl dur (env ''SVKEXE_UPDATE_CACHE_TTL''),
     uc_Token = or_default (env ''SVKEXE_GITHUB_TOKEN'') (env ''GITHUB_TOKEN'')\<rparr>"

record release =
  re_Version :: string
  re_Tag :: string
  re_Commit :: string
  re_PublishedAt :: int
  re_URL :: string
  re_Channel :: string

text \<open>What GitHub's two answers hold, and what becomes of a request.\<close>

record gh_commit =
  gc_SHA :: string
  gc_URL :: string
  gc_Date :: int

record gh_release =
  gr_TagName :: string
  gr_Target :: string
  gr_PublishedAt :: int
  gr_URL :: string

record gh_codec =
  gj_Commit :: "string \<Rightarrow> string + gh_commit"
  gj_Release :: "string \<Rightarrow> string + gh_release"

datatype gh_reply = Unbuilt string | Failed_request string | Cut_off nat string | Replied nat string

record gh_request =
  gq_URL :: string
  gq_Headers :: "(string \<times> string) list"

type_synonym gh_net = "gh_request \<Rightarrow> gh_reply"

definition maxBodyBytes :: nat where "maxBodyBytes = 1048576"
definition maxErrorSnippet :: nat where "maxErrorSnippet = 256"

definition snippet :: "string \<Rightarrow> string" where
  "snippet b =
     (let s = Join (Fields (TrimSpace b)) CHR '' ''; s' = (if length s > maxErrorSnippet then take maxErrorSnippet s @ ''...'' else s) in
      if s' = [] then ''(empty body)'' else s')"

definition gh_headers :: "upd_config \<Rightarrow> (string \<times> string) list" where
  "gh_headers c = [(''User-Agent'', ''svkexe-updater/1''), (''Accept'', ''application/vnd.github+json''),
     (''X-GitHub-Api-Version'', ''2022-11-28'')]
     @ (if uc_Token c = [] then [] else [(''Authorization'', ''Bearer '' @ uc_Token c)])"

text \<open>The body, or the status (0 when there is none) with the error.\<close>

definition gh_get :: "upd_config \<Rightarrow> gh_net \<Rightarrow> string \<Rightarrow> (nat \<times> string) + string" where
  "gh_get c net url =
     (case net \<lparr>gq_URL = url, gq_Headers = gh_headers c\<rparr> of
        Unbuilt e \<Rightarrow> Inl (0, ''build request: '' @ e)
      | Failed_request e \<Rightarrow> Inl (0, ''request '' @ url @ '': '' @ e)
      | Cut_off st e \<Rightarrow> Inl (st, ''read response from '' @ url @ '': '' @ e)
      | Replied st b \<Rightarrow>
          let body = take maxBodyBytes b in
          if st < 200 \<or> st > 299 then Inl (st, ''github returned '' @ Itoa (int st) @ '' for '' @ url @ '': '' @ snippet body)
          else Inr body)"

definition repo_url :: "upd_config \<Rightarrow> string \<Rightarrow> string" where
  "repo_url c what = uc_APIBase c @ ''/repos/'' @ uc_Owner c @ ''/'' @ uc_Repo c @ what"

definition fetchBranch :: "gh_codec \<Rightarrow> upd_config \<Rightarrow> gh_net \<Rightarrow> string + release" where
  "fetchBranch gj c net =
     (case gh_get c net (repo_url c (''/commits/'' @ uc_Branch c)) of
        Inl (_, e) \<Rightarrow> Inl (''fetch branch '' @ uc_Branch c @ '': '' @ e)
      | Inr body \<Rightarrow>
          (case gj_Commit gj body of
             Inl e \<Rightarrow> Inl (''decode branch '' @ uc_Branch c @ '': '' @ e)
           | Inr gc \<Rightarrow>
               if gc_SHA gc = [] then Inl (''decode branch '' @ uc_Branch c @ '': response has no commit sha'')
               else Inr \<lparr>re_Version = shortSHA (gc_SHA gc), re_Tag = [], re_Commit = gc_SHA gc, re_PublishedAt = gc_Date gc,
                 re_URL = gc_URL gc, re_Channel = ChannelBranch\<rparr>))"

definition sha_digit :: "char \<Rightarrow> bool" where
  "sha_digit c \<longleftrightarrow> is_digit c \<or> (97 \<le> byte c \<and> byte c \<le> 102) \<or> (65 \<le> byte c \<and> byte c \<le> 70)"

definition isSHA :: "string \<Rightarrow> bool" where
  "isSHA s \<longleftrightarrow> length s = 40 \<and> list_all sha_digit s"

definition fetchRelease :: "gh_codec \<Rightarrow> upd_config \<Rightarrow> gh_net \<Rightarrow> string + release" where
  "fetchRelease gj c net =
     (case gh_get c net (repo_url c ''/releases/latest'') of
        Inl (st, e) \<Rightarrow> if st = 404 then fetchBranch gj c net else Inl (''fetch latest release: '' @ e)
      | Inr body \<Rightarrow>
          (case gj_Release gj body of
             Inl e \<Rightarrow> Inl (''decode latest release: '' @ e)
           | Inr gr \<Rightarrow>
               if gr_TagName gr = [] then Inl ''decode latest release: response has no tag_name''
               else Inr \<lparr>re_Version = gr_TagName gr, re_Tag = gr_TagName gr,
                 re_Commit = (if isSHA (gr_Target gr) then gr_Target gr else []), re_PublishedAt = gr_PublishedAt gr,
                 re_URL = gr_URL gr, re_Channel = ChannelRelease\<rparr>))"

text \<open>The cached release and the cached failure, each with the time it was fetched.\<close>

record checker =
  ck_Cached :: "(release \<times> int) option"
  ck_Failure :: "(string \<times> int) option"

definition NewChecker :: checker where
  "NewChecker = \<lparr>ck_Cached = None, ck_Failure = None\<rparr>"

definition negativeCacheTTL :: int where "negativeCacheTTL = 30 * 1000000000"

definition fresh_within :: "int \<Rightarrow> int \<Rightarrow> ('a \<times> int) option \<Rightarrow> 'a option" where
  "fresh_within ttl now c = (case c of None \<Rightarrow> None | Some (x, at) \<Rightarrow> if now - at < ttl then Some x else None)"

definition fetch :: "gh_codec \<Rightarrow> upd_config \<Rightarrow> gh_net \<Rightarrow> string + release" where
  "fetch gj c net = (if uc_Channel c = ChannelRelease then fetchRelease gj c net else fetchBranch gj c net)"

text \<open>A check begins at \<open>now\<close>; when it asks GitHub, the answer is there at \<open>done_at\<close>.\<close>

definition check_build :: "gh_codec \<Rightarrow> upd_config \<Rightarrow> gh_net \<Rightarrow> bool \<Rightarrow> int \<Rightarrow> int \<Rightarrow> checker \<Rightarrow> (string + release \<times> int) \<times> checker" where
  "check_build gj c net force now done_at k =
     (case (if force then None else fresh_within (uc_CacheTTL c) now (ck_Cached k)) of
        Some rel \<Rightarrow> (Inr (rel, snd (the (ck_Cached k))), k)
      | None \<Rightarrow>
          (case (if force then None else fresh_within negativeCacheTTL now (ck_Failure k)) of
             Some e \<Rightarrow> (Inl e, k)
           | None \<Rightarrow>
               (case fetch gj c net of
                  Inl e \<Rightarrow> (Inl e, k\<lparr>ck_Failure := Some (e, done_at)\<rparr>)
                | Inr rel \<Rightarrow> (Inr (rel, done_at), \<lparr>ck_Cached = Some (rel, done_at), ck_Failure = None\<rparr>))))"

definition asks_github :: "upd_config \<Rightarrow> bool \<Rightarrow> int \<Rightarrow> checker \<Rightarrow> bool" where
  "asks_github c force now k \<longleftrightarrow>
     force \<or> fresh_within (uc_CacheTTL c) now (ck_Cached k) = None \<and> fresh_within negativeCacheTTL now (ck_Failure k) = None"

section \<open>The comparison\<close>

definition describesAtOrAfter :: "string \<Rightarrow> string \<Rightarrow> bool" where
  "describesAtOrAfter local0 tag =
     (let loc = TrimSuffix local0 ''-dirty'' in
      if loc = tag then True
      else case CutPrefix loc (tag @ ''-'') of
        None \<Rightarrow> False
      | Some rest \<Rightarrow>
          (case CutText rest ''-g'' of
             None \<Rightarrow> False
           | Some (count, sha) \<Rightarrow> if count = [] \<or> sha = [] then False else Atoi count \<noteq> None))"

record upd_status =
  st_Current :: version_info
  st_Latest :: "release option"
  st_UpdateAvailable :: bool
  st_CheckedAt :: int
  st_Reason :: string

definition compare :: "upd_config \<Rightarrow> version_info \<Rightarrow> release \<Rightarrow> int \<Rightarrow> upd_status" where
  "compare c loc rel at =
     (let st = \<lparr>st_Current = loc, st_Latest = Some rel, st_UpdateAvailable = False, st_CheckedAt = at, st_Reason = []\<rparr> in
      if re_Channel rel = ChannelRelease then
        (if vi_Version loc = [] \<or> vi_Version loc = ''dev''
         then st\<lparr>st_Reason := ''local build has no release version to compare; rebuild with the release ldflags to enable update checks''\<rparr>
         else st\<lparr>st_UpdateAvailable := (re_Tag rel \<noteq> [] \<and> \<not> describesAtOrAfter (vi_Version loc) (re_Tag rel))\<rparr>)
      else if IsDev loc
        then st\<lparr>st_Reason := ''local build has no commit stamp to compare against '' @ uc_Owner c @ ''/'' @ uc_Repo c @ ''@'' @ uc_Branch c\<rparr>
      else st\<lparr>st_UpdateAvailable := (re_Commit rel \<noteq> [] \<and> \<not> EqualFold (re_Commit rel) (vi_Commit loc))\<rparr>)"

definition Status :: "gh_codec \<Rightarrow> upd_config \<Rightarrow> version_info \<Rightarrow> gh_net \<Rightarrow> bool \<Rightarrow> int \<Rightarrow> int \<Rightarrow> checker
    \<Rightarrow> (string \<times> upd_status + upd_status) \<times> checker" where
  "Status gj c loc net force now done_at k =
     (case check_build gj c net force now done_at k of
        (Inl e, k') \<Rightarrow> (Inl (e, \<lparr>st_Current = loc, st_Latest = None, st_UpdateAvailable = False, st_CheckedAt = done_at, st_Reason = []\<rparr>), k')
      | (Inr (rel, at), k') \<Rightarrow> (Inr (compare c loc rel at), k'))"

definition ParseForce :: "(string \<Rightarrow> string) \<Rightarrow> string \<Rightarrow> bool" where
  "ParseForce uni v \<longleftrightarrow> ToLower uni (TrimSpace v) \<in> {''1'', ''true'', ''yes''}"

section \<open>The runner\<close>

record run_state =
  ru_State :: string
  ru_StartedAt :: "int option"
  ru_FinishedAt :: "int option"
  ru_Commit :: string
  ru_Error :: string
  ru_Log :: string

definition StateIdle :: string where "StateIdle = ''idle''"
definition StateRunning :: string where "StateRunning = ''running''"
definition StateSuccess :: string where "StateSuccess = ''success''"
definition StateFailed :: string where "StateFailed = ''failed''"

definition plain_state :: "string \<Rightarrow> run_state" where
  "plain_state st = \<lparr>ru_State = st, ru_StartedAt = None, ru_FinishedAt = None, ru_Commit = [], ru_Error = [], ru_Log = []\<rparr>"

definition Running :: "run_state \<Rightarrow> bool" where "Running r \<longleftrightarrow> ru_State r = StateRunning"

definition Terminal :: "run_state \<Rightarrow> bool" where "Terminal r \<longleftrightarrow> ru_State r = StateSuccess \<or> ru_State r = StateFailed"

record runner_config =
  rn_TriggerPath :: string
  rn_StatusPath :: string
  rn_WatcherPath :: string
  rn_Command :: "string list"
  rn_StaleAfter :: int

definition DefaultStaleAfter :: int where "DefaultStaleAfter = 2 * 3600 * 1000000000"

definition NewRunner :: "runner_config \<Rightarrow> runner_config" where
  "NewRunner c = \<lparr>rn_TriggerPath = or_default (rn_TriggerPath c) ''/var/lib/svkexe/update.trigger'',
     rn_StatusPath = or_default (rn_StatusPath c) ''/var/lib/svkexe/update-status.json'',
     rn_WatcherPath = or_default (rn_WatcherPath c) ''/var/lib/svkexe/update-watcher'',
     rn_Command = rn_Command c, rn_StaleAfter = (if rn_StaleAfter c \<le> 0 then DefaultStaleAfter else rn_StaleAfter c)\<rparr>"

definition NewRunnerFromEnv :: "(string \<Rightarrow> string) \<Rightarrow> runner_config" where
  "NewRunnerFromEnv env = NewRunner \<lparr>rn_TriggerPath = env ''SVKEXE_UPDATE_TRIGGER'', rn_StatusPath = env ''SVKEXE_UPDATE_STATUS'',
     rn_WatcherPath = env ''SVKEXE_UPDATE_WATCHER'', rn_Command = Fields (env ''SVKEXE_UPDATE_COMMAND''), rn_StaleAfter = 0\<rparr>"

text \<open>The host: its files and directories, the commands that were started on it, the clock, and which of its next operations fail.\<close>

record upd_host =
  h_Files :: "string \<rightharpoonup> string"
  h_Dirs :: "string set"
  h_Started :: "string list list"
  h_Clock :: int
  h_Faults :: "bool list"

record run_codec =
  rj_Read :: "string \<Rightarrow> string + run_state"
  rj_Show :: "run_state \<Rightarrow> string"
  rj_Trigger :: "int \<Rightarrow> string"
  rj_Time :: "int \<Rightarrow> string"

text \<open>An operation of the host: whether it is refused, and the host after it.\<close>

definition host_op :: "upd_host \<Rightarrow> bool \<times> upd_host" where
  "host_op h = (case h_Faults h of [] \<Rightarrow> (False, h) | f # fs \<Rightarrow> (f, h\<lparr>h_Faults := fs\<rparr>))"

datatype file_read = No_file | Unreadable | Contents string

definition read_file :: "string \<Rightarrow> upd_host \<Rightarrow> file_read \<times> upd_host" where
  "read_file p h =
     (let (bad, h') = host_op h in
      (if bad then Unreadable else if p \<in> h_Dirs h then Unreadable
       else case h_Files h p of None \<Rightarrow> No_file | Some x \<Rightarrow> Contents x, h'))"

definition Available :: "runner_config \<Rightarrow> upd_host \<Rightarrow> (string option) \<times> upd_host" where
  "Available rc h =
     (if rn_Command rc \<noteq> [] then (None, h)
      else let (bad, h1) = host_op h in
        if bad \<or> (h_Files h (rn_WatcherPath rc) = None \<and> rn_WatcherPath rc \<notin> h_Dirs h)
        then (Some (''no update watcher is installed ('' @ rn_WatcherPath rc
          @ '' is missing); run scripts/install-update-units.sh as root, or set SVKEXE_UPDATE_COMMAND''), h1)
        else let d = Dir (rn_TriggerPath rc); (bad2, h2) = host_op h1 in
          if bad2 \<or> (h_Files h d = None \<and> d \<notin> h_Dirs h) then (Some (''update trigger directory '' @ d @ '' is not accessible''), h2)
          else if d \<notin> h_Dirs h then (Some (''update trigger path '' @ d @ '' is not a directory''), h2)
          else (None, h2))"

text \<open>The state of the last update, and whether reading it failed.\<close>

definition RunStatus :: "run_codec \<Rightarrow> runner_config \<Rightarrow> upd_host \<Rightarrow> (run_state \<times> bool) \<times> upd_host" where
  "RunStatus rj rc h =
     (case read_file (rn_StatusPath rc) h of
        (No_file, h') \<Rightarrow> ((plain_state StateIdle, False), h')
      | (Unreadable, h') \<Rightarrow> ((plain_state StateIdle, True), h')
      | (Contents x, h') \<Rightarrow>
          if TrimSpace x = [] then ((plain_state StateIdle, False), h')
          else (case rj_Read rj x of
             Inl e \<Rightarrow> (((plain_state StateFailed)\<lparr>ru_Error := ''malformed update status '' @ rn_StatusPath rc @ '': '' @ e\<rparr>, False), h')
           | Inr st0 \<Rightarrow>
               let st = (if ru_State st0 = [] then st0\<lparr>ru_State := StateIdle\<rparr> else st0) in
               (case ru_StartedAt st of
                  None \<Rightarrow> ((st, False), h')
                | Some t \<Rightarrow>
                    if Running st \<and> h_Clock h - t > rn_StaleAfter rc
                    then ((st\<lparr>ru_State := StateFailed, ru_Error := ''update has been running since '' @ rj_Time rj t
                      @ '' with no result; treating it as failed''\<rparr>, False), h')
                    else ((st, False), h'))))"

text \<open>CreateTemp, Write, Close, Chmod, Rename.  A directory that is not there refuses the first.\<close>

fun host_ops :: "nat \<Rightarrow> upd_host \<Rightarrow> bool \<times> upd_host" where
  "host_ops 0 h = (False, h)"
| "host_ops (Suc n) h = (let (bad, h') = host_op h in if bad then (True, h') else host_ops n h')"

definition writeFileAtomic :: "string \<Rightarrow> string \<Rightarrow> upd_host \<Rightarrow> bool \<times> upd_host" where
  "writeFileAtomic p x h =
     (let (bad, h') = host_ops 5 h in
      if bad \<or> Dir p \<notin> h_Dirs h \<or> p \<in> h_Dirs h then (True, h') else (False, h'\<lparr>h_Files := (h_Files h)(p \<mapsto> x)\<rparr>))"

datatype upd_err = Cancelled string | InProgress | Unavailable string | Not_started string

definition newline_text :: string where "newline_text = [CHR 0x0A]"

definition running_since :: "int \<Rightarrow> run_state" where
  "running_since t = (plain_state StateRunning)\<lparr>ru_StartedAt := Some t\<rparr>"

definition writeTrigger :: "run_codec \<Rightarrow> runner_config \<Rightarrow> upd_host \<Rightarrow> (upd_err + unit) \<times> upd_host" where
  "writeTrigger rj rc h =
     (case writeFileAtomic (rn_TriggerPath rc) (rj_Trigger rj (h_Clock h) @ newline_text) h of
        (True, h') \<Rightarrow> (Inl (Not_started (''write update trigger '' @ rn_TriggerPath rc)), h')
      | (False, h') \<Rightarrow> (Inr (), snd (writeFileAtomic (rn_StatusPath rc) (rj_Show rj (running_since (h_Clock h)) @ newline_text) h')))"

definition startCommand :: "runner_config \<Rightarrow> upd_host \<Rightarrow> (upd_err + unit) \<times> upd_host" where
  "startCommand rc h =
     (case host_op h of
        (True, h') \<Rightarrow> (Inl (Not_started (''start update command '' @ hd (rn_Command rc))), h')
      | (False, h') \<Rightarrow> (Inr (), h'\<lparr>h_Started := h_Started h @ [rn_Command rc]\<rparr>))"

definition Start :: "run_codec \<Rightarrow> runner_config \<Rightarrow> string option \<Rightarrow> upd_host \<Rightarrow> (upd_err + unit) \<times> upd_host" where
  "Start rj rc cancelled h =
     (case cancelled of Some e \<Rightarrow> (Inl (Cancelled (''start update: '' @ e)), h)
      | None \<Rightarrow>
          let ((st, _), h1) = RunStatus rj rc h in
          if Running st then (Inl InProgress, h1)
          else (case Available rc h1 of
             (Some reason, h2) \<Rightarrow> (Inl (Unavailable reason), h2)
           | (None, h2) \<Rightarrow> if rn_Command rc \<noteq> [] then startCommand rc h2 else writeTrigger rj rc h2))"

section \<open>The operator's handlers\<close>

record upd_service =
  sx_Codec :: gh_codec
  sx_Config :: upd_config
  sx_Local :: version_info
  sx_Runner :: runner_config
  sx_Run :: run_codec

datatype upd_body = Version_body version_info | Status_body upd_status | Run_body run_state | Text_body string

definition disabled :: "nat \<times> upd_body" where
  "disabled = (503, Text_body ''self-update is not configured in this deployment'')"

definition adminVersion :: "version_info \<Rightarrow> upd_service option \<Rightarrow> nat \<times> upd_body" where
  "adminVersion stamp sv = (200, Version_body (case sv of None \<Rightarrow> stamp | Some x \<Rightarrow> sx_Local x))"

definition adminUpdateCheck :: "(string \<Rightarrow> string) \<Rightarrow> upd_service option \<Rightarrow> gh_net \<Rightarrow> string \<Rightarrow> int \<Rightarrow> int \<Rightarrow> checker
    \<Rightarrow> (nat \<times> upd_body) \<times> checker" where
  "adminUpdateCheck uni sv net force now done_at k =
     (case sv of None \<Rightarrow> (disabled, k)
      | Some x \<Rightarrow>
          (case Status (sx_Codec x) (sx_Config x) (sx_Local x) net (ParseForce uni force) now done_at k of
             (Inl (e, _), k') \<Rightarrow> ((502, Text_body (''update check: '' @ e)), k')
           | (Inr st, k') \<Rightarrow> ((200, Status_body st), k')))"

definition adminUpdateStatus :: "upd_service option \<Rightarrow> upd_host \<Rightarrow> (nat \<times> upd_body) \<times> upd_host" where
  "adminUpdateStatus sv h =
     (case sv of None \<Rightarrow> (disabled, h)
      | Some x \<Rightarrow>
          let ((st, bad), h') = RunStatus (sx_Run x) (sx_Runner x) h in
          ((if bad then (500, Text_body ''internal error'') else (200, Run_body st)), h'))"

definition adminUpdateStart :: "upd_service option \<Rightarrow> string option \<Rightarrow> upd_host \<Rightarrow> (nat \<times> upd_body) \<times> upd_host" where
  "adminUpdateStart sv cancelled h =
     (case sv of None \<Rightarrow> (disabled, h)
      | Some x \<Rightarrow>
          (case Start (sx_Run x) (sx_Runner x) cancelled h of
             (Inl InProgress, h') \<Rightarrow> ((409, Text_body ''update already in progress''), h')
           | (Inl (Unavailable reason), h') \<Rightarrow> ((503, Text_body (''update not available in this deployment: '' @ reason)), h')
           | (Inl _, h') \<Rightarrow> ((500, Text_body ''internal error''), h')
           | (Inr _, h') \<Rightarrow>
               let ((st, bad), h2) = RunStatus (sx_Run x) (sx_Runner x) h' in
               ((202, Run_body (if bad then plain_state StateRunning else st)), h2)))"

section \<open>How often GitHub is asked\<close>

lemma env_ttl_positive: "0 < uc_CacheTTL (NewConfigFromEnv env dur)"
  by (simp add: NewConfigFromEnv_def withDefaults_def DefaultCacheTTL_def)

text \<open>Checks one after the other, each with its force flag, its beginning, its end and what GitHub would answer; the log has
  those that ask.\<close>

fun ask_log :: "gh_codec \<Rightarrow> upd_config \<Rightarrow> (bool \<times> int \<times> int \<times> gh_net) list \<Rightarrow> checker \<Rightarrow> (bool \<times> int \<times> int) list" where
  "ask_log gj c [] k = []"
| "ask_log gj c ((f, now, d, net) # xs) k =
     (if asks_github c f now k then [(f, now, d)] else []) @ ask_log gj c xs (snd (check_build gj c net f now d k))"

fun in_order :: "int \<Rightarrow> (bool \<times> int \<times> int \<times> gh_net) list \<Rightarrow> bool" where
  "in_order t [] \<longleftrightarrow> True"
| "in_order t ((f, now, d, net) # xs) \<longleftrightarrow> t \<le> now \<and> now \<le> d \<and> in_order d xs"

definition asked_at :: "int \<Rightarrow> checker \<Rightarrow> bool" where
  "asked_at t k \<longleftrightarrow> (\<exists>rel. ck_Cached k = Some (rel, t)) \<or> (\<exists>e. ck_Failure k = Some (e, t))"

lemma check_asks: "asks_github c f now k \<Longrightarrow> asked_at d (snd (check_build gj c net f now d k))"
  by (auto simp: asks_github_def check_build_def asked_at_def split: sum.split)

lemma check_cached: "\<not> asks_github c f now k \<Longrightarrow> snd (check_build gj c net f now d k) = k"
  by (auto simp: asks_github_def check_build_def split: option.split)

lemma unforced_waits: "asked_at t k \<Longrightarrow> asks_github c False now k \<Longrightarrow> t + min (uc_CacheTTL c) negativeCacheTTL \<le> now"
  by (auto simp: asked_at_def asks_github_def fresh_within_def split: if_splits)

lemma ask_log_waits:
  assumes "asked_at t k" and "t \<le> t'" and "in_order t' xs" and "(f, now, d) \<in> set (ask_log gj c xs k)"
  shows "f \<or> t + min (uc_CacheTTL c) negativeCacheTTL \<le> now"
  using assms
proof (induction xs arbitrary: t t' k)
  case (Cons x xs)
  obtain f0 n0 d0 net where x: "x = (f0, n0, d0, net)" by (cases x) auto
  let ?k = "snd (check_build gj c net f0 n0 d0 k)"
  have le: "t \<le> n0" "n0 \<le> d0" "in_order d0 xs" using Cons.prems(2,3) x by auto
  show ?case
  proof (cases "asks_github c f0 n0 k")
    case True
    have tail: "(f, now, d) \<in> set (ask_log gj c xs ?k) \<Longrightarrow> f \<or> t + min (uc_CacheTTL c) negativeCacheTTL \<le> now"
      using Cons.IH [OF check_asks [OF True] order_refl le(3)] le(1,2) by fastforce
    show ?thesis using Cons.prems(4) True tail unforced_waits [OF Cons.prems(1)] unfolding x by auto
  next
    case False
    have "?k = k" using check_cached [OF False] .
    then show ?thesis using Cons.IH [OF Cons.prems(1) _ le(3)] Cons.prems(4) False le unfolding x by auto
  qed
qed simp

text \<open>Between two requests to GitHub, however many checks the pages and the API make in between and whatever GitHub answers,
  at least the shorter of the two cache times passes, unless the later one was forced.\<close>

theorem checker_quiet:
  assumes "in_order t xs"
  shows "sorted_wrt (\<lambda>(_, _, d) (forced, now, _). forced \<or> d + min (uc_CacheTTL c) negativeCacheTTL \<le> now) (ask_log gj c xs k)"
  using assms
proof (induction xs arbitrary: t k)
  case (Cons x xs)
  obtain f0 n0 d0 net where x: "x = (f0, n0, d0, net)" by (cases x) auto
  have o: "in_order d0 xs" using Cons.prems x by simp
  from Cons.IH [OF o] ask_log_waits [OF check_asks order_refl o] show ?case
    unfolding x by fastforce
qed simp

section \<open>Builds past a tag\<close>

lemma CutText_append: "CHR ''g'' \<notin> set a \<Longrightarrow> CutText (a @ ''-g'' @ b) ''-g'' = Some (a, b)"
proof (induction a)
  case (Cons c a)
  have "\<not> HasPrefix (c # a @ ''-g'' @ b) ''-g''"
    using Cons.prems by (cases a) (auto simp: HasPrefix_def)
  with Cons show ?case by simp
qed (simp add: HasPrefix_def)

lemma CutText_Some: "CutText s sep = Some (a, b) \<Longrightarrow> s = a @ sep @ b"
proof (induction s arbitrary: a)
  case (Cons c s)
  show ?case
  proof (cases "HasPrefix (c # s) sep")
    case True
    then have "c # s = sep @ drop (length sep) (c # s)" by (metis HasPrefix_def append_take_drop_id)
    with True Cons.prems show ?thesis by auto
  qed (use Cons in auto)
qed (auto split: if_splits)

lemma Atoi_plain: "Atoi n \<noteq> None \<Longrightarrow> n \<noteq> [] \<and> CHR ''g'' \<notin> set n"
proof -
  have "CHR ''g'' \<notin> set ds" if "list_all is_digit ds" for ds
    using that by (auto simp: list_all_iff is_digit_def byte_def)
  then show "Atoi n \<noteq> None \<Longrightarrow> n \<noteq> [] \<and> CHR ''g'' \<notin> set n"
    by (cases n) (auto simp: Atoi_def Let_def is_digit_def byte_def split: if_splits)
qed

text \<open>What \<^verbatim>\<open>git describe --tags --always --dirty\<close> prints for the \<open>n\<close>-th commit after a tag.\<close>

definition describe :: "string \<Rightarrow> nat \<Rightarrow> string \<Rightarrow> bool \<Rightarrow> string" where
  "describe tag n sha dirty =
     tag @ (if n = 0 then [] else ''-'' @ Itoa (int n) @ ''-g'' @ sha) @ (if dirty then ''-dirty'' else [])"

lemma describes_iff:
  "describesAtOrAfter l tag \<longleftrightarrow>
     (let b = TrimSuffix l ''-dirty'' in b = tag \<or> (\<exists>count sha. b = tag @ ''-'' @ count @ ''-g'' @ sha \<and> Atoi count \<noteq> None \<and> sha \<noteq> []))"
proof -
  let ?b = "TrimSuffix l ''-dirty''"
  have "(case CutPrefix ?b (tag @ ''-'') of None \<Rightarrow> False
      | Some rest \<Rightarrow> (case CutText rest ''-g'' of None \<Rightarrow> False
          | Some (count, sha) \<Rightarrow> if count = [] \<or> sha = [] then False else Atoi count \<noteq> None))
    \<longleftrightarrow> (\<exists>count sha. ?b = tag @ ''-'' @ count @ ''-g'' @ sha \<and> Atoi count \<noteq> None \<and> sha \<noteq> [])" (is "?l \<longleftrightarrow> ?r")
  proof
    assume ?l
    then obtain rest count sha where r: "CutPrefix ?b (tag @ ''-'') = Some rest" "CutText rest ''-g'' = Some (count, sha)"
        "sha \<noteq> []" "Atoi count \<noteq> None"
      by (auto split: option.splits if_splits)
    from r(1) have "?b = (tag @ ''-'') @ rest" by (simp only: CutPrefix_Some)
    with CutText_Some [OF r(2)] r(3,4) show ?r by auto
  next
    assume ?r
    then obtain count sha where b: "?b = (tag @ ''-'') @ (count @ ''-g'' @ sha)" and c: "Atoi count \<noteq> None" "sha \<noteq> []" by auto
    have "CutPrefix ?b (tag @ ''-'') = Some (count @ ''-g'' @ sha)" using b by (simp only: CutPrefix_Some)
    then show ?l using CutText_append [of count sha] Atoi_plain [OF c(1)] c by (simp del: append.simps)
  qed
  then show ?thesis by (simp add: describesAtOrAfter_def Let_def)
qed

lemma dirty_trimmed: "\<not> HasSuffix b ''-dirty'' \<Longrightarrow> TrimSuffix (b @ (if dirty then ''-dirty'' else [])) ''-dirty'' = b"
  by (cases dirty) (simp_all add: TrimSuffix_append TrimSuffix_same)

text \<open>A build made from a tagged commit or from one after it is never told that the tag is an update, dirty or not; and only
  a version of that shape counts as one.\<close>

theorem describe_recognised:
  assumes "n < 2 ^ 63" and "list_all sha_digit sha" and "sha \<noteq> []" and "\<not> HasSuffix tag ''-dirty''"
  shows "describesAtOrAfter (describe tag n sha dirty) tag
    \<and> (\<forall>l t. describesAtOrAfter l t \<longrightarrow> (\<exists>rest. l = t @ rest \<or> l = t @ rest @ ''-dirty''))"
proof (intro conjI allI impI)
  let ?b = "tag @ (if n = 0 then [] else ''-'' @ Itoa (int n) @ ''-g'' @ sha)"
  have "\<not> HasSuffix ?b ''-dirty''"
  proof (cases "n = 0")
    case False
    have "last sha \<noteq> CHR ''y''" using assms(2,3) by (auto simp: list_all_iff sha_digit_def is_digit_def byte_def dest!: bspec [OF _ last_in_set])
    moreover have "last ?b = last sha" using False assms(3) by simp
    moreover have "last b = CHR ''y''" if "HasSuffix b ''-dirty''" for b using that by (auto simp: HasSuffix_iff)
    ultimately show ?thesis by metis
  qed (use assms(4) in simp)
  from dirty_trimmed [OF this, of dirty]
  have b: "TrimSuffix (describe tag n sha dirty) ''-dirty'' = ?b" by (simp add: describe_def)
  have "Atoi (Itoa (int n)) \<noteq> None" using Atoi_Itoa [of "int n"] assms(1) by simp
  then show "describesAtOrAfter (describe tag n sha dirty) tag"
    unfolding describes_iff b Let_def using assms(3) by (cases "n = 0") auto
next
  fix l t assume "describesAtOrAfter l t"
  then obtain rest where "TrimSuffix l ''-dirty'' = t @ rest" by (auto simp: describes_iff Let_def)
  moreover have "l = TrimSuffix l ''-dirty'' \<or> l = TrimSuffix l ''-dirty'' @ ''-dirty''"
    by (metis HasSuffix_iff TrimSuffix_append TrimSuffix_same)
  ultimately show "\<exists>rest. l = t @ rest \<or> l = t @ rest @ ''-dirty''" by (metis append.assoc)
qed

section \<open>One update at a time\<close>

lemma strip_keeps: "c \<in> set s \<Longrightarrow> \<forall>w\<in>set ws. c \<notin> set w \<Longrightarrow> c \<in> set (strip_seqs ws s)"
proof (induction ws s rule: strip_seqs.induct)
  case (1 ws s)
  show ?case
  proof (cases "find (\<lambda>w. w \<noteq> [] \<and> HasPrefix s w) ws")
    case None
    then show ?thesis using 1 by (subst strip_seqs.simps) simp
  next
    case (Some w)
    then have "w \<in> set ws" "s = w @ drop (length w) s"
      by (auto dest!: find_Some_iff_mem simp: HasPrefix_def) (metis append_take_drop_id)
    then have "c \<in> set (drop (length w) s)" using "1.prems" by (metis UnE set_append)
    then show ?thesis using "1.IH" [OF Some] "1.prems"(2) Some by (subst strip_seqs.simps) simp
  qed
qed

lemma TrimSpace_keeps: "c \<in> set s \<Longrightarrow> \<forall>w\<in>set space_runes. c \<notin> set w \<Longrightarrow> c \<in> set (TrimSpace s)"
  unfolding TrimSpace_def by (auto intro!: strip_keeps)

lemma host_op_quiet: "h_Faults h = [] \<Longrightarrow> host_op h = (False, h)"
  by (simp add: host_op_def)

lemma host_ops_quiet: "h_Faults h = [] \<Longrightarrow> host_ops n h = (False, h)"
  by (induction n) (simp_all add: host_op_quiet)

lemma read_quiet: "h_Faults h = [] \<Longrightarrow> p \<notin> h_Dirs h \<Longrightarrow>
    read_file p h = (case h_Files h p of None \<Rightarrow> No_file | Some x \<Rightarrow> Contents x, h)"
  by (simp add: read_file_def host_op_quiet)

text \<open>An operation of the host changes no file.\<close>

lemma host_op_same: "h_Files (snd (host_op h)) = h_Files h" "h_Dirs (snd (host_op h)) = h_Dirs h"
    "h_Clock (snd (host_op h)) = h_Clock h" "h_Started (snd (host_op h)) = h_Started h"
  by (simp_all add: host_op_def split: list.split)

lemma read_same: "h_Files (snd (read_file p h)) = h_Files h" "h_Started (snd (read_file p h)) = h_Started h"
    "h_Clock (snd (read_file p h)) = h_Clock h"
  by (simp_all add: read_file_def host_op_same case_prod_beta Let_def)

lemma RunStatus_host: "snd (RunStatus rj rc h) = snd (read_file (rn_StatusPath rc) h)"
  by (simp add: RunStatus_def Let_def split: prod.split file_read.split sum.split option.split)

lemma Available_same: "h_Files (snd (Available rc h)) = h_Files h" "h_Started (snd (Available rc h)) = h_Started h"
    "h_Clock (snd (Available rc h)) = h_Clock h"
  by (simp_all add: Available_def Let_def case_prod_beta host_op_same)

lemma RunStatus_missing: "h_Faults h = [] \<Longrightarrow> rn_StatusPath rc \<notin> h_Dirs h \<Longrightarrow> h_Files h (rn_StatusPath rc) = None \<Longrightarrow>
    RunStatus rj rc h = ((plain_state StateIdle, False), h)"
  by (simp add: RunStatus_def read_quiet)

lemma RunStatus_seed:
  assumes "h_Faults h = []" and "rn_StatusPath rc \<notin> h_Dirs h" and "h_Files h (rn_StatusPath rc) = Some x" and "TrimSpace x \<noteq> []"
    and "rj_Read rj x = Inr (running_since t)"
  shows "Running (fst (fst (RunStatus rj rc h))) \<longleftrightarrow> h_Clock h - t \<le> rn_StaleAfter rc"
    and "snd (RunStatus rj rc h) = h"
  using assms by (auto simp: RunStatus_def read_quiet Let_def Running_def running_since_def plain_state_def StateRunning_def StateFailed_def
      StateIdle_def split: option.split)

text \<open>The state that is seeded reads back as it was written.\<close>

definition json_ok :: "run_codec \<Rightarrow> bool" where
  "json_ok rj \<longleftrightarrow> (\<forall>t. let x = rj_Show rj (running_since t) @ newline_text in
     rj_Read rj x = Inr (running_since t) \<and> TrimSpace x \<noteq> [])"

lemma started_trigger:
  assumes "rn_Command rc = []" and "h_Faults h = []" and "Start rj rc None h = (Inr (), h1)"
    and "Dir (rn_StatusPath rc) \<in> h_Dirs h" and "rn_StatusPath rc \<notin> h_Dirs h"
  shows "h_Files h1 (rn_StatusPath rc) = Some (rj_Show rj (running_since (h_Clock h)) @ newline_text)"
proof -
  obtain st b where r: "RunStatus rj rc h = ((st, b), h)"
    using RunStatus_host [of rj rc h] assms(2,5) by (cases "RunStatus rj rc h") (auto simp: read_quiet)
  have a: "Available rc h = (fst (Available rc h), h)"
    using assms(1,2) by (simp add: Available_def host_op_quiet Let_def)
  from assms(3) have "writeTrigger rj rc h = (Inr (), h1)"
    unfolding Start_def r using assms(1) a by (auto simp: Let_def split: if_splits prod.splits option.splits)
  then show ?thesis
    using assms(2,4,5) by (auto simp: writeTrigger_def writeFileAtomic_def host_ops_quiet split: if_splits)
qed

text \<open>C26: where the update is asked for through the trigger file and the file operations of the host succeed (at the request, and
  at the later one), a request that was accepted shuts out every later one, with nothing written, until a result replaces the
  state it left; after the time a run may take at most, it no longer does.  Host failures are excluded: writing the state is best
  effort, and where it fails the request is accepted all the same and shuts out nobody.\<close>

theorem start_exclusive:
  assumes "json_ok rj" and "rn_Command rc = []" and "h_Faults h = []" and "Start rj rc None h = (Inr (), h1)"
    and "Dir (rn_StatusPath rc) \<in> h_Dirs h" and "rn_StatusPath rc \<notin> h_Dirs h"
    and "h_Files h2 (rn_StatusPath rc) = h_Files h1 (rn_StatusPath rc)" and "h_Faults h2 = []" and "rn_StatusPath rc \<notin> h_Dirs h2"
  shows "if h_Clock h2 - h_Clock h \<le> rn_StaleAfter rc then Start rj rc None h2 = (Inl InProgress, h2)
    else fst (Start rj rc None h2) \<noteq> Inl InProgress"
proof -
  have x: "h_Files h2 (rn_StatusPath rc) = Some (rj_Show rj (running_since (h_Clock h)) @ newline_text)"
    using started_trigger [OF assms(2-6)] assms(7) by simp
  have j: "rj_Read rj (rj_Show rj (running_since (h_Clock h)) @ newline_text) = Inr (running_since (h_Clock h))"
    "TrimSpace (rj_Show rj (running_since (h_Clock h)) @ newline_text) \<noteq> []"
    using assms(1) by (simp_all add: json_ok_def Let_def)
  obtain st b where r: "RunStatus rj rc h2 = ((st, b), h2)"
    using RunStatus_seed(2) [OF assms(8,9) x j(2) j(1)] by (cases "RunStatus rj rc h2") auto
  have run: "Running st \<longleftrightarrow> h_Clock h2 - h_Clock h \<le> rn_StaleAfter rc"
    using RunStatus_seed(1) [OF assms(8,9) x j(2) j(1)] r by simp
  show ?thesis
  proof (cases "Running st")
    case True
    with run show ?thesis by (simp add: Start_def r)
  next
    case False
    with run show ?thesis by (auto simp: Start_def r writeTrigger_def startCommand_def split: option.split prod.split bool.split)
  qed
qed

lemma start_command:
  assumes "rn_Command rc \<noteq> []" and "h_Faults h = []" and "rn_StatusPath rc \<notin> h_Dirs h" and "h_Files h (rn_StatusPath rc) = None"
  shows "Start rj rc None h = (Inr (), h\<lparr>h_Started := h_Started h @ [rn_Command rc]\<rparr>)"
  using assms by (simp add: Start_def RunStatus_missing Running_def plain_state_def StateIdle_def StateRunning_def Available_def startCommand_def
      host_op_quiet)

text \<open>Where a command is configured instead, nothing marks the run it starts: until the command itself has written a state,
  every further request is accepted and starts it again, beside the one that runs.\<close>

theorem command_starts_again:
  assumes "rn_Command rc \<noteq> []" and "h_Faults h = []" and "rn_StatusPath rc \<notin> h_Dirs h" and "h_Files h (rn_StatusPath rc) = None"
  shows "h_Started (((\<lambda>h. snd (Start rj rc None h)) ^^ n) h) = h_Started h @ replicate n (rn_Command rc)
    \<and> fst (Start rj rc None (((\<lambda>h. snd (Start rj rc None h)) ^^ n) h)) = Inr ()"
proof -
  have n: "((\<lambda>h. snd (Start rj rc None h)) ^^ n) h = h\<lparr>h_Started := h_Started h @ replicate n (rn_Command rc)\<rparr>"
  proof (induction n)
    case (Suc n)
    have "Start rj rc None (h\<lparr>h_Started := h_Started h @ replicate n (rn_Command rc)\<rparr>)
      = (Inr (), h\<lparr>h_Started := (h_Started h @ replicate n (rn_Command rc)) @ [rn_Command rc]\<rparr>)"
      using start_command [of rc "h\<lparr>h_Started := h_Started h @ replicate n (rn_Command rc)\<rparr>" rj] assms by simp
    with Suc show ?case by (simp add: replicate_append_same)
  qed simp
  show ?thesis
    unfolding n using start_command [of rc "h\<lparr>h_Started := h_Started h @ replicate n (rn_Command rc)\<rparr>" rj] assms by simp
qed

text \<open>A request was placed: a command was started or the trigger file is there.\<close>

definition placed :: "runner_config \<Rightarrow> upd_host \<Rightarrow> upd_host \<Rightarrow> bool" where
  "placed rc h h' \<longleftrightarrow> h_Started h' = h_Started h @ [rn_Command rc] \<or> rn_Command rc = [] \<and> h_Files h' (rn_TriggerPath rc) \<noteq> None"

definition untouched :: "upd_host \<Rightarrow> upd_host \<Rightarrow> bool" where
  "untouched h h' \<longleftrightarrow> h_Files h' = h_Files h \<and> h_Started h' = h_Started h"

lemma host_ops_same: "h_Files (snd (host_ops n h)) = h_Files h" "h_Started (snd (host_ops n h)) = h_Started h"
  by (induction n arbitrary: h) (simp_all add: case_prod_beta host_op_same Let_def)

lemma write_outcome: "writeFileAtomic p x h = (bad, h') \<Longrightarrow> h_Started h' = h_Started h \<and> h_Files h' = (if bad then h_Files h else (h_Files h)(p \<mapsto> x))"
  using host_ops_same [of 5 h] by (auto simp: writeFileAtomic_def case_prod_beta Let_def split: if_splits)

lemma write_keeps: "h_Files h q \<noteq> None \<Longrightarrow> h_Files (snd (writeFileAtomic p x h)) q \<noteq> None"
  using write_outcome [of p x h "fst (writeFileAtomic p x h)" "snd (writeFileAtomic p x h)"] by auto

lemma trigger_outcome:
  "writeTrigger rj rc h = (r, h') \<Longrightarrow> rn_Command rc = [] \<Longrightarrow> (case r of Inl _ \<Rightarrow> untouched h h' | Inr _ \<Rightarrow> placed rc h h')"
proof -
  assume w: "writeTrigger rj rc h = (r, h')" and c: "rn_Command rc = []"
  obtain bad h1 where h1: "writeFileAtomic (rn_TriggerPath rc) (rj_Trigger rj (h_Clock h) @ newline_text) h = (bad, h1)" by (metis surj_pair)
  show ?thesis
  proof (cases bad)
    case True
    with w h1 write_outcome [OF h1] show ?thesis by (auto simp: writeTrigger_def untouched_def)
  next
    case False
    then have "h_Files h1 (rn_TriggerPath rc) \<noteq> None" using write_outcome [OF h1] by simp
    from write_keeps [OF this] w h1 False c show ?thesis by (auto simp: writeTrigger_def placed_def)
  qed
qed

lemma command_outcome: "startCommand rc h = (r, h') \<Longrightarrow> (case r of Inl _ \<Rightarrow> untouched h h' | Inr _ \<Rightarrow> placed rc h h')"
  using host_op_same [of h] by (auto simp: startCommand_def untouched_def placed_def split: prod.splits bool.splits)

lemma start_outcome: "Start rj rc cancelled h = (r, h') \<Longrightarrow> (case r of Inl _ \<Rightarrow> untouched h h' | Inr _ \<Rightarrow> placed rc h h')"
proof -
  assume st: "Start rj rc cancelled h = (r, h')"
  obtain x b h1 where r1: "RunStatus rj rc h = ((x, b), h1)" by (metis surj_pair)
  have h1: "untouched h h1" using RunStatus_host [of rj rc h] r1 read_same [of "rn_StatusPath rc" h] by (simp add: untouched_def)
  obtain why h2 where a: "Available rc h1 = (why, h2)" by (metis surj_pair)
  have h2: "untouched h h2" using Available_same [of rc h1] a h1 by (simp add: untouched_def)
  have go: "(case r of Inl _ \<Rightarrow> untouched h h' | Inr _ \<Rightarrow> placed rc h h')"
    if "(if rn_Command rc \<noteq> [] then startCommand rc h2 else writeTrigger rj rc h2) = (r, h')"
    using that command_outcome [of rc h2 r h'] trigger_outcome [of rj rc h2 r h'] h2
    by (auto simp: untouched_def placed_def split: if_splits sum.splits)
  from st h1 h2 go show ?thesis
    by (auto simp: Start_def r1 a untouched_def split: option.splits if_splits)
qed

text \<open>C40: the operator's request for an update answers 202 only when it has been placed, 409 and 503 only when the runner said
  so, and otherwise 500; in each of those nothing was written and no command started.\<close>

theorem update_start_answers:
  assumes "adminUpdateStart sv cancelled h = ((code, body), h')"
  shows "(code = 202 \<and> (\<exists>x. sv = Some x \<and> placed (sx_Runner x) h h')) \<or> (code \<in> {409, 500, 503} \<and> untouched h h')"
proof (cases sv)
  case None
  with assms show ?thesis by (auto simp: adminUpdateStart_def disabled_def untouched_def)
next
  case (Some x)
  obtain r h1 where st: "Start (sx_Run x) (sx_Runner x) cancelled h = (r, h1)" by (metis surj_pair)
  note o = start_outcome [OF st]
  show ?thesis
  proof (cases r)
    case (Inl e)
    with assms Some st o show ?thesis by (cases e) (auto simp: adminUpdateStart_def)
  next
    case (Inr u)
    have "placed (sx_Runner x) h (snd (RunStatus (sx_Run x) (sx_Runner x) h1))"
      using o Inr RunStatus_host [of "sx_Run x" "sx_Runner x" h1] read_same [of "rn_StatusPath (sx_Runner x)" h1]
      by (simp add: placed_def)
    with assms Some st Inr show ?thesis by (auto simp: adminUpdateStart_def split: prod.splits)
  qed
qed

section \<open>Examples\<close>

definition demo_gh :: gh_codec where
  "demo_gh = \<lparr>gj_Commit = (\<lambda>b. Inr \<lparr>gc_SHA = b, gc_URL = [], gc_Date = 0\<rparr>), gj_Release = (\<lambda>_. Inl ''none'')\<rparr>"

definition demo_update :: upd_config where
  "demo_update = withDefaults \<lparr>uc_Owner = [], uc_Repo = [], uc_Branch = [], uc_Channel = [], uc_APIBase = [], uc_CacheTTL = 0, uc_Token = []\<rparr>"

text \<open>An outage: the second check comes ten seconds after the first and asks nothing, the third after a minute.\<close>

definition demo_checks :: "(bool \<times> int \<times> int \<times> gh_net) list" where
  "demo_checks = (let down = (\<lambda>_. Failed_request ''timeout''); sec = 1000000000 in
     [(False, 0, sec, down), (False, 11 * sec, 11 * sec, down), (False, 61 * sec, 62 * sec, down)])"

lemma demo_check_log: "ask_log demo_gh demo_update demo_checks NewChecker = [(False, 0, 1000000000), (False, 61000000000, 62000000000)]"
  by (simp add: demo_checks_def asks_github_def check_build_def fetch_def fetchBranch_def gh_get_def NewChecker_def fresh_within_def Let_def
      demo_update_def withDefaults_def or_default_def negativeCacheTTL_def ChannelBranch_def ChannelRelease_def)

theorem checker_quiet_witness:
  "sorted_wrt (\<lambda>(_, _, d) (forced, now, _). forced \<or> d + min (uc_CacheTTL demo_update) negativeCacheTTL \<le> now)
     [(False, 0, 1000000000), (False, 61000000000, 62000000000)]"
  using checker_quiet [of 0 demo_checks demo_update demo_gh NewChecker] unfolding demo_check_log
  by (simp add: demo_checks_def Let_def)

theorem describe_recognised_witness: "describesAtOrAfter (describe ''v1.2.3'' 4 ''abc1234'' True) ''v1.2.3''"
proof -
  have "list_all sha_digit ''abc1234''" "\<not> HasSuffix ''v1.2.3'' ''-dirty''" by code_simp+
  then show ?thesis using describe_recognised [of 4 "''abc1234''" "''v1.2.3''" True] by simp
qed

definition demo_runner :: "string list \<Rightarrow> runner_config" where
  "demo_runner cmd = \<lparr>rn_TriggerPath = ''/v/t'', rn_StatusPath = ''/v/s'', rn_WatcherPath = ''/v/w'', rn_Command = cmd, rn_StaleAfter = 100\<rparr>"

text \<open>A time is written as a sign and its digits in base one.\<close>

definition demo_run :: run_codec where
  "demo_run = \<lparr>rj_Read = (\<lambda>x. Inr (running_since ((if hd x = CHR ''-'' then - 1 else 1) * (int (length x) - 2)))),
     rj_Show = (\<lambda>st. case ru_StartedAt st of None \<Rightarrow> [] | Some t \<Rightarrow>
       (if t < 0 then CHR ''-'' else CHR ''+'') # replicate (nat (abs t)) CHR ''I''),
     rj_Trigger = (\<lambda>_. ''go''), rj_Time = (\<lambda>_. [])\<rparr>"

lemma demo_run_ok: "json_ok demo_run"
proof -
  have "TrimSpace (c # x) \<noteq> []" if "c \<in> {CHR ''+'', CHR ''-''}" for c x
    using TrimSpace_keeps [of c "c # x"] that by (auto simp: space_runes_def)
  then show ?thesis
    by (auto simp: json_ok_def demo_run_def running_since_def newline_text_def Let_def)
qed

definition demo_host :: upd_host where
  "demo_host = \<lparr>h_Files = [''/v/w'' \<mapsto> ''on''], h_Dirs = {''/v''}, h_Started = [], h_Clock = 0, h_Faults = []\<rparr>"

theorem command_starts_again_witness:
  "h_Started (((\<lambda>h. snd (Start demo_run (demo_runner [''update.sh'']) None h)) ^^ 2) demo_host) = [[''update.sh''], [''update.sh'']]"
  using command_starts_again [of "demo_runner [''update.sh'']" demo_host, where n = 2 and rj = demo_run]
  by (simp add: demo_runner_def demo_host_def numeral_2_eq_2)

definition demo_service :: "string list \<Rightarrow> upd_service" where
  "demo_service cmd = \<lparr>sx_Codec = demo_gh, sx_Config = demo_update,
     sx_Local = \<lparr>vi_Version = ''dev'', vi_Commit = [], vi_BuildDate = [], vi_PicoClaw = [], vi_Shelley = []\<rparr>,
     sx_Runner = demo_runner cmd, sx_Run = demo_run\<rparr>"

lemma demo_dir: "Dir ''/v/t'' = ''/v''" "Dir ''/v/s'' = ''/v''"
  by code_simp+

lemma demo_started: "\<exists>h1. Start demo_run (demo_runner []) None demo_host = (Inr (), h1)"
  by (simp add: Start_def RunStatus_missing demo_host_def demo_runner_def Running_def plain_state_def
      StateIdle_def StateRunning_def Available_def host_op_quiet demo_dir Let_def writeTrigger_def writeFileAtomic_def host_ops_quiet)

text \<open>A second request within the time is turned away, one after it is not.\<close>

theorem start_exclusive_witness:
  "\<exists>h1. Start demo_run (demo_runner []) None demo_host = (Inr (), h1)
     \<and> fst (Start demo_run (demo_runner []) None (h1\<lparr>h_Clock := 50\<rparr>)) = Inl InProgress
     \<and> fst (Start demo_run (demo_runner []) None (h1\<lparr>h_Clock := 101\<rparr>)) \<noteq> Inl InProgress"
proof -
  obtain h1 where h: "Start demo_run (demo_runner []) None demo_host = (Inr (), h1)" using demo_started by blast
  then have f: "h_Faults h1 = []" "rn_StatusPath (demo_runner []) \<notin> h_Dirs h1"
    by (simp_all add: Start_def RunStatus_missing demo_host_def demo_runner_def Running_def plain_state_def
      StateIdle_def StateRunning_def Available_def host_op_quiet demo_dir Let_def writeTrigger_def writeFileAtomic_def host_ops_quiet)
      auto
  have "if t \<le> 100 then Start demo_run (demo_runner []) None (h1\<lparr>h_Clock := t\<rparr>) = (Inl InProgress, h1\<lparr>h_Clock := t\<rparr>)
    else fst (Start demo_run (demo_runner []) None (h1\<lparr>h_Clock := t\<rparr>)) \<noteq> Inl InProgress" for t
    using start_exclusive [OF demo_run_ok _ _ h, of "h1\<lparr>h_Clock := t\<rparr>"] f by (simp add: demo_runner_def demo_host_def demo_dir)
  from this [of 50] this [of 101] h show ?thesis by simp
qed

theorem update_start_answers_witness:
  "\<exists>body h'. adminUpdateStart (Some (demo_service [])) None demo_host = ((202, body), h') \<and> placed (demo_runner []) demo_host h'"
proof -
  have "\<exists>body h'. adminUpdateStart (Some (demo_service [])) None demo_host = ((202, body), h')"
    by (simp add: adminUpdateStart_def Start_def demo_service_def RunStatus_missing demo_host_def demo_runner_def Running_def plain_state_def
        StateIdle_def StateRunning_def Available_def host_op_quiet demo_dir Let_def writeTrigger_def writeFileAtomic_def host_ops_quiet split: prod.split)
  then obtain body h' where r: "adminUpdateStart (Some (demo_service [])) None demo_host = ((202, body), h')" by blast
  from update_start_answers [OF r] r show ?thesis by (auto simp: demo_service_def)
qed

end
