(* ===== verification/Ssh_View.thy ===== *)
theory Ssh_View
  imports Api_Account Ssh_Registry Integrations Updater
begin

text \<open>
  What the commands of the SSH gateway answer with: \<^verbatim>\<open>src/internal/sshgw/view.go\<close> and the view types declared
  beside the commands, the call a command is given (\<^verbatim>\<open>cmdCtx\<close>), the server and its errors.

  The JSON form of an answer is the value it is marshalled from.  The text form is the data it prints, or the format and the
  arguments of the line that ends it; progress lines, warnings and column widths are left out.  A time is nanoseconds; how
  one is written is an argument (\<open>ss_Minute\<close>).
\<close>

section \<open>A VM\<close>

record task_json =
  tj_State :: string
  tj_Text :: string
  tj_Error :: string
  tj_Conversation :: string
  tj_Resumes :: int

record vm_json =
  vj_Name :: string
  vj_Status :: string
  vj_CPU :: int
  vj_MemoryMB :: int
  vj_DiskGB :: int
  vj_IP :: string
  vj_URL :: string
  vj_AppPort :: int
  vj_AppPublic :: bool
  vj_Nesting :: bool
  vj_NestingEffective :: bool
  vj_NestingPending :: bool
  vj_Task :: "task_json option"
  vj_Aliases :: "string list"
  vj_CreatedAt :: int

definition vmURL :: "string \<Rightarrow> string \<Rightarrow> string" where
  "vmURL domain name = (if domain = [] then [] else ''https://'' @ name @ ''.'' @ domain)"

definition task_of :: "container \<Rightarrow> task_json" where
  "task_of c = \<lparr>tj_State = c_InitialTaskState c, tj_Text = c_InitialTask c, tj_Error = c_InitialTaskError c,
     tj_Conversation = c_InitialTaskConversation c, tj_Resumes = c_InitialTaskResumes c\<rparr>"

definition newVMJSON :: "string \<Rightarrow> container \<Rightarrow> vm_json" where
  "newVMJSON domain c = \<lparr>vj_Name = c_Name c, vj_Status = c_Status c, vj_CPU = c_CPULimit c, vj_MemoryMB = c_MemoryMB c,
     vj_DiskGB = c_DiskGB c, vj_IP = c_IPAddress c, vj_URL = vmURL domain (c_Name c), vj_AppPort = c_AppPort c,
     vj_AppPublic = c_AppPublic c, vj_Nesting = c_Nesting c, vj_NestingEffective = NestingEffective c,
     vj_NestingPending = NestingPending c, vj_Task = (if c_InitialTaskState c \<noteq> [] then Some (task_of c) else None),
     vj_Aliases = map a_Hostname (c_Aliases c), vj_CreatedAt = c_CreatedAt c\<rparr>"

definition appPort :: "container \<Rightarrow> int" where
  "appPort c = (if c_AppPort c = 0 then DefaultAppPort else c_AppPort c)"

definition visibility :: "bool \<Rightarrow> string" where
  "visibility public = (if public then ''public'' else ''session required'')"

definition nestingSummary :: "container \<Rightarrow> string" where
  "nestingSummary c =
     (let state = (if NestingEffective c then ''on'' else ''off'') in
      if NestingPending c then state @ '' (restart pending)''
      else if c_Nesting c \<and> \<not> c_NestingAllowed c then state @ '' (the deployment forbids nested containers)''
      else state)"

definition aliasState :: "calias \<Rightarrow> string" where
  "aliasState a = (if a_Verified a then ''verified''
     else if a_LastError a \<noteq> [] then ''unverified: '' @ a_LastError a else ''unverified'')"

definition taskSummary :: "container \<Rightarrow> string" where
  "taskSummary c = (if c_InitialTaskState c = [] then ''none''
     else c_InitialTaskState c @ (if c_InitialTaskError c \<noteq> [] then '': '' @ c_InitialTaskError c else []))"

definition statusIcon :: "string \<Rightarrow> string" where
  "statusIcon status = (let s = map ascii_lower status in
     if s = ''running'' then ''[+]'' else if s = ''stopped'' then ''[-]'' else ''[~]'')"

definition formatMB :: "int \<Rightarrow> string" where
  "formatMB mb = (if mb \<ge> 1024 \<and> mb mod 1024 = 0 then Itoa (mb div 1024) @ ''GB'' else Itoa mb @ ''MB'')"

definition formatGB :: "int \<Rightarrow> string" where
  "formatGB gb = Itoa gb @ ''GB''"

text \<open>One row of the table of VMs, and the lines that describe one.\<close>

definition ls_row :: "container \<Rightarrow> string list" where
  "ls_row c = [c_Name c, statusIcon (c_Status c), c_Status c, Itoa (c_CPULimit c), formatMB (c_MemoryMB c), formatGB (c_DiskGB c)]"

definition stat_lines :: "(int \<Rightarrow> string) \<Rightarrow> string \<Rightarrow> container \<Rightarrow> (string \<times> string) list" where
  "stat_lines minute domain c =
     [(''Name'', c_Name c), (''Status'', statusIcon (c_Status c) @ '' '' @ c_Status c), (''CPU'', Itoa (c_CPULimit c) @ '' cores''),
      (''Memory'', formatMB (c_MemoryMB c)), (''Disk'', formatGB (c_DiskGB c))]
     @ (if c_IPAddress c \<noteq> [] then [(''IP'', c_IPAddress c)] else [])
     @ (if vmURL domain (c_Name c) \<noteq> [] then [(''URL'', vmURL domain (c_Name c))] else [])
     @ [(''Port'', Itoa (appPort c) @ '' ('' @ visibility (c_AppPublic c) @ '')''), (''Nesting'', nestingSummary c)]
     @ map (\<lambda>a. (''Domain'', a_Hostname a @ '' ('' @ aliasState a @ '')'')) (c_Aliases c)
     @ (if c_InitialTaskState c \<noteq> [] then [(''Task'', taskSummary c)] else [])
     @ [(''Created'', minute (c_CreatedAt c))]"

section \<open>Links, domains, accounts\<close>

definition shareURL :: "string \<Rightarrow> string \<Rightarrow> string \<Rightarrow> string" where
  "shareURL vmName domain token =
     (if domain = [] then [] else ''https://'' @ vmName @ ''.'' @ domain @ ''/?share='' @ token)"

record link_json =
  lj_Token :: string
  lj_URL :: string
  lj_ExpiresAt :: "int option"
  lj_CreatedAt :: int

definition newSharedLinkJSON :: "string \<Rightarrow> string \<Rightarrow> sharedlink \<Rightarrow> link_json" where
  "newSharedLinkJSON vmName domain l = \<lparr>lj_Token = l_Token l, lj_URL = shareURL vmName domain (l_Token l),
     lj_ExpiresAt = l_ExpiresAt l, lj_CreatedAt = l_CreatedAt l\<rparr>"

record urls_json =
  uj_Workload :: string
  uj_Agent :: string
  uj_Dashboard :: string
  uj_Shell :: string
  uj_Domains :: "string list"

record domain_json =
  dj_ID :: string
  dj_Hostname :: string
  dj_Verified :: bool
  dj_State :: string
  dj_Error :: string
  dj_VerifiedAt :: "int option"
  dj_CreatedAt :: int

definition newDomainJSON :: "calias \<Rightarrow> domain_json" where
  "newDomainJSON a = \<lparr>dj_ID = a_ID a, dj_Hostname = a_Hostname a, dj_Verified = a_Verified a, dj_State = aliasState a,
     dj_Error = a_LastError a, dj_VerifiedAt = a_VerifiedAt a, dj_CreatedAt = a_CreatedAt a\<rparr>"

record key_json =
  kj_Name :: string
  kj_Fingerprint :: string
  kj_CreatedAt :: int

definition keyName :: "sshkey \<Rightarrow> string" where
  "keyName k = (if k_Name k = [] then ''(unnamed)'' else k_Name k)"

definition newSSHKeyJSON :: "sshkey \<Rightarrow> key_json" where
  "newSSHKeyJSON k = \<lparr>kj_Name = keyName k, kj_Fingerprint = k_Fingerprint k, kj_CreatedAt = k_CreatedAt k\<rparr>"

record llm_json =
  nj_Provider :: string
  nj_BaseURL :: string
  nj_Protocol :: string
  nj_Models :: "string list"
  nj_CreatedAt :: int

definition modelList :: "string \<Rightarrow> string list" where
  "modelList models = filter (\<lambda>m. m \<noteq> []) (Split models CHR '','')"

definition modelSummary :: "string \<Rightarrow> string" where
  "modelSummary chosen = (if chosen = [] then ''auto (the gateway picks the model)'' else chosen)"

definition llm_row :: "apikey \<Rightarrow> llm_json" where
  "llm_row k = \<lparr>nj_Provider = ak_Provider k, nj_BaseURL = ak_BaseURL k, nj_Protocol = ak_Protocol k,
     nj_Models = modelList (ak_Models k), nj_CreatedAt = ak_CreatedAt k\<rparr>"

text \<open>Go divides towards zero.\<close>

definition ageInDays :: "int \<Rightarrow> int \<Rightarrow> int" where
  "ageInDays now created = (let d = 24 * 3600 * 1000000000; x = now - created in if x \<ge> 0 then x div d else - ((- x) div d))"

record account_json =
  cj_Email :: string
  cj_DisplayName :: string
  cj_Role :: string
  cj_Admin :: bool
  cj_CreatedAt :: int
  cj_AgeDays :: int
  cj_VMs :: nat
  cj_DefaultModel :: string
  cj_SSHKeys :: "key_json list"

record roster_row =
  rj_ID :: string
  rj_Email :: string
  rj_Role :: string
  rj_VMs :: nat
  rj_CreatedAt :: int

record claim_row =
  mj_Hostname :: string
  mj_Verified :: bool
  mj_VM :: string
  mj_OwnerID :: string
  mj_OwnerEmail :: string
  mj_LastError :: string
  mj_CreatedAt :: int

record update_view =
  uv_Version :: version_info
  uv_CanUpdate :: bool
  uv_Reason :: string
  uv_Run :: run_state
  uv_Check :: "upd_status option"

section \<open>Answers\<close>

datatype ssh_view =
    No_output
  | Said string "string list"
  | Vms_json "vm_json list"
  | Vms_table "string list list"
  | Vm_doc vm_json
  | Vm_lines "(string \<times> string) list"
  | Task_doc task_json
  | Agent_doc agent_update
  | Link_doc link_json
  | Links_doc "link_json list"
  | Urls_doc urls_json
  | Domains_doc "domain_json list"
  | Account_doc account_json
  | Keys_doc "key_json list"
  | Llm_doc "llm_json list"
  | Models_doc "string list" string
  | Connections_doc "connection list"
  | Providers_doc "descriptor list"
  | Help_doc "string \<times> string \<times> bool" "cmd list"
  | Help_list "cmd list"
  | Help_command cmd
  | Help_action "ssh_run sub_spec"
  | Roster_doc "roster_row list"
  | All_vms_doc "(vm_json \<times> string \<times> string) list"
  | Claims_doc "claim_row list"
  | Update_doc update_view
  | Shell_ended string

section \<open>Errors\<close>

datatype ssh_error =
    Line line_error
  | Db dberr
  | Wrapped string dberr
  | Unknown_choice dberr "string list"
  | Domain_error alias_err
  | Update_error upd_err
  | Check_error string
  | Session_over

abbreviation refuse :: "string \<Rightarrow> string list \<Rightarrow> ('s, ssh_error, 'a) sm" where
  "refuse f as \<equiv> raise (Line (Refused f as))"

abbreviation usagef :: "string \<Rightarrow> string list \<Rightarrow> ('s, ssh_error, 'a) sm" where
  "usagef f as \<equiv> raise (Line (Usage f as))"

text \<open>An error that goes to the caller as it is, one that is wrapped, and one that is dropped.\<close>

definition db :: "('s, dberr, 'a) sm \<Rightarrow> ('s, ssh_error, 'a) sm" where
  "db m = attempt m (\<lambda>e. raise (Db e)) ret"

definition wrap :: "string \<Rightarrow> ('s, dberr, 'a) sm \<Rightarrow> ('s, ssh_error, 'a) sm" where
  "wrap what m = attempt m (\<lambda>e. raise (Wrapped what e)) ret"

definition quiet :: "('s, dberr, 'a) sm \<Rightarrow> ('s, ssh_error, unit) sm" where
  "quiet m = attempt m (\<lambda>_. ret ()) (\<lambda>_. ret ())"

definition parsed :: "line_error + 'a \<Rightarrow> ('s, ssh_error, 'a) sm" where
  "parsed x = (case x of Inl e \<Rightarrow> raise (Line e) | Inr v \<Rightarrow> ret v)"

section \<open>Calls and the server\<close>

text \<open>What a call takes from outside: the next identifier, bytes of \<^verbatim>\<open>crypto/rand\<close>, the lines typed at prompts
  (\<open>None\<close> where reading one fails), the rest of the input, and whether the context was cancelled.\<close>

record ssh_input =
  in_UUID :: string
  in_Random :: "string option"
  in_Typed :: "string option list"
  in_Stdin :: string
  in_CheckDone :: int
  in_Cancelled :: "string option"

record ssh_call =
  sc_User :: user
  sc_Args :: "string list"
  sc_Flags :: "(string \<times> string) list"
  sc_JSON :: bool
  sc_Interactive :: bool
  sc_Pty :: "(string \<times> int \<times> int) option"
  sc_SessionKey :: string
  sc_In :: ssh_input

definition arg :: "ssh_call \<Rightarrow> nat \<Rightarrow> string" where
  "arg c i = (if i < length (sc_Args c) then sc_Args c ! i else [])"

definition flag :: "ssh_call \<Rightarrow> string \<Rightarrow> string" where
  "flag c name = (case map_of (sc_Flags c) name of None \<Rightarrow> [] | Some v \<Rightarrow> v)"

definition hasFlag :: "ssh_call \<Rightarrow> string \<Rightarrow> bool" where
  "hasFlag c name \<longleftrightarrow> map_of (sc_Flags c) name \<noteq> None"

abbreviation caller :: "ssh_call \<Rightarrow> string" where
  "caller c \<equiv> u_ID (sc_User c)"

text \<open>What the attached session asks the runtime for.\<close>

record shell_request =
  sl_IncusName :: string
  sl_Command :: "string list"
  sl_Term :: "string option"
  sl_Cols :: int
  sl_Rows :: int

text \<open>The dependencies it shares with the HTTP API are in \<open>ss_Api\<close>, whose alias manager and decoders it does not use.\<close>

record 'r ssh_server =
  ss_Api :: "'r server"
  ss_Aliases :: "'r manager option"
  ss_Updater :: "upd_service option"
  ss_Integrations :: int_service
  ss_Codec :: int_codec
  ss_ReadInput :: "string \<Rightarrow> (int_input \<times> string) option"
  ss_Duration :: "string \<Rightarrow> int option"
  ss_Minute :: "int \<Rightarrow> string"
  ss_Net :: gh_net
  ss_Interactive :: "(shell_request \<Rightarrow> ('r, dberr, unit) sm) option"

type_synonym 'r ssh_cmd = "('r gateway, ssh_error, ssh_view) sm"

abbreviation ss_Domain :: "'r ssh_server \<Rightarrow> string" where
  "ss_Domain sv \<equiv> sv_Domain (ss_Api sv)"

abbreviation ss_Runtime :: "'r ssh_server \<Rightarrow> 'r runtime" where
  "ss_Runtime sv \<equiv> sv_Runtime (ss_Api sv)"

section \<open>Finding a VM\<close>

definition findContainer :: "ssh_call \<Rightarrow> string \<Rightarrow> ('r gateway, ssh_error, container) sm" where
  "findContainer c name =
     (if name = [] then usagef ''name a VM'' []
      else attempt (GetContainerByName name (caller c)) (\<lambda>_. refuse ''VM %q not found'' [name]) ret)"

definition findAccessibleContainer :: "ssh_call \<Rightarrow> string \<Rightarrow> ('r gateway, ssh_error, container) sm" where
  "findAccessibleContainer c name =
     (if name = [] then usagef ''name a VM'' []
      else attempt (ResolveAccessibleContainer name (caller c))
        (\<lambda>e. if e = ErrNoRows then refuse ''VM %q not found or access denied'' [name] else raise (Db e)) ret)"

definition requireRunning :: "container \<Rightarrow> ('s, ssh_error, unit) sm" where
  "requireRunning c = (if \<not> EqualFold (c_Status c) ''running''
     then refuse ''VM %q is not running (status: %s); start it first'' [c_Name c, c_Status c] else ret ())"

text \<open>The container with the nesting ceiling and with its domains filled in; an error of either ends the command.\<close>

definition attach_all :: "container \<Rightarrow> ('r gateway, ssh_error, container) sm" where
  "attach_all c0 = bindE (db (AttachNestingPolicy [c0])) (\<lambda>(cs, e).
     case e of Some x \<Rightarrow> raise (Db x) | None \<Rightarrow> ret (hd cs))"

definition attach_domains :: "container \<Rightarrow> ('r gateway, ssh_error, container) sm" where
  "attach_domains c0 = bindE (db (AttachAliases [c0])) (\<lambda>(cs, e).
     case e of Some x \<Rightarrow> raise (Db x) | None \<Rightarrow> ret (hd cs))"

lemma keeps_ssh [keeps_rules]:
  "keeps I m \<Longrightarrow> keeps I (db m)" "keeps I m \<Longrightarrow> keeps I (wrap what m)" "keeps I m \<Longrightarrow> keeps I (quiet m)" "keeps I (parsed x)"
  unfolding db_def wrap_def quiet_def parsed_def by (intro keeps_rules; assumption?)+

end
