(* ===== verification/Ssh_Vm.thy ===== *)
theory Ssh_Vm
  imports Ssh_View
begin

text \<open>
  The commands that make, run and remove VMs: \<^verbatim>\<open>src/internal/sshgw/commands_vm.go\<close>, and the attached session of
  \<^verbatim>\<open>server.go\<close>.

  A status that could not be written and a nesting setting that could not be recorded are left out, as the code does.
  \<open>Db ErrPanic\<close> is a panic in the setup, which nothing recovers here: it ends the gateway.
\<close>

section \<open>Guards\<close>

definition maxCPU :: int where "maxCPU = 64"
definition maxMemoryMB :: int where "maxMemoryMB = 131072"
definition maxDiskGB :: int where "maxDiskGB = 1024"

definition intFlag :: "ssh_call \<Rightarrow> string \<Rightarrow> int \<Rightarrow> int \<Rightarrow> line_error + int" where
  "intFlag c name fallback cap =
     (let raw = flag c name; bad = Inl (Usage ''--%s must be a positive whole number'' [name]) in
      if raw = [] then Inr fallback
      else case Atoi raw of
        None \<Rightarrow> bad
      | Some value \<Rightarrow>
          if value \<le> 0 then bad
          else if value > cap then Inl (Usage ''--%s is capped at %d on this gateway'' [name, Itoa cap])
          else Inr value)"

definition checkVMName :: "string \<Rightarrow> ('s, ssh_error, unit) sm" where
  "checkVMName name = (if \<not> ValidContainerName name then refuse ''invalid VM name %q'' [name] else ret ())"

definition confirmDestructive :: "ssh_call \<Rightarrow> string \<Rightarrow> string list \<Rightarrow> ('s, ssh_error, unit) sm" where
  "confirmDestructive c what as =
     (if sc_Interactive c \<or> hasFlag c ''force'' then ret ()
      else usagef (what @ '' is destructive; in a one-shot invocation say so with --force'') as)"

text \<open>A status is written and its error dropped; the command goes on, or fails with the error it has.\<close>

definition note_status :: "container \<Rightarrow> string \<Rightarrow> string \<Rightarrow> ('r gateway, ssh_error, unit) sm" where
  "note_status vm st ip = quiet (UpdateContainerStatus (c_ID vm) st ip)"

definition fail_status :: "container \<Rightarrow> string \<Rightarrow> string \<Rightarrow> ssh_error \<Rightarrow> ('r gateway, ssh_error, 'a) sm" where
  "fail_status vm st ip e = bindE (note_status vm st ip) (\<lambda>_. raise e)"

text \<open>A step whose failure is recorded as a status; a panic is not an error that is returned.\<close>

definition or_status :: "container \<Rightarrow> string \<Rightarrow> string \<Rightarrow> (dberr \<Rightarrow> ssh_error) \<Rightarrow> ('r gateway, dberr, 'a) sm \<Rightarrow> ('r gateway, ssh_error, 'a) sm" where
  "or_status vm st ip err m = attempt m (\<lambda>e. if e = ErrPanic then raise (Db ErrPanic) else fail_status vm st ip (err e)) ret"

section \<open>Listing\<close>

definition cmdLs :: "'r ssh_server \<Rightarrow> ssh_call \<Rightarrow> 'r ssh_cmd" where
  "cmdLs sv c = bindE (db (ListAccessibleContainers (caller c))) (\<lambda>vms.
     if sc_JSON c then ret (Vms_json (map (newVMJSON (ss_Domain sv)) vms)) else ret (Vms_table (map ls_row vms)))"

definition cmdStat :: "'r ssh_server \<Rightarrow> ssh_call \<Rightarrow> 'r ssh_cmd" where
  "cmdStat sv c =
     bindE (findAccessibleContainer c (arg c 0)) (\<lambda>vm0.
     bindE (attach_all vm0) (\<lambda>vm1.
     bindE (attach_domains vm1) (\<lambda>vm.
     if sc_JSON c then ret (Vm_doc (newVMJSON (ss_Domain sv) vm)) else ret (Vm_lines (stat_lines (ss_Minute sv) (ss_Domain sv) vm)))))"

section \<open>Setting up\<close>

text \<open>The agent is set up and given its task, if the gateway configures agents at all.\<close>

definition set_up :: "'r ssh_server \<Rightarrow> container \<Rightarrow> ('r gateway, ssh_error, unit) sm" where
  "set_up sv vm =
     (let api = ss_Api sv in
      case sv_Materializer api of
        None \<Rightarrow> ret ()
      | Some mz \<Rightarrow>
          bindE (or_status vm ''error'' (c_IPAddress vm) (Wrapped ''PicoClaw setup'')
            (SetupContainer (sv_Env api) (sv_Runtime api) (Some mz) vm (sv_LLM api))) (\<lambda>_.
          db (DeliverInitialTaskByID (sv_Lower api) (sv_Env api) (Some (sv_Runtime api)) (c_ID vm) (sv_LLM api))))"

definition made_running :: "'r ssh_server \<Rightarrow> container \<Rightarrow> string \<Rightarrow> string list \<Rightarrow> 'r ssh_cmd" where
  "made_running sv vm text as =
     bindE (set_up sv vm) (\<lambda>_. bindE (note_status vm ''running'' (c_IPAddress vm)) (\<lambda>_. ret (Said text as)))"

section \<open>Making a VM\<close>

definition new_vm :: "ssh_call \<Rightarrow> string \<Rightarrow> string \<Rightarrow> int \<Rightarrow> int \<Rightarrow> int \<Rightarrow> rt_container \<Rightarrow> container" where
  "new_vm c name task cpu memory disk rtc = \<lparr>c_ID = in_UUID (sc_In c), c_Name = name, c_OwnerID = caller c, c_IncusName = rc_Name rtc,
     c_Status = rc_Status rtc, c_IPAddress = rc_IP rtc, c_CPULimit = cpu, c_MemoryMB = memory, c_DiskGB = disk, c_AppPort = 0,
     c_AppPublic = False, c_InitialTask = task, c_InitialTaskState = (if task \<noteq> [] then TaskPending else []),
     c_InitialTaskError = [], c_InitialTaskConversation = [], c_InitialTaskResumes = 0, c_Nesting = DefaultNesting,
     c_NestingApplied = False, c_CreatedAt = 0, c_UpdatedAt = 0, c_SharedAccess = False, c_Aliases = [], c_NestingAllowed = False\<rparr>"

definition start_new :: "'r ssh_server \<Rightarrow> string \<Rightarrow> container \<Rightarrow> 'r ssh_cmd" where
  "start_new sv name vm =
     bindE (if EqualFold (c_Status vm) ''running'' then ret ()
       else or_status vm ''stopped'' (c_IPAddress vm) (Wrapped ''start VM'') (rt_call (rt_Start (ss_Runtime sv) (c_IncusName vm)))) (\<lambda>_.
     bindE (attempt (rt_call (rt_Get (ss_Runtime sv) (c_IncusName vm))) (\<lambda>_. ret vm) (\<lambda>x. ret (vm\<lparr>c_IPAddress := rc_IP x\<rparr>))) (\<lambda>vm'.
     made_running sv vm' ''VM %q created and running.'' [name]))"

definition cmdNew :: "'r ssh_server \<Rightarrow> ssh_call \<Rightarrow> 'r ssh_cmd" where
  "cmdNew sv c =
     (let name = arg c 0; task = TrimSpace (flag c ''task'') in
      if name = [] then usagef ''name the VM to create'' []
      else
        bindE (checkVMName name) (\<lambda>_.
        attempt (GetContainerByName name (caller c)) (\<lambda>_.
          bindE (parsed (intFlag c ''cpu'' 2 maxCPU)) (\<lambda>cpu.
          bindE (parsed (intFlag c ''memory'' 2048 maxMemoryMB)) (\<lambda>memory.
          bindE (parsed (intFlag c ''disk'' 10 maxDiskGB)) (\<lambda>disk.
          if length task > MaxInitialTaskLen
          then refuse ''the task is longer than the %d characters the agent accepts'' [Itoa (int MaxInitialTaskLen)]
          else
            bindE (wrap ''read the nesting policy'' NestingAllowed) (\<lambda>allowed.
            bindE (wrap ''create VM'' (rt_call (rt_Create (ss_Runtime sv) \<lparr>co_Name = name, co_OwnerID = caller c, co_Image = DefaultImage,
              co_CPULimit = cpu, co_MemoryMB = memory, co_DiskGB = disk, co_Nesting = allowed\<rparr>))) (\<lambda>rtc.
            bindE (wrap ''save VM'' (CreateContainer (new_vm c name task cpu memory disk rtc))) (\<lambda>vm.
            bindE (attempt (MarkStarted vm allowed) (\<lambda>_. ret vm) ret) (start_new sv name))))))))
          (\<lambda>_. refuse ''VM %q already exists'' [name])))"

section \<open>Removing, starting, stopping\<close>

definition stop_if_running :: "'r ssh_server \<Rightarrow> string \<Rightarrow> container \<Rightarrow> ('r gateway, ssh_error, unit) sm" where
  "stop_if_running sv what vm =
     (if c_Status vm = ''running'' then wrap what (rt_call (rt_Stop (ss_Runtime sv) (c_IncusName vm))) else ret ())"

definition cmdRm :: "'r ssh_server \<Rightarrow> ssh_call \<Rightarrow> 'r ssh_cmd" where
  "cmdRm sv c =
     bindE (findContainer c (arg c 0)) (\<lambda>vm.
     bindE (confirmDestructive c ''deleting VM %q'' [c_Name vm]) (\<lambda>_.
     bindE (stop_if_running sv ''stop VM'' vm) (\<lambda>_.
     bindE (wrap ''delete VM'' (rt_call (rt_Delete (ss_Runtime sv) (c_IncusName vm)))) (\<lambda>_.
     bindE (wrap ''remove VM record'' (DeleteContainer (c_ID vm))) (\<lambda>_.
     ret (Said ''VM %q deleted.'' [c_Name vm]))))))"

text \<open>The nesting setting is applied first; what that reports is only logged.\<close>

definition boot_vm :: "'r ssh_server \<Rightarrow> (dberr \<Rightarrow> ssh_error) \<Rightarrow> string \<Rightarrow> container \<Rightarrow> 'r ssh_cmd" where
  "boot_vm sv err text vm0 =
     bindE (db (PrepareStart (ss_Runtime sv) vm0)) (\<lambda>(vm, _).
     bindE (attempt (rt_call (rt_Start (ss_Runtime sv) (c_IncusName vm))) (\<lambda>e. raise (err e)) ret) (\<lambda>_.
     made_running sv vm text [c_Name vm]))"

definition cmdStart :: "'r ssh_server \<Rightarrow> ssh_call \<Rightarrow> 'r ssh_cmd" where
  "cmdStart sv c = bindE (findContainer c (arg c 0)) (\<lambda>vm.
     if c_Status vm = ''running'' then ret (Said ''VM %q is already running.'' [c_Name vm])
     else boot_vm sv Db ''VM %q started.'' vm)"

definition cmdStop :: "'r ssh_server \<Rightarrow> ssh_call \<Rightarrow> 'r ssh_cmd" where
  "cmdStop sv c = bindE (findContainer c (arg c 0)) (\<lambda>vm.
     if c_Status vm = ''stopped'' then ret (Said ''VM %q is already stopped.'' [c_Name vm])
     else
       bindE (db (rt_call (rt_Stop (ss_Runtime sv) (c_IncusName vm)))) (\<lambda>_.
       bindE (note_status vm ''stopped'' (c_IPAddress vm)) (\<lambda>_.
       ret (Said ''VM %q stopped.'' [c_Name vm]))))"

definition cmdRestart :: "'r ssh_server \<Rightarrow> ssh_call \<Rightarrow> 'r ssh_cmd" where
  "cmdRestart sv c = bindE (findContainer c (arg c 0)) (\<lambda>vm.
     bindE (stop_if_running sv ''stop'' vm) (\<lambda>_. boot_vm sv (Wrapped ''start'') ''VM %q restarted.'' vm))"

definition cmdRename :: "'r ssh_server \<Rightarrow> ssh_call \<Rightarrow> 'r ssh_cmd" where
  "cmdRename sv c =
     (let newName = arg c 1 in
      if length (sc_Args c) < 2 then usagef ''give the current name and the new one'' []
      else
        bindE (findContainer c (arg c 0)) (\<lambda>vm.
        bindE (checkVMName newName) (\<lambda>_.
        attempt (GetContainerByName newName (caller c))
          (\<lambda>_. bindE (db (RenameContainer (c_ID vm) newName)) (\<lambda>_. ret (Said ''VM %q renamed to %q.'' [c_Name vm, newName])))
          (\<lambda>_. refuse ''VM %q already exists'' [newName]))))"

section \<open>Recreating\<close>

text \<open>From the new instance on.\<close>

definition rebuild_vm :: "'r ssh_server \<Rightarrow> string \<Rightarrow> container \<Rightarrow> 'r ssh_cmd" where
  "rebuild_vm sv backup vm =
     (let api = ss_Api sv; rt = ss_Runtime sv in
      bindE (or_status vm ''stopped'' [] (Wrapped ''start VM'') (rt_call (rt_Start rt (c_IncusName vm)))) (\<lambda>_.
      bindE (attempt (rt_call (rt_Get rt (c_IncusName vm))) (\<lambda>_. ret []) (\<lambda>x. ret (rc_IP x))) (\<lambda>ip.
      bindE (or_status vm ''error'' ip (Wrapped ''restore data'') (RestoreData (sv_Env api) rt (c_IncusName vm) backup)) (\<lambda>_.
      bindE (or_status vm ''error'' ip (Wrapped ''PicoClaw setup'')
        (SetupContainer (sv_Env api) rt (sv_Materializer api) vm (sv_LLM api))) (\<lambda>_.
      bindE (note_status vm ''running'' ip) (\<lambda>_. ret (Said ''VM %q recreated successfully.'' [c_Name vm])))))))"

definition recreate_vm :: "'r ssh_server \<Rightarrow> ssh_call \<Rightarrow> container \<Rightarrow> 'r ssh_cmd" where
  "recreate_vm sv c vm0 =
     (let api = ss_Api sv; rt = ss_Runtime sv; ip = c_IPAddress vm0 in
      bindE (note_status vm0 ''recreating'' ip) (\<lambda>_.
      bindE (db (PrepareStart rt vm0)) (\<lambda>(vm, _).
      bindE (or_status vm ''error'' ip (Wrapped ''start VM for backup'') (rt_call (rt_Start rt (c_IncusName vm)))) (\<lambda>_.
      bindE (or_status vm ''error'' ip (Wrapped ''back up VM'') (BackupData (sv_Env api) rt (c_IncusName vm))) (\<lambda>backup.
      bindE (or_status vm ''error'' ip (Wrapped ''stop VM'') (rt_call (rt_Stop rt (c_IncusName vm)))) (\<lambda>_.
      bindE (or_status vm ''error'' ip (Wrapped ''delete VM'') (rt_call (rt_Delete rt (c_IncusName vm)))) (\<lambda>_.
      bindE (db (EffectiveNesting vm)) (\<lambda>(effective, _).
      bindE (or_status vm ''error'' [] (Wrapped ''create VM'') (rt_call (rt_Create rt \<lparr>co_Name = c_Name vm, co_OwnerID = caller c,
        co_Image = DefaultImage, co_CPULimit = c_CPULimit vm, co_MemoryMB = c_MemoryMB vm, co_DiskGB = c_DiskGB vm,
        co_Nesting = effective\<rparr>))) (\<lambda>_.
      bindE (attempt (MarkStarted vm effective) (\<lambda>_. ret vm) ret) (rebuild_vm sv backup))))))))))"

definition cmdRecreate :: "'r ssh_server \<Rightarrow> ssh_call \<Rightarrow> 'r ssh_cmd" where
  "cmdRecreate sv c = bindE (findContainer c (arg c 0)) (\<lambda>vm.
     if c_Status vm = ''creating'' \<or> c_Status vm = ''recreating''
     then refuse ''VM %q is busy (status: %s); wait for it to settle'' [c_Name vm, c_Status vm]
     else bindE (confirmDestructive c ''rebuilding VM %q loses everything outside /data'' [c_Name vm]) (\<lambda>_. recreate_vm sv c vm))"

section \<open>A shell in a VM\<close>

definition shell_for :: "(string \<times> int \<times> int) option \<Rightarrow> container \<Rightarrow> string list option \<Rightarrow> shell_request" where
  "shell_for pty vm command = \<lparr>sl_IncusName = c_IncusName vm,
     sl_Command = (case command of Some argv \<Rightarrow> argv | None \<Rightarrow> if pty \<noteq> None then [''/bin/bash'', ''-l''] else [''/bin/bash'']),
     sl_Term = map_option (\<lambda>(term, _). if term = [] then ''xterm-256color'' else term) pty,
     sl_Cols = (case pty of None \<Rightarrow> 80 | Some (_, w, _) \<Rightarrow> w mod 2 ^ 16),
     sl_Rows = (case pty of None \<Rightarrow> 24 | Some (_, _, h) \<Rightarrow> h mod 2 ^ 16)\<rparr>"

definition attach :: "'r ssh_server \<Rightarrow> string \<Rightarrow> (string \<times> int \<times> int) option \<Rightarrow> container \<Rightarrow> string list option
    \<Rightarrow> ('r gateway, ssh_error, unit) sm" where
  "attach sv uid pty vm command =
     bindE (db (ContainerAccessContext vm uid)) (\<lambda>x.
     if ac_Done x then refuse ''VM access revoked'' []
     else case ss_Interactive sv of
       None \<Rightarrow> refuse ''this runtime does not support interactive sessions'' []
     | Some run \<Rightarrow> db (rt_call (run (shell_for pty vm command))))"

definition cmdSSH :: "'r ssh_server \<Rightarrow> ssh_call \<Rightarrow> 'r ssh_cmd" where
  "cmdSSH sv c =
     bindE (findAccessibleContainer c (arg c 0)) (\<lambda>vm.
     bindE (requireRunning vm) (\<lambda>_.
     bindE (attach sv (caller c) (sc_Pty c) vm None) (\<lambda>_. ret (Shell_ended (c_ID vm)))))"

end
