(* ===== verification/Ssh_Config.thy ===== *)
theory Ssh_Config
  imports Ssh_Vm
begin

text \<open>
  The commands that configure a VM: \<^verbatim>\<open>src/internal/sshgw/commands_config.go\<close> and
  \<^verbatim>\<open>commands_domain.go\<close>.

  Durations are nanoseconds; \<^verbatim>\<open>time.ParseDuration\<close> is the argument \<open>ss_Duration\<close>.
\<close>

section \<open>Publishing\<close>

fun parsePublishArgs :: "(string \<Rightarrow> string) \<Rightarrow> string list \<Rightarrow> int \<Rightarrow> bool \<Rightarrow> bool \<Rightarrow> line_error + (int \<times> bool \<times> bool)" where
  "parsePublishArgs uni [] port public changed = Inr (port, public, changed)"
| "parsePublishArgs uni (a # as) port public changed =
     (if ToLower uni a = ''public'' then parsePublishArgs uni as port True True
      else if ToLower uni a = ''private'' then parsePublishArgs uni as port False True
      else case Atoi a of
        None \<Rightarrow> Inl (Usage ''%q is neither a port number nor \"public\" or \"private\"'' [a])
      | Some value \<Rightarrow> parsePublishArgs uni as value public True)"

definition published :: "'r ssh_server \<Rightarrow> ssh_call \<Rightarrow> string \<Rightarrow> container \<Rightarrow> 'r ssh_cmd" where
  "published sv c text vm =
     (if sc_JSON c then ret (Vm_doc (newVMJSON (ss_Domain sv) vm))
      else ret (Said text [c_Name vm, Itoa (appPort vm), visibility (c_AppPublic vm)]))"

definition cmdPublish :: "'r ssh_server \<Rightarrow> ssh_call \<Rightarrow> 'r ssh_cmd" where
  "cmdPublish sv c =
     bindE (findContainer c (arg c 0)) (\<lambda>vm.
     bindE (parsed (parsePublishArgs (sv_Lower (ss_Api sv)) (drop 1 (sc_Args c)) (appPort vm) (c_AppPublic vm) False)) (\<lambda>(port, public, changed).
     if \<not> changed then published sv c ''VM %q publishes port %d (%s).'' vm
     else if \<not> ValidAppPort port then refuse ''port must be between 1 and 65535 and must not be the agent port %d'' [Itoa AgentPort]
     else
       bindE (db (UpdateContainerPublish (c_ID vm) port public)) (\<lambda>_.
       bindE (db (GetContainerByID (c_ID vm))) (\<lambda>updated.
       bindE (quiet (RefreshEnvironmentGuide (ae_Guide (sv_Env (ss_Api sv))) (Some (ss_Runtime sv)) updated)) (\<lambda>_.
       published sv c ''VM %q now publishes port %d (%s).'' updated)))))"

section \<open>Nesting\<close>

definition parseOnOff :: "(string \<Rightarrow> string) \<Rightarrow> string \<Rightarrow> line_error + bool" where
  "parseOnOff uni word =
     (if ToLower uni word = ''on'' then Inr True
      else if ToLower uni word = ''off'' then Inr False
      else Inl (Usage ''say \"on\" or \"off\", not %q'' [word]))"

definition nested :: "'r ssh_server \<Rightarrow> ssh_call \<Rightarrow> container \<Rightarrow> 'r ssh_cmd" where
  "nested sv c vm =
     (if sc_JSON c then ret (Vm_doc (newVMJSON (ss_Domain sv) vm))
      else ret (Said ''Nested containers on %q: %s'' [c_Name vm, nestingSummary vm]))"

definition cmdNesting :: "'r ssh_server \<Rightarrow> ssh_call \<Rightarrow> 'r ssh_cmd" where
  "cmdNesting sv c =
     bindE (findContainer c (arg c 0)) (\<lambda>vm.
     if arg c 1 = [] then bindE (attach_all vm) (nested sv c)
     else
       bindE (parsed (parseOnOff (sv_Lower (ss_Api sv)) (arg c 1))) (\<lambda>wanted.
       bindE (wrap ''read the nesting policy'' NestingAllowed) (\<lambda>allowed.
       if wanted \<and> \<not> allowed
       then refuse ''nested containers are disabled for this deployment; an administrator has to allow them first'' []
       else
         bindE (db (UpdateContainerNesting (c_ID vm) wanted)) (\<lambda>_.
         bindE (db (GetContainerByID (c_ID vm))) (\<lambda>updated0.
         bindE (db (ApplyNesting (ss_Runtime sv) updated0)) (\<lambda>(updated, _).
         bindE (quiet (RefreshEnvironmentGuide (ae_Guide (sv_Env (ss_Api sv))) (Some (ss_Runtime sv)) updated)) (\<lambda>_.
         bindE (attach_all updated) (nested sv c))))))))"

section \<open>The initial task\<close>

text \<open>The state of a task in progress is asked of the VM; one that does not answer keeps what is recorded.\<close>

definition cmdTask :: "'r ssh_server \<Rightarrow> ssh_call \<Rightarrow> 'r ssh_cmd" where
  "cmdTask sv c =
     bindE (findContainer c (arg c 0)) (\<lambda>vm0.
     bindE (if TaskInProgress (c_InitialTaskState vm0)
       then bindE (quiet (RefreshTaskState (ss_Runtime sv) vm0)) (\<lambda>_. db (GetContainerByID (c_ID vm0)))
       else ret vm0) (\<lambda>vm.
     if sc_JSON c \<or> c_InitialTaskState vm \<noteq> [] then ret (Task_doc (task_of vm))
     else ret (Said ''VM %q was created without a task.'' [c_Name vm])))"

definition cmdTaskRetry :: "'r ssh_server \<Rightarrow> ssh_call \<Rightarrow> 'r ssh_cmd" where
  "cmdTaskRetry sv c =
     (let api = ss_Api sv in
      bindE (findContainer c (arg c 0)) (\<lambda>vm.
      bindE (db (RetryInitialTask (c_ID vm))) (\<lambda>_.
      bindE (db (DeliverInitialTaskByID (sv_Lower api) (sv_Env api) (Some (sv_Runtime api)) (c_ID vm) (sv_LLM api))) (\<lambda>_.
      bindE (db (GetContainerByID (c_ID vm))) (\<lambda>updated.
      ret (Said ''Task on %q: %s'' [c_Name updated, taskSummary updated]))))))"

section \<open>The agent's build\<close>

definition agentBuild :: "'r ssh_server \<Rightarrow> ssh_call \<Rightarrow> ('r gateway, ssh_error, container \<times> agent_update) sm" where
  "agentBuild sv c =
     bindE (findContainer c (arg c 0)) (\<lambda>vm.
     bindE (requireRunning vm) (\<lambda>_.
     bindE (db (CheckUpdate (sv_Env (ss_Api sv)) (ss_Runtime sv) (c_IncusName vm))) (\<lambda>info. ret (vm, info))))"

definition cmdAgent :: "'r ssh_server \<Rightarrow> ssh_call \<Rightarrow> 'r ssh_cmd" where
  "cmdAgent sv c = bindE (agentBuild sv c) (\<lambda>(vm, info). ret (Agent_doc info))"

definition cmdAgentUpdate :: "'r ssh_server \<Rightarrow> ssh_call \<Rightarrow> 'r ssh_cmd" where
  "cmdAgentUpdate sv c = bindE (agentBuild sv c) (\<lambda>(vm, info).
     if \<not> au_HasUpdate info then ret (Said ''Agent on %q already runs the build this gateway ships (%s).'' [c_Name vm, au_LatestVersion info])
     else bindE (db (Update (sv_Env (ss_Api sv)) (ss_Runtime sv) (c_IncusName vm))) (\<lambda>_.
       ret (Said ''Agent on %q updated from %s to %s.'' [c_Name vm, au_CurrentVersion info, au_LatestVersion info])))"

section \<open>Share links\<close>

definition link_expiry :: "'r ssh_server \<Rightarrow> ssh_call \<Rightarrow> ('r gateway, ssh_error, int option) sm" where
  "link_expiry sv c =
     (let raw = flag c ''ttl'' in
      if raw = [] then ret None
      else case ss_Duration sv raw of
        None \<Rightarrow> usagef ''--ttl must be a Go duration, such as 24h or 30m'' []
      | Some ttl \<Rightarrow>
          if ttl \<le> 0 then refuse ''a link with a --ttl of %s would already have expired'' [raw]
          else bindE (gets clock) (\<lambda>now. ret (Some (now + ttl))))"

definition cmdShareCreate :: "'r ssh_server \<Rightarrow> ssh_call \<Rightarrow> 'r ssh_cmd" where
  "cmdShareCreate sv c =
     bindE (findContainer c (arg c 0)) (\<lambda>vm.
     bindE (link_expiry sv c) (\<lambda>expires.
     bindE (db (CreateSharedLink (in_Random (sc_In c)) (in_UUID (sc_In c)) (c_ID vm) (caller c) expires)) (\<lambda>l.
     ret (Link_doc (newSharedLinkJSON (c_Name vm) (ss_Domain sv) l)))))"

definition cmdShareList :: "'r ssh_server \<Rightarrow> ssh_call \<Rightarrow> 'r ssh_cmd" where
  "cmdShareList sv c =
     bindE (findContainer c (arg c 0)) (\<lambda>vm.
     bindE (db (ListSharedLinksByContainer (c_ID vm))) (\<lambda>ls.
     ret (Links_doc (map (newSharedLinkJSON (c_Name vm) (ss_Domain sv)) ls))))"

definition no_such_share :: "('s, ssh_error, 'a) sm" where
  "no_such_share = refuse ''no such share link'' []"

definition cmdShareRevoke :: "'r ssh_server \<Rightarrow> ssh_call \<Rightarrow> 'r ssh_cmd" where
  "cmdShareRevoke sv c =
     (let token = arg c 0; unknown = (\<lambda>e. if e = ErrNoRows then no_such_share else raise (Db e)) in
      if token = [] then usagef ''name the token to revoke; \"share list <vm>\" prints them'' []
      else
        attempt (LookupSharedLink token) unknown (\<lambda>l.
        attempt (GetContainerByID (l_ContainerID l)) unknown (\<lambda>vm.
        if c_OwnerID vm \<noteq> caller c then no_such_share
        else bindE (db (DeleteSharedLinkByToken token)) (\<lambda>_. ret (Said ''Share link on %q revoked.'' [c_Name vm])))))"

definition cmdURL :: "'r ssh_server \<Rightarrow> ssh_call \<Rightarrow> 'r ssh_cmd" where
  "cmdURL sv c =
     (let domain = ss_Domain sv; at = (\<lambda>x. if domain = [] then [] else x) in
      bindE (findContainer c (arg c 0)) (\<lambda>vm0.
      bindE (attach_domains vm0) (\<lambda>vm.
      if \<not> sc_JSON c \<and> domain = [] then ret (Said ''This deployment has no domain configured, so its VMs have no addresses.'' [])
      else ret (Urls_doc \<lparr>uj_Workload = vmURL domain (c_Name vm), uj_Agent = at (''https://'' @ AgentHostPrefix @ c_Name vm @ ''.'' @ domain),
        uj_Dashboard = at (''https://'' @ domain @ ''/dashboard/vms''),
        uj_Shell = at (''https://'' @ domain @ ''/dashboard/vms/'' @ c_ID vm @ ''/shell''),
        uj_Domains = map (\<lambda>a. ''https://'' @ a_Hostname a) (filter a_Verified (c_Aliases vm))\<rparr>))))"

section \<open>Custom domains\<close>

definition domainTarget :: "'r ssh_server \<Rightarrow> ssh_call \<Rightarrow> ('r gateway, ssh_error, 'r manager \<times> container) sm" where
  "domainTarget sv c =
     (case ss_Aliases sv of
        None \<Rightarrow> refuse ''custom domains are not configured on this gateway (it has no DOMAIN set)'' []
      | Some m \<Rightarrow> bindE (findContainer c (arg c 0)) (\<lambda>vm. ret (m, vm)))"

definition manager_do :: "('s, alias_err, 'a) sm \<Rightarrow> ('s, ssh_error, 'a) sm" where
  "manager_do m = attempt m (\<lambda>e. raise (Domain_error e)) ret"

definition domainFailure :: "('s, alias_err, 'a) sm \<Rightarrow> ('s, ssh_error, 'a) sm" where
  "domainFailure m = attempt m (\<lambda>e. if e = ErrNotFound then refuse ''that custom domain is no longer claimed by this VM'' []
     else raise (Domain_error e)) ret"

definition domainAlias :: "'r ssh_server \<Rightarrow> container \<Rightarrow> string \<Rightarrow> ('r gateway, ssh_error, calias) sm" where
  "domainAlias sv vm ref =
     (if ref = [] then usagef ''name the domain, or the alias id \"domain list %s --json\" printed'' [c_Name vm]
      else bindE (manager_do (List_aliases (c_ID vm))) (\<lambda>list.
        let wanted = ToLower (sv_Lower (ss_Api sv)) (TrimSuffix (TrimSpace ref) ''.'') in
        case find (\<lambda>a. a_ID a = ref \<or> a_Hostname a = wanted) list of
          None \<Rightarrow> refuse ''VM %q has no custom domain %q; \"domain list %s\" shows the ones it has'' [c_Name vm, ref, c_Name vm]
        | Some a \<Rightarrow> ret a))"

definition domainReason :: "calias \<Rightarrow> string" where
  "domainReason a = (if a_LastError a = [] then ''the DNS check has not run yet'' else a_LastError a)"

text \<open>A claim is told to be routed, or the reason why it is not.\<close>

definition claim_said :: "container \<Rightarrow> string \<Rightarrow> string \<Rightarrow> calias \<Rightarrow> 'r ssh_cmd" where
  "claim_said vm good bad a =
     (if a_Verified a then ret (Said good [a_Hostname a, c_Name vm]) else ret (Said bad [a_Hostname a, domainReason a]))"

definition cmdDomainList :: "'r ssh_server \<Rightarrow> ssh_call \<Rightarrow> 'r ssh_cmd" where
  "cmdDomainList sv c =
     bindE (domainTarget sv c) (\<lambda>(_, vm).
     bindE (manager_do (List_aliases (c_ID vm))) (\<lambda>list. ret (Domains_doc (map newDomainJSON list))))"

definition cmdDomainAdd :: "'r ssh_server \<Rightarrow> ssh_call \<Rightarrow> 'r ssh_cmd" where
  "cmdDomainAdd sv c =
     bindE (domainTarget sv c) (\<lambda>(m, vm).
     let hostname = arg c 1 in
     if hostname = [] then usagef ''name the domain to add, as \"domain add %s app.example.org\"'' [c_Name vm]
     else bindE (domainFailure (Add (sv_Lower (ss_Api sv)) m (in_UUID (sc_In c)) vm hostname))
       (claim_said vm ''%s now points at VM %q and is routed.'' ''%s was added to VM but is not routed yet: %s''))"

definition cmdDomainVerify :: "'r ssh_server \<Rightarrow> ssh_call \<Rightarrow> 'r ssh_cmd" where
  "cmdDomainVerify sv c =
     bindE (domainTarget sv c) (\<lambda>(m, vm).
     bindE (domainAlias sv vm (arg c 1)) (\<lambda>a.
     bindE (domainFailure (Recheck m vm (a_ID a)))
       (claim_said vm ''%s is verified and routed to VM %q.'' ''%s is still not routed: %s'')))"

definition cmdDomainRm :: "'r ssh_server \<Rightarrow> ssh_call \<Rightarrow> 'r ssh_cmd" where
  "cmdDomainRm sv c =
     bindE (domainTarget sv c) (\<lambda>(m, vm).
     bindE (domainAlias sv vm (arg c 1)) (\<lambda>a.
     bindE (domainFailure (Remove m vm (a_ID a))) (\<lambda>_.
     ret (Said ''%s was removed from VM %q; it is no longer routed there and the name can be claimed again.'' [a_Hostname a, c_Name vm]))))"

end
