(* ===== verification/Ssh_Account.thy ===== *)
theory Ssh_Account
  imports Ssh_Config
begin

text \<open>
  The commands that act on the caller's account and the operator's: \<^verbatim>\<open>commands_account.go\<close>,
  \<^verbatim>\<open>commands_access.go\<close>, \<^verbatim>\<open>commands_integrations.go\<close>, \<^verbatim>\<open>commands_admin.go\<close> and
  the help of \<^verbatim>\<open>help.go\<close> under \<^verbatim>\<open>src/internal/sshgw\<close>.

  The connections to external services and the self-update have state of their own; their commands run on the whole
  \<open>ssh_world\<close>, all others on its gateway.
\<close>

section \<open>Whoami and SSH keys\<close>

definition cmdWhoami :: "ssh_call \<Rightarrow> 'r ssh_cmd" where
  "cmdWhoami c =
     (let u = sc_User c in
      bindE (db (UserDefaultModel (u_ID u))) (\<lambda>chosen.
      bindE (db (ListContainersByOwner (u_ID u))) (\<lambda>vms.
      bindE (db (ListSSHKeysByUser (u_ID u))) (\<lambda>keys.
      bindE (gets clock) (\<lambda>now.
      ret (Account_doc \<lparr>cj_Email = u_Email u, cj_DisplayName = u_DisplayName u, cj_Role = u_Role u, cj_Admin = isAdmin u,
        cj_CreatedAt = u_CreatedAt u, cj_AgeDays = ageInDays now (u_CreatedAt u), cj_VMs = length vms, cj_DefaultModel = chosen,
        cj_SSHKeys = map newSSHKeyJSON keys\<rparr>))))))"

definition cmdSSHKeyList :: "ssh_call \<Rightarrow> 'r ssh_cmd" where
  "cmdSSHKeyList c = bindE (db (ListSSHKeysByUser (caller c))) (\<lambda>keys. ret (Keys_doc (map newSSHKeyJSON keys)))"

definition cmdSSHKeyAdd :: "'r ssh_server \<Rightarrow> ssh_call \<Rightarrow> 'r ssh_cmd" where
  "cmdSSHKeyAdd sv c =
     (let name = TrimSpace (arg c 0); text = TrimSpace (arg c 1) in
      if name = [] \<or> text = [] then usagef ''name the key and give the whole public key line'' []
      else case sv_Fingerprint (ss_Api sv) text of
        None \<Rightarrow> refuse ''that is not an OpenSSH public key'' []
      | Some fp \<Rightarrow>
          attempt (CreateSSHKey \<lparr>k_ID = in_UUID (sc_In c), k_UserID = caller c, k_Fingerprint = fp, k_PublicKey = text, k_Name = name,
              k_CreatedAt = 0\<rparr>)
            (\<lambda>e. if e = ErrUnique then refuse ''that key is already registered'' [] else raise (Db e))
            (\<lambda>_. ret (Said ''SSH key %q added.'' [name, fp])))"

definition cmdSSHKeyRemove :: "ssh_call \<Rightarrow> 'r ssh_cmd" where
  "cmdSSHKeyRemove c =
     (let name = TrimSpace (arg c 0); fp = sc_SessionKey c in
      if name = [] then usagef ''name the key to remove'' []
      else bindE (db (ListSSHKeysByUser (caller c))) (\<lambda>keys.
        case find (\<lambda>k. k_Name k = name) keys of
          None \<Rightarrow> refuse ''no SSH key named %q'' [name]
        | Some target \<Rightarrow>
            if fp \<noteq> [] \<and> fp = k_Fingerprint target
            then refuse ''SSH key %q is the key this session authenticated with; remove it from another session or from the dashboard'' [name]
            else bindE (db (DeleteSSHKey (k_ID target) (caller c))) (\<lambda>_. ret (Said ''SSH key %q removed.'' [name]))))"

section \<open>LLM connections\<close>

text \<open>The sync is \<^verbatim>\<open>refreshKeysForUser\<close> of the API; here a failure is only a warning.\<close>

definition reportLLMSync :: "'r ssh_server \<Rightarrow> ssh_call \<Rightarrow> ('r gateway, ssh_error, unit) sm" where
  "reportLLMSync sv c = bindE (db (refreshKeysForUser (ss_Api sv) (caller c))) (\<lambda>_. ret ())"

definition cmdLLMList :: "ssh_call \<Rightarrow> 'r ssh_cmd" where
  "cmdLLMList c = bindE (db (ListAPIKeysByOwner (caller c))) (\<lambda>keys. ret (Llm_doc (map llm_row keys)))"

definition cmdLLMAdd :: "'r ssh_server \<Rightarrow> ssh_call \<Rightarrow> 'r ssh_cmd" where
  "cmdLLMAdd sv c =
     (let api = ss_Api sv; provider = ToLower (sv_Lower api) (TrimSpace (arg c 0)); key = arg c 1 in
      if provider = [] then usagef ''name the provider to configure'' []
      else case NormalizeProvider (sv_Lower api) (sv_ParseURL api) provider (flag c ''base-url'') (flag c ''models'') key (flag c ''protocol'') of
        Inl e \<Rightarrow> raise (Db e)
      | Inr (baseURL, models, protocol) \<Rightarrow>
          bindE (wrap ''store the connection'' (SaveProviderKey (sv_Lower api) (sv_ParseURL api) (sv_Seal api) (in_Random (sc_In c))
            (in_UUID (sc_In c)) (caller c) provider key baseURL models protocol (sv_EncKey api))) (\<lambda>_.
          bindE (reportLLMSync sv c) (\<lambda>_. ret (Said ''LLM connection %q saved.'' [provider]))))"

text \<open>Every connection of that provider goes; the value says whether there was one.\<close>

fun remove_provider :: "'r ssh_server \<Rightarrow> string \<Rightarrow> string \<Rightarrow> apikey list \<Rightarrow> ('r gateway, ssh_error, bool) sm" where
  "remove_provider sv uid provider [] = ret False"
| "remove_provider sv uid provider (k # ks) =
     (if ToLower (sv_Lower (ss_Api sv)) (ak_Provider k) \<noteq> provider then remove_provider sv uid provider ks
      else bindE (wrap ''delete the connection'' (DeleteAPIKeyForOwner (ak_ID k) uid)) (\<lambda>_.
        bindE (remove_provider sv uid provider ks) (\<lambda>_. ret True)))"

definition cmdLLMRemove :: "'r ssh_server \<Rightarrow> ssh_call \<Rightarrow> 'r ssh_cmd" where
  "cmdLLMRemove sv c =
     (let provider = ToLower (sv_Lower (ss_Api sv)) (TrimSpace (arg c 0)) in
      if provider = [] then usagef ''name the provider to remove'' []
      else bindE (db (ListAPIKeysByOwner (caller c))) (\<lambda>keys.
        bindE (remove_provider sv (caller c) provider keys) (\<lambda>removed.
        if \<not> removed then refuse ''no LLM connection for %q'' [provider]
        else bindE (reportLLMSync sv c) (\<lambda>_. ret (Said ''LLM connection %q removed.'' [provider])))))"

definition cmdLLMModels :: "ssh_call \<Rightarrow> 'r ssh_cmd" where
  "cmdLLMModels c =
     bindE (db (OwnerModelIDs (caller c))) (\<lambda>models.
     bindE (db (UserDefaultModel (caller c))) (\<lambda>chosen. ret (Models_doc models chosen)))"

text \<open>A model that no connection offers is answered with those that are.\<close>

definition reachableModels :: "ssh_call \<Rightarrow> ('r gateway, ssh_error, string list) sm" where
  "reachableModels c = attempt (OwnerModelIDs (caller c)) (\<lambda>_. ret []) ret"

definition cmdLLMDefault :: "'r ssh_server \<Rightarrow> ssh_call \<Rightarrow> 'r ssh_cmd" where
  "cmdLLMDefault sv c =
     (let word = TrimSpace (arg c 0); choice = (if word = ''auto'' then [] else word) in
      if word = [] then usagef ''name the model to open on, or \"auto\" to let the gateway pick'' []
      else attempt (SetUserDefaultModel (caller c) choice)
        (\<lambda>e. case e of
           ErrUnknownModel _ \<Rightarrow> bindE (reachableModels c) (\<lambda>models. raise (Unknown_choice e models))
         | _ \<Rightarrow> raise (Wrapped ''save the default model'' e))
        (\<lambda>_. bindE (reportLLMSync sv c) (\<lambda>_. ret (Said ''%s'' [modelSummary choice]))))"

section \<open>The password\<close>

text \<open>What is typed at the next prompt.\<close>

definition typed_at :: "ssh_call \<Rightarrow> nat \<Rightarrow> string option" where
  "typed_at c i = (let xs = in_Typed (sc_In c) in if i < length xs then xs ! i else None)"

definition cmdPassword :: "'r ssh_server \<Rightarrow> ssh_call \<Rightarrow> 'r ssh_cmd" where
  "cmdPassword sv c =
     (if sc_Pty c = None then refuse ''use a terminal: ssh -t -p 2222 svkexe@<gateway> passwd'' []
      else case typed_at c 0 of
        None \<Rightarrow> raise (Check_error ''read password'')
      | Some password \<Rightarrow>
          if length password < 8 \<or> length password > 72 then refuse ''password must be 8-72 bytes'' []
          else case typed_at c 1 of
            None \<Rightarrow> raise (Check_error ''read password'')
          | Some confirm \<Rightarrow>
              if password \<noteq> confirm then refuse ''passwords do not match'' []
              else case sv_Hash (ss_Api sv) password of
                None \<Rightarrow> raise (Check_error ''hash password'')
              | Some hash \<Rightarrow> bindE (db (SetUserPassword (caller c) hash)) (\<lambda>_.
                  ret (Said ''Web password set. Sign in with %s.'' [u_Email (sc_User c)])))"

section \<open>Help\<close>

definition helpForCommand :: "ssh_call \<Rightarrow> string \<Rightarrow> string \<Rightarrow> 'r ssh_cmd" where
  "helpForCommand c name subName =
     (case indexRegistry registry name of
        None \<Rightarrow> refuse ''no such command %q'' [name]
      | Some cmd \<Rightarrow>
          if cm_AdminOnly cmd \<and> \<not> isAdmin (sc_User c) \<or> u_Role (sc_User c) = GuestRole \<and> \<not> guestCommandAllowed (cm_Name cmd)
          then refuse ''no such command %q'' [name]
          else if subName \<noteq> [] then
            (case sub_of cmd subName of
               None \<Rightarrow> refuse ''%q has no action %q: %s'' [cm_Name cmd, subName, subcommandNames cmd]
             | Some x \<Rightarrow> ret (Help_action x))
          else ret (Help_command cmd))"

definition cmdHelp :: "ssh_call \<Rightarrow> 'r ssh_cmd" where
  "cmdHelp c =
     (let u = sc_User c in
      if sc_JSON c then ret (Help_doc (u_Email u, u_Role u, isAdmin u) (visibleCommands u))
      else if arg c 0 \<noteq> [] then helpForCommand c (arg c 0) (arg c 1)
      else ret (Help_list (visibleCommands u)))"

section \<open>The operator's commands\<close>

definition vmsPerOwner :: "('r gateway, ssh_error, string \<Rightarrow> nat) sm" where
  "vmsPerOwner = bindE (db ListAllContainers) (\<lambda>vms. ret (\<lambda>uid. length (filter (\<lambda>vm. c_OwnerID vm = uid) vms)))"

definition cmdAdminUsers :: "'r ssh_cmd" where
  "cmdAdminUsers =
     bindE (db ListUsers) (\<lambda>us.
     bindE vmsPerOwner (\<lambda>counts.
     ret (Roster_doc (map (\<lambda>u. \<lparr>rj_ID = u_ID u, rj_Email = u_Email u, rj_Role = u_Role u, rj_VMs = counts (u_ID u),
       rj_CreatedAt = u_CreatedAt u\<rparr>) us))))"

definition adminFindUser :: "string \<Rightarrow> ('r gateway, ssh_error, user) sm" where
  "adminFindUser ref =
     (if ref = [] then usagef ''name the account to delete, by id or email'' []
      else attempt (GetUserByID ref)
        (\<lambda>e. if e \<noteq> ErrNoRows then raise (Db e)
             else attempt (GetUserByEmail ref)
               (\<lambda>e. if e = ErrNoRows then refuse ''no account with id or email %q'' [ref] else raise (Db e)) ret)
        ret)"

definition cmdAdminRemoveUser :: "ssh_call \<Rightarrow> 'r ssh_cmd" where
  "cmdAdminRemoveUser c =
     bindE (adminFindUser (arg c 0)) (\<lambda>target.
     if u_ID target = caller c then refuse ''refusing to delete your own account (%s); another administrator has to do that'' [u_Email target]
     else
       bindE (confirmDestructive c ''deleting the account %s'' [u_Email target]) (\<lambda>_.
       bindE (db (ListContainersByOwner (u_ID target))) (\<lambda>vms.
       bindE (db (DeleteUser (u_ID target))) (\<lambda>_.
       ret (Said ''It cascaded: %d VM record(s)'' [u_Email target, u_ID target, Itoa (int (length vms))])))))"

text \<open>The map of the accounts' addresses; the last account of an identifier counts.\<close>

definition ownerEmails :: "('r gateway, ssh_error, string \<Rightarrow> string) sm" where
  "ownerEmails = bindE (db ListUsers) (\<lambda>us. ret (\<lambda>uid. map_get (map_of (rev (map (\<lambda>u. (u_ID u, u_Email u)) us))) uid))"

definition cmdAdminVMs :: "'r ssh_server \<Rightarrow> 'r ssh_cmd" where
  "cmdAdminVMs sv =
     bindE (db ListAllContainers) (\<lambda>vms0.
     bindE (db (AttachNestingPolicy vms0)) (\<lambda>(vms, e).
     case e of Some x \<Rightarrow> raise (Db x)
     | None \<Rightarrow> bindE ownerEmails (\<lambda>emails.
         ret (All_vms_doc (map (\<lambda>vm. (newVMJSON (ss_Domain sv) vm, c_OwnerID vm, emails (c_OwnerID vm))) vms)))))"

definition cmdAdminNesting :: "'r ssh_server \<Rightarrow> ssh_call \<Rightarrow> 'r ssh_cmd" where
  "cmdAdminNesting sv c =
     bindE (if arg c 0 \<noteq> [] then bindE (parsed (parseOnOff (sv_Lower (ss_Api sv)) (arg c 0))) (\<lambda>allowed. db (SetNestingAllowed allowed))
       else ret ()) (\<lambda>_.
     bindE (db NestingAllowed) (\<lambda>allowed. ret (Said ''Nested containers are %s'' [if allowed then ''allowed'' else ''forbidden''])))"

definition cmdAdminDomains :: "'r ssh_cmd" where
  "cmdAdminDomains = bindE (db ListAllAliases) (\<lambda>list.
     ret (Claims_doc (map (\<lambda>x. \<lparr>mj_Hostname = a_Hostname (ao_Alias x), mj_Verified = a_Verified (ao_Alias x), mj_VM = ao_ContainerName x,
       mj_OwnerID = ao_OwnerID x, mj_OwnerEmail = ao_OwnerEmail x, mj_LastError = a_LastError (ao_Alias x),
       mj_CreatedAt = a_CreatedAt (ao_Alias x)\<rparr>) list)))"

definition cmdAdminRelease :: "'r ssh_server \<Rightarrow> ssh_call \<Rightarrow> 'r ssh_cmd" where
  "cmdAdminRelease sv c =
     (let hostname = arg c 0 in
      if hostname = [] then usagef ''name the hostname to release'' []
      else case ss_Aliases sv of
        None \<Rightarrow> refuse ''custom domains are not configured in this deployment, so there is no claim to release'' []
      | Some m \<Rightarrow> attempt (Release (sv_Lower (ss_Api sv)) m hostname)
          (\<lambda>e. if e = ErrNotFound then refuse ''no VM claims %q'' [hostname] else raise (Domain_error e))
          (\<lambda>removed. ret (Said ''Released %q: %d claim(s) removed.'' [hostname, Itoa (int removed)])))"

section \<open>The world\<close>

record 'r ssh_world =
  sw_Hub :: "'r hub"
  sw_Host :: upd_host
  sw_Checker :: checker

type_synonym 'r ssh_world_cmd = "('r ssh_world, ssh_error, ssh_view) sm"

text \<open>The gateway is the hub without its connections, whose rows go with their account: ON DELETE CASCADE.\<close>

definition on_hub :: "('r hub, 'e, 'a) sm \<Rightarrow> ('r ssh_world, 'e, 'a) sm" where
  "on_hub m w = (case m (sw_Hub w) of (r, h) \<Rightarrow> (r, w\<lparr>sw_Hub := h\<rparr>))"

definition cascade_connections :: "'z store_scheme \<Rightarrow> 'y store_scheme \<Rightarrow> integration list \<Rightarrow> integration list" where
  "cascade_connections s t gs =
     (if fk_on s then filter (\<lambda>g. user_exists s (ig_Owner g) \<longrightarrow> user_exists t (ig_Owner g)) gs else gs)"

definition on_gateway :: "('r gateway, 'e, 'a) sm \<Rightarrow> ('r ssh_world, 'e, 'a) sm" where
  "on_gateway m w = (let h = sw_Hub w; s = gateway.truncate h in
     case m s of (r, g) \<Rightarrow> (r, w\<lparr>sw_Hub := gateway.extend g (hub.fields (cascade_connections s g (t_integrations h)))\<rparr>))"

definition on_host :: "(upd_host \<Rightarrow> 'a \<times> upd_host) \<Rightarrow> ('r ssh_world, 'e, 'a) sm" where
  "on_host f w = (case f (sw_Host w) of (x, h) \<Rightarrow> (Inr x, w\<lparr>sw_Host := h\<rparr>))"

section \<open>What goes with an account\<close>

text \<open>The account's rows, and its connections to external services where the pragma is on: \<open>sql_delete_users\<close> sees the
  gateway's tables only, and the cascade to \<^verbatim>\<open>user_integrations\<close> is \<open>on_gateway\<close>'s.\<close>

definition account_removed :: "string \<Rightarrow> 'r hub \<Rightarrow> 'r hub" where
  "account_removed uid h = (delete_user_rows uid h)\<lparr>t_integrations :=
     (if fk_on h \<and> user_exists h uid then filter (\<lambda>g. ig_Owner g \<noteq> uid) (t_integrations h) else t_integrations h)\<rparr>"

lemma cascade_of_delete:
  assumes "same_data (delete_user_rows uid s) t"
  shows "cascade_connections s t gs = (if fk_on s \<and> user_exists s uid then filter (\<lambda>g. ig_Owner g \<noteq> uid) gs else gs)"
proof -
  have "user_exists t i \<longleftrightarrow> i \<noteq> uid \<and> user_exists s i" for i
    using same_data_fields [OF assms] by (auto simp: user_exists_def delete_user_rows_def)
  then show ?thesis by (auto simp: cascade_connections_def filter_id_conv intro!: filter_cong)
qed

lemma cascade_of_same: "same_data s t \<Longrightarrow> cascade_connections s t gs = gs"
  using same_data_fields [of s t] by (auto simp: cascade_connections_def user_exists_def filter_id_conv)

text \<open>C17: deleting an account is all or nothing over the whole database.  Whatever the engine does (any schedule of failing
  statements, foreign keys on or off), it either returns an error with every table unchanged, or succeeds having removed exactly
  the account, its VMs, their domains, shares and guest grants, the grants the account itself held, the links it created and its
  API keys, and, by the cascades of the schema, its sessions and its connections to external services where foreign keys are
  enforced; nothing else of the gateway's state changes.\<close>

theorem DeleteUser_removes:
  "case on_gateway (DeleteUser uid) w of
     (Inl _, v) \<Rightarrow> same_data (sw_Hub w) (sw_Hub v) \<and> sw_Host v = sw_Host w \<and> sw_Checker v = sw_Checker w
   | (Inr _, v) \<Rightarrow> same_data (account_removed uid (sw_Hub w)) (sw_Hub v) \<and> sw_Host v = sw_Host w \<and> sw_Checker v = sw_Checker w"
proof -
  let ?s = "gateway.truncate (sw_Hub w)"
  obtain r t where m: "DeleteUser uid ?s = (r, t)" by fastforce
  show ?thesis
  proof (cases r)
    case (Inl e)
    with DeleteUser_refines [where uid = uid and s = ?s] m have t: "same_data ?s t" by simp
    with cascade_of_same [OF t] show ?thesis unfolding on_gateway_def Let_def m Inl
      by (cases "sw_Hub w"; cases t) (simp add: same_data_def gateway.defs hub.defs)
  next
    case (Inr u)
    with DeleteUser_refines [where uid = uid and s = ?s] m have t: "same_data (delete_user_rows uid ?s) t" by simp
    with cascade_of_delete [OF t] show ?thesis unfolding on_gateway_def Let_def m Inr
      by (cases "sw_Hub w"; cases t) (simp add: same_data_def account_removed_def delete_user_rows_def owned_ids_def user_exists_def gateway.defs hub.defs)
  qed
qed

section \<open>External services\<close>

definition cmdIntegrationList :: "'r ssh_server \<Rightarrow> ssh_call \<Rightarrow> 'r ssh_world_cmd" where
  "cmdIntegrationList sv c =
     attempt (on_hub (List_connections (ss_Codec sv) (ss_Integrations sv) (caller c))) (\<lambda>_. refuse ''could not list integrations'' [])
       (\<lambda>list. ret (Connections_doc list))"

definition cmdIntegrationProviders :: "'r ssh_server \<Rightarrow> 'r ssh_world_cmd" where
  "cmdIntegrationProviders sv = ret (Providers_doc (Descriptors (ss_Integrations sv)))"

text \<open>The prompts of a terminal, the configuration first; one that fails ends the input.\<close>

fun read_fields :: "ssh_call \<Rightarrow> nat \<Rightarrow> int_field list \<Rightarrow> go_map option" where
  "read_fields c i [] = Some []"
| "read_fields c i (f # fs) =
     (case typed_at c i of None \<Rightarrow> None | Some v \<Rightarrow> map_option (\<lambda>m. (fd_Name f, v) # m) (read_fields c (Suc i) fs))"

definition prompted :: "ssh_call \<Rightarrow> descriptor \<Rightarrow> line_error + int_input" where
  "prompted c d =
     (case read_fields c 0 (ds_Config d) of
        None \<Rightarrow> Inl (Refused ''could not read configuration'' [])
      | Some config \<Rightarrow>
          (case read_fields c (length (ds_Config d)) (ds_Secrets d) of
             None \<Rightarrow> Inl (Refused ''could not read credentials'' [])
           | Some secrets \<Rightarrow> Inr \<lparr>ip_Config = config, ip_Secrets = secrets\<rparr>))"

definition connection_input :: "'r ssh_server \<Rightarrow> ssh_call \<Rightarrow> descriptor \<Rightarrow> line_error + int_input" where
  "connection_input sv c d =
     (if sc_Pty c \<noteq> None then prompted c d
      else case DecodeInput (ss_ReadInput sv) (in_Stdin (sc_In c)) of
        Inl _ \<Rightarrow> Inl (Refused ''send credential JSON on stdin: config and secrets objects'' [])
      | Inr i \<Rightarrow> Inr i)"

definition cmdIntegrationAdd :: "'r ssh_server \<Rightarrow> ssh_call \<Rightarrow> 'r ssh_world_cmd" where
  "cmdIntegrationAdd sv c =
     (let provider = arg c 0 in
      case Descriptor (ss_Integrations sv) provider of
        Inl _ \<Rightarrow> refuse ''unknown provider; use integration providers'' []
      | Inr d \<Rightarrow>
          bindE (parsed (connection_input sv c d)) (\<lambda>i.
          attempt (on_hub (Save (ss_Codec sv) (ss_Integrations sv) (in_Random (sc_In c)) (caller c) provider i))
            (\<lambda>e. refuse ''%s'' [snd (PublicError e)])
            (\<lambda>_. ret (Said ''Integration %s saved for your VMs.'' [provider]))))"

definition cmdIntegrationRemove :: "'r ssh_server \<Rightarrow> ssh_call \<Rightarrow> 'r ssh_world_cmd" where
  "cmdIntegrationRemove sv c =
     attempt (on_hub (Delete_connection (ss_Integrations sv) (caller c) (arg c 0))) (\<lambda>_. refuse ''could not delete integration'' [])
       (\<lambda>_. ret (Said ''Integration disconnected.'' []))"

section \<open>The self-update\<close>

text \<open>A status that cannot be read is shown as a failed run.\<close>

definition adminUpdateState :: "upd_service \<Rightarrow> ('r ssh_world, ssh_error, run_state) sm" where
  "adminUpdateState x = bindE (on_host (RunStatus (sx_Run x) (sx_Runner x))) (\<lambda>(st, bad).
     ret (if bad then (plain_state StateFailed)\<lparr>ru_Error := ''read update status''\<rparr> else st))"

definition update_answer :: "upd_service \<Rightarrow> upd_status option \<Rightarrow> string option \<Rightarrow> run_state \<Rightarrow> 'r ssh_world_cmd" where
  "update_answer x seen reason st = ret (Update_doc \<lparr>uv_Version = sx_Local x, uv_CanUpdate = (reason = None),
     uv_Reason = (case reason of None \<Rightarrow> [] | Some r \<Rightarrow> r), uv_Run = st, uv_Check = seen\<rparr>)"

definition cmdAdminUpdateStatus :: "upd_service \<Rightarrow> 'r ssh_world_cmd" where
  "cmdAdminUpdateStatus x =
     bindE (on_host (Available (sx_Runner x))) (\<lambda>reason.
     bindE (adminUpdateState x) (update_answer x None reason))"

definition cmdAdminUpdateCheck :: "'r ssh_server \<Rightarrow> ssh_call \<Rightarrow> upd_service \<Rightarrow> 'r ssh_world_cmd" where
  "cmdAdminUpdateCheck sv c x w =
     (case Status (sx_Codec x) (sx_Config x) (sx_Local x) (ss_Net sv) (hasFlag c ''force'') (clock (sw_Hub w)) (in_CheckDone (sc_In c))
          (sw_Checker w) of
        (Inl (e, _), k) \<Rightarrow> (Inl (Check_error (''update check: '' @ e)), w\<lparr>sw_Checker := k\<rparr>)
      | (Inr st, k) \<Rightarrow>
          bindE (on_host (Available (sx_Runner x))) (\<lambda>reason.
          bindE (if sc_JSON c then adminUpdateState x else ret (plain_state StateIdle)) (update_answer x (Some st) reason))
            (w\<lparr>sw_Checker := k\<rparr>))"

definition cmdAdminUpdateStart :: "ssh_call \<Rightarrow> upd_service \<Rightarrow> 'r ssh_world_cmd" where
  "cmdAdminUpdateStart c x =
     bindE (on_host (Start (sx_Run x) (sx_Runner x) (in_Cancelled (sc_In c)))) (\<lambda>r.
     case r of Inl e \<Rightarrow> raise (Update_error e)
     | Inr _ \<Rightarrow>
         bindE (adminUpdateState x) (\<lambda>st.
         if sc_JSON c then bindE (on_host (Available (sx_Runner x))) (\<lambda>reason. update_answer x None reason st)
         else ret (Said ''State: %s'' [ru_State st])))"

definition cmdAdminUpdate :: "'r ssh_server \<Rightarrow> ssh_call \<Rightarrow> 'r ssh_world_cmd" where
  "cmdAdminUpdate sv c =
     (case ss_Updater sv of
        None \<Rightarrow> refuse ''self-update is not configured in this deployment'' []
      | Some x \<Rightarrow>
          let word = arg c 0 in
          if word = [] \<or> word = ''status'' then cmdAdminUpdateStatus x
          else if word = ''check'' then cmdAdminUpdateCheck sv c x
          else if word = ''start'' then cmdAdminUpdateStart c x
          else usagef ''unknown update action %q; try status, check or start'' [word])"

end
