(* ===== verification/Ssh_Gateway.thy ===== *)
theory Ssh_Gateway
  imports Ssh_Account
begin

text \<open>
  Sessions of the SSH gateway: \<^verbatim>\<open>shell.go\<close> and \<^verbatim>\<open>server.go\<close> under \<^verbatim>\<open>src/internal/sshgw\<close>.

  \<open>ssh_exec\<close> is the one way into a command.  A session is what its client asked for; the lines of its menu come with what
  each of them takes from outside.  A panic in a command ends the gateway, since nothing recovers it.
\<close>

section \<open>From a line to a command\<close>

record ssh_session =
  se_User :: "user option"
  se_Login :: string
  se_Raw :: string
  se_Pty :: "(string \<times> int \<times> int) option"
  se_Key :: string

definition currentUser :: "user option \<Rightarrow> ('r gateway, ssh_error, user) sm" where
  "currentUser x =
     (case x of None \<Rightarrow> refuse ''authentication required'' []
      | Some u \<Rightarrow> attempt (GetUserByID (u_ID u)) (\<lambda>_. refuse ''account no longer available'' []) ret)"

fun run_command :: "'r ssh_server \<Rightarrow> ssh_run \<Rightarrow> ssh_call \<Rightarrow> 'r ssh_world_cmd" where
  "run_command sv RunLs c = on_gateway (cmdLs sv c)"
| "run_command sv RunNew c = on_gateway (cmdNew sv c)"
| "run_command sv RunRm c = on_gateway (cmdRm sv c)"
| "run_command sv RunStart c = on_gateway (cmdStart sv c)"
| "run_command sv RunStop c = on_gateway (cmdStop sv c)"
| "run_command sv RunRestart c = on_gateway (cmdRestart sv c)"
| "run_command sv RunRename c = on_gateway (cmdRename sv c)"
| "run_command sv RunStat c = on_gateway (cmdStat sv c)"
| "run_command sv RunSSH c = on_gateway (cmdSSH sv c)"
| "run_command sv RunRecreate c = on_gateway (cmdRecreate sv c)"
| "run_command sv RunPublish c = on_gateway (cmdPublish sv c)"
| "run_command sv RunNesting c = on_gateway (cmdNesting sv c)"
| "run_command sv RunTask c = on_gateway (cmdTask sv c)"
| "run_command sv RunTaskRetry c = on_gateway (cmdTaskRetry sv c)"
| "run_command sv RunAgent c = on_gateway (cmdAgent sv c)"
| "run_command sv RunAgentUpdate c = on_gateway (cmdAgentUpdate sv c)"
| "run_command sv RunShareCreate c = on_gateway (cmdShareCreate sv c)"
| "run_command sv RunShareList c = on_gateway (cmdShareList sv c)"
| "run_command sv RunShareRevoke c = on_gateway (cmdShareRevoke sv c)"
| "run_command sv RunURL c = on_gateway (cmdURL sv c)"
| "run_command sv RunDomainList c = on_gateway (cmdDomainList sv c)"
| "run_command sv RunDomainAdd c = on_gateway (cmdDomainAdd sv c)"
| "run_command sv RunDomainVerify c = on_gateway (cmdDomainVerify sv c)"
| "run_command sv RunDomainRm c = on_gateway (cmdDomainRm sv c)"
| "run_command sv RunWhoami c = on_gateway (cmdWhoami c)"
| "run_command sv RunSSHKeyList c = on_gateway (cmdSSHKeyList c)"
| "run_command sv RunSSHKeyAdd c = on_gateway (cmdSSHKeyAdd sv c)"
| "run_command sv RunSSHKeyRemove c = on_gateway (cmdSSHKeyRemove c)"
| "run_command sv RunLLMList c = on_gateway (cmdLLMList c)"
| "run_command sv RunLLMAdd c = on_gateway (cmdLLMAdd sv c)"
| "run_command sv RunLLMRemove c = on_gateway (cmdLLMRemove sv c)"
| "run_command sv RunLLMModels c = on_gateway (cmdLLMModels c)"
| "run_command sv RunLLMDefault c = on_gateway (cmdLLMDefault sv c)"
| "run_command sv RunIntegrationList c = cmdIntegrationList sv c"
| "run_command sv RunIntegrationProviders c = cmdIntegrationProviders sv"
| "run_command sv RunIntegrationAdd c = cmdIntegrationAdd sv c"
| "run_command sv RunIntegrationRemove c = cmdIntegrationRemove sv c"
| "run_command sv RunPasswd c = on_gateway (cmdPassword sv c)"
| "run_command sv RunHelp c = on_gateway (cmdHelp c)"
| "run_command sv RunExit c = raise Session_over"
| "run_command sv RunAdminUsers c = on_gateway cmdAdminUsers"
| "run_command sv RunAdminRemoveUser c = on_gateway (cmdAdminRemoveUser c)"
| "run_command sv RunAdminVMs c = on_gateway (cmdAdminVMs sv)"
| "run_command sv RunAdminNesting c = on_gateway (cmdAdminNesting sv c)"
| "run_command sv RunAdminDomains c = on_gateway cmdAdminDomains"
| "run_command sv RunAdminRelease c = on_gateway (cmdAdminRelease sv c)"
| "run_command sv RunAdminUpdate c = cmdAdminUpdate sv c"

text \<open>The command that an account asks for with its words, or the refusal.\<close>

definition admin_word :: "user \<Rightarrow> string list \<Rightarrow> cmd option" where
  "admin_word u tokens =
     (case indexRegistry registry (hd tokens) of
        None \<Rightarrow> None
      | Some cmd \<Rightarrow> if cm_AdminOnly cmd \<and> \<not> isAdmin u then Some cmd else None)"

definition gate :: "user \<Rightarrow> bool \<Rightarrow> string list \<Rightarrow> line_error + ssh_run action" where
  "gate u interactive tokens =
     (case admin_word u tokens of
        Some cmd \<Rightarrow> Inl (Refused ''%q is an administrator command'' [cm_Name cmd])
      | None \<Rightarrow>
          (case parseLine registry tokens of
             Inl e \<Rightarrow> Inl e
           | Inr a \<Rightarrow>
               if u_Role u = GuestRole \<and> \<not> guestCommandAllowed (cm_Name (ac_Cmd a))
               then Inl (Refused ''guest accounts cannot run %q'' [cm_Name (ac_Cmd a)])
               else if cm_Interactive (ac_Cmd a) \<and> \<not> interactive
               then Inl (Refused ''%q only means something in an interactive session'' [cm_Name (ac_Cmd a)])
               else Inr a))"

definition call_of :: "ssh_session \<Rightarrow> user \<Rightarrow> bool \<Rightarrow> ssh_input \<Rightarrow> ssh_run action \<Rightarrow> ssh_call" where
  "call_of se u interactive i a = \<lparr>sc_User = u, sc_Args = ac_Args a, sc_Flags = ac_Flags a, sc_JSON = ac_JSON a,
     sc_Interactive = interactive, sc_Pty = se_Pty se, sc_SessionKey = se_Key se, sc_In = i\<rparr>"

definition ssh_exec :: "'r ssh_server \<Rightarrow> ssh_session \<Rightarrow> bool \<Rightarrow> string \<Rightarrow> ssh_input \<Rightarrow> 'r ssh_world_cmd" where
  "ssh_exec sv se interactive line i =
     bindE (on_gateway (currentUser (se_User se))) (\<lambda>u.
     bindE (parsed (splitArgs line)) (\<lambda>tokens.
     if tokens = [] then ret No_output
     else bindE (parsed (gate u interactive tokens)) (\<lambda>a. run_command sv (ac_Run a) (call_of se u interactive i a))))"

section \<open>Sessions\<close>

text \<open>How a session ends: with a status, with its connection, or with the gateway.\<close>

datatype session_end = Exited nat | Closed | Crashed

type_synonym transcript = "(ssh_error + ssh_view) list \<times> session_end"

definition exitFailure :: nat where "exitFailure = 1"
definition exitUnknownCommand :: nat where "exitUnknownCommand = 127"

definition exitStatus :: "ssh_error \<Rightarrow> nat" where
  "exitStatus e = (case e of Line (UnknownCommand _) \<Rightarrow> exitUnknownCommand | _ \<Rightarrow> exitFailure)"

definition runOneShot :: "'r ssh_server \<Rightarrow> ssh_session \<Rightarrow> string \<Rightarrow> ssh_input \<Rightarrow> 'r ssh_world \<Rightarrow> transcript \<times> 'r ssh_world" where
  "runOneShot sv se line i w =
     (case ssh_exec sv se False line i w of
        (Inl e, w') \<Rightarrow> (([Inl e], if e = Db ErrPanic then Crashed else Exited (exitStatus e)), w')
      | (Inr v, w') \<Rightarrow> (([Inr v], Exited 0), w'))"

fun runMenu :: "'r ssh_server \<Rightarrow> ssh_session \<Rightarrow> (string \<times> ssh_input) list \<Rightarrow> 'r ssh_world \<Rightarrow> transcript \<times> 'r ssh_world" where
  "runMenu sv se [] w = (([], Closed), w)"
| "runMenu sv se ((line, i) # rest) w =
     (if line = [] then runMenu sv se rest w
      else case ssh_exec sv se True line i w of (r, w') \<Rightarrow>
        if r = Inl Session_over then (([], Exited 0), w')
        else if r = Inl (Db ErrPanic) then (([r], Crashed), w')
        else (case runMenu sv se rest w' of ((rs, e), w'') \<Rightarrow> ((r # rs, e), w'')))"

definition menuLogin :: string where "menuLogin = ''svkexe''"

text \<open>A session authenticates by the fingerprint of its key.\<close>

definition PublicKeyHandler :: "string \<Rightarrow> ('r gateway, ssh_error, user option) sm" where
  "PublicKeyHandler fp = attempt (GetUserBySSHFingerprint fp) (\<lambda>_. ret None) (\<lambda>u. ret (Some u))"

definition accessibleVM :: "user \<Rightarrow> string \<Rightarrow> ('r gateway, ssh_error, container option) sm" where
  "accessibleVM u login =
     (if login = [] then ret None
      else attempt (ResolveAccessibleContainer login (u_ID u)) (\<lambda>_. ret None) (\<lambda>c. ret (Some c)))"

definition connectToVM :: "'r ssh_server \<Rightarrow> ssh_session \<Rightarrow> user \<Rightarrow> container \<Rightarrow> 'r ssh_world \<Rightarrow> transcript \<times> 'r ssh_world" where
  "connectToVM sv se u vm w =
     (let line = TrimSpace (se_Raw se) in
      if c_Status vm \<noteq> ''running''
      then (([Inl (Line (Refused ''VM %q is not running (status: %s)'' [c_Name vm, c_Status vm]))], Exited 1), w)
      else case on_gateway (attach sv (u_ID u) (se_Pty se) vm (if line \<noteq> [] then Some [''/bin/bash'', ''-lc'', line] else None)) w of
        (Inl e, w') \<Rightarrow> (([Inl e], Exited 1), w')
      | (Inr _, w') \<Rightarrow> (([Inr (Shell_ended (c_ID vm))], Exited 0), w'))"

definition handleSession :: "'r ssh_server \<Rightarrow> ssh_session \<Rightarrow> ssh_input \<Rightarrow> (string \<times> ssh_input) list \<Rightarrow> 'r ssh_world \<Rightarrow> transcript \<times> 'r ssh_world" where
  "handleSession sv se i lines w =
     (case se_User se of
        None \<Rightarrow> (([], Exited 1), w)
      | Some u \<Rightarrow>
          (case (if \<not> EqualFold (se_Login se) menuLogin then on_gateway (accessibleVM u (se_Login se)) w else (Inr None, w)) of
             (Inr (Some vm), w') \<Rightarrow> connectToVM sv se u vm w'
           | (_, w') \<Rightarrow>
               let line = TrimSpace (se_Raw se) in
               if line \<noteq> [] then runOneShot sv se line i w' else runMenu sv se lines w'))"

section \<open>What a role can run\<close>

lemma run_registered:
  assumes "action_ok registry a"
  shows "ac_Cmd a \<in> set registry \<and> ac_Run a \<in> set (runs_of (ac_Cmd a))"
  using assms by (auto simp: action_ok_def runs_of_def split: option.splits)

lemma parseLine_cmd:
  assumes "parseLine registry tokens = Inr a"
  shows "action_ok registry a \<and> indexRegistry registry (hd tokens) = Some (ac_Cmd a)"
proof -
  obtain cmd where c: "indexRegistry registry (hd tokens) = Some cmd" using assms by (auto simp: parseLine_def split: option.splits)
  have "ac_Cmd a = cmd" using assms c by (auto simp: parseLine_def Let_def split: option.splits dest!: finish_line_ok)
  moreover have "action_ok registry a" using parse_action_ok [OF assms] .
  ultimately show ?thesis using c by simp
qed

lemma gate_passes:
  assumes "gate u interactive tokens = Inr a"
  shows "action_ok registry a \<and> (isAdmin u \<or> ac_Run a \<notin> set admin_runs) \<and> (u_Role u = GuestRole \<longrightarrow> ac_Run a \<in> set guest_runs)
    \<and> (interactive \<or> \<not> cm_Interactive (ac_Cmd a))"
proof -
  have p: "parseLine registry tokens = Inr a" and n: "admin_word u tokens = None"
    and g: "u_Role u = GuestRole \<longrightarrow> guestCommandAllowed (cm_Name (ac_Cmd a))" "interactive \<or> \<not> cm_Interactive (ac_Cmd a)"
    using assms by (auto simp: gate_def split: option.splits sum.splits if_splits)
  note ok = parseLine_cmd [OF p]
  have r: "ac_Cmd a \<in> set registry" "ac_Run a \<in> set (runs_of (ac_Cmd a))" using run_registered ok by blast+
  have "isAdmin u \<or> \<not> cm_AdminOnly (ac_Cmd a)" using n ok by (auto simp: admin_word_def split: if_splits)
  then have "isAdmin u \<or> ac_Run a \<notin> set admin_runs" using registry_admin r by (auto simp: list_all_iff)
  moreover have "u_Role u = GuestRole \<longrightarrow> ac_Run a \<in> set guest_runs" using registry_guest r g by (auto simp: list_all_iff)
  ultimately show ?thesis using ok g by blast
qed

end
