(* ===== verification/Api_Safety.thy ===== *)
theory Api_Safety
  imports Api_Account
begin

text \<open>
  What the HTTP API lets an account do: every route of a VM is its owner's, the operator's routes are the
  operator's, a guest account changes nothing but its own SSH keys, a session is only given for a
  password, and a certificate only for a verified domain.
\<close>

section \<open>Paths\<close>

lemma Split_append: "c \<notin> set a \<Longrightarrow> Split (a @ c # b) c = a # Split b c"
  by (induction a) auto

lemma Split_plain: "c \<notin> set a \<Longrightarrow> Split a c = [a]"
  by (induction a) auto

text \<open>A path that is a prefix and one segment, perhaps with a slash after it.\<close>

lemma trimmed_path: "TrimSuffix p ''/'' = q \<Longrightarrow> p = q \<or> p = q @ ''/''"
  by (metis HasSuffix_iff TrimSuffix_append TrimSuffix_same)

lemma api_route_tail: "api_route verb (''/api/'' @ tail) = segments_route verb (Split tail CHR ''/'')"
proof -
  have "CutPrefix (''/api/'' @ tail) ''/api/'' = Some tail" by (simp only: CutPrefix_Some)
  then show ?thesis by (simp only: api_route_def option.case)
qed

lemma api_routeE:
  assumes "api_route verb path = Some rt"
  obtains tail where "path = ''/api/'' @ tail" and "segments_route verb (Split tail CHR ''/'') = Some rt"
  using assms by (auto simp: api_route_def CutPrefix_Some split: option.splits)

lemma one_segment:
  assumes "TrimSuffix path ''/'' = ''/api/containers/'' @ cid" and "CHR ''/'' \<notin> set cid" and "cid \<noteq> []"
    and "api_route ''GET'' path = Some rt"
  shows "rt = Vm cid VmGet"
proof -
  have plain: "CHR ''/'' \<notin> set ''containers''" by simp
  consider "path = ''/api/'' @ (''containers'' @ CHR ''/'' # cid)" | "path = ''/api/'' @ (''containers'' @ CHR ''/'' # (cid @ ''/''))"
    using trimmed_path [OF assms(1)] by auto
  then show ?thesis
  proof cases
    case 1
    then have "segments_route ''GET'' [''containers'', cid] = Some rt"
      using assms(4) by (simp only: api_route_tail Split_append [OF plain] Split_plain [OF assms(2)])
    then show ?thesis using assms(3) by (simp add: segments_route_def vm_route_def)
  next
    case 2
    then have "segments_route ''GET'' [''containers'', cid, []] = Some rt"
      using assms(4) by (simp only: api_route_tail Split_append [OF plain] Split_append [OF assms(2)] Split.simps)
    then show ?thesis using assms(3) by (simp add: segments_route_def vm_route_def)
  qed
qed

lemma vm_route_id:
  assumes "api_route verb path = Some (Vm cid vr)"
  shows "cid \<noteq> [] \<and> CHR ''/'' \<notin> set cid"
proof -
  from assms obtain tail where "segments_route verb (Split tail CHR ''/'') = Some (Vm cid vr)" by (rule api_routeE)
  then have "cid \<noteq> []" "2 \<le> length (Split tail CHR ''/'')" "cid = Split tail CHR ''/'' ! 1"
    unfolding segments_route_def by (auto split: if_splits)
  then show ?thesis using Split_no_sep [of cid tail "CHR ''/''"] nth_mem [of 1 "Split tail CHR ''/''"] by auto
qed

section \<open>Who may do what\<close>

text \<open>The signed-in account of a request.\<close>

definition signed_in :: "'z store_scheme \<Rightarrow> api_request \<Rightarrow> user \<Rightarrow> bool" where
  "signed_in s r u \<longleftrightarrow> u \<in> set (t_users s) \<and> (\<exists>tok. ar_Session r = Some tok \<and> live_session s tok (u_ID u))"

definition may_do :: "'z store_scheme \<Rightarrow> user \<Rightarrow> route \<Rightarrow> bool" where
  "may_do s u rt \<longleftrightarrow>
     (case rt of
        Vm cid vr \<Rightarrow> (\<exists>d\<in>set (t_containers s). c_ID d = cid \<and> c_OwnerID d = u_ID u) \<or> vr = VmGet \<and> can_use s cid (u_ID u)
      | Admin _ \<Rightarrow> u_Role u = ''admin''
      | _ \<Rightarrow> True)"

definition refused :: "response \<Rightarrow> bool" where
  "refused x \<longleftrightarrow> rs_Status x \<in> {303, 401, 403, 404, 500} \<and> rs_Cookie x = None"

lemma look_GetUserByID [look_rules]: "looks_up s (GetUserByID i) (\<lambda>u. u \<in> set (t_users s) \<and> u_ID u = i)"
  unfolding GetUserByID_def by (rule looks_up_weaken [OF users.looks_up_row])

lemma hoare_authenticate:
  "hoare (same_data s) (authenticate r) (\<lambda>w t. (\<forall>u. w = Some u \<longrightarrow> signed_in s r u) \<and> same_data s t) (\<lambda>_ _. False)"
  unfolding authenticate_def
  by (cases "ar_Session r")
     (auto intro!: hoare_ret look_attempt [OF look_GetSession] look_attempt [OF look_GetUserByID] simp: signed_in_def)

lemma hoare_run: "hoare (same_data s) m Q E \<Longrightarrow> m s = (Inr x, t) \<Longrightarrow> Q x t"
  by (erule hoare_Inr) simp_all

lemma hoare_refuse:
  "st \<in> {401, 403, 404, 500} \<Longrightarrow> hoare (same_data s) (http_error msg st) (\<lambda>x t. same_data s t \<and> refused x) (\<lambda>_ _. False)"
  by (auto simp: http_error_def respond_def refused_def intro!: hoare_ret)

text \<open>A route that is not permitted is not reached.\<close>

lemma route_refused:
  assumes "\<not> may_do s u rt" and "api_route (ar_Method r) (ar_Path r) = Some rt"
  shows "hoare (same_data s) (serve_route sv r u rt) (\<lambda>x t. same_data s t \<and> refused x) (\<lambda>_ _. False)"
proof -
  consider cid vr where "rt = Vm cid vr" | ar where "rt = Admin ar" "u_Role u \<noteq> ''admin''"
    using assms(1) by (cases rt) (auto simp: may_do_def)
  then show ?thesis
  proof cases
    case 1
    have no: "\<not> (\<exists>d\<in>set (t_containers s). c_ID d = cid \<and> c_OwnerID d = u_ID u)" "vr = VmGet \<Longrightarrow> \<not> can_use s cid (u_ID u)"
      using assms(1) 1 by (auto simp: may_do_def)
    have get: "vr = VmGet" if "ar_Method r = ''GET''" "TrimSuffix (ar_Path r) ''/'' = ''/api/containers/'' @ cid"
      using one_segment [OF that(2)] vm_route_id assms(2) that(1) 1 by fastforce
    show ?thesis
      unfolding 1 serve_route.simps OwnershipMiddleware_def
    proof (rule look_attempt [OF look_containers(1)])
      show "hoare (same_data s) (if e = ErrNoRows then http_error ''container not found'' 404 else http_error ''internal error'' 500)
          (\<lambda>x t. same_data s t \<and> refused x) (\<lambda>_ _. False)" for e :: dberr
        by (simp add: hoare_refuse)
    next
      fix c assume "\<exists>d\<in>set (t_containers s). c_ID d = cid \<and> c = scanContainer d"
      then have c: "c_OwnerID c \<noteq> u_ID u" "c_ID c = cid" using no(1) by (auto simp: scanContainer_def)
      have "hoare (same_data s) (bindE (CanUseContainer cid (u_ID u)) (\<lambda>can. if can then n else http_error ''forbidden'' 403))
          (\<lambda>x t. same_data s t \<and> refused x) (\<lambda>_ _. False)" if "vr = VmGet" for n
      proof -
        have "hoare (same_data s) (CanUseContainer cid (u_ID u)) (\<lambda>b t. same_data s t \<and> \<not> b) (\<lambda>_ _. False)"
          unfolding CanUseContainer_def
          by (rule look_attempt [OF looks_up_value [of s "\<lambda>s. can_use s cid (u_ID u)"]])
            (simp_all add: same_data_derived hoare_ret no(2) [OF that])
        then show ?thesis by (rule hoare_bindE) (auto intro!: hoare_pre_pure hoare_conseq [OF hoare_refuse])
      qed
      then show "hoare (same_data s) (if c_OwnerID c = u_ID u then serve_vm sv r u cid vr
          else if ar_Method r = ''GET'' \<and> TrimSuffix (ar_Path r) ''/'' = ''/api/containers/'' @ cid
          then bindE (CanUseContainer (c_ID c) (u_ID u)) (\<lambda>can. if can then serve_vm sv r u cid vr else http_error ''forbidden'' 403)
          else http_error ''forbidden'' 403) (\<lambda>x t. same_data s t \<and> refused x) (\<lambda>_ _. False)"
        using get c by (simp add: hoare_refuse)
    qed
  next
    case 2
    then show ?thesis by (simp add: AdminMiddleware_def hoare_refuse)
  qed
qed

text \<open>C1: an API request is either served to a signed-in account that may make it, or answered with a
  redirect to the sign-in page, 401, 403, 404 or 500 with every table unchanged.  An account that may make a
  request of a VM is its owner, or one that can use it and only reads it; the operator's routes need the
  operator; a guest has the guest routes only.  This holds under every schedule of engine failures.\<close>

theorem api_authorised:
  fixes s t :: "'r gateway"
  assumes "api_route (ar_Method r) (ar_Path r) = Some rt" and "serve_api sv rest r s = (Inr resp, t)"
  shows "(\<exists>u. signed_in s r u \<and> (u_Role u = GuestRole \<longrightarrow> guestRequestAllowed (ar_Method r) (ar_Path r)) \<and> may_do s u rt)
    \<or> same_data s t \<and> refused resp"
proof (rule ccontr)
  assume n: "\<not> ?thesis"
  then have no: "\<not> may_do s u rt"
    if "signed_in s r u" "u_Role u = GuestRole \<longrightarrow> guestRequestAllowed (ar_Method r) (ar_Path r)" for u
    using that by blast
  have see: "hoare (same_data s) (see_other d None) (\<lambda>x t. same_data s t \<and> refused x) (\<lambda>_ _. False)" for d
    by (simp add: see_other_def hoare_ret refused_def)
  have "hoare (same_data s) (AuthMiddleware r (\<lambda>u. serve_route sv r u rt)) (\<lambda>x t. same_data s t \<and> refused x) (\<lambda>_ _. False)"
    unfolding AuthMiddleware_def
  proof (rule hoare_bindE [OF hoare_authenticate], rule hoare_pre_pure)
    fix w assume "\<forall>u. w = Some u \<longrightarrow> signed_in s r u"
    then show "hoare (same_data s) (case w of None \<Rightarrow> if wantsHTML r
           then see_other (''/login'' @ (if ar_Path r \<noteq> [] then ''?next='' @ ar_RequestURI r else [])) None
           else http_error ''unauthorized'' 401
       | Some u \<Rightarrow> if u_Role u = GuestRole \<and> \<not> guestRequestAllowed (ar_Method r) (ar_Path r)
           then http_error ''guest accounts may only use assigned VMs and manage their SSH keys'' 403
           else serve_route sv r u rt) (\<lambda>x t. same_data s t \<and> refused x) (\<lambda>_ _. False)"
      using no by (cases w) (auto simp: see hoare_refuse intro!: route_refused assms(1))
  qed
  then have "hoare (same_data s) (serve_api sv rest r) (\<lambda>x t. same_data s t \<and> refused x) (\<lambda>_ _. False)"
    unfolding serve_api_def assms(1) option.case by (rule hoare_attempt) (auto intro!: hoare_ret)
  then have "same_data s t \<and> refused resp" using assms(2) same_data_refl [of s] by (metis hoare_Inr)
  with n show False by blast
qed

section \<open>Guest accounts\<close>

fun guest_route :: "route \<Rightarrow> bool" where
  "guest_route Me = True"
| "guest_route ListVms = True"
| "guest_route (Vm cid vr) = (vr = VmGet)"
| "guest_route ListSsh = True"
| "guest_route CreateSsh = True"
| "guest_route (DeleteSsh kid) = True"
| "guest_route _ = False"

lemma ssh_route: "segments_route verb (''ssh-keys'' # ps) = Some rt \<Longrightarrow> guest_route rt"
  by (auto simp: segments_route_def split: if_splits)

lemma guest_paths:
  assumes "guestRequestAllowed verb path"
  shows "(TrimSuffix path ''/'' = ''/api/ssh-keys'' \<or> HasPrefix (TrimSuffix path ''/'') ''/api/ssh-keys/'')
    \<or> (\<exists>y. TrimSuffix path ''/'' = ''/dashboard'' @ y)
    \<or> verb = ''GET'' \<and> TrimSuffix path ''/'' \<in> {''/api/me'', ''/api/containers''}
    \<or> verb = ''GET'' \<and> (\<exists>cid. TrimSuffix path ''/'' = ''/api/containers/'' @ cid \<and> cid \<noteq> [] \<and> \<not> Contains cid ''/'')"
proof -
  define q where "q = TrimSuffix path ''/''"
  have dash: "\<exists>y. q = ''/dashboard'' @ y" if "q = ''/dashboard'' @ x" for x using that by blast
  have under: "\<exists>y. q = ''/dashboard'' @ y" if "HasPrefix q (''/dashboard'' @ x)" for x
    using that by (auto simp: HasPrefix_iff)
  show ?thesis
  proof (cases "(q = ''/api/ssh-keys'' \<or> HasPrefix q ''/api/ssh-keys/'') \<or> (\<exists>y. q = ''/dashboard'' @ y)")
    case True
    then show ?thesis unfolding q_def [symmetric] by blast
  next
    case no: False
    then have n: "q \<noteq> ''/api/ssh-keys''" "\<not> HasPrefix q ''/api/ssh-keys/''" "q \<noteq> ''/dashboard/ssh-keys''"
      "\<not> HasPrefix q ''/dashboard/ssh-keys/''" "\<not> HasPrefix q ''/dashboard/vms/''"
      "q \<noteq> ''/dashboard''" "q \<noteq> ''/dashboard/vms''" "q \<noteq> ''/dashboard/vms/list''"
      using dash [of "[]"] dash [of "''/vms''"] dash [of "''/vms/list''"] dash [of "''/ssh-keys''"]
        under [of "''/ssh-keys/''"] under [of "''/vms/''"] by auto
    from n(5) have c: "CutPrefix q ''/dashboard/vms/'' = None" by (simp only: CutPrefix_None not_False_eq_True)
    have "verb = ''GET'' \<and> (q = ''/api/me'' \<or> q = ''/api/containers''
        \<or> (\<exists>r. CutPrefix q ''/api/containers/'' = Some r \<and> r \<noteq> [] \<and> \<not> Contains r ''/''))"
      using assms n c unfolding guestRequestAllowed_def Let_def q_def [symmetric]
      by (cases "CutPrefix q ''/api/containers/''") (auto split: if_splits)
    then show ?thesis unfolding q_def [symmetric] CutPrefix_Some by blast
  qed
qed

lemma guest_routes:
  assumes g: "guestRequestAllowed verb path" and r: "api_route verb path = Some rt"
  shows "guest_route rt"
proof -
  from r obtain tail where p: "path = ''/api/'' @ tail" and t: "segments_route verb (Split tail CHR ''/'') = Some rt"
    by (rule api_routeE)
  obtain q where q: "TrimSuffix path ''/'' = q" "path = q \<or> path = q @ ''/''" using trimmed_path by blast
  have ssh: "Split (''ssh-keys'' @ CHR ''/'' # b) CHR ''/'' = ''ssh-keys'' # Split b CHR ''/''" for b by (rule Split_append) simp
  consider (key) "q = ''/api/ssh-keys'' \<or> HasPrefix q ''/api/ssh-keys/''" | (dash) y where "q = ''/dashboard'' @ y"
    | (list) "verb = ''GET''" "q \<in> {''/api/me'', ''/api/containers''}"
    | (vm) cid where "verb = ''GET''" "q = ''/api/containers/'' @ cid" "cid \<noteq> []" "\<not> Contains cid ''/''"
    using guest_paths [OF g] unfolding q(1) by blast
  then show ?thesis
  proof cases
    case key
    then consider "q = ''/api/ssh-keys''" | y where "q = ''/api/ssh-keys/'' @ y" by (auto simp: HasPrefix_iff)
    then obtain ps where "Split tail CHR ''/'' = ''ssh-keys'' # ps"
    proof cases
      case 1
      then show ?thesis using q(2) p that by auto
    next
      case 2
      then have "tail = ''ssh-keys'' @ CHR ''/'' # y \<or> tail = ''ssh-keys'' @ CHR ''/'' # (y @ ''/'')" using q(2) p by auto
      then show ?thesis using that ssh by metis
    qed
    then show ?thesis using t ssh_route by simp
  next
    case dash
    then show ?thesis using q(2) p by auto
  next
    case list
    then show ?thesis using q(2) p t by (auto simp: segments_route_def)
  next
    case vm
    then show ?thesis using one_segment [of path cid rt] q r by (simp add: Contains_char)
  qed
qed

text \<open>Every table but \<open>ssh_keys\<close> is the one of \<open>s0\<close>, and in it the rows of the other accounts; the runtime and
  the key files are untouched.\<close>

definition keys_apart :: "string \<Rightarrow> 'z store_scheme \<Rightarrow> 'z store_scheme \<Rightarrow> bool" where
  "keys_apart uid s0 s \<longleftrightarrow> same_data (s0\<lparr>t_sshkeys := t_sshkeys s\<rparr>) s
     \<and> filter (\<lambda>k. k_UserID k \<noteq> uid) (t_sshkeys s) = filter (\<lambda>k. k_UserID k \<noteq> uid) (t_sshkeys s0)"

interpretation apart: store_inv "keys_apart uid s0"
  by unfold_locales (simp add: keys_apart_def)

lemmas apart_rules [keeps_rules] = apart.keeps_query

lemma keys_apart_step:
  "keys_apart uid s0 s \<Longrightarrow> filter (\<lambda>k. k_UserID k \<noteq> uid) (g (t_sshkeys s)) = filter (\<lambda>k. k_UserID k \<noteq> uid) (t_sshkeys s)
    \<Longrightarrow> keys_apart uid s0 (t_sshkeys_update g s)"
  by (cases s; cases s0) (simp add: keys_apart_def same_data_def)

lemma keys_apart_refl: "keys_apart uid s s"
  by (cases s) (simp add: keys_apart_def same_data_def)

lemma filter_drop_own: "filter (\<lambda>k. k_UserID k \<noteq> uid) (filter (\<lambda>k. k_ID k = i \<longrightarrow> k_UserID k \<noteq> uid) ks)
    = filter (\<lambda>k. k_UserID k \<noteq> uid) ks"
  by (induction ks) auto

lemma keeps_apart_insert: "k_UserID k = uid \<Longrightarrow> keeps (keys_apart uid s0) (exec (sql_insert t_sshkeys t_sshkeys_update uq fk k))"
  by (rule apart.keeps_exec) (auto simp: sql_insert_def intro!: keys_apart_step split: if_splits)

lemma keeps_apart_delete: "keeps (keys_apart uid s0)
    (exec (sql_delete t_sshkeys t_sshkeys_update (\<lambda>k. k_ID k = i \<and> k_UserID k = uid)))"
  by (rule apart.keeps_exec) (auto simp: sql_delete_def simp del: filter_filter intro!: keys_apart_step filter_drop_own)

lemma keeps_apart [keeps_rules]:
  "k_UserID k = uid \<Longrightarrow> keeps (keys_apart uid s0) (CreateSSHKey k)" "keeps (keys_apart uid s0) (DeleteSSHKey i uid)"
  unfolding CreateSSHKey_def DeleteSSHKey_def
  by (intro keeps_rules keeps_apart_insert; simp) (intro keeps_rules keeps_apart_delete)

lemma keeps_apart_reads [keeps_rules]:
  "keeps (keys_apart uid s0) (authenticate r)" "keeps (keys_apart uid s0) (getContainer cid)"
  "keeps (keys_apart uid s0) (listContainers u)" "keeps (keys_apart uid s0) (listSSHKeys u)"
  "keeps (keys_apart uid s0) (CanUseContainer cid i)" "keeps (keys_apart uid s0) (GetContainerByID cid)"
  unfolding authenticate_def getContainer_def listContainers_def listSSHKeys_def CanUseContainer_def GetContainerByID_def
    get_container_def with_vm_def http_error_def respond_def ListAccessibleContainers_def AttachNestingPolicy_def
    NestingAllowed_def GetSetting_def ListSSHKeysByUser_def GetSession_def GetUserByID_def case_prod_unfold
  by (intro keeps_rules)+

lemma keeps_apart_route:
  assumes "guest_route rt"
  shows "keeps (keys_apart (u_ID u) s0) (serve_route sv r u rt)"
proof -
  have "keeps (keys_apart (u_ID u) s0) (serve_vm sv r u cid VmGet)" for cid by (simp add: keeps_rules)
  with assms show ?thesis
    by (cases rt; simp only: guest_route.simps serve_route.simps getMe_def createSSHKey_def deleteSSHKey_def
        OwnershipMiddleware_def http_error_def respond_def Let_def; (intro keeps_rules; simp; fail)?)
qed

lemma hoare_respond_data: "hoare (same_data s) (respond st b) (\<lambda>_. same_data s) E"
  "hoare (same_data s) (http_error m st) (\<lambda>_. same_data s) E" "hoare (same_data s) (see_other d k) (\<lambda>_. same_data s) E"
  by (simp_all add: respond_def http_error_def see_other_def hoare_ret)

text \<open>C6: a request of the API made with a guest's session changes nothing but SSH keys of that guest: every
  other table, the other accounts' keys, the container runtime and the key files stay as they were, under any
  schedule of engine failures.  With no live session nothing changes at all.\<close>

theorem guest_confined:
  fixes s :: "'r gateway"
  assumes "\<forall>u. signed_in s r u \<longrightarrow> u_Role u = GuestRole" and "api_route (ar_Method r) (ar_Path r) = Some rt"
  shows "same_data s (snd (serve_api sv rest r s))
    \<or> (\<exists>u. signed_in s r u \<and> keys_apart (u_ID u) s (snd (serve_api sv rest r s)))"
proof -
  define Q where "Q t \<longleftrightarrow> same_data s t \<or> (\<exists>u. signed_in s r u \<and> keys_apart (u_ID u) s t)" for t
  have weak: "hoare (same_data s) m (\<lambda>_. Q) (\<lambda>_. Q)" if "hoare (same_data s) m (\<lambda>_. same_data s) (\<lambda>_. same_data s)"
    for m :: "'r http"
    by (rule hoare_conseq [OF that]) (auto simp: Q_def)
  have route: "hoare (same_data s) (serve_route sv r u rt) (\<lambda>_. Q) (\<lambda>_. Q)" if "guest_route rt" "signed_in s r u" for u
  proof (rule hoare_sndI)
    fix t assume "same_data s t"
    then have "keys_apart (u_ID u) s t" using keys_apart_refl [of "u_ID u" s] apart.same_data_I by blast
    with keeps_apart_route [OF that(1), of u s sv r] have "keys_apart (u_ID u) s (snd (serve_route sv r u rt t))" by (rule keepsD)
    with that(2) show "Q (snd (serve_route sv r u rt t))" by (auto simp: Q_def)
  qed
  have "hoare (same_data s) (AuthMiddleware r (\<lambda>u. serve_route sv r u rt)) (\<lambda>_. Q) (\<lambda>_. Q)"
    unfolding AuthMiddleware_def
  proof (rule hoare_bindE [OF hoare_conseq [OF hoare_authenticate]], assumption, assumption, blast, rule hoare_pre_pure)
    fix w assume w: "\<forall>u. w = Some u \<longrightarrow> signed_in s r u"
    show "hoare (same_data s) (case w of None \<Rightarrow> if wantsHTML r
           then see_other (''/login'' @ (if ar_Path r \<noteq> [] then ''?next='' @ ar_RequestURI r else [])) None
           else http_error ''unauthorized'' 401
       | Some u \<Rightarrow> if u_Role u = GuestRole \<and> \<not> guestRequestAllowed (ar_Method r) (ar_Path r)
           then http_error ''guest accounts may only use assigned VMs and manage their SSH keys'' 403
           else serve_route sv r u rt) (\<lambda>_. Q) (\<lambda>_. Q)"
    proof (cases w)
      case None
      then show ?thesis by (simp add: weak hoare_respond_data)
    next
      case (Some u)
      with w assms(1) have u: "signed_in s r u" "u_Role u = GuestRole" by simp_all
      then show ?thesis using Some guest_routes [OF _ assms(2)] by (auto intro: weak hoare_respond_data route)
    qed
  qed
  then have "hoare (same_data s) (serve_api sv rest r) (\<lambda>_. Q) (\<lambda>_. Q)"
    unfolding serve_api_def assms(2) option.case by (rule hoare_attempt) (auto simp: respond_def intro!: hoare_ret)
  then have "Q (snd (serve_api sv rest r s))" by (rule hoare_snd) simp
  then show ?thesis by (simp add: Q_def)
qed

section \<open>Signing in\<close>

text \<open>What passes the check of a redirect's target: one slash in front and no backslash.  That is not enough to stay on the site:
  a browser drops a tab, and what then follows the two slashes is a host.\<close>

lemma safeRedirectPath_cases:
  "safeRedirectPath d = ''/dashboard/'' \<or> safeRedirectPath d = d \<and> HasPrefix d ''/'' \<and> \<not> HasPrefix d ''//'' \<and> CHR 0x5C \<notin> set d"
  by (simp add: safeRedirectPath_def Contains_char)

lemma redirect_leaves_site: "safeRedirectPath (''/'' @ CHR 0x09 # ''/evil.test'') = ''/'' @ CHR 0x09 # ''/evil.test''"
  by code_simp

definition opened :: "'z store_scheme \<Rightarrow> string \<Rightarrow> session \<Rightarrow> 'z store_scheme \<Rightarrow> bool" where
  "opened s uid x t \<longleftrightarrow> s_UserID x = uid \<and> s_ExpiresAt x = clock s + SessionTTL
     \<and> same_data (s\<lparr>t_sessions := t_sessions s @ [x]\<rparr>) t"

lemma CreateSession_opens:
  "hoare (same_data s) (CreateSession rnd uid) (opened s uid) (\<lambda>_. same_data s)"
proof (rule hoareI)
  fix t e t' assume d: "same_data s t" and x: "CreateSession rnd uid t = (Inl e, t')"
  then show "same_data s t'"
    by (auto simp: CreateSession_def NewSessionToken_def Let_def bindE_def with_now_def split: option.splits prod.splits sum.splits
        dest: exec_error_same intro: same_data_trans)
next
  fix t x t' assume d: "same_data s t" and x: "CreateSession rnd uid t = (Inr x, t')"
  then have ins: "exec (sql_insert t_sessions t_sessions_update uq_sessions (\<lambda>s r. user_exists s (s_UserID r)) x) t = (Inr (), t')"
    and v: "s_UserID x = uid" "s_ExpiresAt x = clock t + SessionTTL"
    by (auto simp: CreateSession_def NewSessionToken_def Let_def elim!: bindE_InrE split: option.splits)
  have "same_data (t_sessions_update (\<lambda>xs. xs @ [x]) t) t'" by (rule doesD [OF sessions.does_insert ins])
  then obtain gs where t': "t' = (t_sessions_update (\<lambda>xs. xs @ [x]) t)\<lparr>faults := gs\<rparr>" by (rule same_dataE)
  obtain fs where "t = s\<lparr>faults := fs\<rparr>" using d by (rule same_dataE)
  with t' v show "opened s uid x t'" by (simp add: opened_def same_data_def)
qed

lemma look_GetUserByEmail [look_rules]: "looks_up s (GetUserByEmail e) (\<lambda>u. u \<in> set (t_users s) \<and> u_Email u = e)"
  unfolding GetUserByEmail_def by (rule users.looks_up_row)

lemma look_noUsersYet [look_rules]: "looks_up s noUsersYet (\<lambda>b. b = (t_users s = []))"
  unfolding noUsersYet_def CountUsers_def
  by (rule looks_up_bindE [OF looks_up_value]) (auto dest: same_data_fields intro: looks_up_ret)

text \<open>What a password proves.\<close>

definition knows_password :: "'r server \<Rightarrow> 'z store_scheme \<Rightarrow> api_request \<Rightarrow> user \<Rightarrow> bool" where
  "knows_password sv s r u \<longleftrightarrow> u \<in> set (t_users s) \<and> u_Email u = form_email sv r \<and> u_PasswordHash u \<noteq> []
     \<and> sv_Compare sv (u_PasswordHash u) (ar_Password r)"

definition given :: "'z store_scheme \<Rightarrow> string \<Rightarrow> response \<Rightarrow> 'z store_scheme \<Rightarrow> bool" where
  "given s uid x t \<longleftrightarrow> (\<exists>sess. opened s uid sess t \<and> rs_Cookie x = Some (s_Token sess))"

lemma loginPost_sound:
  "hoare (same_data s) (loginPost sv r)
     (\<lambda>x t. same_data s t \<and> rs_Cookie x = None \<and> rs_Location x = None
        \<or> (\<exists>u. knows_password sv s r u \<and> given s (u_ID u) x t) \<and> rs_Location x = Some (safeRedirectPath (ar_Next r))) (\<lambda>_ _. False)"
  unfolding loginPost_def http_error_def respond_def see_other_def
  by (intro hoare_if hoare_ret look_attempt [OF look_GetUserByEmail] hoare_attempt [OF CreateSession_opens])
    (auto simp: given_def knows_password_def)

text \<open>The registration of the first account: a confirmed password of at least eight bytes becomes the hash of an administrator,
  the only account there is.  A session is opened for it, or that failed, and then the account is there and nobody is signed in.\<close>

definition first_account :: "'r server \<Rightarrow> api_request \<Rightarrow> string \<Rightarrow> 'r gateway \<Rightarrow> 'r gateway" where
  "first_account sv r hash s = s\<lparr>t_users := [\<lparr>u_ID = ar_UUID r, u_Email = form_email sv r, u_DisplayName = [], u_Role = ''admin'',
     u_PasswordHash = hash, u_DefaultModel = [], u_CreatedAt = clock s\<rparr>]\<rparr>"

definition registers :: "'r server \<Rightarrow> 'r gateway \<Rightarrow> api_request \<Rightarrow> response \<Rightarrow> 'r gateway \<Rightarrow> bool" where
  "registers sv s r x t \<longleftrightarrow> t_users s = [] \<and> ar_Password r = ar_Confirm r \<and> 8 \<le> length (ar_Password r)
     \<and> (\<exists>hash. sv_Hash sv (ar_Password r) = Some hash
         \<and> (given (first_account sv r hash s) (ar_UUID r) x t \<and> rs_Location x = Some ''/dashboard/''
            \<or> same_data (first_account sv r hash s) t \<and> rs_Cookie x = None \<and> rs_Location x = None))"

lemma CreateUser_adds:
  "hoare (same_data s) (CreateUser u) (\<lambda>_. same_data (s\<lparr>t_users := t_users s @ [u\<lparr>u_DefaultModel := [], u_CreatedAt := clock s\<rparr>]\<rparr>)) (\<lambda>_. same_data s)"
proof (rule hoareI)
  fix t e t' assume "same_data s t" "CreateUser u t = (Inl e, t')"
  then show "same_data s t'"
    by (auto simp: CreateUser_def with_now_def bindE_def dest: exec_error_same intro: same_data_trans)
next
  fix t y t' assume d: "same_data s t" and x: "CreateUser u t = (Inr y, t')"
  then have "exec (sql_insert t_users t_users_update uq_users (\<lambda>_ _. True) (u\<lparr>u_DefaultModel := [], u_CreatedAt := clock t\<rparr>)) t = (Inr y, t')"
    by (cases u) (simp add: CreateUser_def with_now_def bindE_def)
  from doesD [OF users.does_insert this] obtain gs where
    t': "t' = (t_users_update (\<lambda>us. us @ [u\<lparr>u_DefaultModel := [], u_CreatedAt := clock t\<rparr>]) t)\<lparr>faults := gs\<rparr>" by (rule same_dataE)
  obtain fs where "t = s\<lparr>faults := fs\<rparr>" using d by (rule same_dataE)
  with t' show "same_data (s\<lparr>t_users := t_users s @ [u\<lparr>u_DefaultModel := [], u_CreatedAt := clock s\<rparr>]\<rparr>) t'" by (simp add: same_data_def)
qed

definition enrolled :: "'r server \<Rightarrow> 'r gateway \<Rightarrow> api_request \<Rightarrow> response \<Rightarrow> 'r gateway \<Rightarrow> bool" where
  "enrolled sv s r x t \<longleftrightarrow>
     same_data s t \<and> rs_Cookie x = None \<and> (rs_Location x = None \<or> rs_Location x = Some ''/login'') \<or> registers sv s r x t"

lemma hoare_plain_answer:
  "hoare (same_data s) (respond st b) (enrolled sv s r) (\<lambda>_ _. False)" "hoare (same_data s) (http_error m st) (enrolled sv s r) (\<lambda>_ _. False)"
  "hoare (same_data s) (see_other ''/login'' None) (enrolled sv s r) (\<lambda>_ _. False)"
  by (simp_all add: respond_def http_error_def see_other_def hoare_ret enrolled_def)

lemma first_account_made:
  assumes "t_users s = []" "ar_Password r = ar_Confirm r" "8 \<le> length (ar_Password r)" "sv_Hash sv (ar_Password r) = Some hash"
  shows "hoare (same_data s) (attempt (CreateUser \<lparr>u_ID = ar_UUID r, u_Email = form_email sv r, u_DisplayName = [], u_Role = ''admin'',
            u_PasswordHash = hash, u_DefaultModel = [], u_CreatedAt = 0\<rparr>)
        (\<lambda>e. respond 400 (Page (f e)))
        (\<lambda>_. attempt (CreateSession (ar_Random r) (ar_UUID r)) (\<lambda>_. http_error ''internal error'' 500)
          (\<lambda>sess. see_other ''/dashboard/'' (Some (s_Token sess)))))
      (enrolled sv s r) (\<lambda>_ _. False)"
proof (rule hoare_attempt [OF CreateUser_adds])
  let ?s = "first_account sv r hash s"
  have "hoare (same_data ?s) (attempt (CreateSession (ar_Random r) (ar_UUID r)) (\<lambda>_. http_error ''internal error'' 500)
      (\<lambda>sess. see_other ''/dashboard/'' (Some (s_Token sess)))) (enrolled sv s r) (\<lambda>_ _. False)"
    unfolding http_error_def respond_def see_other_def
    by (rule hoare_attempt [OF CreateSession_opens]; rule hoare_ret) (use assms in \<open>auto simp: enrolled_def registers_def given_def\<close>)
  then show "hoare (same_data (s\<lparr>t_users := t_users s @ [\<lparr>u_ID = ar_UUID r, u_Email = form_email sv r, u_DisplayName = [],
        u_Role = ''admin'', u_PasswordHash = hash, u_DefaultModel = [], u_CreatedAt = 0\<rparr>\<lparr>u_DefaultModel := [], u_CreatedAt := clock s\<rparr>]\<rparr>))
      (attempt (CreateSession (ar_Random r) (ar_UUID r)) (\<lambda>_. http_error ''internal error'' 500)
        (\<lambda>sess. see_other ''/dashboard/'' (Some (s_Token sess)))) (enrolled sv s r) (\<lambda>_ _. False)" for y :: unit
    by (simp add: first_account_def assms(1))
qed (rule hoare_plain_answer)

lemma registerPost_sound: "hoare (same_data s) (registerPost sv r) (enrolled sv s r) (\<lambda>_ _. False)"
  unfolding registerPost_def
proof (rule look_attempt [OF look_noUsersYet])
  fix allow assume a: "allow = (t_users s = [])"
  have "hoare (same_data s) (case sv_Hash sv (ar_Password r) of None \<Rightarrow> http_error ''internal error'' 500
     | Some hash \<Rightarrow> attempt (CreateUser \<lparr>u_ID = ar_UUID r, u_Email = form_email sv r, u_DisplayName = [], u_Role = ''admin'',
            u_PasswordHash = hash, u_DefaultModel = [], u_CreatedAt = 0\<rparr>)
        (\<lambda>e. respond 400 (Page (''Could not create user: '' @ sv_Error sv e)))
        (\<lambda>_. attempt (CreateSession (ar_Random r) (ar_UUID r)) (\<lambda>_. http_error ''internal error'' 500)
          (\<lambda>sess. see_other ''/dashboard/'' (Some (s_Token sess))))) (enrolled sv s r) (\<lambda>_ _. False)"
    if "allow" "ar_Password r = ar_Confirm r" "\<not> length (ar_Password r) < 8"
    using that a first_account_made [of s r sv] hoare_plain_answer by (cases "sv_Hash sv (ar_Password r)") simp_all
  then show "hoare (same_data s) (if \<not> allow then see_other ''/login'' None
     else if \<not> ar_FormOK r then http_error ''bad request'' 400
     else if \<not> Contains (form_email sv r) ''@'' then respond 400 (Page ''Enter a valid email address.'')
     else if length (ar_Password r) < 8 then respond 400 (Page ''Password must be at least 8 characters.'')
     else if ar_Password r \<noteq> ar_Confirm r then respond 400 (Page ''Passwords do not match.'')
     else case sv_Hash sv (ar_Password r) of None \<Rightarrow> http_error ''internal error'' 500
     | Some hash \<Rightarrow> attempt (CreateUser \<lparr>u_ID = ar_UUID r, u_Email = form_email sv r, u_DisplayName = [], u_Role = ''admin'',
            u_PasswordHash = hash, u_DefaultModel = [], u_CreatedAt = 0\<rparr>)
        (\<lambda>e. respond 400 (Page (''Could not create user: '' @ sv_Error sv e)))
        (\<lambda>_. attempt (CreateSession (ar_Random r) (ar_UUID r)) (\<lambda>_. http_error ''internal error'' 500)
          (\<lambda>sess. see_other ''/dashboard/'' (Some (s_Token sess))))) (enrolled sv s r) (\<lambda>_ _. False)"
    by (simp add: hoare_plain_answer)
qed (rule hoare_plain_answer)

text \<open>C7: a sign-in or a registration does one of three things.  It changes nothing and sets no cookie; or it is the sign-in of an
  account whose password was presented, which opens one session of seven days for that account, sets its token as the cookie and
  redirects to the path asked for, as \<open>safeRedirectPath\<close> lets it through; or it is the registration on a gateway that has no
  account, with a confirmed password of at least eight bytes, which makes exactly one account, an administrator of the
  given address and of the password's hash, and opens a session of that account and redirects to the dashboard, or, where the
  session cannot be made, sets no cookie.\<close>

theorem sign_in_sound:
  fixes s t :: "'r gateway"
  assumes "loginPost sv r s = (Inr x, t) \<or> registerPost sv r s = (Inr x, t)"
  shows "same_data s t \<and> rs_Cookie x = None \<and> (rs_Location x = None \<or> rs_Location x = Some ''/login'')
    \<or> loginPost sv r s = (Inr x, t) \<and> (\<exists>u. knows_password sv s r u \<and> given s (u_ID u) x t)
        \<and> rs_Location x = Some (safeRedirectPath (ar_Next r))
    \<or> registerPost sv r s = (Inr x, t) \<and> registers sv s r x t"
  using assms hoare_run [OF loginPost_sound, of sv r s x t] hoare_run [OF registerPost_sound, of sv r s x t] unfolding enrolled_def by blast

text \<open>C14: the check a certificate is issued on says yes only for a hostname that a row of the database has
  verified, and changes nothing.\<close>

theorem tls_check_sound:
  fixes s t :: "'r gateway"
  assumes "tlsCheck sv r s = (Inr x, t)"
  shows "same_data s t \<and> (rs_Status x = 200 \<longrightarrow> (\<exists>a\<in>set (t_aliases s). a_Verified a
     \<and> a_Hostname a = lookup_name (sv_Lower sv) (ToLower (sv_Lower sv) (TrimSuffix (TrimSpace (ar_Domain r)) ''.''))))"
proof -
  have "hoare (same_data s) (tlsCheck sv r) (\<lambda>x t. same_data s t \<and> (rs_Status x = 200 \<longrightarrow> (\<exists>a\<in>set (t_aliases s). a_Verified a
     \<and> a_Hostname a = lookup_name (sv_Lower sv) (ToLower (sv_Lower sv) (TrimSuffix (TrimSpace (ar_Domain r)) ''.'')))))
    (\<lambda>_ _. False)"
    unfolding tlsCheck_def Let_def http_error_def respond_def
    by (cases "ValidAliasHostname (sv_Lower sv) (ToLower (sv_Lower sv) (TrimSuffix (TrimSpace (ar_Domain r)) ''.'')) (sv_Domain sv)")
      (auto intro!: hoare_ret look_attempt [OF look_alias])
  from hoare_run [OF this assms] show ?thesis .
qed

section \<open>Instances\<close>

text \<open>A gateway whose one account is signed in, a server that accepts one password, and requests to it.\<close>

definition demo_server :: "unit server" where
  "demo_server = \<lparr>sv_Runtime = demo_rt, sv_Env = task_env, sv_Materializer = None, sv_LLM = None, sv_EncKey = [],
     sv_Domain = ''gw.test'', sv_Aliases = demo_manager, sv_Lower = id, sv_ParseURL = (\<lambda>_. None), sv_Seal = (\<lambda>_ _ x. x),
     sv_Compare = (\<lambda>h p. h = p), sv_Hash = Some, sv_Fingerprint = (\<lambda>k. Some k), sv_Error = (\<lambda>_. []),
     sv_Decode = \<lparr>dc_Create = (\<lambda>_. None), dc_Publish = (\<lambda>_. None), dc_Share = (\<lambda>_. None), dc_Alias = (\<lambda>_. None),
       dc_Key = (\<lambda>_. None), dc_Model = (\<lambda>_. None), dc_SshKey = (\<lambda>_. Some (''laptop'', ''ssh-ed25519 x''))\<rparr>\<rparr>"

definition demo_ask :: "string \<Rightarrow> string \<Rightarrow> string \<Rightarrow> api_request" where
  "demo_ask verb path password = \<lparr>ar_Method = verb, ar_Path = path, ar_RequestURI = path, ar_Accept = [], ar_Session = Some ''tok'',
     ar_Next = ''//evil.test'', ar_Domain = path, ar_FormOK = True, ar_Email = ''ann'', ar_Password = password, ar_Confirm = password,
     ar_Body = [], ar_ContentLength = 0, ar_UUID = ''id'', ar_Random = Some ''r''\<rparr>"

definition demo_account :: "string \<Rightarrow> user" where
  "demo_account role = (demo_user ''u1'' role)\<lparr>u_Email := ''ann'', u_PasswordHash := ''secret''\<rparr>"

definition demo_site :: "string \<Rightarrow> unit gateway" where
  "demo_site role = demo_gw\<lparr>t_users := [demo_account role], t_aliases := [demo_alias ''a1'' ''c1'' ''www.test'' True],
     t_sshkeys := [demo_sshkey ''k1'' ''u1'', demo_sshkey ''k2'' ''u2'']\<rparr>"

lemma demo_site_session:
  "authenticate (demo_ask verb path pw) (demo_site role) = (Inr (Some (demo_account role)), demo_site role)"
  by (simp add: authenticate_def demo_ask_def GetSession_def GetUserByID_def run_defs demo_site_def demo_gw_def demo_account_def demo_user_def)

theorem api_authorised_witness:
  "\<exists>resp t. serve_api demo_server (\<lambda>_ _. respond 404 NoBody) (demo_ask ''GET'' ''/api/me'' []) (demo_site ''user'') = (Inr resp, t)
    \<and> ((\<exists>u. signed_in (demo_site ''user'') (demo_ask ''GET'' ''/api/me'' []) u \<and> may_do (demo_site ''user'') u Me)
       \<or> same_data (demo_site ''user'') t \<and> refused resp)"
proof -
  let ?r = "demo_ask ''GET'' ''/api/me'' []"
  have rt: "api_route (ar_Method ?r) (ar_Path ?r) = Some Me" unfolding demo_ask_def by code_simp
  have role: "u_Role (demo_account ''user'') \<noteq> GuestRole" by (simp add: demo_account_def demo_user_def GuestRole_def)
  obtain resp t where run: "serve_api demo_server (\<lambda>_ _. respond 404 NoBody) ?r (demo_site ''user'') = (Inr resp, t)"
    by (simp add: serve_api_def rt AuthMiddleware_def demo_site_session role getMe_def respond_def)
  show ?thesis using run api_authorised [OF rt run] by blast
qed

theorem guest_confined_witness:
  "let r = demo_ask ''POST'' ''/api/ssh-keys'' []; s = demo_site ''guest'';
       t = snd (serve_api demo_server (\<lambda>_ _. respond 404 NoBody) r s)
   in same_data s t \<or> (\<exists>u. signed_in s r u \<and> keys_apart (u_ID u) s t)"
  unfolding Let_def
proof (rule guest_confined [where rt = CreateSsh])
  show "\<forall>u. signed_in (demo_site ''guest'') (demo_ask ''POST'' ''/api/ssh-keys'' []) u \<longrightarrow> u_Role u = GuestRole"
    by (simp add: signed_in_def demo_site_def demo_account_def demo_user_def GuestRole_def)
  show "api_route (ar_Method (demo_ask ''POST'' ''/api/ssh-keys'' [])) (ar_Path (demo_ask ''POST'' ''/api/ssh-keys'' [])) = Some CreateSsh"
    unfolding demo_ask_def by code_simp
qed

theorem sign_in_sound_witness:
  "\<exists>x t u. loginPost demo_server (demo_ask ''POST'' ''/login'' ''secret'') (demo_site ''user'') = (Inr x, t)
     \<and> knows_password demo_server (demo_site ''user'') (demo_ask ''POST'' ''/login'' ''secret'') u
     \<and> given (demo_site ''user'') (u_ID u) x t \<and> rs_Location x = Some ''/dashboard/''"
proof -
  let ?r = "demo_ask ''POST'' ''/login'' ''secret''" and ?s = "demo_site ''user''"
  have e: "form_email demo_server ?r = ''ann''" unfolding form_email_def demo_server_def demo_ask_def by code_simp
  have h: "hex_encode ''r'' = ''72''" by code_simp
  have d: "safeRedirectPath ''//evil.test'' = ''/dashboard/''" by code_simp
  have run: "\<exists>x t. loginPost demo_server ?r ?s = (Inr x, t) \<and> rs_Location x = Some ''/dashboard/''"
    unfolding loginPost_def e
    by (simp add: demo_ask_def GetUserByEmail_def demo_server_def CreateSession_def NewSessionToken_def h d Let_def see_other_def
        run_defs demo_site_def demo_gw_def demo_account_def demo_user_def user_exists_def uq_sessions_def)
  then obtain x t where run: "loginPost demo_server ?r ?s = (Inr x, t)" "rs_Location x = Some ''/dashboard/''" by blast
  have "\<not> registers demo_server ?s ?r x t" by (simp add: registers_def demo_site_def)
  with sign_in_sound [of demo_server ?r ?s x t] run show ?thesis by auto
qed

theorem tls_check_witness:
  "\<exists>x t. tlsCheck demo_server (demo_ask ''GET'' ''www.test'' []) (demo_site ''user'') = (Inr x, t) \<and> rs_Status x = 200
    \<and> same_data (demo_site ''user'') t
    \<and> (\<exists>a\<in>set (t_aliases (demo_site ''user'')). a_Verified a \<and> a_Hostname a = lookup_name id ''www.test'')"
proof -
  let ?r = "demo_ask ''GET'' ''www.test'' []" and ?s = "demo_site ''user''"
  have sp: "TrimSpace ''www.test'' = ''www.test''" "TrimSuffix ''www.test'' ''.'' = ''www.test''" "ToLower id ''www.test'' = ''www.test''"
    "ValidAliasHostname id ''www.test'' ''gw.test'' = Inr ''www.test''" "lookup_name id ''www.test'' = ''www.test''" by code_simp+
  have run: "\<exists>x t. tlsCheck demo_server ?r ?s = (Inr x, t) \<and> rs_Status x = 200"
    by (simp add: tlsCheck_def demo_ask_def demo_server_def sp maxTLSCheckDomainLen_def Let_def GetVerifiedAliasByHostname_def
        run_defs demo_site_def demo_gw_def demo_alias_def respond_def)
  then obtain x t where run: "tlsCheck demo_server ?r ?s = (Inr x, t)" "rs_Status x = 200" by blast
  have "ToLower (sv_Lower demo_server) (TrimSuffix (TrimSpace (ar_Domain ?r)) ''.'') = ''www.test''" "sv_Lower demo_server = id"
    by (simp_all add: demo_server_def demo_ask_def sp)
  with tls_check_sound [OF run(1)] run show ?thesis by auto
qed

end
