(* ===== verification/Proxy_Routing.thy ===== *)
theory Proxy_Routing
  imports Lookups
begin

text \<open>
  The subdomain proxy: \<^verbatim>\<open>src/internal/proxy/proxy.go\<close>.  Which VM, port and identity a
  request to a VM host or a custom domain is forwarded with, or which error it gets.

  A request is the parts of it the proxy reads.  The outcome of a request is a value: a plain
  response, a redirect, the agent-update handler, or a forwarded request with everything the
  gateway adds to it.  The bytes of the forwarded exchange (\<^verbatim>\<open>newReverseProxy\<close>) are not
  modelled.
\<close>

section \<open>Hosts\<close>

datatype routeKind = routeApp | routeAgent

record subdomainInfo =
  ContainerName :: string
  Kind :: routeKind
  Port :: int

definition count_char :: "string \<Rightarrow> char \<Rightarrow> nat" where
  "count_char s c = length (filter (\<lambda>x. x = c) s)"

definition hostWithoutPort :: "string \<Rightarrow> string" where
  "hostWithoutPort host =
     (if count_char host CHR '':'' = 1 then takeWhile (\<lambda>c. c \<noteq> CHR '':'') host else host)"

definition aliasHost :: "(string \<Rightarrow> string) \<Rightarrow> string \<Rightarrow> string" where
  "aliasHost uni host = ToLower uni (TrimSuffix (TrimSpace (hostWithoutPort host)) ''.'')"

text \<open>\<^verbatim>\<open>^([0-9]{1,5})-(.+)$\<close>\<close>

definition explicit_port :: "string \<Rightarrow> (string \<times> string) option" where
  "explicit_port s =
     (let ds = takeWhile is_digit s; r = dropWhile is_digit s in
      if 1 \<le> length ds \<and> length ds \<le> 5 \<and> HasPrefix r ''-'' \<and> length r \<ge> 2 then Some (ds, tl r) else None)"

definition extractSubdomain :: "string \<Rightarrow> string \<Rightarrow> subdomainInfo option" where
  "extractSubdomain domain host =
     (let h = hostWithoutPort host; suffix = ''.'' @ domain in
      if \<not> HasSuffix h suffix then None
      else
        let prefix = TrimSuffix h suffix in
        if prefix = [] then None
        else case Cut prefix CHR ''.'' of
          Some (service, name) \<Rightarrow>
            if service \<noteq> ''picoclaw'' \<and> service \<noteq> ''shelley'' then None
            else if \<not> ValidContainerName name then None
            else Some \<lparr>ContainerName = name, Kind = routeAgent, Port = 0\<rparr>
        | None \<Rightarrow>
            (case CutPrefix prefix AgentHostPrefix of
               Some name \<Rightarrow>
                 if \<not> ValidContainerName name then None
                 else Some \<lparr>ContainerName = name, Kind = routeAgent, Port = 0\<rparr>
             | None \<Rightarrow>
                 (case explicit_port prefix of
                    Some (ds, name) \<Rightarrow>
                      if \<not> ValidAppPort (int (digits_val ds)) then None
                      else if \<not> ValidContainerName name then None
                      else Some \<lparr>ContainerName = name, Kind = routeApp, Port = int (digits_val ds)\<rparr>
                  | None \<Rightarrow>
                      if \<not> ValidContainerName prefix then None
                      else Some \<lparr>ContainerName = prefix, Kind = routeApp, Port = 0\<rparr>)))"

definition isRunning_proxy :: "string \<Rightarrow> bool" where
  "isRunning_proxy status \<longleftrightarrow> EqualFold status ''running'' \<or> EqualFold status ''started''"

section \<open>Requests\<close>

record request =
  rq_Host :: string
  rq_Path :: string
  rq_Accept :: string
  rq_SessionCookie :: "string option"
  rq_ShareCookie :: "string option"
  rq_ShareQuery :: string
  rq_Userid :: "string option"
  rq_Email :: "string option"

text \<open>A forwarded request: where it goes, the identity headers it carries, the share parameter left in
  its query, the cookie set on the response, and the context that can cancel it.\<close>

record forwarded =
  f_VM :: container
  f_Port :: int
  f_Userid :: "string option"
  f_Email :: "string option"
  f_ShareQuery :: string
  f_SetCookie :: "string option"
  f_Context :: "access_ctx option"

datatype outcome =
    Reply nat string
  | RedirectTo string
  | AgentUpdate container request
  | Forward forwarded

type_synonym 'r handler = "('r gateway, dberr, outcome) sm"

definition authenticate_proxy :: "request \<Rightarrow> ('z, string) dbm" where
  "authenticate_proxy r =
     (case rq_SessionCookie r of
        None \<Rightarrow> ret []
      | Some tok \<Rightarrow>
          if tok = [] then ret []
          else attempt (GetSession tok) (\<lambda>_. ret []) (\<lambda>sess. ret (s_UserID sess)))"

definition shareTokenFrom :: "request \<Rightarrow> string" where
  "shareTokenFrom r =
     (if rq_ShareQuery r \<noteq> [] then rq_ShareQuery r
      else case rq_ShareCookie r of Some v \<Rightarrow> v | None \<Rightarrow> [])"

text \<open>The cookie to set on the response, and the request with the parameter dropped.\<close>

definition acceptShareCookie :: "request \<Rightarrow> string \<Rightarrow> string option \<times> request" where
  "acceptShareCookie r token =
     (if rq_ShareQuery r = [] then (None, r) else (Some token, r\<lparr>rq_ShareQuery := []\<rparr>))"

definition forward ::
  "'r runtime \<Rightarrow> request \<Rightarrow> string option \<Rightarrow> access_ctx option \<Rightarrow> container \<Rightarrow> int \<Rightarrow> 'r handler" where
  "forward rt r cookie ctx c port =
     (let send = (\<lambda>ip. ret (Forward \<lparr>f_VM = c\<lparr>c_IPAddress := ip\<rparr>, f_Port = port, f_Userid = rq_Userid r,
            f_Email = rq_Email r, f_ShareQuery = rq_ShareQuery r, f_SetCookie = cookie, f_Context = ctx\<rparr>)) in
      if \<not> isRunning_proxy (c_Status c) then ret (Reply 503 ''container is not running'')
      else if c_IPAddress c = []
      then attempt (rt_call (rt_Get rt (c_IncusName c)))
        (\<lambda>_. ret (Reply 503 ''container has no IP address''))
        (\<lambda>rtc. if rc_IP rtc = [] then ret (Reply 503 ''container has no IP address'')
               else attempt (UpdateContainerStatus (c_ID c) (c_Status c) (rc_IP rtc))
                 (\<lambda>_. send (rc_IP rtc)) (\<lambda>_. send (rc_IP rtc)))
      else send (c_IPAddress c))"

section \<open>Custom domains\<close>

definition under_domain :: "(string \<Rightarrow> string) \<Rightarrow> string \<Rightarrow> string \<Rightarrow> bool" where
  "under_domain uni domain h \<longleftrightarrow>
     (let d = ToLower uni domain in d \<noteq> [] \<and> (h = d \<or> HasSuffix h (''.'' @ d)))"

definition KnowsHost :: "(string \<Rightarrow> string) \<Rightarrow> string \<Rightarrow> string \<Rightarrow> ('z, bool) dbm" where
  "KnowsHost uni domain host =
     (let h = aliasHost uni host in
      if h = [] then ret False
      else if under_domain uni domain h then ret False
      else attempt (GetVerifiedAliasByHostname uni h) (\<lambda>_. ret False) (\<lambda>_. ret True))"

definition not_published :: string where
  "not_published = ''this VM'' @ [CHR 0x27] @ ''s workload is not published '' @ [CHR 0xE2, CHR 0x80, CHR 0x94]
     @ '' publish it from the dashboard or open this domain through a share link''"

text \<open>serveAlias once the VM is known, and serveAlias.\<close>

definition alias_vm :: "'r runtime \<Rightarrow> request \<Rightarrow> container \<Rightarrow> 'r handler" where
  "alias_vm rt r c =
     (if c_AppPublic c then forward rt r None None c (c_AppPort c)
      else
        let token = shareTokenFrom r in
        if token = [] then ret (Reply 403 not_published)
        else attempt (GetSharedLinkByToken token)
          (\<lambda>_. ret (Reply 403 not_published))
          (\<lambda>link. if l_ContainerID link = c_ID c
             then (let (cookie, r') = acceptShareCookie r token in forward rt r' cookie None c (c_AppPort c))
             else ret (Reply 403 not_published)))"

definition serveAlias :: "(string \<Rightarrow> string) \<Rightarrow> 'r runtime \<Rightarrow> request \<Rightarrow> string \<Rightarrow> 'r handler" where
  "serveAlias uni rt r0 host =
     (let r = r0\<lparr>rq_Userid := None, rq_Email := None\<rparr>;
          err = (\<lambda>e. if e = ErrNoRows then ret (Reply 404 ''unknown host'') else ret (Reply 500 ''internal error'')) in
      attempt (GetVerifiedAliasByHostname uni host) err (\<lambda>a.
      attempt (GetContainerByID (a_ContainerID a)) err (alias_vm rt r)))"

section \<open>VM hosts\<close>

text \<open>The steps after the VM has been found: the agent's own update pages, the context of a guest's
  connection, and the port.\<close>

definition serve_found ::
  "'r runtime \<Rightarrow> subdomainInfo \<Rightarrow> string \<Rightarrow> string \<Rightarrow> request \<Rightarrow> string option \<Rightarrow> container \<Rightarrow> 'r handler" where
  "serve_found rt info uid token r cookie c =
     (let port = (if Kind info = routeApp then (if Port info \<noteq> 0 then Port info else c_AppPort c) else AgentPort) in
      if Kind info = routeAgent \<and> (rq_Path r = ''/version-check'' \<or> rq_Path r = ''/upgrade'')
      then (if c_OwnerID c \<noteq> uid \<and> rq_Path r = ''/upgrade'' then ret (Reply 403 ''forbidden'')
            else ret (AgentUpdate c r))
      else if uid \<noteq> [] \<and> c_OwnerID c \<noteq> uid \<and> token = []
      then bindE (ContainerAccessContext c uid) (\<lambda>ctx.
        if ac_Done ctx then ret (Reply 403 ''forbidden'') else forward rt r cookie (Some ctx) c port)
      else forward rt r cookie None c port)"

definition serve_share :: "'r runtime \<Rightarrow> subdomainInfo \<Rightarrow> string \<Rightarrow> string \<Rightarrow> request \<Rightarrow> 'r handler" where
  "serve_share rt info uid token r =
     attempt (GetSharedLinkByToken token) (\<lambda>_. ret (Reply 403 ''forbidden'')) (\<lambda>link.
     attempt (GetContainerByID (l_ContainerID link))
       (\<lambda>e. if e = ErrNoRows then ret (Reply 403 ''forbidden'') else ret (Reply 500 ''internal error''))
       (\<lambda>c. if c_Name c \<noteq> ContainerName info then ret (Reply 403 ''forbidden'')
            else
              let r1 = (if Kind info = routeAgent then r\<lparr>rq_Userid := Some (''share:'' @ l_ID link)\<rparr> else r);
                  (cookie, r2) = acceptShareCookie r1 token
              in serve_found rt info uid token r2 cookie c))"

definition serve_user :: "'r runtime \<Rightarrow> subdomainInfo \<Rightarrow> string \<Rightarrow> request \<Rightarrow> 'r handler" where
  "serve_user rt info uid r =
     attempt (GetAccessibleContainerByName (ContainerName info) uid)
       (\<lambda>e. if e = ErrNoRows then ret (Reply 404 ''container not found'') else ret (Reply 500 ''internal error''))
       (\<lambda>c. serve_found rt info uid []
          (if Kind info = routeAgent then r\<lparr>rq_Userid := Some uid\<rparr> else r) None c)"

definition serve_credential ::
  "'r runtime \<Rightarrow> string \<Rightarrow> subdomainInfo \<Rightarrow> string \<Rightarrow> request \<Rightarrow> 'r handler" where
  "serve_credential rt domain info uid r =
     (let token = shareTokenFrom r in
      if token \<noteq> [] \<and> Kind info = routeAgent then ret (Reply 403 ''forbidden'')
      else if token \<noteq> [] then serve_share rt info uid token r
      else if uid \<noteq> [] then serve_user rt info uid r
      else if Contains (rq_Accept r) ''text/html'' then ret (RedirectTo (''https://'' @ domain @ ''/login''))
      else ret (Reply 401 ''unauthorized''))"

definition ServeHTTP_proxy :: "(string \<Rightarrow> string) \<Rightarrow> 'r runtime \<Rightarrow> string \<Rightarrow> request \<Rightarrow> 'r handler" where
  "ServeHTTP_proxy uni rt domain r0 =
     (case extractSubdomain domain (rq_Host r0) of
        None \<Rightarrow>
          (let host = aliasHost uni (rq_Host r0) in
           if under_domain uni domain host then ret (Reply 400 ''invalid host'')
           else serveAlias uni rt r0 host)
      | Some info \<Rightarrow>
          bindE (authenticate_proxy r0) (\<lambda>uid.
          let r = r0\<lparr>rq_Userid := None, rq_Email := None\<rparr> in
          if Kind info = routeApp \<and> Port info = 0 \<and> uid = []
          then attempt (GetContainerByNameOnly (ContainerName info))
            (\<lambda>_. serve_credential rt domain info uid r)
            (\<lambda>c. if c_AppPublic c then forward rt r None None c (c_AppPort c)
                 else serve_credential rt domain info uid r)
          else serve_credential rt domain info uid r))"

section \<open>Host names and routes\<close>

lemma label_no_special:
  assumes "ValidContainerName n"
  shows "CHR ''.'' \<notin> set n" and "CHR '':'' \<notin> set n" and "n \<noteq> []"
proof -
  have l: "label_char c" if "c \<in> set n" for c
    using dns_label_chars [OF ValidContainerName_label [OF assms] that] .
  show "CHR ''.'' \<notin> set n" "CHR '':'' \<notin> set n" using l label_char_byte by blast+
  show "n \<noteq> []" using assms by (auto simp: ValidContainerName_def)
qed

lemma hostWithoutPort_none: "CHR '':'' \<notin> set h \<Longrightarrow> hostWithoutPort h = h"
proof -
  assume "CHR '':'' \<notin> set h"
  then have "filter (\<lambda>x. x = CHR '':'') h = []" by (auto simp: filter_empty_conv)
  then show ?thesis by (simp add: hostWithoutPort_def count_char_def)
qed

lemma hostWithoutPort_port:
  "CHR '':'' \<notin> set h \<Longrightarrow> CHR '':'' \<notin> set p \<Longrightarrow> hostWithoutPort (h @ CHR '':'' # p) = h"
proof -
  assume h: "CHR '':'' \<notin> set h" and p: "CHR '':'' \<notin> set p"
  then have "filter (\<lambda>x. x = CHR '':'') h = []" "filter (\<lambda>x. x = CHR '':'') p = []"
    by (auto simp: filter_empty_conv)
  moreover have "takeWhile (\<lambda>c. c \<noteq> CHR '':'') (h @ CHR '':'' # p) = h"
    using h by (subst takeWhile_append2) auto
  ultimately show ?thesis by (simp add: hostWithoutPort_def count_char_def)
qed

text \<open>What a host may be: the label of the VM, possibly behind the agent prefix or a port.\<close>

definition host_label :: "routeKind \<Rightarrow> string option \<Rightarrow> string \<Rightarrow> string" where
  "host_label k port name = (case k of routeAgent \<Rightarrow> AgentHostPrefix @ name
     | routeApp \<Rightarrow> (case port of None \<Rightarrow> name | Some ds \<Rightarrow> ds @ ''-'' @ name))"

definition route_of :: "routeKind \<Rightarrow> string option \<Rightarrow> string \<Rightarrow> subdomainInfo" where
  "route_of k port name = \<lparr>ContainerName = name, Kind = k,
       Port = (case k of routeAgent \<Rightarrow> 0 | routeApp \<Rightarrow> (case port of None \<Rightarrow> 0 | Some ds \<Rightarrow> int (digits_val ds)))\<rparr>"

definition port_text :: "string \<Rightarrow> bool" where
  "port_text ds \<longleftrightarrow> list_all is_digit ds \<and> 1 \<le> length ds \<and> length ds \<le> 5 \<and> ValidAppPort (int (digits_val ds))"

lemma Cut_none_of: "c \<notin> set s \<Longrightarrow> Cut s c = None"
  by (simp add: Cut_None)

lemma digit_not_dot: "is_digit c \<Longrightarrow> c \<noteq> CHR ''.'' \<and> c \<noteq> CHR '':'' \<and> c \<noteq> CHR ''a'' \<and> c \<noteq> CHR ''-''"
  by (auto simp: is_digit_def byte_def)

lemma explicit_port_build:
  assumes "port_text ds" and "name \<noteq> []"
  shows "explicit_port (ds @ ''-'' @ name) = Some (ds, name)"
proof -
  have d: "\<forall>c\<in>set ds. is_digit c" using assms(1) by (simp add: port_text_def list_all_iff)
  have "\<not> is_digit CHR ''-''" by (simp add: is_digit_def byte_def)
  with d have "takeWhile is_digit (ds @ ''-'' @ name) = ds" "dropWhile is_digit (ds @ ''-'' @ name) = ''-'' @ name"
    by (simp_all add: takeWhile_append dropWhile_append)
  with assms show ?thesis
    by (cases name) (simp_all add: explicit_port_def Let_def port_text_def HasPrefix_def)
qed

lemma explicit_port_reserved: "\<not> ReservedName s \<Longrightarrow> explicit_port s = None"
  by (auto simp: explicit_port_def ReservedName_def has_port_prefix_def Let_def dropWhile_eq_drop split: if_splits)

lemma host_label_no_colon:
  assumes "ValidContainerName name" and "case port of None \<Rightarrow> True | Some ds \<Rightarrow> port_text ds"
  shows "CHR '':'' \<notin> set (host_label k port name)"
proof -
  have "\<forall>c\<in>set ds. is_digit c" if "port = Some ds" for ds
    using assms(2) that by (simp add: port_text_def list_all_iff)
  with label_no_special(2) [OF assms(1)] digit_not_dot show ?thesis
    by (auto simp: host_label_def AgentHostPrefix_def split: routeKind.split option.split)
qed

lemma extractSubdomain_host:
  assumes "ValidContainerName name" and "CHR '':'' \<notin> set domain"
    and "case port of None \<Rightarrow> True | Some ds \<Rightarrow> port_text ds"
  shows "extractSubdomain domain (host_label k port name @ ''.'' @ domain) =
     Some (route_of k port name)"
proof -
  let ?p = "host_label k port name"
  note n = label_no_special [OF assms(1)]
  have digits: "\<forall>c\<in>set ds. is_digit c" if "port = Some ds" for ds
    using assms(3) that by (simp add: port_text_def list_all_iff)
  note colon = host_label_no_colon [OF assms(1,3), of k]
  have dot: "CHR ''.'' \<notin> set ?p"
    using n(1) digits digit_not_dot by (auto simp: host_label_def AgentHostPrefix_def split: routeKind.split option.split)
  have host: "hostWithoutPort (?p @ ''.'' @ domain) = ?p @ ''.'' @ domain"
    by (rule hostWithoutPort_none) (use colon assms(2) in auto)
  have ne: "?p \<noteq> []" using n(3) by (auto simp: host_label_def AgentHostPrefix_def split: routeKind.split option.split)
  have suf: "HasSuffix (?p @ ''.'' @ domain) (''.'' @ domain)" "TrimSuffix (?p @ ''.'' @ domain) (''.'' @ domain) = ?p"
    by (simp_all del: append_Cons)
  have plain: "CutPrefix name AgentHostPrefix = None" "explicit_port name = None"
    using assms(1) explicit_port_reserved [of name]
    by (simp_all add: ValidContainerName_def ReservedName_def CutPrefix_None)
  have digs: "CutPrefix (ds @ ''-'' @ name) AgentHostPrefix = None" if "port = Some ds" for ds
    using digits [OF that] assms(3) that digit_not_dot
    by (cases ds) (auto simp: CutPrefix_None HasPrefix_def AgentHostPrefix_def port_text_def)
  show ?thesis
    unfolding extractSubdomain_def Let_def host
    using suf ne dot plain digs explicit_port_build n(3) assms(1,3)
    by (simp add: Cut_none_of del: append_Cons append_assoc)
       (auto simp: host_label_def route_of_def CutPrefix_Some port_text_def CutPrefix_def split: routeKind.splits option.splits)
qed

lemma extractSubdomain_sound:
  assumes "extractSubdomain domain host = Some info"
  shows "ValidContainerName (ContainerName info) \<and> (Port info = 0 \<or> ValidAppPort (Port info))
    \<and> (Kind info = routeAgent \<longrightarrow> Port info = 0)"
  using assms
  by (auto simp: extractSubdomain_def Let_def split: if_splits option.splits prod.splits)

text \<open>Host names and routes are inverse to each other.  Every VM name the gateway accepts is
  reached again from each of its three host forms (workload, workload on a port, agent), with or without
  a port number after the host, and no two VM names share a host; and whatever host parses names an
  acceptable VM, on a port that is never the agent's.\<close>

theorem extractSubdomain_roundtrip:
  assumes "ValidContainerName name" and "CHR '':'' \<notin> set domain" and "CHR '':'' \<notin> set p"
    and "case port of None \<Rightarrow> True | Some ds \<Rightarrow> port_text ds"
  shows "extractSubdomain domain (host_label k port name @ ''.'' @ domain) = Some (route_of k port name)
    \<and> extractSubdomain domain (host_label k port name @ ''.'' @ domain @ '':'' @ p) = Some (route_of k port name)
    \<and> (\<forall>host info. extractSubdomain domain host = Some info \<longrightarrow>
          ValidContainerName (ContainerName info) \<and> Port info \<noteq> AgentPort)"
proof (intro conjI allI impI)
  let ?h = "host_label k port name @ ''.'' @ domain"
  show main: "extractSubdomain domain ?h = Some (route_of k port name)"
    by (rule extractSubdomain_host [OF assms(1,2,4)])
  have c: "CHR '':'' \<notin> set ?h" using host_label_no_colon [OF assms(1,4)] assms(2) by auto
  have e: "host_label k port name @ ''.'' @ domain @ '':'' @ p = ?h @ CHR '':'' # p" by simp
  have "hostWithoutPort (?h @ CHR '':'' # p) = hostWithoutPort ?h"
    using hostWithoutPort_port [OF c assms(3)] hostWithoutPort_none [OF c] by simp
  with main show "extractSubdomain domain (host_label k port name @ ''.'' @ domain @ '':'' @ p) = Some (route_of k port name)"
    unfolding e by (simp add: extractSubdomain_def)
  fix host info assume "extractSubdomain domain host = Some info"
  from extractSubdomain_sound [OF this]
  show "ValidContainerName (ContainerName info)" "Port info \<noteq> AgentPort"
    by (auto simp: ValidAppPort_def AgentPort_def)
qed

section \<open>Who a request is forwarded for\<close>

text \<open>The row a forwarded request goes to, and the three grounds on which it may.\<close>

definition is_vm :: "container \<Rightarrow> container \<Rightarrow> bool" where
  "is_vm c d \<longleftrightarrow> c_ID c = c_ID d \<and> c_Name c = c_Name d \<and> c_OwnerID c = c_OwnerID d \<and> c_IncusName c = c_IncusName d
     \<and> c_AppPort c = c_AppPort d \<and> c_AppPublic c = c_AppPublic d \<and> c_Status c = c_Status d"

definition by_publication :: "forwarded \<Rightarrow> container \<Rightarrow> bool" where
  "by_publication f d \<longleftrightarrow> c_AppPublic d \<and> f_Port f = c_AppPort d \<and> f_Userid f = None"

definition by_share :: "'z store_scheme \<Rightarrow> request \<Rightarrow> forwarded \<Rightarrow> container \<Rightarrow> bool" where
  "by_share s r f d \<longleftrightarrow> list_ex (\<lambda>l. l_Token l = shareTokenFrom r \<and> link_live (clock s) l \<and> l_ContainerID l = c_ID d) (t_links s)
     \<and> f_Userid f = None \<and> ValidAppPort (f_Port f) \<and> f_ShareQuery f = []"

definition by_session :: "'z store_scheme \<Rightarrow> request \<Rightarrow> string \<Rightarrow> container \<Rightarrow> bool" where
  "by_session s r uid d \<longleftrightarrow> (\<exists>tok. rq_SessionCookie r = Some tok \<and> live_session s tok uid) \<and> usable_by s uid d"

definition session_forward :: "'z store_scheme \<Rightarrow> request \<Rightarrow> forwarded \<Rightarrow> container \<Rightarrow> bool" where
  "session_forward s r f d \<longleftrightarrow> (\<exists>uid. by_session s r uid d
     \<and> f_Userid f = (if f_Port f = AgentPort then Some uid else None)
     \<and> (c_OwnerID d = uid \<or> (\<exists>x. f_Context f = Some x \<and> \<not> ac_Done x \<and> ac_Watching x)))"

definition authorised :: "'z store_scheme \<Rightarrow> request \<Rightarrow> outcome \<Rightarrow> bool" where
  "authorised s r out = (case out of
     Forward f \<Rightarrow> isRunning_proxy (c_Status (f_VM f)) \<and> f_Email f = None
       \<and> (\<exists>d\<in>set (t_containers s). is_vm (f_VM f) d \<and> (by_publication f d \<or> by_share s r f d \<or> session_forward s r f d))
   | AgentUpdate c r' \<Rightarrow> (\<exists>uid. \<exists>d\<in>set (t_containers s). is_vm c d \<and> by_session s r uid d
       \<and> rq_Userid r' = Some uid \<and> (rq_Path r' = ''/upgrade'' \<longrightarrow> c_OwnerID d = uid))
   | _ \<Rightarrow> True)"

text \<open>\<open>serves s r m\<close>: every outcome of \<open>m\<close>, run for \<open>r\<close> on the data of \<open>s\<close>, is authorised.\<close>

definition serves :: "'r gateway \<Rightarrow> request \<Rightarrow> 'r handler \<Rightarrow> bool" where
  "serves s r m \<longleftrightarrow> hoare (same_data s) m (\<lambda>out _. authorised s r out) (\<lambda>_ _. True)"

named_theorems serves_rules \<open>handlers that only give authorised outcomes\<close>

lemma serves_plain [serves_rules]: "serves s r (ret (Reply n m))" "serves s r (ret (RedirectTo m))"
  by (simp_all add: serves_def hoare_ret authorised_def)

lemma serves_if [serves_rules]: "(b \<Longrightarrow> serves s r m) \<Longrightarrow> (\<not> b \<Longrightarrow> serves s r n) \<Longrightarrow> serves s r (if b then m else n)"
  by simp

lemma serves_attempt:
  "looks_up s m R \<Longrightarrow> (\<And>e. serves s r (h e)) \<Longrightarrow> (\<And>a. R a \<Longrightarrow> serves s r (f a)) \<Longrightarrow> serves s r (attempt m h f)"
  unfolding serves_def by (erule look_attempt)

lemma serves_bindE:
  "looks_up s m R \<Longrightarrow> (\<And>a. R a \<Longrightarrow> serves s r (f a)) \<Longrightarrow> serves s r (bindE m f)"
  unfolding serves_def by (erule look_bindE) simp_all

lemma forward_outcome:
  "forward rt r cookie ctx c port s = (Inr (Forward f), t) \<Longrightarrow>
     isRunning_proxy (c_Status c) \<and> (\<exists>ip. f = \<lparr>f_VM = c\<lparr>c_IPAddress := ip\<rparr>, f_Port = port, f_Userid = rq_Userid r,
            f_Email = rq_Email r, f_ShareQuery = rq_ShareQuery r, f_SetCookie = cookie, f_Context = ctx\<rparr>)"
  "forward rt r cookie ctx c port s \<noteq> (Inr (AgentUpdate c' r'), t)"
proof -
  have same: "\<exists>ip. c = c\<lparr>c_IPAddress := ip\<rparr>" by (rule exI [of _ "c_IPAddress c"]) simp
  show "forward rt r cookie ctx c port s = (Inr (Forward f), t) \<Longrightarrow>
     isRunning_proxy (c_Status c) \<and> (\<exists>ip. f = \<lparr>f_VM = c\<lparr>c_IPAddress := ip\<rparr>, f_Port = port, f_Userid = rq_Userid r,
            f_Email = rq_Email r, f_ShareQuery = rq_ShareQuery r, f_SetCookie = cookie, f_Context = ctx\<rparr>)"
    using same by (auto simp: forward_def Let_def attempt_def split: if_splits prod.splits sum.splits)
  show "forward rt r cookie ctx c port s \<noteq> (Inr (AgentUpdate c' r'), t)"
    by (auto simp: forward_def Let_def attempt_def split: if_splits prod.splits sum.splits)
qed

lemma serves_forward:
  assumes "\<And>ip. isRunning_proxy (c_Status c) \<Longrightarrow> authorised s r0 (Forward \<lparr>f_VM = c\<lparr>c_IPAddress := ip\<rparr>, f_Port = port, f_Userid = rq_Userid r,
            f_Email = rq_Email r, f_ShareQuery = rq_ShareQuery r, f_SetCookie = cookie, f_Context = ctx\<rparr>)"
  shows "serves s r0 (forward rt r cookie ctx c port)"
  unfolding serves_def
proof (rule hoareI)
  fix t out t' assume f: "forward rt r cookie ctx c port t = (Inr out, t')"
  show "authorised s r0 out"
  proof (cases out)
    case (Forward g)
    with forward_outcome(1) [OF f [unfolded Forward]] assms show ?thesis by auto
  next
    case (AgentUpdate c r')
    with f forward_outcome(2) show ?thesis by blast
  qed (simp_all add: authorised_def)
qed simp

lemma is_vm_scan [simp]:
  "is_vm (scanContainer d) d" "is_vm (c\<lparr>c_IPAddress := ip\<rparr>) d = is_vm c d" "is_vm (c\<lparr>c_SharedAccess := b\<rparr>) d = is_vm c d"
  by (simp_all add: is_vm_def scanContainer_def)

lemma is_vm_fields:
  "is_vm c d \<Longrightarrow> c_ID c = c_ID d \<and> c_Name c = c_Name d \<and> c_OwnerID c = c_OwnerID d
     \<and> c_AppPort c = c_AppPort d \<and> c_AppPublic c = c_AppPublic d"
  by (simp add: is_vm_def)

lemma vms_ok_port: "vms_ok s \<Longrightarrow> d \<in> set (t_containers s) \<Longrightarrow> ValidAppPort (c_AppPort d)"
  by (auto simp: vms_ok_def vm_row_ok_def list_all_iff)

text \<open>A published workload, and a share link's.\<close>

lemma serves_public:
  assumes "d \<in> set (t_containers s)" and "is_vm c d" and "c_AppPublic c" and "rq_Userid r = None" and "rq_Email r = None"
  shows "serves s r0 (forward rt r cookie ctx c (c_AppPort c))"
  using assms is_vm_fields [OF assms(2)]
  by (intro serves_forward) (auto simp: authorised_def by_publication_def intro!: bexI [of _ d])

lemma serves_shared:
  assumes "d \<in> set (t_containers s)" and "is_vm c d" and "rq_Userid r = None" and "rq_Email r = None"
    and "rq_ShareQuery r = []" and "l \<in> set (t_links s)" and "l_Token l = shareTokenFrom r0" and "link_live (clock s) l"
    and "l_ContainerID l = c_ID d" and "ValidAppPort port"
  shows "serves s r0 (forward rt r cookie ctx c port)"
  using assms by (intro serves_forward) (auto simp: authorised_def by_share_def list_ex_iff intro!: bexI [of _ d])

lemma acceptShareCookie_fields:
  "acceptShareCookie r token = (cookie, r') \<Longrightarrow>
     rq_ShareQuery r' = [] \<and> rq_Userid r' = rq_Userid r \<and> rq_Email r' = rq_Email r \<and> rq_Path r' = rq_Path r"
  by (auto simp: acceptShareCookie_def split: if_splits)

lemma shareTokenFrom_strip [simp]:
  "shareTokenFrom (r\<lparr>rq_Userid := u, rq_Email := e\<rparr>) = shareTokenFrom r"
  by (simp add: shareTokenFrom_def)

lemma serves_alias_vm:
  assumes "vms_ok s" and "d \<in> set (t_containers s)" and "is_vm c d" and "rq_Userid r = None" and "rq_Email r = None"
    and "shareTokenFrom r = shareTokenFrom r0"
  shows "serves s r0 (alias_vm rt r c)"
  unfolding alias_vm_def Let_def
  using assms is_vm_fields [OF assms(3)] vms_ok_port [OF assms(1,2)]
  by (intro serves_if serves_attempt [OF look_link] serves_public [OF assms(2,3)])
     (auto dest!: acceptShareCookie_fields intro!: serves_shared serves_plain split: prod.split)

lemma serves_alias: "vms_ok s \<Longrightarrow> serves s r0 (serveAlias uni rt r0 host)"
  unfolding serveAlias_def Let_def
  by (intro serves_attempt [OF look_alias] serves_attempt [OF look_containers(1)] serves_rules)
     (auto intro!: serves_alias_vm)

text \<open>A request on a VM host, once the VM is known: for a share link, and for a session.\<close>

lemma found_shared:
  assumes "vms_ok s" and "d \<in> set (t_containers s)" and "is_vm c d" and "Kind info = routeApp"
    and "Port info = 0 \<or> ValidAppPort (Port info)" and "token \<noteq> []" and "rq_Userid r = None" and "rq_Email r = None"
    and "rq_ShareQuery r = []" and "l \<in> set (t_links s)" and "l_Token l = shareTokenFrom r0" and "link_live (clock s) l"
    and "l_ContainerID l = c_ID d"
  shows "serves s r0 (serve_found rt info uid token r cookie c)"
  using assms is_vm_fields [OF assms(3)] vms_ok_port [OF assms(1,2)]
  by (auto simp: serve_found_def Let_def intro!: serves_shared)

lemma found_session:
  assumes "vms_ok s" and "d \<in> set (t_containers s)" and "is_vm c d" and "by_session s r0 uid d" and "uid \<noteq> []"
    and "Port info = 0 \<or> ValidAppPort (Port info)" and "rq_Email r = None"
    and "rq_Userid r = (if Kind info = routeAgent then Some uid else None)"
  shows "serves s r0 (serve_found rt info uid [] r cookie c)"
proof -
  let ?port = "if Kind info = routeApp then (if Port info \<noteq> 0 then Port info else c_AppPort c) else AgentPort"
  have ag: "(?port = AgentPort) = (Kind info = routeAgent)"
    using assms(6) is_vm_fields [OF assms(3)] vms_ok_port [OF assms(1,2)]
    by (cases "Kind info") (auto simp: ValidAppPort_def)
  have fwd: "serves s r0 (forward rt r cookie ctx c ?port)"
    if "c_OwnerID d = uid \<or> (\<exists>x. ctx = Some x \<and> \<not> ac_Done x \<and> ac_Watching x)" for ctx
    using assms that ag
    by (intro serves_forward)
       (auto simp: authorised_def session_forward_def intro!: bexI [of _ d] exI [of _ uid])
  have upd: "serves s r0 (ret (AgentUpdate c r))" if "Kind info = routeAgent" "c_OwnerID c \<noteq> uid \<longrightarrow> rq_Path r \<noteq> ''/upgrade''"
    unfolding serves_def
    using assms that is_vm_fields [OF assms(3)] by (intro hoare_ret) (auto simp: authorised_def)
  show ?thesis
    unfolding serve_found_def Let_def
    by (intro serves_if serves_bindE [OF look_context] fwd upd serves_plain)
       (use is_vm_fields [OF assms(3)] assms(5) in auto)
qed

lemma look_authenticate [look_rules]:
  "looks_up s (authenticate_proxy r) (\<lambda>uid. uid \<noteq> [] \<longrightarrow> (\<exists>tok. rq_SessionCookie r = Some tok \<and> live_session s tok uid))"
  unfolding authenticate_proxy_def
  by (cases "rq_SessionCookie r") (auto intro!: looks_up_ret looks_up_attempt [OF look_GetSession])

lemma serves_share:
  assumes "vms_ok s" and "Kind info = routeApp" and "Port info = 0 \<or> ValidAppPort (Port info)"
    and "token \<noteq> []" and "token = shareTokenFrom r0" and "rq_Userid r = None" and "rq_Email r = None"
  shows "serves s r0 (serve_share rt info uid token r)"
  unfolding serve_share_def Let_def
  using assms
  by (intro serves_attempt [OF look_link] serves_attempt [OF look_containers(1)] serves_rules)
     (auto dest!: acceptShareCookie_fields intro!: found_shared split: prod.split)

lemma serves_user:
  assumes "vms_ok s" and "Port info = 0 \<or> ValidAppPort (Port info)" and "uid \<noteq> []" and "rq_Userid r = None" and "rq_Email r = None"
    and "rq_SessionCookie r0 = Some tok" and "live_session s tok uid"
  shows "serves s r0 (serve_user rt info uid r)"
  unfolding serve_user_def
proof (intro serves_attempt [OF look_by_name] serves_rules)
  fix c assume "\<exists>d. usable_by s uid d \<and> c_Name d = ContainerName info
      \<and> c = (scanContainer d)\<lparr>c_SharedAccess := (c_OwnerID d \<noteq> uid)\<rparr>"
  then obtain d where d: "usable_by s uid d" "is_vm c d" by auto
  then have "d \<in> set (t_containers s)" "by_session s r0 uid d"
    using assms(6,7) by (auto simp: usable_by_def by_session_def)
  with assms d show "serves s r0 (serve_found rt info uid []
      (if Kind info = routeAgent then r\<lparr>rq_Userid := Some uid\<rparr> else r) None c)"
    by (intro found_session) auto
qed

lemma serves_credential:
  assumes "vms_ok s" and "Port info = 0 \<or> ValidAppPort (Port info)" and "rq_Userid r = None" and "rq_Email r = None"
    and "shareTokenFrom r = shareTokenFrom r0"
    and "uid \<noteq> [] \<longrightarrow> (\<exists>tok. rq_SessionCookie r0 = Some tok \<and> live_session s tok uid)"
  shows "serves s r0 (serve_credential rt domain info uid r)"
  unfolding serve_credential_def Let_def
  using assms routeKind.exhaust [of "Kind info"]
  by (auto intro!: serves_if serves_share serves_user serves_plain)

lemma serves_ServeHTTP: "vms_ok s \<Longrightarrow> serves s r (ServeHTTP_proxy uni rt domain r)"
proof (cases "extractSubdomain domain (rq_Host r)")
  case None
  assume "vms_ok s"
  with None show ?thesis
    by (auto simp: ServeHTTP_proxy_def Let_def intro!: serves_if serves_alias serves_plain)
next
  case (Some info)
  assume v: "vms_ok s"
  let ?r = "r\<lparr>rq_Userid := None, rq_Email := None\<rparr>"
  have p: "Port info = 0 \<or> ValidAppPort (Port info)" using extractSubdomain_sound [OF Some] by blast
  have cred: "serves s r (serve_credential rt domain info uid ?r)"
    if "uid \<noteq> [] \<longrightarrow> (\<exists>tok. rq_SessionCookie r = Some tok \<and> live_session s tok uid)" for uid
    using v p that by (intro serves_credential) auto
  show ?thesis
    unfolding ServeHTTP_proxy_def Some option.case Let_def
    by (intro serves_bindE [OF look_authenticate] serves_if serves_attempt [OF look_containers(2)] cred)
       (auto intro!: serves_public)
qed

text \<open>C3: every request the proxy forwards was allowed to go where it goes.  Whatever the request
  carries and whatever the database and the runtime do, a request that reaches a VM reaches a running VM
  of the database, without any identity header the client sent, and on one of three grounds: the
  workload is published and the port is the published one; a live share link of this very VM was
  presented and the port is not the agent's; or a live session belongs to the VM's owner or to an account
  with a grant.  The agent is reached on the last ground only, with the session's account as the
  identity; a guest's connection is watched for revocation; and only the owner reaches the agent's
  upgrade.\<close>

theorem proxy_authorised:
  assumes "vms_ok s" and "ServeHTTP_proxy uni rt domain r s = (Inr out, t)"
  shows "authorised s r out
    \<and> (\<forall>f. out = Forward f \<and> f_Port f = AgentPort \<longrightarrow>
        (\<exists>uid d. by_session s r uid d \<and> c_ID d = c_ID (f_VM f) \<and> f_Userid f = Some uid))"
proof -
  have a: "authorised s r out"
    using hoare_Inr [OF serves_ServeHTTP [OF assms(1), unfolded serves_def] _ assms(2)] by simp
  moreover have "\<exists>uid d. by_session s r uid d \<and> c_ID d = c_ID (f_VM f) \<and> f_Userid f = Some uid"
    if "out = Forward f" "f_Port f = AgentPort" for f
    using a that vms_ok_port [OF assms(1)]
    by (fastforce simp: authorised_def by_publication_def by_share_def session_forward_def is_vm_def ValidAppPort_def)
  ultimately show ?thesis by blast
qed

section \<open>Instances\<close>

theorem extractSubdomain_roundtrip_witness:
  "extractSubdomain ''example.org'' ''8080-web.example.org:443'' = Some \<lparr>ContainerName = ''web'', Kind = routeApp, Port = 8080\<rparr>"
proof -
  have v: "ValidContainerName ''web''" "port_text ''8080''"
    by (simp_all add: ValidContainerName_def dns_label_def is_lower_alnum_def is_digit_def byte_def ReservedName_def
        has_port_prefix_def AgentHostPrefix_def HasPrefix_def port_text_def digits_val_def ValidAppPort_def AgentPort_def)
  show ?thesis
    using extractSubdomain_roundtrip [OF v(1), of "''example.org''" "''443''" "Some ''8080''" routeApp] v(2)
    by (simp add: host_label_def route_of_def digits_val_def byte_def)
qed

definition demo_request :: request where
  "demo_request = \<lparr>rq_Host = ''agent-web.example.org'', rq_Path = ''/'', rq_Accept = ''text/html'', rq_SessionCookie = Some ''tok'',
     rq_ShareCookie = None, rq_ShareQuery = [], rq_Userid = Some ''root'', rq_Email = Some ''root@example.org''\<rparr>"

theorem proxy_authorised_witness:
  "\<exists>f t. ServeHTTP_proxy id demo_rt ''example.org'' demo_request demo_gw = (Inr (Forward f), t)
     \<and> f_Port f = AgentPort \<and> f_Userid f = Some ''u1'' \<and> authorised demo_gw demo_request (Forward f)"
proof -
  have v: "vms_ok demo_gw" by (simp add: vms_ok_def demo_gw_def demo_vm_def vm_row_ok_def ValidAppPort_def AgentPort_def)
  have "ValidContainerName ''web''" "CHR '':'' \<notin> set ''example.org''"
    by (simp_all add: ValidContainerName_def dns_label_def is_lower_alnum_def is_digit_def byte_def ReservedName_def
        has_port_prefix_def AgentHostPrefix_def HasPrefix_def)
  from extractSubdomain_host [OF this, of None routeAgent]
  have e: "extractSubdomain ''example.org'' ''agent-web.example.org'' = Some \<lparr>ContainerName = ''web'', Kind = routeAgent, Port = 0\<rparr>"
    by (simp add: host_label_def route_of_def AgentHostPrefix_def)
  have run: "isRunning_proxy ''running''" by (simp add: isRunning_proxy_def EqualFold_def)
  obtain f where f: "ServeHTTP_proxy id demo_rt ''example.org'' demo_request demo_gw = (Inr (Forward f), demo_gw)"
    "f_Port f = AgentPort" "f_Userid f = Some ''u1''"
    using run
    by (simp add: ServeHTTP_proxy_def demo_request_def e authenticate_proxy_def GetSession_def run_defs
        serve_credential_def shareTokenFrom_def serve_user_def GetAccessibleContainerByName_def ListAccessibleContainers_def
        accessible_def uniqueAccessibleName_def of_result_def serve_found_def forward_def scanContainer_def
        demo_gw_def demo_vm_def Let_def sql_row_def sql_value_def)
  with proxy_authorised [OF v f(1)] show ?thesis by blast
qed

end
