(* ===== verification/Gateway_Http.thy ===== *)
theory Gateway_Http
  imports Api_Safety Proxy_Routing
begin

text \<open>
  The entry of the gateway: the key of \<^verbatim>\<open>src/cmd/gateway/enckey.go\<close>, the operator's account and the
  dispatch by host of \<^verbatim>\<open>main.go\<close>, and the public routes of
  \<^verbatim>\<open>src/internal/api/server.go\<close>.

  A request is seen twice, as the proxy reads it and as the API reads it.  What the gateway serves besides the modelled
  routes (the dashboard, the metrics, the LLM gateway) is an argument.  The rate limiter stands before a handler and
  changes no data; it is the theory \<open>Rate_Limit\<close>.
\<close>

section \<open>The encryption key\<close>

text \<open>\<open>hex.DecodeString\<close>\<close>

definition hex_value :: "char \<Rightarrow> nat option" where
  "hex_value c = (if is_digit c then Some (byte c - 48)
     else if 97 \<le> byte c \<and> byte c \<le> 102 then Some (byte c - 87)
     else if 65 \<le> byte c \<and> byte c \<le> 70 then Some (byte c - 55) else None)"

fun DecodeString :: "string \<Rightarrow> string option" where
  "DecodeString [] = Some []"
| "DecodeString [c] = None"
| "DecodeString (c # d # cs) =
     (case (hex_value c, hex_value d) of
        (Some a, Some b) \<Rightarrow> map_option ((#) (char_of (16 * a + b))) (DecodeString cs)
      | _ \<Rightarrow> None)"

definition deriveEncKey :: "string \<Rightarrow> string option" where
  "deriveEncKey hexStr =
     (if hexStr = [] then None
      else case DecodeString hexStr of None \<Rightarrow> None | Some key \<Rightarrow> if length key \<noteq> 32 then None else Some key)"

lemma hex_value_hexdigit: "n < 16 \<Longrightarrow> hex_value (hexdigit n) = Some n"
  by (cases "n < 10") (simp_all add: hex_value_def hexdigit_def is_digit_def byte_def)

lemma Decode_Encode: "DecodeString (EncodeToString bs) = Some bs"
proof (induction bs)
  case (Cons c bs)
  have "byte c < 256" by (simp add: byte_def)
  then have "byte c div 16 < 16" "byte c mod 16 < 16" by simp_all
  then have "DecodeString (EncodeToString (c # bs)) = map_option ((#) (char_of (16 * (byte c div 16) + byte c mod 16))) (DecodeString (EncodeToString bs))"
    by (simp add: EncodeToString_def hex_value_hexdigit)
  also have "char_of (16 * (byte c div 16) + byte c mod 16) = c" by (simp add: byte_def)
  finally show ?case using Cons by simp
qed (simp add: EncodeToString_def)

lemma DecodeString_length: "DecodeString x = Some k \<Longrightarrow> length x = 2 * length k"
  by (induction x arbitrary: k rule: DecodeString.induct) (auto split: option.splits)

text \<open>The key the gateway accepts is exactly 64 hexadecimal digits: what hex encoding makes of 32 bytes gives those bytes
  back, and anything of another length is refused.\<close>

theorem deriveEncKey_exact:
  "deriveEncKey (EncodeToString key) = (if length key = 32 then Some key else None)
   \<and> (length x = 64 \<or> deriveEncKey x = None)"
proof -
  have l: "length (EncodeToString key) = 2 * length key" using DecodeString_length [OF Decode_Encode] .
  have "deriveEncKey x = None" if "length x \<noteq> 64"
  proof -
    have "length k \<noteq> 32" if "DecodeString x = Some k" for k using DecodeString_length [OF that] \<open>length x \<noteq> 64\<close> by simp
    then show ?thesis by (auto simp: deriveEncKey_def split: option.split)
  qed
  moreover have "EncodeToString key = [] \<longleftrightarrow> key = []" using l by (metis length_0_conv mult_is_0 zero_neq_numeral)
  ultimately show ?thesis by (simp add: deriveEncKey_def Decode_Encode) metis
qed

section \<open>The operator's account\<close>

text \<open>\<open>hash\<close> is what bcrypt makes of the password, if it can.\<close>

definition bootstrapAdmin :: "(string \<Rightarrow> string) \<Rightarrow> string option \<Rightarrow> string \<Rightarrow> string \<Rightarrow> ('z, unit) dbm" where
  "bootstrapAdmin uni hash nid email0 =
     (let email = ToLower uni (TrimSpace email0) in
      case hash of
        None \<Rightarrow> raise (ErrRuntime ''hash password'')
      | Some h \<Rightarrow>
          attempt (GetUserByEmail email)
            (\<lambda>e. if e \<noteq> ErrNoRows then raise e
                 else CreateUser \<lparr>u_ID = nid, u_Email = email, u_DisplayName = [], u_Role = ''admin'', u_PasswordHash = h,
                   u_DefaultModel = [], u_CreatedAt = 0\<rparr>)
            (\<lambda>u. bindE (SetUserPassword (u_ID u) h) (\<lambda>_.
               if u_Role u \<noteq> ''admin'' then UpdateUser (u\<lparr>u_Role := ''admin''\<rparr>) else ret ())))"

text \<open>What is left alone: every account of another address, and every other table.\<close>

definition others_same :: "string \<Rightarrow> 'z store_scheme \<Rightarrow> 'z store_scheme \<Rightarrow> bool" where
  "others_same email s t \<longleftrightarrow> filter (\<lambda>u. u_Email u \<noteq> email) (t_users t) = filter (\<lambda>u. u_Email u \<noteq> email) (t_users s)
     \<and> same_data s (t\<lparr>t_users := t_users s\<rparr>)"

text \<open>The account the operator named can sign in with the password that was hashed.\<close>

definition is_operator :: "string \<Rightarrow> string \<Rightarrow> 'z store_scheme \<Rightarrow> bool" where
  "is_operator email h t \<longleftrightarrow> (\<exists>u. filter (\<lambda>v. u_Email v = email) (t_users t) = [u] \<and> u_Role u = ''admin'' \<and> u_PasswordHash u = h)"

definition made_operator :: "string \<Rightarrow> string \<Rightarrow> user \<Rightarrow> user" where
  "made_operator i h v = (if u_ID v = i then v\<lparr>u_PasswordHash := h, u_Role := ''admin''\<rparr> else v)"

lemma filter_key: "distinct (map k xs) \<Longrightarrow> x \<in> set xs \<Longrightarrow> filter (\<lambda>v. k v = k x) xs = [x]"
  by (induction xs) (auto simp: filter_empty_conv, metis image_eqI)

lemma users_only: "same_data s s1 \<Longrightarrow> same_data (t_users_update (\<lambda>_. us) s1) t \<Longrightarrow> same_data s (t\<lparr>t_users := t_users s\<rparr>)"
  by (cases s; cases s1; cases t) (auto simp: same_data_def)

lemma promotes:
  assumes "bindE (SetUserPassword (u_ID u) h) (\<lambda>_. if u_Role u \<noteq> ''admin'' then UpdateUser (u\<lparr>u_Role := ''admin''\<rparr>) else ret ()) s
      = (Inr x, t)"
    and "u \<in> set (t_users s)" and "distinct (map u_ID (t_users s))"
  shows "same_data (t_users_update (\<lambda>_. map (made_operator (u_ID u) h) (t_users s)) s) t"
proof -
  have only: "v = u" if "v \<in> set (t_users s)" "u_ID v = u_ID u" for v
    using that assms(2,3) by (auto simp: distinct_map inj_on_def)
  show ?thesis
  proof (cases "u_Role u = ''admin''")
    case True
    have eq: "map (made_operator (u_ID u) h) (t_users s) = map (\<lambda>v. if u_ID v = u_ID u then u_PasswordHash_update (\<lambda>_. h) v else v) (t_users s)"
      using True by (auto simp: made_operator_def dest: only)
    have d: "does (bindE (SetUserPassword (u_ID u) h) (\<lambda>_. ret ()))
        (\<lambda>s. t_users_update (\<lambda>_. map (\<lambda>v. if u_ID v = u_ID u then u_PasswordHash_update (\<lambda>_. h) v else v) (t_users s)) s)"
      unfolding SetUserPassword_def by (intro does_rules)
    have run: "bindE (SetUserPassword (u_ID u) h) (\<lambda>_. ret ()) s = (Inr x, t)" using assms(1) True by simp
    show ?thesis unfolding eq by (rule doesD [OF d run])
  next
    case False
    have "made_operator (u_ID u) h v = (if u_ID v = u_ID u then (if u_ID v = u_ID u then u_PasswordHash_update (\<lambda>_. h) v else v)\<lparr>u_DisplayName := u_DisplayName u, u_Role := ''admin''\<rparr>
        else if u_ID v = u_ID u then u_PasswordHash_update (\<lambda>_. h) v else v)" if "v \<in> set (t_users s)" for v
      using only [OF that] by (auto simp: made_operator_def)
    then have eq: "map (made_operator (u_ID u) h) (t_users s) = map (\<lambda>v. if u_ID v = u_ID u then v\<lparr>u_DisplayName := u_DisplayName u, u_Role := ''admin''\<rparr> else v)
        (map (\<lambda>v. if u_ID v = u_ID u then u_PasswordHash_update (\<lambda>_. h) v else v) (t_users s))"
      by (auto simp: made_operator_def)
    have d: "does (bindE (SetUserPassword (u_ID u) h) (\<lambda>_. UpdateUser (u\<lparr>u_Role := ''admin''\<rparr>)))
        (\<lambda>s. t_users_update (\<lambda>_. map (\<lambda>v. if u_ID v = u_ID u then v\<lparr>u_DisplayName := u_DisplayName u, u_Role := ''admin''\<rparr> else v)
        (map (\<lambda>v. if u_ID v = u_ID u then u_PasswordHash_update (\<lambda>_. h) v else v) (t_users s))) s)"
      unfolding SetUserPassword_def UpdateUser_def
      by (rule does_cong [OF does_bindE [OF does_void [OF users.does_update] does_void [OF users.does_update]]]) simp
    have run: "bindE (SetUserPassword (u_ID u) h) (\<lambda>_. UpdateUser (u\<lparr>u_Role := ''admin''\<rparr>)) s = (Inr x, t)" using assms(1) False by simp
    show ?thesis unfolding eq by (rule doesD [OF d run])
  qed
qed

text \<open>When the operator's account could be set up, exactly one account has its address, that account is an
  administrator with the given password hash, and no other account and no other table has changed.\<close>

theorem bootstrap_operator:
  assumes "uq_users (t_users s)" and "bootstrapAdmin uni (Some h) nid e0 s = (Inr (), t)"
  shows "is_operator (ToLower uni (TrimSpace e0)) h t \<and> others_same (ToLower uni (TrimSpace e0)) s t"
proof -
  let ?e = "ToLower uni (TrimSpace e0)"
  have dist: "distinct (map u_ID (t_users s))" "distinct (map u_Email (t_users s))" using assms(1) by (simp_all add: uq_users_def)
  obtain r s1 where r: "GetUserByEmail ?e s = (r, s1)" by (cases "GetUserByEmail ?e s")
  show ?thesis
  proof (cases r)
    case (Inr u)
    from r Inr have u: "u \<in> set (t_users s)" "u_Email u = ?e" "same_data s s1" unfolding GetUserByEmail_def by (auto dest: users.row_ok)
    have s1: "t_users s1 = t_users s" using u(3) by (simp add: same_data_fields)
    let ?f = "made_operator (u_ID u) h"
    from assms(2) r Inr have "bindE (SetUserPassword (u_ID u) h) (\<lambda>_. if u_Role u \<noteq> ''admin'' then UpdateUser (u\<lparr>u_Role := ''admin''\<rparr>) else ret ()) s1
        = (Inr (), t)" by (simp add: bootstrapAdmin_def attempt_def Let_def)
    then have t: "same_data (t_users_update (\<lambda>_. map ?f (t_users s)) s1) t"
      using promotes [of u h s1 _ t] u(1) dist(1) by (simp add: s1)
    then have ts: "t_users t = map ?f (t_users s)" using same_data_fields(1) [OF t] by simp
    have only: "v = u" if "v \<in> set (t_users s)" "u_ID v = u_ID u \<or> u_Email v = ?e" for v
      using that u dist by (auto simp: distinct_map inj_on_def)
    have em: "u_Email (?f v) = u_Email v" for v by (simp add: made_operator_def)
    have "filter (\<lambda>v. u_Email v = ?e) (t_users s) = [u]" using filter_key [OF dist(2) u(1)] u(2) by simp
    then have "filter (\<lambda>v. u_Email v = ?e) (t_users t) = [?f u]" by (simp add: ts filter_map o_def em)
    moreover have "filter (\<lambda>v. u_Email v \<noteq> ?e) (t_users t) = filter (\<lambda>v. u_Email v \<noteq> ?e) (t_users s)"
      unfolding ts filter_map o_def em by (rule map_idI) (use only u(2) in \<open>auto simp: made_operator_def\<close>)
    moreover have "same_data s (t\<lparr>t_users := t_users s\<rparr>)" using users_only [OF u(3) t] .
    ultimately show ?thesis by (simp add: is_operator_def others_same_def made_operator_def)
  next
    case (Inl e)
    have none: "\<forall>v\<in>set (t_users s). u_Email v \<noteq> ?e" and s1: "same_data s s1" if "e = ErrNoRows"
      using r Inl that unfolding GetUserByEmail_def by (auto dest: users.row_none exec_error_same)
    let ?u = "\<lambda>now. \<lparr>u_ID = nid, u_Email = ?e, u_DisplayName = [], u_Role = ''admin'', u_PasswordHash = h, u_DefaultModel = [], u_CreatedAt = now\<rparr>"
    from assms(2) r Inl have e: "e = ErrNoRows" and "CreateUser (?u 0) s1 = (Inr (), t)"
      by (auto simp: bootstrapAdmin_def attempt_def Let_def split: if_splits)
    then have t: "t = t_users_update (\<lambda>rs. rs @ [?u (clock s1)]) (s1\<lparr>faults := tl (faults s1)\<rparr>)"
      by (auto simp: CreateUser_def dest: users.insert_ok)
    have "t_users s1 = t_users s" using s1 [OF e] by (simp add: same_data_fields)
    moreover from this have "same_data (t_users_update (\<lambda>_. t_users s @ [?u (clock s1)]) s1) t"
      unfolding t by (cases s1) (simp add: same_data_def)
    ultimately have d: "same_data s (t\<lparr>t_users := t_users s\<rparr>)" and us: "t_users t = t_users s @ [?u (clock s1)]"
      using users_only [OF s1 [OF e]] by (blast, simp add: t)
    show ?thesis using none [OF e] d by (simp add: is_operator_def others_same_def us filter_empty_conv)
  qed
qed

section \<open>Dispatch\<close>

text \<open>Which hosts go to the proxy of the VMs.\<close>

definition goes_to_proxy :: "(string \<Rightarrow> string) \<Rightarrow> string \<Rightarrow> string \<Rightarrow> ('z, bool) dbm" where
  "goes_to_proxy uni domain rhost =
     (let host = hostWithoutPort rhost in
      if domain \<noteq> [] \<and> HasSuffix host (''.'' @ domain) \<and> host \<noteq> domain then ret True
      else if host \<noteq> domain then KnowsHost uni domain rhost
      else ret False)"

text \<open>The public routes in front of the API.\<close>

definition serve_site :: "'r server \<Rightarrow> (api_request \<Rightarrow> 'r http) \<Rightarrow> (api_request \<Rightarrow> user \<Rightarrow> 'r http) \<Rightarrow> api_request \<Rightarrow> 'r http" where
  "serve_site sv other rest r =
     (let at = (\<lambda>verb path. ar_Method r = verb \<and> ar_Path r = path) in
      if at ''GET'' ''/'' then see_other ''/dashboard/'' None
      else if at ''GET'' ''/login'' then loginGet
      else if at ''GET'' ''/register'' then registerGet
      else if at ''POST'' ''/login'' then loginPost sv r
      else if at ''POST'' ''/logout'' then logoutPost r
      else if at ''POST'' ''/register'' then registerPost sv r
      else if at ''GET'' ''/api/tls/check'' then tlsCheck sv r
      else if HasPrefix (ar_Path r) ''/api/'' \<and> \<not> HasPrefix (ar_Path r) ''/api/llm/v1/'' then serve_api sv rest r
      else other r)"

datatype answer = FromVm outcome | FromSite response

definition topHandler ::
  "'r server \<Rightarrow> (api_request \<Rightarrow> 'r http) \<Rightarrow> (api_request \<Rightarrow> user \<Rightarrow> 'r http) \<Rightarrow> request \<Rightarrow> api_request \<Rightarrow> ('r, answer) gwm" where
  "topHandler sv other rest q r =
     bindE (goes_to_proxy (sv_Lower sv) (sv_Domain sv) (rq_Host q)) (\<lambda>vm.
       if vm then bindE (ServeHTTP_proxy (sv_Lower sv) (sv_Runtime sv) (sv_Domain sv) q) (\<lambda>x. ret (FromVm x))
       else bindE (serve_site sv other rest r) (\<lambda>x. ret (FromSite x)))"

text \<open>The hosts that are a VM's: a name under the gateway's domain, or a domain verified for a VM.\<close>

definition vm_host :: "(string \<Rightarrow> string) \<Rightarrow> string \<Rightarrow> string \<Rightarrow> 'z store_scheme \<Rightarrow> bool" where
  "vm_host uni domain rhost s \<longleftrightarrow>
     domain \<noteq> [] \<and> HasSuffix (hostWithoutPort rhost) (''.'' @ domain)
     \<or> aliasHost uni rhost \<noteq> [] \<and> \<not> under_domain uni domain (aliasHost uni rhost)
       \<and> (\<exists>a\<in>set (t_aliases s). a_Verified a \<and> a_Hostname a = lookup_name uni (aliasHost uni rhost))"

text \<open>A request reaches the code that serves VMs only when its host is a name under the gateway's domain or a custom
  domain that is verified for a VM, and always then unless the engine fails, in which case it is the dashboard's.  The
  gateway's own name, with or without a port, is never looked up and is always the dashboard and the API.\<close>

theorem dispatch_by_host:
  fixes s t :: "'z store_scheme"
  assumes "goes_to_proxy uni domain rhost s = (Inr vm, t)"
  shows "same_data s t \<and> (hostWithoutPort rhost = domain \<longrightarrow> \<not> vm \<and> t = s) \<and> (vm \<longrightarrow> vm_host uni domain rhost s)
    \<and> (faults s = [] \<and> hostWithoutPort rhost \<noteq> domain \<longrightarrow> vm = vm_host uni domain rhost s)"
proof -
  let ?h = "aliasHost uni rhost" and ?host = "hostWithoutPort rhost"
  consider (own) "?host = domain" | (sub) "?host \<noteq> domain" "domain \<noteq> []" "HasSuffix ?host (''.'' @ domain)"
    | (other) "?host \<noteq> domain" "\<not> (domain \<noteq> [] \<and> HasSuffix ?host (''.'' @ domain))" by blast
  then show ?thesis
  proof cases
    case own
    then show ?thesis using assms by (simp add: goes_to_proxy_def Let_def)
  next
    case sub
    then show ?thesis using assms by (simp add: goes_to_proxy_def Let_def vm_host_def)
  next
    case other
    then have k: "KnowsHost uni domain rhost s = (Inr vm, t)" using assms by (auto simp: goes_to_proxy_def Let_def split: if_splits)
    show ?thesis
    proof (cases "?h = [] \<or> under_domain uni domain ?h")
      case True
      then have "KnowsHost uni domain rhost s = (Inr False, s)" by (auto simp: KnowsHost_def Let_def)
      with k have "\<not> vm \<and> t = s" by simp
      with True other show ?thesis by (auto simp: vm_host_def)
    next
      case False
      obtain x u where g: "GetVerifiedAliasByHostname uni ?h s = (x, u)" by (cases "GetVerifiedAliasByHostname uni ?h s")
      have "KnowsHost uni domain rhost s = attempt (GetVerifiedAliasByHostname uni ?h) (\<lambda>_. ret False) (\<lambda>_. ret True) s"
        using False by (simp add: KnowsHost_def Let_def)
      with k g have xt: "t = u" "vm = (\<exists>a. x = Inr a)" by (cases x; simp add: attempt_def)+
      show ?thesis
      proof (cases x)
        case (Inl e)
        with g have "same_data s u" unfolding GetVerifiedAliasByHostname_def by (auto dest: exec_error_same)
        moreover have "\<not> (\<exists>a\<in>set (t_aliases s). a_Verified a \<and> a_Hostname a = lookup_name uni ?h)" if "faults s = []"
        proof -
          have x: "exec (sql_row t_aliases (\<lambda>a. a_Hostname a = lookup_name uni ?h \<and> a_Verified a)) s = (Inl e, u)"
            using g Inl by (simp add: GetVerifiedAliasByHostname_def)
          then have "e = ErrNoRows" using that by (auto simp: exec_def sql_row_def Let_def split: option.splits)
          with x show ?thesis using caliases.row_none by blast
        qed
        ultimately show ?thesis using Inl xt other by (auto simp: vm_host_def)
      next
        case (Inr a)
        with g have "a \<in> set (t_aliases s)" "a_Hostname a = lookup_name uni ?h" "a_Verified a" "same_data s u"
          unfolding GetVerifiedAliasByHostname_def by (auto dest: caliases.row_ok)
        then show ?thesis using Inr xt other False by (auto simp: vm_host_def)
      qed
    qed
  qed
qed

text \<open>A verified custom domain on a port, and the gateway's own name.\<close>

theorem dispatch_by_host_witness:
  "\<exists>t. goes_to_proxy id ''gw.test'' ''www.test:443'' (demo_site ''user'') = (Inr True, t) \<and> same_data (demo_site ''user'') t
     \<and> vm_host id ''gw.test'' ''www.test:443'' (demo_site ''user'')"
proof -
  have sp: "aliasHost id ''www.test:443'' = ''www.test''" "hostWithoutPort ''www.test:443'' = ''www.test''"
    "HasSuffix ''www.test'' ''.gw.test'' = False" "under_domain id ''gw.test'' ''www.test'' = False" "lookup_name id ''www.test'' = ''www.test''"
    by code_simp+
  have "\<exists>t. goes_to_proxy id ''gw.test'' ''www.test:443'' (demo_site ''user'') = (Inr True, t)"
    by (simp add: goes_to_proxy_def KnowsHost_def sp GetVerifiedAliasByHostname_def run_defs demo_site_def demo_gw_def demo_alias_def)
  then obtain t where run: "goes_to_proxy id ''gw.test'' ''www.test:443'' (demo_site ''user'') = (Inr True, t)" by blast
  from dispatch_by_host [OF run] run show ?thesis by blast
qed

text \<open>An account of the operator that is there already.\<close>

theorem bootstrap_operator_witness:
  "\<exists>t. bootstrapAdmin id (Some ''H2'') ''n'' '' ANN '' (demo_site ''user'') = (Inr (), t) \<and> is_operator ''ann'' ''H2'' t
     \<and> others_same ''ann'' (demo_site ''user'') t"
proof -
  have e: "ToLower id (TrimSpace '' ANN '') = ''ann''" by code_simp
  have "\<exists>t. bootstrapAdmin id (Some ''H2'') ''n'' '' ANN '' (demo_site ''user'') = (Inr (), t)"
    by (simp add: bootstrapAdmin_def e Let_def GetUserByEmail_def SetUserPassword_def UpdateUser_def run_defs demo_site_def demo_gw_def demo_account_def
        demo_user_def uq_users_def)
  then obtain t where run: "bootstrapAdmin id (Some ''H2'') ''n'' '' ANN '' (demo_site ''user'') = (Inr (), t)" by blast
  have u: "uq_users (t_users (demo_site ''user''))" by (simp add: demo_site_def uq_users_def)
  from bootstrap_operator [OF u run] run show ?thesis unfolding e by blast
qed

text \<open>The key of 32 equal bytes.\<close>

theorem deriveEncKey_witness:
  "deriveEncKey (EncodeToString (replicate 32 (CHR ''k''))) = Some (replicate 32 (CHR ''k'')) \<and> deriveEncKey ''6b'' = None"
  using deriveEncKey_exact [of "replicate 32 (CHR ''k'')" "''6b''"] by simp

end
