(* ===== verification/Gateway_Steps.thy ===== *)
theory Gateway_Steps
  imports Gateway_Http Alias_Manager Task_Delivery
begin

text \<open>
  The gateway as a transition system.  \<open>gw_step\<close> is one thing that happens to it: a request of the JSON API, of the
  sign-in pages or of the subdomain proxy, an invitation to a VM or its end, a round of the task monitor, of the alias sweep or of the reconciliation of
  the agents, and what the environment does (the clock moves on, the engine fails, the containers, the resolver and the
  key files change).  \<open>sound\<close> is the invariant of the stored data, and \<open>gw_reachable\<close> states are those after any
  number of such steps from an empty database.

  A step is a whole handler.  The proof goes through its operations one by one (\<open>keeps_rules\<close>), each of which keeps the
  invariant by itself.  One of them, \<open>CreateContainerAlias\<close>, is several statements whose order the proof needs (the cap of claims
  is counted before the insert), so for concurrent requests the cap is not shown.
\<close>

section \<open>The invariant\<close>

definition sound :: "'z store_scheme \<Rightarrow> bool" where
  "sound s \<longleftrightarrow> uniq_ok s \<and> vms_ok s \<and> aliases_ok s \<and> models_ok s"

lemma sound_keeps: "keeps uniq_ok m \<Longrightarrow> keeps vms_ok m \<Longrightarrow> keeps aliases_ok m \<Longrightarrow> keeps models_ok m \<Longrightarrow> keeps sound m"
  by (simp add: keeps_def sound_def)

lemma sound_pure: "(\<And>s0. keeps (db_same s0) m) \<Longrightarrow> keeps sound m"
  by (rule sound_keeps) (rule db_pure_keeps, simp add: db_pure_def)+

lemma accounts_sound [keeps_rules]:
  "keeps sound (CreateUser u)" "keeps sound (GetUserByID i)" "keeps sound (GetUserByEmail e)" "keeps sound CountUsers"
  "keeps sound ListUsers" "keeps sound (DeleteUser i)" "keeps sound (CreateSession rnd i)" "keeps sound (GetSession t)"
  "keeps sound (DeleteSession t)" "keeps sound DeleteExpiredSessions"
  "keeps sound (SetUserPassword i h)" "keeps sound (UpdateUser u)" "keeps sound (CreateSSHKey k)" "keeps sound (ListSSHKeysByUser i)"
  "keeps sound (DeleteSSHKey i o')" "keeps sound NestingAllowed"
  by (intro sound_keeps keeps_rules)+

lemma vms_sound [keeps_rules]:
  "keeps sound (GetContainerByID i)" "keeps sound (ListContainersByOwner i)" "keeps sound (GetContainerByName n i)"
  "keeps sound (GetContainerByNameOnly n)" "keeps sound (AttachNestingPolicy cs)" "keeps sound ListAllContainers"
  "keeps sound (CreateContainer c)" "keeps sound (UpdateContainerStatus i st ip)"
  "keeps sound (UpdateContainerPublish i p b)" "keeps sound (DeleteContainer i)" "keeps sound (RetryInitialTask i)"
  "keeps sound (SetInitialTaskState i st r)" "keeps sound (SetInitialTaskDelivered i cv)" "keeps sound (SetInitialTaskConversation i cv)"
  "keeps sound (CountInitialTaskResume i)" "keeps sound ListContainersWithTaskInProgress"
  "keeps sound (MarkStarted c b)" "keeps sound (EffectiveNesting c)" "keeps sound (PrepareStart rt c)"
  by (intro sound_keeps keeps_rules)+

lemma access_sound [keeps_rules]:
  "keeps sound (CanUseContainer i u)" "keeps sound (ListAccessibleContainers u)" "keeps sound (GetAccessibleContainerByName n u)"
  "keeps sound (ContainerAccessContext vm u)"
  "keeps sound (GrantContainerAccess uni pa pk x y ow i em ky)" "keeps sound (RevokeContainerAccess ow i u)"
  "keeps sound (CreateSharedLink r n i u e)" "keeps sound (LookupSharedLink t)" "keeps sound (GetSharedLinkByToken t)"
  "keeps sound (ListSharedLinksByContainer i)" "keeps sound (DeleteSharedLinkByToken t)"
  by (intro sound_keeps keeps_rules)+

lemma keys_sound [keeps_rules]:
  "keeps sound (ListAPIKeysByOwner ow)" "keeps sound (OwnerModelIDs ow)" "keeps sound (SetUserDefaultModel ow mo)"
  "keeps sound (UserDefaultModel ow)" "keeps sound (DeleteAPIKeyForOwner k ow)"
  "keeps sound (SaveProviderKey uni pu seal rnd k ow p x b mo pr ek)"
  by (intro sound_keeps keeps_rules)+

lemma aliases_sound [keeps_rules]:
  "keeps sound ListAllAliases" "keeps sound (GetVerifiedAliasByHostname uni h)" "keeps sound ListVerifiedAliases"
  "keeps sound (GetAliasByID i)" "keeps sound (SetAliasVerification i b r)" "keeps sound (ListAliasesByHostname uni h)"
  "keeps sound (DeleteAliasesByHostname uni h)" "keeps sound (DeleteContainerAlias i)" "keeps sound (CreateContainerAlias uni nid cid h)"
  "keeps sound (ListAliasesByContainer i)" "keeps sound (AttachAliases cs)" "keeps sound (countAliases i)"
  by (intro sound_keeps keeps_rules)+

lemma calls_sound [keeps_rules]:
  "keeps sound (rt_call m)" "keeps sound (dns_call f)" "keeps sound (RemoveKeys i)" "keeps sound (RefreshKeys mz i ow)"
  "keeps sound (guest rt name argv)" "keeps sound (writeGuestFile rt name p d)"
  "keeps sound (RefreshEnvironmentGuide g rto c)" "keeps sound (SetupContainer ae rt mo c cfg)"
  "keeps sound (RefreshProviderKeys ae rt mz cid name owner chosen cfg)"
  "keeps sound (BackupData ae rt name)" "keeps sound (RestoreData ae rt name data)" "keeps sound (listGuestModels rt name)"
  by (intro sound_pure keeps_rules)+

section \<open>The background tasks\<close>

lemma agent_rounds_sound [keeps_rules]:
  "keeps sound (reconcile_one ae rt mo cfg c)" "keeps sound (queryAgentDB rt name q)" "keeps sound (readConfiguredModel js rt name)"
  "keeps sound (resolveTaskModel js rt name own platform chosen)"
  unfolding reconcile_one_def queryAgentDB_def readConfiguredModel_def resolveTaskModel_def by (intro keeps_rules)+

lemma reconcile_sound [keeps_rules]: "keeps sound (ReconcileRunning ae rt mo cfg)"
proof -
  have "keeps sound (reconcile_all ae rt mo cfg cs)" for cs
    by (induction cs) (simp_all only: reconcile_all.simps keeps_ret keeps_bindE agent_rounds_sound)
  then show ?thesis unfolding ReconcileRunning_def by (intro keeps_rules)
qed

lemma delivery_sound [keeps_rules]:
  "keeps sound (fail_task c reason)" "keeps sound (DeliverInitialTask uni ae rto c cfg)" "keeps sound (DeliverInitialTaskByID uni ae rto cid cfg)"
  unfolding DeliverInitialTaskByID_def DeliverInitialTask_def or_fail_def fail_task_def by (intro keeps_rules)+

lemma monitor_sound [keeps_rules]: "keeps sound (RefreshTaskState rt c)"
  unfolding RefreshTaskState_def adoptConversation_def findConversationByTask_def pollTaskState_def resolveFailedTurn_def failedTurnDetails_def
    resumeConversation_def report_failure_def taskErrorText_def Let_def
  by (intro keeps_rules)

lemma monitor_rounds_sound [keeps_rules]: "keeps sound (RefreshTaskStates rt)"
proof -
  have "keeps sound (refresh_all rt cs)" for cs
    by (induction cs) (simp_all only: refresh_all.simps keeps_ret keeps_bindE keeps_attempt monitor_sound)
  then show ?thesis unfolding RefreshTaskStates_def by (intro keeps_rules)
qed

lemma manager_sound [keeps_rules]:
  "keeps sound (refreshGuide m c)" "keeps sound (owned c i)" "keeps sound (check m c a)" "keeps sound (Add uni m nid c h)"
  "keeps sound (Recheck m c i)" "keeps sound (Remove m c i)" "keeps sound (recheck_one g rto f a)" "keeps sound (List_aliases i)"
  unfolding Add_def Recheck_def Remove_def check_def dns_outcome_def owned_def refreshGuide_def recheck_one_def stop_routing_def List_aliases_def
  by (intro keeps_rules keeps_verify_err)+

lemma release_sound [keeps_rules]: "keeps sound (Release uni m h)"
proof -
  have "keeps sound (refresh_claims m cs seen)" for cs seen
    by (rule keeps_refresh_claims) (rule keeps_rules)+
  then show ?thesis unfolding Release_def by (intro keeps_rules)
qed

lemma sweep_sound [keeps_rules]: "keeps sound (reverifyOnce g rto f n)"
proof -
  have "keeps sound (recheck_all g rto f n as)" for as
    by (induction g rto f n as rule: recheck_all.induct) (simp_all only: recheck_all.simps keeps_ret keeps_bindE manager_sound)
  then show ?thesis unfolding reverifyOnce_def by (intro keeps_rules)
qed

section \<open>The handlers\<close>

lemma answers_sound [keeps_rules]:
  "keeps sound (respond st b)" "keeps sound (http_error msg st)" "keeps sound (see_other l c)"
  unfolding respond_def http_error_def see_other_def by (intro keeps_rules)+

lemma auth_sound [keeps_rules]:
  "keeps sound (authenticate r)" "keeps sound loginGet" "keeps sound (loginPost sv r)" "keeps sound (logoutPost r)"
  "keeps sound registerGet" "keeps sound (registerPost sv r)"
  unfolding authenticate_def loginGet_def loginPost_def logoutPost_def registerGet_def registerPost_def noUsersYet_def
  by (intro keeps_rules; simp)+

lemma middleware_sound [keeps_rules]:
  "(\<And>u. keeps sound (next u)) \<Longrightarrow> keeps sound (AuthMiddleware r next)"
  "keeps sound f \<Longrightarrow> keeps sound (AdminMiddleware u f)" "keeps sound f \<Longrightarrow> keeps sound (OwnershipMiddleware r u cid f)"
  "keeps sound k \<Longrightarrow> keeps sound (and_status cid st ip k)" "(\<And>c. keeps sound (g c)) \<Longrightarrow> keeps sound (with_vm cid g)"
  "(\<And>c. keeps sound (g c)) \<Longrightarrow> keeps sound (containerForAlias cid g)"
  unfolding AuthMiddleware_def AdminMiddleware_def OwnershipMiddleware_def and_status_def with_vm_def containerForAlias_def
  by (intro keeps_rules; assumption?)+

lemma alias_error_sound [keeps_rules]: "keeps sound (writeAliasError sv e)"
  unfolding writeAliasError_def by (cases e) (simp_all add: answers_sound)

lemma vm_answers_sound [keeps_rules]:
  "keeps sound (finish_create sv c)" "keeps sound (finish_start sv c)" "keeps sound (revive sv cid c backup)"
  unfolding finish_create_def finish_start_def revive_def Let_def by (intro keeps_rules)+

lemma vm_steps_sound [keeps_rules]:
  "keeps sound (start_created sv rtc c)" "keeps sound (boot sv c)" "keeps sound (rebuild sv c backup)"
  unfolding start_created_def boot_def rebuild_def Let_def by (intro keeps_rules)+

lemma make_sound [keeps_rules]: "keeps sound (make_container sv u nid q)" "keeps sound (doRecreate sv c)"
  unfolding make_container_def doRecreate_def Let_def by (intro keeps_rules)+

lemma vm_handlers_sound [keeps_rules]:
  "keeps sound (listContainers u)" "keeps sound (getContainer cid)" "keeps sound (createContainer sv r u)" "keeps sound (deleteContainer sv cid)"
  "keeps sound (startContainer sv cid)" "keeps sound (stopContainer sv cid)" "keeps sound (recreateContainer sv cid)"
  "keeps sound (updatePublish sv r cid)" "keeps sound (retryInitialTask sv cid)"
  "keeps sound (createSharedLink sv r u cid)" "keeps sound (listSharedLinks cid)" "keeps sound (revokeSharedLink u tok)"
  "keeps sound (listAliases cid)" "keeps sound (createAlias sv r cid)" "keeps sound (verifyAlias sv cid aid)"
  "keeps sound (deleteAlias sv cid aid)" "keeps sound (tlsCheck sv r)"
  unfolding listContainers_def getContainer_def createContainer_def deleteContainer_def startContainer_def stopContainer_def recreateContainer_def
    updatePublish_def retryInitialTask_def createSharedLink_def listSharedLinks_def revokeSharedLink_def
    listAliases_def createAlias_def verifyAlias_def deleteAlias_def tlsCheck_def Let_def
  by (intro keeps_rules)+

lemma account_handlers_sound [keeps_rules]:
  "keeps sound (refreshKeysForUser sv uid)" "keeps sound (listKeys u)" "keeps sound (listLLMModels u)" "keeps sound (listSSHKeys u)"
  "keeps sound (createSSHKey sv r u)" "keeps sound (deleteSSHKey u kid)" "keeps sound (getMe u)"
  "keeps sound adminListUsers" "keeps sound adminListContainers" "keeps sound (adminDeleteUser uid)" "keeps sound adminListAliases"
  "keeps sound (adminReleaseAlias sv h)"
proof -
  have "keeps sound (refresh_each sv mz uid chosen cs)" for mz chosen cs
    by (induction cs) (simp_all only: refresh_each.simps, (intro keeps_rules; assumption)+)
  then show "keeps sound (refreshKeysForUser sv uid)" unfolding refreshKeysForUser_def by (intro keeps_rules)
qed (unfold listKeys_def listLLMModels_def listSSHKeys_def createSSHKey_def deleteSSHKey_def getMe_def adminListUsers_def adminListContainers_def
    adminDeleteUser_def adminListAliases_def adminReleaseAlias_def Let_def, (intro keeps_rules)+)

lemma settings_sound [keeps_rules]:
  "keeps sound (createKey sv r u)" "keeps sound (deleteKey sv u kid)" "keeps sound (putDefaultModel sv r u)"
proof -
  show "keeps sound (createKey sv r u)" "keeps sound (deleteKey sv u kid)"
    unfolding createKey_def deleteKey_def after_sync_def Let_def by (intro keeps_rules)+
  have "keeps sound (case e of ErrUnknownModel x \<Rightarrow> http_error (sv_Error sv e) 400 | ErrNoRows \<Rightarrow> http_error ''not found'' 404
      | _ \<Rightarrow> http_error ''failed to save the default model'' 500)" for e
    by (cases e) (simp_all add: answers_sound)
  then show "keeps sound (putDefaultModel sv r u)" unfolding putDefaultModel_def after_sync_def by (intro keeps_rules)
qed

lemma routes_sound [keeps_rules]: "keeps sound (serve_vm sv r u cid vr)" "keeps sound (serve_admin sv ar)" "keeps sound (serve_route sv r u rt)"
proof -
  show vm: "keeps sound (serve_vm sv r u cid vr)" for cid vr by (cases vr) (simp_all only: serve_vm.simps vm_handlers_sound)
  show admin: "keeps sound (serve_admin sv ar)" for ar by (cases ar) (simp_all only: serve_admin.simps account_handlers_sound)
  show "keeps sound (serve_route sv r u rt)"
    by (cases rt) (simp_all only: serve_route.simps vm_handlers_sound account_handlers_sound settings_sound middleware_sound vm admin)
qed

lemma api_sound: "(\<And>r u. keeps sound (rest r u)) \<Longrightarrow> keeps sound (serve_api sv rest r)"
  unfolding serve_api_def by (intro keeps_rules)

lemma proxy_sound: "keeps sound (ServeHTTP_proxy uni rt domain r)"
  unfolding ServeHTTP_proxy_def serveAlias_def alias_vm_def serve_credential_def serve_share_def serve_user_def serve_found_def forward_def
    authenticate_proxy_def Let_def case_prod_unfold
  by (intro keeps_rules)

lemma start_sound: "keeps sound (bootstrapAdmin uni hash nid e)"
  unfolding bootstrapAdmin_def Let_def by (intro keeps_rules)

lemma site_sound: "(\<And>r. keeps sound (other r)) \<Longrightarrow> (\<And>r u. keeps sound (rest r u)) \<Longrightarrow> keeps sound (serve_site sv other rest r)"
  unfolding serve_site_def Let_def by (intro keeps_rules api_sound)

lemma top_sound:
  "(\<And>r. keeps sound (other r)) \<Longrightarrow> (\<And>r u. keeps sound (rest r u)) \<Longrightarrow> keeps sound (topHandler sv other rest q r)"
  unfolding topHandler_def goes_to_proxy_def KnowsHost_def Let_def by (intro keeps_rules proxy_sound site_sound)

section \<open>The transition system\<close>

text \<open>A route that is not modelled answers without touching the data.\<close>

definition no_route :: "'r http" where "no_route = http_error ''404 page not found'' 404"

inductive gw_step :: "'r server \<Rightarrow> 'r gateway \<Rightarrow> 'r gateway \<Rightarrow> bool" for sv :: "'r server" where
  request: "gw_step sv s (snd (topHandler sv (\<lambda>_. no_route) (\<lambda>_ _. no_route) q r s))"
| start: "gw_step sv s (snd (bootstrapAdmin (sv_Lower sv) hash nid e s))"
| purge: "gw_step sv s (snd (DeleteExpiredSessions s))"
| grant: "gw_step sv s (snd (GrantContainerAccess (sv_Lower sv) parse_address parse_key uuid1 uuid2 owner cid email public_key s))"
| revoke: "gw_step sv s (snd (RevokeContainerAccess owner cid uid s))"
| reconcile: "gw_step sv s (snd (ReconcileRunning (sv_Env sv) (sv_Runtime sv) (sv_Materializer sv) (sv_LLM sv) s))"
| monitor: "gw_step sv s (snd (RefreshTaskStates (sv_Runtime sv) s))"
| sweep: "gw_step sv s (snd (reverifyOnce (ae_Guide (sv_Env sv)) (Some (sv_Runtime sv)) verify budget s))"
| time: "clock s \<le> now \<Longrightarrow> gw_step sv s (s\<lparr>clock := now\<rparr>)"
| engine: "gw_step sv s (s\<lparr>faults := fs\<rparr>)"
| outside: "gw_step sv s (s\<lparr>g_rt := x, g_dns := v, g_keys := k\<rparr>)"

inductive gw_reachable :: "'r server \<Rightarrow> 'r gateway \<Rightarrow> bool" for sv :: "'r server" where
  empty: "gw_reachable sv \<lparr>t_users = [], t_sessions = [], t_containers = [], t_aliases = [], t_keys = [], t_links = [], t_settings = [],
     t_sshkeys = [], t_access = [], fk_on = fk, clock = now, faults = fs, g_rt = x, g_dns = v, g_keys = k\<rparr>"
| step: "gw_reachable sv s \<Longrightarrow> gw_step sv s t \<Longrightarrow> gw_reachable sv t"

lemma sound_outside:
  fixes s :: "'r gateway"
  shows "sound (s\<lparr>clock := now\<rparr>) = sound s" "sound (s\<lparr>faults := fs\<rparr>) = sound s" "sound (s\<lparr>g_rt := x, g_dns := v, g_keys := k\<rparr>) = sound s"
  by (simp_all add: sound_def uniq_ok_def vms_ok_def aliases_ok_def models_ok_def model_ok_def model_ids_def list_all_iff)

lemma step_sound: "gw_step sv s t \<Longrightarrow> sound s \<Longrightarrow> sound t"
proof (induction rule: gw_step.induct)
  case (request s q r)
  have "keeps sound (topHandler sv (\<lambda>_. no_route) (\<lambda>_ _. no_route) q r)"
    by (rule top_sound) (simp_all add: no_route_def answers_sound)
  then show ?case using request by (rule keepsD)
qed (auto intro: keepsD [OF start_sound] keepsD [OF accounts_sound(10)] keepsD [OF access_sound(5)]
    keepsD [OF access_sound(6)] keepsD [OF reconcile_sound] keepsD [OF monitor_rounds_sound]
    keepsD [OF sweep_sound] simp: sound_outside)

lemma reachable_is_sound: "gw_reachable sv s \<Longrightarrow> sound s"
proof (induction rule: gw_reachable.induct)
  case (empty fk now fs x v k)
  show ?case by (simp add: sound_def uniq_ok_def uq_defs vms_ok_def aliases_ok_def models_ok_def)
qed (rule step_sound)

lemma sound_facts:
  assumes "sound s"
  shows "(\<forall>a\<in>set (t_aliases s). \<forall>b\<in>set (t_aliases s). a_Verified a \<and> a_Verified b \<and> a_Hostname a = a_Hostname b \<longrightarrow> a = b)
    \<and> (\<forall>cid. length (filter (\<lambda>a. a_ContainerID a = cid) (t_aliases s)) \<le> MaxAliasesPerContainer)
    \<and> (\<forall>c\<in>set (t_containers s). ValidAppPort (c_AppPort c) \<and> length (c_InitialTask c) \<le> MaxInitialTaskLen)
    \<and> distinct (map (\<lambda>c. (c_OwnerID c, c_Name c)) (t_containers s)) \<and> distinct (map u_Email (t_users s))
    \<and> distinct (map s_Token (t_sessions s))
    \<and> (\<forall>u\<in>set (t_users s). u_DefaultModel u = [] \<or> u_DefaultModel u \<in> set (model_ids s (u_ID u)))"
proof -
  have ok: "uniq_ok s" "vms_ok s" "aliases_ok s" "models_ok s" using assms by (simp_all add: sound_def)
  have "\<forall>a\<in>set (t_aliases s). \<forall>b\<in>set (t_aliases s). a_Verified a \<and> a_Verified b \<and> a_Hostname a = a_Hostname b \<longrightarrow> a = b"
    using ok(1) by (auto simp: uniq_ok_def uq_aliases_def distinct_map inj_on_def)
  then show ?thesis
    using ok by (simp add: uniq_ok_def uq_defs vms_ok_def vm_row_ok_def aliases_ok_def models_ok_def model_ok_def list_all_iff)
qed

text \<open>Whatever sequence of requests, background rounds, engine failures and changes of the outside world led to a state,
  in it no hostname is routed to two VMs, no VM has more than the allowed number of custom domains, every VM publishes
  a valid port that is not the agent's, every owner's VM names differ, e-mail addresses and session tokens are unique,
  and the default model an account chose is offered by one of its own connections.\<close>

theorem reachable_sound:
  assumes "gw_reachable sv s"
  shows "(\<forall>a\<in>set (t_aliases s). \<forall>b\<in>set (t_aliases s). a_Verified a \<and> a_Verified b \<and> a_Hostname a = a_Hostname b \<longrightarrow> a = b)
    \<and> (\<forall>cid. length (filter (\<lambda>a. a_ContainerID a = cid) (t_aliases s)) \<le> MaxAliasesPerContainer)
    \<and> (\<forall>c\<in>set (t_containers s). ValidAppPort (c_AppPort c) \<and> length (c_InitialTask c) \<le> MaxInitialTaskLen)
    \<and> distinct (map (\<lambda>c. (c_OwnerID c, c_Name c)) (t_containers s)) \<and> distinct (map u_Email (t_users s))
    \<and> distinct (map s_Token (t_sessions s))
    \<and> (\<forall>u\<in>set (t_users s). u_DefaultModel u = [] \<or> u_DefaultModel u \<in> set (model_ids s (u_ID u)))"
  by (rule sound_facts [OF reachable_is_sound [OF assms]])

text \<open>The operator's account on an empty database.\<close>

theorem reachable_sound_witness:
  "\<exists>t. gw_reachable demo_server t \<and> map u_Email (t_users t) = [''ann''] \<and> distinct (map u_Email (t_users t))"
proof -
  let ?s = "demo_gw\<lparr>t_users := [], t_sessions := [], t_containers := [], t_aliases := []\<rparr>"
  have e: "ToLower id (TrimSpace ''Ann'') = ''ann''" by code_simp
  have s: "gw_reachable demo_server ?s" unfolding demo_gw_def by (simp add: gw_reachable.empty)
  have "gw_reachable demo_server (snd (bootstrapAdmin (sv_Lower demo_server) (Some ''H'') ''n'' ''Ann'' ?s))"
    by (rule gw_reachable.step [OF s gw_step.start])
  moreover have "map u_Email (t_users (snd (bootstrapAdmin (sv_Lower demo_server) (Some ''H'') ''n'' ''Ann'' ?s))) = [''ann'']"
    by (simp add: bootstrapAdmin_def e Let_def demo_server_def GetUserByEmail_def CreateUser_def run_defs demo_gw_def uq_users_def)
  ultimately obtain t where t: "gw_reachable demo_server t" "map u_Email (t_users t) = [''ann'']" by metis
  then have "distinct (map u_Email (t_users t))" using reachable_sound by metis
  with t show ?thesis by metis
qed

end
