(* ===== verification/Ssh_Steps.thy ===== *)
theory Ssh_Steps
  imports Ssh_Gateway Gateway_Steps
begin

text \<open>
  The SSH gateway as part of the transition system: \<open>world_step\<close> is a step of \<open>Gateway_Steps\<close>, or a line that an SSH
  session sends, or the authentication of one, over the world that also has the connections to external services and the
  host of the self-update.  The invariant \<open>sound\<close> of the stored data holds in every reachable world.
\<close>

section \<open>The commands keep the invariant\<close>

lemma more_sound [keeps_rules]:
  "keeps sound (RenameContainer i n)" "keeps sound (UpdateContainerNesting i b)" "keeps sound (ApplyNesting rt vm)"
  "keeps sound (SetNestingAllowed b)" "keeps sound (ResolveAccessibleContainer r u)" "keeps sound (GetUserBySSHFingerprint fp)"
  by (intro sound_keeps keeps_rules)+

lemma agent_sound [keeps_rules]: "keeps sound (CheckUpdate ae rt n)" "keeps sound (Update ae rt n)"
  by (intro sound_pure keeps_rules)+

lemma found_sound [keeps_rules]:
  "keeps sound (findContainer c n)" "keeps sound (findAccessibleContainer c n)" "keeps sound (requireRunning vm)"
  "keeps sound (attach_all vm)" "keeps sound (attach_domains vm)" "keeps sound (checkVMName n)" "keeps sound (confirmDestructive c wh as)"
  "keeps sound (note_status vm st ip)"
  unfolding findContainer_def findAccessibleContainer_def requireRunning_def attach_all_def attach_domains_def checkVMName_def
    confirmDestructive_def note_status_def case_prod_unfold
  by (intro keeps_rules)+

lemma status_sound [keeps_rules]:
  "keeps sound (fail_status vm st ip e)" "keeps sound m \<Longrightarrow> keeps sound (or_status vm st ip err m)"
  unfolding fail_status_def or_status_def by (intro keeps_rules; assumption)+

lemma start_steps_sound [keeps_rules]:
  "keeps sound (set_up sv vm)" "keeps sound (stop_if_running sv wh vm)" "keeps sound (attach sv uid pty vm cm)"
  unfolding set_up_def stop_if_running_def attach_def Let_def by (intro keeps_rules)+

lemma made_sound [keeps_rules]: "keeps sound (made_running sv vm x as)"
  unfolding made_running_def by (intro keeps_rules)

lemma boot_sound [keeps_rules]: "keeps sound (start_new sv n vm)" "keeps sound (boot_vm sv er x vm)" "keeps sound (rebuild_vm sv backup vm)"
  unfolding start_new_def boot_vm_def rebuild_vm_def Let_def case_prod_unfold by (intro keeps_rules)+

lemma recreate_sound [keeps_rules]: "keeps sound (recreate_vm sv c vm)"
  unfolding recreate_vm_def Let_def case_prod_unfold by (intro keeps_rules)

lemma vm_commands_sound:
  "keeps sound (cmdLs sv c)" "keeps sound (cmdStat sv c)" "keeps sound (cmdNew sv c)" "keeps sound (cmdRm sv c)"
  "keeps sound (cmdStart sv c)" "keeps sound (cmdStop sv c)" "keeps sound (cmdRestart sv c)" "keeps sound (cmdRename sv c)"
  "keeps sound (cmdRecreate sv c)" "keeps sound (cmdSSH sv c)"
  unfolding cmdLs_def cmdStat_def cmdNew_def cmdRm_def cmdStart_def cmdStop_def cmdRestart_def cmdRename_def cmdRecreate_def cmdSSH_def Let_def
  by (intro keeps_rules)+

lemma config_parts_sound [keeps_rules]:
  "keeps sound (published sv c x vm)" "keeps sound (nested sv c vm)" "keeps sound (agentBuild sv c)" "keeps sound (link_expiry sv c)"
  "keeps sound no_such_share" "keeps sound (domainTarget sv c)" "keeps sound (claim_said vm x y a)"
  "keeps sound m \<Longrightarrow> keeps sound (manager_do m)" "keeps sound m \<Longrightarrow> keeps sound (domainFailure m)"
  unfolding published_def nested_def agentBuild_def link_expiry_def no_such_share_def domainTarget_def claim_said_def manager_do_def
    domainFailure_def Let_def
  by (intro keeps_rules; assumption?)+

lemma alias_found_sound [keeps_rules]: "keeps sound (domainAlias sv vm r)"
  unfolding domainAlias_def Let_def by (intro keeps_rules)

lemma config_commands_sound:
  "keeps sound (cmdPublish sv c)" "keeps sound (cmdNesting sv c)" "keeps sound (cmdTask sv c)" "keeps sound (cmdTaskRetry sv c)"
  "keeps sound (cmdAgent sv c)" "keeps sound (cmdAgentUpdate sv c)" "keeps sound (cmdShareCreate sv c)" "keeps sound (cmdShareList sv c)"
  "keeps sound (cmdShareRevoke sv c)" "keeps sound (cmdURL sv c)" "keeps sound (cmdDomainList sv c)" "keeps sound (cmdDomainAdd sv c)"
  "keeps sound (cmdDomainVerify sv c)" "keeps sound (cmdDomainRm sv c)"
  unfolding cmdPublish_def cmdNesting_def cmdTask_def cmdTaskRetry_def cmdAgent_def cmdAgentUpdate_def cmdShareCreate_def cmdShareList_def
    cmdShareRevoke_def cmdURL_def cmdDomainList_def cmdDomainAdd_def cmdDomainVerify_def cmdDomainRm_def Let_def case_prod_unfold
  by (intro keeps_rules)+

lemma account_parts_sound [keeps_rules]:
  "keeps sound (reportLLMSync sv c)" "keeps sound (reachableModels c)" "keeps sound (helpForCommand c n x)" "keeps sound vmsPerOwner"
  "keeps sound (adminFindUser r)" "keeps sound ownerEmails" "keeps sound (currentUser who)"
  unfolding reportLLMSync_def reachableModels_def helpForCommand_def vmsPerOwner_def adminFindUser_def ownerEmails_def currentUser_def Let_def
  by (intro keeps_rules)+

lemma provider_gone_sound [keeps_rules]: "keeps sound (remove_provider sv uid p ks)"
proof (induction ks)
  case (Cons k ks)
  then show ?case unfolding remove_provider.simps by (intro keeps_rules; assumption)
qed (unfold remove_provider.simps, rule keeps_rules)

lemma account_commands_sound:
  "keeps sound (cmdWhoami c)" "keeps sound (cmdSSHKeyList c)" "keeps sound (cmdSSHKeyAdd sv c)" "keeps sound (cmdSSHKeyRemove c)"
  "keeps sound (cmdLLMList c)" "keeps sound (cmdLLMAdd sv c)" "keeps sound (cmdLLMRemove sv c)" "keeps sound (cmdLLMModels c)"
  "keeps sound (cmdPassword sv c)" "keeps sound (cmdHelp c)" "keeps sound cmdAdminUsers" "keeps sound (cmdAdminRemoveUser c)"
  "keeps sound (cmdAdminVMs sv)" "keeps sound (cmdAdminNesting sv c)" "keeps sound cmdAdminDomains" "keeps sound (cmdAdminRelease sv c)"
  unfolding cmdWhoami_def cmdSSHKeyList_def cmdSSHKeyAdd_def cmdSSHKeyRemove_def cmdLLMList_def cmdLLMAdd_def cmdLLMRemove_def cmdLLMModels_def
    cmdPassword_def cmdHelp_def cmdAdminUsers_def cmdAdminRemoveUser_def cmdAdminVMs_def cmdAdminNesting_def cmdAdminDomains_def
    cmdAdminRelease_def Let_def case_prod_unfold
  by (intro keeps_rules)+

lemma default_sound: "keeps sound (cmdLLMDefault sv c)"
proof -
  have "keeps sound (case e of ErrUnknownModel _ \<Rightarrow> bindE (reachableModels c) (\<lambda>models. raise (Unknown_choice e models))
      | _ \<Rightarrow> raise (Wrapped ''save the default model'' e))" for e
    by (cases e) (simp_all add: keeps_rules)
  then show ?thesis unfolding cmdLLMDefault_def Let_def by (intro keeps_rules)
qed

section \<open>From the gateway to the world\<close>

text \<open>The primary key of the connections.\<close>

definition conns_ok :: "('r, 'y) hub_scheme \<Rightarrow> bool" where
  "conns_ok h \<longleftrightarrow> distinct (map (\<lambda>g. (ig_Owner g, ig_Provider g)) (t_integrations h))"

definition hub_ok :: "('r, 'y) hub_scheme \<Rightarrow> bool" where
  "hub_ok h \<longleftrightarrow> sound h \<and> conns_ok h"

definition world_ok :: "'r ssh_world \<Rightarrow> bool" where
  "world_ok w \<longleftrightarrow> hub_ok (sw_Hub w)"

lemma sound_tables:
  assumes "t_users t = t_users s" "t_sessions t = t_sessions s" "t_containers t = t_containers s" "t_aliases t = t_aliases s"
    "t_keys t = t_keys s" "t_links t = t_links s" "t_settings t = t_settings s" "t_sshkeys t = t_sshkeys s" "t_access t = t_access s"
  shows "sound t = sound s"
proof -
  have "model_ok t = model_ok s" by (simp add: fun_eq_iff model_ok_def model_ids_def assms)
  then show ?thesis by (simp add: sound_def uniq_ok_def uq_defs vms_ok_def aliases_ok_def models_ok_def assms)
qed

lemma sound_hub: "sound (gateway.truncate h) = sound h" "sound (gateway.extend g x) = sound g"
  by (rule sound_tables; simp add: gateway.defs)+

lemma conns_cascade: "conns_ok h \<Longrightarrow> conns_ok (gateway.extend g (hub.fields (cascade_connections x y (t_integrations h))))"
  by (simp add: conns_ok_def cascade_connections_def gateway.defs hub.defs distinct_map_filter)

lemma on_gateway_ok [keeps_rules]:
  assumes "keeps sound m"
  shows "keeps world_ok (on_gateway m)"
proof (rule keepsI)
  fix w :: "'a ssh_world" assume w: "world_ok w"
  obtain r g where m: "m (gateway.truncate (sw_Hub w)) = (r, g)" by fastforce
  have "sound g" using keepsD [OF assms, of "gateway.truncate (sw_Hub w)"] w by (simp add: m world_ok_def hub_ok_def sound_hub)
  then show "world_ok (snd (on_gateway m w))"
    using w by (simp add: on_gateway_def Let_def m world_ok_def hub_ok_def sound_hub conns_cascade)
qed

lemma only_sound:
  fixes s t :: "('r, 'y) hub_scheme"
  assumes "only_connection uid p s t"
  shows "sound t = sound s"
proof -
  have "sound (s\<lparr>t_integrations := x, faults := fs\<rparr>) = sound s" for x fs by (rule sound_tables) simp_all
  moreover obtain fs where "t = s\<lparr>t_integrations := t_integrations t, faults := fs\<rparr>"
    using assms by (auto simp: only_connection_def elim: same_dataE)
  ultimately show ?thesis by metis
qed

lemma keeps_db_do [keeps_rules]: "keeps I m \<Longrightarrow> keeps I (db_do m)"
  unfolding db_do_def by (intro keeps_rules)

interpretation conns: store_inv conns_ok
  by unfold_locales (simp add: conns_ok_def)

lemma conns_upsert:
  assumes "conns_ok s" and "sql_upsert_integration g s = Inr (a, t)"
  shows "conns_ok t"
proof -
  let ?k = "\<lambda>g. (ig_Owner g, ig_Provider g)" and ?mine = "int_key (ig_Owner g) (ig_Provider g)"
  let ?h = "\<lambda>x. x\<lparr>ig_Config := ig_Config g, ig_Credentials := ig_Credentials g, ig_Version := 1, ig_UpdatedAt := ig_UpdatedAt g\<rparr>"
  have m: "map ?k (map (\<lambda>x. if ?mine x then ?h x else x) xs) = map ?k xs" for xs by (induction xs) simp_all
  show ?thesis
  proof (cases "list_ex ?mine (t_integrations s)")
    case True
    then have "t_integrations t = map (\<lambda>x. if ?mine x then ?h x else x) (t_integrations s)"
      using assms(2) by (auto simp: sql_upsert_integration_def Let_def)
    then show ?thesis using assms(1) by (simp only: conns_ok_def m)
  next
    case False
    then have "t_integrations t = t_integrations s @ [g]"
      using assms(2) by (auto simp: sql_upsert_integration_def Let_def split: if_splits)
    then show ?thesis using False assms(1) by (auto simp: conns_ok_def int_key_def list_ex_iff)
  qed
qed

lemma keeps_hub_ok: "keeps sound m \<Longrightarrow> keeps conns_ok m \<Longrightarrow> keeps hub_ok m"
  by (simp add: keeps_def hub_ok_def)

lemma keeps_hub:
  "keeps hub_ok (Save cd iv rnd owner p i)" "keeps hub_ok (Delete_connection iv owner p)" "keeps hub_ok (List_connections cd iv owner)"
proof (rule_tac [!] keeps_hub_ok)
  show "keeps sound (Save cd iv rnd owner p i)" "keeps sound (Delete_connection iv owner p)"
    by (rule keepsI, simp add: only_sound [OF Save_only] only_sound [OF Delete_only])+
  show "keeps sound (List_connections cd iv owner)" unfolding List_connections_def by (intro sound_pure keeps_rules)
  show "keeps conns_ok (List_connections cd iv owner)" unfolding List_connections_def by (intro keeps_rules conns.keeps_query)
  show "keeps conns_ok (Delete_connection iv owner p)"
    unfolding Delete_connection_def by (intro keeps_rules conns.keeps_exec) (auto simp: conns_ok_def distinct_map_filter)
  have "keeps conns_ok (exec (sql_upsert_integration g))" for g :: integration
    by (rule conns.keeps_exec) (rule conns_upsert)
  then show "keeps conns_ok (Save cd iv rnd owner p i)"
    unfolding Save_def Let_def by (auto intro!: keeps_rules split: option.split)
qed

lemma handler_ok: "keeps hub_ok (int_handler cd iv decode rnd owner p verb x)"
  unfolding int_handler_def Let_def by (intro keeps_rules keeps_hub)

lemma on_hub_ok: "keeps hub_ok m \<Longrightarrow> keeps world_ok (on_hub m)"
  by (auto simp: keeps_def world_ok_def on_hub_def split: prod.split)

lemma on_host_ok [keeps_rules]: "keeps world_ok (on_host f)"
  by (auto simp: keeps_def world_ok_def on_host_def split: prod.split)

lemma checker_ok: "world_ok w \<Longrightarrow> world_ok (w\<lparr>sw_Checker := k\<rparr>)"
  by (simp add: world_ok_def)

lemma updates_world_ok [keeps_rules]:
  fixes sv :: "'a ssh_server"
  shows "keeps world_ok (cmdAdminUpdateStatus x)" "keeps world_ok (cmdAdminUpdateCheck sv c x)" "keeps world_ok (cmdAdminUpdateStart c x)"
proof -
  have st: "keeps world_ok (adminUpdateState x)" and an: "keeps world_ok (update_answer x seen reason rs)" for seen reason rs
    unfolding adminUpdateState_def update_answer_def case_prod_unfold by (intro keeps_rules)+
  show "keeps world_ok (cmdAdminUpdateStatus x)" "keeps world_ok (cmdAdminUpdateStart c x)"
    unfolding cmdAdminUpdateStatus_def cmdAdminUpdateStart_def by (intro keeps_rules st an)+
  have rest: "keeps world_ok (bindE (on_host (Available (sx_Runner x))) (\<lambda>reason.
      bindE (if sc_JSON c then adminUpdateState x else ret (plain_state StateIdle)) (update_answer x (Some rs) reason)))" for rs
    by (intro keeps_rules st an)
  show "keeps world_ok (cmdAdminUpdateCheck sv c x)"
  proof (rule keepsI)
    fix w :: "'a ssh_world" assume w: "world_ok w"
    obtain r k where "Status (sx_Codec x) (sx_Config x) (sx_Local x) (ss_Net sv) (hasFlag c ''force'') (clock (sw_Hub w)) (in_CheckDone (sc_In c))
        (sw_Checker w) = (r, k)" by fastforce
    then show "world_ok (snd (cmdAdminUpdateCheck sv c x w))"
      using keepsD [OF rest checker_ok [OF w]] checker_ok [OF w] by (cases r) (auto simp: cmdAdminUpdateCheck_def)
  qed
qed

lemma integration_commands_ok [keeps_rules]:
  "keeps world_ok (cmdIntegrationList sv c)" "keeps world_ok (cmdIntegrationProviders sv)" "keeps world_ok (cmdIntegrationAdd sv c)"
  "keeps world_ok (cmdIntegrationRemove sv c)" "keeps world_ok (cmdAdminUpdate sv c)"
  unfolding cmdIntegrationList_def cmdIntegrationProviders_def cmdIntegrationAdd_def cmdIntegrationRemove_def cmdAdminUpdate_def Let_def
  by (intro keeps_rules on_hub_ok keeps_hub)+

section \<open>Sessions\<close>

lemma run_ok [keeps_rules]: "keeps world_ok (run_command sv x c)"
  by (cases x) (simp_all only: run_command.simps vm_commands_sound config_commands_sound account_commands_sound default_sound on_gateway_ok
      integration_commands_ok keeps_raise)

lemma exec_ok [keeps_rules]: "keeps world_ok (ssh_exec sv se interactive line i)"
  unfolding ssh_exec_def by (intro keeps_rules)

lemma one_shot_world: "snd (runOneShot sv se line i w) = snd (ssh_exec sv se False line i w)"
  by (cases "ssh_exec sv se False line i w"; cases "fst (ssh_exec sv se False line i w)") (simp_all add: runOneShot_def)

lemma connect_world: "snd (connectToVM sv se u vm w) = w \<or> (\<exists>cm. snd (connectToVM sv se u vm w) = snd (on_gateway (attach sv (u_ID u) (se_Pty se) vm cm) w))"
proof -
  let ?cm = "if TrimSpace (se_Raw se) \<noteq> [] then Some [''/bin/bash'', ''-lc'', TrimSpace (se_Raw se)] else None"
  obtain r w' where "on_gateway (attach sv (u_ID u) (se_Pty se) vm ?cm) w = (r, w')" by fastforce
  then have "snd (connectToVM sv se u vm w) = w \<or> snd (connectToVM sv se u vm w) = snd (on_gateway (attach sv (u_ID u) (se_Pty se) vm ?cm) w)"
    by (cases r) (simp_all add: connectToVM_def Let_def)
  then show ?thesis by blast
qed

text \<open>A session keeps what its commands, the lookup of its VM and the attached shell keep.\<close>

lemma menu_keeps: "(\<And>line i. keeps I (ssh_exec sv se True line i)) \<Longrightarrow> I w \<Longrightarrow> I (snd (runMenu sv se lines w))"
proof (induction lines arbitrary: w)
  case (Cons l rest)
  obtain line i where l: "l = (line, i)" by (cases l)
  obtain r w' where e: "ssh_exec sv se True line i w = (r, w')" by fastforce
  have "I w'" using keepsD [OF Cons.prems(1) Cons.prems(2), of line i] by (simp add: e)
  then have "I (snd (runMenu sv se rest w'))" using Cons by blast
  with Cons \<open>I w'\<close> show ?case by (simp add: l e split: prod.split) (metis snd_conv)
qed simp

lemma session_keeps:
  assumes exec: "\<And>interactive line i. keeps I (ssh_exec sv se interactive line i)"
    and vm: "\<And>u n. keeps I (on_gateway (accessibleVM u n))"
    and at: "\<And>(u :: user) vm cm. keeps I (on_gateway (attach sv (u_ID u) (se_Pty se) vm cm))"
    and w: "I w"
  shows "I (snd (handleSession sv se i lines w))"
proof (cases "se_User se")
  case (Some u)
  have c: "I (snd (connectToVM sv se u vm w'))" if "I w'" for vm w'
    using connect_world [of sv se u vm w'] keepsD [OF at that] that by metis
  obtain r w' where x: "(if \<not> EqualFold (se_Login se) menuLogin then on_gateway (accessibleVM u (se_Login se)) w else (Inr None, w)) = (r, w')"
    by fastforce
  have "I w'" using x keepsD [OF vm w, of u "se_Login se"] w by (auto split: if_splits)
  then show ?thesis
    by (simp add: handleSession_def Some x Let_def c one_shot_world keepsD [OF exec] menu_keeps [OF exec] split: sum.split option.split)
qed (simp add: handleSession_def w)

lemma session_ok: "world_ok w \<Longrightarrow> world_ok (snd (handleSession sv se i lines w))"
proof (rule session_keeps)
  show "keeps world_ok (on_gateway (accessibleVM u n))" for u n unfolding accessibleVM_def by (intro keeps_rules)
  show "keeps world_ok (on_gateway (attach sv (u_ID u) (se_Pty se) vm cm))" for u vm cm by (intro keeps_rules)
qed (rule exec_ok)

section \<open>The transition system\<close>

text \<open>One thing that happens to the gateway with its SSH port, its connections and the host of its update: \<open>gw_step\<close>, a key
  offered to the SSH server, a session, a request for the account's connections, or a change of the host.  The hub's
  connections follow the accounts.\<close>

definition with_gateway :: "'r gateway \<Rightarrow> 'r ssh_world \<Rightarrow> 'r ssh_world" where
  "with_gateway g w = snd (on_gateway (\<lambda>_. (Inr () :: dberr + unit, g)) w)"

inductive world_step :: "'r ssh_server \<Rightarrow> 'r ssh_world \<Rightarrow> 'r ssh_world \<Rightarrow> bool" for sv :: "'r ssh_server" where
  gateway: "gw_step (ss_Api sv) (gateway.truncate (sw_Hub w)) g \<Longrightarrow> world_step sv w (with_gateway g w)"
| key: "world_step sv w (snd (on_gateway (PublicKeyHandler fp) w))"
| session: "world_step sv w (snd (handleSession sv se i lines w))"
| connections: "world_step sv w (snd (on_hub (int_handler (ss_Codec sv) (ss_Integrations sv) (ss_ReadInput sv) rnd owner p verb x) w))"
| host: "world_step sv w (w\<lparr>sw_Host := h\<rparr>)"

inductive world_reachable :: "'r ssh_server \<Rightarrow> 'r ssh_world \<Rightarrow> bool" for sv :: "'r ssh_server" where
  empty: "gw_reachable (ss_Api sv) (gateway.truncate (sw_Hub w)) \<Longrightarrow> t_integrations (sw_Hub w) = [] \<Longrightarrow> world_reachable sv w"
| step: "world_reachable sv w \<Longrightarrow> world_step sv w v \<Longrightarrow> world_reachable sv v"

inductive_cases world_stepE: "world_step sv w v"

lemma with_gateway_ok: "sound g \<Longrightarrow> world_ok w \<Longrightarrow> world_ok (with_gateway g w)"
  by (simp add: with_gateway_def on_gateway_def Let_def world_ok_def hub_ok_def sound_hub conns_cascade)

lemma world_step_ok: "world_step sv w v \<Longrightarrow> world_ok w \<Longrightarrow> world_ok v"
proof (induction rule: world_step.induct)
  case (gateway w g)
  have "sound g" using step_sound [OF gateway(1)] gateway(2) by (simp add: world_ok_def hub_ok_def sound_hub)
  then show ?case using gateway(2) by (rule with_gateway_ok)
next
  case (key w fp)
  have "keeps world_ok (on_gateway (PublicKeyHandler fp))" unfolding PublicKeyHandler_def by (intro keeps_rules)
  then show ?case using key by (rule keepsD)
next
  case (connections w rnd owner p verb x)
  then show ?case by (rule keepsD [OF on_hub_ok [OF handler_ok]])
next
  case (session w se i lines)
  then show ?case by (rule session_ok)
qed (simp add: world_ok_def)

lemma world_is_ok: "world_reachable sv w \<Longrightarrow> world_ok w"
proof (induction rule: world_reachable.induct)
  case (empty w)
  then show ?case using reachable_is_sound [OF empty(1)] by (simp add: world_ok_def hub_ok_def conns_ok_def sound_hub)
qed (rule world_step_ok)

text \<open>Whatever sequence of web requests, SSH sessions with any lines in them, offered keys, requests for connections, background
  rounds, engine failures and changes of the outside world led to a state of the gateway, in it no hostname is routed to
  two VMs, no VM has more than the allowed number of custom domains, every VM publishes a valid port that is not the
  agent's, every owner's VM names differ, e-mail addresses and session tokens are unique, the default model an account
  chose is offered by one of its own connections, and an account has one connection per service.\<close>

theorem world_sound:
  assumes "world_reachable sv w" and "s = sw_Hub w"
  shows "(\<forall>a\<in>set (t_aliases s). \<forall>b\<in>set (t_aliases s). a_Verified a \<and> a_Verified b \<and> a_Hostname a = a_Hostname b \<longrightarrow> a = b)
    \<and> (\<forall>cid. length (filter (\<lambda>a. a_ContainerID a = cid) (t_aliases s)) \<le> MaxAliasesPerContainer)
    \<and> (\<forall>c\<in>set (t_containers s). ValidAppPort (c_AppPort c) \<and> length (c_InitialTask c) \<le> MaxInitialTaskLen)
    \<and> distinct (map (\<lambda>c. (c_OwnerID c, c_Name c)) (t_containers s)) \<and> distinct (map u_Email (t_users s))
    \<and> distinct (map s_Token (t_sessions s))
    \<and> (\<forall>u\<in>set (t_users s). u_DefaultModel u = [] \<or> u_DefaultModel u \<in> set (model_ids s (u_ID u)))
    \<and> distinct (map (\<lambda>g. (ig_Owner g, ig_Provider g)) (t_integrations s))"
proof -
  have "sound s" "conns_ok s" using world_is_ok [OF assms(1)] assms(2) by (simp_all add: world_ok_def hub_ok_def)
  then show ?thesis using sound_facts [of s] by (simp add: conns_ok_def)
qed

section \<open>An instance\<close>

definition demo_ssh :: "unit ssh_server" where
  "demo_ssh = \<lparr>ss_Api = demo_server, ss_Aliases = None, ss_Updater = None, ss_Integrations = demo_integrations, ss_Codec = demo_codec,
     ss_ReadInput = (\<lambda>_. None), ss_Duration = (\<lambda>_. None), ss_Minute = (\<lambda>_. []), ss_Net = (\<lambda>_. Unbuilt []), ss_Interactive = None\<rparr>"

definition demo_world :: "unit hub \<Rightarrow> unit ssh_world" where
  "demo_world h = \<lparr>sw_Hub = h, sw_Host = demo_host, sw_Checker = NewChecker\<rparr>"

text \<open>The operator's account on an empty database, and a session without an account.\<close>

lemma demo_reached: "\<exists>w. world_reachable demo_ssh w \<and> map u_Email (t_users (sw_Hub w)) = [''ann'']"
proof -
  let ?h = "demo_hub\<lparr>t_users := [], t_containers := []\<rparr>" and ?se = "\<lparr>se_User = None, se_Login = ''svkexe'', se_Raw = [], se_Pty = None, se_Key = []\<rparr>"
  let ?g = "gateway.truncate ?h" and ?boot = "bootstrapAdmin (sv_Lower demo_server) (Some ''H'') ''n'' ''Ann''"
  let ?w = "with_gateway (snd (?boot ?g)) (demo_world ?h)"
  have e: "ToLower id (TrimSpace ''Ann'') = ''ann''" by code_simp
  have "gw_reachable demo_server ?g" by (simp add: demo_hub_def gateway.defs gw_reachable.empty)
  then have 0: "world_reachable demo_ssh (demo_world ?h)"
    by (intro world_reachable.empty) (simp_all add: demo_ssh_def demo_world_def demo_hub_def)
  have "world_step demo_ssh (demo_world ?h) ?w"
    by (rule world_step.gateway) (simp add: demo_ssh_def demo_world_def gw_step.start)
  with 0 have 1: "world_reachable demo_ssh ?w" by (rule world_reachable.step)
  then have 2: "world_reachable demo_ssh (snd (handleSession demo_ssh ?se i [] ?w))" for i
    by (rule world_reachable.step) (rule world_step.session)
  have "map u_Email (t_users (sw_Hub ?w)) = [''ann'']"
    by (simp add: with_gateway_def on_gateway_def Let_def demo_world_def gateway.defs bootstrapAdmin_def e demo_server_def
        GetUserByEmail_def CreateUser_def run_defs demo_hub_def uq_users_def)
  then have "map u_Email (t_users (sw_Hub (snd (handleSession demo_ssh ?se i [] ?w)))) = [''ann'']" for i
    by (simp add: handleSession_def)
  with 2 show ?thesis by metis
qed

theorem world_sound_witness:
  "\<exists>w. world_reachable demo_ssh w \<and> map u_Email (t_users (sw_Hub w)) = [''ann''] \<and> distinct (map u_Email (t_users (sw_Hub w)))"
proof -
  obtain w where w: "world_reachable demo_ssh w" "map u_Email (t_users (sw_Hub w)) = [''ann'']" using demo_reached by (elim exE conjE)
  then have "distinct (map u_Email (t_users (sw_Hub w)))" using world_sound [of demo_ssh w "sw_Hub w"] by metis
  with w show ?thesis by metis
qed

end
