(* ===== verification/Tenants.thy ===== *)
theory Tenants
  imports Gateway_Steps
begin

text \<open>
  What one account's requests leave of the others' data.  \<open>others_kept\<close> compares two stores from the side of everybody
  but one account; \<open>tenant\<close> is that comparison as an invariant, together with the unique indexes it needs.  Each
  operation keeps it when it is given the account's own identifiers, and so do the programs made of them.

  An unverified claim of another account may go when the account has the same hostname verified: verification is
  exclusive.  Nothing else of another account can change.
\<close>

section \<open>The rows of the others\<close>

definition theirs :: "string \<Rightarrow> 'z store_scheme \<Rightarrow> string set" where
  "theirs uid s = c_ID ` {c \<in> set (t_containers s). c_OwnerID c \<noteq> uid}"

definition others_kept :: "string \<Rightarrow> 'z store_scheme \<Rightarrow> 'y store_scheme \<Rightarrow> bool" where
  "others_kept uid s0 s \<longleftrightarrow>
     filter (\<lambda>u. u_ID u \<noteq> uid) (t_users s) = filter (\<lambda>u. u_ID u \<noteq> uid) (t_users s0)
   \<and> map u_ID (t_users s) = map u_ID (t_users s0) \<and> map u_Role (t_users s) = map u_Role (t_users s0)
   \<and> t_sessions s = t_sessions s0 \<and> t_settings s = t_settings s0
   \<and> filter (\<lambda>c. c_OwnerID c \<noteq> uid) (t_containers s) = filter (\<lambda>c. c_OwnerID c \<noteq> uid) (t_containers s0)
   \<and> filter (\<lambda>k. ak_OwnerID k \<noteq> uid) (t_keys s) = filter (\<lambda>k. ak_OwnerID k \<noteq> uid) (t_keys s0)
   \<and> filter (\<lambda>k. k_UserID k \<noteq> uid) (t_sshkeys s) = filter (\<lambda>k. k_UserID k \<noteq> uid) (t_sshkeys s0)
   \<and> filter (\<lambda>l. l_ContainerID l \<in> theirs uid s0) (t_links s) = filter (\<lambda>l. l_ContainerID l \<in> theirs uid s0) (t_links s0)
   \<and> filter (\<lambda>p. fst p \<in> theirs uid s0) (t_access s) = filter (\<lambda>p. fst p \<in> theirs uid s0) (t_access s0)
   \<and> filter (\<lambda>a. a_ContainerID a \<in> theirs uid s0 \<and> a_Verified a) (t_aliases s)
      = filter (\<lambda>a. a_ContainerID a \<in> theirs uid s0 \<and> a_Verified a) (t_aliases s0)
   \<and> (\<forall>a\<in>set (t_aliases s). a_ContainerID a \<in> theirs uid s0 \<longrightarrow> a \<in> set (t_aliases s0))"

lemma others_kept_refl: "others_kept uid s s"
  by (simp add: others_kept_def)

text \<open>No claim on another's VM has an identifier in \<open>X\<close>.\<close>

definition tenant :: "string \<Rightarrow> 'y store_scheme \<Rightarrow> string set \<Rightarrow> 'z store_scheme \<Rightarrow> bool" where
  "tenant uid s0 X s \<longleftrightarrow> uniq_ok s \<and> others_kept uid s0 s \<and> (\<forall>a\<in>set (t_aliases s). a_ContainerID a \<in> theirs uid s0 \<longrightarrow> a_ID a \<notin> X)"

lemma tenant_tables:
  assumes "t_users t = t_users s" "t_sessions t = t_sessions s" "t_containers t = t_containers s" "t_aliases t = t_aliases s"
    "t_keys t = t_keys s" "t_links t = t_links s" "t_settings t = t_settings s" "t_sshkeys t = t_sshkeys s" "t_access t = t_access s"
  shows "tenant uid s0 X t = tenant uid s0 X s"
  by (simp only: tenant_def others_kept_def uniq_ok_def assms)

interpretation tenant: store_inv "tenant uid s0 X"
  by unfold_locales (simp add: tenant_def others_kept_def uniq_ok_def)

lemmas tenant_rules [keeps_rules] = tenant.keeps_query tenant.keeps_in_tx

lemma tenant_mono: "tenant uid s0 X s \<Longrightarrow> Y \<subseteq> X \<Longrightarrow> tenant uid s0 Y s"
  by (auto simp: tenant_def)

lemma tenant_uniq: "tenant uid s0 X s \<Longrightarrow> uniq_ok s"
  by (simp add: tenant_def)

text \<open>A VM of another account is the one it was.\<close>

lemma foreign_vm:
  assumes "tenant uid s0 X s"
  shows "c \<in> set (t_containers s) \<and> c_OwnerID c \<noteq> uid \<longleftrightarrow> c \<in> set (t_containers s0) \<and> c_OwnerID c \<noteq> uid"
proof -
  have "c \<in> set (filter (\<lambda>c. c_OwnerID c \<noteq> uid) (t_containers s)) \<longleftrightarrow> c \<in> set (filter (\<lambda>c. c_OwnerID c \<noteq> uid) (t_containers s0))"
    using assms by (simp add: tenant_def others_kept_def del: set_filter)
  then show ?thesis by auto
qed

lemma theirs_now: "tenant uid s0 X s \<Longrightarrow> theirs uid s = theirs uid s0"
  using foreign_vm [of uid s0 X s] by (auto simp: theirs_def)

lemma own_vm:
  assumes "tenant uid s0 X s" and "c \<in> set (t_containers s)" and "c_OwnerID c = uid"
  shows "c_ID c \<notin> theirs uid s0"
proof
  assume "c_ID c \<in> theirs uid s0"
  then have "c_ID c \<in> theirs uid s" using theirs_now [OF assms(1)] by simp
  then obtain d where d: "d \<in> set (t_containers s)" "c_OwnerID d \<noteq> uid" "c_ID d = c_ID c" by (auto simp: theirs_def)
  have "distinct (map c_ID (t_containers s))" using assms(1) by (simp add: tenant_def uniq_ok_def uq_containers_def)
  then show False using d assms(2,3) by (metis distinct_map_eqD)
qed

section \<open>Statements\<close>

lemma tenant_frame:
  assumes "tenant uid s0 X s"
  shows "uq_users (f1 (t_users s)) \<Longrightarrow> filter (\<lambda>u. u_ID u \<noteq> uid) (f1 (t_users s)) = filter (\<lambda>u. u_ID u \<noteq> uid) (t_users s) \<Longrightarrow>
      map u_ID (f1 (t_users s)) = map u_ID (t_users s) \<Longrightarrow> map u_Role (f1 (t_users s)) = map u_Role (t_users s) \<Longrightarrow>
      tenant uid s0 X (t_users_update f1 s)"
    and "uq_containers (f3 (t_containers s)) \<Longrightarrow>
      filter (\<lambda>c. c_OwnerID c \<noteq> uid) (f3 (t_containers s)) = filter (\<lambda>c. c_OwnerID c \<noteq> uid) (t_containers s) \<Longrightarrow>
      tenant uid s0 X (t_containers_update f3 s)"
    and "uq_keys (f5 (t_keys s)) \<Longrightarrow> filter (\<lambda>k. ak_OwnerID k \<noteq> uid) (f5 (t_keys s)) = filter (\<lambda>k. ak_OwnerID k \<noteq> uid) (t_keys s) \<Longrightarrow>
      tenant uid s0 X (t_keys_update f5 s)"
    and "uq_sshkeys (f8 (t_sshkeys s)) \<Longrightarrow> filter (\<lambda>k. k_UserID k \<noteq> uid) (f8 (t_sshkeys s)) = filter (\<lambda>k. k_UserID k \<noteq> uid) (t_sshkeys s) \<Longrightarrow>
      tenant uid s0 X (t_sshkeys_update f8 s)"
    and "uq_links (f6 (t_links s)) \<Longrightarrow>
      filter (\<lambda>l. l_ContainerID l \<in> theirs uid s0) (f6 (t_links s)) = filter (\<lambda>l. l_ContainerID l \<in> theirs uid s0) (t_links s) \<Longrightarrow>
      tenant uid s0 X (t_links_update f6 s)"
    and "uq_access (f9 (t_access s)) \<Longrightarrow>
      filter (\<lambda>p. fst p \<in> theirs uid s0) (f9 (t_access s)) = filter (\<lambda>p. fst p \<in> theirs uid s0) (t_access s) \<Longrightarrow>
      tenant uid s0 X (t_access_update f9 s)"
  using assms unfolding tenant_def
  by (elim conjE, intro conjI; (simp add: uniq_ok_def; fail)?; (simp add: others_kept_def; fail)?; simp)+

lemma tenant_aliases:
  assumes "tenant uid s0 X s" and "uq_aliases (f (t_aliases s))"
    and "filter (\<lambda>a. a_ContainerID a \<in> theirs uid s0 \<and> a_Verified a) (f (t_aliases s))
      = filter (\<lambda>a. a_ContainerID a \<in> theirs uid s0 \<and> a_Verified a) (t_aliases s)"
    and "\<forall>a\<in>set (f (t_aliases s)). a_ContainerID a \<in> theirs uid s0 \<longrightarrow> a \<in> set (t_aliases s)"
  shows "tenant uid s0 X (t_aliases_update f s)"
proof -
  have "uniq_ok (t_aliases_update f s)" using assms(1,2) by (simp add: tenant_def uniq_ok_def)
  moreover have "others_kept uid s0 (t_aliases_update f s)" using assms(1,3,4) by (simp add: tenant_def others_kept_def)
  ultimately show ?thesis using assms(1,4) by (simp add: tenant_def)
qed

lemma filter_map_own:
  "(\<And>x. x \<in> set xs \<Longrightarrow> P x \<Longrightarrow> \<not> Q x \<and> \<not> Q (f x)) \<Longrightarrow> filter Q (map (\<lambda>x. if P x then f x else x) xs) = filter Q xs"
  by (induction xs) auto

lemma filter_drop: "(\<And>x. x \<in> set xs \<Longrightarrow> Q x \<Longrightarrow> P x) \<Longrightarrow> filter Q (filter P xs) = filter Q xs"
  by (induction xs) auto

lemma uq_kept: "tenant uid s0 X s \<Longrightarrow> uq_users (t_users s) \<and> uq_containers (t_containers s) \<and> uq_aliases (t_aliases s)
    \<and> uq_keys (t_keys s) \<and> uq_links (t_links s) \<and> uq_sshkeys (t_sshkeys s) \<and> uq_access (t_access s)"
  by (simp add: tenant_def uniq_ok_def)

text \<open>Each statement, with what it has to be given.\<close>

lemma tenant_update_users:
  assumes "\<And>u. P u \<Longrightarrow> u_ID u = uid" and "\<And>u. u_ID (f u) = u_ID u" and "\<And>u. u_Role (f u) = u_Role u"
  shows "keeps (tenant uid s0 X) (exec (sql_update t_users t_users_update uq_users P f))"
proof (rule tenant.keeps_exec)
  fix s t :: "'a store_scheme" and n
  assume s: "tenant uid s0 X s" and r: "sql_update t_users t_users_update uq_users P f s = Inr (n, t)"
  let ?us = "map (\<lambda>u. if P u then f u else u) (t_users s)"
  have "filter (\<lambda>u. u_ID u \<noteq> uid) ?us = filter (\<lambda>u. u_ID u \<noteq> uid) (t_users s)" using assms by (intro filter_map_own) auto
  moreover have "map u_ID ?us = map u_ID (t_users s)" "map u_Role ?us = map u_Role (t_users s)" using assms by (auto simp: o_def)
  ultimately show "tenant uid s0 X t"
    using tenant_frame(1) [OF s, of "\<lambda>_. ?us"] r by (auto simp: sql_update_def Let_def split: if_splits)
qed

lemma tenant_update_vms:
  assumes "\<And>c. P c \<Longrightarrow> c_ID c \<notin> theirs uid s0" and "\<And>c. c_OwnerID (f c) = c_OwnerID c"
  shows "keeps (tenant uid s0 X) (exec (sql_update t_containers t_containers_update uq_containers P f))"
proof (rule tenant.keeps_exec)
  fix s t :: "'b store_scheme" and n
  assume s: "tenant uid s0 X s" and r: "sql_update t_containers t_containers_update uq_containers P f s = Inr (n, t)"
  have "c_OwnerID c = uid" if "c \<in> set (t_containers s)" "P c" for c
    using theirs_now [OF s] assms(1) that by (auto simp: theirs_def)
  then have "filter (\<lambda>c. c_OwnerID c \<noteq> uid) (map (\<lambda>c. if P c then f c else c) (t_containers s)) = filter (\<lambda>c. c_OwnerID c \<noteq> uid) (t_containers s)"
    using assms(2) by (intro filter_map_own) auto
  then show "tenant uid s0 X t"
    using tenant_frame(2) [OF s, of "\<lambda>_. map (\<lambda>c. if P c then f c else c) (t_containers s)"] r
    by (auto simp: sql_update_def Let_def split: if_splits)
qed

lemma tenant_insert_vm:
  "c_OwnerID r = uid \<Longrightarrow> keeps (tenant uid s0 X) (exec (sql_insert t_containers t_containers_update uq_containers fk r))"
  by (rule tenant.keeps_exec) (auto simp: sql_insert_def intro!: tenant_frame(2) split: if_splits)

lemma tenant_delete_vms:
  assumes "\<And>c. P c \<Longrightarrow> c_ID c \<notin> theirs uid s0"
  shows "keeps (tenant uid s0 X) (exec (sql_delete_containers P))"
proof (rule tenant.keeps_exec)
  fix s t :: "'b store_scheme" and n
  assume s: "tenant uid s0 X s" and r: "sql_delete_containers P s = Inr (n, t)"
  define gone where "gone = set (map c_ID (filter P (t_containers s)))"
  have g: "i \<notin> theirs uid s0" if "i \<in> gone" for i using assms that by (auto simp: gone_def)
  have own: "c_OwnerID c = uid" if "c \<in> set (t_containers s)" "P c" for c
    using theirs_now [OF s] assms that by (auto simp: theirs_def)
  let ?s1 = "s\<lparr>t_containers := filter (\<lambda>c. \<not> P c) (t_containers s)\<rparr>"
  let ?s2 = "?s1\<lparr>t_access := filter (\<lambda>p. fst p \<notin> gone) (t_access s)\<rparr>"
  have 1: "tenant uid s0 X ?s1"
    using own uq_kept [OF s] by (intro tenant_frame(2) [OF s] uq_filter filter_drop) auto
  have 2: "tenant uid s0 X ?s2"
    using g uq_kept [OF s] by (intro tenant_frame(6) [OF 1]) (auto intro!: uq_filter filter_drop simp del: filter_filter)
  have "tenant uid s0 X (?s2\<lparr>t_aliases := filter (\<lambda>a. a_ContainerID a \<notin> gone) (t_aliases s)\<rparr>)"
    using g uq_kept [OF s] by (intro tenant_aliases [OF 2]) (auto intro!: uq_filter filter_drop simp del: filter_filter)
  moreover have "t = ?s1 \<or> t = ?s2\<lparr>t_aliases := filter (\<lambda>a. a_ContainerID a \<notin> gone) (t_aliases s)\<rparr>"
    using r by (cases s) (auto simp: sql_delete_containers_def Let_def gone_def split: if_splits)
  ultimately show "tenant uid s0 X t" using 1 by blast
qed

lemma tenant_delete_claims:
  fixes P :: "'b store_scheme \<Rightarrow> calias \<Rightarrow> bool"
  assumes "\<And>s a. tenant uid s0 X s \<Longrightarrow> a \<in> set (t_aliases s) \<Longrightarrow> a_ContainerID a \<in> theirs uid s0 \<Longrightarrow> a_Verified a \<Longrightarrow> \<not> P s a"
  shows "keeps (tenant uid s0 X) (exec (\<lambda>s. sql_delete t_aliases t_aliases_update (P s) s))"
proof (rule tenant.keeps_exec)
  fix s t :: "'b store_scheme" and n
  assume s: "tenant uid s0 X s" and r: "sql_delete t_aliases t_aliases_update (P s) s = Inr (n, t)"
  have "tenant uid s0 X (t_aliases_update (filter (\<lambda>a. \<not> P s a)) s)"
  proof (rule tenant_aliases [OF s])
    show "uq_aliases (filter (\<lambda>a. \<not> P s a) (t_aliases s))" using uq_kept [OF s] by (intro uq_filter) simp
    show "filter (\<lambda>a. a_ContainerID a \<in> theirs uid s0 \<and> a_Verified a) (filter (\<lambda>a. \<not> P s a) (t_aliases s))
      = filter (\<lambda>a. a_ContainerID a \<in> theirs uid s0 \<and> a_Verified a) (t_aliases s)"
      using assms [OF s] by (intro filter_drop) auto
  qed simp
  then show "tenant uid s0 X t" using r by (simp add: sql_delete_def)
qed

lemma not_theirs: "tenant uid s0 X s \<Longrightarrow> i \<in> X \<Longrightarrow> a \<in> set (t_aliases s) \<Longrightarrow> a_ContainerID a \<in> theirs uid s0 \<Longrightarrow> a_ID a \<noteq> i"
  by (auto simp: tenant_def)

lemma tenant_update_claim:
  assumes i: "i \<in> X" and f: "\<And>a. a_ContainerID (f a) = a_ContainerID a"
  shows "keeps (tenant uid s0 X) (exec (sql_update t_aliases t_aliases_update uq_aliases (\<lambda>a. a_ID a = i) f))"
proof (rule tenant.keeps_exec)
  fix s t :: "'a store_scheme" and n
  assume s: "tenant uid s0 X s" and r: "sql_update t_aliases t_aliases_update uq_aliases (\<lambda>a. a_ID a = i) f s = Inr (n, t)"
  let ?as = "map (\<lambda>a. if a_ID a = i then f a else a) (t_aliases s)"
  have "filter (\<lambda>a. a_ContainerID a \<in> theirs uid s0 \<and> a_Verified a) ?as = filter (\<lambda>a. a_ContainerID a \<in> theirs uid s0 \<and> a_Verified a) (t_aliases s)"
    using not_theirs [OF s i] f by (intro filter_map_own) auto
  moreover have "\<forall>a\<in>set ?as. a_ContainerID a \<in> theirs uid s0 \<longrightarrow> a \<in> set (t_aliases s)" by (auto simp: f dest: not_theirs [OF s i])
  moreover have "uq_aliases ?as" "t = t_aliases_update (\<lambda>_. ?as) s" using r by (simp_all add: sql_update_def Let_def split: if_splits)
  ultimately show "tenant uid s0 X t" using tenant_aliases [OF s, of "\<lambda>_. ?as"] by blast
qed

lemma tenant_delete_claim:
  "i \<in> X \<Longrightarrow> keeps (tenant uid s0 X) (exec (sql_delete t_aliases t_aliases_update (\<lambda>a. a_ID a = i)))"
  "keeps (tenant uid s0 X) (exec (\<lambda>s. sql_delete t_aliases t_aliases_update (competing i s) s))"
  "j \<notin> theirs uid s0 \<Longrightarrow> keeps (tenant uid s0 X) (exec (sql_delete t_aliases t_aliases_update (\<lambda>a. a_ContainerID a = j)))"
  by (rule tenant_delete_claims, simp add: not_theirs competing_def split: option.split)+ (rule tenant_delete_claims, blast)

lemma tenant_insert_claim:
  "a_ContainerID r \<notin> theirs uid s0 \<Longrightarrow> keeps (tenant uid s0 X) (exec (sql_insert t_aliases t_aliases_update uq_aliases fk r))"
  by (rule tenant.keeps_exec) (auto simp: sql_insert_def intro!: tenant_aliases split: if_splits)

text \<open>The other tables.\<close>

lemma tenant_own_rows:
  "ak_OwnerID k = uid \<Longrightarrow> keeps (tenant uid s0 X) (exec (sql_insert t_keys t_keys_update uq_keys fk5 k))"
  "k_UserID h = uid \<Longrightarrow> keeps (tenant uid s0 X) (exec (sql_insert t_sshkeys t_sshkeys_update uq_sshkeys fk8 h))"
  "l_ContainerID l \<notin> theirs uid s0 \<Longrightarrow> keeps (tenant uid s0 X) (exec (sql_insert t_links t_links_update uq_links fk6 l))"
  by (rule tenant.keeps_exec, auto simp: sql_insert_def intro!: tenant_frame split: if_splits)+

lemma tenant_delete_keys:
  "(\<And>k. P k \<Longrightarrow> ak_OwnerID k = uid) \<Longrightarrow> keeps (tenant uid s0 X) (exec (sql_delete t_keys t_keys_update P))"
  "(\<And>h. Q h \<Longrightarrow> k_UserID h = uid) \<Longrightarrow> keeps (tenant uid s0 X) (exec (sql_delete t_sshkeys t_sshkeys_update Q))"
  "uid \<noteq> [] \<Longrightarrow> keeps (tenant uid s0 X) (exec (sql_delete_key i uid))"
  by (rule tenant.keeps_exec,
      auto simp: sql_delete_def sql_delete_key_def Let_def simp del: filter_filter split: option.splits
        dest: uq_kept intro!: tenant_frame uq_filter filter_drop)+

lemma foreign_link:
  assumes "tenant uid s0 X s"
  shows "l \<in> set (t_links s) \<and> l_ContainerID l \<in> theirs uid s0 \<longleftrightarrow> l \<in> set (t_links s0) \<and> l_ContainerID l \<in> theirs uid s0"
proof -
  have "l \<in> set (filter (\<lambda>l. l_ContainerID l \<in> theirs uid s0) (t_links s)) \<longleftrightarrow> l \<in> set (filter (\<lambda>l. l_ContainerID l \<in> theirs uid s0) (t_links s0))"
    using assms by (simp add: tenant_def others_kept_def del: set_filter)
  then show ?thesis by auto
qed

lemma tenant_delete_link:
  assumes "\<And>l. l \<in> set (t_links s0) \<Longrightarrow> l_ContainerID l \<in> theirs uid s0 \<Longrightarrow> \<not> P l"
  shows "keeps (tenant uid s0 X) (exec (sql_delete t_links t_links_update P))"
proof (rule tenant.keeps_exec)
  fix s t :: "'b store_scheme" and n
  assume s: "tenant uid s0 X s" and r: "sql_delete t_links t_links_update P s = Inr (n, t)"
  have "tenant uid s0 X (t_links_update (filter (\<lambda>l. \<not> P l)) s)"
    using uq_kept [OF s] foreign_link [OF s] assms by (intro tenant_frame(5) [OF s] uq_filter filter_drop) blast+
  then show "tenant uid s0 X t" using r by (simp add: sql_delete_def)
qed

lemma tenant_delete_access:
  "i \<notin> theirs uid s0 \<Longrightarrow> keeps (tenant uid s0 X) (exec (sql_delete t_access t_access_update (\<lambda>p. fst p = i)))"
  by (rule tenant.keeps_exec)
    (auto simp: sql_delete_def simp del: filter_filter dest: uq_kept intro!: tenant_frame uq_filter filter_drop)

section \<open>Programs\<close>

lemma tenant_pure: "(\<And>s1. keeps (db_same s1) m) \<Longrightarrow> keeps (tenant uid s0 X) m"
proof (rule keepsI)
  fix s :: "'a store_scheme" assume m: "\<And>s1. keeps (db_same s1) m" and s: "tenant uid s0 X s"
  have "db_same s (snd (m s))" using m db_pureD [of m s] by (simp add: db_pure_def)
  moreover have "uniq_ok (snd (m s))" using db_pure_keeps(1) [of m] m s by (auto simp: db_pure_def tenant_def keeps_def)
  ultimately show "tenant uid s0 X (snd (m s))" using s by (simp add: db_same_def tenant_def others_kept_def)
qed

text \<open>A value and what is known of it, whatever happened to the store since.\<close>

definition gives :: "('s \<Rightarrow> bool) \<Rightarrow> ('s, 'e, 'a) sm \<Rightarrow> ('a \<Rightarrow> bool) \<Rightarrow> bool" where
  "gives I m R \<longleftrightarrow> keeps I m \<and> (\<forall>s a t. I s \<and> m s = (Inr a, t) \<longrightarrow> R a)"

lemma givesD: "gives I m R \<Longrightarrow> keeps I m"
  by (simp add: gives_def)

lemma gives_then: "gives I m R \<Longrightarrow> (\<And>a. R a \<Longrightarrow> keeps I (f a)) \<Longrightarrow> keeps I (bindE m f)"
  unfolding gives_def keeps_def bindE_def by (auto split: prod.split sum.split) (metis snd_conv)+

lemma gives_attempt: "gives I m R \<Longrightarrow> (\<And>e. keeps I (h e)) \<Longrightarrow> (\<And>a. R a \<Longrightarrow> keeps I (f a)) \<Longrightarrow> keeps I (attempt m h f)"
  unfolding gives_def keeps_def attempt_def by (auto split: prod.split sum.split) (metis snd_conv)+

lemma gives_bindE: "gives I m R \<Longrightarrow> (\<And>a. R a \<Longrightarrow> gives I (f a) Q) \<Longrightarrow> gives I (bindE m f) Q"
  unfolding gives_def keeps_def bindE_def by (auto split: prod.splits sum.splits) (metis snd_conv)+

lemma gives_handled:
  "gives I m R \<Longrightarrow> (\<And>e. gives I (h e) Q) \<Longrightarrow> (\<And>a. R a \<Longrightarrow> gives I (f a) Q) \<Longrightarrow> gives I (attempt m h f) Q"
  unfolding gives_def keeps_def attempt_def by (auto split: prod.splits sum.splits) (metis snd_conv)+

lemma gives_basic: "keeps I m \<Longrightarrow> gives I m (\<lambda>_. True)" "R x \<Longrightarrow> gives I (ret x) R" "gives I (raise e) R"
  by (simp_all add: gives_def keeps_def)

lemma gives_weaken: "gives I m R \<Longrightarrow> (\<And>a. R a \<Longrightarrow> Q a) \<Longrightarrow> gives I m Q"
  unfolding gives_def by blast

lemma gives_if: "(b \<Longrightarrow> gives I m R) \<Longrightarrow> (\<not> b \<Longrightarrow> gives I n R) \<Longrightarrow> gives I (if b then m else n) R"
  by simp

section \<open>Operations of the database\<close>

lemma tenant_reads [keeps_rules]:
  "keeps (tenant uid s0 X) (GetUserByID i)" "keeps (tenant uid s0 X) (GetUserByEmail e)" "keeps (tenant uid s0 X) CountUsers"
  "keeps (tenant uid s0 X) ListUsers" "keeps (tenant uid s0 X) (GetSession tok)" "keeps (tenant uid s0 X) (ListSSHKeysByUser i)"
  "keeps (tenant uid s0 X) (GetSetting k d)" "keeps (tenant uid s0 X) NestingAllowed" "keeps (tenant uid s0 X) (GetUserBySSHFingerprint fp)"
  "keeps (tenant uid s0 X) (GetContainerByID i)" "keeps (tenant uid s0 X) (ListContainersByOwner i)"
  "keeps (tenant uid s0 X) (GetContainerByName n i)" "keeps (tenant uid s0 X) (GetContainerByNameOnly n)"
  "keeps (tenant uid s0 X) ListAllContainers" "keeps (tenant uid s0 X) (AttachNestingPolicy cs)"
  unfolding GetUserByID_def GetUserByEmail_def CountUsers_def ListUsers_def GetSession_def ListSSHKeysByUser_def GetSetting_def NestingAllowed_def
    GetUserBySSHFingerprint_def GetContainerByID_def ListContainersByOwner_def GetContainerByName_def GetContainerByNameOnly_def
    ListAllContainers_def AttachNestingPolicy_def get_container_def list_containers_def
  by (intro keeps_rules)+

lemma tenant_looks [keeps_rules]:
  "keeps (tenant uid s0 X) (CanUseContainer i u)" "keeps (tenant uid s0 X) (ListAccessibleContainers u)"
  "keeps (tenant uid s0 X) (LookupSharedLink tok)" "keeps (tenant uid s0 X) (of_result x)"
  "keeps (tenant uid s0 X) (GetSharedLinkByToken tok)" "keeps (tenant uid s0 X) (ListSharedLinksByContainer i)"
  "keeps (tenant uid s0 X) (ListAPIKeysByOwner u)" "keeps (tenant uid s0 X) (OwnerModelIDs u)" "keeps (tenant uid s0 X) (ownerModelIDs u)"
  "keeps (tenant uid s0 X) (UserDefaultModel u)"
  "keeps (tenant uid s0 X) (GetAliasByID i)" "keeps (tenant uid s0 X) (ListAliasesByContainer i)" "keeps (tenant uid s0 X) (countAliases i)"
  "keeps (tenant uid s0 X) (GetVerifiedAliasByHostname uni hn)" "keeps (tenant uid s0 X) (AttachAliases cs)"
  "keeps (tenant uid s0 X) ListVerifiedAliases"
  unfolding CanUseContainer_def ListAccessibleContainers_def LookupSharedLink_def GetSharedLinkByToken_def ListSharedLinksByContainer_def
    ListAPIKeysByOwner_def OwnerModelIDs_def ownerModelIDs_def UserDefaultModel_def GetAliasByID_def ListAliasesByContainer_def
    countAliases_def GetVerifiedAliasByHostname_def AttachAliases_def ListVerifiedAliases_def
  by (intro keeps_rules; simp add: keeps_def of_result_def)+

lemma tenant_looks' [keeps_rules]:
  "keeps (tenant uid s0 X) (GetAccessibleContainerByName n u)" "keeps (tenant uid s0 X) (ResolveAccessibleContainer n u)"
  "keeps (tenant uid s0 X) (ContainerAccessContext vm u)" "keeps (tenant uid s0 X) (EffectiveNesting vm)"
  unfolding GetAccessibleContainerByName_def ResolveAccessibleContainer_def ContainerAccessContext_def EffectiveNesting_def
  by (intro keeps_rules)+

lemma tenant_calls [keeps_rules]:
  "keeps (tenant uid s0 X) (rt_call m)" "keeps (tenant uid s0 X) (dns_call f)" "keeps (tenant uid s0 X) (RemoveKeys i)"
  "keeps (tenant uid s0 X) (RefreshKeys mz i ow)" "keeps (tenant uid s0 X) (guest rt name argv)" "keeps (tenant uid s0 X) (writeGuestFile rt name p d)"
  "keeps (tenant uid s0 X) (RefreshEnvironmentGuide g rto c)" "keeps (tenant uid s0 X) (SetupContainer ae rt mo c cfg)"
  "keeps (tenant uid s0 X) (RefreshProviderKeys ae rt mz cid name owner chosen cfg)"
  "keeps (tenant uid s0 X) (BackupData ae rt name)" "keeps (tenant uid s0 X) (RestoreData ae rt name data)"
  "keeps (tenant uid s0 X) (listGuestModels rt name)" "keeps (tenant uid s0 X) (CheckUpdate ae rt name)" "keeps (tenant uid s0 X) (Update ae rt name)"
  by (intro tenant_pure keeps_rules)+

text \<open>The columns of a VM that is not another account's.\<close>

lemma tenant_vm_columns [keeps_rules]:
  assumes "cid \<notin> theirs uid s0"
  shows "keeps (tenant uid s0 X) (UpdateContainerPublish cid p b)" "keeps (tenant uid s0 X) (UpdateContainerNesting cid b)"
    "keeps (tenant uid s0 X) (SetNestingApplied cid b)" "keeps (tenant uid s0 X) (UpdateContainerStatus cid st ip)"
    "keeps (tenant uid s0 X) (RenameContainer cid n)" "keeps (tenant uid s0 X) (SetInitialTaskState cid st r)"
    "keeps (tenant uid s0 X) (SetInitialTaskDelivered cid cv)" "keeps (tenant uid s0 X) (SetInitialTaskConversation cid cv)"
    "keeps (tenant uid s0 X) (RetryInitialTask cid)" "keeps (tenant uid s0 X) (DeleteContainer cid)"
    "keeps (tenant uid s0 X) (CountInitialTaskResume cid)"
proof -
  have u: "keeps (tenant uid s0 X) (exec (sql_update t_containers t_containers_update uq_containers P f))"
    if "\<And>c. P c \<Longrightarrow> c_ID c = cid" "\<And>c. c_OwnerID (f c) = c_OwnerID c" for P f
    using that assms by (intro tenant_update_vms) auto
  show "keeps (tenant uid s0 X) (UpdateContainerPublish cid p b)" "keeps (tenant uid s0 X) (UpdateContainerNesting cid b)"
    "keeps (tenant uid s0 X) (SetNestingApplied cid b)" "keeps (tenant uid s0 X) (UpdateContainerStatus cid st ip)"
    "keeps (tenant uid s0 X) (RenameContainer cid n)" "keeps (tenant uid s0 X) (SetInitialTaskState cid st r)"
    "keeps (tenant uid s0 X) (SetInitialTaskDelivered cid cv)" "keeps (tenant uid s0 X) (SetInitialTaskConversation cid cv)"
    "keeps (tenant uid s0 X) (RetryInitialTask cid)"
    unfolding UpdateContainerPublish_def UpdateContainerNesting_def SetNestingApplied_def UpdateContainerStatus_def RenameContainer_def
      SetInitialTaskState_def SetInitialTaskDelivered_def SetInitialTaskConversation_def RetryInitialTask_def update_container_def
    by (intro keeps_rules u; simp)+
  show "keeps (tenant uid s0 X) (DeleteContainer cid)"
    unfolding DeleteContainer_def
    using assms by (intro keeps_rules tenant_delete_access tenant_delete_claim(3) tenant_delete_vms) auto
  show "keeps (tenant uid s0 X) (CountInitialTaskResume cid)"
    unfolding CountInitialTaskResume_def
  proof (intro keeps_rules tenant.keeps_exec)
    fix now :: int and s t n
    let ?u = "sql_update t_containers t_containers_update uq_containers (\<lambda>c. c_ID c = cid)
       (\<lambda>c. c\<lparr>c_InitialTaskResumes := c_InitialTaskResumes c + 1, c_UpdatedAt := now\<rparr>)"
    assume s: "tenant uid s0 X s" and "(case ?u s of Inl e \<Rightarrow> Inl e | Inr (_, s') \<Rightarrow>
         (case find (\<lambda>c. c_ID c = cid) (t_containers s') of None \<Rightarrow> Inl ErrNoRows | Some c \<Rightarrow> Inr (c_InitialTaskResumes c, s'))) = Inr (n, t)"
    then obtain k where r: "?u s = Inr (k, t)" by (auto split: sum.splits option.splits)
    have e: "exec ?u (s\<lparr>faults := []\<rparr>) = (Inr k, t\<lparr>faults := []\<rparr>)"
      using r by (auto simp: exec_def sql_update_def Let_def split: if_splits)
    have "tenant uid s0 X (snd (exec ?u (s\<lparr>faults := []\<rparr>)))"
      by (rule keepsD [OF u]) (simp_all add: s)
    then show "tenant uid s0 X t" unfolding e by simp
  qed
qed

text \<open>A new VM, and the VMs that are found by the account.\<close>

lemma gives_own_vm: "gives (tenant uid s0 X) (GetContainerByName n uid) (\<lambda>c. c_ID c \<notin> theirs uid s0 \<and> c_OwnerID c = uid)"
  unfolding gives_def
proof (intro conjI allI impI)
  show "keeps (tenant uid s0 X) (GetContainerByName n uid)" by (rule keeps_rules)
  fix s c t assume "tenant uid s0 X s \<and> GetContainerByName n uid s = (Inr c, t)"
  then obtain d where s: "tenant uid s0 X s" and d: "d \<in> set (t_containers s)" "c_OwnerID d = uid" "c = scanContainer d"
    by (auto simp: GetContainerByName_def get_container_def elim!: bindE_InrE dest!: containers.row_ok)
  then show "c_ID c \<notin> theirs uid s0" "c_OwnerID c = uid" using own_vm [OF s] by (auto simp: scanContainer_def)
qed

lemma gives_vm_by_id: "gives (tenant uid s0 X) (GetContainerByID i) (\<lambda>c. c_ID c = i \<and> (c_OwnerID c = uid \<longrightarrow> i \<notin> theirs uid s0))"
  unfolding gives_def
proof (intro conjI allI impI)
  show "keeps (tenant uid s0 X) (GetContainerByID i)" by (rule keeps_rules)
  fix s c t assume "tenant uid s0 X s \<and> GetContainerByID i s = (Inr c, t)"
  then obtain d where s: "tenant uid s0 X s" and d: "d \<in> set (t_containers s)" "c_ID d = i" "c = scanContainer d"
    by (auto simp: GetContainerByID_def get_container_def elim!: bindE_InrE dest!: containers.row_ok)
  then show "c_ID c = i" and "c_OwnerID c = uid \<Longrightarrow> i \<notin> theirs uid s0" using own_vm [OF s] by (auto simp: scanContainer_def)
qed

lemma gives_insert_vm:
  assumes "c_OwnerID r = uid"
  shows "gives (tenant uid s0 X) (exec (sql_insert t_containers t_containers_update uq_containers fk r)) (\<lambda>_. c_ID r \<notin> theirs uid s0)"
  unfolding gives_def
proof (intro conjI allI impI)
  show "keeps (tenant uid s0 X) (exec (sql_insert t_containers t_containers_update uq_containers fk r))" using assms by (rule tenant_insert_vm)
  fix s a t assume r: "tenant uid s0 X s \<and> exec (sql_insert t_containers t_containers_update uq_containers fk r) s = (Inr a, t)"
  then have "uq_containers (t_containers s @ [r])" by (auto elim!: exec_InrE simp: sql_insert_def split: if_splits)
  then have "c_ID r \<notin> theirs uid s" by (auto simp: theirs_def uq_containers_def)
  then show "c_ID r \<notin> theirs uid s0" using r theirs_now [of uid s0 X s] by simp
qed

lemma gives_new_vm:
  assumes "c_OwnerID c = uid"
  shows "gives (tenant uid s0 X) (CreateContainer c) (\<lambda>d. c_ID d \<notin> theirs uid s0 \<and> c_OwnerID d = uid)"
  unfolding CreateContainer_def Let_def with_now_def using assms
  by (intro gives_if gives_basic gives_bindE [OF gives_basic(1) [OF keeps_gets]] gives_bindE [OF gives_insert_vm])
    (simp_all add: scanContainer_def split: if_splits)

text \<open>No link to another's VM has the token of a link that is not to one.\<close>

lemma gives_link:
  "gives (tenant uid s0 X) (LookupSharedLink tok)
     (\<lambda>l. l_ContainerID l \<notin> theirs uid s0 \<longrightarrow> (\<forall>k\<in>set (t_links s0). l_ContainerID k \<in> theirs uid s0 \<longrightarrow> l_Token k \<noteq> tok))"
  unfolding gives_def
proof (intro conjI allI impI ballI)
  show "keeps (tenant uid s0 X) (LookupSharedLink tok)" by (rule keeps_rules)
  fix s l t k
  assume "tenant uid s0 X s \<and> LookupSharedLink tok s = (Inr l, t)" and away: "l_ContainerID l \<notin> theirs uid s0"
    and k: "k \<in> set (t_links s0)" "l_ContainerID k \<in> theirs uid s0"
  then have s: "tenant uid s0 X s" and l: "l \<in> set (t_links s)" "l_Token l = tok" by (auto simp: LookupSharedLink_def dest!: links.row_ok)
  have "k \<in> set (t_links s)" using foreign_link [OF s] k by blast
  moreover have "distinct (map l_Token (t_links s))" using s by (simp add: tenant_def uniq_ok_def uq_links_def)
  ultimately show "l_Token k \<noteq> tok" using l k away by (metis distinct_map_eqD)
qed

text \<open>The account's own rows.\<close>

lemma tenant_own [keeps_rules]:
  "k_UserID k = uid \<Longrightarrow> keeps (tenant uid s0 X) (CreateSSHKey k)" "keeps (tenant uid s0 X) (DeleteSSHKey i uid)"
  "keeps (tenant uid s0 X) (SetUserPassword uid hp)" "keeps (tenant uid s0 X) (set_default_model uid mo)"
  "j \<notin> theirs uid s0 \<Longrightarrow> keeps (tenant uid s0 X) (CreateSharedLink rnd n j u e)"
  "(\<And>l. l \<in> set (t_links s0) \<Longrightarrow> l_ContainerID l \<in> theirs uid s0 \<Longrightarrow> l_Token l \<noteq> tok) \<Longrightarrow> keeps (tenant uid s0 X) (DeleteSharedLinkByToken tok)"
  unfolding CreateSSHKey_def DeleteSSHKey_def SetUserPassword_def set_default_model_def CreateSharedLink_def getSharedLinkByID_def
    DeleteSharedLinkByToken_def
  by (intro keeps_rules tenant_own_rows tenant_delete_keys tenant_update_users tenant_delete_link; simp)+

lemma tenant_models [keeps_rules]:
  "keeps (tenant uid s0 X) (pruneDefaultModel uid)" "keeps (tenant uid s0 X) (SetUserDefaultModel uid mo)"
  unfolding pruneDefaultModel_def SetUserDefaultModel_def by (intro keeps_rules)+

lemma gives_deleted_key:
  assumes "uid \<noteq> []"
  shows "gives (tenant uid s0 X) (exec (sql_delete_key i uid)) (\<lambda>o'. o' = uid)"
  using assms tenant_delete_keys(3) [OF assms]
  by (auto simp: gives_def sql_delete_key_def Let_def split: option.splits elim!: exec_InrE dest!: find_Some_iff_mem)

lemma tenant_keys [keeps_rules]:
  "keeps (tenant uid s0 X) (DeleteAPIKeyForOwner i uid)"
  "keeps (tenant uid s0 X) (SaveProviderKey uni pu seal rnd kid uid pr key b mo pc ek)"
proof -
  show "keeps (tenant uid s0 X) (DeleteAPIKeyForOwner i uid)"
    unfolding DeleteAPIKeyForOwner_def deleteAPIKey_def
    by (intro keeps_if keeps_raise tenant.keeps_in_tx gives_then [OF gives_deleted_key]) (simp_all add: tenant_models)
  show "keeps (tenant uid s0 X) (SaveProviderKey uni pu seal rnd kid uid pr key b mo pc ek)"
    unfolding SaveProviderKey_def stored_secret_def case_prod_unfold Let_def
    by (intro keeps_rules tenant_own_rows tenant_delete_keys) (auto simp: same_connection_def)
qed

section \<open>Custom domains\<close>

text \<open>A claim on a VM that is not another's reserves its identifier, which no claim of another has then.\<close>

definition claims :: "string \<Rightarrow> 'y store_scheme \<Rightarrow> string set \<Rightarrow> ('z store_scheme, 'e, calias) sm \<Rightarrow> bool" where
  "claims uid s0 X m \<longleftrightarrow> hoare (tenant uid s0 X) m (\<lambda>a. tenant uid s0 (insert (a_ID a) X)) (\<lambda>_. tenant uid s0 X)"

lemma claims_then:
  assumes "claims uid s0 X m" and f: "\<And>a. keeps (tenant uid s0 (insert (a_ID a) X)) (f a)"
  shows "keeps (tenant uid s0 X) (bindE m f)"
proof -
  have "hoare (tenant uid s0 (insert (a_ID a) X)) (f a) (\<lambda>_. tenant uid s0 X) (\<lambda>_. tenant uid s0 X)" for a
    using f [of a, unfolded keeps_hoare] by (rule hoare_conseq) (auto elim: tenant_mono)
  with assms(1) show ?thesis unfolding claims_def keeps_hoare by (rule hoare_bindE)
qed

lemma tenant_reserved:
  assumes "tenant uid s0 X s" and "a \<in> set (t_aliases s)" and "a_ContainerID a \<notin> theirs uid s0"
  shows "tenant uid s0 (insert (a_ID a) X) s"
proof -
  have "distinct (map a_ID (t_aliases s))" using assms(1) by (simp add: tenant_def uniq_ok_def uq_aliases_def)
  then have "a_ID b \<noteq> a_ID a" if "b \<in> set (t_aliases s)" "a_ContainerID b \<in> theirs uid s0" for b
    using that assms(2,3) by (metis distinct_map_eqD)
  with assms(1) show ?thesis by (auto simp: tenant_def)
qed

lemma claims_pass: "claims uid s0 X m \<Longrightarrow> claims uid s0 X (pass m)"
  unfolding claims_def pass_def by (elim hoare_attempt) (auto intro: hoare_raise hoare_ret)

lemma hoare_get_claim:
  "hoare (tenant uid s0 X) (GetAliasByID i) (\<lambda>a s. tenant uid s0 X s \<and> a \<in> set (t_aliases s)) (\<lambda>_. tenant uid s0 X)"
proof (rule hoareI)
  note k = keepsD [OF tenant_looks(11) [of uid s0 X i]]
  fix s e t assume "tenant uid s0 X s" and "GetAliasByID i s = (Inl e, t)"
  then show "tenant uid s0 X t" using k by (metis snd_conv)
next
  note k = keepsD [OF tenant_looks(11) [of uid s0 X i]]
  fix s a t assume s: "tenant uid s0 X s" and r: "GetAliasByID i s = (Inr a, t)"
  then have "tenant uid s0 X t" using k by (metis snd_conv)
  moreover have "a \<in> set (t_aliases t)"
    using r by (auto simp: GetAliasByID_def dest!: caliases.row_ok same_data_fields)
  ultimately show "tenant uid s0 X t \<and> a \<in> set (t_aliases t)" ..
qed

lemma claims_owned:
  assumes "c_ID c \<notin> theirs uid s0"
  shows "claims uid s0 X (owned c i)"
  unfolding claims_def owned_def
  by (rule hoare_attempt [OF hoare_get_claim]) (auto intro!: hoare_raise hoare_if hoare_ret intro: tenant_reserved simp: assms)

lemma hoare_reserving_insert:
  assumes "a_ContainerID r \<notin> theirs uid s0"
  shows "hoare (tenant uid s0 X) (exec (sql_insert t_aliases t_aliases_update uq_aliases fk r))
    (\<lambda>_. tenant uid s0 (insert (a_ID r) X)) (\<lambda>_. tenant uid s0 X)"
proof (rule hoareI)
  note k = keepsD [OF tenant_insert_claim [OF assms]]
  fix s e t assume "tenant uid s0 X s" and "exec (sql_insert t_aliases t_aliases_update uq_aliases fk r) s = (Inl e, t)"
  then show "tenant uid s0 X t" using k by (metis snd_conv)
next
  note k = keepsD [OF tenant_insert_claim [OF assms]]
  fix s a t assume s: "tenant uid s0 X s" and r: "exec (sql_insert t_aliases t_aliases_update uq_aliases fk r) s = (Inr a, t)"
  then have "tenant uid s0 X t" using k by (metis snd_conv)
  moreover have "r \<in> set (t_aliases t)" using r by (auto elim!: exec_InrE simp: sql_insert_def split: if_splits)
  ultimately show "tenant uid s0 (insert (a_ID r) X) t" using assms by (rule tenant_reserved)
qed

lemma hoare_read_back:
  "hoare (tenant uid s0 (insert i X)) (GetAliasByID i) (\<lambda>a. tenant uid s0 (insert (a_ID a) X)) (\<lambda>_. tenant uid s0 X)"
proof (rule hoareI)
  note k = keepsD [OF tenant_looks(11) [of uid s0 "insert i X" i]]
  fix s e t assume "tenant uid s0 (insert i X) s" and "GetAliasByID i s = (Inl e, t)"
  then have "tenant uid s0 (insert i X) t" using k by (metis snd_conv)
  then show "tenant uid s0 X t" by (rule tenant_mono) blast
next
  note k = keepsD [OF tenant_looks(11) [of uid s0 "insert i X" i]]
  fix s a t assume "tenant uid s0 (insert i X) s" and r: "GetAliasByID i s = (Inr a, t)"
  then have "tenant uid s0 (insert i X) t" using k by (metis snd_conv)
  moreover have "a_ID a = i" using r by (auto simp: GetAliasByID_def dest!: caliases.row_ok)
  ultimately show "tenant uid s0 (insert (a_ID a) X) t" by simp
qed

lemma claims_hostname:
  assumes "cid \<notin> theirs uid s0"
  shows "claims uid s0 X (CreateContainerAlias uni nid cid hn)"
proof -
  have k: "hoare (tenant uid s0 X) m (\<lambda>_. tenant uid s0 X) (\<lambda>_. tenant uid s0 X)" if "keeps (tenant uid s0 X) m" for m
    using that by (simp add: keeps_hoare)
  have c: "hoare (tenant uid s0 X) (claim_hostname nid cid hn') (\<lambda>a. tenant uid s0 (insert (a_ID a) X)) (\<lambda>_. tenant uid s0 X)" for hn'
    unfolding claim_hostname_def with_now_def
    by (intro hoare_bindE [OF k [OF tenant.keeps_query(3)]] hoare_if hoare_raise hoare_bindE [OF k [OF keeps_gets]]
        hoare_attempt [OF hoare_reserving_insert] hoare_conseq [OF hoare_read_back]) (simp_all add: assms)
  show ?thesis
    unfolding claims_def CreateContainerAlias_def
    by (intro hoare_bindE [OF k [OF tenant_looks(13)]] hoare_if hoare_raise hoare_attempt [OF k [OF tenant_looks(14)]] c)
qed

lemma tenant_verification [keeps_rules]:
  assumes "i \<in> X"
  shows "keeps (tenant uid s0 X) (SetAliasVerification i v r)" "keeps (tenant uid s0 X) (DeleteContainerAlias i)"
  unfolding SetAliasVerification_def DeleteContainerAlias_def
  using assms by (intro keeps_rules tenant_update_claim tenant_delete_claim; simp)+

lemma tenant_manager_parts [keeps_rules]:
  "keeps (tenant uid s0 X) (refreshGuide m c)" "keeps (tenant uid s0 X) (dns_outcome m h)" "keeps (tenant uid s0 X) (List_aliases i)"
  unfolding refreshGuide_def dns_outcome_def List_aliases_def by (intro keeps_rules)+

lemma tenant_check: "a_ID a \<in> X \<Longrightarrow> keeps (tenant uid s0 X) (check m c a)"
  unfolding check_def by (intro keeps_rules; simp)

lemma tenant_manager [keeps_rules]:
  assumes "c_ID c \<notin> theirs uid s0"
  shows "keeps (tenant uid s0 X) (Add uni m nid c h)" "keeps (tenant uid s0 X) (Recheck m c i)" "keeps (tenant uid s0 X) (Remove m c i)"
  unfolding Add_def Recheck_def Remove_def
  by (intro keeps_sum keeps_raise claims_then [OF claims_pass [OF claims_hostname [OF assms]]] claims_then [OF claims_owned [OF assms]]
      tenant_check keeps_rules; simp)+

section \<open>Tasks, nesting and keys\<close>

lemma tenant_guest_steps [keeps_rules]:
  "keeps (tenant uid s0 X) (queryAgentDB rt n q)" "keeps (tenant uid s0 X) (readConfiguredModel js rt n)"
  "keeps (tenant uid s0 X) (resolveTaskModel js rt n own platform chosen)" "keeps (tenant uid s0 X) (findConversationByTask rt n task)"
  "keeps (tenant uid s0 X) (resumeConversation rt c)" "keeps (tenant uid s0 X) (failedTurnDetails rt n cv)" "keeps (tenant uid s0 X) (taskErrorText rt n cv)"
  unfolding queryAgentDB_def readConfiguredModel_def resolveTaskModel_def findConversationByTask_def resumeConversation_def failedTurnDetails_def
    taskErrorText_def Let_def
  by (intro keeps_rules)+

lemma tenant_task [keeps_rules]:
  assumes "c_ID c \<notin> theirs uid s0"
  shows "keeps (tenant uid s0 X) (fail_task c reason)" "keeps (tenant uid s0 X) (DeliverInitialTask uni ae rto c cfg)"
    "keeps (tenant uid s0 X) (RefreshTaskState rt c)"
proof -
  show f: "keeps (tenant uid s0 X) (fail_task c reason)" for reason unfolding fail_task_def by (intro keeps_rules assms)
  show "keeps (tenant uid s0 X) (DeliverInitialTask uni ae rto c cfg)"
    unfolding DeliverInitialTask_def or_fail_def by (intro keeps_rules f assms)
  have adopt: "gives (tenant uid s0 X) (if c_InitialTaskConversation c = [] then adoptConversation rt c else ret c) (\<lambda>d. c_ID d \<notin> theirs uid s0)"
    unfolding adoptConversation_def
    by (intro gives_if gives_basic gives_bindE [OF gives_basic(1)] keeps_rules; simp add: assms)
  have poll: "keeps (tenant uid s0 X) (pollTaskState rt d)" if "c_ID d \<notin> theirs uid s0" for d
    unfolding pollTaskState_def resolveFailedTurn_def report_failure_def Let_def using that by (intro keeps_rules)
  show "keeps (tenant uid s0 X) (RefreshTaskState rt c)"
    unfolding RefreshTaskState_def by (intro keeps_if keeps_ret gives_then [OF adopt] keeps_raise keeps_bindE poll keeps_prod keeps_rules)
qed

lemma tenant_deliver [keeps_rules]:
  assumes "cid \<notin> theirs uid s0"
  shows "keeps (tenant uid s0 X) (DeliverInitialTaskByID uni ae rto cid cfg)"
  unfolding DeliverInitialTaskByID_def
  by (intro gives_attempt [OF gives_vm_by_id] keeps_rules; simp add: assms)

lemma gives_prepared:
  assumes "c_ID c \<notin> theirs uid s0"
  shows "gives (tenant uid s0 X) (PrepareStart rt c) (\<lambda>(d, es). c_ID d = c_ID c)" "gives (tenant uid s0 X) (ApplyNesting rt c) (\<lambda>(d, es). c_ID d = c_ID c)"
    "gives (tenant uid s0 X) (MarkStarted c b) (\<lambda>d. c_ID d = c_ID c)"
  unfolding PrepareStart_def ApplyNesting_def MarkStarted_def case_prod_unfold
  by (intro gives_bindE [OF gives_basic(1)] gives_handled [OF gives_basic(1)] gives_if gives_basic keeps_rules; simp add: assms)+

end
