(* ===== verification/Ssh_Tenants.thy ===== *)
theory Ssh_Tenants
  imports Ssh_Steps Tenants
begin

text \<open>
  What a line typed into an SSH session can change: for an account that is no administrator, its own rows only.  Every
  command keeps \<open>tenant\<close> of its caller, since it reaches a VM only through \<open>findContainer\<close>, a link only through its VM, and a
  custom domain only through the manager's ownership check.
\<close>

section \<open>Parts of commands\<close>

lemma gives_found: "caller c = uid \<Longrightarrow> gives (tenant uid s0 X) (findContainer c n) (\<lambda>vm. c_ID vm \<notin> theirs uid s0)"
  unfolding findContainer_def
  by (intro gives_if gives_basic gives_handled [where R = "\<lambda>vm. c_ID vm \<notin> theirs uid s0 \<and> c_OwnerID vm = uid"])
    (auto intro: gives_own_vm)

lemma tenant_parts [keeps_rules]:
  "keeps (tenant uid s0 X) (findAccessibleContainer c n)" "keeps (tenant uid s0 X) (requireRunning vm)" "keeps (tenant uid s0 X) (attach_all vm)"
  "keeps (tenant uid s0 X) (attach_domains vm)" "keeps (tenant uid s0 X) (checkVMName n)" "keeps (tenant uid s0 X) (confirmDestructive c wh as)"
  unfolding findAccessibleContainer_def requireRunning_def attach_all_def attach_domains_def checkVMName_def confirmDestructive_def case_prod_unfold
  by (intro keeps_rules)+

lemma tenant_status [keeps_rules]:
  assumes "c_ID vm \<notin> theirs uid s0"
  shows "keeps (tenant uid s0 X) (note_status vm st ip)" "keeps (tenant uid s0 X) (fail_status vm st ip e)"
    "keeps (tenant uid s0 X) m \<Longrightarrow> keeps (tenant uid s0 X) (or_status vm st ip err m)"
  unfolding note_status_def fail_status_def or_status_def by (intro keeps_rules assms; assumption?)+

lemma tenant_attach [keeps_rules]: "keeps (tenant uid s0 X) (attach sv u pty vm cm)" "keeps (tenant uid s0 X) (stop_if_running sv wh vm)"
  unfolding attach_def stop_if_running_def by (intro keeps_rules)+

lemma tenant_set_up [keeps_rules]:
  assumes "c_ID vm \<notin> theirs uid s0"
  shows "keeps (tenant uid s0 X) (set_up sv vm)" "keeps (tenant uid s0 X) (made_running sv vm x as)"
  unfolding made_running_def set_up_def Let_def by (intro keeps_rules assms)+

lemma gives_db: "gives I m R \<Longrightarrow> gives I (db m) R" "gives I m R \<Longrightarrow> gives I (wrap what m) R"
  unfolding db_def wrap_def by (intro gives_handled gives_basic; assumption)+

lemma gives_fallback: "gives I m R \<Longrightarrow> R d \<Longrightarrow> gives I (attempt m (\<lambda>_. ret d) ret) R"
  by (erule gives_handled) (simp_all add: gives_basic)

lemma tenant_start_new [keeps_rules]:
  assumes "c_ID vm \<notin> theirs uid s0"
  shows "keeps (tenant uid s0 X) (start_new sv n vm)"
proof -
  have "gives (tenant uid s0 X) (attempt (rt_call (rt_Get (ss_Runtime sv) (c_IncusName vm))) (\<lambda>_. ret vm) (\<lambda>x. ret (vm\<lparr>c_IPAddress := rc_IP x\<rparr>)))
      (\<lambda>d. c_ID d \<notin> theirs uid s0)"
    by (intro gives_handled [OF gives_basic(1)] gives_basic keeps_rules; simp add: assms)
  then show ?thesis unfolding start_new_def
    by (intro keeps_bindE gives_then [where R = "\<lambda>d. c_ID d \<notin> theirs uid s0"] keeps_rules; (assumption | simp add: assms)?)
qed

lemma tenant_boot [keeps_rules]:
  assumes "c_ID vm \<notin> theirs uid s0"
  shows "keeps (tenant uid s0 X) (boot_vm sv er x vm)" "keeps (tenant uid s0 X) (rebuild_vm sv backup vm)"
proof -
  show "keeps (tenant uid s0 X) (boot_vm sv er x vm)"
    unfolding boot_vm_def
  proof (rule gives_then [OF gives_db(1) [OF gives_prepared(1) [OF assms]]])
    fix p :: "container \<times> dberr list" assume "case p of (d, es) \<Rightarrow> c_ID d = c_ID vm"
    then show "keeps (tenant uid s0 X) (case p of (vm, _) \<Rightarrow> bindE (attempt (rt_call (rt_Start (ss_Runtime sv) (c_IncusName vm))) (\<lambda>e. raise (er e)) ret)
        (\<lambda>_. made_running sv vm x [c_Name vm]))"
      unfolding case_prod_unfold by (intro keeps_rules) (simp add: assms)
  qed
  show "keeps (tenant uid s0 X) (rebuild_vm sv backup vm)"
    unfolding rebuild_vm_def Let_def by (intro keeps_rules assms)
qed

lemma tenant_recreate [keeps_rules]:
  assumes "c_ID vm \<notin> theirs uid s0"
  shows "keeps (tenant uid s0 X) (recreate_vm sv c vm)"
proof -
  have rebuilt: "keeps (tenant uid s0 X) (bindE (attempt (MarkStarted d eff) (\<lambda>_. ret d) ret) (rebuild_vm sv backup))" if "c_ID d = c_ID vm" for d eff backup
    using assms that gives_prepared(3) [of d uid s0 X eff]
    by (intro gives_then [OF gives_fallback [where R = "\<lambda>x. c_ID x = c_ID vm"]] tenant_boot(2)) simp_all
  show ?thesis
    unfolding recreate_vm_def Let_def
  proof (rule keeps_bindE [OF tenant_status(1) [OF assms]], rule gives_then [OF gives_db(1) [OF gives_prepared(1) [OF assms]]], goal_cases)
    case (1 u p)
    obtain d es where p: "p = (d, es)" by (cases p)
    with 1 have d: "c_ID d = c_ID vm" by simp
    show ?case
      unfolding p case_prod_unfold fst_conv
      by (rule keeps_bindE, (intro keeps_rules; simp add: d assms; fail))+ (rule rebuilt [OF d])
  qed
qed

section \<open>Commands\<close>

text \<open>A command on one of the account's VMs.\<close>

lemma on_found:
  assumes "caller c = uid" and "\<And>vm. c_ID vm \<notin> theirs uid s0 \<Longrightarrow> keeps (tenant uid s0 X) (f vm)"
  shows "keeps (tenant uid s0 X) (bindE (findContainer c n) f)"
  using gives_found [OF assms(1)] assms(2) by (rule gives_then)

lemma tenant_vm_commands:
  assumes "caller c = uid"
  shows "keeps (tenant uid s0 X) (cmdLs sv c)" "keeps (tenant uid s0 X) (cmdStat sv c)" "keeps (tenant uid s0 X) (cmdRm sv c)"
    "keeps (tenant uid s0 X) (cmdStart sv c)" "keeps (tenant uid s0 X) (cmdStop sv c)" "keeps (tenant uid s0 X) (cmdRestart sv c)"
    "keeps (tenant uid s0 X) (cmdRename sv c)" "keeps (tenant uid s0 X) (cmdRecreate sv c)" "keeps (tenant uid s0 X) (cmdSSH sv c)"
proof -
  show "keeps (tenant uid s0 X) (cmdLs sv c)" "keeps (tenant uid s0 X) (cmdStat sv c)" "keeps (tenant uid s0 X) (cmdSSH sv c)"
    unfolding cmdLs_def cmdStat_def cmdSSH_def by (intro keeps_rules)+
  show "keeps (tenant uid s0 X) (cmdRm sv c)" "keeps (tenant uid s0 X) (cmdStart sv c)" "keeps (tenant uid s0 X) (cmdStop sv c)"
    "keeps (tenant uid s0 X) (cmdRestart sv c)" "keeps (tenant uid s0 X) (cmdRecreate sv c)"
    unfolding cmdRm_def cmdStart_def cmdStop_def cmdRestart_def cmdRecreate_def
    by (rule on_found [OF assms], intro keeps_rules; assumption)+
  show "keeps (tenant uid s0 X) (cmdRename sv c)"
    unfolding cmdRename_def Let_def
    by (rule keeps_if, rule keeps_raise, rule on_found [OF assms], intro keeps_rules; assumption)
qed

lemma tenant_new:
  assumes "caller c = uid"
  shows "keeps (tenant uid s0 X) (cmdNew sv c)"
proof -
  have "gives (tenant uid s0 X) (attempt (MarkStarted vm b) (\<lambda>_. ret vm) ret) (\<lambda>d. c_ID d \<notin> theirs uid s0)" if "c_ID vm \<notin> theirs uid s0" for vm b
    using that by (intro gives_fallback gives_weaken [OF gives_prepared(3) [OF that]]) simp_all
  then have started: "keeps (tenant uid s0 X) (bindE (attempt (MarkStarted vm b) (\<lambda>_. ret vm) ret) (start_new sv name))"
    if "c_ID vm \<notin> theirs uid s0" for vm b name
    using that by (auto intro: gives_then tenant_start_new)
  have made: "keeps (tenant uid s0 X) (bindE (wrap ''save VM'' (CreateContainer (new_vm c name task cpu memory disk rtc)))
      (\<lambda>vm. bindE (attempt (MarkStarted vm b) (\<lambda>_. ret vm) ret) (start_new sv name)))" for name task cpu memory disk rtc b
  proof (rule gives_then [OF gives_db(2) [OF gives_new_vm]])
    show "c_OwnerID (new_vm c name task cpu memory disk rtc) = uid" using assms by (simp add: new_vm_def)
  qed (elim conjE, rule started, assumption)
  show ?thesis
    unfolding cmdNew_def Let_def
    by (rule keeps_if, rule keeps_raise, rule keeps_bindE, rule keeps_rules, rule keeps_attempt, rule keeps_rules)
      ((rule keeps_bindE, (intro keeps_rules; fail))+, (rule keeps_if, rule keeps_raise), (rule keeps_bindE, (intro keeps_rules; fail))+, rule made,
        rule keeps_rules)
qed

text \<open>The settings of a VM.\<close>

lemma tenant_config_parts [keeps_rules]:
  "keeps (tenant uid s0 X) (published sv c x vm)" "keeps (tenant uid s0 X) (nested sv c vm)"
  "keeps (tenant uid s0 X) (link_expiry sv c)" "keeps (tenant uid s0 X) no_such_share" "keeps (tenant uid s0 X) (claim_said vm x y a)"
  "keeps (tenant uid s0 X) m \<Longrightarrow> keeps (tenant uid s0 X) (manager_do m)" "keeps (tenant uid s0 X) m \<Longrightarrow> keeps (tenant uid s0 X) (domainFailure m)"
  "keeps (tenant uid s0 X) (domainAlias sv vm r)"
  unfolding published_def nested_def link_expiry_def no_such_share_def claim_said_def manager_do_def domainFailure_def domainAlias_def Let_def
  by (intro keeps_rules; assumption?)+

lemma gives_target: "caller c = uid \<Longrightarrow> gives (tenant uid s0 X) (domainTarget sv c) (\<lambda>(m, vm). c_ID vm \<notin> theirs uid s0)"
  unfolding domainTarget_def
  by (cases "ss_Aliases sv") (auto intro!: gives_basic gives_bindE [OF gives_found])

lemma on_target:
  assumes "caller c = uid" and "\<And>m vm. c_ID vm \<notin> theirs uid s0 \<Longrightarrow> keeps (tenant uid s0 X) (f m vm)"
  shows "keeps (tenant uid s0 X) (bindE (domainTarget sv c) (\<lambda>(m, vm). f m vm))"
  by (rule gives_then [OF gives_target [OF assms(1)]]) (auto intro: assms(2))

lemma tenant_config_commands:
  assumes "caller c = uid"
  shows "keeps (tenant uid s0 X) (cmdPublish sv c)" "keeps (tenant uid s0 X) (cmdTaskRetry sv c)" "keeps (tenant uid s0 X) (cmdAgent sv c)"
    "keeps (tenant uid s0 X) (cmdAgentUpdate sv c)" "keeps (tenant uid s0 X) (cmdShareCreate sv c)" "keeps (tenant uid s0 X) (cmdShareList sv c)"
    "keeps (tenant uid s0 X) (cmdURL sv c)" "keeps (tenant uid s0 X) (cmdDomainList sv c)" "keeps (tenant uid s0 X) (cmdDomainAdd sv c)"
    "keeps (tenant uid s0 X) (cmdDomainVerify sv c)" "keeps (tenant uid s0 X) (cmdDomainRm sv c)" "keeps (tenant uid s0 X) (cmdTask sv c)"
proof -
  have build: "keeps (tenant uid s0 X) (agentBuild sv c)"
    unfolding agentBuild_def by (rule on_found [OF assms], intro keeps_rules)
  show "keeps (tenant uid s0 X) (cmdAgent sv c)" "keeps (tenant uid s0 X) (cmdAgentUpdate sv c)"
    unfolding cmdAgent_def cmdAgentUpdate_def case_prod_unfold by (intro keeps_rules build)+
  show "keeps (tenant uid s0 X) (cmdPublish sv c)" "keeps (tenant uid s0 X) (cmdTaskRetry sv c)" "keeps (tenant uid s0 X) (cmdShareCreate sv c)"
    "keeps (tenant uid s0 X) (cmdShareList sv c)" "keeps (tenant uid s0 X) (cmdURL sv c)" "keeps (tenant uid s0 X) (cmdTask sv c)"
    unfolding cmdPublish_def cmdTaskRetry_def cmdShareCreate_def cmdShareList_def cmdURL_def cmdTask_def Let_def case_prod_unfold
    by (rule on_found [OF assms], intro keeps_rules; assumption)+
  show "keeps (tenant uid s0 X) (cmdDomainList sv c)" "keeps (tenant uid s0 X) (cmdDomainAdd sv c)"
    "keeps (tenant uid s0 X) (cmdDomainVerify sv c)" "keeps (tenant uid s0 X) (cmdDomainRm sv c)"
    unfolding cmdDomainList_def cmdDomainAdd_def cmdDomainVerify_def cmdDomainRm_def Let_def
    by (rule on_target [OF assms], intro keeps_rules; assumption)+
qed

lemma tenant_nesting:
  assumes "caller c = uid"
  shows "keeps (tenant uid s0 X) (cmdNesting sv c)"
  unfolding cmdNesting_def
proof (rule on_found [OF assms])
  fix vm :: container assume vm: "c_ID vm \<notin> theirs uid s0"
  have again: "gives (tenant uid s0 X) (db (GetContainerByID (c_ID vm))) (\<lambda>d. c_ID d \<notin> theirs uid s0)"
    using vm by (intro gives_db(1) gives_weaken [OF gives_vm_by_id]) simp
  have applied: "keeps (tenant uid s0 X) (db (ApplyNesting rt d))" if "c_ID d \<notin> theirs uid s0" for rt d
    using givesD [OF gives_prepared(2) [OF that]] by (intro keeps_rules)
  show "keeps (tenant uid s0 X) (if arg c 1 = [] then bindE (attach_all vm) (nested sv c)
     else bindE (parsed (parseOnOff (sv_Lower (ss_Api sv)) (arg c 1))) (\<lambda>wanted.
       bindE (wrap ''read the nesting policy'' NestingAllowed) (\<lambda>allowed.
       if wanted \<and> \<not> allowed
       then refuse ''nested containers are disabled for this deployment; an administrator has to allow them first'' []
       else
         bindE (db (UpdateContainerNesting (c_ID vm) wanted)) (\<lambda>_.
         bindE (db (GetContainerByID (c_ID vm))) (\<lambda>updated0.
         bindE (db (ApplyNesting (ss_Runtime sv) updated0)) (\<lambda>(updated, _).
         bindE (quiet (RefreshEnvironmentGuide (ae_Guide (sv_Env (ss_Api sv))) (Some (ss_Runtime sv)) updated)) (\<lambda>_.
         bindE (attach_all updated) (nested sv c))))))))"
    unfolding case_prod_unfold
    by (rule keeps_if, (intro keeps_rules; fail), (rule keeps_bindE, (intro keeps_rules; fail))+, rule keeps_if, rule keeps_raise,
        rule keeps_bindE, (intro keeps_rules; rule vm), rule gives_then [OF again], rule keeps_bindE, erule applied, intro keeps_rules)
qed

text \<open>A link is reached through its VM.\<close>

lemma tenant_revoke:
  assumes "caller c = uid"
  shows "keeps (tenant uid s0 X) (cmdShareRevoke sv c)"
proof -
  have un: "keeps (tenant uid s0 X) (if e = ErrNoRows then no_such_share else raise (Db e))" for e by (intro keeps_rules)
  show ?thesis
    unfolding cmdShareRevoke_def Let_def
    by (rule keeps_if, rule keeps_raise, rule gives_attempt [OF gives_link], rule un, rule gives_attempt [OF gives_vm_by_id], rule un)
      (intro keeps_rules; simp add: assms)
qed

section \<open>The account\<close>

lemma tenant_account_commands:
  assumes "caller c = uid"
  shows "keeps (tenant uid s0 X) (cmdWhoami c)" "keeps (tenant uid s0 X) (cmdSSHKeyList c)" "keeps (tenant uid s0 X) (cmdSSHKeyAdd sv c)"
    "keeps (tenant uid s0 X) (cmdSSHKeyRemove c)" "keeps (tenant uid s0 X) (cmdLLMList c)" "keeps (tenant uid s0 X) (cmdLLMModels c)"
    "keeps (tenant uid s0 X) (cmdPassword sv c)" "keeps (tenant uid s0 X) (cmdHelp c)" "keeps (tenant uid s0 X) (cmdLLMAdd sv c)"
    "keeps (tenant uid s0 X) (cmdLLMRemove sv c)" "keeps (tenant uid s0 X) (cmdLLMDefault sv c)"
proof -
  show "keeps (tenant uid s0 X) (cmdWhoami c)" "keeps (tenant uid s0 X) (cmdSSHKeyList c)" "keeps (tenant uid s0 X) (cmdSSHKeyAdd sv c)"
    "keeps (tenant uid s0 X) (cmdSSHKeyRemove c)" "keeps (tenant uid s0 X) (cmdLLMList c)" "keeps (tenant uid s0 X) (cmdLLMModels c)"
    "keeps (tenant uid s0 X) (cmdPassword sv c)" "keeps (tenant uid s0 X) (cmdHelp c)"
    unfolding cmdWhoami_def cmdSSHKeyList_def cmdSSHKeyAdd_def cmdSSHKeyRemove_def cmdLLMList_def cmdLLMModels_def cmdPassword_def cmdHelp_def
      helpForCommand_def assms Let_def
    by (intro keeps_rules; simp)+
  have each: "keeps (tenant uid s0 X) (refresh_each api mz uid chosen cs)" for api :: "'r server" and mz chosen cs
    by (induction cs) (simp_all only: refresh_each.simps, (intro keeps_rules; assumption)+)
  have sync: "keeps (tenant uid s0 X) (reportLLMSync sv c)" for sv :: "'r ssh_server"
    unfolding reportLLMSync_def refreshKeysForUser_def assms by (intro keeps_rules each)
  have gone: "keeps (tenant uid s0 X) (remove_provider sv uid p ks)" for sv :: "'r ssh_server" and p ks
  proof (induction ks)
    case (Cons k ks)
    then show ?case unfolding remove_provider.simps by (intro keeps_rules; assumption)
  qed (unfold remove_provider.simps, rule keeps_rules)
  have choice: "keeps (tenant uid s0 X) (case e of ErrUnknownModel _ \<Rightarrow> bindE (reachableModels c) (\<lambda>models. raise (Unknown_choice e models))
      | _ \<Rightarrow> raise (Wrapped ''save the default model'' e))" for e
    unfolding reachableModels_def by (cases e) (simp_all add: keeps_rules)
  show "keeps (tenant uid s0 X) (cmdLLMAdd sv c)" "keeps (tenant uid s0 X) (cmdLLMRemove sv c)" "keeps (tenant uid s0 X) (cmdLLMDefault sv c)"
    unfolding cmdLLMAdd_def cmdLLMRemove_def cmdLLMDefault_def Let_def case_prod_unfold
    by (intro keeps_rules sync gone choice; simp add: assms gone keeps_rules)+
qed

section \<open>The world\<close>

definition apart_world :: "string \<Rightarrow> 'r ssh_world \<Rightarrow> 'r ssh_world \<Rightarrow> bool" where
  "apart_world uid w0 w \<longleftrightarrow> tenant uid (sw_Hub w0) {} (sw_Hub w)
     \<and> filter (\<lambda>g. ig_Owner g \<noteq> uid) (t_integrations (sw_Hub w)) = filter (\<lambda>g. ig_Owner g \<noteq> uid) (t_integrations (sw_Hub w0))
     \<and> sw_Host w = sw_Host w0 \<and> sw_Checker w = sw_Checker w0"

lemma tenant_hub: "tenant uid s0 X (gateway.truncate h) = tenant uid s0 X h" "tenant uid s0 X (gateway.extend g x) = tenant uid s0 X g"
  by (rule tenant_tables; simp add: gateway.defs)+

lemma apart_gateway_at:
  assumes w: "apart_world uid w0 w" and m: "m (gateway.truncate (sw_Hub w)) = (r, g)" and g: "tenant uid (sw_Hub w0) {} g"
  shows "apart_world uid w0 (snd (on_gateway m w))"
proof -
  let ?s = "gateway.truncate (sw_Hub w)"
  have s: "tenant uid (sw_Hub w0) {} ?s" using w by (simp add: apart_world_def tenant_hub)
  have "user_exists ?s x = user_exists g x" for x
    using s g unfolding tenant_def others_kept_def user_exists_def by (metis list.set_map)
  then have "cascade_connections ?s g gs = gs" for gs by (simp add: cascade_connections_def)
  then show ?thesis using w g by (simp add: on_gateway_def Let_def m apart_world_def tenant_hub) (simp add: gateway.defs hub.defs)
qed

lemma apart_on_gateway [keeps_rules]:
  assumes "keeps (tenant uid (sw_Hub w0) {}) m"
  shows "keeps (apart_world uid w0) (on_gateway m)"
proof (rule keepsI)
  fix w :: "'a ssh_world" assume w: "apart_world uid w0 w"
  obtain r g where m: "m (gateway.truncate (sw_Hub w)) = (r, g)" by fastforce
  have "tenant uid (sw_Hub w0) {} g" using keepsD [OF assms, of "gateway.truncate (sw_Hub w)"] w by (simp add: m apart_world_def tenant_hub)
  with w m show "apart_world uid w0 (snd (on_gateway m w))" by (rule apart_gateway_at)
qed

lemma apart_on_hub:
  assumes "\<And>h. only_connection uid p h (snd (m h)) \<or> same_data h (snd (m h))"
  shows "keeps (apart_world uid w0) (on_hub m)"
proof (rule keepsI)
  fix w :: "'a ssh_world" assume w: "apart_world uid w0 w"
  obtain r h where m: "m (sw_Hub w) = (r, h)" by fastforce
  from assms [of "sw_Hub w"] have "only_connection uid p (sw_Hub w) h" by (auto simp: m only_connection_same)
  then obtain fs where h: "h = (sw_Hub w)\<lparr>t_integrations := t_integrations h, faults := fs\<rparr>"
    and f: "filter (\<lambda>g. \<not> int_key uid p g) (t_integrations h) = filter (\<lambda>g. \<not> int_key uid p g) (t_integrations (sw_Hub w))"
    by (auto simp: only_connection_def elim: same_dataE)
  have "tenant uid (sw_Hub w0) {} ((sw_Hub w)\<lparr>t_integrations := x, faults := fs\<rparr>)" for x
    using w by (subst tenant_tables [of _ "sw_Hub w"]) (simp_all add: apart_world_def)
  then have t: "tenant uid (sw_Hub w0) {} h" using h by metis
  have "filter (\<lambda>g. ig_Owner g \<noteq> uid) xs = filter (\<lambda>g. ig_Owner g \<noteq> uid) (filter (\<lambda>g. \<not> int_key uid p g) xs)" for xs
    by (rule filter_drop [symmetric]) (simp add: int_key_def)
  then have "filter (\<lambda>g. ig_Owner g \<noteq> uid) (t_integrations h) = filter (\<lambda>g. ig_Owner g \<noteq> uid) (t_integrations (sw_Hub w))"
    using f by metis
  with w t show "apart_world uid w0 (snd (on_hub m w))" by (simp add: on_hub_def m apart_world_def)
qed

lemma apart_connections:
  "keeps (apart_world uid w0) (on_hub (List_connections cd iv uid))" "keeps (apart_world uid w0) (on_hub (Save cd iv rnd uid p i))"
  "keeps (apart_world uid w0) (on_hub (Delete_connection iv uid p))"
proof -
  have "same_data h (snd (List_connections cd iv uid h))" for h :: "'a hub"
    by (cases "exec (sql_value (\<lambda>s. sort_key ig_Provider (filter (\<lambda>g. ig_Owner g = uid) (t_integrations s)))) h")
      (auto simp: List_connections_def db_do_def attempt_def bindE_def sql_value_def split: sum.split prod.split
        dest: exec_error_same elim!: exec_InrE)
  then show "keeps (apart_world uid w0) (on_hub (List_connections cd iv uid))" by (intro apart_on_hub) blast
  show "keeps (apart_world uid w0) (on_hub (Save cd iv rnd uid p i))" "keeps (apart_world uid w0) (on_hub (Delete_connection iv uid p))"
    by (rule apart_on_hub, rule disjI1, rule Save_only Delete_only)+
qed

lemma apart_integrations:
  assumes "caller c = uid"
  shows "keeps (apart_world uid w0) (cmdIntegrationList sv c)" "keeps (apart_world uid w0) (cmdIntegrationProviders sv)"
    "keeps (apart_world uid w0) (cmdIntegrationAdd sv c)" "keeps (apart_world uid w0) (cmdIntegrationRemove sv c)"
  unfolding cmdIntegrationList_def cmdIntegrationProviders_def cmdIntegrationAdd_def cmdIntegrationRemove_def Let_def assms
  by (intro keeps_rules apart_connections)+

section \<open>A session\<close>

lemma apart_run:
  assumes "caller c = uid" and "x \<notin> set admin_runs"
  shows "keeps (apart_world uid w0) (run_command sv x c)"
  using assms(2)
  by (cases x) (simp_all only: run_command.simps apart_on_gateway tenant_vm_commands [OF assms(1)] tenant_new [OF assms(1)]
      tenant_config_commands [OF assms(1)] tenant_nesting [OF assms(1)] tenant_revoke [OF assms(1)] tenant_account_commands [OF assms(1)]
      apart_integrations [OF assms(1)] keeps_raise, simp_all add: admin_runs_def)

text \<open>The role an account had at the start is the one a session sees.\<close>

lemma still_no_admin:
  assumes "tenant uid s0 X s" and "\<forall>u\<in>set (t_users s0). u_ID u = uid \<longrightarrow> \<not> isAdmin u" and "x \<in> set (t_users s)" and "u_ID x = uid"
  shows "\<not> isAdmin x"
proof -
  obtain i where i: "i < length (t_users s)" "t_users s ! i = x" using assms(3) by (auto simp: in_set_conv_nth)
  have "map u_ID (t_users s) = map u_ID (t_users s0)" "map u_Role (t_users s) = map u_Role (t_users s0)"
    using assms(1) by (simp_all add: tenant_def others_kept_def)
  then have "i < length (t_users s0)" "u_ID (t_users s0 ! i) = uid" "u_Role (t_users s0 ! i) = u_Role x"
    using i assms(4) by (metis length_map, metis length_map nth_map, metis length_map nth_map)
  then have "\<not> isAdmin (t_users s0 ! i)" and "u_Role (t_users s0 ! i) = u_Role x" using assms(2) nth_mem by blast+
  then show ?thesis by (simp add: isAdmin_def)
qed

lemma gives_current:
  fixes s0 :: "'y store_scheme"
  assumes "\<forall>u\<in>set (t_users s0). u_ID u = uid \<longrightarrow> \<not> isAdmin u" and "\<forall>u. who = Some u \<longrightarrow> u_ID u = uid"
  shows "gives (tenant uid s0 X) (currentUser who :: ('r gateway, ssh_error, user) sm) (\<lambda>u. u_ID u = uid \<and> \<not> isAdmin u)"
proof (cases who)
  case (Some u)
  have "u_ID x = uid \<and> \<not> isAdmin x" if s: "tenant uid s0 X s" and r: "GetUserByID uid s = (Inr x, t)" for s t :: "'r gateway" and x
  proof -
    have x: "x \<in> set (t_users s)" "u_ID x = uid" using r by (auto simp: GetUserByID_def dest!: users.row_ok)
    with still_no_admin [OF s assms(1)] show ?thesis by blast
  qed
  then have "gives (tenant uid s0 X) (GetUserByID uid :: ('r gateway, dberr, user) sm) (\<lambda>x. u_ID x = uid \<and> \<not> isAdmin x)"
    by (auto simp: gives_def tenant_reads)
  then show ?thesis using Some assms(2) by (simp add: currentUser_def gives_handled gives_basic)
qed (simp add: currentUser_def gives_basic)

lemma gives_on_gateway:
  assumes "gives (tenant uid (sw_Hub w0) {}) m R"
  shows "gives (apart_world uid w0) (on_gateway m) R"
  unfolding gives_def
proof (intro conjI allI impI)
  show "keeps (apart_world uid w0) (on_gateway m)" using givesD [OF assms] by (rule apart_on_gateway)
  fix w a v assume "apart_world uid w0 w \<and> on_gateway m w = (Inr a, v)"
  then have "tenant uid (sw_Hub w0) {} (gateway.truncate (sw_Hub w))" and "\<exists>g. m (gateway.truncate (sw_Hub w)) = (Inr a, g)"
    by (auto simp: apart_world_def tenant_hub on_gateway_def Let_def split: prod.splits)
  then show "R a" using assms by (auto simp: gives_def)
qed

lemma apart_exec:
  assumes "\<forall>u\<in>set (t_users (sw_Hub w0)). u_ID u = uid \<longrightarrow> \<not> isAdmin u" and "\<forall>u. se_User se = Some u \<longrightarrow> u_ID u = uid"
  shows "keeps (apart_world uid w0) (ssh_exec sv se interactive line i)"
  unfolding ssh_exec_def
proof (rule gives_then [OF gives_on_gateway [OF gives_current [OF assms]]])
  fix u assume u: "u_ID u = uid \<and> \<not> isAdmin u"
  have "keeps (apart_world uid w0) (run_command sv (ac_Run a) (call_of se u interactive i a))" if "gate u interactive tokens = Inr a" for tokens a
    using gate_passes [OF that] u by (intro apart_run) (simp_all add: call_of_def)
  then have g: "keeps (apart_world uid w0) (bindE (parsed (gate u interactive tokens)) (\<lambda>a. run_command sv (ac_Run a) (call_of se u interactive i a)))" for tokens
    by (cases "gate u interactive tokens") (auto simp: parsed_def bindE_def ret_def raise_def keeps_def)
  show "keeps (apart_world uid w0) (bindE (parsed (splitArgs line)) (\<lambda>tokens. if tokens = [] then ret No_output
     else bindE (parsed (gate u interactive tokens)) (\<lambda>a. run_command sv (ac_Run a) (call_of se u interactive i a))))"
    by (intro keeps_bindE keeps_ssh keeps_if keeps_ret g)
qed

lemma session_apart:
  assumes "apart_world uid w0 w" and "\<forall>u\<in>set (t_users (sw_Hub w0)). u_ID u = uid \<longrightarrow> \<not> isAdmin u" and "\<forall>u. se_User se = Some u \<longrightarrow> u_ID u = uid"
  shows "apart_world uid w0 (snd (handleSession sv se i lines w))"
proof (rule session_keeps [where I = "apart_world uid w0", OF _ _ _ assms(1)])
  show "keeps (apart_world uid w0) (ssh_exec sv se interactive line i)" for interactive line i by (rule apart_exec [OF assms(2,3)])
  show "keeps (apart_world uid w0) (on_gateway (accessibleVM u n))" for u n unfolding accessibleVM_def by (intro keeps_rules)
  show "keeps (apart_world uid w0) (on_gateway (attach sv (u_ID u) (se_Pty se) vm cm))" for u vm cm by (intro keeps_rules)
qed

lemma apart_start: "uniq_ok (sw_Hub w) \<Longrightarrow> apart_world uid w w"
  by (simp add: apart_world_def tenant_def others_kept_refl)

text \<open>A session of an account that is no administrator changes nothing of the other accounts, whatever its login name, its
  command or the lines of its menu are: their accounts, VMs, share links, guests, keys, SSH keys, connections and routed
  domains stay as they were, no claim is made for one of their VMs, nobody is signed in or out, the settings, the update
  and its check are untouched.  The unique indexes are needed, and hold in every reachable state; engine failures, answers of
  the container runtime and of DNS are arbitrary.\<close>

theorem ssh_tenant_isolated:
  assumes "uniq_ok (sw_Hub w)" and "\<forall>u\<in>set (t_users (sw_Hub w)). u_ID u = uid \<longrightarrow> \<not> isAdmin u"
    and "\<forall>u. se_User se = Some u \<longrightarrow> u_ID u = uid" and "v = snd (handleSession sv se i lines w)"
  shows "others_kept uid (sw_Hub w) (sw_Hub v)
    \<and> filter (\<lambda>g. ig_Owner g \<noteq> uid) (t_integrations (sw_Hub v)) = filter (\<lambda>g. ig_Owner g \<noteq> uid) (t_integrations (sw_Hub w))
    \<and> sw_Host v = sw_Host w \<and> sw_Checker v = sw_Checker w"
  using session_apart [OF apart_start [OF assms(1)] assms(2,3), of sv i lines] by (simp add: apart_world_def tenant_def assms(4))

section \<open>An instance\<close>

text \<open>Two accounts with a VM each, one of which renames its own.\<close>

definition demo_two :: "unit ssh_world" where
  "demo_two = demo_world (demo_hub\<lparr>t_users := [demo_user ''u1'' ''user'', demo_user ''u2'' ''user''],
     t_containers := [demo_vm ''c1'' ''web'' ''u1'', demo_vm ''c2'' ''api'' ''u2'']\<rparr>)"

definition demo_session :: ssh_session where
  "demo_session = \<lparr>se_User = Some (demo_user ''u1'' ''user''), se_Login = ''svkexe'', se_Raw = [], se_Pty = None, se_Key = []\<rparr>"

definition demo_typed :: ssh_input where
  "demo_typed = \<lparr>in_UUID = ''n'', in_Random = None, in_Typed = [], in_Stdin = [], in_CheckDone = 0, in_Cancelled = None\<rparr>"

lemma demo_rename_words:
  "splitArgs ''rename web site'' = Inr [''rename'', ''web'', ''site'']"
  "map_sum id (\<lambda>a. (ac_Run a, ac_Args a)) (gate (demo_user ''u1'' ''user'') True [''rename'', ''web'', ''site'']) = Inr (RunRename, [''web'', ''site''])"
  "EqualFold ''svkexe'' menuLogin" "ValidContainerName ''site''"
  by code_simp+

lemma demo_rename:
  "\<exists>v. ssh_exec demo_ssh demo_session True ''rename web site'' demo_typed demo_two = (Inr (Said ''VM %q renamed to %q.'' [''web'', ''site'']), v)
    \<and> map c_Name (t_containers (sw_Hub v)) = [''site'', ''api'']"
proof -
  from demo_rename_words(2) obtain a where a: "gate (demo_user ''u1'' ''user'') True [''rename'', ''web'', ''site''] = Inr a"
    "ac_Run a = RunRename" "ac_Args a = [''web'', ''site'']"
    by (cases "gate (demo_user ''u1'' ''user'') True [''rename'', ''web'', ''site'']") auto
  let ?c = "call_of demo_session (demo_user ''u1'' ''user'') True demo_typed a"
  have c: "arg ?c 0 = ''web''" "arg ?c (Suc 0) = ''site''" "length (sc_Args ?c) = 2" "caller ?c = ''u1''"
    by (simp_all add: arg_def call_of_def a demo_user_def)
  have u: "on_gateway (currentUser (se_User demo_session)) demo_two = (Inr (demo_user ''u1'' ''user''), demo_two)"
    by (simp add: on_gateway_def currentUser_def demo_session_def demo_two_def demo_world_def demo_hub_def gateway.defs hub.defs Let_def
        GetUserByID_def run_defs demo_user_def cascade_connections_def)
  have r: "\<exists>v. on_gateway (cmdRename demo_ssh ?c) demo_two = (Inr (Said ''VM %q renamed to %q.'' [''web'', ''site'']), v)
      \<and> map c_Name (t_containers (sw_Hub v)) = [''site'', ''api'']"
    by (simp add: cmdRename_def c findContainer_def checkVMName_def demo_rename_words(4) GetContainerByName_def get_container_def
        RenameContainer_def update_container_def with_now_def db_def on_gateway_def demo_two_def demo_world_def demo_hub_def gateway.defs hub.defs
        Let_def run_defs demo_vm_def scanContainer_def uq_containers_def cascade_connections_def)
  show ?thesis
    using r by (simp add: ssh_exec_def bindE_def u parsed_def demo_rename_words(1) a)
qed

theorem ssh_tenant_isolated_witness:
  "\<exists>v. v = snd (handleSession demo_ssh demo_session demo_typed [(''rename web site'', demo_typed)] demo_two)
    \<and> map c_Name (t_containers (sw_Hub v)) = [''site'', ''api'']
    \<and> others_kept ''u1'' (sw_Hub demo_two) (sw_Hub v)"
proof -
  let ?lines = "[(''rename web site'', demo_typed)]"
  let ?v = "snd (handleSession demo_ssh demo_session demo_typed ?lines demo_two)"
  have t: "TrimSpace [] = []" by code_simp
  obtain w where e: "ssh_exec demo_ssh demo_session True ''rename web site'' demo_typed demo_two = (Inr (Said ''VM %q renamed to %q.'' [''web'', ''site'']), w)"
    and w: "map c_Name (t_containers (sw_Hub w)) = [''site'', ''api'']" using demo_rename by (elim exE conjE)
  have f: "se_User demo_session = Some (demo_user ''u1'' ''user'')" "se_Login demo_session = ''svkexe''" "se_Raw demo_session = []"
    by (simp_all add: demo_session_def)
  have "runMenu demo_ssh demo_session ?lines demo_two = (([Inr (Said ''VM %q renamed to %q.'' [''web'', ''site''])], Closed), w)"
    by (simp add: e)
  then have "?v = w" by (simp only: handleSession_def f option.case demo_rename_words(3) t Let_def simp_thms if_False if_True prod.case sum.case) simp
  with w have "map c_Name (t_containers (sw_Hub ?v)) = [''site'', ''api'']" by simp
  moreover have "uniq_ok (sw_Hub demo_two)"
    by (simp add: demo_two_def demo_world_def demo_hub_def uniq_ok_def uq_defs demo_user_def demo_vm_def)
  then have "others_kept ''u1'' (sw_Hub demo_two) (sw_Hub ?v)"
    using ssh_tenant_isolated [of demo_two "''u1''" demo_session ?v demo_ssh demo_typed ?lines]
    by (simp add: demo_two_def demo_world_def demo_hub_def demo_user_def demo_session_def isAdmin_def)
  ultimately have "?v = ?v \<and> map c_Name (t_containers (sw_Hub ?v)) = [''site'', ''api''] \<and> others_kept ''u1'' (sw_Hub demo_two) (sw_Hub ?v)"
    by (intro conjI refl)
  then show ?thesis by (rule exI)
qed

end
