(* ===== verification/Api_Tenants.thy ===== *)
theory Api_Tenants
  imports Tenants
begin

text \<open>
  What a request of the JSON API can change: for an account that is no administrator, its own rows only.  The routes of a
  VM are reached by its owner, whose handlers keep \<open>tenant\<close>, or only read.
\<close>

section \<open>Handlers of a VM\<close>

lemma tenant_answers [keeps_rules]:
  "keeps (tenant uid s0 X) (respond st b)" "keeps (tenant uid s0 X) (http_error msg st)" "keeps (tenant uid s0 X) (see_other l k)"
  "keeps (tenant uid s0 X) (writeAliasError sv e)"
proof -
  show a: "keeps (tenant uid s0 X) (respond st b)" "keeps (tenant uid s0 X) (http_error msg st)" "keeps (tenant uid s0 X) (see_other l k)" for st b msg l k
    unfolding respond_def http_error_def see_other_def by (intro keeps_rules)+
  show "keeps (tenant uid s0 X) (writeAliasError sv e)" unfolding writeAliasError_def http_error_def respond_def by (cases e) (simp_all add: keeps_ret)
qed

lemma tenant_and_status [keeps_rules]:
  "cid \<notin> theirs uid s0 \<Longrightarrow> keeps (tenant uid s0 X) f \<Longrightarrow> keeps (tenant uid s0 X) (and_status cid st ip f)"
  unfolding and_status_def by (intro keeps_rules; assumption)

lemma on_vm:
  assumes "cid \<notin> theirs uid s0" and "\<And>c. c_ID c = cid \<Longrightarrow> keeps (tenant uid s0 X) (f c)"
  shows "keeps (tenant uid s0 X) (with_vm cid f)" "keeps (tenant uid s0 X) (containerForAlias cid f)"
proof -
  have g: "gives (tenant uid s0 X) (GetContainerByID cid) (\<lambda>c. c_ID c = cid)" by (rule gives_weaken [OF gives_vm_by_id]) simp
  show "keeps (tenant uid s0 X) (with_vm cid f)" "keeps (tenant uid s0 X) (containerForAlias cid f)"
    unfolding with_vm_def containerForAlias_def by (rule gives_attempt [OF g], intro keeps_rules, erule assms(2))+
qed

lemma tenant_finish [keeps_rules]:
  assumes "c_ID c \<notin> theirs uid s0"
  shows "keeps (tenant uid s0 X) (finish_create sv c)" "keeps (tenant uid s0 X) (finish_start sv c)"
  unfolding finish_create_def finish_start_def Let_def by (intro keeps_rules assms)+

lemma tenant_started [keeps_rules]:
  assumes "c_ID c \<notin> theirs uid s0"
  shows "keeps (tenant uid s0 X) (start_created sv rtc c)"
  unfolding start_created_def Let_def by (intro keeps_rules; simp add: assms)

lemma on_prepared:
  assumes "c_ID c \<notin> theirs uid s0" and "\<And>d. c_ID d = c_ID c \<Longrightarrow> keeps (tenant uid s0 X) (f d)"
  shows "keeps (tenant uid s0 X) (bindE (PrepareStart rt c) (\<lambda>(d, _). f d))"
  by (rule gives_then [OF gives_prepared(1) [OF assms(1)]]) (auto intro: assms(2))

lemma tenant_boot_api [keeps_rules]:
  assumes "c_ID c \<notin> theirs uid s0"
  shows "keeps (tenant uid s0 X) (boot sv c)" "keeps (tenant uid s0 X) (rebuild sv c backup)" "keeps (tenant uid s0 X) (doRecreate sv c)"
proof -
  show "keeps (tenant uid s0 X) (boot sv c)"
    unfolding boot_def by (rule on_prepared [OF assms], intro keeps_rules; simp add: assms)
  have revive: "keeps (tenant uid s0 X) (revive sv i d backup)" if "i \<notin> theirs uid s0" for i d backup
    unfolding revive_def Let_def using that by (intro keeps_rules)
  have marked: "keeps (tenant uid s0 X) (attempt (MarkStarted d b) (\<lambda>_. ret d) ret)" if "c_ID d = c_ID c" for d b
    using givesD [OF gives_prepared(3) [of d uid s0 X b]] that assms by (intro keeps_rules) simp_all
  have rebuild: "keeps (tenant uid s0 X) (rebuild sv d backup)" if "c_ID d = c_ID c" for d backup
    unfolding rebuild_def case_prod_unfold
    by (rule keeps_bindE, (intro keeps_rules; fail), rule keeps_attempt, (intro keeps_rules; fail), (intro keeps_rules; simp add: that assms),
        rule keeps_bindE, rule marked, rule that, rule revive, simp add: that assms)
  show "keeps (tenant uid s0 X) (rebuild sv c backup)" by (rule rebuild) simp
  show "keeps (tenant uid s0 X) (doRecreate sv c)"
    unfolding doRecreate_def Let_def by (rule on_prepared [OF assms], intro keeps_rules rebuild; simp add: assms)
qed

lemma tenant_vm_handlers:
  assumes "cid \<notin> theirs uid s0" and "u_ID u = uid"
  shows "keeps (tenant uid s0 X) (serve_vm sv r u cid vr)"
proof -
  have vms: "keeps (tenant uid s0 X) (getContainer cid)" "keeps (tenant uid s0 X) (deleteContainer sv cid)"
    "keeps (tenant uid s0 X) (startContainer sv cid)" "keeps (tenant uid s0 X) (stopContainer sv cid)" "keeps (tenant uid s0 X) (recreateContainer sv cid)"
    unfolding getContainer_def deleteContainer_def startContainer_def stopContainer_def recreateContainer_def
    by (rule on_vm(1) [OF assms(1)], intro keeps_rules; simp add: assms)+
  have rows: "keeps (tenant uid s0 X) (updatePublish sv r cid)" "keeps (tenant uid s0 X) (retryInitialTask sv cid)"
    "keeps (tenant uid s0 X) (createSharedLink sv r u cid)" "keeps (tenant uid s0 X) (listSharedLinks cid)"
    unfolding updatePublish_def retryInitialTask_def createSharedLink_def listSharedLinks_def Let_def by (intro keeps_rules assms)+
  have claims: "keeps (tenant uid s0 X) (listAliases cid)" "keeps (tenant uid s0 X) (createAlias sv r cid)"
    "keeps (tenant uid s0 X) (verifyAlias sv cid aid)" "keeps (tenant uid s0 X) (deleteAlias sv cid aid)" for aid
    unfolding listAliases_def createAlias_def verifyAlias_def deleteAlias_def
    by (rule on_vm(2) [OF assms(1)], intro keeps_rules; simp add: assms)+
  show ?thesis by (cases vr) (simp_all only: serve_vm.simps vms rows claims)
qed

section \<open>Handlers of the account\<close>

lemma tenant_create:
  assumes "u_ID u = uid"
  shows "keeps (tenant uid s0 X) (createContainer sv r u)"
proof -
  have marked: "keeps (tenant uid s0 X) (attempt (MarkStarted c b) (\<lambda>_. start_created sv rtc c) (start_created sv rtc))"
    if "c_ID c \<notin> theirs uid s0" for c b rtc
    using that by (intro gives_attempt [OF gives_prepared(3)] tenant_started) simp_all
  have made: "keeps (tenant uid s0 X) (attempt (CreateContainer (new_container q nid (u_ID u) rtc nesting)) (\<lambda>e. h e)
      (\<lambda>c. attempt (MarkStarted c b) (\<lambda>_. start_created sv rtc c) (start_created sv rtc)))"
    if "\<And>e. keeps (tenant uid s0 X) (h e)" for q nid rtc nesting b h
    using assms that by (intro gives_attempt [OF gives_new_vm] marked) (simp_all add: new_container_def)
  have "keeps (tenant uid s0 X) (make_container sv u nid q)" for nid q
    unfolding make_container_def Let_def by (intro keeps_attempt keeps_rules made)
  then show ?thesis unfolding createContainer_def by (intro keeps_rules)
qed

lemma tenant_revoke_share:
  assumes "u_ID u = uid"
  shows "keeps (tenant uid s0 X) (revokeSharedLink u tok)"
proof -
  have lost: "keeps (tenant uid s0 X) (if e = ErrNoRows then http_error ''not found'' 404 else http_error ''internal error'' 500)" for e
    by (intro keeps_rules)
  show ?thesis
    unfolding revokeSharedLink_def Let_def
    by (rule keeps_if, rule keeps_rules, rule gives_attempt [OF gives_link], rule lost, rule gives_attempt [OF gives_vm_by_id], rule lost)
      (intro keeps_rules; simp add: assms)
qed

lemma tenant_refreshed [keeps_rules]:
  "keeps (tenant uid s0 X) (refreshKeysForUser sv i)"
  "keeps (tenant uid s0 X) f \<Longrightarrow> keeps (tenant uid s0 X) (after_sync sv i msg f)"
proof -
  have "keeps (tenant uid s0 X) (refresh_each sv mz i chosen cs)" for mz chosen cs
    by (induction cs) (simp_all only: refresh_each.simps, (intro keeps_rules; assumption?)+)
  then show r: "keeps (tenant uid s0 X) (refreshKeysForUser sv i)" unfolding refreshKeysForUser_def by (intro keeps_rules)
  show "keeps (tenant uid s0 X) f \<Longrightarrow> keeps (tenant uid s0 X) (after_sync sv i msg f)" unfolding after_sync_def by (intro keeps_rules r)
qed

lemma tenant_account:
  assumes "u_ID u = uid"
  shows "keeps (tenant uid s0 X) (listKeys u)" "keeps (tenant uid s0 X) (createKey sv r u)" "keeps (tenant uid s0 X) (deleteKey sv u kid)"
    "keeps (tenant uid s0 X) (listLLMModels u)" "keeps (tenant uid s0 X) (putDefaultModel sv r u)" "keeps (tenant uid s0 X) (listSSHKeys u)"
    "keeps (tenant uid s0 X) (createSSHKey sv r u)" "keeps (tenant uid s0 X) (deleteSSHKey u kid)" "keeps (tenant uid s0 X) (getMe u)"
    "keeps (tenant uid s0 X) (listContainers u)"
proof -
  have told: "keeps (tenant uid s0 X) (case e of ErrUnknownModel _ \<Rightarrow> http_error (sv_Error sv e) 400
      | ErrNoRows \<Rightarrow> http_error ''not found'' 404 | _ \<Rightarrow> http_error ''failed to save the default model'' 500)" for e
    by (cases e) (simp_all add: tenant_answers)
  show "keeps (tenant uid s0 X) (listKeys u)" "keeps (tenant uid s0 X) (createKey sv r u)" "keeps (tenant uid s0 X) (deleteKey sv u kid)"
    "keeps (tenant uid s0 X) (listLLMModels u)" "keeps (tenant uid s0 X) (putDefaultModel sv r u)" "keeps (tenant uid s0 X) (listSSHKeys u)"
    "keeps (tenant uid s0 X) (createSSHKey sv r u)" "keeps (tenant uid s0 X) (deleteSSHKey u kid)" "keeps (tenant uid s0 X) (getMe u)"
    "keeps (tenant uid s0 X) (listContainers u)"
    unfolding listKeys_def createKey_def deleteKey_def listLLMModels_def putDefaultModel_def listSSHKeys_def createSSHKey_def deleteSSHKey_def
      getMe_def listContainers_def Let_def assms
    by (intro told keeps_rules; simp add: assms)+
qed

section \<open>A request\<close>

lemma tenant_getContainer: "keeps (tenant uid s0 X) (getContainer cid)"
  unfolding getContainer_def with_vm_def by (intro keeps_rules)

lemma tenant_route:
  assumes "u_ID u = uid" and "u_Role u \<noteq> ''admin''" and "api_route (ar_Method r) (ar_Path r) = Some rt"
  shows "keeps (tenant uid s0 X) (serve_route sv r u rt)"
proof (cases rt)
  case (Vm cid vr)
  have get: "vr = VmGet" if "ar_Method r = ''GET''" "TrimSuffix (ar_Path r) ''/'' = ''/api/containers/'' @ cid"
    using one_segment [OF that(2)] vm_route_id assms(3) that(1) Vm by fastforce
  have lost: "keeps (tenant uid s0 X) (if e = ErrNoRows then http_error ''container not found'' 404 else http_error ''internal error'' 500)" for e
    by (intro keeps_rules)
  have mine: "keeps (tenant uid s0 X) (serve_vm sv r u cid vr)" if "cid \<notin> theirs uid s0" by (rule tenant_vm_handlers [OF that assms(1)])
  have shared: "keeps (tenant uid s0 X) (bindE (CanUseContainer i j) (\<lambda>can. if can then serve_vm sv r u cid vr else http_error ''forbidden'' 403))"
    if "vr = VmGet" for i j
    using that tenant_getContainer by (intro keeps_rules) simp
  have "keeps (tenant uid s0 X) (if c_OwnerID c = u_ID u then serve_vm sv r u cid vr
      else if ar_Method r = ''GET'' \<and> TrimSuffix (ar_Path r) ''/'' = ''/api/containers/'' @ cid
      then bindE (CanUseContainer (c_ID c) (u_ID u)) (\<lambda>can. if can then serve_vm sv r u cid vr else http_error ''forbidden'' 403)
      else http_error ''forbidden'' 403)" if "c_ID c = cid \<and> (c_OwnerID c = uid \<longrightarrow> cid \<notin> theirs uid s0)" for c
    using that assms(1) get by (intro keeps_if mine shared tenant_answers) simp_all
  then show ?thesis
    unfolding Vm serve_route.simps OwnershipMiddleware_def by (rule gives_attempt [OF gives_vm_by_id lost])
next
  case (Admin ar)
  then show ?thesis using assms(2) by (simp add: AdminMiddleware_def tenant_answers)
qed (simp_all only: serve_route.simps tenant_create [OF assms(1)] tenant_revoke_share [OF assms(1)] tenant_account [OF assms(1)])

lemma tenant_same: "tenant uid s0 X s \<Longrightarrow> same_data s t \<Longrightarrow> tenant uid s0 X t"
  using tenant_tables [of t s uid s0 X] same_data_fields [of s t] by simp

lemma tenant_start: "uniq_ok s \<Longrightarrow> tenant uid s {} s"
  by (simp add: tenant_def others_kept_refl)

lemma tenant_api:
  fixes s :: "'r gateway"
  assumes "tenant uid s0 {} s" and "\<And>u. signed_in s r u \<Longrightarrow> u_ID u = uid \<and> u_Role u \<noteq> ''admin''"
    and "api_route (ar_Method r) (ar_Path r) = Some rt"
  shows "tenant uid s0 {} (snd (serve_api sv rest r s))"
proof -
  let ?I = "tenant uid s0 {} :: 'r gateway \<Rightarrow> bool"
  have same: "same_data s t \<Longrightarrow> ?I t" for t by (rule tenant_same [OF assms(1)])
  have weak: "keeps ?I m \<Longrightarrow> hoare (same_data s) m (\<lambda>_. ?I) (\<lambda>_. ?I)" for m
    unfolding keeps_hoare by (erule hoare_conseq) (auto intro: same)
  have "hoare (same_data s) (AuthMiddleware r (\<lambda>u. serve_route sv r u rt)) (\<lambda>_. ?I) (\<lambda>_. ?I)"
    unfolding AuthMiddleware_def
  proof (rule hoare_bindE [OF hoare_conseq [OF hoare_authenticate]], assumption, assumption, blast, rule hoare_pre_pure)
    fix w assume w: "\<forall>u. w = Some u \<longrightarrow> signed_in s r u"
    have "keeps ?I (serve_route sv r u rt)" if "w = Some u" for u
      using assms(2) w that by (intro tenant_route [OF _ _ assms(3)]) blast+
    then show "hoare (same_data s) (case w of None \<Rightarrow> if wantsHTML r
           then see_other (''/login'' @ (if ar_Path r \<noteq> [] then ''?next='' @ ar_RequestURI r else [])) None
           else http_error ''unauthorized'' 401
       | Some u \<Rightarrow> if u_Role u = GuestRole \<and> \<not> guestRequestAllowed (ar_Method r) (ar_Path r)
           then http_error ''guest accounts may only use assigned VMs and manage their SSH keys'' 403
           else serve_route sv r u rt) (\<lambda>_. ?I) (\<lambda>_. ?I)"
      by (intro weak, cases w) (simp_all add: tenant_answers)
  qed
  then have "hoare (same_data s) (serve_api sv rest r) (\<lambda>_. ?I) (\<lambda>_. ?I)"
    unfolding serve_api_def assms(3) option.case by (rule hoare_attempt) (auto simp: respond_def intro!: hoare_ret)
  then show ?thesis by (rule hoare_snd) simp
qed

text \<open>A request of the JSON API that comes with the session of an account that is no administrator leaves everything of the
  other accounts as it was, on every route and every error path: their accounts, VMs, share links, guests, keys, SSH keys
  and routed domains, all sessions and the settings.  A request without a session changes none of it for any \<open>uid\<close>.  Engine
  failures, the container runtime's answers and DNS are arbitrary.\<close>

theorem api_tenant_isolated:
  fixes s :: "'r gateway"
  assumes "uniq_ok s" and "\<And>u. signed_in s r u \<Longrightarrow> u_ID u = uid \<and> u_Role u \<noteq> ''admin''"
    and "api_route (ar_Method r) (ar_Path r) = Some rt"
  shows "others_kept uid s (snd (serve_api sv rest r s))"
  using tenant_api [OF tenant_start [OF assms(1)] assms(2,3)] by (simp add: tenant_def)

text \<open>An account removes its SSH key; the key of the other one stays.\<close>

theorem api_tenant_isolated_witness:
  "\<exists>t. t = snd (serve_api demo_server (\<lambda>_ _. respond 404 NoBody) (demo_ask ''DELETE'' ''/api/ssh-keys/k1'' []) (demo_site ''user''))
    \<and> map k_ID (t_sshkeys t) = [''k2''] \<and> others_kept ''u1'' (demo_site ''user'') t"
proof -
  let ?r = "demo_ask ''DELETE'' ''/api/ssh-keys/k1'' []" and ?s = "demo_site ''user''"
  let ?t = "snd (serve_api demo_server (\<lambda>_ _. respond 404 NoBody) ?r ?s)"
  have rt: "api_route (ar_Method ?r) (ar_Path ?r) = Some (DeleteSsh ''k1'')" unfolding demo_ask_def by code_simp
  have role: "u_Role (demo_account ''user'') \<noteq> GuestRole" by (simp add: demo_account_def demo_user_def GuestRole_def)
  have auth: "AuthMiddleware ?r f ?s = f (demo_account ''user'') ?s" for f :: "user \<Rightarrow> unit http"
    by (simp add: AuthMiddleware_def bindE_def demo_site_session role)
  have run: "?t = snd (attempt (deleteSSHKey (demo_account ''user'') ''k1'') (\<lambda>_. respond 500 NoBody) ret ?s)"
    unfolding serve_api_def rt option.case by (simp add: attempt_def auth)
  have k: "map k_ID (t_sshkeys ?t) = [''k2'']"
    unfolding run by (simp add: deleteSSHKey_def DeleteSSHKey_def respond_def run_defs demo_site_def demo_gw_def demo_sshkey_def
        demo_account_def demo_user_def)
  have u: "uniq_ok ?s"
    by (simp add: demo_site_def demo_gw_def demo_account_def demo_user_def demo_alias_def demo_sshkey_def uniq_ok_def uq_defs)
  have "others_kept ''u1'' ?s ?t"
    by (rule api_tenant_isolated [OF u _ rt]) (simp_all add: signed_in_def demo_site_def demo_account_def demo_user_def)
  with k have "?t = ?t \<and> map k_ID (t_sshkeys ?t) = [''k2''] \<and> others_kept ''u1'' ?s ?t" by (intro conjI refl)
  then show ?thesis by (rule exI)
qed

end
