(* ===== verification/Dash_View.thy ===== *)
theory Dash_View
  imports Ssh_Account
begin

text \<open>
  What the dashboard shows: \<^verbatim>\<open>src/internal/dashboard/view.go\<close>, the helpers of \<^verbatim>\<open>dashboard.go\<close> and
  \<^verbatim>\<open>key_handlers.go\<close>, the origin checks of \<^verbatim>\<open>origin.go\<close> and \<^verbatim>\<open>access_handlers.go\<close>, the
  data of its pages, and its requests and answers.

  A page is the data its template is given; the templates are not in the model.  The bullet of a masked key is three
  bytes of UTF-8.  A handler may leave a job that runs after the answer (\<open>da_Job\<close>).
\<close>

section \<open>Labels\<close>

record progress_step =
  ps_Label :: string
  ps_State :: string
  ps_Last :: bool

record task_info =
  ti_Has :: bool
  ti_Label :: string
  ti_Tone :: string
  ti_Spin :: bool
  ti_OnHold :: bool
  ti_Failed :: bool
  ti_CanWatch :: bool
  ti_Steps :: "progress_step list"

text \<open>The label, the tone, whether it spins, whether it failed, and the stop of the track, before the VM is looked at.\<close>

definition task_stage :: "string \<Rightarrow> string \<times> string \<times> bool \<times> bool \<times> nat" where
  "task_stage st =
     (if st = TaskPending then (''Waiting for the VM'', ''mute'', False, False, 0)
      else if st = TaskSent then (''Handed to the agent'', ''accent'', True, False, 1)
      else if st = TaskWorking then (''Agent is working'', ''accent'', True, False, 2)
      else if st = TaskDone then (''Finished'', ''ok'', False, False, 3)
      else (''Did not finish'', ''danger'', False, True, 2))"

definition track_step :: "bool \<Rightarrow> bool \<Rightarrow> nat \<Rightarrow> nat \<Rightarrow> string \<Rightarrow> progress_step" where
  "track_step failed done idx i label =
     (let last = (i = 3) in
      if failed \<and> i = idx then \<lparr>ps_Label = ''Failed'', ps_State = ''failed'', ps_Last = last\<rparr>
      else if i < idx \<or> (i = idx \<and> done) then \<lparr>ps_Label = label, ps_State = ''done'', ps_Last = last\<rparr>
      else if i = idx then \<lparr>ps_Label = label, ps_State = ''current'', ps_Last = last\<rparr>
      else \<lparr>ps_Label = label, ps_State = ''todo'', ps_Last = last\<rparr>)"

definition vmTask :: "container option \<Rightarrow> task_info" where
  "vmTask x =
     (let none = \<lparr>ti_Has = False, ti_Label = ''No task'', ti_Tone = ''none'', ti_Spin = False, ti_OnHold = False, ti_Failed = False,
          ti_CanWatch = False, ti_Steps = []\<rparr> in
      case x of
        None \<Rightarrow> none
      | Some c \<Rightarrow>
          if c_InitialTaskState c = [] then none
          else
            let up = (c_Status c = ''running'' \<or> c_Status c = ''creating'');
                (label, tone, spin, failed, idx) = task_stage (c_InitialTaskState c);
                hold = (spin \<and> \<not> up);
                steps = map (\<lambda>(i, l). track_step failed (c_InitialTaskState c = TaskDone) idx i l)
                  (zip [0..<4] [''Queued'', ''Sent'', ''Working'', ''Done'']) in
            \<lparr>ti_Has = True, ti_Label = (if hold then ''On hold'' else label), ti_Tone = (if hold then ''mute'' else tone),
             ti_Spin = (spin \<and> up), ti_OnHold = hold, ti_Failed = failed,
             ti_CanWatch = (c_InitialTaskConversation c \<noteq> [] \<and> c_Status c = ''running''), ti_Steps = steps\<rparr>)"

definition statusLabel :: "(string \<Rightarrow> string) \<Rightarrow> string \<Rightarrow> string" where
  "statusLabel uni st = (if st = [] then ''Unknown'' else ToUpper uni (take 1 st) @ drop 1 st)"

definition statusClass :: "(string \<Rightarrow> string) \<Rightarrow> string \<Rightarrow> string" where
  "statusClass uni st =
     (let s = ToLower uni st in
      if s = ''running'' then ''running''
      else if s = ''stopped'' then ''stopped''
      else if s \<in> {''starting'', ''stopping'', ''restarting'', ''pending'', ''creating'', ''recreating''} then ''starting''
      else ''error'')"

definition memSize :: "int \<Rightarrow> string" where
  "memSize mb = (if mb \<ge> 1024 \<and> mb mod 1024 = 0 then Itoa (mb div 1024) @ '' GB'' else Itoa mb @ '' MB'')"

definition initial :: "(string \<Rightarrow> string) \<Rightarrow> string \<Rightarrow> string" where
  "initial uni s0 = (let s = TrimSpace s0 in if s = [] then ''?'' else ToUpper uni (take 1 s))"

definition roleLabel :: "string \<Rightarrow> string" where
  "roleLabel role = (if role = ''admin'' then ''Administrator'' else if role = GuestRole then ''Guest'' else ''Member'')"

definition providerLabel :: "string \<Rightarrow> string" where
  "providerLabel p =
     (case CutPrefix p ''custom-'' of
        Some name \<Rightarrow> name
      | None \<Rightarrow>
          if p = ''openrouter'' then ''OpenRouter'' else if p = ''openai'' then ''OpenAI''
          else if p = ''anthropic'' then ''Anthropic'' else if p = ''gemini'' then ''Gemini''
          else if p = ''fireworks'' then ''Fireworks'' else p)"

section \<open>Masked keys\<close>

definition bullet :: string where "bullet = [CHR 0xE2, CHR 0x80, CHR 0xA2]"

definition bullets :: "nat \<Rightarrow> string" where "bullets n = concat (replicate n bullet)"

definition maskKeyValue :: "string \<Rightarrow> string" where
  "maskKeyValue key =
     (if length key \<le> 8 then bullets (length key)
      else take 4 key @ bullets (length key - 8) @ drop (length key - 4) key)"

text \<open>What the templates call under the same purpose hides the length of a short key as well.\<close>

definition maskKey :: "string \<Rightarrow> string" where
  "maskKey key =
     (if length key \<le> 8 then bullets 8
      else take 4 key @ bullets (length key - 8) @ drop (length key - 4) key)"

section \<open>Origins and forms\<close>

text \<open>\<open>url.Parse\<close> gives the scheme and the host of an origin, or fails.\<close>

definition allowedWebSocketOrigin :: "(string \<Rightarrow> string) \<Rightarrow> string \<Rightarrow> string \<Rightarrow> bool" where
  "allowedWebSocketOrigin uni domain origin \<longleftrightarrow>
     domain = [] \<or> origin = []
     \<or> TrimSuffix (ToLower uni origin) ''/'' \<in> {''https://'' @ ToLower uni domain, ''http://'' @ ToLower uni domain}"

definition same_origin :: "(string \<Rightarrow> (string \<times> string) option) \<Rightarrow> string \<Rightarrow> string \<Rightarrow> string \<Rightarrow> bool" where
  "same_origin parse origin host site \<longleftrightarrow>
     (if origin \<noteq> []
      then (case parse origin of None \<Rightarrow> False | Some (scheme, h) \<Rightarrow> h = host \<and> scheme \<in> {''http'', ''https''})
      else site \<noteq> ''cross-site'' \<and> site \<noteq> ''same-site'')"

record dash_request =
  dq_Api :: api_request
  dq_Form :: "string \<Rightarrow> string"
  dq_Post :: "string \<Rightarrow> string"
  dq_Query :: "string \<Rightarrow> string"
  dq_Origin :: string
  dq_Host :: string
  dq_FetchSite :: string
  dq_UUID2 :: string
  dq_Cancelled :: "string option"
  dq_CheckDone :: int

definition formInt :: "dash_request \<Rightarrow> string \<Rightarrow> int \<Rightarrow> int" where
  "formInt q key def =
     (let s = dq_Form q key in
      if s = [] then def else case Atoi s of None \<Rightarrow> def | Some v \<Rightarrow> if v \<le> 0 then def else v)"

section \<open>Pages\<close>

record nav_counts =
  nc_VMs :: nat
  nc_LLM :: nat
  nc_SSHKeys :: nat

record template_data =
  td_User :: "user option"
  td_Domain :: string
  td_Containers :: "container list"
  td_Container :: "container option"
  td_IsAdmin :: bool
  td_NestingAllowed :: bool
  td_Nav :: nav_counts

record vm_card =
  vc_Container :: container
  vc_Members :: "(string \<times> string) list"
  vc_AccessError :: string
  vc_AccessEmail :: string

record key_row =
  kw_Provider :: string
  kw_BaseURL :: string
  kw_Models :: string
  kw_Protocol :: string
  kw_Masked :: string
  kw_CreatedAt :: int

record model_choice =
  mc_ID :: string
  mc_Label :: string
  mc_Selected :: bool

record llm_body =
  lb_Keys :: "key_row list"
  lb_Models :: "model_choice list"
  lb_Auto :: bool

record integration_row =
  iw_Descriptor :: descriptor
  iw_Connected :: bool
  iw_Config :: go_map

record system_page =
  sp_Data :: template_data
  sp_Version :: version_info
  sp_Status :: "upd_status option"
  sp_Run :: run_state
  sp_UpdateAvailable :: bool
  sp_CanUpdate :: bool
  sp_Reason :: string
  sp_CheckError :: string
  sp_StartError :: string
  sp_Checked :: bool
  sp_NestingAllowed :: bool
  sp_NestingError :: string

datatype dash_body =
    Nothing_shown
  | Plain_text string
  | Vms_page template_data
  | Vm_rows template_data
  | Create_form template_data
  | Vm_page template_data vm_card
  | Vm_fragment vm_card
  | Shell_page template_data
  | Keys_page template_data llm_body
  | Llm_fragment llm_body
  | Ssh_keys_page template_data "sshkey list" string
  | Integrations_page template_data "integration_row list"
  | System_body string system_page
  | Shell_session shell_request

text \<open>A VM to be made, with the effective nesting and the size, or to be remade, as the handler last saw it.\<close>

datatype dash_job = Make_vm container bool | Remake_vm container

record dash_answer =
  da_Status :: nat
  da_Location :: "string option"
  da_Body :: dash_body
  da_Job :: "dash_job option"

type_synonym 'r dash_gw = "('r gateway, dberr, dash_answer) sm"

type_synonym 'r dash = "('r ssh_world, dberr, dash_answer) sm"

definition dash_text :: "string \<Rightarrow> nat \<Rightarrow> ('s, 'e, dash_answer) sm" where
  "dash_text msg st = ret \<lparr>da_Status = st, da_Location = None, da_Body = Plain_text msg, da_Job = None\<rparr>"

definition shows_page :: "dash_body \<Rightarrow> ('s, 'e, dash_answer) sm" where
  "shows_page b = ret \<lparr>da_Status = 200, da_Location = None, da_Body = b, da_Job = None\<rparr>"

definition sent_to :: "string \<Rightarrow> nat \<Rightarrow> ('s, 'e, dash_answer) sm" where
  "sent_to dest st = ret \<lparr>da_Status = st, da_Location = Some dest, da_Body = Nothing_shown, da_Job = None\<rparr>"

text \<open>The dashboard holds what the SSH server holds, and its parsers.\<close>

record 'r dashboard =
  dh_Ssh :: "'r ssh_server"
  dh_Unseal :: "string \<Rightarrow> string \<Rightarrow> string \<Rightarrow> string option"
  dh_Origin :: "string \<Rightarrow> (string \<times> string) option"
  dh_Address :: "string \<Rightarrow> string option"
  dh_ParseKey :: "string \<Rightarrow> parsed_key option"
  dh_Version :: version_info
  dh_UpdateError :: "upd_err \<Rightarrow> string"
  dh_StatusError :: "upd_host \<Rightarrow> string"

abbreviation dh_Api :: "'r dashboard \<Rightarrow> 'r server" where
  "dh_Api d \<equiv> ss_Api (dh_Ssh d)"

abbreviation dh_Runtime :: "'r dashboard \<Rightarrow> 'r runtime" where
  "dh_Runtime d \<equiv> sv_Runtime (dh_Api d)"

section \<open>The data of a page\<close>

definition navCounts :: "user option \<Rightarrow> ('z, nav_counts) dbm" where
  "navCounts who =
     (case who of
        None \<Rightarrow> ret \<lparr>nc_VMs = 0, nc_LLM = 0, nc_SSHKeys = 0\<rparr>
      | Some u \<Rightarrow>
          bindE (attempt (ListAccessibleContainers (u_ID u)) (\<lambda>_. ret 0) (\<lambda>cs. ret (length cs))) (\<lambda>v.
          bindE (attempt (ListAPIKeysByOwner (u_ID u)) (\<lambda>_. ret 0) (\<lambda>ks. ret (length ks))) (\<lambda>l.
          bindE (attempt (ListSSHKeysByUser (u_ID u)) (\<lambda>_. ret 0) (\<lambda>ks. ret (length ks))) (\<lambda>k.
          ret \<lparr>nc_VMs = v, nc_LLM = l, nc_SSHKeys = k\<rparr>))))"

definition fragmentData :: "'r dashboard \<Rightarrow> user option \<Rightarrow> ('z, template_data) dbm" where
  "fragmentData d who =
     bindE (attempt NestingAllowed (\<lambda>_. ret True) ret) (\<lambda>allowed.
     ret \<lparr>td_User = who, td_Domain = sv_Domain (dh_Api d), td_Containers = [], td_Container = None,
       td_IsAdmin = (case who of None \<Rightarrow> False | Some u \<Rightarrow> u_Role u = ''admin''), td_NestingAllowed = allowed,
       td_Nav = \<lparr>nc_VMs = 0, nc_LLM = 0, nc_SSHKeys = 0\<rparr>\<rparr>)"

definition newData :: "'r dashboard \<Rightarrow> user option \<Rightarrow> ('z, template_data) dbm" where
  "newData d who = bindE (fragmentData d who) (\<lambda>data. bindE (navCounts who) (\<lambda>n. ret (data\<lparr>td_Nav := n\<rparr>)))"

text \<open>A failure to attach something leaves it out; the members are for the owner.\<close>

definition cardData :: "container \<Rightarrow> string \<Rightarrow> ('z, vm_card) dbm" where
  "cardData c0 accessError =
     bindE (AttachAliases [c0]) (\<lambda>(cs1, _).
     bindE (AttachNestingPolicy cs1) (\<lambda>(cs, _).
     let c = hd cs in
     bindE (if c_SharedAccess c then ret [] else attempt (ListContainerAccess (c_ID c)) (\<lambda>_. ret []) ret) (\<lambda>members.
     ret \<lparr>vc_Container = c, vc_Members = members, vc_AccessError = accessError, vc_AccessEmail = []\<rparr>)))"

definition renderCard :: "container \<Rightarrow> ('z store_scheme, dberr, dash_answer) sm" where
  "renderCard c = bindE (cardData c []) (\<lambda>v. shows_page (Vm_fragment v))"

definition vm_page :: "'r dashboard \<Rightarrow> user option \<Rightarrow> container \<Rightarrow> string \<Rightarrow> string \<Rightarrow> ('z, dash_body) dbm" where
  "vm_page d who c accessError accessEmail =
     bindE (newData d who) (\<lambda>data.
     bindE (cardData c accessError) (\<lambda>v.
     ret (Vm_page (data\<lparr>td_Container := Some (vc_Container v)\<rparr>) (v\<lparr>vc_AccessEmail := accessEmail\<rparr>))))"

section \<open>What a masked key tells\<close>

lemma length_bullets: "length (bullets n) = 3 * n"
  by (induction n) (simp_all add: bullets_def bullet_def)

end
