(* ===== verification/Dash_Vms.thy ===== *)
theory Dash_Vms
  imports Dash_View
begin

text \<open>
  The dashboard's handlers of a VM: \<^verbatim>\<open>vm_handlers.go\<close>, \<^verbatim>\<open>vm_detail_handler.go\<close>,
  \<^verbatim>\<open>nesting_handler.go\<close>, \<^verbatim>\<open>publish_handler.go\<close>, \<^verbatim>\<open>alias_handlers.go\<close>,
  \<^verbatim>\<open>access_handlers.go\<close> and \<^verbatim>\<open>shell_handler.go\<close>.

  The dashboard has no ownership middleware: each handler looks the VM up and compares its owner.  The goroutines of creating
  and recreating a VM are jobs, run by \<open>run_job\<close> at any later time.  The gateway always has a container runtime.
\<close>

section \<open>Whose VM it is\<close>

text \<open>What is answered when there is no such VM, and when it cannot be read.\<close>

definition own_vm_or :: "string \<Rightarrow> nat \<Rightarrow> string \<Rightarrow> nat \<Rightarrow> user option \<Rightarrow> string \<Rightarrow> (container \<Rightarrow> 'r dash_gw) \<Rightarrow> 'r dash_gw" where
  "own_vm_or missing st broken st' who cid f =
     attempt (GetContainerByID cid)
       (\<lambda>e. if e = ErrNoRows then dash_text missing st else dash_text broken st')
       (\<lambda>c. if map_option u_ID who \<noteq> Some (c_OwnerID c) then dash_text ''forbidden'' 403 else f c)"

definition ownedVM :: "user option \<Rightarrow> string \<Rightarrow> (container \<Rightarrow> 'r dash_gw) \<Rightarrow> 'r dash_gw" where
  "ownedVM who cid f = own_vm_or ''VM not found'' 404 ''internal error'' 500 who cid f"

definition own_vm_inline :: "user option \<Rightarrow> string \<Rightarrow> (container \<Rightarrow> 'r dash_gw) \<Rightarrow> 'r dash_gw" where
  "own_vm_inline who cid f = own_vm_or ''not found'' 404 ''internal error'' 500 who cid f"

definition aliasContainer :: "user option \<Rightarrow> string \<Rightarrow> (container \<Rightarrow> 'r dash_gw) \<Rightarrow> 'r dash_gw" where
  "aliasContainer who cid f = own_vm_or ''VM not found'' 404 ''VM not found'' 404 who cid f"

definition accessOwner :: "user option \<Rightarrow> string \<Rightarrow> (container \<Rightarrow> 'r dash_gw) \<Rightarrow> 'r dash_gw" where
  "accessOwner who cid f =
     attempt (GetContainerByID cid) (\<lambda>_. dash_text ''forbidden'' 403)
       (\<lambda>c. case who of
          None \<Rightarrow> dash_text ''forbidden'' 403
        | Some u \<Rightarrow> if u_Role u = GuestRole \<or> c_OwnerID c \<noteq> u_ID u then dash_text ''forbidden'' 403 else f c)"

definition viewableVM :: "user option \<Rightarrow> string \<Rightarrow> (container \<Rightarrow> 'r dash_gw) \<Rightarrow> 'r dash_gw" where
  "viewableVM who cid f =
     (case who of
        None \<Rightarrow> dash_text ''unauthorized'' 401
      | Some u \<Rightarrow>
          attempt (GetContainerByID cid)
            (\<lambda>e. if e = ErrNoRows then dash_text ''VM not found'' 404 else dash_text ''internal error'' 500)
            (\<lambda>c. if c_OwnerID c = u_ID u then f c
               else bindE (CanUseContainer (c_ID c) (u_ID u)) (\<lambda>can.
                 if can then f (c\<lparr>c_SharedAccess := True\<rparr>) else dash_text ''forbidden'' 403)))"

section \<open>Lists and pages\<close>

definition getVMs :: "'r dashboard \<Rightarrow> user option \<Rightarrow> 'r dash_gw" where
  "getVMs d who =
     (case who of
        None \<Rightarrow> dash_text ''unauthorized'' 401
      | Some u \<Rightarrow>
          attempt (ListAccessibleContainers (u_ID u)) (\<lambda>_. dash_text ''internal error'' 500) (\<lambda>cs.
          bindE (AttachAliases cs) (\<lambda>(cs1, _).
          bindE (AttachNestingPolicy cs1) (\<lambda>(cs2, _).
          bindE (newData d who) (\<lambda>data.
          shows_page (Vms_page (data\<lparr>td_Containers := cs2\<rparr>)))))))"

text \<open>The addresses that the table does not have yet come from the runtime.\<close>

fun backfill :: "'r dashboard \<Rightarrow> container list \<Rightarrow> ('r, container list) gwm" where
  "backfill d [] = ret []"
| "backfill d (c # cs) =
     bindE (if c_Status c = ''running'' \<and> c_IPAddress c = []
        then attempt (rt_call (rt_Get (dh_Runtime d) (c_IncusName c))) (\<lambda>_. ret c) (\<lambda>x.
          if rc_IP x = [] then ret c
          else and_status (c_ID c) (c_Status c) (rc_IP x) (ret (c\<lparr>c_IPAddress := rc_IP x\<rparr>)))
        else ret c)
       (\<lambda>c'. bindE (backfill d cs) (\<lambda>cs'. ret (c' # cs')))"

definition getVMList :: "'r dashboard \<Rightarrow> user option \<Rightarrow> 'r dash_gw" where
  "getVMList d who =
     (case who of
        None \<Rightarrow> dash_text ''unauthorized'' 401
      | Some u \<Rightarrow>
          attempt (ListAccessibleContainers (u_ID u)) (\<lambda>_. dash_text ''internal error'' 500) (\<lambda>cs0.
          bindE (backfill d cs0) (\<lambda>cs.
          bindE (AttachAliases cs) (\<lambda>(cs1, _).
          bindE (AttachNestingPolicy cs1) (\<lambda>(cs2, _).
          bindE (fragmentData d who) (\<lambda>data.
          bindE (if cs2 = [] then navCounts who else ret (td_Nav data)) (\<lambda>n.
          shows_page (Vm_rows (data\<lparr>td_Containers := cs2, td_Nav := n\<rparr>)))))))))"

definition getVMCreate :: "'r dashboard \<Rightarrow> user option \<Rightarrow> 'r dash_gw" where
  "getVMCreate d who = bindE (fragmentData d who) (\<lambda>data. shows_page (Create_form data))"

definition getVMDetail :: "'r dashboard \<Rightarrow> user option \<Rightarrow> string \<Rightarrow> 'r dash_gw" where
  "getVMDetail d who cid = viewableVM who cid (\<lambda>c. bindE (vm_page d who c [] []) shows_page)"

definition getVMCard :: "user option \<Rightarrow> string \<Rightarrow> 'r dash_gw" where
  "getVMCard who cid = viewableVM who cid renderCard"

section \<open>Creating\<close>

definition dash_container :: "dash_request \<Rightarrow> user \<Rightarrow> string \<Rightarrow> bool \<Rightarrow> container" where
  "dash_container q u name nesting = \<lparr>c_ID = ar_UUID (dq_Api q), c_Name = name, c_OwnerID = u_ID u,
     c_IncusName = ''svkexe-'' @ u_ID u @ ''-'' @ name, c_Status = ''creating'', c_IPAddress = [],
     c_CPULimit = formInt q ''cpu_limit'' 2, c_MemoryMB = formInt q ''memory_mb'' 2048, c_DiskGB = formInt q ''disk_gb'' 10,
     c_AppPort = 0, c_AppPublic = False, c_InitialTask = dq_Form q ''initial_task'', c_InitialTaskState = [],
     c_InitialTaskError = [], c_InitialTaskConversation = [], c_InitialTaskResumes = 0, c_Nesting = nesting,
     c_NestingApplied = False, c_CreatedAt = 0, c_UpdatedAt = 0, c_SharedAccess = False, c_Aliases = [], c_NestingAllowed = False\<rparr>"

text \<open>What is shown while the job runs.\<close>

definition list_created :: "'r dashboard \<Rightarrow> user \<Rightarrow> dash_job \<Rightarrow> 'r dash_gw" where
  "list_created d u job =
     bindE (attempt (ListContainersByOwner (u_ID u)) (\<lambda>_. dash_text ''internal error'' 500) (\<lambda>cs.
       bindE (AttachAliases cs) (\<lambda>(cs1, _).
       bindE (AttachNestingPolicy cs1) (\<lambda>(cs2, _).
       bindE (fragmentData d (Some u)) (\<lambda>data. shows_page (Vm_rows (data\<lparr>td_Containers := cs2\<rparr>)))))))
     (\<lambda>x. ret (x\<lparr>da_Job := Some job\<rparr>))"

definition postCreateVM :: "'r dashboard \<Rightarrow> dash_request \<Rightarrow> user option \<Rightarrow> 'r dash_gw" where
  "postCreateVM d q who =
     (case who of
        None \<Rightarrow> dash_text ''unauthorized'' 401
      | Some u \<Rightarrow>
          if \<not> ar_FormOK (dq_Api q) then dash_text ''invalid form'' 400
          else let name = dq_Form q ''name'' in
          if name = [] then dash_text ''name is required'' 400
          else if \<not> ValidContainerName name
          then dash_text ''Use lowercase letters, digits and hyphens (2-63 chars). Names may not start with \"agent-\" or a port prefix like \"3000-\".'' 400
          else attempt NestingAllowed (\<lambda>_. dash_text ''internal error'' 500) (\<lambda>allowed.
            let nesting = (if allowed then dq_Form q ''nesting'' \<noteq> [] else DefaultNesting) in
            bindE (attempt (GetContainerByName name (u_ID u)) (\<lambda>_. ret False) (\<lambda>_. ret True)) (\<lambda>exists.
            if exists then dash_text ''VM with this name already exists'' 409
            else attempt (CreateContainer (dash_container q u name nesting))
              (\<lambda>e. dash_text (''failed to persist VM: '' @ sv_Error (dh_Api d) e) 400)
              (\<lambda>c. list_created d u (Make_vm c (allowed \<and> nesting))))))"

text \<open>The goroutine: the instance, its start, the agent and the task.\<close>

definition made_up :: "'r dashboard \<Rightarrow> container \<Rightarrow> string \<Rightarrow> ('r, unit) gwm" where
  "made_up d c ip0 =
     (let rt = dh_Runtime d; sv = dh_Api d in
      bindE (attempt (rt_call (rt_Get rt (c_IncusName c))) (\<lambda>_. ret ip0) (\<lambda>x. ret (rc_IP x))) (\<lambda>ip.
      let up = and_status (c_ID c) ''running'' ip (ret ()) in
      case sv_Materializer sv of
        None \<Rightarrow> up
      | Some mz \<Rightarrow>
          catch (SetupContainer (sv_Env sv) rt (Some mz) (c\<lparr>c_IPAddress := ip\<rparr>) (sv_LLM sv))
            (\<lambda>_. and_status (c_ID c) ''error'' ip (ret ()))
            (\<lambda>_. bindE (DeliverInitialTaskByID (sv_Lower sv) (sv_Env sv) (Some rt) (c_ID c) (sv_LLM sv)) (\<lambda>_. up))))"

definition make_vm :: "'r dashboard \<Rightarrow> container \<Rightarrow> bool \<Rightarrow> ('r, unit) gwm" where
  "make_vm d c effective =
     (let rt = dh_Runtime d in
      attempt (rt_call (rt_Create rt \<lparr>co_Name = c_Name c, co_OwnerID = c_OwnerID c, co_Image = DefaultImage,
          co_CPULimit = c_CPULimit c, co_MemoryMB = c_MemoryMB c, co_DiskGB = c_DiskGB c, co_Nesting = effective\<rparr>))
        (\<lambda>_. and_status (c_ID c) ''error'' [] (ret ()))
        (\<lambda>rtc. bindE (attempt (MarkStarted c effective) (\<lambda>_. ret c) ret) (\<lambda>c'.
           if EqualFold (rc_Status rtc) ''running'' then made_up d c' (rc_IP rtc)
           else attempt (rt_call (rt_Start rt (c_IncusName c')))
             (\<lambda>_. and_status (c_ID c') ''stopped'' (rc_IP rtc) (ret ()))
             (\<lambda>_. made_up d c' (rc_IP rtc)))))"

section \<open>Starting, stopping, restarting\<close>

definition now_running :: "container \<Rightarrow> 'r dash_gw" where
  "now_running c =
     attempt (UpdateContainerStatus (c_ID c) ''running'' (c_IPAddress c)) (\<lambda>_. dash_text ''failed to update status'' 500)
       (\<lambda>_. renderCard (c\<lparr>c_Status := ''running''\<rparr>))"

text \<open>A start delivers the task of the VM, a restart does not.\<close>

definition bring_up :: "'r dashboard \<Rightarrow> bool \<Rightarrow> container \<Rightarrow> 'r dash_gw" where
  "bring_up d deliver c0 =
     (let rt = dh_Runtime d; sv = dh_Api d in
      bindE (PrepareStart rt c0) (\<lambda>(c, _).
      attempt (rt_call (rt_Start rt (c_IncusName c)))
        (\<lambda>e. and_status (c_ID c) ''stopped'' [] (dash_text (''failed to start VM: '' @ sv_Error sv e) 500))
        (\<lambda>_. let finish = bindE (attempt (rt_call (rt_Get rt (c_IncusName c))) (\<lambda>_. ret c) (\<lambda>x. ret (c\<lparr>c_IPAddress := rc_IP x\<rparr>))) now_running in
          case sv_Materializer sv of
            None \<Rightarrow> finish
          | Some mz \<Rightarrow>
              catch (SetupContainer (sv_Env sv) rt (Some mz) c (sv_LLM sv))
                (\<lambda>e. and_status (c_ID c) ''error'' (c_IPAddress c) (dash_text (''PicoClaw setup failed: '' @ sv_Error sv e) 500))
                (\<lambda>_. if deliver then bindE (DeliverInitialTaskByID (sv_Lower sv) (sv_Env sv) (Some rt) (c_ID c) (sv_LLM sv)) (\<lambda>_. finish)
                  else finish))))"

definition with_keys :: "'r dashboard \<Rightarrow> container \<Rightarrow> 'r dash_gw \<Rightarrow> 'r dash_gw" where
  "with_keys d c f =
     (case sv_Materializer (dh_Api d) of
        None \<Rightarrow> f
      | Some mz \<Rightarrow> attempt (RefreshKeys mz (c_ID c) (c_OwnerID c))
          (\<lambda>e. dash_text (''failed to refresh keys: '' @ sv_Error (dh_Api d) e) 500) (\<lambda>_. f))"

definition postStartVM :: "'r dashboard \<Rightarrow> user option \<Rightarrow> string \<Rightarrow> 'r dash_gw" where
  "postStartVM d who cid = own_vm_inline who cid (\<lambda>c. with_keys d c (bring_up d True c))"

definition postStopVM :: "'r dashboard \<Rightarrow> user option \<Rightarrow> string \<Rightarrow> 'r dash_gw" where
  "postStopVM d who cid = own_vm_inline who cid (\<lambda>c.
     attempt (rt_call (rt_Stop (dh_Runtime d) (c_IncusName c)))
       (\<lambda>e. dash_text (''failed to stop VM: '' @ sv_Error (dh_Api d) e) 500)
       (\<lambda>_. attempt (UpdateContainerStatus cid ''stopped'' (c_IPAddress c)) (\<lambda>_. dash_text ''failed to update status'' 500)
          (\<lambda>_. renderCard (c\<lparr>c_Status := ''stopped''\<rparr>))))"

text \<open>A stop that says \<open>already stopped\<close> counts as done.\<close>

definition stop_first :: "'r dashboard \<Rightarrow> string \<Rightarrow> container \<Rightarrow> 'r dash_gw \<Rightarrow> 'r dash_gw" where
  "stop_first d what c f =
     attempt (rt_call (rt_Stop (dh_Runtime d) (c_IncusName c)))
       (\<lambda>e. if Contains (sv_Error (dh_Api d) e) ''already stopped'' then f else dash_text (what @ sv_Error (dh_Api d) e) 500) (\<lambda>_. f)"

definition postRestartVM :: "'r dashboard \<Rightarrow> user option \<Rightarrow> string \<Rightarrow> 'r dash_gw" where
  "postRestartVM d who cid = ownedVM who cid (\<lambda>c.
     if c_Status c = ''creating'' \<or> c_Status c = ''recreating'' then dash_text ''VM is busy, please wait'' 409
     else stop_first d ''failed to stop VM: '' c (with_keys d c (bring_up d False c)))"

section \<open>Recreating and deleting\<close>

definition postRecreateVM :: "user option \<Rightarrow> string \<Rightarrow> 'r dash_gw" where
  "postRecreateVM who cid = own_vm_inline who cid (\<lambda>c.
     if c_Status c = ''creating'' \<or> c_Status c = ''recreating'' then dash_text ''VM is busy, please wait'' 409
     else and_status cid ''recreating'' (c_IPAddress c)
       (bindE (renderCard (c\<lparr>c_Status := ''recreating''\<rparr>)) (\<lambda>x. ret (x\<lparr>da_Job := Some (Remake_vm c)\<rparr>))))"

text \<open>The goroutine, whose steps are those of the API's.\<close>

definition remade :: "'r dashboard \<Rightarrow> container \<Rightarrow> string \<Rightarrow> ('r, unit) gwm" where
  "remade d c backup =
     (let rt = dh_Runtime d; sv = dh_Api d; give_up = (\<lambda>st. and_status (c_ID c) st [] (ret ())) in
      attempt (rt_call (rt_Start rt (c_IncusName c))) (\<lambda>_. give_up ''stopped'') (\<lambda>_.
      bindE (attempt (rt_call (rt_Get rt (c_IncusName c))) (\<lambda>_. ret []) (\<lambda>x. ret (rc_IP x))) (\<lambda>ip.
      attempt (RestoreData (sv_Env sv) rt (c_IncusName c) backup) (\<lambda>_. give_up ''error'') (\<lambda>_.
      catch (SetupContainer (sv_Env sv) rt (sv_Materializer sv) c (sv_LLM sv)) (\<lambda>_. give_up ''error'') (\<lambda>_.
      and_status (c_ID c) ''running'' ip (ret ()))))))"

definition remake_vm :: "'r dashboard \<Rightarrow> container \<Rightarrow> ('r, unit) gwm" where
  "remake_vm d c0 =
     (let rt = dh_Runtime d; sv = dh_Api d; give_up = and_status (c_ID c0) ''error'' [] (ret ()) in
      bindE (PrepareStart rt c0) (\<lambda>(c, _).
      attempt (rt_call (rt_Start rt (c_IncusName c))) (\<lambda>_. give_up) (\<lambda>_.
      attempt (BackupData (sv_Env sv) rt (c_IncusName c)) (\<lambda>_. give_up) (\<lambda>backup.
      attempt (rt_call (rt_Stop rt (c_IncusName c))) (\<lambda>_. give_up) (\<lambda>_.
      attempt (rt_call (rt_Delete rt (c_IncusName c))) (\<lambda>_. give_up) (\<lambda>_.
      bindE (EffectiveNesting c) (\<lambda>(effective, _).
      attempt (rt_call (rt_Create rt \<lparr>co_Name = c_Name c, co_OwnerID = c_OwnerID c, co_Image = DefaultImage,
          co_CPULimit = c_CPULimit c, co_MemoryMB = c_MemoryMB c, co_DiskGB = c_DiskGB c, co_Nesting = effective\<rparr>)) (\<lambda>_. give_up) (\<lambda>_.
      bindE (attempt (MarkStarted c effective) (\<lambda>_. ret c) ret) (\<lambda>c'. remade d c' backup)))))))))"

fun run_job :: "'r dashboard \<Rightarrow> dash_job \<Rightarrow> ('r, unit) gwm" where
  "run_job d (Make_vm c effective) = make_vm d c effective"
| "run_job d (Remake_vm c) = remake_vm d c"

definition drop_vm :: "'r dashboard \<Rightarrow> container \<Rightarrow> string \<Rightarrow> 'r dash_gw" where
  "drop_vm d c cid =
     (let gone = shows_page Nothing_shown;
          forget = attempt (DeleteContainer cid) (\<lambda>_. dash_text ''failed to remove VM record'' 500)
            (\<lambda>_. if sv_Materializer (dh_Api d) = None then gone else attempt (RemoveKeys cid) (\<lambda>_. gone) (\<lambda>_. gone)) in
      attempt (rt_call (rt_Delete (dh_Runtime d) (c_IncusName c)))
        (\<lambda>e. let said = sv_Error (dh_Api d) e in
           if Contains said ''not found'' \<or> Contains said ''Not Found'' then forget
           else dash_text (''failed to delete VM: '' @ said) 500)
        (\<lambda>_. forget))"

definition deleteVM :: "'r dashboard \<Rightarrow> user option \<Rightarrow> string \<Rightarrow> 'r dash_gw" where
  "deleteVM d who cid = own_vm_inline who cid (\<lambda>c.
     if c_Status c = ''creating'' then dash_text ''VM is still being created, please wait'' 409
     else if c_Status c = ''running'' then stop_first d ''failed to stop VM before deletion: '' c (drop_vm d c cid)
     else drop_vm d c cid)"

section \<open>Settings of a VM\<close>

text \<open>A failure to tell the agent or the runtime is logged.\<close>

definition told_guide :: "'r dashboard \<Rightarrow> container \<Rightarrow> 'r dash_gw \<Rightarrow> 'r dash_gw" where
  "told_guide d c f = attempt (RefreshEnvironmentGuide (ae_Guide (sv_Env (dh_Api d))) (Some (dh_Runtime d)) c) (\<lambda>_. f) (\<lambda>_. f)"

definition postNesting :: "'r dashboard \<Rightarrow> dash_request \<Rightarrow> user option \<Rightarrow> string \<Rightarrow> 'r dash_gw" where
  "postNesting d q who cid = ownedVM who cid (\<lambda>c.
     attempt NestingAllowed (\<lambda>_. dash_text ''internal error'' 500) (\<lambda>allowed.
     if \<not> allowed then dash_text ''Nested containers are disabled for this deployment'' 403
     else attempt (UpdateContainerNesting (c_ID c) (dq_Form q ''nesting'' \<noteq> []))
       (\<lambda>_. dash_text ''Failed to save the nesting setting'' 500)
       (\<lambda>_. attempt (GetContainerByID (c_ID c)) (\<lambda>_. dash_text ''internal error'' 500) (\<lambda>updated.
          bindE (ApplyNesting (dh_Runtime d) updated) (\<lambda>(now, _). told_guide d now (renderCard now))))))"

definition postPublish :: "'r dashboard \<Rightarrow> dash_request \<Rightarrow> user option \<Rightarrow> string \<Rightarrow> 'r dash_gw" where
  "postPublish d q who cid = aliasContainer who cid (\<lambda>_.
     let bad = dash_text ''Port must be between 1 and 65535 and must not be the agent port'' 400 in
     case Atoi (TrimSpace (dq_Form q ''app_port'')) of
       None \<Rightarrow> bad
     | Some port \<Rightarrow>
         if \<not> ValidAppPort port then bad
         else attempt (UpdateContainerPublish cid port (dq_Form q ''app_public'' \<noteq> []))
           (\<lambda>_. dash_text ''Failed to save publish settings'' 500)
           (\<lambda>_. attempt (GetContainerByID cid) (\<lambda>_. dash_text ''internal error'' 500) (\<lambda>updated.
              told_guide d updated (renderCard updated))))"

definition postRetryTask :: "'r dashboard \<Rightarrow> user option \<Rightarrow> string \<Rightarrow> 'r dash_gw" where
  "postRetryTask d who cid = aliasContainer who cid (\<lambda>_.
     let sv = dh_Api d in
     attempt (RetryInitialTask cid) (\<lambda>e. dash_text (sv_Error sv e) 400) (\<lambda>_.
     bindE (DeliverInitialTaskByID (sv_Lower sv) (sv_Env sv) (Some (dh_Runtime d)) cid (sv_LLM sv)) (\<lambda>_.
     attempt (GetContainerByID cid) (\<lambda>_. dash_text ''internal error'' 500) renderCard)))"

section \<open>Custom domains\<close>

definition dash_alias_error :: "'r dashboard \<Rightarrow> alias_err \<Rightarrow> 'r dash_gw" where
  "dash_alias_error d e =
     (case e of
        ErrInvalid x \<Rightarrow> dash_text (sv_Error (dh_Api d) x) 400
      | ErrNotFound \<Rightarrow> dash_text ''alias not found'' 404
      | ErrOther x \<Rightarrow> if x = ErrAliasHostnameTaken \<or> x = ErrAliasAlreadyOnVM then dash_text (sv_Error (dh_Api d) x) 409
          else dash_text ''internal error'' 500)"

definition postAddAlias :: "'r dashboard \<Rightarrow> dash_request \<Rightarrow> user option \<Rightarrow> string \<Rightarrow> 'r dash_gw" where
  "postAddAlias d q who cid = aliasContainer who cid (\<lambda>c.
     attempt (Add (sv_Lower (dh_Api d)) (sv_Aliases (dh_Api d)) (ar_UUID (dq_Api q)) c (dq_Form q ''hostname''))
       (dash_alias_error d) (\<lambda>_. renderCard c))"

definition postVerifyAlias :: "'r dashboard \<Rightarrow> user option \<Rightarrow> string \<Rightarrow> string \<Rightarrow> 'r dash_gw" where
  "postVerifyAlias d who cid aid = aliasContainer who cid (\<lambda>c.
     attempt (Recheck (sv_Aliases (dh_Api d)) c aid) (dash_alias_error d) (\<lambda>_. renderCard c))"

definition dash_deleteAlias :: "'r dashboard \<Rightarrow> user option \<Rightarrow> string \<Rightarrow> string \<Rightarrow> 'r dash_gw" where
  "dash_deleteAlias d who cid aid = aliasContainer who cid (\<lambda>c.
     attempt (Remove (sv_Aliases (dh_Api d)) c aid) (dash_alias_error d) (\<lambda>_. renderCard c))"

section \<open>Members\<close>

definition accessTab :: "container \<Rightarrow> string" where
  "accessTab c = ''/dashboard/vms/'' @ c_ID c @ ''#access''"

definition getAccess :: "user option \<Rightarrow> string \<Rightarrow> 'r dash_gw" where
  "getAccess who cid = accessOwner who cid (\<lambda>c. sent_to (accessTab c) 302)"

definition accessSameOrigin :: "'r dashboard \<Rightarrow> dash_request \<Rightarrow> 'r dash_gw \<Rightarrow> 'r dash_gw" where
  "accessSameOrigin d q f =
     (if same_origin (dh_Origin d) (dq_Origin q) (dq_Host q) (dq_FetchSite q) then f
      else dash_text ''cross-origin request forbidden'' 403)"

definition postAccess :: "'r dashboard \<Rightarrow> dash_request \<Rightarrow> user option \<Rightarrow> string \<Rightarrow> 'r dash_gw" where
  "postAccess d q who cid = accessSameOrigin d q (accessOwner who cid (\<lambda>c.
     if \<not> ar_FormOK (dq_Api q) then dash_text ''invalid form'' 400
     else attempt (GrantContainerAccess (sv_Lower (dh_Api d)) (dh_Address d) (dh_ParseKey d) (ar_UUID (dq_Api q)) (dq_UUID2 q)
         (c_OwnerID c) (c_ID c) (dq_Post q ''email'') (dq_Post q ''public_key''))
       (\<lambda>e. bindE (vm_page d who c (sv_Error (dh_Api d) e) (dq_Post q ''email'')) (\<lambda>b.
          ret \<lparr>da_Status = 400, da_Location = None, da_Body = b, da_Job = None\<rparr>))
       (\<lambda>_. sent_to (accessTab c) 303)))"

definition postRevokeAccess :: "'r dashboard \<Rightarrow> dash_request \<Rightarrow> user option \<Rightarrow> string \<Rightarrow> string \<Rightarrow> 'r dash_gw" where
  "postRevokeAccess d q who cid uid = accessSameOrigin d q (accessOwner who cid (\<lambda>c.
     attempt (RevokeContainerAccess (c_OwnerID c) (c_ID c) uid) (\<lambda>_. dash_text ''could not revoke access'' 500)
       (\<lambda>_. sent_to (accessTab c) 303)))"

section \<open>The terminal\<close>

definition usable_vm :: "user option \<Rightarrow> string \<Rightarrow> (user \<Rightarrow> container \<Rightarrow> 'r dash_gw) \<Rightarrow> 'r dash_gw" where
  "usable_vm who cid f =
     (case who of
        None \<Rightarrow> dash_text ''unauthorized'' 401
      | Some u \<Rightarrow>
          attempt (GetContainerByID cid)
            (\<lambda>e. if e = ErrNoRows then dash_text ''not found'' 404 else dash_text ''internal error'' 500)
            (\<lambda>c. bindE (CanUseContainer (c_ID c) (u_ID u)) (\<lambda>can.
               if \<not> can then dash_text ''forbidden'' 403
               else if c_Status c \<noteq> ''running'' then dash_text ''VM is not running'' 400
               else f u c)))"

definition getShell :: "'r dashboard \<Rightarrow> user option \<Rightarrow> string \<Rightarrow> 'r dash_gw" where
  "getShell d who cid = usable_vm who cid (\<lambda>u c.
     bindE (newData d who) (\<lambda>data. shows_page (Shell_page (data\<lparr>td_Container := Some c\<rparr>))))"

text \<open>A refused upgrade is answered by the library.  The context that the access ends is given to the runtime, which decides what a
  cancelled one means.\<close>

definition ws_shell :: "container \<Rightarrow> shell_request" where
  "ws_shell c = \<lparr>sl_IncusName = c_IncusName c, sl_Command = [''/bin/bash''], sl_Term = None, sl_Cols = 80, sl_Rows = 24\<rparr>"

definition handleWS :: "'r dashboard \<Rightarrow> dash_request \<Rightarrow> user option \<Rightarrow> string \<Rightarrow> 'r dash_gw" where
  "handleWS d q who cid = usable_vm who cid (\<lambda>u c.
     case ss_Interactive (dh_Ssh d) of
       None \<Rightarrow> dash_text ''shell not supported by runtime'' 501
     | Some run \<Rightarrow>
         if \<not> allowedWebSocketOrigin (sv_Lower (dh_Api d)) (sv_Domain (dh_Api d)) (dq_Origin q)
         then dash_text ''Forbidden'' 403
         else bindE (ContainerAccessContext c (u_ID u)) (\<lambda>_.
           let opened = ret \<lparr>da_Status = 101, da_Location = None, da_Body = Shell_session (ws_shell c), da_Job = None\<rparr> in
           attempt (rt_call (run (ws_shell c))) (\<lambda>_. opened) (\<lambda>_. opened)))"

text \<open>What the browser sends, and the runtime taking a resize: resizes wait in a channel of eight places and are dropped when it is
  full, other text and bytes go to the shell.\<close>

datatype ws_event = Ws_text string | Ws_binary string | Ws_resized

fun ws_step :: "(string \<Rightarrow> (nat \<times> nat) option) \<Rightarrow> ws_event \<Rightarrow> string \<times> (nat \<times> nat) list \<Rightarrow> string \<times> (nat \<times> nat) list" where
  "ws_step resize (Ws_text x) (inp, queued) =
     (case resize x of
        Some dims \<Rightarrow> (inp, if length queued < 8 then queued @ [dims] else queued)
      | None \<Rightarrow> (inp @ x, queued))"
| "ws_step resize (Ws_binary x) (inp, queued) = (inp @ x, queued)"
| "ws_step resize Ws_resized (inp, queued) = (inp, tl queued)"

text \<open>The shell gets every byte that is not a resize, in order, and at most eight resizes wait.\<close>

fun shell_bytes :: "(string \<Rightarrow> (nat \<times> nat) option) \<Rightarrow> ws_event \<Rightarrow> string" where
  "shell_bytes resize (Ws_text x) = (if resize x = None then x else [])"
| "shell_bytes resize (Ws_binary x) = x"
| "shell_bytes resize Ws_resized = []"

theorem ws_relays:
  "fst (fold (ws_step resize) es ([], [])) = concat (map (shell_bytes resize) es) \<and> length (snd (fold (ws_step resize) es ([], []))) \<le> 8"
proof -
  have "length q \<le> 8 \<Longrightarrow> fst (fold (ws_step resize) es (t, q)) = t @ concat (map (shell_bytes resize) es)
    \<and> length (snd (fold (ws_step resize) es (t, q))) \<le> 8" for t q
  proof (induction es arbitrary: t q)
    case (Cons e es)
    then show ?case by (cases e) (auto split: option.split)
  qed simp
  from this [of "[]" "[]"] show ?thesis by simp
qed

end
