(* ===== verification/Dash_Account.thy ===== *)
theory Dash_Account
  imports Dash_Vms
begin

text \<open>
  The dashboard's handlers of the account and of the operator: \<^verbatim>\<open>key_handlers.go\<close>,
  \<^verbatim>\<open>ssh_key_handlers.go\<close>, \<^verbatim>\<open>integrations.go\<close> and \<^verbatim>\<open>system_handler.go\<close>, and the
  routes of \<^verbatim>\<open>RegisterRoutes\<close> behind the session check.

  The dashboard acts on the whole world, since it keeps external connections and starts updates; a handler of the gateway
  alone is lifted with \<open>on_gateway\<close>.  As in the API a path has no percent escapes; the router's answers to an
  unmatched path and to an unmatched method are one.
\<close>

section \<open>LLM connections\<close>

definition model_choices :: "apikey \<Rightarrow> string \<Rightarrow> model_choice list" where
  "model_choices k chosen =
     (if ak_BaseURL k = [] then []
      else map (\<lambda>m. let i = UserModelID (ak_Provider k) m in
          \<lparr>mc_ID = i, mc_Label = ak_Provider k @ '' / '' @ m, mc_Selected = (i = chosen)\<rparr>)
        (filter (\<lambda>m. m \<noteq> []) (Split (ak_Models k) CHR '','')))"

fun key_rows :: "'r dashboard \<Rightarrow> apikey list \<Rightarrow> ('z, key_row list) dbm" where
  "key_rows d [] = ret []"
| "key_rows d (k # ks) =
     bindE (attempt (GetAPIKeyPlaintext (dh_Unseal d) (ak_ID k) (sv_EncKey (dh_Api d))) (\<lambda>_. ret (bullets 8)) (\<lambda>p. ret (maskKeyValue p))) (\<lambda>masked.
     bindE (key_rows d ks) (\<lambda>rows.
     ret (\<lparr>kw_Provider = ak_Provider k, kw_BaseURL = ak_BaseURL k, kw_Models = ak_Models k, kw_Protocol = ak_Protocol k,
       kw_Masked = masked, kw_CreatedAt = ak_CreatedAt k\<rparr> # rows)))"

definition loadLLMBody :: "'r dashboard \<Rightarrow> string \<Rightarrow> ('z, llm_body) dbm" where
  "loadLLMBody d owner =
     bindE (ListAPIKeysByOwner owner) (\<lambda>ks.
     bindE (UserDefaultModel owner) (\<lambda>chosen.
     bindE (key_rows d ks) (\<lambda>rows.
     ret \<lparr>lb_Keys = rows, lb_Models = concat (map (\<lambda>k. model_choices k chosen) ks), lb_Auto = (chosen = [])\<rparr>)))"

definition getKeys :: "'r dashboard \<Rightarrow> user option \<Rightarrow> 'r dash_gw" where
  "getKeys d who =
     (case who of
        None \<Rightarrow> dash_text ''unauthorized'' 401
      | Some u \<Rightarrow> attempt (loadLLMBody d (u_ID u)) (\<lambda>_. dash_text ''internal error'' 500)
          (\<lambda>b. bindE (newData d who) (\<lambda>data. shows_page (Keys_page data b))))"

definition getLLMBody :: "'r dashboard \<Rightarrow> user \<Rightarrow> 'r dash_gw" where
  "getLLMBody d u = attempt (loadLLMBody d (u_ID u)) (\<lambda>_. dash_text ''failed to load settings'' 500) (\<lambda>b. shows_page (Llm_fragment b))"

definition refreshProviderKeys :: "'r dashboard \<Rightarrow> string \<Rightarrow> ('r, bool) gwm" where
  "refreshProviderKeys d owner =
     (case sv_Materializer (dh_Api d) of
        None \<Rightarrow> ret False
      | Some mz \<Rightarrow>
          attempt (ListContainersByOwner owner) (\<lambda>_. ret True) (\<lambda>cs.
          attempt (UserDefaultModel owner) (\<lambda>_. ret True) (\<lambda>chosen. refresh_each (dh_Api d) mz owner chosen cs)))"

definition synced :: "'r dashboard \<Rightarrow> user \<Rightarrow> string \<Rightarrow> 'r dash_gw" where
  "synced d u msg = bindE (refreshProviderKeys d (u_ID u)) (\<lambda>failed. if failed then dash_text msg 500 else getLLMBody d u)"

definition put_provider :: "'r dashboard \<Rightarrow> dash_request \<Rightarrow> string \<Rightarrow> string" where
  "put_provider d q param =
     (let low = ToLower (sv_Lower (dh_Api d)); p0 = low param;
          p1 = (if p0 = [] \<or> p0 = ''new'' then low (dq_Form q ''provider'') else p0) in
      if p1 = ''custom'' then ''custom-'' @ low (TrimSpace (dq_Form q ''name'')) else p1)"

definition putKey :: "'r dashboard \<Rightarrow> dash_request \<Rightarrow> user option \<Rightarrow> string \<Rightarrow> 'r dash_gw" where
  "putKey d q who param =
     (case who of
        None \<Rightarrow> dash_text ''unauthorized'' 401
      | Some u \<Rightarrow>
          let sv = dh_Api d; provider = put_provider d q param; plaintext = dq_Form q ''key'' in
          if \<not> ar_FormOK (dq_Api q) then dash_text ''invalid form'' 400
          else case NormalizeProvider (sv_Lower sv) (sv_ParseURL sv) provider (dq_Form q ''base_url'') (dq_Form q ''models'') plaintext
              (dq_Form q ''protocol'') of
            Inl e \<Rightarrow> dash_text (sv_Error sv e) 400
          | Inr (baseURL, models, protocol) \<Rightarrow>
              attempt (SaveProviderKey (sv_Lower sv) (sv_ParseURL sv) (sv_Seal sv) (ar_Random (dq_Api q)) (ar_UUID (dq_Api q)) (u_ID u)
                  provider plaintext baseURL models protocol (sv_EncKey sv))
                (\<lambda>_. dash_text ''failed to save settings'' 500)
                (\<lambda>_. synced d u sync_message))"

text \<open>The connections of the account to the service go one by one; the first failure ends it.\<close>

fun delete_matching :: "'r dashboard \<Rightarrow> string \<Rightarrow> apikey list \<Rightarrow> bool \<Rightarrow> ('z, bool) dbm" where
  "delete_matching d provider [] deleted = ret deleted"
| "delete_matching d provider (k # ks) deleted =
     (if ToLower (sv_Lower (dh_Api d)) (ak_Provider k) = provider
      then bindE (DeleteAPIKey (ak_ID k)) (\<lambda>_. delete_matching d provider ks True)
      else delete_matching d provider ks deleted)"

definition dash_deleteKey :: "'r dashboard \<Rightarrow> user option \<Rightarrow> string \<Rightarrow> 'r dash_gw" where
  "dash_deleteKey d who param =
     (case who of
        None \<Rightarrow> dash_text ''unauthorized'' 401
      | Some u \<Rightarrow>
          let provider = ToLower (sv_Lower (dh_Api d)) param in
          if \<not> ValidProvider provider then dash_text ''invalid provider'' 400
          else attempt (ListAPIKeysByOwner (u_ID u)) (\<lambda>_. dash_text ''internal error'' 500) (\<lambda>ks.
            attempt (delete_matching d provider ks False) (\<lambda>_. dash_text ''failed to delete key'' 500) (\<lambda>deleted.
            if \<not> deleted then dash_text ''not found'' 404
            else synced d u ''Settings deleted, but VM sync failed; restart the VM to retry'')))"

definition postDefaultModel :: "'r dashboard \<Rightarrow> dash_request \<Rightarrow> user option \<Rightarrow> 'r dash_gw" where
  "postDefaultModel d q who =
     (case who of
        None \<Rightarrow> dash_text ''unauthorized'' 401
      | Some u \<Rightarrow>
          if \<not> ar_FormOK (dq_Api q) then dash_text ''invalid form'' 400
          else attempt (SetUserDefaultModel (u_ID u) (dq_Form q ''model''))
            (\<lambda>e. case e of
               ErrUnknownModel _ \<Rightarrow> dash_text (sv_Error (dh_Api d) e) 400
             | ErrNoRows \<Rightarrow> dash_text ''unauthorized'' 401
             | _ \<Rightarrow> dash_text ''failed to save the default model'' 500)
            (\<lambda>_. synced d u ''Default model saved, but VM sync failed; press Save again or restart the VM''))"

section \<open>SSH keys\<close>

definition getSSHKeys :: "'r dashboard \<Rightarrow> user option \<Rightarrow> 'r dash_gw" where
  "getSSHKeys d who =
     (case who of
        None \<Rightarrow> sent_to ''/'' 302
      | Some u \<Rightarrow> attempt (ListSSHKeysByUser (u_ID u)) (\<lambda>_. dash_text ''internal error'' 500)
          (\<lambda>ks. bindE (newData d who) (\<lambda>data. shows_page (Ssh_keys_page data ks []))))"

definition ssh_keys_error :: "'r dashboard \<Rightarrow> user \<Rightarrow> string \<Rightarrow> 'r dash_gw" where
  "ssh_keys_error d u msg =
     bindE (attempt (ListSSHKeysByUser (u_ID u)) (\<lambda>_. ret []) ret) (\<lambda>ks.
     bindE (newData d (Some u)) (\<lambda>data. shows_page (Ssh_keys_page data ks msg)))"

definition postSSHKey :: "'r dashboard \<Rightarrow> dash_request \<Rightarrow> user option \<Rightarrow> 'r dash_gw" where
  "postSSHKey d q who =
     (case who of
        None \<Rightarrow> sent_to ''/'' 302
      | Some u \<Rightarrow>
          let name = TrimSpace (dq_Form q ''name''); public = TrimSpace (dq_Form q ''public_key'') in
          if name = [] \<or> public = [] then ssh_keys_error d u ''Name and public key are required.''
          else case sv_Fingerprint (dh_Api d) public of
            None \<Rightarrow> ssh_keys_error d u ''Invalid public key format. Paste in authorized_keys format (e.g. ssh-ed25519 AAAA...).''
          | Some fp \<Rightarrow>
              attempt (CreateSSHKey \<lparr>k_ID = ar_UUID (dq_Api q), k_UserID = u_ID u, k_Fingerprint = fp, k_PublicKey = public,
                  k_Name = name, k_CreatedAt = 0\<rparr>)
                (\<lambda>e. if e = ErrUnique then ssh_keys_error d u ''This SSH key is already registered.''
                   else ssh_keys_error d u ''Failed to save key.'')
                (\<lambda>_. sent_to ''/dashboard/ssh-keys'' 303))"

definition dash_deleteSSHKey :: "user option \<Rightarrow> string \<Rightarrow> 'r dash_gw" where
  "dash_deleteSSHKey who kid =
     (case who of
        None \<Rightarrow> dash_text ''unauthorized'' 401
      | Some u \<Rightarrow> attempt (DeleteSSHKey kid (u_ID u)) (\<lambda>_. dash_text ''not found'' 404) (\<lambda>_. shows_page Nothing_shown))"

section \<open>External services\<close>

definition connection_row :: "connection list \<Rightarrow> descriptor \<Rightarrow> integration_row" where
  "connection_row cs ds =
     fold (\<lambda>c row. if cn_Provider c = ds_ID ds then row\<lparr>iw_Connected := True, iw_Config := cn_Config c\<rparr> else row) cs
       \<lparr>iw_Descriptor = ds, iw_Connected = False, iw_Config = []\<rparr>"

definition getIntegrations :: "'r dashboard \<Rightarrow> user option \<Rightarrow> 'r dash" where
  "getIntegrations d who =
     (case who of
        None \<Rightarrow> dash_text ''unauthorized'' 401
      | Some u \<Rightarrow>
          let iv = ss_Integrations (dh_Ssh d) in
          attempt (on_hub (List_connections (ss_Codec (dh_Ssh d)) iv (u_ID u))) (\<lambda>_. dash_text ''integration operation failed'' 500) (\<lambda>cs.
          bindE (on_gateway (newData d who)) (\<lambda>data.
          shows_page (Integrations_page data (map (connection_row cs) (Descriptors iv))))))"

definition form_input :: "dash_request \<Rightarrow> descriptor \<Rightarrow> int_input" where
  "form_input q ds = \<lparr>ip_Config = map (\<lambda>f. (fd_Name f, dq_Post q (''config_'' @ fd_Name f))) (ds_Config ds),
     ip_Secrets = map (\<lambda>f. (fd_Name f, dq_Post q (''secret_'' @ fd_Name f))) (ds_Secrets ds)\<rparr>"

definition saveIntegration :: "'r dashboard \<Rightarrow> dash_request \<Rightarrow> user option \<Rightarrow> string \<Rightarrow> 'r dash" where
  "saveIntegration d q who provider =
     (case who of
        None \<Rightarrow> dash_text ''unauthorized'' 401
      | Some u \<Rightarrow>
          let iv = ss_Integrations (dh_Ssh d) in
          case Descriptor iv provider of
            Inl _ \<Rightarrow> dash_text ''unknown provider'' 400
          | Inr ds \<Rightarrow>
              if \<not> ar_FormOK (dq_Api q) then dash_text ''invalid form'' 400
              else attempt (on_hub (Save (ss_Codec (dh_Ssh d)) iv (ar_Random (dq_Api q)) (u_ID u) provider (form_input q ds)))
                (\<lambda>e. dash_text (snd (PublicError e)) (fst (PublicError e)))
                (\<lambda>_. sent_to ''/dashboard/integrations'' 303))"

definition deleteIntegration :: "'r dashboard \<Rightarrow> user option \<Rightarrow> string \<Rightarrow> 'r dash" where
  "deleteIntegration d who provider =
     (case who of
        None \<Rightarrow> dash_text ''unauthorized'' 401
      | Some u \<Rightarrow> attempt (on_hub (Delete_connection (ss_Integrations (dh_Ssh d)) (u_ID u) provider))
          (\<lambda>_. dash_text ''integration operation failed'' 500) (\<lambda>_. sent_to ''/dashboard/integrations'' 303))"

section \<open>The operator's page\<close>

definition requireAdmin :: "user option \<Rightarrow> 'r dash \<Rightarrow> 'r dash" where
  "requireAdmin who f =
     (case who of None \<Rightarrow> dash_text ''forbidden'' 403
      | Some u \<Rightarrow> if u_Role u \<noteq> ''admin'' then dash_text ''forbidden'' 403 else f)"

text \<open>A status that cannot be read is a failed run with the text of that error (\<open>dh_StatusError\<close>, from the host it is read
  on); a policy that cannot be read is shown as an error.\<close>

definition with_updater :: "'r dashboard \<Rightarrow> upd_service \<Rightarrow> system_page \<Rightarrow> ('r ssh_world, dberr, system_page) sm" where
  "with_updater d x page =
     bindE (on_host (Available (sx_Runner x))) (\<lambda>reason.
     bindE (on_host (RunStatus (sx_Run x) (sx_Runner x))) (\<lambda>(st, bad).
     bindE (gets (\<lambda>w. dh_StatusError d (sw_Host w))) (\<lambda>text'.
     ret (page\<lparr>sp_Version := sx_Local x, sp_CanUpdate := (reason = None),
       sp_Reason := (case reason of None \<Rightarrow> [] | Some r \<Rightarrow> r),
       sp_Run := (if bad then (plain_state StateFailed)\<lparr>ru_Error := text'\<rparr> else st)\<rparr>))))"

definition newSystemData :: "'r dashboard \<Rightarrow> user option \<Rightarrow> ('r ssh_world, dberr, system_page) sm" where
  "newSystemData d who =
     bindE (on_gateway (newData d who)) (\<lambda>data.
     bindE (on_gateway (attempt NestingAllowed (\<lambda>e. ret (True, sv_Error (dh_Api d) e)) (\<lambda>b. ret (b, [])))) (\<lambda>(allowed, bad).
     let page = \<lparr>sp_Data = data, sp_Version = dh_Version d, sp_Status = None, sp_Run = plain_state StateIdle, sp_UpdateAvailable = False,
         sp_CanUpdate = False, sp_Reason = [], sp_CheckError = [], sp_StartError = [], sp_Checked = False,
         sp_NestingAllowed = allowed, sp_NestingError = bad\<rparr> in
     case ss_Updater (dh_Ssh d) of
       None \<Rightarrow> ret (page\<lparr>sp_Reason := ''this deployment was started without the update service''\<rparr>)
     | Some x \<Rightarrow> with_updater d x page))"

definition getSystem :: "'r dashboard \<Rightarrow> user option \<Rightarrow> 'r dash" where
  "getSystem d who = requireAdmin who (bindE (newSystemData d who) (\<lambda>p. shows_page (System_body ''system.html'' p)))"

definition getUpdateStatus :: "'r dashboard \<Rightarrow> user option \<Rightarrow> 'r dash" where
  "getUpdateStatus d who = requireAdmin who (bindE (newSystemData d who) (\<lambda>p. shows_page (System_body ''update_status'' p)))"

definition check_update :: "'r dashboard \<Rightarrow> dash_request \<Rightarrow> upd_service \<Rightarrow> ('r ssh_world, dberr, string \<times> upd_status + upd_status) sm" where
  "check_update d q x w =
     (case Status (sx_Codec x) (sx_Config x) (sx_Local x) (ss_Net (dh_Ssh d)) (ParseForce (sv_Lower (dh_Api d)) (dq_Query q ''force''))
        (clock (sw_Hub w)) (dq_CheckDone q) (sw_Checker w) of (r, k) \<Rightarrow> (Inr r, w\<lparr>sw_Checker := k\<rparr>))"

definition getUpdateCheck :: "'r dashboard \<Rightarrow> dash_request \<Rightarrow> user option \<Rightarrow> 'r dash" where
  "getUpdateCheck d q who = requireAdmin who
     (bindE (newSystemData d who) (\<lambda>p0.
      let p = p0\<lparr>sp_Checked := True\<rparr>; show = (\<lambda>p. shows_page (System_body ''update_check'' p)) in
      case ss_Updater (dh_Ssh d) of
        None \<Rightarrow> show (p\<lparr>sp_CheckError := sp_Reason p\<rparr>)
      | Some x \<Rightarrow> bindE (check_update d q x) (\<lambda>r.
          case r of
            Inl (e, _) \<Rightarrow> show (p\<lparr>sp_CheckError := e\<rparr>)
          | Inr st \<Rightarrow> show (p\<lparr>sp_Status := Some st, sp_UpdateAvailable := st_UpdateAvailable st\<rparr>))))"

definition postUpdate :: "'r dashboard \<Rightarrow> dash_request \<Rightarrow> user option \<Rightarrow> 'r dash" where
  "postUpdate d q who = requireAdmin who
     (bindE (newSystemData d who) (\<lambda>p.
      let show = (\<lambda>p. shows_page (System_body ''update_status'' p)) in
      case ss_Updater (dh_Ssh d) of
        None \<Rightarrow> show (p\<lparr>sp_StartError := sp_Reason p\<rparr>)
      | Some x \<Rightarrow> bindE (on_host (Start (sx_Run x) (sx_Runner x) (dq_Cancelled q))) (\<lambda>r.
          case r of
            Inl e \<Rightarrow> show (p\<lparr>sp_StartError := dh_UpdateError d e\<rparr>)
          | Inr _ \<Rightarrow> bindE (on_host (RunStatus (sx_Run x) (sx_Runner x))) (\<lambda>(st, bad).
              show (if bad then p else p\<lparr>sp_Run := st\<rparr>)))))"

definition postNestingPolicy :: "'r dashboard \<Rightarrow> dash_request \<Rightarrow> user option \<Rightarrow> 'r dash" where
  "postNestingPolicy d q who = requireAdmin who
     (let show = (\<lambda>p. shows_page (System_body ''nesting_policy'' p)) in
      attempt (on_gateway (SetNestingAllowed (dq_Form q ''nesting_allowed'' \<noteq> [])))
        (\<lambda>e. bindE (newSystemData d who) (\<lambda>p. show (p\<lparr>sp_NestingError := sv_Error (dh_Api d) e\<rparr>)))
        (\<lambda>_. bindE (newSystemData d who) show))"

section \<open>Routes\<close>

datatype dash_vm_route =
    Vm_detail | Vm_card | Vm_start | Vm_stop | Vm_recreate | Vm_restart | Vm_publish | Vm_nesting | Vm_retry | Vm_delete
  | Vm_add_alias | Vm_verify_alias string | Vm_delete_alias string
  | Vm_members | Vm_add_member | Vm_revoke_member string | Vm_shell | Vm_ws

datatype dash_route =
    Dash_home | Dash_vms | Dash_list | Dash_form | Dash_create | Dash_vm string dash_vm_route
  | Dash_integrations | Dash_connect string | Dash_disconnect string
  | Dash_keys | Dash_default_model | Dash_put_key string | Dash_delete_key string
  | Dash_ssh | Dash_add_ssh | Dash_delete_ssh string
  | Dash_system | Dash_check | Dash_update | Dash_status | Dash_policy

definition on_verb :: "string \<Rightarrow> (string \<times> 'a) list \<Rightarrow> 'a option" where
  "on_verb verb handlers = map_of handlers verb"

definition dash_vm_route :: "string \<Rightarrow> string list \<Rightarrow> dash_vm_route option" where
  "dash_vm_route verb rest =
     (if rest = [] then on_verb verb [(''GET'', Vm_detail), (''DELETE'', Vm_delete)]
      else if rest = [''card''] then on_verb verb [(''GET'', Vm_card)]
      else if rest = [''start''] then on_verb verb [(''POST'', Vm_start)]
      else if rest = [''stop''] then on_verb verb [(''POST'', Vm_stop)]
      else if rest = [''recreate''] then on_verb verb [(''POST'', Vm_recreate)]
      else if rest = [''restart''] then on_verb verb [(''POST'', Vm_restart)]
      else if rest = [''publish''] then on_verb verb [(''POST'', Vm_publish)]
      else if rest = [''nesting''] then on_verb verb [(''POST'', Vm_nesting)]
      else if rest = [''task'', ''retry''] then on_verb verb [(''POST'', Vm_retry)]
      else if rest = [''aliases''] then on_verb verb [(''POST'', Vm_add_alias)]
      else if rest = [''access''] then on_verb verb [(''GET'', Vm_members), (''POST'', Vm_add_member)]
      else if rest = [''shell''] then on_verb verb [(''GET'', Vm_shell)]
      else if rest = [''ws''] then on_verb verb [(''GET'', Vm_ws)]
      else if length rest = 2 \<and> hd rest = ''aliases'' \<and> rest ! 1 \<noteq> [] then on_verb verb [(''DELETE'', Vm_delete_alias (rest ! 1))]
      else if length rest = 3 \<and> hd rest = ''aliases'' \<and> rest ! 1 \<noteq> [] \<and> rest ! 2 = ''verify''
      then on_verb verb [(''POST'', Vm_verify_alias (rest ! 1))]
      else if length rest = 3 \<and> hd rest = ''access'' \<and> rest ! 1 \<noteq> [] \<and> rest ! 2 = ''revoke''
      then on_verb verb [(''POST'', Vm_revoke_member (rest ! 1))]
      else None)"

definition dash_segments :: "string \<Rightarrow> string list \<Rightarrow> dash_route option" where
  "dash_segments verb parts =
     (if parts = [] \<or> parts = [[]] then on_verb verb [(''GET'', Dash_home)]
      else if parts = [''vms''] then on_verb verb [(''GET'', Dash_vms), (''POST'', Dash_create)]
      else if parts = [''vms'', ''list''] \<and> verb = ''GET'' then Some Dash_list
      else if parts = [''vms'', ''create''] \<and> verb = ''GET'' then Some Dash_form
      else if hd parts = ''vms'' \<and> 2 \<le> length parts \<and> parts ! 1 \<noteq> []
      then map_option (Dash_vm (parts ! 1)) (dash_vm_route verb (drop 2 parts))
      else if parts = [''integrations''] then on_verb verb [(''GET'', Dash_integrations)]
      else if length parts = 2 \<and> hd parts = ''integrations'' \<and> parts ! 1 \<noteq> [] then on_verb verb [(''POST'', Dash_connect (parts ! 1))]
      else if length parts = 3 \<and> hd parts = ''integrations'' \<and> parts ! 1 \<noteq> [] \<and> parts ! 2 = ''delete''
      then on_verb verb [(''POST'', Dash_disconnect (parts ! 1))]
      else if parts = [''keys''] then on_verb verb [(''GET'', Dash_keys)]
      else if parts = [''keys'', ''default''] \<and> verb = ''POST'' then Some Dash_default_model
      else if length parts = 2 \<and> hd parts = ''keys'' \<and> parts ! 1 \<noteq> []
      then on_verb verb [(''PUT'', Dash_put_key (parts ! 1)), (''DELETE'', Dash_delete_key (parts ! 1))]
      else if parts = [''ssh-keys''] then on_verb verb [(''GET'', Dash_ssh), (''POST'', Dash_add_ssh)]
      else if length parts = 2 \<and> hd parts = ''ssh-keys'' \<and> parts ! 1 \<noteq> [] then on_verb verb [(''DELETE'', Dash_delete_ssh (parts ! 1))]
      else if parts = [''system''] then on_verb verb [(''GET'', Dash_system)]
      else if parts = [''system'', ''check''] then on_verb verb [(''GET'', Dash_check)]
      else if parts = [''system'', ''update''] then on_verb verb [(''POST'', Dash_update)]
      else if parts = [''system'', ''status''] then on_verb verb [(''GET'', Dash_status)]
      else if parts = [''system'', ''nesting''] then on_verb verb [(''POST'', Dash_policy)]
      else None)"

definition dash_route :: "string \<Rightarrow> string \<Rightarrow> dash_route option" where
  "dash_route verb path =
     (if path = ''/dashboard'' then dash_segments verb []
      else case CutPrefix path ''/dashboard/'' of None \<Rightarrow> None | Some tail \<Rightarrow> dash_segments verb (Split tail CHR ''/''))"

fun dash_vm :: "'r dashboard \<Rightarrow> dash_request \<Rightarrow> user option \<Rightarrow> string \<Rightarrow> dash_vm_route \<Rightarrow> 'r dash_gw" where
  "dash_vm d q who cid Vm_detail = getVMDetail d who cid"
| "dash_vm d q who cid Vm_card = getVMCard who cid"
| "dash_vm d q who cid Vm_start = postStartVM d who cid"
| "dash_vm d q who cid Vm_stop = postStopVM d who cid"
| "dash_vm d q who cid Vm_recreate = postRecreateVM who cid"
| "dash_vm d q who cid Vm_restart = postRestartVM d who cid"
| "dash_vm d q who cid Vm_publish = postPublish d q who cid"
| "dash_vm d q who cid Vm_nesting = postNesting d q who cid"
| "dash_vm d q who cid Vm_retry = postRetryTask d who cid"
| "dash_vm d q who cid Vm_delete = deleteVM d who cid"
| "dash_vm d q who cid Vm_add_alias = postAddAlias d q who cid"
| "dash_vm d q who cid (Vm_verify_alias aid) = postVerifyAlias d who cid aid"
| "dash_vm d q who cid (Vm_delete_alias aid) = dash_deleteAlias d who cid aid"
| "dash_vm d q who cid Vm_members = getAccess who cid"
| "dash_vm d q who cid Vm_add_member = postAccess d q who cid"
| "dash_vm d q who cid (Vm_revoke_member uid) = postRevokeAccess d q who cid uid"
| "dash_vm d q who cid Vm_shell = getShell d who cid"
| "dash_vm d q who cid Vm_ws = handleWS d q who cid"

fun dash_serve :: "'r dashboard \<Rightarrow> dash_request \<Rightarrow> user option \<Rightarrow> dash_route \<Rightarrow> 'r dash" where
  "dash_serve d q who Dash_home = sent_to ''/dashboard/vms'' 302"
| "dash_serve d q who Dash_vms = on_gateway (getVMs d who)"
| "dash_serve d q who Dash_list = on_gateway (getVMList d who)"
| "dash_serve d q who Dash_form = on_gateway (getVMCreate d who)"
| "dash_serve d q who Dash_create = on_gateway (postCreateVM d q who)"
| "dash_serve d q who (Dash_vm cid vr) = on_gateway (dash_vm d q who cid vr)"
| "dash_serve d q who Dash_integrations = getIntegrations d who"
| "dash_serve d q who (Dash_connect p) = saveIntegration d q who p"
| "dash_serve d q who (Dash_disconnect p) = deleteIntegration d who p"
| "dash_serve d q who Dash_keys = on_gateway (getKeys d who)"
| "dash_serve d q who Dash_default_model = on_gateway (postDefaultModel d q who)"
| "dash_serve d q who (Dash_put_key p) = on_gateway (putKey d q who p)"
| "dash_serve d q who (Dash_delete_key p) = on_gateway (dash_deleteKey d who p)"
| "dash_serve d q who Dash_ssh = on_gateway (getSSHKeys d who)"
| "dash_serve d q who Dash_add_ssh = on_gateway (postSSHKey d q who)"
| "dash_serve d q who (Dash_delete_ssh kid) = on_gateway (dash_deleteSSHKey who kid)"
| "dash_serve d q who Dash_system = getSystem d who"
| "dash_serve d q who Dash_check = getUpdateCheck d q who"
| "dash_serve d q who Dash_update = postUpdate d q who"
| "dash_serve d q who Dash_status = getUpdateStatus d who"
| "dash_serve d q who Dash_policy = postNestingPolicy d q who"

text \<open>The session check of the API in front of it; \<^verbatim>\<open>Recoverer\<close> answers a panic.\<close>

definition dash_auth :: "dash_request \<Rightarrow> (user \<Rightarrow> 'r dash) \<Rightarrow> 'r dash" where
  "dash_auth q next = (let r = dq_Api q in bindE (on_gateway (authenticate r)) (\<lambda>who.
     case who of
       None \<Rightarrow>
         if wantsHTML r
         then sent_to (''/login'' @ (if ar_Path r \<noteq> [] then ''?next='' @ ar_RequestURI r else [])) 303
         else dash_text ''unauthorized'' 401
     | Some u \<Rightarrow>
         if u_Role u = GuestRole \<and> \<not> guestRequestAllowed (ar_Method r) (ar_Path r)
         then dash_text ''guest accounts may only use assigned VMs and manage their SSH keys'' 403
         else next u))"

definition serve_dashboard :: "'r dashboard \<Rightarrow> dash_request \<Rightarrow> 'r dash" where
  "serve_dashboard d q = attempt
     (dash_auth q (\<lambda>u. case dash_route (ar_Method (dq_Api q)) (ar_Path (dq_Api q)) of
        None \<Rightarrow> dash_text ''404 page not found'' 404 | Some rt \<Rightarrow> dash_serve d q (Some u) rt))
     (\<lambda>_. dash_text [] 500) ret"

end
