(* ===== verification/Dash_Steps.thy ===== *)
theory Dash_Steps
  imports Ssh_Steps Dash_Account
begin

text \<open>
  The dashboard as part of the transition system: \<open>site_step\<close> is a step of the world of \<open>Ssh_Steps\<close>, a dashboard request,
  which may leave a job, or a job that an earlier request left, in any order and after anything else.  The invariant of the
  stored data holds in every reachable state.
\<close>

section \<open>The handlers keep the invariant\<close>

lemma keeps_answers [keeps_rules]: "keeps I (dash_text msg st)" "keeps I (shows_page b)" "keeps I (sent_to l st)"
  unfolding dash_text_def shows_page_def sent_to_def by (rule keeps_ret)+

lemma keeps_status [keeps_rules]:
  "keeps I (UpdateContainerStatus cid st ip) \<Longrightarrow> keeps I f \<Longrightarrow> keeps I (and_status cid st ip f)"
  unfolding and_status_def by (intro keeps_attempt)

lemma reads_sound [keeps_rules]: "keeps sound (ListContainerAccess i)" "keeps sound (GetAPIKeyPlaintext un i ek)" "keeps sound (DeleteAPIKey i)"
  by (intro sound_keeps keeps_rules)+

lemma data_sound [keeps_rules]:
  "keeps sound (navCounts who)" "keeps sound (fragmentData d who)" "keeps sound (newData d who)" "keeps sound (cardData c e)"
  "keeps sound (renderCard c)" "keeps sound (vm_page d who c e m)"
  unfolding vm_page_def renderCard_def cardData_def newData_def navCounts_def fragmentData_def Let_def case_prod_unfold by (intro keeps_rules)+

lemma found_vm_sound [keeps_rules]:
  assumes "\<And>c. keeps sound (f c)"
  shows "keeps sound (own_vm_or m1 st m2 st' who cid f)" "keeps sound (ownedVM who cid f)" "keeps sound (own_vm_inline who cid f)"
    "keeps sound (aliasContainer who cid f)" "keeps sound (accessOwner who cid f)" "keeps sound (viewableVM who cid f)"
  unfolding ownedVM_def own_vm_inline_def aliasContainer_def own_vm_or_def accessOwner_def viewableVM_def by (intro keeps_rules assms)+

lemma usable_sound [keeps_rules]: "(\<And>u c. keeps sound (f u c)) \<Longrightarrow> keeps sound (usable_vm who cid f)"
  unfolding usable_vm_def by (intro keeps_rules; assumption)

lemma backfill_sound [keeps_rules]: "keeps sound (backfill d cs)"
  by (induction cs) (simp_all only: backfill.simps, (intro keeps_rules; assumption?)+)

lemma jobs_sound [keeps_rules]: "keeps sound (run_job d j)"
  by (cases j) (simp_all only: run_job.simps make_vm_def made_up_def remake_vm_def remade_def Let_def case_prod_unfold, (intro keeps_rules)+)

lemma parts_sound [keeps_rules]:
  "keeps sound (now_running c)" "keeps sound (bring_up d dl c)" "keeps sound (drop_vm d c cid)" "keeps sound (dash_alias_error d e)"
  "keeps sound (list_created d u j)"
  "keeps sound f \<Longrightarrow> keeps sound (with_keys d c f)" "keeps sound f \<Longrightarrow> keeps sound (stop_first d w c f)"
  "keeps sound f \<Longrightarrow> keeps sound (told_guide d c f)" "keeps sound f \<Longrightarrow> keeps sound (accessSameOrigin d q f)"
proof -
  show r: "keeps sound (now_running c)" for c unfolding now_running_def by (intro keeps_rules)
  show "keeps sound (bring_up d dl c)" unfolding bring_up_def Let_def case_prod_unfold by (intro keeps_rules r)
  show "keeps sound (dash_alias_error d e)" unfolding dash_alias_error_def by (cases e) (simp_all add: keeps_answers)
qed (unfold drop_vm_def list_created_def with_keys_def stop_first_def told_guide_def accessSameOrigin_def Let_def case_prod_unfold,
     (intro keeps_rules; assumption?)+)

lemma vm_route_sound [keeps_rules]: "keeps sound (dash_vm d q who cid vr)"
  by (cases vr) (simp_all only: dash_vm.simps getVMDetail_def getVMCard_def postStartVM_def postStopVM_def postRecreateVM_def postRestartVM_def
      postPublish_def postNesting_def postRetryTask_def deleteVM_def postAddAlias_def postVerifyAlias_def dash_deleteAlias_def getAccess_def
      postAccess_def postRevokeAccess_def getShell_def handleWS_def Let_def case_prod_unfold, (intro keeps_rules)+)

lemma llm_sound [keeps_rules]:
  "keeps sound (loadLLMBody d ow)" "keeps sound (synced d u m)" "keeps sound (delete_matching d p ks b)"
proof -
  have "keeps sound (key_rows d ks)" for ks by (induction ks) (simp_all only: key_rows.simps, (intro keeps_rules; assumption?)+)
  then show l: "keeps sound (loadLLMBody d ow)" for ow unfolding loadLLMBody_def by (intro keeps_rules)
  have "keeps sound (refresh_each sv mz ow chosen cs)" for sv mz ow chosen cs
    by (induction cs) (simp_all only: refresh_each.simps, (intro keeps_rules; assumption?)+)
  then have "keeps sound (refreshProviderKeys d ow)" for ow unfolding refreshProviderKeys_def by (intro keeps_rules)
  then show "keeps sound (synced d u m)" unfolding synced_def getLLMBody_def by (intro keeps_rules l)
  show "keeps sound (delete_matching d p ks b)"
    by (induction ks arbitrary: b) (simp_all only: delete_matching.simps, (intro keeps_rules; assumption?)+)
qed

lemma account_sound [keeps_rules]:
  "keeps sound (getVMs d who)" "keeps sound (getVMList d who)" "keeps sound (getVMCreate d who)" "keeps sound (postCreateVM d q who)"
  "keeps sound (getKeys d who)" "keeps sound (putKey d q who p)" "keeps sound (dash_deleteKey d who p)" "keeps sound (postDefaultModel d q who)"
  "keeps sound (getSSHKeys d who)" "keeps sound (postSSHKey d q who)" "keeps sound (dash_deleteSSHKey who kid)"
proof -
  have e: "keeps sound (case e of ErrUnknownModel _ \<Rightarrow> dash_text (sv_Error (dh_Api d) e) 400 | ErrNoRows \<Rightarrow> dash_text ''unauthorized'' 401
      | _ \<Rightarrow> dash_text ''failed to save the default model'' 500)" for e
    by (cases e) (simp_all add: keeps_answers)
  have s: "keeps sound (ssh_keys_error d u m)" for u m unfolding ssh_keys_error_def by (intro keeps_rules)
  show "keeps sound (postDefaultModel d q who)" unfolding postDefaultModel_def by (intro e keeps_rules)
  show "keeps sound (postSSHKey d q who)" unfolding postSSHKey_def Let_def by (intro s keeps_rules)
  show "keeps sound (getVMs d who)" "keeps sound (getVMList d who)" "keeps sound (getVMCreate d who)" "keeps sound (postCreateVM d q who)"
    "keeps sound (getKeys d who)" "keeps sound (putKey d q who p)" "keeps sound (dash_deleteKey d who p)"
    "keeps sound (getSSHKeys d who)" "keeps sound (dash_deleteSSHKey who kid)"
    unfolding getVMs_def getVMList_def getVMCreate_def postCreateVM_def getKeys_def putKey_def dash_deleteKey_def getSSHKeys_def
      dash_deleteSSHKey_def Let_def case_prod_unfold
    by (intro keeps_rules)+
qed

section \<open>Requests of the world\<close>

lemma check_update_ok [keeps_rules]: "keeps world_ok (check_update d q x)"
  by (rule keepsI) (simp add: check_update_def checker_ok split: prod.split)

lemma system_ok [keeps_rules]: "keeps world_ok (newSystemData d who)" "keeps world_ok f \<Longrightarrow> keeps world_ok (requireAdmin who f)"
  unfolding newSystemData_def with_updater_def requireAdmin_def Let_def case_prod_unfold by (intro keeps_rules; assumption?)+

lemma connections_ok [keeps_rules]:
  "keeps world_ok (getIntegrations d who)" "keeps world_ok (saveIntegration d q who p)" "keeps world_ok (deleteIntegration d who p)"
  unfolding getIntegrations_def saveIntegration_def deleteIntegration_def Let_def by (intro keeps_rules on_hub_ok keeps_hub)+

lemma dash_serve_ok [keeps_rules]: "keeps world_ok (dash_serve d q who rt)"
  by (cases rt) (simp_all only: dash_serve.simps getSystem_def getUpdateCheck_def postUpdate_def getUpdateStatus_def postNestingPolicy_def Let_def
      case_prod_unfold, (intro keeps_rules)+)

lemma serve_dashboard_ok: "keeps world_ok (serve_dashboard d q)"
proof -
  have "keeps sound (authenticate r)" for r unfolding authenticate_def by (intro keeps_rules)
  then have a: "keeps world_ok (dash_auth q f)" if "\<And>u. keeps world_ok (f u)" for f
    unfolding dash_auth_def Let_def using that by (intro keeps_rules)
  show ?thesis unfolding serve_dashboard_def by (intro a keeps_rules)
qed

section \<open>The transition system\<close>

text \<open>The world and the jobs that have not run yet.\<close>

type_synonym 'r site = "'r ssh_world \<times> dash_job list"

definition left_job :: "dberr + dash_answer \<Rightarrow> dash_job list" where
  "left_job r = (case r of Inl _ \<Rightarrow> [] | Inr x \<Rightarrow> (case da_Job x of None \<Rightarrow> [] | Some j \<Rightarrow> [j]))"

inductive site_step :: "'r dashboard \<Rightarrow> 'r site \<Rightarrow> 'r site \<Rightarrow> bool" for d :: "'r dashboard" where
  world: "world_step (dh_Ssh d) w v \<Longrightarrow> site_step d (w, js) (v, js)"
| dashboard: "serve_dashboard d q w = (r, v) \<Longrightarrow> site_step d (w, js) (v, left_job r @ js)"
| job: "j \<in> set js \<Longrightarrow> site_step d (w, js) (snd (on_gateway (run_job d j) w), remove1 j js)"

inductive site_reachable :: "'r dashboard \<Rightarrow> 'r site \<Rightarrow> bool" for d :: "'r dashboard" where
  empty: "gw_reachable (dh_Api d) (gateway.truncate (sw_Hub w)) \<Longrightarrow> t_integrations (sw_Hub w) = [] \<Longrightarrow> site_reachable d (w, [])"
| step: "site_reachable d x \<Longrightarrow> site_step d x y \<Longrightarrow> site_reachable d y"

inductive_cases site_stepE: "site_step d x y"

lemma site_step_ok: "site_step d x y \<Longrightarrow> world_ok (fst x) \<Longrightarrow> world_ok (fst y)"
proof (induction rule: site_step.induct)
  case (world w v js)
  then show ?case by (simp add: world_step_ok)
next
  case (dashboard q w r v js)
  then show ?case using keepsD [OF serve_dashboard_ok, of w d q] by simp
next
  case (job j js w)
  then show ?case using keepsD [OF on_gateway_ok [OF jobs_sound], of w d j] by simp
qed

lemma site_is_ok: "site_reachable d x \<Longrightarrow> world_ok (fst x)"
proof (induction rule: site_reachable.induct)
  case (empty w)
  then show ?case using world_is_ok [OF world_reachable.empty] by simp
qed (rule site_step_ok)

text \<open>C4: Whatever requests of the web, of the API and of the dashboard, SSH sessions, the jobs that requests left, sign-ins, background
  rounds, engine failures and changes of the outside world led to a state of the gateway, in it no hostname is routed to
  two VMs, no VM has more than the allowed number of custom domains, every VM publishes a valid port that is not the
  agent's, every owner's VM names differ, e-mail addresses and session tokens are unique, the default model an account
  chose is offered by one of its own connections, and an account has one connection per service.\<close>

theorem service_sound:
  assumes "site_reachable d (w, jobs)" and "s = sw_Hub w"
  shows "(\<forall>a\<in>set (t_aliases s). \<forall>b\<in>set (t_aliases s). a_Verified a \<and> a_Verified b \<and> a_Hostname a = a_Hostname b \<longrightarrow> a = b)
    \<and> (\<forall>cid. length (filter (\<lambda>a. a_ContainerID a = cid) (t_aliases s)) \<le> MaxAliasesPerContainer)
    \<and> (\<forall>c\<in>set (t_containers s). ValidAppPort (c_AppPort c) \<and> length (c_InitialTask c) \<le> MaxInitialTaskLen)
    \<and> distinct (map (\<lambda>c. (c_OwnerID c, c_Name c)) (t_containers s)) \<and> distinct (map u_Email (t_users s))
    \<and> distinct (map s_Token (t_sessions s))
    \<and> (\<forall>u\<in>set (t_users s). u_DefaultModel u = [] \<or> u_DefaultModel u \<in> set (model_ids s (u_ID u)))
    \<and> distinct (map (\<lambda>g. (ig_Owner g, ig_Provider g)) (t_integrations s))"
proof -
  have "sound s" "conns_ok s" using site_is_ok [OF assms(1)] assms(2) by (simp_all add: world_ok_def hub_ok_def)
  then show ?thesis using sound_facts [of s] by (simp add: conns_ok_def)
qed

section \<open>An instance\<close>

definition demo_dash :: "unit dashboard" where
  "demo_dash = \<lparr>dh_Ssh = demo_ssh, dh_Unseal = (\<lambda>_ _ _. None), dh_Origin = (\<lambda>_. None), dh_Address = Some, dh_ParseKey = (\<lambda>_. None),
     dh_Version = \<lparr>vi_Version = [], vi_Commit = [], vi_BuildDate = [], vi_PicoClaw = [], vi_Shelley = []\<rparr>, dh_UpdateError = (\<lambda>_. []), dh_StatusError = (\<lambda>_. [])\<rparr>"

definition demo_click :: "string \<Rightarrow> string \<Rightarrow> (string \<Rightarrow> string) \<Rightarrow> dash_request" where
  "demo_click verb path form = \<lparr>dq_Api = demo_ask verb path [], dq_Form = form, dq_Post = form, dq_Query = (\<lambda>_. []), dq_Origin = [],
     dq_Host = ''gw.test'', dq_FetchSite = ''same-origin'', dq_UUID2 = ''id2'', dq_Cancelled = None, dq_CheckDone = 0\<rparr>"

lemma reachable_site: "world_reachable (dh_Ssh d) w \<Longrightarrow> site_reachable d (w, [])"
proof (induction rule: world_reachable.induct)
  case (empty w)
  then show ?case by (rule site_reachable.empty)
next
  case (step w v)
  then show ?case by (blast intro: site_reachable.step site_step.world)
qed

theorem service_sound_witness:
  "\<exists>w v r. world_reachable demo_ssh w \<and> map u_Email (t_users (sw_Hub w)) = [''ann'']
    \<and> serve_dashboard demo_dash (demo_click ''POST'' ''/dashboard/vms'' (\<lambda>_. ''web'')) w = (r, v)
    \<and> site_reachable demo_dash (v, left_job r) \<and> distinct (map u_Email (t_users (sw_Hub v)))"
proof -
  obtain w where w: "world_reachable demo_ssh w" "map u_Email (t_users (sw_Hub w)) = [''ann'']" using demo_reached by (elim exE conjE)
  let ?q = "demo_click ''POST'' ''/dashboard/vms'' (\<lambda>_. ''web'')"
  obtain r v where v: "serve_dashboard demo_dash ?q w = (r, v)" by fastforce
  have "dh_Ssh demo_dash = demo_ssh" by (simp add: demo_dash_def)
  then have "site_reachable demo_dash (w, [])" using w(1) by (simp only: reachable_site)
  moreover have "site_step demo_dash (w, []) (v, left_job r)"
    using site_step.dashboard [OF v, of "[]"] by (simp only: append_Nil2)
  ultimately have x: "site_reachable demo_dash (v, left_job r)" by (rule site_reachable.step)
  have y: "distinct (map u_Email (t_users (sw_Hub v)))"
    using service_sound [OF x refl] by (elim conjE)
  show ?thesis using w v x y by (intro exI conjI)
qed

end
