(* ===== verification/Dash_Safety.thy ===== *)
theory Dash_Safety
  imports Dash_Steps Api_Safety
begin

text \<open>
  Who may do what in the dashboard, whose routes have no ownership middleware: a request that is not permitted changes no
  row, leaves no job and is answered with a redirect or a message, never with a page.
\<close>

section \<open>Who may do what\<close>

definition vm_may :: "'r dashboard \<Rightarrow> dash_request \<Rightarrow> 'z store_scheme \<Rightarrow> user \<Rightarrow> string \<Rightarrow> dash_vm_route \<Rightarrow> bool" where
  "vm_may d q s u cid vr \<longleftrightarrow>
     (let own = (\<exists>c\<in>set (t_containers s). c_ID c = cid \<and> c_OwnerID c = u_ID u);
          usable = (can_use s cid (u_ID u) \<and> (\<exists>c\<in>set (t_containers s). c_ID c = cid \<and> c_Status c = ''running''));
          here = same_origin (dh_Origin d) (dq_Origin q) (dq_Host q) (dq_FetchSite q) in
      case vr of
        Vm_detail \<Rightarrow> own \<or> can_use s cid (u_ID u)
      | Vm_card \<Rightarrow> own \<or> can_use s cid (u_ID u)
      | Vm_shell \<Rightarrow> usable
      | Vm_ws \<Rightarrow> usable \<and> allowedWebSocketOrigin (sv_Lower (dh_Api d)) (sv_Domain (dh_Api d)) (dq_Origin q)
      | Vm_members \<Rightarrow> own \<and> u_Role u \<noteq> GuestRole
      | Vm_add_member \<Rightarrow> own \<and> u_Role u \<noteq> GuestRole \<and> here
      | Vm_revoke_member _ \<Rightarrow> own \<and> u_Role u \<noteq> GuestRole \<and> here
      | _ \<Rightarrow> own)"

definition dash_may :: "'r dashboard \<Rightarrow> dash_request \<Rightarrow> 'z store_scheme \<Rightarrow> user \<Rightarrow> dash_route \<Rightarrow> bool" where
  "dash_may d q s u rt \<longleftrightarrow>
     (case rt of
        Dash_vm cid vr \<Rightarrow> vm_may d q s u cid vr
      | _ \<Rightarrow> rt \<in> {Dash_system, Dash_check, Dash_update, Dash_status, Dash_policy} \<longrightarrow> u_Role u = ''admin'')"

text \<open>An answer that shows nothing but a message.\<close>

definition turned_away :: "dash_answer \<Rightarrow> bool" where
  "turned_away a \<longleftrightarrow> da_Status a \<in> {303, 400, 401, 403, 404, 500, 501} \<and> da_Job a = None
     \<and> (da_Body a = Nothing_shown \<or> (\<exists>msg. da_Body a = Plain_text msg))"

section \<open>What is not permitted is not reached\<close>

abbreviation turns_away :: "'z store_scheme \<Rightarrow> ('z store_scheme, dberr, dash_answer) sm \<Rightarrow> bool" where
  "turns_away s m \<equiv> hoare (same_data s) m (\<lambda>x t. same_data s t \<and> turned_away x) (\<lambda>_ _. False)"

lemma turn_text: "st \<in> {400, 401, 403, 404, 500, 501} \<Longrightarrow> turns_away s (dash_text msg st)"
  by (auto simp: dash_text_def turned_away_def intro!: hoare_ret)

lemma can_is: "hoare (same_data s) (CanUseContainer cid uid) (\<lambda>b t. (b \<longrightarrow> can_use s cid uid) \<and> same_data s t) (\<lambda>_ _. False)"
  unfolding CanUseContainer_def
  by (rule look_attempt [OF looks_up_value [of s "\<lambda>s. can_use s cid uid"]]) (auto simp: same_data_derived intro!: hoare_ret)

lemma not_owner:
  assumes "\<not> (\<exists>c\<in>set (t_containers s). c_ID c = cid \<and> c_OwnerID c = u_ID u)" and "st \<in> {404, 500}" and "st' \<in> {404, 500}"
  shows "turns_away s (own_vm_or m1 st m2 st' (Some u) cid f)"
  unfolding own_vm_or_def
  by (rule look_attempt [OF look_containers(1)]) (use assms in \<open>auto simp: scanContainer_def intro!: turn_text\<close>)

lemma not_owner_at:
  assumes "\<not> (\<exists>c\<in>set (t_containers s). c_ID c = cid \<and> c_OwnerID c = u_ID u)"
  shows "turns_away s (ownedVM (Some u) cid f)" "turns_away s (own_vm_inline (Some u) cid f)" "turns_away s (aliasContainer (Some u) cid f)"
  unfolding ownedVM_def own_vm_inline_def aliasContainer_def by (rule not_owner [OF assms]; simp)+

lemma not_member_owner:
  assumes "\<not> ((\<exists>c\<in>set (t_containers s). c_ID c = cid \<and> c_OwnerID c = u_ID u) \<and> u_Role u \<noteq> GuestRole)"
  shows "turns_away s (accessOwner (Some u) cid f)"
  unfolding accessOwner_def
  by (rule look_attempt [OF look_containers(1)]) (use assms in \<open>auto simp: scanContainer_def intro!: turn_text\<close>)

lemma not_viewer:
  assumes "\<not> ((\<exists>c\<in>set (t_containers s). c_ID c = cid \<and> c_OwnerID c = u_ID u) \<or> can_use s cid (u_ID u))"
  shows "turns_away s (viewableVM (Some u) cid f)"
  unfolding viewableVM_def option.case
proof (rule look_attempt [OF look_containers(1)])
  fix c assume "\<exists>d\<in>set (t_containers s). c_ID d = cid \<and> c = scanContainer d"
  then have c: "c_OwnerID c \<noteq> u_ID u" "c_ID c = cid" using assms by (auto simp: scanContainer_def)
  have "turns_away s (bindE (CanUseContainer cid (u_ID u)) (\<lambda>can. if can then f (c\<lparr>c_SharedAccess := True\<rparr>) else dash_text ''forbidden'' 403))"
    by (rule hoare_bindE [OF can_is], rule hoare_pre_pure) (use assms in \<open>auto intro!: turn_text\<close>)
  then show "turns_away s (if c_OwnerID c = u_ID u then f c
      else bindE (CanUseContainer (c_ID c) (u_ID u)) (\<lambda>can. if can then f (c\<lparr>c_SharedAccess := True\<rparr>) else dash_text ''forbidden'' 403))"
    using c by simp
qed (simp add: turn_text)

lemma not_usable:
  assumes "can_use s cid (u_ID u) \<and> (\<exists>c\<in>set (t_containers s). c_ID c = cid \<and> c_Status c = ''running'') \<Longrightarrow> \<forall>c. turns_away s (f u c)"
  shows "turns_away s (usable_vm (Some u) cid f)"
  unfolding usable_vm_def option.case
proof (rule look_attempt [OF look_containers(1)])
  fix c assume x: "\<exists>d\<in>set (t_containers s). c_ID d = cid \<and> c = scanContainer d"
  then have c: "c_ID c = cid" and run: "c_Status c = ''running'' \<Longrightarrow> \<exists>c\<in>set (t_containers s). c_ID c = cid \<and> c_Status c = ''running''"
    by (auto simp: scanContainer_def)
  show "turns_away s (bindE (CanUseContainer (c_ID c) (u_ID u)) (\<lambda>can.
      if \<not> can then dash_text ''forbidden'' 403 else if c_Status c \<noteq> ''running'' then dash_text ''VM is not running'' 400 else f u c))"
    unfolding c by (rule hoare_bindE [OF can_is], rule hoare_pre_pure) (use assms run in \<open>simp add: turn_text\<close>)
qed (simp add: turn_text)

lemma not_member_change:
  assumes "\<not> ((\<exists>c\<in>set (t_containers s). c_ID c = cid \<and> c_OwnerID c = u_ID u) \<and> u_Role u \<noteq> GuestRole
    \<and> same_origin (dh_Origin d) (dq_Origin q) (dq_Host q) (dq_FetchSite q))"
  shows "turns_away s (accessSameOrigin d q (accessOwner (Some u) cid f))"
  unfolding accessSameOrigin_def using assms by (intro hoare_if not_member_owner turn_text) auto

lemma vm_refused:
  assumes "\<not> vm_may d q s u cid vr"
  shows "turns_away s (dash_vm d q (Some u) cid vr)"
proof (cases vr)
  case Vm_shell
  then show ?thesis using assms unfolding Vm_shell dash_vm.simps getShell_def
    by (intro not_usable) (simp add: vm_may_def)
next
  case Vm_ws
  then have "\<not> allowedWebSocketOrigin (sv_Lower (dh_Api d)) (sv_Domain (dh_Api d)) (dq_Origin q)"
    if "can_use s cid (u_ID u) \<and> (\<exists>c\<in>set (t_containers s). c_ID c = cid \<and> c_Status c = ''running'')"
    using assms that by (simp add: vm_may_def Let_def)
  then show ?thesis unfolding Vm_ws dash_vm.simps handleWS_def
    by (intro not_usable allI) (simp add: turn_text split: option.split)
qed (use assms in \<open>simp_all add: vm_may_def Let_def getVMDetail_def getVMCard_def postStartVM_def postStopVM_def postRecreateVM_def
      postRestartVM_def postPublish_def postNesting_def postRetryTask_def deleteVM_def postAddAlias_def postVerifyAlias_def
      dash_deleteAlias_def getAccess_def postAccess_def postRevokeAccess_def not_viewer not_owner_at not_member_owner
      not_member_change\<close>)

section \<open>Requests\<close>

text \<open>Every table, the connections, the host's files and the update check are as before; only engine failures were used up.\<close>

definition same_world :: "'r ssh_world \<Rightarrow> 'r ssh_world \<Rightarrow> bool" where
  "same_world w v \<longleftrightarrow> same_data (sw_Hub w) (sw_Hub v) \<and> sw_Host v = sw_Host w \<and> sw_Checker v = sw_Checker w"

lemma same_world_refl: "same_world w w"
  by (simp add: same_world_def)

lemma on_same_gateway:
  fixes m :: "('r gateway, dberr, 'a) sm"
  assumes "hoare (same_data (gateway.truncate (sw_Hub w))) m (\<lambda>x t. same_data (gateway.truncate (sw_Hub w)) t \<and> R x) (\<lambda>_ _. False)"
  shows "hoare (same_world w) (on_gateway m) (\<lambda>x v. R x \<and> same_world w v) (\<lambda>_ _. False)"
proof -
  have main: "\<exists>x. fst (on_gateway m v) = Inr x \<and> R x \<and> same_world w (snd (on_gateway m v))" if v: "same_world w v" for v
  proof -
    let ?s = "gateway.truncate (sw_Hub w)"
    from v obtain x where hub: "sw_Hub v = (sw_Hub w)\<lparr>faults := x\<rparr>" unfolding same_world_def same_data_def by blast
    then have s: "same_data ?s (gateway.truncate (sw_Hub v))" by (simp add: same_data_def gateway.defs)
    obtain r g where m: "m (gateway.truncate (sw_Hub v)) = (r, g)" by fastforce
    have "\<exists>x. r = Inr x \<and> same_data ?s g \<and> R x"
    proof (cases r)
      case (Inl e)
      then show ?thesis using hoare_Inl [OF assms s] m by simp
    next
      case (Inr x)
      then show ?thesis using hoare_Inr [OF assms s] m by simp
    qed
    then obtain x where x: "r = Inr x" "same_data ?s g" "R x" by blast
    have "t_users g = t_users (gateway.truncate (sw_Hub v))" using same_data_fields [OF x(2)] same_data_fields [OF s] by simp
    then have c: "cascade_connections (gateway.truncate (sw_Hub v)) g gs = gs" for gs
      by (simp add: cascade_connections_def user_exists_def)
    from x(2) obtain y where g: "g = ?s\<lparr>faults := y\<rparr>" unfolding same_data_def by blast
    show ?thesis using v x(3) unfolding on_gateway_def Let_def m prod.case c x(1)
      by (simp add: same_world_def same_data_def g hub gateway.defs hub.defs)
  qed
  show ?thesis by (rule hoareI) (use main in force)+
qed

lemma signed_in_hub: "signed_in (gateway.truncate h) r u = signed_in h r u"
  by (simp add: signed_in_def live_session_def gateway.defs)

lemma vm_may_gateway: "vm_may d q (gateway.truncate h) u cid vr = vm_may d q h u cid vr"
  by (simp add: vm_may_def can_use_def user_exists_def has_grant_def gateway.defs cong: dash_vm_route.case_cong)

lemma admin_refused: "u_Role u \<noteq> ''admin'' \<Longrightarrow> hoare (same_world w) (requireAdmin (Some u) f) (\<lambda>x v. turned_away x \<and> same_world w v) (\<lambda>_ _. False)"
  by (simp add: requireAdmin_def dash_text_def turned_away_def hoare_ret)

lemma dash_refused:
  assumes "\<not> dash_may d q (sw_Hub w) u rt"
  shows "hoare (same_world w) (dash_serve d q (Some u) rt) (\<lambda>x v. turned_away x \<and> same_world w v) (\<lambda>_ _. False)"
proof (cases "\<exists>cid vr. rt = Dash_vm cid vr")
  case True
  then obtain cid vr where rt: "rt = Dash_vm cid vr" by blast
  then have "\<not> vm_may d q (gateway.truncate (sw_Hub w)) u cid vr" using assms by (simp add: dash_may_def vm_may_gateway)
  then show ?thesis unfolding rt dash_serve.simps by (intro on_same_gateway vm_refused)
next
  case False
  then have "rt \<in> {Dash_system, Dash_check, Dash_update, Dash_status, Dash_policy}" "u_Role u \<noteq> ''admin''"
    using assms by (simp_all add: dash_may_def split: dash_route.splits)
  then show ?thesis by (auto simp: getSystem_def getUpdateCheck_def postUpdate_def getUpdateStatus_def postNestingPolicy_def intro!: admin_refused)
qed

text \<open>C2: A request of the dashboard is either served to a signed-in account that may make it, or answered with a redirect or a
  message, and then no row, connection, setting or file changed and no job was left.  The routes of a VM are its owner's, except
  that a member may see it and open its terminal while it runs; inviting and removing members needs a page of the same origin
  and an account that is no guest; a terminal's socket needs the gateway's origin; the system page needs the operator; a guest
  has the guest routes only.  This holds under every schedule of engine failures.\<close>

theorem dash_authorised:
  fixes w v :: "'r ssh_world"
  assumes "dash_route (ar_Method (dq_Api q)) (ar_Path (dq_Api q)) = Some rt" and "serve_dashboard d q w = (Inr a, v)"
  shows "(\<exists>u. signed_in (sw_Hub w) (dq_Api q) u
        \<and> (u_Role u = GuestRole \<longrightarrow> guestRequestAllowed (ar_Method (dq_Api q)) (ar_Path (dq_Api q))) \<and> dash_may d q (sw_Hub w) u rt)
    \<or> same_world w v \<and> turned_away a"
proof (rule ccontr)
  assume n: "\<not> ?thesis"
  let ?r = "dq_Api q" and ?Q = "\<lambda>x v. turned_away x \<and> same_world w v"
  have no: "\<not> dash_may d q (sw_Hub w) u rt"
    if "signed_in (sw_Hub w) ?r u" "u_Role u = GuestRole \<longrightarrow> guestRequestAllowed (ar_Method ?r) (ar_Path ?r)" for u
    using that n by blast
  have said: "hoare (same_world w) (dash_text msg st) ?Q (\<lambda>_ _. False)" if "st \<in> {401, 403, 500}" for msg st
    using that by (auto simp: dash_text_def turned_away_def intro!: hoare_ret)
  have to: "hoare (same_world w) (sent_to l 303) ?Q (\<lambda>_ _. False)" for l by (simp add: sent_to_def turned_away_def hoare_ret)
  let ?signed = "\<lambda>who. \<forall>u. who = Some u \<longrightarrow> signed_in (sw_Hub w) ?r u"
  have auth: "hoare (same_world w) (on_gateway (authenticate ?r)) (\<lambda>who v. ?signed who \<and> same_world w v) (\<lambda>_ _. False)"
  proof (rule on_same_gateway)
    show "hoare (same_data (gateway.truncate (sw_Hub w))) (authenticate ?r) (\<lambda>who t. same_data (gateway.truncate (sw_Hub w)) t \<and> ?signed who) (\<lambda>_ _. False)"
      by (rule hoare_conseq [OF hoare_authenticate]) (auto simp only: signed_in_hub)
  qed
  have "hoare (same_world w) (dash_auth q (\<lambda>u. dash_serve d q (Some u) rt)) ?Q (\<lambda>_ _. False)"
    unfolding dash_auth_def Let_def
    by (rule hoare_bindE [OF auth], rule hoare_pre_pure) (use no in \<open>auto intro!: said to dash_refused split: option.split\<close>)
  then have "hoare (same_world w) (serve_dashboard d q) ?Q (\<lambda>_ _. False)"
    unfolding serve_dashboard_def assms(1) option.case by (rule hoare_attempt) (auto intro!: hoare_ret)
  from hoare_Inr [OF this same_world_refl assms(2)] have "?Q a v" .
  with n show False by blast
qed

section \<open>An instance\<close>

text \<open>One account asks to stop the VM of the other.\<close>

definition demo_signed :: "unit ssh_world" where
  "demo_signed = demo_world (demo_hub\<lparr>t_users := [demo_user ''u1'' ''user'', demo_user ''u2'' ''user''], t_sessions := t_sessions demo_gw,
     t_containers := [demo_vm ''c1'' ''web'' ''u1'', demo_vm ''c2'' ''api'' ''u2'']\<rparr>)"

lemma serve_answers: "\<exists>a v. serve_dashboard d q w = (Inr a, v)"
  by (simp add: serve_dashboard_def attempt_def dash_text_def ret_def split: prod.split sum.split)

theorem dash_authorised_witness:
  "\<exists>a v. serve_dashboard (demo_dash :: unit dashboard) (demo_click ''POST'' ''/dashboard/vms/c2/stop'' (\<lambda>_. [])) demo_signed = (Inr a, v)
    \<and> same_world demo_signed v \<and> turned_away a"
proof -
  let ?q = "demo_click ''POST'' ''/dashboard/vms/c2/stop'' (\<lambda>_. [])"
  have rt: "dash_route (ar_Method (dq_Api ?q)) (ar_Path (dq_Api ?q)) = Some (Dash_vm ''c2'' Vm_stop)"
    unfolding demo_click_def demo_ask_def by code_simp
  have no: "\<not> (signed_in (sw_Hub demo_signed) (dq_Api ?q) u \<and> dash_may demo_dash ?q (sw_Hub demo_signed) u (Dash_vm ''c2'' Vm_stop))" for u
  proof
    assume x: "signed_in (sw_Hub demo_signed) (dq_Api ?q) u \<and> dash_may demo_dash ?q (sw_Hub demo_signed) u (Dash_vm ''c2'' Vm_stop)"
    then have "u_ID u = ''u1''"
      by (simp add: signed_in_def live_session_def demo_signed_def demo_world_def demo_hub_def demo_gw_def demo_click_def demo_ask_def)
    then show False using x by (simp add: dash_may_def vm_may_def demo_signed_def demo_world_def demo_hub_def demo_vm_def)
  qed
  obtain a v where run: "serve_dashboard demo_dash ?q demo_signed = (Inr a, v)" using serve_answers by blast
  with dash_authorised [OF rt run] no show ?thesis by blast
qed

end
