(* ===== verification/Dash_Tenants.thy ===== *)
theory Dash_Tenants
  imports Dash_Safety Ssh_Tenants Api_Tenants
begin

text \<open>
  What one account can change of the others' data, whichever way it comes in.  \<open>acts\<close> is anything an account does: requests
  of the API and of the dashboard with its session, the jobs those leave, SSH sessions with its key, while the runtime, DNS,
  the key files and the clock do what they like; any number of such steps leave the rows of all other accounts as they were.

  Two requests of the dashboard are left out because they write outside the account's rows by design: an invitation may
  create the account of a guest (\<open>GrantContainerAccess_safe\<close>), and the list of VMs stores the address of a VM that is
  shared with the account (\<open>list_stores_addresses\<close> in \<open>Dash_Addresses\<close>).
\<close>

section \<open>More rows of the account\<close>

definition their_keys :: "string \<Rightarrow> 'z store_scheme \<Rightarrow> string set" where
  "their_keys uid s = ak_ID ` {k \<in> set (t_keys s). ak_OwnerID k \<noteq> uid}"

lemma foreign_key:
  assumes "tenant uid s0 X s"
  shows "k \<in> set (t_keys s) \<and> ak_OwnerID k \<noteq> uid \<longleftrightarrow> k \<in> set (t_keys s0) \<and> ak_OwnerID k \<noteq> uid"
proof -
  have "k \<in> set (filter (\<lambda>k. ak_OwnerID k \<noteq> uid) (t_keys s)) \<longleftrightarrow> k \<in> set (filter (\<lambda>k. ak_OwnerID k \<noteq> uid) (t_keys s0))"
    using assms by (simp add: tenant_def others_kept_def del: set_filter)
  then show ?thesis by auto
qed

lemma own_key:
  assumes "tenant uid s0 X s" and "k \<in> set (t_keys s)" and "ak_OwnerID k = uid"
  shows "ak_ID k \<notin> their_keys uid s0"
proof
  assume "ak_ID k \<in> their_keys uid s0"
  then obtain j where j: "j \<in> set (t_keys s0)" "ak_OwnerID j \<noteq> uid" "ak_ID j = ak_ID k" by (auto simp: their_keys_def)
  then have "j \<in> set (t_keys s)" using foreign_key [OF assms(1), of j] by blast
  moreover have "distinct (map ak_ID (t_keys s))" using assms(1) by (simp add: tenant_def uniq_ok_def uq_keys_def)
  ultimately show False using j assms(2,3) by (metis distinct_map_eqD)
qed

lemma gives_own_keys: "gives (tenant uid s0 X) (ListAPIKeysByOwner uid) (\<lambda>ks. \<forall>k\<in>set ks. ak_ID k \<notin> their_keys uid s0)"
  unfolding gives_def
proof (intro conjI allI impI ballI)
  show "keeps (tenant uid s0 X) (ListAPIKeysByOwner uid)" by (rule keeps_rules)
  fix s ks t k assume "tenant uid s0 X s \<and> ListAPIKeysByOwner uid s = (Inr ks, t)" and k: "k \<in> set ks"
  then obtain j where "tenant uid s0 X s" "j \<in> set (t_keys s)" "ak_OwnerID j = uid" "ak_ID k = ak_ID j"
    by (auto simp: ListAPIKeysByOwner_def elim!: bindE_InrE dest!: apikeys.rows_ok)
  then show "ak_ID k \<notin> their_keys uid s0" using own_key by metis
qed

lemma gives_deleted:
  fixes s0 :: "'y store_scheme"
  assumes "i \<notin> their_keys uid s0"
  shows "gives (tenant uid s0 X) (exec (sql_delete_key i []) :: ('z, string) dbm) (\<lambda>o'. o' = uid)"
proof -
  have mine: "ak_OwnerID k = uid" if "tenant uid s0 X s" "k \<in> set (t_keys s)" "ak_ID k = i" for s :: "'z store_scheme" and k
    using assms foreign_key [OF that(1), of k] that(2,3) by (auto simp: their_keys_def)
  have "keeps (tenant uid s0 X) (exec (sql_delete_key i []) :: ('z, string) dbm)"
  proof (rule tenant.keeps_exec)
    fix s t :: "'z store_scheme" and n
    assume s: "tenant uid s0 X s" and r: "sql_delete_key i [] s = Inr (n, t)"
    have "tenant uid s0 X (t_keys_update (filter (\<lambda>k. ak_ID k \<noteq> i)) s)"
      using mine [OF s] uq_kept [OF s] by (intro tenant_frame(3) [OF s] uq_filter filter_drop) blast+
    then show "tenant uid s0 X t" using r by (auto simp: sql_delete_key_def Let_def split: option.splits)
  qed
  then show ?thesis
    by (auto simp: gives_def sql_delete_key_def Let_def split: option.splits elim!: exec_InrE dest!: find_Some_iff_mem dest: mine)
qed

lemma tenant_delete_key [keeps_rules]:
  assumes "i \<notin> their_keys uid s0"
  shows "keeps (tenant uid s0 X) (DeleteAPIKey i)"
  unfolding DeleteAPIKey_def deleteAPIKey_def
  by (intro keeps_rules tenant.keeps_in_tx gives_then [OF gives_deleted [OF assms]]) (simp_all add: tenant_models)

lemma tenant_more_reads [keeps_rules]:
  "keeps (tenant uid s0 X) (ListContainerAccess i)" "keeps (tenant uid s0 X) (GetAPIKeyPlaintext un i ek)"
  unfolding ListContainerAccess_def GetAPIKeyPlaintext_def by (intro keeps_rules)+

lemma tenant_revoke_access [keeps_rules]:
  assumes "cid \<notin> theirs uid s0"
  shows "keeps (tenant uid s0 X) (RevokeContainerAccess ow cid g)"
proof -
  have "keeps (tenant uid s0 X) (exec (sql_delete t_access t_access_update (\<lambda>p. p = (cid, g))))"
    by (rule tenant.keeps_exec)
      (use assms in \<open>auto simp: sql_delete_def simp del: filter_filter dest: uq_kept intro!: tenant_frame uq_filter filter_drop\<close>)
  then show ?thesis unfolding RevokeContainerAccess_def by (intro keeps_rules)
qed

section \<open>Handlers of a VM\<close>

lemma tenant_data [keeps_rules]:
  "keeps (tenant uid s0 X) (navCounts who)" "keeps (tenant uid s0 X) (fragmentData d who)" "keeps (tenant uid s0 X) (newData d who)"
  "keeps (tenant uid s0 X) (cardData c e)" "keeps (tenant uid s0 X) (renderCard c)" "keeps (tenant uid s0 X) (vm_page d who c e m)"
  unfolding vm_page_def renderCard_def cardData_def newData_def navCounts_def fragmentData_def Let_def case_prod_unfold by (intro keeps_rules)+

lemma on_own_vm:
  assumes "u_ID u = uid" and "\<And>c. c_ID c = cid \<Longrightarrow> cid \<notin> theirs uid s0 \<Longrightarrow> keeps (tenant uid s0 X) (f c)"
  shows "keeps (tenant uid s0 X) (own_vm_or m1 st m2 st' (Some u) cid f)" "keeps (tenant uid s0 X) (accessOwner (Some u) cid f)"
  unfolding own_vm_or_def accessOwner_def
  by (rule gives_attempt [OF gives_vm_by_id]; (intro keeps_rules)?; (use assms in auto)?)+

lemma on_viewable_vm:
  assumes "\<And>c. keeps (tenant uid s0 X) (f c)"
  shows "keeps (tenant uid s0 X) (viewableVM who cid f)"
  unfolding viewableVM_def by (intro keeps_rules assms)

lemma on_usable_vm: "(\<And>u c. keeps (tenant uid s0 X) (f u c)) \<Longrightarrow> keeps (tenant uid s0 X) (usable_vm who cid f)"
  unfolding usable_vm_def by (intro keeps_rules; assumption)

lemma tenant_vm_parts [keeps_rules]:
  assumes "c_ID c \<notin> theirs uid s0"
  shows "keeps (tenant uid s0 X) (now_running c)" "keeps (tenant uid s0 X) (bring_up d dl c)"
    "keeps (tenant uid s0 X) f \<Longrightarrow> keeps (tenant uid s0 X) (with_keys d c f)" "keeps (tenant uid s0 X) f \<Longrightarrow> keeps (tenant uid s0 X) (stop_first d w c f)"
    "keeps (tenant uid s0 X) f \<Longrightarrow> keeps (tenant uid s0 X) (told_guide d c f)"
proof -
  have r: "keeps (tenant uid s0 X) (now_running x)" if "c_ID x \<notin> theirs uid s0" for x
    unfolding now_running_def using that by (intro keeps_rules)
  then show "keeps (tenant uid s0 X) (now_running c)" using assms by blast
  have up: "keeps (tenant uid s0 X) (bindE (attempt (rt_call m) (\<lambda>_. ret x) (\<lambda>y. ret (x\<lparr>c_IPAddress := rc_IP y\<rparr>))) now_running)"
    if "c_ID x \<notin> theirs uid s0" for x m
    by (rule gives_then [where R = "\<lambda>y. c_ID y = c_ID x"]) (use that in \<open>auto intro!: gives_handled [OF gives_basic(1)] gives_basic keeps_rules r\<close>)
  show "keeps (tenant uid s0 X) (bring_up d dl c)"
    unfolding bring_up_def Let_def by (rule on_prepared [OF assms]) (intro keeps_rules up; simp add: assms)
qed (unfold with_keys_def stop_first_def told_guide_def Let_def, (intro keeps_rules assms; assumption?)+)

lemma tenant_alias_error [keeps_rules]: "keeps (tenant uid s0 X) (dash_alias_error d e)"
  unfolding dash_alias_error_def by (cases e) (simp_all add: keeps_answers)

lemma tenant_drop [keeps_rules]: "cid \<notin> theirs uid s0 \<Longrightarrow> keeps (tenant uid s0 X) (drop_vm d c cid)"
  unfolding drop_vm_def Let_def by (intro keeps_rules; assumption)

definition invites :: "dash_route \<Rightarrow> bool" where
  "invites rt \<longleftrightarrow> (\<exists>cid. rt = Dash_vm cid Vm_add_member)"

lemma tenant_vm_route:
  assumes u: "u_ID u = uid" and "vr \<noteq> Vm_add_member"
  shows "keeps (tenant uid s0 X) (dash_vm d q (Some u) cid vr)"
proof -
  have mine: "keeps (tenant uid s0 X) (own_vm_inline (Some u) cid f)" "keeps (tenant uid s0 X) (ownedVM (Some u) cid f)"
    "keeps (tenant uid s0 X) (aliasContainer (Some u) cid f)" "keeps (tenant uid s0 X) (accessOwner (Some u) cid f)"
    if "\<And>c. c_ID c = cid \<Longrightarrow> cid \<notin> theirs uid s0 \<Longrightarrow> keeps (tenant uid s0 X) (f c)" for f
    unfolding own_vm_inline_def ownedVM_def aliasContainer_def by (rule on_own_vm [OF u that]; assumption)+
  have powered: "keeps (tenant uid s0 X) (postStartVM d (Some u) cid)" "keeps (tenant uid s0 X) (postStopVM d (Some u) cid)"
    "keeps (tenant uid s0 X) (postRecreateVM (Some u) cid)" "keeps (tenant uid s0 X) (postRestartVM d (Some u) cid)"
    "keeps (tenant uid s0 X) (deleteVM d (Some u) cid)"
    unfolding postStartVM_def postStopVM_def postRecreateVM_def postRestartVM_def deleteVM_def
    by (rule mine, intro keeps_rules; simp)+
  have applied: "keeps (tenant uid s0 X) (bindE (ApplyNesting rt c) (\<lambda>(now, _). told_guide d now (renderCard now)))"
    if "c_ID c \<notin> theirs uid s0" for rt c
    by (rule gives_then [OF gives_prepared(2)]) (use that in \<open>auto intro!: keeps_rules\<close>)
  have saved: "keeps (tenant uid s0 X) (attempt (GetContainerByID i) (\<lambda>_. dash_text m st) f)"
    if "\<And>c. c_ID c = i \<Longrightarrow> keeps (tenant uid s0 X) (f c)" for i m st f
    by (rule gives_attempt [OF gives_vm_by_id]) (use that in \<open>auto intro: keeps_answers\<close>)
  have settings: "keeps (tenant uid s0 X) (postNesting d q (Some u) cid)" "keeps (tenant uid s0 X) (postPublish d q (Some u) cid)"
    "keeps (tenant uid s0 X) (postRetryTask d (Some u) cid)"
    unfolding postNesting_def postPublish_def postRetryTask_def Let_def
    by (rule mine, intro saved applied keeps_rules; simp)+
  have claims: "keeps (tenant uid s0 X) (postAddAlias d q (Some u) cid)" "keeps (tenant uid s0 X) (postVerifyAlias d (Some u) cid aid)"
    "keeps (tenant uid s0 X) (dash_deleteAlias d (Some u) cid aid)" for aid
    unfolding postAddAlias_def postVerifyAlias_def dash_deleteAlias_def by (rule mine, intro keeps_rules; simp)+
  have members: "keeps (tenant uid s0 X) (getAccess (Some u) cid)" "keeps (tenant uid s0 X) (postRevokeAccess d q (Some u) cid g)" for g
    unfolding getAccess_def postRevokeAccess_def accessSameOrigin_def
    by (rule mine, rule keeps_answers) (rule keeps_if, rule mine, intro keeps_rules, simp, rule keeps_answers)
  have seen: "keeps (tenant uid s0 X) (getVMDetail d (Some u) cid)" "keeps (tenant uid s0 X) (getVMCard (Some u) cid)"
    "keeps (tenant uid s0 X) (getShell d (Some u) cid)" "keeps (tenant uid s0 X) (handleWS d q (Some u) cid)"
    unfolding getVMDetail_def getVMCard_def getShell_def handleWS_def Let_def by (intro on_viewable_vm on_usable_vm keeps_rules)+
  show ?thesis using assms(2) by (cases vr) (simp_all only: dash_vm.simps powered settings claims members seen simp_thms)
qed

section \<open>Handlers of the account\<close>

lemma tenant_llm:
  assumes "u_ID u = uid"
  shows "keeps (tenant uid s0 X) (loadLLMBody d uid)" "keeps (tenant uid s0 X) (synced d u m)"
    "\<forall>k\<in>set ks. ak_ID k \<notin> their_keys uid s0 \<Longrightarrow> keeps (tenant uid s0 X) (delete_matching d p ks b)"
proof -
  have "keeps (tenant uid s0 X) (key_rows d ks)" for ks by (induction ks) (simp_all only: key_rows.simps, (intro keeps_rules; assumption?)+)
  then show l: "keeps (tenant uid s0 X) (loadLLMBody d uid)" unfolding loadLLMBody_def by (intro keeps_rules)
  have each: "keeps (tenant uid s0 X) (refresh_each sv mz i chosen cs)" for sv mz i chosen cs
    by (induction cs) (simp_all only: refresh_each.simps, (intro keeps_rules; assumption?)+)
  show "keeps (tenant uid s0 X) (synced d u m)"
    unfolding synced_def getLLMBody_def refreshProviderKeys_def assms by (intro keeps_rules l each)
  show "\<forall>k\<in>set ks. ak_ID k \<notin> their_keys uid s0 \<Longrightarrow> keeps (tenant uid s0 X) (delete_matching d p ks b)"
  proof (induction ks arbitrary: b)
    case (Cons k ks)
    then show ?case unfolding delete_matching.simps by (intro keeps_rules) simp_all
  qed (simp add: keeps_ret)
qed

lemma tenant_account_pages:
  assumes u: "u_ID u = uid"
  shows "keeps (tenant uid s0 X) (getVMs d (Some u))" "keeps (tenant uid s0 X) (getVMCreate d (Some u))"
    "keeps (tenant uid s0 X) (getKeys d (Some u))" "keeps (tenant uid s0 X) (putKey d q (Some u) p)" "keeps (tenant uid s0 X) (dash_deleteKey d (Some u) p)"
    "keeps (tenant uid s0 X) (postDefaultModel d q (Some u))" "keeps (tenant uid s0 X) (getSSHKeys d (Some u))"
    "keeps (tenant uid s0 X) (postSSHKey d q (Some u))" "keeps (tenant uid s0 X) (dash_deleteSSHKey (Some u) kid)"
proof -
  note llm = tenant_llm [OF u]
  have e: "keeps (tenant uid s0 X) (case e of ErrUnknownModel _ \<Rightarrow> dash_text (sv_Error (dh_Api d) e) 400 | ErrNoRows \<Rightarrow> dash_text ''unauthorized'' 401
      | _ \<Rightarrow> dash_text ''failed to save the default model'' 500)" for e
    by (cases e) (simp_all add: keeps_answers)
  show "keeps (tenant uid s0 X) (postDefaultModel d q (Some u))"
    unfolding postDefaultModel_def option.case u by (intro e llm keeps_rules)
  have s: "keeps (tenant uid s0 X) (ssh_keys_error d u m)" for m unfolding ssh_keys_error_def by (intro keeps_rules)
  show "keeps (tenant uid s0 X) (postSSHKey d q (Some u))"
    unfolding postSSHKey_def Let_def option.case by (intro s keeps_rules; simp add: u)
  show "keeps (tenant uid s0 X) (dash_deleteKey d (Some u) p)"
    unfolding dash_deleteKey_def Let_def option.case u
    by (rule keeps_if, rule keeps_answers, rule gives_attempt [OF gives_own_keys], rule keeps_answers) (intro keeps_rules llm; assumption)
  show "keeps (tenant uid s0 X) (getVMs d (Some u))" "keeps (tenant uid s0 X) (getVMCreate d (Some u))"
    "keeps (tenant uid s0 X) (getKeys d (Some u))" "keeps (tenant uid s0 X) (putKey d q (Some u) p)"
    "keeps (tenant uid s0 X) (getSSHKeys d (Some u))" "keeps (tenant uid s0 X) (dash_deleteSSHKey (Some u) kid)"
    unfolding getVMs_def getVMCreate_def getKeys_def putKey_def getSSHKeys_def dash_deleteSSHKey_def Let_def case_prod_unfold option.case u
    by (intro keeps_rules llm)+
qed

section \<open>Jobs\<close>

primrec job_vm :: "dash_job \<Rightarrow> container" where
  "job_vm (Make_vm c effective) = c"
| "job_vm (Remake_vm c) = c"

lemma tenant_job:
  assumes "c_ID (job_vm j) \<notin> theirs uid s0"
  shows "keeps (tenant uid s0 X) (run_job d j)"
proof -
  have marked: "gives (tenant uid s0 X) (attempt (MarkStarted c b) (\<lambda>_. ret c) ret) (\<lambda>c'. c_ID c' \<notin> theirs uid s0)" if "c_ID c \<notin> theirs uid s0" for c b
    using that by (intro gives_fallback gives_weaken [OF gives_prepared(3) [OF that]]) simp_all
  have up: "keeps (tenant uid s0 X) (made_up d c ip)" "keeps (tenant uid s0 X) (remade d c backup)" if "c_ID c \<notin> theirs uid s0" for c ip backup
    unfolding made_up_def remade_def Let_def by (intro keeps_rules that)+
  show ?thesis
  proof (cases j)
    case (Make_vm c e)
    then have c: "c_ID c \<notin> theirs uid s0" using assms by simp
    have go: "keeps (tenant uid s0 X) (if b then made_up d c' ip else attempt (rt_call m) (\<lambda>_. and_status (c_ID c') st ip (ret ())) (\<lambda>_. made_up d c' ip))"
      if "c_ID c' \<notin> theirs uid s0" for b c' ip m st
      using that by (intro keeps_rules up)
    show ?thesis
      unfolding Make_vm run_job.simps make_vm_def Let_def
      by (rule keeps_attempt, rule tenant_calls, rule tenant_and_status [OF c keeps_ret], rule gives_then [OF marked [OF c]], rule go, assumption)
  next
    case (Remake_vm c)
    then have c: "c_ID c \<notin> theirs uid s0" using assms by simp
    have again: "keeps (tenant uid s0 X) (bindE (attempt (MarkStarted c' b) (\<lambda>_. ret c') ret) (\<lambda>x. remade d x backup))"
      if "c_ID c' = c_ID c" for c' b backup
      using c that up(2) by (intro gives_then [OF marked]) simp_all
    show ?thesis
      unfolding Remake_vm run_job.simps remake_vm_def Let_def
      by (rule gives_then [OF gives_prepared(1) [OF c]]) (auto intro!: keeps_rules again c simp: case_prod_unfold)
  qed
qed

text \<open>Only two handlers leave a job.\<close>

named_theorems plains \<open>handlers that leave no job\<close>

definition plain :: "('s, 'e, dash_answer) sm \<Rightarrow> bool" where
  "plain m \<longleftrightarrow> (\<forall>s x t. m s = (Inr x, t) \<longrightarrow> da_Job x = None)"

lemma plain_rules [plains]:
  "plain (dash_text msg st)" "plain (shows_page b)" "plain (sent_to l st)" "plain (raise e)"
  "(\<And>a. plain (f a)) \<Longrightarrow> plain (bindE m f)"
  "(\<And>e. plain (h e)) \<Longrightarrow> (\<And>a. plain (g a)) \<Longrightarrow> plain (attempt m' h g)"
  "plain (ret \<lparr>da_Status = st, da_Location = l', da_Body = b, da_Job = None\<rparr>)"
  unfolding plain_def dash_text_def shows_page_def sent_to_def
  by (auto simp: ret_def raise_def bindE_def attempt_def split: prod.splits sum.splits)

lemma plain_cases [plains]:
  "plain f \<Longrightarrow> plain g \<Longrightarrow> plain (if b then f else g)"
  "plain f \<Longrightarrow> (\<And>a. plain (g' a)) \<Longrightarrow> plain (case x of None \<Rightarrow> f | Some a \<Rightarrow> g' a)"
  "(\<And>a. plain (h a)) \<Longrightarrow> (\<And>a. plain (g'' a)) \<Longrightarrow> plain (case y of Inl a \<Rightarrow> h a | Inr a \<Rightarrow> g'' a)"
  "(\<And>a b. plain (k a b)) \<Longrightarrow> plain (case p of (a, b) \<Rightarrow> k a b)"
  "(\<And>e. plain (h' e)) \<Longrightarrow> (\<And>a. plain (g3 a)) \<Longrightarrow> plain (catch m h' g3)"
  by (auto split: option.split sum.split prod.split simp: catch_def intro!: plain_rules)

lemma plain_card [plains]: "plain (renderCard c)" "plain (now_running c)" "plain (dash_alias_error d e)"
proof -
  show r: "plain (renderCard c)" for c :: container unfolding renderCard_def by (intro plain_rules)
  show "plain (now_running c)" unfolding now_running_def by (intro plain_rules r)
  show "plain (dash_alias_error d e)" unfolding dash_alias_error_def by (cases e) (auto intro!: plain_rules)
qed

lemma plain_vm: "vr \<noteq> Vm_recreate \<Longrightarrow> plain (dash_vm d q who cid vr)"
  by (cases vr) (simp_all only: dash_vm.simps getVMDetail_def getVMCard_def postStartVM_def postStopVM_def postRestartVM_def
      postPublish_def postNesting_def postRetryTask_def deleteVM_def postAddAlias_def postVerifyAlias_def dash_deleteAlias_def getAccess_def
      postAccess_def postRevokeAccess_def getShell_def handleWS_def Let_def case_prod_unfold own_vm_inline_def ownedVM_def aliasContainer_def
      own_vm_or_def accessOwner_def viewableVM_def usable_vm_def with_keys_def bring_up_def drop_vm_def stop_first_def told_guide_def
      accessSameOrigin_def and_status_def simp_thms, (intro plains)+)

definition safe_job :: "string \<Rightarrow> 'y store_scheme \<Rightarrow> dash_answer \<Rightarrow> bool" where
  "safe_job uid s0 x \<longleftrightarrow> (\<forall>j. da_Job x = Some j \<longrightarrow> c_ID (job_vm j) \<notin> theirs uid s0)"

lemma gives_plain: "keeps I m \<Longrightarrow> plain m \<Longrightarrow> gives I m (safe_job uid s0)"
  unfolding gives_def plain_def safe_job_def by (metis option.distinct(1))

lemma gives_text: "gives I (dash_text m st) (safe_job uid s0)"
  by (rule gives_plain; intro keeps_answers plain_rules)

lemma job_vm_route:
  assumes "u_ID u = uid" and "vr \<noteq> Vm_add_member"
  shows "gives (tenant uid s0 X) (dash_vm d q (Some u) cid vr) (safe_job uid s0)"
proof (cases "vr = Vm_recreate")
  case True
  have left: "gives (tenant uid s0 X) (and_status cid st ip (bindE (renderCard c') (\<lambda>x. ret (x\<lparr>da_Job := Some (Remake_vm c)\<rparr>)))) (safe_job uid s0)"
    if "c_ID c \<notin> theirs uid s0" "cid \<notin> theirs uid s0" for c c' st ip
    unfolding and_status_def
    by (intro gives_handled [OF gives_basic(1)] gives_bindE [OF gives_basic(1)] gives_basic keeps_rules that) (simp_all add: safe_job_def that)
  have own: "gives (tenant uid s0 X) (if map_option u_ID (Some u) \<noteq> Some (c_OwnerID c) then dash_text ''forbidden'' 403
      else if c_Status c = ''creating'' \<or> c_Status c = ''recreating'' then dash_text ''VM is busy, please wait'' 409
      else and_status cid ''recreating'' (c_IPAddress c)
       (bindE (renderCard (c\<lparr>c_Status := ''recreating''\<rparr>)) (\<lambda>x. ret (x\<lparr>da_Job := Some (Remake_vm c)\<rparr>)))) (safe_job uid s0)"
    if "c_ID c = cid \<and> (c_OwnerID c = uid \<longrightarrow> cid \<notin> theirs uid s0)" for c
    using that assms(1) by (intro gives_if gives_text left) simp_all
  show ?thesis
    unfolding True dash_vm.simps postRecreateVM_def own_vm_inline_def own_vm_or_def
    by (rule gives_handled [OF gives_vm_by_id]) (intro gives_if gives_text own; assumption)+
next
  case False
  then show ?thesis using assms by (intro gives_plain tenant_vm_route plain_vm)
qed

lemma job_create:
  assumes "u_ID u = uid"
  shows "gives (tenant uid s0 X) (postCreateVM d q (Some u)) (safe_job uid s0)"
proof -
  have left: "gives (tenant uid s0 X) (list_created d u (Make_vm c e)) (safe_job uid s0)" if "c_ID c \<notin> theirs uid s0" for c e
    unfolding list_created_def case_prod_unfold
    by (intro gives_bindE [OF gives_basic(1)] gives_basic keeps_rules) (simp add: safe_job_def that)
  have made: "gives (tenant uid s0 X) (attempt (CreateContainer (dash_container q u name nesting)) (\<lambda>e. dash_text (m e) 400)
      (\<lambda>c. list_created d u (Make_vm c (b \<and> nesting)))) (safe_job uid s0)" for name nesting m b
    using assms by (intro gives_handled [OF gives_new_vm] gives_text left) (simp_all add: dash_container_def)
  show ?thesis
    unfolding postCreateVM_def Let_def option.case
    by (intro gives_if gives_text gives_handled [OF gives_basic(1)] gives_bindE [OF gives_basic(1)] made keeps_rules)
qed

section \<open>Requests of the dashboard\<close>

lemma apart_system:
  assumes "u_Role u \<noteq> ''admin''"
  shows "requireAdmin (Some u) f = dash_text ''forbidden'' 403"
  using assms by (simp add: requireAdmin_def)

lemma apart_pages:
  assumes "u_ID u = uid"
  shows "keeps (apart_world uid w0) (getIntegrations d (Some u))" "keeps (apart_world uid w0) (saveIntegration d q (Some u) p)"
    "keeps (apart_world uid w0) (deleteIntegration d (Some u) p)"
  unfolding getIntegrations_def saveIntegration_def deleteIntegration_def Let_def option.case assms
  by (intro keeps_rules apart_connections)+

lemma plain_pages:
  "plain (getIntegrations d (Some u))" "plain (saveIntegration d q (Some u) p)" "plain (deleteIntegration d (Some u) p)"
  "plain (getVMs d (Some u))" "plain (getVMCreate d (Some u))" "plain (getKeys d (Some u))" "plain (putKey d q (Some u) p)"
  "plain (dash_deleteKey d (Some u) p)" "plain (postDefaultModel d q (Some u))" "plain (getSSHKeys d (Some u))" "plain (postSSHKey d q (Some u))"
  "plain (dash_deleteSSHKey (Some u) kid)"
proof -
  have e: "plain (case e of ErrUnknownModel _ \<Rightarrow> dash_text (sv_Error (dh_Api d) e) 400 | ErrNoRows \<Rightarrow> dash_text ''unauthorized'' 401
      | _ \<Rightarrow> dash_text ''failed to save the default model'' 500)" for e
    by (cases e) (simp_all add: plain_rules)
  show "plain (postDefaultModel d q (Some u))" unfolding postDefaultModel_def synced_def getLLMBody_def option.case by (intro e plains)
qed (unfold getIntegrations_def saveIntegration_def deleteIntegration_def getVMs_def getVMCreate_def getKeys_def putKey_def dash_deleteKey_def
      getSSHKeys_def postSSHKey_def dash_deleteSSHKey_def ssh_keys_error_def synced_def getLLMBody_def Let_def case_prod_unfold option.case,
    (intro plains)+)

lemma dash_serve_apart:
  assumes "u_ID u = uid" and "u_Role u \<noteq> ''admin''" and "rt \<noteq> Dash_list" and "\<not> invites rt"
  shows "gives (apart_world uid w0) (dash_serve d q (Some u) rt) (safe_job uid (sw_Hub w0))"
proof (cases rt)
  case (Dash_vm cid vr)
  then have "vr \<noteq> Vm_add_member" using assms(4) by (auto simp: invites_def)
  then show ?thesis unfolding Dash_vm dash_serve.simps using assms(1) by (intro gives_on_gateway job_vm_route)
next
  case Dash_create
  show ?thesis unfolding Dash_create dash_serve.simps using assms(1) by (intro gives_on_gateway job_create)
qed (simp_all only: dash_serve.simps getSystem_def getUpdateCheck_def postUpdate_def getUpdateStatus_def postNestingPolicy_def
      apart_system [OF assms(2)] gives_text,
    (insert assms(3), blast intro!: gives_plain keeps_answers plain_rules gives_on_gateway apart_pages [OF assms(1)]
      tenant_account_pages [OF assms(1)] plain_pages)+)

text \<open>The session check gives nobody or the account of the session, and changes no row.\<close>

lemma authenticated:
  assumes "apart_world uid w0 w"
  obtains who w1 where "on_gateway (authenticate r) w = (Inr who, w1)" and "apart_world uid w0 w1"
    and "\<forall>u. who = Some u \<longrightarrow> signed_in (sw_Hub w) r u"
proof -
  let ?s = "gateway.truncate (sw_Hub w)"
  obtain x g where m: "authenticate r ?s = (x, g)" by fastforce
  note h = hoare_authenticate [of ?s r]
  obtain who where x: "x = Inr who" using hoare_Inl [OF h same_data_refl, of "projl x" g] m by (cases x) auto
  have g: "(\<forall>u. who = Some u \<longrightarrow> signed_in ?s r u) \<and> same_data ?s g" using hoare_Inr [OF h same_data_refl] m x by blast
  have "tenant uid (sw_Hub w0) {} ?s" using assms by (simp add: apart_world_def tenant_hub)
  then have "tenant uid (sw_Hub w0) {} g" using g by (blast intro: tenant_same)
  then have a: "apart_world uid w0 (snd (on_gateway (authenticate r) w))" by (rule apart_gateway_at [where m = "authenticate r", OF assms m])
  have "fst (on_gateway (authenticate r) w) = Inr who" by (simp add: on_gateway_def Let_def m x)
  then show ?thesis using that a g by (metis prod.collapse signed_in_hub)
qed

lemma dash_request_apart:
  fixes w :: "'r ssh_world"
  assumes w: "apart_world uid w0 w" and no: "\<forall>u\<in>set (t_users (sw_Hub w0)). u_ID u = uid \<longrightarrow> \<not> isAdmin u"
    and who: "\<forall>u. signed_in (sw_Hub w) (dq_Api q) u \<longrightarrow> u_ID u = uid"
    and rt: "dash_route (ar_Method (dq_Api q)) (ar_Path (dq_Api q)) = Some rt" "rt \<noteq> Dash_list" "\<not> invites rt"
    and run: "serve_dashboard d q w = (r, v)"
  shows "apart_world uid w0 v \<and> (\<forall>j\<in>set (left_job r). c_ID (job_vm j) \<notin> theirs uid (sw_Hub w0))"
proof -
  let ?I = "apart_world uid w0" and ?R = "safe_job uid (sw_Hub w0)"
  obtain x w1 where a: "on_gateway (authenticate (dq_Api q)) w = (Inr x, w1)" "?I w1" "\<forall>u. x = Some u \<longrightarrow> signed_in (sw_Hub w) (dq_Api q) u"
    using authenticated [OF w] by blast
  have user: "u_ID u = uid \<and> u_Role u \<noteq> ''admin''" if "x = Some u" for u
  proof -
    have u: "u \<in> set (t_users (sw_Hub w))" "u_ID u = uid" using a(3) that who by (auto simp: signed_in_def)
    have "tenant uid (sw_Hub w0) {} (sw_Hub w)" using w by (simp add: apart_world_def)
    from still_no_admin [OF this no u] u(2) show ?thesis by (simp add: isAdmin_def)
  qed
  have "gives ?I (case x of None \<Rightarrow> if wantsHTML (dq_Api q)
           then sent_to (''/login'' @ (if ar_Path (dq_Api q) \<noteq> [] then ''?next='' @ ar_RequestURI (dq_Api q) else [])) 303
           else dash_text ''unauthorized'' 401
       | Some u \<Rightarrow> if u_Role u = GuestRole \<and> \<not> guestRequestAllowed (ar_Method (dq_Api q)) (ar_Path (dq_Api q))
           then dash_text ''guest accounts may only use assigned VMs and manage their SSH keys'' 403
           else dash_serve d q (Some u) rt) ?R" (is "gives ?I ?m ?R")
  proof (cases x)
    case None
    then show ?thesis by (auto intro!: gives_plain keeps_answers plain_rules)
  next
    case (Some u)
    then show ?thesis using user [OF Some] rt(2,3) by (auto intro: gives_text dash_serve_apart)
  qed
  then have g: "gives ?I (attempt ?m (\<lambda>_. dash_text [] 500) ret :: 'r dash) ?R"
    by (rule gives_handled) (auto intro: gives_text gives_basic)
  have "serve_dashboard d q w = attempt ?m (\<lambda>_. dash_text [] 500) ret w1"
    unfolding serve_dashboard_def rt(1) option.case dash_auth_def Let_def by (simp add: attempt_def bindE_def a(1))
  then have e: "attempt ?m (\<lambda>_. dash_text [] 500) ret w1 = (r, v)" using run by simp
  have "?I v" using keepsD [OF givesD [OF g] a(2)] unfolding e snd_conv .
  moreover have "?R y" if "r = Inr y" for y using g a(2) e that unfolding gives_def by blast
  ultimately show ?thesis by (auto simp: left_job_def safe_job_def split: sum.split option.split)
qed

section \<open>Anything an account does\<close>

text \<open>What is not the account's doing: the runtime, the resolver, the key files, the clock and the engine's failures.\<close>

definition only_outside :: "'r ssh_world \<Rightarrow> 'r ssh_world \<Rightarrow> bool" where
  "only_outside w v \<longleftrightarrow> (let s = sw_Hub w; t = sw_Hub v in
     t_users t = t_users s \<and> t_sessions t = t_sessions s \<and> t_containers t = t_containers s \<and> t_aliases t = t_aliases s
   \<and> t_keys t = t_keys s \<and> t_links t = t_links s \<and> t_settings t = t_settings s \<and> t_sshkeys t = t_sshkeys s \<and> t_access t = t_access s
   \<and> t_integrations t = t_integrations s \<and> sw_Host v = sw_Host w \<and> sw_Checker v = sw_Checker w)"

text \<open>What an account does: a request of the API under its session, one for its connections to external services among them (as the
  middleware hands it to their handler, with the account's identifier; the session check before it changes no row), a request
  of the dashboard, a job that one left, an SSH session; and what happens around it.\<close>

inductive acts :: "'r dashboard \<Rightarrow> string \<Rightarrow> 'r site \<Rightarrow> 'r site \<Rightarrow> bool" for d :: "'r dashboard" and uid :: string where
  start: "acts d uid (w, []) (w, [])"
| api: "acts d uid x (w, js) \<Longrightarrow> \<forall>u. signed_in (sw_Hub w) r u \<longrightarrow> u_ID u = uid \<Longrightarrow>
    api_route (ar_Method r) (ar_Path r) = Some rt \<Longrightarrow> acts d uid x (snd (on_gateway (serve_api (dh_Api d) rest r) w), js)"
| connections: "acts d uid x (w, js) \<Longrightarrow>
    acts d uid x (snd (on_hub (int_handler (ss_Codec (dh_Ssh d)) (ss_Integrations (dh_Ssh d)) (ss_ReadInput (dh_Ssh d)) rnd uid p verb text') w), js)"
| dashboard: "acts d uid x (w, js) \<Longrightarrow> \<forall>u. signed_in (sw_Hub w) (dq_Api q) u \<longrightarrow> u_ID u = uid \<Longrightarrow>
    dash_route (ar_Method (dq_Api q)) (ar_Path (dq_Api q)) = Some rt' \<Longrightarrow> rt' \<noteq> Dash_list \<Longrightarrow> \<not> invites rt' \<Longrightarrow>
    serve_dashboard d q w = (a, v) \<Longrightarrow> acts d uid x (v, left_job a @ js)"
| job: "acts d uid x (w, js) \<Longrightarrow> j \<in> set js \<Longrightarrow> acts d uid x (snd (on_gateway (run_job d j) w), remove1 j js)"
| ssh: "acts d uid x (w, js) \<Longrightarrow> \<forall>u. se_User se = Some u \<longrightarrow> u_ID u = uid \<Longrightarrow>
    acts d uid x (snd (handleSession (dh_Ssh d) se i lines w), js)"
| outside: "acts d uid x (w, js) \<Longrightarrow> only_outside w v \<Longrightarrow> acts d uid x (v, js)"

lemma apart_handler: "keeps (apart_world uid w0) (on_hub (int_handler cd iv decode rnd uid p verb x))"
proof (rule apart_on_hub)
  fix h :: "'a hub"
  have list: "same_data h (snd (List_connections cd iv uid h))"
    by (cases "exec (sql_value (\<lambda>s. sort_key ig_Provider (filter (\<lambda>g. ig_Owner g = uid) (t_integrations s)))) h")
      (auto simp: List_connections_def db_do_def attempt_def bindE_def sql_value_def split: sum.split prod.split
        dest: exec_error_same elim!: exec_InrE)
  have snd_attempt: "snd (attempt m (\<lambda>e. ret (f e)) (\<lambda>a. ret (g a)) h) = snd (m h)"
    for m :: "('a hub, int_err, 'b) sm" and f :: "int_err \<Rightarrow> nat \<times> int_body" and g
    by (simp add: attempt_def split: prod.split sum.split)
  show "only_connection uid p h (snd (int_handler cd iv decode rnd uid p verb x h)) \<or> same_data h (snd (int_handler cd iv decode rnd uid p verb x h))"
    by (simp add: int_handler_def Let_def snd_attempt list Save_only Delete_only split: sum.split)
qed

lemma acts_apart:
  assumes "acts d uid x y" and "uniq_ok (sw_Hub (fst x))" and no: "\<forall>u\<in>set (t_users (sw_Hub (fst x))). u_ID u = uid \<longrightarrow> \<not> isAdmin u"
  shows "apart_world uid (fst x) (fst y) \<and> (\<forall>j\<in>set (snd y). c_ID (job_vm j) \<notin> theirs uid (sw_Hub (fst x)))"
  using assms(1) assms(2,3)
proof (induction rule: acts.induct)
  case (start w)
  then show ?case by (simp add: apart_start)
next
  case (api x w js r rt rest)
  let ?s = "gateway.truncate (sw_Hub w)"
  have w: "apart_world uid (fst x) w" using api by simp
  then have t: "tenant uid (sw_Hub (fst x)) {} (sw_Hub w)" by (simp add: apart_world_def)
  obtain a g where m: "serve_api (dh_Api d) rest r ?s = (a, g)" by fastforce
  have "u_ID u = uid \<and> u_Role u \<noteq> ''admin''" if "signed_in ?s r u" for u
  proof -
    have "signed_in (sw_Hub w) r u" using that by (simp only: signed_in_hub)
    then have u: "u \<in> set (t_users (sw_Hub w))" "u_ID u = uid" using api.hyps(2) by (simp_all add: signed_in_def)
    with still_no_admin [OF t api.prems(2) u] show ?thesis by (simp add: isAdmin_def)
  qed
  then have "tenant uid (sw_Hub (fst x)) {} (snd (serve_api (dh_Api d) rest r ?s))"
    using t by (intro tenant_api [OF _ _ api.hyps(3)]) (simp_all add: tenant_hub)
  then show ?case using api apart_gateway_at [where m = "serve_api (dh_Api d) rest r", OF w m] by (simp add: m)
next
  case (connections x w js rnd p verb text')
  then have "apart_world uid (fst x) w" by simp
  from keepsD [OF apart_handler this] connections show ?case by simp
next
  case (dashboard x w js q rt' a v)
  have "apart_world uid (fst x) w" using dashboard by simp
  from dash_request_apart [OF this dashboard.prems(2) dashboard.hyps(2-6)] dashboard show ?case by auto
next
  case (job x w js j)
  then have "keeps (apart_world uid (fst x)) (on_gateway (run_job d j))" by (intro apart_on_gateway tenant_job) simp
  then show ?case using job keepsD by (auto dest: notin_set_remove1)
next
  case (ssh x w js se i lines)
  then show ?case using session_apart [of uid "fst x" w se "dh_Ssh d" i lines] by simp
next
  case (outside x w js v)
  then have w: "apart_world uid (fst x) w" by simp
  have "tenant uid (sw_Hub (fst x)) {} (sw_Hub v) = tenant uid (sw_Hub (fst x)) {} (sw_Hub w)"
    using outside.hyps(2) by (intro tenant_tables) (simp_all add: only_outside_def Let_def)
  then show ?case using outside w by (simp add: apart_world_def only_outside_def Let_def)
qed

text \<open>C5: however an account that is no administrator uses the gateway, through any number of API and dashboard requests with its
  session (those for its connections to external services included), SSH sessions, and the jobs they leave, whatever is sent and in
  whatever order it is handled, and whatever the runtime, DNS, the clock and the engine do in between, of the other accounts
  stay as they were: their accounts, their VMs with the share links, the guests and the verified domains of these, their LLM
  keys, SSH keys and connections.  No claim on a hostname is made for one of their VMs, but one of theirs that is not verified may
  go: verifying the same hostname for one's own VM removes it.  Nobody's session begins or ends, and the settings, the update and
  its check are untouched.  The requests left out are signing in and out, inviting a member, which may make a guest's account,
  and polling the list, which stores missing addresses of VMs the account can use.\<close>

theorem account_isolated:
  assumes "acts d uid (w, []) (v, jobs)" and "uniq_ok (sw_Hub w)" and "\<forall>u\<in>set (t_users (sw_Hub w)). u_ID u = uid \<longrightarrow> \<not> isAdmin u"
  shows "others_kept uid (sw_Hub w) (sw_Hub v)
    \<and> filter (\<lambda>g. ig_Owner g \<noteq> uid) (t_integrations (sw_Hub v)) = filter (\<lambda>g. ig_Owner g \<noteq> uid) (t_integrations (sw_Hub w))
    \<and> sw_Host v = sw_Host w \<and> sw_Checker v = sw_Checker w"
  using acts_apart [OF assms(1)] assms(2,3) by (simp add: apart_world_def tenant_def)

section \<open>An instance\<close>

text \<open>Two accounts; the first removes its SSH key in the dashboard, then renames its VM over SSH.\<close>

definition demo_both :: "unit ssh_world" where
  "demo_both = demo_two\<lparr>sw_Hub := (sw_Hub demo_two)\<lparr>t_sessions := t_sessions demo_gw, t_sshkeys := [demo_sshkey ''k1'' ''u1'', demo_sshkey ''k2'' ''u2'']\<rparr>\<rparr>"

lemma demo_unclick:
  "\<exists>v. serve_dashboard demo_dash (demo_click ''DELETE'' ''/dashboard/ssh-keys/k1'' (\<lambda>_. [])) demo_both
      = (Inr \<lparr>da_Status = 200, da_Location = None, da_Body = Nothing_shown, da_Job = None\<rparr>, v)
    \<and> map k_ID (t_sshkeys (sw_Hub v)) = [''k2'']"
proof -
  have rt: "dash_route ''DELETE'' ''/dashboard/ssh-keys/k1'' = Some (Dash_delete_ssh ''k1'')" by code_simp
  let ?q = "demo_click ''DELETE'' ''/dashboard/ssh-keys/k1'' (\<lambda>_. [])"
  have q: "ar_Method (dq_Api ?q) = ''DELETE''" "ar_Path (dq_Api ?q) = ''/dashboard/ssh-keys/k1''" "ar_Session (dq_Api ?q) = Some ''tok''"
    by (simp_all add: demo_click_def demo_ask_def)
  have a: "on_gateway (authenticate (dq_Api ?q)) demo_both = (Inr (Some (demo_user ''u1'' ''user'')), demo_both)"
    by (simp add: on_gateway_def Let_def authenticate_def q demo_both_def demo_two_def demo_world_def demo_hub_def demo_gw_def gateway.defs hub.defs
        GetSession_def GetUserByID_def run_defs demo_user_def cascade_connections_def)
  have role: "u_Role (demo_user ''u1'' ''user'') \<noteq> GuestRole" by (simp add: demo_user_def GuestRole_def)
  have "\<exists>v. on_gateway (dash_deleteSSHKey (Some (demo_user ''u1'' ''user'')) ''k1'') demo_both
      = (Inr \<lparr>da_Status = 200, da_Location = None, da_Body = Nothing_shown, da_Job = None\<rparr>, v)
    \<and> map k_ID (t_sshkeys (sw_Hub v)) = [''k2'']"
    by (simp add: on_gateway_def Let_def dash_deleteSSHKey_def DeleteSSHKey_def shows_page_def demo_both_def demo_two_def demo_world_def demo_hub_def
        demo_gw_def gateway.defs hub.defs run_defs demo_user_def demo_sshkey_def cascade_connections_def)
  then show ?thesis
    unfolding serve_dashboard_def q rt option.case dash_auth_def Let_def dash_serve.simps
    by (simp only: attempt_def bindE_def a prod.case sum.case option.case role simp_thms if_False ret_def) (elim exE conjE, simp)
qed

theorem account_isolated_witness:
  "\<exists>w. serve_dashboard demo_dash (demo_click ''DELETE'' ''/dashboard/ssh-keys/k1'' (\<lambda>_. [])) demo_both
      = (Inr \<lparr>da_Status = 200, da_Location = None, da_Body = Nothing_shown, da_Job = None\<rparr>, w)
    \<and> map k_ID (t_sshkeys (sw_Hub w)) = [''k2'']
    \<and> others_kept ''u1'' (sw_Hub demo_both)
          (sw_Hub (snd (handleSession (dh_Ssh demo_dash) demo_session demo_typed [(''rename web site'', demo_typed)] w)))"
proof -
  let ?q = "demo_click ''DELETE'' ''/dashboard/ssh-keys/k1'' (\<lambda>_. [])"
  obtain w where w: "serve_dashboard demo_dash ?q demo_both
      = (Inr \<lparr>da_Status = 200, da_Location = None, da_Body = Nothing_shown, da_Job = None\<rparr>, w)"
    and k: "map k_ID (t_sshkeys (sw_Hub w)) = [''k2'']" using demo_unclick by (elim exE conjE)
  have rt: "dash_route (ar_Method (dq_Api ?q)) (ar_Path (dq_Api ?q)) = Some (Dash_delete_ssh ''k1'')"
    unfolding demo_click_def demo_ask_def by code_simp
  have s: "\<forall>u. signed_in (sw_Hub demo_both) (dq_Api ?q) u \<longrightarrow> u_ID u = ''u1''"
    by (simp add: signed_in_def live_session_def demo_click_def demo_ask_def demo_both_def demo_two_def demo_world_def demo_hub_def demo_gw_def)
  have "\<not> invites (Dash_delete_ssh ''k1'')" "Dash_delete_ssh ''k1'' \<noteq> Dash_list" by (simp_all add: invites_def)
  with acts.dashboard [OF acts.start s rt _ _ w] have "acts demo_dash ''u1'' (demo_both, []) (w, [])"
    by (simp add: left_job_def)
  from acts.ssh [OF this, of demo_session demo_typed "[(''rename web site'', demo_typed)]"]
  have a: "acts demo_dash ''u1'' (demo_both, []) (snd (handleSession (dh_Ssh demo_dash) demo_session demo_typed [(''rename web site'', demo_typed)] w), [])"
    by (simp add: demo_session_def demo_user_def)
  have u: "uniq_ok (sw_Hub demo_both)"
    by (simp add: demo_both_def demo_two_def demo_world_def demo_hub_def demo_gw_def uniq_ok_def uq_defs demo_user_def demo_vm_def demo_sshkey_def)
  have n: "\<forall>u\<in>set (t_users (sw_Hub demo_both)). u_ID u = ''u1'' \<longrightarrow> \<not> isAdmin u"
    by (simp add: demo_both_def demo_two_def demo_world_def demo_hub_def demo_user_def isAdmin_def)
  have "others_kept ''u1'' (sw_Hub demo_both)
      (sw_Hub (snd (handleSession (dh_Ssh demo_dash) demo_session demo_typed [(''rename web site'', demo_typed)] w)))"
    using account_isolated [OF a u n] by (elim conjE)
  then show ?thesis using w k by (intro exI conjI)
qed

end
