(* ===== verification/Dash_Addresses.thy ===== *)
theory Dash_Addresses
  imports Dash_Steps
begin

text \<open>
  What polling the list of VMs writes: the addresses of running VMs that had none, of those the account may use, and nothing
  else, whatever the runtime answers.
\<close>

section \<open>The rows that may change\<close>

definition given_address :: "string \<Rightarrow> 'y store_scheme \<Rightarrow> container \<Rightarrow> container \<Rightarrow> bool" where
  "given_address uid s0 c c' \<longleftrightarrow> c' = c
     \<or> c_Status c = ''running'' \<and> c_IPAddress c = [] \<and> (c_OwnerID c = uid \<or> has_grant s0 (c_ID c) uid)
       \<and> (\<exists>ip now. c' = c\<lparr>c_IPAddress := ip, c_UpdatedAt := now\<rparr>)"

definition addressed :: "string \<Rightarrow> 'y store_scheme \<Rightarrow> 'z store_scheme \<Rightarrow> bool" where
  "addressed uid s0 s \<longleftrightarrow> t_users s = t_users s0 \<and> t_sessions s = t_sessions s0 \<and> t_aliases s = t_aliases s0 \<and> t_keys s = t_keys s0
     \<and> t_links s = t_links s0 \<and> t_settings s = t_settings s0 \<and> t_sshkeys s = t_sshkeys s0 \<and> t_access s = t_access s0
     \<and> list_all2 (given_address uid s0) (t_containers s0) (t_containers s)"

lemma given_address_id: "given_address uid s0 c c' \<Longrightarrow> c_ID c' = c_ID c"
  by (auto simp: given_address_def)

lemma given_address_refl: "given_address uid s0 c c"
  by (simp add: given_address_def)

text \<open>An address given again, with the status the row has.\<close>

lemma given_address_again:
  assumes "given_address uid s0 d y" and "c_Status d = ''running''" and "c_IPAddress d = []" and "c_OwnerID d = uid \<or> has_grant s0 (c_ID d) uid"
  shows "given_address uid s0 d (y\<lparr>c_Status := ''running'', c_IPAddress := ip, c_UpdatedAt := now\<rparr>)"
proof -
  have same: "d\<lparr>c_Status := ''running'', c_IPAddress := ip, c_UpdatedAt := now\<rparr> = d\<lparr>c_IPAddress := ip, c_UpdatedAt := now\<rparr>"
    using assms(2) by (cases d) simp
  from assms(1) consider "y = d" | ip' now' where "y = d\<lparr>c_IPAddress := ip', c_UpdatedAt := now'\<rparr>" unfolding given_address_def by blast
  then have "y\<lparr>c_Status := ''running'', c_IPAddress := ip, c_UpdatedAt := now\<rparr> = d\<lparr>c_IPAddress := ip, c_UpdatedAt := now\<rparr>"
    by cases (use same in simp_all)
  then show ?thesis using assms(2-4) unfolding given_address_def by blast
qed

interpretation addressed: store_inv "addressed uid s0"
  by unfold_locales (simp add: addressed_def)

lemmas addressed_rules [keeps_rules] = addressed.keeps_query addressed.keeps_in_tx

lemma addressed_runtime [keeps_rules]: "keeps (addressed uid s0) (rt_call m)"
  by (rule keepsI) (simp add: rt_call_def addressed_def split: prod.split)

lemma addressed_start: "same_data s0 s \<Longrightarrow> addressed uid s0 s"
  by (auto simp: addressed_def intro!: list.rel_refl given_address_refl elim!: same_dataE)

text \<open>The row that was read is the one that is written.\<close>

lemma addressed_status:
  assumes "uq_containers (t_containers s0)" and "c \<in> set (accessible s0 uid)" and "c_Status c = ''running''" and "c_IPAddress c = []"
  shows "keeps (addressed uid s0) (UpdateContainerStatus (c_ID c) ''running'' ip :: ('z, unit) dbm)"
proof -
  obtain d where d: "d \<in> set (t_containers s0)" "c_ID d = c_ID c" "c_Status d = ''running''" "c_IPAddress d = []"
    "c_OwnerID d = uid \<or> has_grant s0 (c_ID d) uid"
    using assms(2-4) by (auto simp: in_accessible scanContainer_def)
  have row: "given_address uid s0 x (if c_ID y = c_ID c then y\<lparr>c_Status := ''running'', c_IPAddress := ip, c_UpdatedAt := now\<rparr> else y)"
    if x: "x \<in> set (t_containers s0)" and r: "given_address uid s0 x y" for x y now
  proof (cases "c_ID y = c_ID c")
    case True
    with given_address_id [OF r] d x assms(1) have "x = d" by (metis distinct_map_eqD uq_containers_def)
    with d r True show ?thesis by (simp add: given_address_again)
  qed (use r in simp)
  have "keeps (addressed uid s0) (exec (sql_update t_containers t_containers_update uq_containers (\<lambda>r. c_ID r = c_ID c)
      (\<lambda>r. (r\<lparr>c_Status := ''running'', c_IPAddress := ip\<rparr>)\<lparr>c_UpdatedAt := now\<rparr>)) :: ('z, nat) dbm)" for now
  proof (rule addressed.keeps_exec)
    fix s t :: "'z store_scheme" and n
    assume s: "addressed uid s0 s" and r: "sql_update t_containers t_containers_update uq_containers (\<lambda>r. c_ID r = c_ID c)
      (\<lambda>r. (r\<lparr>c_Status := ''running'', c_IPAddress := ip\<rparr>)\<lparr>c_UpdatedAt := now\<rparr>) s = Inr (n, t)"
    let ?f = "\<lambda>y. if c_ID y = c_ID c then y\<lparr>c_Status := ''running'', c_IPAddress := ip, c_UpdatedAt := now\<rparr> else y"
    have t: "t = s\<lparr>t_containers := map ?f (t_containers s)\<rparr>" using r by (auto simp: sql_update_def Let_def split: if_splits)
    have "list_all2 (given_address uid s0) (t_containers s0) (map ?f (t_containers s))"
      unfolding list_all2_map2 by (rule list.rel_mono_strong [where R = "given_address uid s0"]) (use s row in \<open>simp_all add: addressed_def\<close>)
    then show "addressed uid s0 t" using s unfolding addressed_def t by simp
  qed
  then show ?thesis unfolding UpdateContainerStatus_def update_container_def by (intro keeps_rules)
qed

section \<open>The list\<close>

lemma addressed_backfill:
  assumes "uq_containers (t_containers s0)"
  shows "set cs \<subseteq> set (accessible s0 uid) \<Longrightarrow> keeps (addressed uid s0) (backfill d cs)"
proof (induction cs)
  case Nil
  then show ?case unfolding backfill.simps by (intro keeps_rules)
next
  case (Cons c cs)
  show ?case unfolding backfill.simps using Cons
    by (intro keeps_rules) (auto intro!: addressed_status [OF assms])
qed

text \<open>Whoever polls the list: only missing addresses of running VMs that the account may use are filled in.\<close>

lemma list_stores_addresses:
  assumes "uniq_ok s"
  shows "addressed (u_ID u) s (snd (getVMList d (Some u) s))"
proof -
  let ?J = "addressed (u_ID u) s"
  have parts: "keeps ?J (AttachAliases cs)" "keeps ?J (AttachNestingPolicy cs)" "keeps ?J (fragmentData d who)" "keeps ?J (navCounts who)" for cs who
    unfolding AttachAliases_def AttachNestingPolicy_def fragmentData_def navCounts_def NestingAllowed_def GetSetting_def
      ListAccessibleContainers_def ListAPIKeysByOwner_def ListSSHKeysByUser_def by (intro keeps_rules)+
  have "hoare (same_data s) (getVMList d (Some u)) (\<lambda>_. ?J) (\<lambda>_. ?J)"
    unfolding getVMList_def option.case case_prod_unfold
  proof (rule look_attempt [OF look_accessible])
    fix cs assume cs: "cs = accessible s (u_ID u)"
    have "keeps ?J (backfill d cs)" using assms cs by (intro addressed_backfill) (simp_all add: uniq_ok_def)
    then have "keeps ?J (bindE (backfill d cs) (\<lambda>cs. bindE (AttachAliases cs) (\<lambda>p1. bindE (AttachNestingPolicy (fst p1)) (\<lambda>p2.
        bindE (fragmentData d (Some u)) (\<lambda>data. bindE (if fst p2 = [] then navCounts (Some u) else ret (td_Nav data)) (\<lambda>n.
        shows_page (Vm_rows (data\<lparr>td_Containers := fst p2, td_Nav := n\<rparr>))))))))" (is "keeps _ ?m")
      by (intro keeps_rules parts)
    then show "hoare (same_data s) ?m (\<lambda>_. ?J) (\<lambda>_. ?J)"
      unfolding keeps_hoare by (rule hoare_conseq) (simp_all add: addressed_start)
  qed (simp add: dash_text_def hoare_ret addressed_start)
  then show ?thesis by (rule hoare_snd) simp
qed

end
