(* ===== verification/Ssh_Editor.thy ===== *)
theory Ssh_Editor
  imports Go_Strings
begin

text \<open>
  Reading a command line from an SSH session: \<^verbatim>\<open>lineEditor\<close> of \<^verbatim>\<open>src/internal/sshgw/menu.go\<close>.

  A client without a terminal is read in chunks; one with a terminal is read byte by byte, edited and echoed.  What is echoed
  is a list of terminal operations, each one of the byte sequences the code writes; \<open>term_bytes\<close> gives the bytes.
\<close>

definition maxLineLen :: nat where "maxLineLen = 8192"
definition maxHistory :: nat where "maxHistory = 200"
definition newline_char :: char where "newline_char = CHR 0x0A"

definition remember_line :: "string list \<Rightarrow> string \<Rightarrow> string list" where
  "remember_line h line = (if line = [] then h else if length h = maxHistory then tl h @ [line] else h @ [line])"

section \<open>Without a terminal\<close>

datatype line_read = Line string | TooLong | Ended

text \<open>The bytes read past the last newline, and what the next reads return.\<close>

fun readPlain :: "string \<Rightarrow> string list \<Rightarrow> line_read \<times> string \<times> string list" where
  "readPlain pending [] =
     (case Cut pending newline_char of
        Some (line, rest) \<Rightarrow> (Line (TrimSpace line), rest, [])
      | None \<Rightarrow>
          if length pending > maxLineLen then (TooLong, pending, [])
          else if TrimSpace pending \<noteq> [] then (Line (TrimSpace pending), [], []) else (Ended, pending, []))"
| "readPlain pending (chunk # chunks) =
     (case Cut pending newline_char of
        Some (line, rest) \<Rightarrow> (Line (TrimSpace line), rest, chunk # chunks)
      | None \<Rightarrow>
          if length pending > maxLineLen then (TooLong, pending, chunk # chunks)
          else readPlain (pending @ chunk) chunks)"

section \<open>With a terminal\<close>

datatype key_mode = Typing | Escape | Bracket | Tilde

record editor =
  ed_Buf :: string
  ed_Pos :: nat
  ed_Idx :: nat
  ed_Saved :: string
  ed_Mode :: key_mode

datatype term_op = Put string | CursorLeft nat | CursorRight nat | EraseEnd | NewLine

definition decimal :: "nat \<Rightarrow> string" where
  "decimal n = (if n < 10 then [char_of (48 + n)] else if n < 100 then [char_of (48 + n div 10), char_of (48 + n mod 10)]
     else if n < 1000 then [char_of (48 + n div 100), char_of (48 + n div 10 mod 10), char_of (48 + n mod 10)]
     else [char_of (48 + n div 1000), char_of (48 + n div 100 mod 10), char_of (48 + n div 10 mod 10), char_of (48 + n mod 10)])"

text \<open>One column is moved by the short form where the code writes it so; both mean the same.\<close>

fun term_bytes :: "term_op \<Rightarrow> string" where
  "term_bytes (Put s) = s"
| "term_bytes (CursorLeft n) = [CHR 0x1B, CHR ''[''] @ decimal n @ ''D''"
| "term_bytes (CursorRight n) = [CHR 0x1B, CHR ''[''] @ decimal n @ ''C''"
| "term_bytes EraseEnd = [CHR 0x1B] @ ''[K''"
| "term_bytes NewLine = [CHR 0x0D, CHR 0x0A]"

definition left_of :: "nat \<Rightarrow> term_op list" where
  "left_of n = (if n > 0 then [CursorLeft n] else [])"

text \<open>\<open>redraw\<close> and \<open>setLine\<close>\<close>

definition redraw :: "string \<Rightarrow> nat \<Rightarrow> term_op list" where
  "redraw buf pos = left_of pos @ [Put buf, EraseEnd] @ left_of (length buf - pos)"

definition setLine :: "editor \<Rightarrow> string \<Rightarrow> editor \<times> term_op list" where
  "setLine e line = (e\<lparr>ed_Buf := line, ed_Pos := length line\<rparr>, left_of (ed_Pos e) @ [Put line, EraseEnd])"

text \<open>What a byte does: the editing goes on, the line is finished (and remembered or not), or it is too long.\<close>

datatype key_result = Editing editor "term_op list" | Finished string bool "term_op list" | Overlong

definition del_at :: "string \<Rightarrow> nat \<Rightarrow> string" where
  "del_at s i = take i s @ drop (Suc i) s"

definition escape_key :: "string list \<Rightarrow> editor \<Rightarrow> char \<Rightarrow> editor \<times> term_op list" where
  "escape_key h e0 ch =
     (let e = e0\<lparr>ed_Mode := Typing\<rparr>; buf = ed_Buf e0; pos = ed_Pos e0; i = ed_Idx e0; saved = ed_Saved e0 in
      if ch = CHR ''A'' then
        (if i > 0
         then setLine (e\<lparr>ed_Saved := (if i = length h then buf else saved), ed_Idx := i - 1\<rparr>) (h ! (i - 1))
         else (e, []))
      else if ch = CHR ''B'' then
        (if i < length h
         then setLine (e\<lparr>ed_Idx := i + 1\<rparr>) (if i + 1 = length h then saved else h ! (i + 1))
         else (e, []))
      else if ch = CHR ''C'' then (if pos < length buf then (e\<lparr>ed_Pos := pos + 1\<rparr>, [CursorRight 1]) else (e, []))
      else if ch = CHR ''D'' then (if pos > 0 then (e\<lparr>ed_Pos := pos - 1\<rparr>, [CursorLeft 1]) else (e, []))
      else if ch = CHR ''H'' then (e\<lparr>ed_Pos := 0\<rparr>, left_of pos)
      else if ch = CHR ''F'' then (e\<lparr>ed_Pos := length buf\<rparr>, if pos < length buf then [CursorRight (length buf - pos)] else [])
      else if ch = CHR ''3'' then (e\<lparr>ed_Mode := Tilde\<rparr>, [])
      else (e, []))"

definition typing_key :: "editor \<Rightarrow> char \<Rightarrow> key_result" where
  "typing_key e ch =
     (let buf = ed_Buf e; pos = ed_Pos e in
      if ch = CHR 0x0D \<or> ch = CHR 0x0A then Finished (TrimSpace buf) True [NewLine]
      else if ch = CHR 0x7F \<or> ch = CHR 0x08 then
        (if pos > 0
         then let buf' = del_at buf (pos - 1) in
           Editing (e\<lparr>ed_Buf := buf', ed_Pos := pos - 1\<rparr>) (CursorLeft 1 # redraw buf' (pos - 1))
         else Editing e [])
      else if ch = CHR 0x03 then Finished [] False [Put ''^C'', NewLine]
      else if ch = CHR 0x04 then (if buf = [] then Finished ''exit'' False [NewLine] else Editing e [])
      else if ch = CHR 0x01 then Editing (e\<lparr>ed_Pos := 0\<rparr>) (left_of pos)
      else if ch = CHR 0x05 then
        Editing (e\<lparr>ed_Pos := length buf\<rparr>) (if pos < length buf then [CursorRight (length buf - pos)] else [])
      else if ch = CHR 0x15 then
        (if length buf > 0 then Editing (e\<lparr>ed_Buf := [], ed_Pos := 0\<rparr>) (left_of pos @ [EraseEnd]) else Editing e [])
      else if ch = CHR 0x1B then Editing (e\<lparr>ed_Mode := Escape\<rparr>) []
      else if 32 \<le> byte ch \<and> byte ch < 127 then
        (if length buf \<ge> maxLineLen then Overlong
         else
           let buf' = take pos buf @ ch # drop pos buf; e' = e\<lparr>ed_Buf := buf', ed_Pos := pos + 1\<rparr> in
           if pos = length buf then Editing e' [Put [ch]]
           else Editing e' [Put (drop pos buf'), CursorLeft (length buf' - (pos + 1))])
      else Editing e [])"

definition ed_key :: "string list \<Rightarrow> editor \<Rightarrow> char \<Rightarrow> key_result" where
  "ed_key h e ch =
     (case ed_Mode e of
        Typing \<Rightarrow> typing_key e ch
      | Escape \<Rightarrow> Editing (e\<lparr>ed_Mode := (if ch = CHR ''['' then Bracket else Typing)\<rparr>) []
      | Bracket \<Rightarrow> (case escape_key h e ch of (e', ops) \<Rightarrow> Editing e' ops)
      | Tilde \<Rightarrow>
          let e' = e\<lparr>ed_Mode := Typing\<rparr> in
          if ch = CHR ''~'' \<and> ed_Pos e < length (ed_Buf e)
          then let buf' = del_at (ed_Buf e) (ed_Pos e) in Editing (e'\<lparr>ed_Buf := buf'\<rparr>) (redraw buf' (ed_Pos e))
          else Editing e' [])"

definition fresh_line :: "string list \<Rightarrow> editor" where
  "fresh_line h = \<lparr>ed_Buf = [], ed_Pos = 0, ed_Idx = length h, ed_Saved = [], ed_Mode = Typing\<rparr>"

section \<open>Chunks do not matter\<close>

text \<open>The lines of a session, read until it ends.\<close>

function read_all :: "string \<Rightarrow> string list \<Rightarrow> string list" where
  "read_all pending chunks =
     (case readPlain pending chunks of
        (Line l, pending', chunks') \<Rightarrow> l # read_all pending' chunks'
      | _ \<Rightarrow> [])"
  by pat_completeness auto

lemma Cut_length: "Cut s c = Some (a, b) \<Longrightarrow> length b < length s"
  by (induction s arbitrary: a) (auto split: if_splits)

lemma strip_length: "length (strip_seqs ws s) \<le> length s"
proof (induction ws s rule: strip_seqs.induct)
  case (1 ws s)
  then show ?case by (subst strip_seqs.simps) (fastforce split: option.split)
qed

lemma TrimSpace_length: "length (TrimSpace s) \<le> length s"
  unfolding TrimSpace_def using strip_length [of "map rev space_runes" "rev (strip_seqs space_runes s)"] strip_length [of space_runes s]
  by simp

lemma TrimSpace_nil: "TrimSpace [] = []"
  using TrimSpace_length [of "[]"] by simp

definition left_over :: "string \<Rightarrow> string list \<Rightarrow> nat" where
  "left_over pending chunks = length pending + length (concat chunks)"

lemma readPlain_less: "readPlain pending chunks = (Line l, pending', chunks') \<Longrightarrow> left_over pending' chunks' < left_over pending chunks"
proof (induction pending chunks rule: readPlain.induct)
  case (1 pending)
  then show ?case by (cases pending) (auto simp: left_over_def TrimSpace_nil split: option.splits if_splits dest!: Cut_length)
next
  case (2 pending chunk chunks)
  show ?case
  proof (cases "Cut pending newline_char")
    case None
    with 2(2) have n: "\<not> length pending > maxLineLen" and r: "readPlain (pending @ chunk) chunks = (Line l, pending', chunks')"
      by (auto split: if_splits)
    from 2(1) [OF None n r] show ?thesis by (simp add: left_over_def)
  next
    case (Some x)
    with 2(2) show ?thesis by (cases x) (auto simp: left_over_def dest!: Cut_length)
  qed
qed

termination read_all
  by (relation "measure (\<lambda>(pending, chunks). left_over pending chunks)") (auto dest!: sym [of "(Line _, _, _)"] readPlain_less)

declare read_all.simps [simp del]

text \<open>The lines of a text: those that a newline ends, and a last one that is not blank.\<close>

fun text_lines :: "string list \<Rightarrow> string list" where
  "text_lines [] = []"
| "text_lines [w] = (if TrimSpace w = [] then [] else [TrimSpace w])"
| "text_lines (w # v # ws) = TrimSpace w # text_lines (v # ws)"

lemma Split_Cut_None: "Cut s c = None \<Longrightarrow> Split s c = [s]"
  by (induction s) (auto split: if_splits)

lemma Cut_more: "Cut s c = Some (a, b) \<Longrightarrow> Cut (s @ x) c = Some (a, b @ x)"
  by (induction s arbitrary: a) (auto split: if_splits)

lemma Split_Cut_Some: "Cut s c = Some (a, b) \<Longrightarrow> Split s c = a # Split b c"
  by (induction s arbitrary: a) (auto split: if_splits)

lemma Split_first_prefix: "Cut s c = None \<Longrightarrow> length s \<le> length (hd (Split (s @ x) c))"
  by (induction s) (auto split: if_splits list.splits)

lemma text_lines_Cons: "ws \<noteq> [] \<Longrightarrow> text_lines (w # ws) = TrimSpace w # text_lines ws"
  by (cases ws) simp_all

lemma readPlain_text:
  "case readPlain pending chunks of
      (Line l, pending', chunks') \<Rightarrow>
        (Cut (pending @ concat chunks) newline_char = None \<and> l = TrimSpace (pending @ concat chunks) \<and> l \<noteq> [] \<and> pending' = [] \<and> chunks' = [])
        \<or> (\<exists>w rest. Cut (pending @ concat chunks) newline_char = Some (w, rest) \<and> l = TrimSpace w \<and> rest = pending' @ concat chunks')
    | (TooLong, _) \<Rightarrow> maxLineLen < length (hd (Split (pending @ concat chunks) newline_char))
    | (Ended, _) \<Rightarrow> Cut (pending @ concat chunks) newline_char = None \<and> TrimSpace (pending @ concat chunks) = []"
proof (induction pending chunks rule: readPlain.induct)
  case (1 pending)
  show ?case by (auto split: option.split dest: Split_Cut_None)
next
  case (2 pending chunk chunks)
  show ?case
  proof (cases "Cut pending newline_char")
    case None
    show ?thesis
    proof (cases "length pending > maxLineLen")
      case True
      then have "maxLineLen < length (hd (Split (pending @ concat (chunk # chunks)) newline_char))"
        using Split_first_prefix [OF None, of "concat (chunk # chunks)"] by linarith
      with None True show ?thesis by simp
    next
      case n: False
      have "readPlain pending (chunk # chunks) = readPlain (pending @ chunk) chunks" using None n by simp
      moreover have "pending @ concat (chunk # chunks) = (pending @ chunk) @ concat chunks" by simp
      ultimately show ?thesis using 2 [OF None n] by (simp only:)
    qed
  next
    case (Some x)
    obtain w rest where x: "x = (w, rest)" by (cases x)
    from Cut_more [OF Some [unfolded x]] show ?thesis using Some x by simp
  qed
qed

text \<open>The lines are read to the end, or up to one that is too long.\<close>

definition read_up_to :: "string list \<Rightarrow> string list \<Rightarrow> nat \<Rightarrow> bool" where
  "read_up_to got ws k \<longleftrightarrow> k < length ws \<and> maxLineLen < length (ws ! k) \<and> got = map TrimSpace (take k ws)"

text \<open>C39: a client without a terminal is understood by its lines alone: however the bytes it sends are cut into reads, its commands
  are the lines of the whole text, trimmed, a last line without its newline counted; or, where some line is longer than
  maxLineLen bytes, they may be the lines before such a line, at which the session ends.  No cut ever makes another command.\<close>

theorem read_all_lines:
  "read_all pending chunks = text_lines (Split (pending @ concat chunks) newline_char)
   \<or> (\<exists>k. read_up_to (read_all pending chunks) (Split (pending @ concat chunks) newline_char) k)"
proof (induction pending chunks rule: read_all.induct)
  case (1 pending chunks)
  let ?t = "pending @ concat chunks"
  note spec = readPlain_text [of pending chunks]
  obtain r pending' chunks' where r: "readPlain pending chunks = (r, pending', chunks')" by (metis surj_pair)
  show ?case
  proof (cases r)
    case (Line l)
    from spec r Line consider
        (last) "Cut ?t newline_char = None" "l = TrimSpace ?t" "l \<noteq> []" "pending' = []" "chunks' = []"
      | (next_line) w where "Cut ?t newline_char = Some (w, pending' @ concat chunks')" "l = TrimSpace w"
      by auto
    then show ?thesis
    proof cases
      case last
      have "read_all [] [] = []" by (subst read_all.simps) (simp add: TrimSpace_nil)
      with last r Line show ?thesis by (subst read_all.simps) (simp add: Split_Cut_None)
    next
      case next_line
      let ?rest = "Split (pending' @ concat chunks') newline_char"
      have s: "Split ?t newline_char = w # ?rest" using Split_Cut_Some [OF next_line(1)] by simp
      have l: "read_all pending chunks = TrimSpace w # read_all pending' chunks'"
        using r Line next_line(2) by (subst read_all.simps) simp
      from "1.IH" r Line have "read_all pending' chunks' = text_lines ?rest \<or> (\<exists>k. read_up_to (read_all pending' chunks') ?rest k)" by simp
      then show ?thesis
      proof
        assume "\<exists>k. read_up_to (read_all pending' chunks') ?rest k"
        then obtain k where "read_up_to (read_all pending' chunks') ?rest k" ..
        then have "read_up_to (read_all pending chunks) (Split ?t newline_char) (Suc k)" by (simp add: read_up_to_def l s)
        then show ?thesis by blast
      qed (simp add: l s text_lines_Cons)
    qed
  next
    case TooLong
    then have "read_up_to (read_all pending chunks) (Split ?t newline_char) 0"
      using spec r by (subst read_all.simps) (simp add: read_up_to_def hd_conv_nth)
    then show ?thesis by blast
  next
    case Ended
    with spec r show ?thesis by (subst read_all.simps) (simp add: Split_Cut_None)
  qed
qed

text \<open>What is buffered stays bounded, also for a client that never sends a newline.\<close>

lemma readPlain_bounded:
  "\<forall>c\<in>set chunks. length c \<le> n \<Longrightarrow> length pending \<le> maxLineLen + n \<Longrightarrow> readPlain pending chunks = (r, pending', chunks')
   \<Longrightarrow> length pending' \<le> maxLineLen + n"
proof (induction pending chunks rule: readPlain.induct)
  case (1 pending)
  then show ?case by (auto split: option.splits if_splits dest!: Cut_length)
next
  case (2 pending chunk chunks)
  show ?case
  proof (cases "Cut pending newline_char")
    case None
    show ?thesis
    proof (cases "length pending > maxLineLen")
      case False
      with None 2(4) have r: "readPlain (pending @ chunk) chunks = (r, pending', chunks')" by simp
      show ?thesis by (rule 2(1) [OF None False _ _ r]) (use 2(2) False in auto)
    qed (use None 2 in auto)
  next
    case (Some x)
    with 2(3,4) show ?thesis by (cases x) (auto dest!: Cut_length)
  qed
qed

section \<open>The screen shows the line\<close>

text \<open>The line of the terminal after the prompt, and the column of its cursor; a line is as long as it needs to be.\<close>

type_synonym screen = "string \<times> nat"

fun term_step :: "term_op \<Rightarrow> screen \<Rightarrow> screen" where
  "term_step (Put s) (cells, cur) = (take cur cells @ s @ drop (cur + length s) cells, cur + length s)"
| "term_step (CursorLeft n) (cells, cur) = (cells, cur - n)"
| "term_step (CursorRight n) (cells, cur) = (cells, cur + n)"
| "term_step EraseEnd (cells, cur) = (take cur cells, cur)"
| "term_step NewLine _ = ([], 0)"

definition shown :: "term_op list \<Rightarrow> screen \<Rightarrow> screen" where
  "shown ops sc = fold term_step ops sc"

definition editor_ok :: "string list \<Rightarrow> editor \<Rightarrow> bool" where
  "editor_ok h e \<longleftrightarrow> ed_Pos e \<le> length (ed_Buf e) \<and> length (ed_Buf e) \<le> maxLineLen \<and> length (ed_Saved e) \<le> maxLineLen
     \<and> ed_Idx e \<le> length h"

definition history_ok :: "string list \<Rightarrow> bool" where
  "history_ok h \<longleftrightarrow> length h \<le> maxHistory \<and> (\<forall>l\<in>set h. length l \<le> maxLineLen)"

definition line_shown :: "editor \<Rightarrow> screen" where
  "line_shown e = (ed_Buf e, ed_Pos e)"

lemma shown_append: "shown (a @ b) sc = shown b (shown a sc)"
  by (simp add: shown_def)

lemma shown_left: "pos \<le> cur \<Longrightarrow> shown (left_of pos) (cells, cur) = (cells, cur - pos)"
  by (simp add: shown_def left_of_def)

lemma shown_redraw: "pos \<le> length buf \<Longrightarrow> shown (redraw buf pos) (cells, pos) = (buf, pos)"
  by (auto simp: shown_def redraw_def left_of_def)

text \<open>An editing step, its operations run on a screen that shows the line before.\<close>

definition step_ok :: "string list \<Rightarrow> editor \<Rightarrow> editor \<times> term_op list \<Rightarrow> bool" where
  "step_ok h e x \<longleftrightarrow> editor_ok h (fst x) \<and> shown (snd x) (line_shown e) = line_shown (fst x)"

lemma step_setLine:
  assumes "editor_ok h e" and "ed_Buf e = ed_Buf e0" and "ed_Pos e = ed_Pos e0" and "length line \<le> maxLineLen"
  shows "step_ok h e0 (setLine e line)"
  using assms by (simp add: step_ok_def setLine_def editor_ok_def line_shown_def shown_append shown_left)
    (simp add: shown_def)

lemma step_same: "editor_ok h e' \<Longrightarrow> line_shown e' = line_shown e \<Longrightarrow> step_ok h e (e', [])"
  by (simp add: step_ok_def shown_def)

lemma step_left: "editor_ok h e \<Longrightarrow> n \<le> ed_Pos e \<Longrightarrow> step_ok h e (e\<lparr>ed_Mode := m, ed_Pos := ed_Pos e - n\<rparr>, left_of n)"
  by (auto simp: step_ok_def editor_ok_def line_shown_def shown_left)

lemma step_if: "(b \<Longrightarrow> step_ok h e x) \<Longrightarrow> (\<not> b \<Longrightarrow> step_ok h e y) \<Longrightarrow> step_ok h e (if b then x else y)"
  by simp

lemma nth_short: "history_ok h \<Longrightarrow> i < length h \<Longrightarrow> length (h ! i) \<le> maxLineLen"
  by (simp add: history_ok_def)

lemma escape_key_ok:
  assumes "editor_ok h e" and "history_ok h"
  shows "step_ok h e (escape_key h e ch)"
proof -
  let ?e = "e\<lparr>ed_Mode := Typing\<rparr>"
  have typing: "editor_ok h ?e" "line_shown ?e = line_shown e" using assms(1) by (simp_all add: editor_ok_def line_shown_def)
  have bounds: "ed_Pos e \<le> length (ed_Buf e)" "length (ed_Buf e) \<le> maxLineLen" "length (ed_Saved e) \<le> maxLineLen" "ed_Idx e \<le> length h"
    using assms(1) by (simp_all add: editor_ok_def)
  have up: "step_ok h e (setLine (?e\<lparr>ed_Saved := (if ed_Idx e = length h then ed_Buf e else ed_Saved e), ed_Idx := ed_Idx e - 1\<rparr>) (h ! (ed_Idx e - 1)))"
    if "0 < ed_Idx e"
    by (rule step_setLine) (use that bounds nth_short [OF assms(2)] in \<open>auto simp: editor_ok_def\<close>)
  have down: "step_ok h e (setLine (?e\<lparr>ed_Idx := ed_Idx e + 1\<rparr>) (if ed_Idx e + 1 = length h then ed_Saved e else h ! (ed_Idx e + 1)))"
    if "ed_Idx e < length h"
    by (rule step_setLine) (use that bounds nth_short [OF assms(2)] in \<open>auto simp: editor_ok_def\<close>)
  have right: "step_ok h e (?e\<lparr>ed_Pos := ed_Pos e + n\<rparr>, [CursorRight n])" if "ed_Pos e + n \<le> length (ed_Buf e)" for n
    using that bounds by (simp add: step_ok_def editor_ok_def line_shown_def shown_def)
  have left1: "step_ok h e (?e\<lparr>ed_Pos := ed_Pos e - 1\<rparr>, [CursorLeft 1])"
    using bounds by (simp add: step_ok_def editor_ok_def line_shown_def shown_def)
  have home: "step_ok h e (?e\<lparr>ed_Pos := 0\<rparr>, left_of (ed_Pos e))"
    using step_left [OF assms(1), of "ed_Pos e" Typing] by simp
  have endk: "step_ok h e (?e\<lparr>ed_Pos := length (ed_Buf e)\<rparr>, if ed_Pos e < length (ed_Buf e) then [CursorRight (length (ed_Buf e) - ed_Pos e)] else [])"
    using right [of "length (ed_Buf e) - ed_Pos e"] bounds by (auto intro!: step_same simp: editor_ok_def line_shown_def)
  have tilde: "step_ok h e (?e\<lparr>ed_Mode := Tilde\<rparr>, [])"
    by (rule step_same) (use bounds in \<open>simp_all add: editor_ok_def line_shown_def\<close>)
  show ?thesis
    unfolding escape_key_def Let_def
    by (intro step_if up down right left1 home endk tilde step_same [OF typing]; simp)
qed

lemma ed_delete_ok:
  assumes "editor_ok h e" and "i < length (ed_Buf e)" and "i \<le> ed_Pos e" and "shown pre (line_shown e) = (ed_Buf e, i)"
  shows "step_ok h e (e\<lparr>ed_Mode := m, ed_Buf := del_at (ed_Buf e) i, ed_Pos := i\<rparr>, pre @ redraw (del_at (ed_Buf e) i) i)"
  using assms shown_redraw [of i "del_at (ed_Buf e) i" "ed_Buf e"]
  by (auto simp: step_ok_def editor_ok_def line_shown_def shown_append del_at_def)

lemma ed_insert_ok:
  assumes "editor_ok h e" and "length (ed_Buf e) < maxLineLen" and "ed_Pos e < length (ed_Buf e)"
    and "buf = take (ed_Pos e) (ed_Buf e) @ ch # drop (ed_Pos e) (ed_Buf e)"
  shows "step_ok h e (e\<lparr>ed_Buf := buf, ed_Pos := ed_Pos e + 1\<rparr>, [Put (drop (ed_Pos e) buf), CursorLeft (length buf - (ed_Pos e + 1))])"
  using assms by (simp add: step_ok_def editor_ok_def line_shown_def shown_def)

definition key_ok :: "string list \<Rightarrow> editor \<Rightarrow> key_result \<Rightarrow> bool" where
  "key_ok h e r = (case r of Editing e' ops \<Rightarrow> step_ok h e (e', ops) | Finished line _ _ \<Rightarrow> length line \<le> maxLineLen | Overlong \<Rightarrow> True)"

lemma key_if: "(b \<Longrightarrow> key_ok h e x) \<Longrightarrow> (\<not> b \<Longrightarrow> key_ok h e y) \<Longrightarrow> key_ok h e (if b then x else y)"
  by simp

lemma key_edit: "step_ok h e (e', ops) \<Longrightarrow> key_ok h e (Editing e' ops)"
  by (simp add: key_ok_def)

lemma key_done: "length line \<le> maxLineLen \<Longrightarrow> key_ok h e (Finished line keep ops)"
  by (simp add: key_ok_def)

lemma key_long: "key_ok h e Overlong"
  by (simp add: key_ok_def)

lemma typing_key_ok:
  assumes "editor_ok h e" and "ed_Mode e = Typing"
  shows "key_ok h e (typing_key e ch)"
proof -
  have bounds: "ed_Pos e \<le> length (ed_Buf e)" "length (ed_Buf e) \<le> maxLineLen" using assms(1) by (simp_all add: editor_ok_def)
  have same: "step_ok h e (e, [])" by (rule step_same [OF assms(1) refl])
  have esc: "step_ok h e (e\<lparr>ed_Mode := Escape\<rparr>, [])"
    by (rule step_same) (use assms(1) in \<open>simp_all add: editor_ok_def line_shown_def\<close>)
  have trimmed: "length (TrimSpace (ed_Buf e)) \<le> maxLineLen" using TrimSpace_length bounds(2) le_trans by blast
  have bsp: "step_ok h e (e\<lparr>ed_Buf := del_at (ed_Buf e) (ed_Pos e - 1), ed_Pos := ed_Pos e - 1\<rparr>,
      CursorLeft 1 # redraw (del_at (ed_Buf e) (ed_Pos e - 1)) (ed_Pos e - 1))" if "0 < ed_Pos e"
  proof -
    have "shown [CursorLeft 1] (line_shown e) = (ed_Buf e, ed_Pos e - 1)" by (simp add: shown_def line_shown_def)
    from ed_delete_ok [OF assms(1) _ _ this, of "ed_Mode e"] that bounds show ?thesis by simp
  qed
  have home: "step_ok h e (e\<lparr>ed_Pos := 0\<rparr>, left_of (ed_Pos e))"
    using step_left [OF assms(1), of "ed_Pos e" "ed_Mode e"] by simp
  have endk: "step_ok h e (e\<lparr>ed_Pos := length (ed_Buf e)\<rparr>, if ed_Pos e < length (ed_Buf e) then [CursorRight (length (ed_Buf e) - ed_Pos e)] else [])"
    using assms(1) by (auto simp: step_ok_def editor_ok_def line_shown_def shown_def)
  have clear: "step_ok h e (e\<lparr>ed_Buf := [], ed_Pos := 0\<rparr>, left_of (ed_Pos e) @ [EraseEnd])"
    using assms(1) by (simp add: step_ok_def editor_ok_def line_shown_def shown_append shown_left) (simp add: shown_def)
  have app: "step_ok h e (e\<lparr>ed_Buf := take (ed_Pos e) (ed_Buf e) @ ch # drop (ed_Pos e) (ed_Buf e), ed_Pos := ed_Pos e + 1\<rparr>, [Put [ch]])"
    if "ed_Pos e = length (ed_Buf e)" "length (ed_Buf e) < maxLineLen"
    using assms(1) that by (simp add: step_ok_def editor_ok_def line_shown_def shown_def)
  have one: "length ''exit'' \<le> maxLineLen" by (simp add: maxLineLen_def)
  show ?thesis
    unfolding typing_key_def Let_def
    by (intro key_if key_edit key_done key_long same esc trimmed bsp home endk clear app ed_insert_ok [OF assms(1), OF _ _ refl] one;
      (use bounds in simp)?)
qed

lemma ed_key_ok:
  assumes "editor_ok h e" and "history_ok h"
  shows "key_ok h e (ed_key h e ch)"
proof (cases "ed_Mode e")
  case Typing
  with typing_key_ok [OF assms(1)] show ?thesis by (simp add: ed_key_def)
next
  case Escape
  have "step_ok h e (e\<lparr>ed_Mode := m\<rparr>, [])" for m
    by (rule step_same) (use assms(1) in \<open>simp_all add: editor_ok_def line_shown_def\<close>)
  with Escape show ?thesis by (simp add: ed_key_def key_edit)
next
  case Bracket
  with escape_key_ok [OF assms, of ch] show ?thesis by (cases "escape_key h e ch") (simp add: ed_key_def key_edit)
next
  case Tilde
  have keep: "step_ok h e (e\<lparr>ed_Mode := Typing\<rparr>, [])"
    by (rule step_same) (use assms(1) in \<open>simp_all add: editor_ok_def line_shown_def\<close>)
  have "shown [] (line_shown e) = (ed_Buf e, ed_Pos e)" by (simp add: shown_def line_shown_def)
  note del = ed_delete_ok [OF assms(1) _ order_refl this, of Typing]
  from Tilde keep del show ?thesis by (auto simp: ed_key_def Let_def intro!: key_edit)
qed

lemma remember_line_ok: "history_ok h \<Longrightarrow> length line \<le> maxLineLen \<Longrightarrow> history_ok (remember_line h line)"
  by (cases h) (auto simp: history_ok_def remember_line_def maxHistory_def)

lemma fresh_ok: "editor_ok h (fresh_line h)"
  by (simp add: editor_ok_def fresh_line_def)

text \<open>A session: the history, the line that is being typed and the screen; \<open>None\<close> when a line was too long and the session ended.\<close>

definition session_key :: "char \<Rightarrow> (string list \<times> editor \<times> screen) option \<Rightarrow> (string list \<times> editor \<times> screen) option" where
  "session_key ch st =
     (case st of None \<Rightarrow> None
      | Some (h, e, sc) \<Rightarrow>
          (case ed_key h e ch of
             Editing e' ops \<Rightarrow> Some (h, e', shown ops sc)
           | Finished line keep ops \<Rightarrow> let h' = (if keep then remember_line h line else h) in Some (h', fresh_line h', shown ops sc)
           | Overlong \<Rightarrow> None))"

lemma finished_newline: "ed_key h e ch = Finished line keep ops \<Longrightarrow> shown ops sc = ([], 0)"
  by (auto simp: ed_key_def typing_key_def shown_def Let_def split: key_mode.splits if_splits prod.splits)

text \<open>C27: whatever bytes a client with a terminal sends, over any number of lines, the screen shows the line that is being typed with
  the cursor at the place the next key acts on; the line never grows past its bound, the cursor and the place in the history
  stay inside, and no more than 200 lines are remembered.\<close>

theorem screen_shows_line:
  "case fold session_key keys (Some ([], fresh_line [], ([], 0))) of
     None \<Rightarrow> True
   | Some (h, e, sc) \<Rightarrow> sc = (ed_Buf e, ed_Pos e) \<and> ed_Pos e \<le> length (ed_Buf e) \<and> length (ed_Buf e) \<le> maxLineLen
       \<and> ed_Idx e \<le> length h \<and> length h \<le> maxHistory"
proof -
  define I where "I st = (case st of None \<Rightarrow> True | Some (h, e, sc) \<Rightarrow> sc = line_shown e \<and> editor_ok h e \<and> history_ok h)"
    for st :: "(string list \<times> editor \<times> screen) option"
  have step: "I (session_key ch st)" if "I st" for ch st
  proof (cases st)
    case (Some x)
    obtain h e sc where x: "x = (h, e, sc)" by (metis surj_pair)
    with that Some have i: "sc = line_shown e" "editor_ok h e" "history_ok h" by (simp_all add: I_def)
    note ok = ed_key_ok [OF i(2,3), of ch]
    show ?thesis
    proof (cases "ed_key h e ch")
      case (Editing e' ops)
      with ok i Some x show ?thesis by (simp add: session_key_def I_def step_ok_def key_ok_def)
    next
      case (Finished line keep ops)
      have "history_ok (if keep then remember_line h line else h)" using ok Finished i(3) remember_line_ok by (simp add: key_ok_def)
      with Finished finished_newline [OF Finished] Some x fresh_ok show ?thesis
        by (simp add: session_key_def I_def line_shown_def fresh_line_def Let_def)
    qed (use Some x in \<open>simp add: session_key_def I_def\<close>)
  qed (simp add: session_key_def I_def)
  have "I (fold session_key keys st)" if "I st" for st
    using that step by (induction keys arbitrary: st) simp_all
  moreover have "I (Some ([], fresh_line [], ([], 0)))"
    using fresh_ok [of "[]"] by (simp add: I_def line_shown_def fresh_line_def history_ok_def)
  ultimately have end_ok: "I (fold session_key keys (Some ([], fresh_line [], ([], 0))))" by blast
  show ?thesis
  proof (cases "fold session_key keys (Some ([], fresh_line [], ([], 0)))")
    case (Some x)
    obtain h e sc where "x = (h, e, sc)" by (metis surj_pair)
    with end_ok Some show ?thesis by (simp add: I_def line_shown_def editor_ok_def history_ok_def)
  qed simp
qed

text \<open>Two commands in three reads.\<close>

theorem read_all_lines_witness: "read_all [] [''l'', ''s'' @ newline_char # '' who'', ''ami''] = [''ls'', ''whoami'']"
proof -
  have t: "Split (''l'' @ ''s'' @ newline_char # '' who'' @ ''ami'') newline_char = [''ls'', '' whoami'']" by (simp add: newline_char_def)
  have l: "text_lines [''ls'', '' whoami''] = [''ls'', ''whoami'']" by code_simp
  show ?thesis using read_all_lines [of "[]" "[''l'', ''s'' @ newline_char # '' who'', ''ami'']"] t l
    by (auto simp: read_up_to_def maxLineLen_def less_Suc_eq)
qed

end
