(* ===== verification/Spec2Isabelle.thy ===== *)
theory Spec2Isabelle
  imports Rate_Limit Api_Recreate Metadata_Service LLM_Gateway Ssh_Tenants Api_Tenants Dash_Tenants Dash_Addresses Ssh_Editor
begin

text \<open>
  A verification development for svkexe, a gateway that gives accounts persistent Linux VMs with a coding agent in each.
  The model covers the gateway's own code, \<^verbatim>\<open>src/internal\<close> and \<^verbatim>\<open>src/cmd/gateway\<close>.

  \<^bold>\<open>How the program is put together.\<close>  Accounts, VMs, domains, shares and keys are rows of one SQLite database.
  Requests come in over HTTP (the JSON API, the dashboard, the proxy to the VMs' own sites, the LLM gateway), over SSH, and
  over a metadata listener that only VMs reach; each handler reads and writes rows, asks the container runtime (Incus) to
  act on a VM's instance, and sets up the agent inside it.  Loops in the background follow the agents' tasks, re-check the
  domains and reconcile the agents.

  \<^bold>\<open>Conventions\<close> (\<open>Prelude\<close>).  A function that reads and writes state and may fail is \<open>'s \<Rightarrow> ('e + 'a) \<times> 's\<close>, composed by
  \<open>bindE\<close>, \<open>attempt\<close> and \<open>catch\<close>; a failing one keeps the state it had reached.  Errors are constructors; a panic is the
  error \<open>ErrPanic\<close>.  Every statement of the database may fail: \<open>faults\<close> is the schedule of failures, arbitrary unless a
  theorem says otherwise (those that speak of a working database assume that no failure is due).  The clock is part of the state.  The container runtime is a record of operations on a state of its own, the
  resolver is one that may change, and cryptography, JSON, URL and key parsing and the HTTP peers are arguments; the laws a
  theorem needs of them are its hypotheses.  Integers that may wrap are wrapped explicitly (\<open>wrap64\<close>).

  \<^bold>\<open>The theories, in the order they build on each other.\<close>
  \<^item> \<open>Go_Strings\<close>, \<open>Go_Numbers\<close>: what the code uses of Go's string and number functions.
  \<^item> \<open>Sql_Store\<close>: rows, unique indexes, foreign keys, statements and transactions (\<^verbatim>\<open>schema.sql\<close>, \<^verbatim>\<open>db.go\<close>), with
    the locales \<open>table\<close> (a table's reads and writes) and \<open>store_inv\<close> (what statement by statement keeps an invariant).
    \<open>Accounts_Db\<close>, \<open>Containers_Db\<close>, \<open>Aliases_Db\<close>, \<open>Access_Db\<close>, \<open>Links_Db\<close>, \<open>Providers_Db\<close>: one theory for each group of
    files of \<^verbatim>\<open>internal/db\<close>; \<open>Lookups\<close>: what its read operations promise.
  \<^item> \<open>Dns_Check\<close>, \<open>Rate_Limit\<close>, \<open>Vm_Config\<close>, \<open>Alias_Manager\<close>: \<^verbatim>\<open>dnscheck\<close>, \<^verbatim>\<open>ratelimit\<close>, \<^verbatim>\<open>vmconfig\<close>,
    \<^verbatim>\<open>aliases\<close>.  \<open>Vm_Config\<close> has the gateway's state \<open>gateway\<close>: the store, the runtime's state, the resolver and the key
    files.  \<open>Alias_Manager\<close> states the DNS verifier as the locale \<open>dns_verifier\<close> and interprets it on \<open>Verify\<close> of \<open>Dns_Check\<close>.
  \<^item> \<open>Environment_Guide\<close>, \<open>Agent_Models\<close>, \<open>Secrets\<close>, \<open>Agent_Setup\<close>, \<open>Guest_Trace\<close>, \<open>Task_Monitor\<close>, \<open>Task_Delivery\<close>:
    the agent of a VM (\<^verbatim>\<open>picoclaw\<close>, \<^verbatim>\<open>secrets\<close>).  \<open>Guest_Trace\<close> logs every call to a runtime and proves on the log
    that the setup touches one VM only and stops an old agent only after the new one is verified (locales \<open>vm_confined\<close>,
    \<open>vm_files_confined\<close>).
  \<^item> \<open>Incus_Runtime\<close>: the runtime over the Incus client (\<^verbatim>\<open>runtime\<close>).
  \<^item> \<open>Api_Auth\<close>, \<open>Api_Vms\<close>, \<open>Api_Account\<close>: the handlers of \<^verbatim>\<open>internal/api\<close> and its routes; \<open>Api_Safety\<close>, who may do what;
    \<open>Api_Recreate\<close>, a defect of recreating a renamed VM.
  \<^item> \<open>Proxy_Routing\<close>: which VM and port a host name leads to, and on whose authority (\<^verbatim>\<open>proxy\<close>); \<open>Gateway_Http\<close>: the
    dispatch by host and the start (\<^verbatim>\<open>cmd/gateway\<close>).
  \<^item> \<open>Integrations\<close>, \<open>LLM_Gateway\<close>, \<open>Metadata_Token\<close>, \<open>Metadata_Resolver\<close>, \<open>Metadata_Service\<close>, \<open>Updater\<close>: \<^verbatim>\<open>integrations\<close>,
    \<^verbatim>\<open>llmproxy\<close>, \<^verbatim>\<open>metadata\<close>, \<^verbatim>\<open>updater\<close>.
  \<^item> \<open>Ssh_Line\<close>, \<open>Ssh_Editor\<close>, \<open>Ssh_Registry\<close>, \<open>Ssh_View\<close>, \<open>Ssh_Vm\<close>, \<open>Ssh_Config\<close>, \<open>Ssh_Account\<close>, \<open>Ssh_Gateway\<close>: the SSH gateway
    (\<^verbatim>\<open>sshgw\<close>), from the characters of a line to the sessions.
  \<^item> \<open>Dash_View\<close>, \<open>Dash_Vms\<close>, \<open>Dash_Account\<close>: the dashboard (\<^verbatim>\<open>dashboard\<close>), whose answer may leave a job that runs later;
    \<open>Dash_Safety\<close>, who may do what; \<open>Dash_Addresses\<close>, what polling its list writes.
  \<^item> \<open>Gateway_Steps\<close>, \<open>Ssh_Steps\<close>, \<open>Dash_Steps\<close>: the whole as a transition system.  A step is a request, an SSH session, a job,
    a round of a background loop, or a change of the outside world.
  \<^item> \<open>Tenants\<close>, \<open>Api_Tenants\<close>, \<open>Ssh_Tenants\<close>, \<open>Dash_Tenants\<close>: what one account can change of the others' data.

  \<^bold>\<open>What is shown.\<close>  Authorisation: a request of the API, the dashboard or the proxy that is not permitted changes nothing and
  gets nothing (\<open>api_authorised\<close>, \<open>dash_authorised\<close>, \<open>proxy_authorised\<close>), and the metadata and the LLM gateway answer a VM with
  its owner's data only.  The invariant of the stored data holds in every reachable state (\<open>service_sound\<close>).  Isolation: whatever
  an ordinary account does over the API, the dashboard and SSH, together with the jobs it leaves, keeps the rows of all others,
  except that a claim on a hostname that another has not verified goes when the account verifies it (\<open>account_isolated\<close>, which
  leaves out signing in and out, inviting and polling).  Refinement: deleting an account (with what cascades by foreign keys,
  \<open>DeleteUser_removes\<close>) or a VM removes exactly what its specification says or nothing.  Single components:
  exclusive verification of domains, one delivery of a task, the budget of resumes, the line editor against a screen,
  parsing and printing of lines (\<open>parseLine_sound\<close> says which words an action is read from), tokens and credentials, and the errors of each operation.  Where the code does not do what
  it means to, a theorem says what it does (\<open>recreate_renamed_loses_data\<close>, \<open>null_config_panics\<close>,
  \<open>DeleteUser_blocked_by_ssh_key\<close>, \<open>stale_view_any_age\<close>).

  \<^bold>\<open>Bounds.\<close>  Every loop of the model is a total function, by structural recursion or, for \<open>strip_seqs\<close> and \<open>read_all\<close>, by a measure.
  A loop that waits takes the number of rounds its deadline leaves, as
  an argument over which the theorems quantify, so no bound has to be large enough; the relay of the LLM gateway ends
  because its list of models is finite (\<open>relay_ends\<close>).

  \<^bold>\<open>Granularity.\<close>  A handler is one step of the transition system, so what is shown is shown for requests that are handled one
  after the other.  Its statements and transactions each keep the invariant by themselves, with one exception:
  \<open>CreateContainerAlias\<close> counts a VM's claims and inserts the new one in separate statements, and two requests that are handled
  at the same time may exceed the cap of claims per VM, which is part of the invariant.  The goroutines of the dashboard are jobs
  that run at any later time; the one of the API's recreate, which the source runs beside later requests, is run to its end
  before the next step.

  \<^bold>\<open>Not modelled.\<close>  The files of the database and the migration of old ones (\<^verbatim>\<open>db.Open\<close>, \<^verbatim>\<open>migrate\<close>: file handling and pragmas); HTML templates,
  help pages and other prose that is printed; the bytes of a proxied, streamed or interactive exchange, of which the model has
  the decision where it goes; listeners, signals, environment variables and host keys of the start; the guest-side scripts and the
  sockets of the metadata listener; the Prometheus counters of \<^verbatim>\<open>metrics\<close>.  \<^verbatim>\<open>agent/shelley\<close> is an upstream program kept in the
  repository: it runs inside the VMs, and the gateway only meets it through the files and the HTTP interface that the agent
  theories take as arguments.
\<close>

end
